(* ===== verification/Fg_Prelude.thy ===== *)
theory Fg_Prelude
  imports Complex_Main "HOL-Library.Word"
begin

text \<open>
  Shared vocabulary of the development: the named fact collections, the C++ exceptions the
  code can raise, bytes and characters, and the generic lemmas on lists and words that the
  component theories use.

  C++ \<open>double\<close> is modelled by \<^typ>\<open>real\<close> (no rounding, no NaN, no infinities), C++
  integers that only count or index by \<^typ>\<open>nat\<close>, signed counters by \<^typ>\<open>int\<close>, and
  bytes and hash words by fixed-width words.
\<close>

unbundle bit_operations_syntax

named_theorems fg_time \<open>unfolding rules of the timestamp operations\<close>
named_theorems fg_inv \<open>preservation of component invariants\<close>

type_synonym u8 = "8 word"
type_synonym u32 = "32 word"
type_synonym u64 = "64 word"

text \<open>Exceptions of the standard and the JSON library that the modelled code throws or lets through, and the failure
  of an \<^verbatim>\<open>eigen_assert\<close>, which aborts a build with assertions.\<close>

datatype cpp_exception =
    InvalidArgument string
  | OutOfRange string
  | RuntimeError string
  | LengthError
  | SystemError
  | BadVariantAccess
  | JsonError string
  | AssertionFailed

text \<open>Sequencing of fallible steps: the first exception wins.\<close>

definition bind_sum :: "'e + 'a \<Rightarrow> ('a \<Rightarrow> 'e + 'b) \<Rightarrow> 'e + 'b" where
  "bind_sum x f = (case x of Inl e \<Rightarrow> Inl e | Inr a \<Rightarrow> f a)"

lemma bind_sum_simps [simp]:
  "bind_sum (Inl e) f = Inl e"
  "bind_sum (Inr a) f = f a"
  by (simp_all add: bind_sum_def)

lemma bind_sum_Inr: "bind_sum x f = Inr b \<longleftrightarrow> (\<exists>a. x = Inr a \<and> f a = Inr b)"
  by (cases x) auto

subsection \<open>Lists\<close>

lemma takeWhile_dropWhile_split:
  "takeWhile P xs @ dropWhile P xs = xs"
  by (rule takeWhile_dropWhile_id)

lemma dropWhile_hd_False:
  "dropWhile P xs = y # ys \<Longrightarrow> \<not> P y"
  by (induction xs) (auto split: if_splits)

lemma sorted_wrt_insert_between:
  assumes "sorted_wrt r (xs @ ys)"
    and "\<And>x. x \<in> set xs \<Longrightarrow> r x m"
    and "\<And>y. y \<in> set ys \<Longrightarrow> r m y"
  shows "sorted_wrt r (xs @ m # ys)"
  using assms by (auto simp: sorted_wrt_append)

lemma sorted_wrt_tl: "sorted_wrt r xs \<Longrightarrow> sorted_wrt r (tl xs)"
  by (cases xs) auto

lemma set_tl_subset: "set (tl xs) \<subseteq> set xs"
  by (cases xs) auto

subsection \<open>Bytes and characters\<close>

definition byte_of_char :: "char \<Rightarrow> u8" where
  "byte_of_char c = of_nat (of_char c)"

definition char_of_byte :: "u8 \<Rightarrow> char" where
  "char_of_byte b = char_of (unat b)"

lemma char_of_byte_of_char [simp]: "char_of_byte (byte_of_char c) = c"
proof -
  have "of_char c < (256::nat)" by simp
  then have "unat (of_nat (of_char c) :: u8) = of_char c"
    by (simp add: unat_of_nat)
  then show ?thesis by (simp add: char_of_byte_def byte_of_char_def)
qed

lemma byte_of_char_of_byte [simp]: "byte_of_char (char_of_byte b) = b"
proof -
  have "unat b < 2 ^ LENGTH(8)" by (rule unsigned_less)
  then have "unat b < 256" by simp
  then show ?thesis by (simp add: char_of_byte_def byte_of_char_def)
qed

end
