(* ===== verification/Fg_Queue.thy ===== *)
theory Fg_Queue
  imports Fg_Prelude
begin

text \<open>
  The bounded multi-producer queue of
  \<^verbatim>\<open>src/estimation/include/falconguide/estimation/measurement_queue.hpp\<close>. Every method of
  the class runs under its mutex, so each is one atomic operation on the record. A call that
  would wait on the condition variable is \<^term>\<open>None\<close>: it is not enabled in that state.
\<close>

section \<open>State and operations\<close>

record 'm MeasurementQueue =
  capacity :: nat
  queue :: "'m list"
  shutdown :: bool

definition MeasurementQueue_new :: "nat \<Rightarrow> 'm MeasurementQueue" where
  "MeasurementQueue_new n = \<lparr>capacity = n, queue = [], shutdown = False\<rparr>"

definition Queue_Push :: "'m MeasurementQueue \<Rightarrow> 'm \<Rightarrow> bool \<times> 'm MeasurementQueue" where
  "Queue_Push q m =
     (if shutdown q \<or> length (queue q) \<ge> capacity q then (False, q)
      else (True, q\<lparr>queue := queue q @ [m]\<rparr>))"

definition Queue_Pop :: "'m MeasurementQueue \<Rightarrow> ('m option \<times> 'm MeasurementQueue) option" where
  "Queue_Pop q =
     (if queue q = [] \<and> \<not> shutdown q then None
      else (case queue q of
              [] \<Rightarrow> Some (None, q)
            | m # ms \<Rightarrow> Some (Some m, q\<lparr>queue := ms\<rparr>)))"

definition Queue_RequestShutdown :: "'m MeasurementQueue \<Rightarrow> 'm MeasurementQueue" where
  "Queue_RequestShutdown q = q\<lparr>shutdown := True\<rparr>"

definition Queue_Size :: "'m MeasurementQueue \<Rightarrow> nat" where
  "Queue_Size q = length (queue q)"

definition queue_ok :: "'m MeasurementQueue \<Rightarrow> bool" where
  "queue_ok q \<longleftrightarrow> length (queue q) \<le> capacity q"

section \<open>The channel interface\<close>

text \<open>
  What the pipeline relies on: an accepted element joins the back, elements leave from the
  front, the bound holds, and closing refuses further elements while those inside remain
  retrievable.
\<close>

locale channel =
  fixes elems :: "'q \<Rightarrow> 'm list"
    and bound :: "'q \<Rightarrow> nat"
    and closed :: "'q \<Rightarrow> bool"
    and push :: "'q \<Rightarrow> 'm \<Rightarrow> bool \<times> 'q"
    and pop :: "'q \<Rightarrow> ('m option \<times> 'q) option"
    and close :: "'q \<Rightarrow> 'q"
  assumes push_accepts: "fst (push q m) \<longleftrightarrow> \<not> closed q \<and> length (elems q) < bound q"
    and push_elems: "elems (snd (push q m)) = (if fst (push q m) then elems q @ [m] else elems q)"
    and push_frame: "bound (snd (push q m)) = bound q" "closed (snd (push q m)) = closed q"
    and pop_blocks: "pop q = None \<longleftrightarrow> elems q = [] \<and> \<not> closed q"
    and pop_item: "pop q = Some (Some m, q') \<Longrightarrow> elems q = m # elems q'"
    and pop_exit: "pop q = Some (None, q') \<Longrightarrow> elems q = [] \<and> closed q \<and> q' = q"
    and pop_frame: "pop q = Some (r, q') \<Longrightarrow> bound q' = bound q \<and> closed q' = closed q"
    and close_elems: "elems (close q) = elems q" "bound (close q) = bound q" "closed (close q)"
begin

lemma push_bound: "length (elems q) \<le> bound q \<Longrightarrow> length (elems (snd (push q m))) \<le> bound (snd (push q m))"
  by (cases "fst (push q m)") (auto simp: push_elems push_frame push_accepts)

lemma pop_bound:
  assumes "pop q = Some (r, q')" and "length (elems q) \<le> bound q"
  shows "length (elems q') \<le> bound q'"
proof (cases r)
  case None
  with assms pop_exit [of q q'] show ?thesis by simp
next
  case (Some m)
  with assms pop_item [of q m q'] pop_frame [OF assms(1)] show ?thesis by simp
qed

lemma closed_push: "closed q \<Longrightarrow> \<not> fst (push q m)"
  by (simp add: push_accepts)

lemma pop_ready: "closed q \<Longrightarrow> \<exists>r q'. pop q = Some (r, q')"
  using pop_blocks [of q] by (cases "pop q") auto

lemma pop_shorter: "pop q = Some (Some m, q') \<Longrightarrow> length (elems q) = Suc (length (elems q'))"
  by (simp add: pop_item)

end

interpretation measurement_queue: channel queue capacity shutdown Queue_Push Queue_Pop
  Queue_RequestShutdown
  by unfold_locales
     (auto simp: Queue_Push_def Queue_Pop_def Queue_RequestShutdown_def split: if_splits list.splits)


section \<open>Sequences of calls\<close>

text \<open>
  Any interleaving of the threads' calls is a list of calls, because each call holds the
  mutex. The run records the accepted and the delivered elements in order; a \<open>Pop\<close> that
  blocks leaves everything unchanged.
\<close>

datatype 'm queue_call = CallPush 'm | CallPop | CallShutdown

record 'm queue_trace =
  now :: "'m MeasurementQueue"
  accepted :: "'m list"
  delivered :: "'m list"

definition trace_start :: "nat \<Rightarrow> 'm queue_trace" where
  "trace_start n = \<lparr>now = MeasurementQueue_new n, accepted = [], delivered = []\<rparr>"

fun do_call :: "'m queue_trace \<Rightarrow> 'm queue_call \<Rightarrow> 'm queue_trace" where
  "do_call s (CallPush m) =
     (let (ok, q) = Queue_Push (now s) m in
      s\<lparr>now := q, accepted := (if ok then accepted s @ [m] else accepted s)\<rparr>)"
| "do_call s CallPop =
     (case Queue_Pop (now s) of
        None \<Rightarrow> s
      | Some (None, q) \<Rightarrow> s\<lparr>now := q\<rparr>
      | Some (Some m, q) \<Rightarrow> s\<lparr>now := q, delivered := delivered s @ [m]\<rparr>)"
| "do_call s CallShutdown = s\<lparr>now := Queue_RequestShutdown (now s)\<rparr>"

definition do_calls :: "'m queue_trace \<Rightarrow> 'm queue_call list \<Rightarrow> 'm queue_trace" where
  "do_calls s cs = foldl do_call s cs"

definition queue_trace_ok :: "'m queue_trace \<Rightarrow> bool" where
  "queue_trace_ok s \<longleftrightarrow> queue_ok (now s) \<and> accepted s = delivered s @ queue (now s)"

lemma queue_call_ok [fg_inv]: "queue_trace_ok s \<Longrightarrow> queue_trace_ok (do_call s c)"
  by (cases c)
     (auto simp: queue_trace_ok_def queue_ok_def Queue_Push_def Queue_Pop_def
        Queue_RequestShutdown_def split: list.splits)

lemma queue_call_frame:
  "capacity (now (do_call s c)) = capacity (now s)"
  "shutdown (now s) \<Longrightarrow> shutdown (now (do_call s c)) \<and> accepted (do_call s c) = accepted s"
  by (cases c; auto simp: Queue_Push_def Queue_Pop_def Queue_RequestShutdown_def
        split: list.splits)+

lemma do_calls_ok: "queue_trace_ok s \<Longrightarrow> queue_trace_ok (do_calls s cs)"
  by (induction cs arbitrary: s) (auto simp: do_calls_def queue_call_ok)

lemma do_calls_frame:
  "capacity (now (do_calls s cs)) = capacity (now s)"
  "shutdown (now s) \<Longrightarrow> accepted (do_calls s cs) = accepted s"
proof -
  show "capacity (now (do_calls s cs)) = capacity (now s)"
    by (induction cs arbitrary: s) (auto simp: do_calls_def queue_call_frame)
  show "shutdown (now s) \<Longrightarrow> accepted (do_calls s cs) = accepted s"
  proof (induction cs arbitrary: s)
    case (Cons c cs)
    from queue_call_frame(2) [OF Cons.prems, of c] Cons.IH [of "do_call s c"]
    show ?case by (simp add: do_calls_def)
  qed (simp add: do_calls_def)
qed

text \<open>
  The queue is a bounded FIFO under every interleaving: after any calls, the accepted
  measurements are those delivered so far followed by those still queued, in order and
  without loss or duplication, at most \<open>capacity\<close> are queued, and nothing is accepted after
  a shutdown request.
\<close>

theorem MeasurementQueue_fifo:
  "let s = do_calls (trace_start n) calls; t = do_calls (do_call s CallShutdown) later in
     accepted s = delivered s @ queue (now s) \<and> Queue_Size (now s) \<le> n \<and>
     accepted t = accepted s \<and> accepted t = delivered t @ queue (now t)"
proof -
  let ?s = "do_calls (trace_start n) calls"
  let ?t = "do_calls (do_call ?s CallShutdown) later"
  have "queue_trace_ok (trace_start n :: 'a queue_trace)"
    by (simp add: queue_trace_ok_def queue_ok_def trace_start_def MeasurementQueue_new_def)
  then have s: "queue_trace_ok ?s" by (rule do_calls_ok)
  have t: "queue_trace_ok ?t" by (rule do_calls_ok, rule queue_call_ok, rule s)
  have "capacity (now ?s) = n"
    by (simp add: do_calls_frame trace_start_def MeasurementQueue_new_def)
  moreover have "accepted ?t = accepted (do_call ?s CallShutdown)"
    by (rule do_calls_frame) (simp add: Queue_RequestShutdown_def)
  ultimately show ?thesis
    using s t by (simp add: Let_def queue_trace_ok_def queue_ok_def Queue_Size_def)
qed

end
