(* ===== verification/Fg_Time.thy ===== *)
theory Fg_Time
  imports Fg_Prelude
begin

text \<open>
  Time primitives of \<^verbatim>\<open>src/core/include/falconguide/core/time.hpp\<close> and the
  comparison helpers of \<^verbatim>\<open>time_helpers.hpp\<close>. Nanosecond counts
  (\<^verbatim>\<open>std::chrono::nanoseconds\<close>, 64-bit signed) are exact integers here; the lemma
  \<open>MonotonicTime_minus_fits_int64\<close> gives the range on which the difference the code computes
  cannot overflow.
\<close>

section \<open>Time primitives\<close>

datatype Duration = Duration (nanoseconds: int)

text \<open>The cast from \<^verbatim>\<open>double\<close> to \<^verbatim>\<open>std::int64_t\<close> truncates towards zero.\<close>

definition trunc_to_int :: "real \<Rightarrow> int" where
  "trunc_to_int x = (if x < 0 then \<lceil>x\<rceil> else \<lfloor>x\<rfloor>)"

definition FromSeconds :: "real \<Rightarrow> Duration" where
  "FromSeconds s = Duration (trunc_to_int (s * 1000000000))"

definition seconds :: "Duration \<Rightarrow> real" where
  "seconds d = real_of_int (nanoseconds d) / 1000000000"

datatype MonotonicTime = MonotonicTime (nanoseconds_since_epoch: int)

definition MonotonicTime_minus :: "MonotonicTime \<Rightarrow> MonotonicTime \<Rightarrow> Duration" where
  "MonotonicTime_minus a b =
     Duration (nanoseconds_since_epoch a - nanoseconds_since_epoch b)"

record GpsTime =
  week :: int
  seconds_of_week :: real

definition GpsTime_default :: GpsTime where
  "GpsTime_default = \<lparr>week = 0, seconds_of_week = 0\<rparr>"

record Timestamp =
  steady :: MonotonicTime
  gps :: GpsTime
  has_steady :: bool
  has_gps :: bool

definition Timestamp_default :: Timestamp where
  "Timestamp_default =
     \<lparr>steady = MonotonicTime 0, gps = GpsTime_default, has_steady = False, has_gps = False\<rparr>"

section \<open>Comparison\<close>

datatype TimestampOrdering = Before | Equal | After | NotComparable

definition CompareGpsTime :: "GpsTime \<Rightarrow> GpsTime \<Rightarrow> TimestampOrdering" where
  "CompareGpsTime lhs rhs =
     (if week lhs < week rhs then Before
      else if week lhs > week rhs then After
      else if seconds_of_week lhs < seconds_of_week rhs then Before
      else if seconds_of_week lhs > seconds_of_week rhs then After
      else Equal)"

definition CompareTimestamps :: "Timestamp \<Rightarrow> Timestamp \<Rightarrow> TimestampOrdering" where
  "CompareTimestamps lhs rhs =
     (if has_steady lhs \<and> has_steady rhs then
        (if nanoseconds_since_epoch (steady lhs) < nanoseconds_since_epoch (steady rhs)
         then Before
         else if nanoseconds_since_epoch (steady lhs) > nanoseconds_since_epoch (steady rhs)
         then After
         else Equal)
      else if has_gps lhs \<and> has_gps rhs then CompareGpsTime (gps lhs) (gps rhs)
      else NotComparable)"

definition IsBefore :: "Timestamp \<Rightarrow> Timestamp \<Rightarrow> bool" where
  "IsBefore lhs rhs \<longleftrightarrow> CompareTimestamps lhs rhs = Before"

definition IsAfter :: "Timestamp \<Rightarrow> Timestamp \<Rightarrow> bool" where
  "IsAfter lhs rhs \<longleftrightarrow> CompareTimestamps lhs rhs = After"

definition IsEqualTime :: "Timestamp \<Rightarrow> Timestamp \<Rightarrow> bool" where
  "IsEqualTime lhs rhs \<longleftrightarrow> CompareTimestamps lhs rhs = Equal"

definition TimeDifference :: "Timestamp \<Rightarrow> Timestamp \<Rightarrow> Duration option" where
  "TimeDifference lhs rhs =
     (if has_steady lhs \<and> has_steady rhs
      then Some (MonotonicTime_minus (steady lhs) (steady rhs))
      else if has_gps lhs \<and> has_gps rhs \<and> week (gps lhs) = week (gps rhs)
      then Some (FromSeconds (seconds_of_week (gps lhs) - seconds_of_week (gps rhs)))
      else None)"

section \<open>Laws of the comparison\<close>

fun flip_ordering :: "TimestampOrdering \<Rightarrow> TimestampOrdering" where
  "flip_ordering Before = After"
| "flip_ordering Equal = Equal"
| "flip_ordering After = Before"
| "flip_ordering NotComparable = NotComparable"

lemma CompareGpsTime_flip: "CompareGpsTime b a = flip_ordering (CompareGpsTime a b)"
  by (auto simp: CompareGpsTime_def)

lemma CompareTimestamps_flip:
  "CompareTimestamps b a = flip_ordering (CompareTimestamps a b)"
  by (auto simp: CompareTimestamps_def CompareGpsTime_flip [of "gps b"])

text \<open>\<open>not_after a b\<close> is the test both loops of the buffer make.\<close>

definition not_after :: "Timestamp \<Rightarrow> Timestamp \<Rightarrow> bool" where
  "not_after a b \<longleftrightarrow> CompareTimestamps a b = Before \<or> CompareTimestamps a b = Equal"

text \<open>
  Timestamps share a basis when all of them carry monotonic time, or none does and all
  carry GPS time. On such a set the comparison is a total preorder; on a mixed set it is
  not (\<open>CompareTimestamps_mixed_cycle\<close>).
\<close>

definition common_basis :: "Timestamp set \<Rightarrow> bool" where
  "common_basis S \<longleftrightarrow>
     (\<forall>t\<in>S. has_steady t) \<or> (\<forall>t\<in>S. \<not> has_steady t \<and> has_gps t)"

lemma common_basis_subset: "common_basis S \<Longrightarrow> T \<subseteq> S \<Longrightarrow> common_basis T"
  by (auto simp: common_basis_def)

lemma CompareTimestamps_comparable:
  "common_basis {a, b} \<Longrightarrow> CompareTimestamps a b \<noteq> NotComparable"
  by (auto simp: common_basis_def CompareTimestamps_def CompareGpsTime_def)

lemma not_after_refl: "common_basis {a} \<Longrightarrow> not_after a a"
  by (auto simp: common_basis_def not_after_def CompareTimestamps_def CompareGpsTime_def)

lemma not_after_total: "common_basis {a, b} \<Longrightarrow> not_after a b \<or> not_after b a"
  by (auto simp: common_basis_def not_after_def CompareTimestamps_def CompareGpsTime_def)

lemma not_after_trans:
  "common_basis {a, b, c} \<Longrightarrow> not_after a b \<Longrightarrow> not_after b c \<Longrightarrow> not_after a c"
  by (auto simp: common_basis_def not_after_def CompareTimestamps_def CompareGpsTime_def
           split: if_splits)

lemma not_after_Before_trans:
  "common_basis {a, b, c} \<Longrightarrow> not_after a b \<Longrightarrow> CompareTimestamps b c = Before \<Longrightarrow>
     CompareTimestamps a c = Before"
  by (auto simp: common_basis_def not_after_def CompareTimestamps_def CompareGpsTime_def
           split: if_splits)

lemma After_iff_not_not_after:
  "common_basis {a, b} \<Longrightarrow> CompareTimestamps a b = After \<longleftrightarrow> \<not> not_after a b"
  using CompareTimestamps_comparable [of a b]
  by (cases "CompareTimestamps a b") (auto simp: not_after_def)

lemma After_not_after: "CompareTimestamps a b = After \<Longrightarrow> not_after b a"
  using CompareTimestamps_flip [of b a] by (simp add: not_after_def)

text \<open>
  On timestamps of one basis the comparison is a total preorder: reflexive, total and
  transitive, and swapping its arguments mirrors its result, so sorting and merging by it
  are meaningful.
\<close>

theorem CompareTimestamps_total_preorder:
  assumes "common_basis {a, b, c}"
  shows "CompareTimestamps a a = Equal \<and>
    CompareTimestamps a b \<noteq> NotComparable \<and>
    CompareTimestamps b a = flip_ordering (CompareTimestamps a b) \<and>
    (not_after a b \<or> not_after b a) \<and>
    (not_after a b \<and> not_after b c \<longrightarrow> not_after a c)"
proof -
  have aa: "CompareTimestamps a a = Equal"
    using assms by (auto simp: common_basis_def CompareTimestamps_def CompareGpsTime_def)
  have ab: "common_basis {a, b}" using assms by (rule common_basis_subset) auto
  show ?thesis
    using aa CompareTimestamps_comparable [OF ab] CompareTimestamps_flip [of b a]
      not_after_total [OF ab] not_after_trans [OF assms] by blast
qed

definition steady_at :: "int \<Rightarrow> Timestamp" where
  "steady_at ns = Timestamp_default\<lparr>steady := MonotonicTime ns, has_steady := True\<rparr>"

definition gps_at :: "int \<Rightarrow> real \<Rightarrow> Timestamp" where
  "gps_at w s = Timestamp_default\<lparr>gps := \<lparr>week = w, seconds_of_week = s\<rparr>, has_gps := True\<rparr>"

lemma CompareTimestamps_total_preorder_witness:
  "CompareTimestamps (steady_at 1) (steady_at 1) = Equal \<and> not_after (steady_at 1) (steady_at 3)"
proof -
  have "common_basis {steady_at 1, steady_at 2, steady_at 3}"
    by (simp add: common_basis_def steady_at_def)
  from CompareTimestamps_total_preorder [OF this] show ?thesis
    by (simp add: not_after_def CompareTimestamps_def steady_at_def)
qed

text \<open>
  Without a shared basis the comparison is not transitive: of three timestamps, one of
  them GPS only and two carrying both clocks, each can be before the next.
\<close>

theorem CompareTimestamps_mixed_cycle:
  "\<exists>a b c. CompareTimestamps a b = Before \<and> CompareTimestamps b c = Before \<and>
     CompareTimestamps c a = Before"
proof (intro exI conjI)
  let ?a = "gps_at 1 5"
  let ?b = "(gps_at 1 6)\<lparr>steady := MonotonicTime 1, has_steady := True\<rparr>"
  let ?c = "(gps_at 1 4)\<lparr>steady := MonotonicTime 2, has_steady := True\<rparr>"
  show "CompareTimestamps ?a ?b = Before" "CompareTimestamps ?b ?c = Before"
    "CompareTimestamps ?c ?a = Before"
    by (simp_all add: CompareTimestamps_def CompareGpsTime_def gps_at_def Timestamp_default_def)
qed

section \<open>Differences\<close>

lemma MonotonicTime_minus_fits_int64:
  assumes "0 \<le> nanoseconds_since_epoch a" "nanoseconds_since_epoch a < 2 ^ 63"
    and "0 \<le> nanoseconds_since_epoch b" "nanoseconds_since_epoch b < 2 ^ 63"
  shows "- (2 ^ 63) < nanoseconds (MonotonicTime_minus a b) \<and>
    nanoseconds (MonotonicTime_minus a b) < 2 ^ 63"
  using assms by (simp add: MonotonicTime_minus_def)

lemma trunc_to_int_pos: "0 \<le> x \<Longrightarrow> 0 \<le> trunc_to_int x \<and> real_of_int (trunc_to_int x) \<le> x"
  by (auto simp: trunc_to_int_def)

lemma trunc_to_int_error: "\<bar>real_of_int (trunc_to_int x) - x\<bar> < 1"
  unfolding trunc_to_int_def by (auto; linarith)

lemma seconds_FromSeconds_error: "\<bar>seconds (FromSeconds s) - s\<bar> < 1 / 1000000000"
proof -
  let ?t = "real_of_int (trunc_to_int (s * 1000000000))"
  have "seconds (FromSeconds s) - s = (?t - s * 1000000000) / 1000000000"
    by (simp add: seconds_def FromSeconds_def diff_divide_distrib)
  then have "\<bar>seconds (FromSeconds s) - s\<bar> = \<bar>?t - s * 1000000000\<bar> / 1000000000"
    by (simp only: abs_divide)
  also have "\<dots> < 1 / 1000000000"
    using trunc_to_int_error [of "s * 1000000000"] by (rule divide_strict_right_mono) simp
  finally show ?thesis .
qed

text \<open>
  Differences agree with comparisons. Whenever a difference exists, an earlier-or-equal
  left timestamp gives a difference that is not positive and a later one gives a difference
  that is not negative, strictly so on the monotonic clock; and differencing a monotonic
  timestamp against another recovers it exactly.
\<close>

theorem TimeDifference_sign:
  assumes "TimeDifference a b = Some d"
  shows "(not_after a b \<longrightarrow> seconds d \<le> 0) \<and>
    (CompareTimestamps a b = After \<longrightarrow> 0 \<le> seconds d) \<and>
    (has_steady a \<and> has_steady b \<longrightarrow>
       (CompareTimestamps a b = Before \<longleftrightarrow> seconds d < 0) \<and>
       nanoseconds_since_epoch (steady a) = nanoseconds_since_epoch (steady b) + nanoseconds d)"
proof (cases "has_steady a \<and> has_steady b")
  case True
  with assms show ?thesis
    by (auto simp: TimeDifference_def MonotonicTime_minus_def seconds_def not_after_def
        CompareTimestamps_def divide_less_0_iff split: if_splits)
next
  case False
  with assms have g: "has_gps a" "has_gps b" "week (gps a) = week (gps b)"
    and d: "d = FromSeconds (seconds_of_week (gps a) - seconds_of_week (gps b))"
    by (auto simp: TimeDifference_def split: if_splits)
  have sgn: "x \<le> 0 \<Longrightarrow> seconds (FromSeconds x) \<le> 0" "0 \<le> x \<Longrightarrow> 0 \<le> seconds (FromSeconds x)" for x
    by (auto simp: seconds_def FromSeconds_def trunc_to_int_def ceiling_le_zero divide_le_0_iff)
  show ?thesis using False g
    by (auto simp: d not_after_def CompareTimestamps_def CompareGpsTime_def intro!: sgn
        split: if_splits)
qed

lemma TimeDifference_sign_witness:
  "TimeDifference (steady_at 7) (steady_at 5) = Some (Duration 2) \<and> 0 \<le> seconds (Duration 2)"
proof -
  have d: "TimeDifference (steady_at 7) (steady_at 5) = Some (Duration 2)"
    by (simp add: TimeDifference_def steady_at_def MonotonicTime_minus_def)
  have "CompareTimestamps (steady_at 7) (steady_at 5) = After"
    by (simp add: CompareTimestamps_def steady_at_def)
  with TimeDifference_sign [OF d] d show ?thesis by blast
qed

text \<open>Across a GPS week boundary two GPS-only timestamps compare but have no difference.\<close>

lemma TimeDifference_week_rollover:
  "week (gps a) \<noteq> week (gps b) \<Longrightarrow> \<not> has_steady a \<Longrightarrow> TimeDifference a b = None"
  by (simp add: TimeDifference_def)

end
