(* ===== verification/Fg_Containers.thy ===== *)
theory Fg_Containers
  imports Fg_Prelude
begin

text \<open>
  The values the measurement and state types store: the coefficients of the fixed-size Eigen
  vectors, quaternions and matrices, and the frame-tagged vectors of
  \<^verbatim>\<open>src/core/include/falconguide/core/frames.hpp\<close>. Only storage is defined here; Eigen's
  algorithms are not part of the repository and are not defined.

  The C++ frame tag of \<^verbatim>\<open>Vec3<Frame>\<close> is a phantom type parameter, so a term that mixes
  frames is rejected by the type checker exactly as in the code.
\<close>

datatype Vector3d = Vector3d (v3_x: real) (v3_y: real) (v3_z: real)

datatype Vector2d = Vector2d (v2_x: real) (v2_y: real)

datatype Quaterniond = Quaterniond (q_w: real) (q_x: real) (q_y: real) (q_z: real)

datatype MatrixXd = MatrixXd (mat_rows: nat) (mat_cols: nat) (coeff: "nat \<Rightarrow> nat \<Rightarrow> real")

definition Vector3d_Zero :: Vector3d where
  "Vector3d_Zero = Vector3d 0 0 0"

definition Quaterniond_Identity :: Quaterniond where
  "Quaterniond_Identity = Quaterniond 1 0 0 0"

definition Matrix_Zero :: "nat \<Rightarrow> nat \<Rightarrow> MatrixXd" where
  "Matrix_Zero r c = MatrixXd r c (\<lambda>_ _. 0)"

definition Matrix_Identity :: "nat \<Rightarrow> MatrixXd" where
  "Matrix_Identity n = MatrixXd n n (\<lambda>i j. if i = j \<and> i < n then 1 else 0)"

section \<open>Frame tags and frame-tagged vectors\<close>

datatype EcefFrame = EcefFrame
datatype EnuFrame = EnuFrame
datatype NedFrame = NedFrame
datatype BodyFrame = BodyFrame
datatype ImuFrame = ImuFrame
datatype MagnetometerFrame = MagnetometerFrame
datatype RadarAltimeterFrame = RadarAltimeterFrame
datatype RangeFinderFrame = RangeFinderFrame
datatype OpticalFlowFrame = OpticalFlowFrame
datatype DvlFrame = DvlFrame
datatype EchoSounderFrame = EchoSounderFrame
datatype CameraFrame = CameraFrame
datatype GnssAntennaFrame = GnssAntennaFrame
datatype StarTrackerFrame = StarTrackerFrame

datatype 'frame Vec3 = Vec3 (eigen: Vector3d)

definition Vec3_xyz :: "real \<Rightarrow> real \<Rightarrow> real \<Rightarrow> 'frame Vec3" where
  "Vec3_xyz x y z = Vec3 (Vector3d x y z)"

definition Vec3_zero :: "'frame Vec3" where
  "Vec3_zero = Vec3 Vector3d_Zero"

definition Vec3_x :: "'frame Vec3 \<Rightarrow> real" where "Vec3_x v = v3_x (eigen v)"
definition Vec3_y :: "'frame Vec3 \<Rightarrow> real" where "Vec3_y v = v3_y (eigen v)"
definition Vec3_z :: "'frame Vec3 \<Rightarrow> real" where "Vec3_z v = v3_z (eigen v)"

end
