(* ===== verification/Fg_Sensors.thy ===== *)
theory Fg_Sensors
  imports Fg_Time Fg_Containers
begin

text \<open>
  The sensor measurement types of \<^verbatim>\<open>src/core/include/falconguide/core/sensors/\<close>: one record
  per struct with its fields in the source's order, one datatype per enum, and a default
  value per struct whose members the code initialises. Field names carry a prefix per struct
  because record selectors are global.
\<close>

section \<open>common.hpp\<close>

datatype MeasurementValidity = Valid | Saturated | Dropped | OutOfOrder | Validity_Unknown

record NoiseDensity =
  continuous_noise_density :: real
  random_walk :: real

section \<open>imu.hpp\<close>

record ImuMeasurement =
  imu_timestamp :: Timestamp
  imu_specific_force_mps2 :: "ImuFrame Vec3"
  imu_angular_rate_radps :: "ImuFrame Vec3"
  imu_temperature_celsius :: "real option"
  imu_validity :: MeasurementValidity

definition ImuMeasurement_default :: ImuMeasurement where
  "ImuMeasurement_default =
     \<lparr>imu_timestamp = Timestamp_default, imu_specific_force_mps2 = Vec3_zero,
      imu_angular_rate_radps = Vec3_zero, imu_temperature_celsius = None, imu_validity = Valid\<rparr>"

section \<open>environment.hpp\<close>

record MagnetometerMeasurement =
  mag_timestamp :: Timestamp
  mag_magnetic_field_tesla :: "MagnetometerFrame Vec3"
  mag_temperature_celsius :: "real option"
  mag_validity :: MeasurementValidity

definition MagnetometerMeasurement_default :: MagnetometerMeasurement where
  "MagnetometerMeasurement_default =
     \<lparr>mag_timestamp = Timestamp_default, mag_magnetic_field_tesla = Vec3_zero,
      mag_temperature_celsius = None, mag_validity = Valid\<rparr>"

record BarometerMeasurement =
  baro_timestamp :: Timestamp
  baro_pressure_pa :: real
  baro_temperature_celsius :: "real option"
  baro_altitude_m :: "real option"
  baro_validity :: MeasurementValidity

definition BarometerMeasurement_default :: BarometerMeasurement where
  "BarometerMeasurement_default =
     \<lparr>baro_timestamp = Timestamp_default, baro_pressure_pa = 0,
      baro_temperature_celsius = None, baro_altitude_m = None, baro_validity = Valid\<rparr>"

datatype AirspeedType = Airspeed_Unknown | Indicated | Calibrated | TrueAirspeed

record AirspeedMeasurement =
  asp_timestamp :: Timestamp
  asp_type :: AirspeedType
  asp_airspeed_mps :: real
  asp_differential_pressure_pa :: "real option"
  asp_static_pressure_pa :: "real option"
  asp_air_temperature_celsius :: "real option"
  asp_validity :: MeasurementValidity

section \<open>range.hpp\<close>

datatype RadarAltimeterSurface =
    Surface_Unknown | Ground | Water | Vegetation | Building | Surface_Invalid

record RadarAltimeterMeasurement =
  ralt_timestamp :: Timestamp
  ralt_range_m :: real
  ralt_vertical_velocity_mps :: "real option"
  ralt_signal_to_noise_db :: "real option"
  ralt_return_strength :: "real option"
  ralt_surface :: RadarAltimeterSurface
  ralt_validity :: MeasurementValidity

datatype RangeFinderType = RangeFinder_Unknown | Laser | Lidar | Ultrasonic | Sonar | Radar

record RangeFinderMeasurement =
  rf_timestamp :: Timestamp
  rf_range_m :: real
  rf_signal_quality :: "real option"
  rf_type :: RangeFinderType
  rf_validity :: MeasurementValidity

record OpticalFlowMeasurement =
  of_timestamp :: Timestamp
  of_integrated_flow_x_rad :: real
  of_integrated_flow_y_rad :: real
  of_integration_time_s :: "real option"
  of_ground_distance_m :: "real option"
  of_angular_rate_body_radps :: "BodyFrame Vec3 option"
  of_quality :: "real option"
  of_validity :: MeasurementValidity

datatype DvlReference = DvlReference_Unknown | BottomTrack | WaterTrack

record DvlMeasurement =
  dvl_timestamp :: Timestamp
  dvl_velocity_mps :: "DvlFrame Vec3"
  dvl_velocity_covariance_m2ps2 :: MatrixXd
  dvl_reference :: DvlReference
  dvl_altitude_m :: "real option"
  dvl_quality :: "real option"
  dvl_validity :: MeasurementValidity

record EchoSounderMeasurement =
  es_timestamp :: Timestamp
  es_depth_or_range_m :: real
  es_sound_speed_mps :: "real option"
  es_return_strength :: "real option"
  es_validity :: MeasurementValidity

section \<open>odometry.hpp\<close>

record WheelEncoderMeasurement =
  we_timestamp :: Timestamp
  we_wheel_ticks :: "int list"
  we_wheel_angular_rates_radps :: "real list"
  we_validity :: MeasurementValidity

record WheelOdometryMeasurement =
  odo_timestamp :: Timestamp
  odo_linear_velocity_body_mps :: "BodyFrame Vec3"
  odo_angular_rate_body_radps :: "BodyFrame Vec3"
  odo_covariance :: MatrixXd
  odo_validity :: MeasurementValidity

section \<open>external.hpp\<close>

datatype ExternalMeasurementSource =
    Source_Unknown | MotionCapture | Fiducial | Uwb | Source_ExternalSlam | VehicleCan
  | OperatorInput

record ExternalPoseMeasurement =
  ep_timestamp :: Timestamp
  ep_source :: ExternalMeasurementSource
  ep_position_ecef_m :: "EcefFrame Vec3"
  ep_orientation_body_to_ecef :: Quaterniond
  ep_covariance :: MatrixXd
  ep_validity :: MeasurementValidity

record ExternalVelocityMeasurement =
  ev_timestamp :: Timestamp
  ev_source :: ExternalMeasurementSource
  ev_linear_velocity_body_mps :: "BodyFrame Vec3"
  ev_angular_rate_body_radps :: "BodyFrame Vec3"
  ev_covariance :: MatrixXd
  ev_validity :: MeasurementValidity

record ExternalOdometryMeasurement =
  eo_timestamp :: Timestamp
  eo_source :: ExternalMeasurementSource
  eo_position_ecef_m :: "EcefFrame Vec3"
  eo_velocity_ecef_mps :: "EcefFrame Vec3"
  eo_orientation_body_to_ecef :: Quaterniond
  eo_covariance :: MatrixXd
  eo_validity :: MeasurementValidity

section \<open>gnss.hpp\<close>

datatype GnssConstellation =
    Gps | Glonass | Galileo | BeiDou | Qzss | Sbas | Constellation_Unknown

datatype GnssSignal = L1 | L2 | L5 | E1 | E5a | E5b | B1 | B2 | Signal_Unknown

datatype GnssFixType =
    NoFix | Single | Differential | RtkFloat | RtkFixed | PrecisePointPositioning

record SatelliteId =
  constellation :: GnssConstellation
  prn :: "16 word"

record GnssRawObservation =
  raw_satellite :: SatelliteId
  raw_signal :: GnssSignal
  raw_pseudorange_m :: real
  raw_carrier_phase_cycles :: "real option"
  raw_doppler_hz :: "real option"
  raw_carrier_to_noise_density_dbhz :: "real option"
  raw_lock_time_s :: "real option"
  raw_validity :: MeasurementValidity

record GnssObservationEpoch =
  goe_timestamp :: Timestamp
  goe_observations :: "GnssRawObservation list"
  goe_validity :: MeasurementValidity

record GnssSolution =
  gnss_timestamp :: Timestamp
  gnss_position_ecef_m :: "EcefFrame Vec3"
  gnss_velocity_ecef_mps :: "EcefFrame Vec3"
  gnss_position_covariance_ecef_m2 :: MatrixXd
  gnss_velocity_covariance_ecef_m2ps2 :: MatrixXd
  gnss_fix_type :: GnssFixType
  gnss_horizontal_dop :: "real option"
  gnss_vertical_dop :: "real option"
  gnss_validity :: MeasurementValidity

definition GnssSolution_default :: GnssSolution where
  "GnssSolution_default =
     \<lparr>gnss_timestamp = Timestamp_default, gnss_position_ecef_m = Vec3_zero,
      gnss_velocity_ecef_mps = Vec3_zero,
      gnss_position_covariance_ecef_m2 = Matrix_Zero 3 3,
      gnss_velocity_covariance_ecef_m2ps2 = Matrix_Zero 3 3,
      gnss_fix_type = NoFix, gnss_horizontal_dop = None, gnss_vertical_dop = None,
      gnss_validity = Valid\<rparr>"

record SatelliteState =
  sv_satellite :: SatelliteId
  sv_position_ecef_m :: "EcefFrame Vec3"
  sv_velocity_ecef_mps :: "EcefFrame Vec3"
  sv_clock_bias_s :: real
  sv_clock_drift_sps :: real
  sv_ionospheric_delay_m :: real
  sv_tropospheric_delay_m :: real
  sv_healthy :: bool

record GnssTightlyCoupledObservation =
  tco_raw :: GnssRawObservation
  tco_satellite :: SatelliteState

record GnssTightlyCoupledEpoch =
  tce_timestamp :: Timestamp
  tce_sv_observations :: "GnssTightlyCoupledObservation list"
  tce_validity :: MeasurementValidity

section \<open>camera.hpp\<close>

datatype CameraRole =
    Role_Unknown | Role_VisualOdometry | Role_GeoReference | Mapping | Landing | Inspection

record CameraFrameMeasurement =
  cam_timestamp :: Timestamp
  cam_frame_id :: u64
  cam_camera_name :: string
  cam_role :: CameraRole
  cam_exposure_time_s :: "real option"
  cam_gain :: "real option"
  cam_validity :: MeasurementValidity

record GeoReferenceImageMeasurement =
  geo_timestamp :: Timestamp
  geo_frame_id :: u64
  geo_camera_name :: string
  geo_approximate_position_ecef_m :: "EcefFrame Vec3 option"
  geo_ground_sample_distance_m :: "real option"
  geo_yaw_prior_rad :: "real option"
  geo_validity :: MeasurementValidity

section \<open>aiding.hpp\<close>

datatype AidingSource =
    AidingSource_Unknown | VisualOdometry | GeoReference | TerrainContourMatching | ExternalSlam
  | SceneMatching | FeatureBasedNavigation | RadioNavigation

record OrientationValidity =
  ov_yaw :: bool
  ov_pitch :: bool
  ov_roll :: bool

definition OrientationValidity_any :: "OrientationValidity \<Rightarrow> bool" where
  "OrientationValidity_any v \<longleftrightarrow> ov_yaw v \<or> ov_pitch v \<or> ov_roll v"

definition OrientationValidity_full :: "OrientationValidity \<Rightarrow> bool" where
  "OrientationValidity_full v \<longleftrightarrow> ov_yaw v \<and> ov_pitch v \<and> ov_roll v"

record AidingSolution =
  aid_timestamp :: Timestamp
  aid_source :: AidingSource
  aid_position_ecef_m :: "EcefFrame Vec3 option"
  aid_position_covariance_ecef_m2 :: MatrixXd
  aid_velocity_ecef_mps :: "EcefFrame Vec3 option"
  aid_velocity_covariance_ecef_mps2 :: MatrixXd
  aid_orientation_body_to_ecef :: "Quaterniond option"
  aid_orientation_validity :: OrientationValidity
  aid_orientation_sigma_rad :: Vector3d
  aid_match_score :: "real option"
  aid_validity :: MeasurementValidity

section \<open>star\_tracker.hpp\<close>

record StarTrackerMeasurement =
  st_timestamp :: Timestamp
  st_latitude_rad :: real
  st_longitude_rad :: real
  st_position_sigma_rad :: real
  st_yaw_rad :: real
  st_yaw_sigma_rad :: real
  st_pitch_rad :: "real option"
  st_roll_rad :: "real option"
  st_pitch_roll_sigma_rad :: Vector2d
  st_stars_tracked :: "16 word option"
  st_lost_in_space_confidence :: "real option"
  st_validity :: MeasurementValidity

end
