(* ===== verification/Fg_Buffer.thy ===== *)
theory Fg_Buffer
  imports Fg_Time "HOL-Library.Multiset"
begin

text \<open>
  The bounded, time-ordered measurement buffer of
  \<^verbatim>\<open>src/core/include/falconguide/core/buffers/time_ordered_buffer.hpp\<close> and the generic
  accessors of \<^verbatim>\<open>measurement_helpers.hpp\<close>. The C++ template argument with its
  \<^verbatim>\<open>GetTimestamp\<close> overload is the function argument \<open>ts\<close>; a mutable buffer is a record that
  each operation returns updated.
\<close>

section \<open>State and operations\<close>

datatype BufferInsertResult =
    Inserted
  | InsertedAndDroppedOldest
  | RejectedOutOfOrder
  | RejectedNotComparable

record 'm TimeOrderedBuffer =
  max_size :: nat
  allow_out_of_order_insert :: bool
  measurements :: "'m list"

definition TimeOrderedBuffer_new :: "nat \<Rightarrow> bool \<Rightarrow> 'm TimeOrderedBuffer" where
  "TimeOrderedBuffer_new n ooo =
     \<lparr>max_size = n, allow_out_of_order_insert = ooo, measurements = []\<rparr>"

definition buffer_size :: "'m TimeOrderedBuffer \<Rightarrow> nat" where
  "buffer_size b = length (measurements b)"

definition buffer_empty :: "'m TimeOrderedBuffer \<Rightarrow> bool" where
  "buffer_empty b \<longleftrightarrow> measurements b = []"

definition Oldest :: "'m TimeOrderedBuffer \<Rightarrow> 'm option" where
  "Oldest b = (case measurements b of [] \<Rightarrow> None | x # _ \<Rightarrow> Some x)"

definition Latest :: "'m TimeOrderedBuffer \<Rightarrow> 'm option" where
  "Latest b = (case measurements b of [] \<Rightarrow> None | _ # _ \<Rightarrow> Some (last (measurements b)))"

definition EnforceMaxSize ::
  "'m TimeOrderedBuffer \<Rightarrow> BufferInsertResult \<Rightarrow> BufferInsertResult \<times> 'm TimeOrderedBuffer" where
  "EnforceMaxSize b r =
     (if max_size b = 0 \<or> length (measurements b) \<le> max_size b then (r, b)
      else (InsertedAndDroppedOldest, b\<lparr>measurements := tl (measurements b)\<rparr>))"

text \<open>The scan from the front: \<^const>\<open>None\<close> is the early return on an incomparable entry.\<close>

fun insert_scan :: "('m \<Rightarrow> Timestamp) \<Rightarrow> 'm \<Rightarrow> 'm list \<Rightarrow> 'm list option" where
  "insert_scan ts m [] = Some [m]"
| "insert_scan ts m (x # xs) =
     (case CompareTimestamps (ts m) (ts x) of
        NotComparable \<Rightarrow> None
      | Before \<Rightarrow> Some (m # x # xs)
      | Equal \<Rightarrow> Some (m # x # xs)
      | After \<Rightarrow> map_option (Cons x) (insert_scan ts m xs))"

definition Insert ::
  "('m \<Rightarrow> Timestamp) \<Rightarrow> 'm TimeOrderedBuffer \<Rightarrow> 'm \<Rightarrow> BufferInsertResult \<times> 'm TimeOrderedBuffer"
where
  "Insert ts b m =
     (if measurements b = [] then (Inserted, b\<lparr>measurements := [m]\<rparr>)
      else
        (case CompareTimestamps (ts (last (measurements b))) (ts m) of
           NotComparable \<Rightarrow> (RejectedNotComparable, b)
         | After \<Rightarrow>
             (if \<not> allow_out_of_order_insert b then (RejectedOutOfOrder, b)
              else (case insert_scan ts m (measurements b) of
                      None \<Rightarrow> (RejectedNotComparable, b)
                    | Some ms \<Rightarrow> EnforceMaxSize (b\<lparr>measurements := ms\<rparr>) Inserted))
         | _ \<Rightarrow> EnforceMaxSize (b\<lparr>measurements := measurements b @ [m]\<rparr>) Inserted))"

definition should_pop :: "TimestampOrdering \<Rightarrow> bool \<Rightarrow> bool" where
  "should_pop cmp include_equal \<longleftrightarrow> cmp = Before \<or> (include_equal \<and> cmp = Equal)"

fun pop_loop :: "('m \<Rightarrow> Timestamp) \<Rightarrow> Timestamp \<Rightarrow> bool \<Rightarrow> 'm list \<Rightarrow> 'm list \<times> 'm list" where
  "pop_loop ts t include_equal [] = ([], [])"
| "pop_loop ts t include_equal (x # xs) =
     (let cmp = CompareTimestamps (ts x) t in
      if cmp = NotComparable then ([], x # xs)
      else if \<not> should_pop cmp include_equal then ([], x # xs)
      else (let (result, rest) = pop_loop ts t include_equal xs in (x # result, rest)))"

definition PopUntil ::
  "('m \<Rightarrow> Timestamp) \<Rightarrow> 'm TimeOrderedBuffer \<Rightarrow> Timestamp \<Rightarrow> bool \<Rightarrow> 'm list \<times> 'm TimeOrderedBuffer"
where
  "PopUntil ts b t include_equal =
     (let (result, rest) = pop_loop ts t include_equal (measurements b)
      in (result, b\<lparr>measurements := rest\<rparr>))"

definition Clear :: "'m TimeOrderedBuffer \<Rightarrow> 'm TimeOrderedBuffer" where
  "Clear b = b\<lparr>measurements := []\<rparr>"

definition IsOutOfOrder :: "('m \<Rightarrow> Timestamp) \<Rightarrow> 'm \<Rightarrow> 'm \<Rightarrow> bool" where
  "IsOutOfOrder ts previous current \<longleftrightarrow> IsBefore (ts current) (ts previous)"


section \<open>Insertion\<close>

definition time_sorted :: "('m \<Rightarrow> Timestamp) \<Rightarrow> 'm list \<Rightarrow> bool" where
  "time_sorted ts ms \<longleftrightarrow> sorted_wrt (\<lambda>x y. not_after (ts x) (ts y)) ms"

definition buffer_ok :: "('m \<Rightarrow> Timestamp) \<Rightarrow> 'm TimeOrderedBuffer \<Rightarrow> bool" where
  "buffer_ok ts b \<longleftrightarrow> time_sorted ts (measurements b) \<and>
     common_basis (ts ` set (measurements b)) \<and>
     (max_size b = 0 \<or> length (measurements b) \<le> max_size b)"

lemma buffer_ok_new [simp, fg_inv]: "buffer_ok ts (TimeOrderedBuffer_new n ooo)"
  by (simp add: buffer_ok_def TimeOrderedBuffer_new_def time_sorted_def common_basis_def)

lemma insert_scan_set: "insert_scan ts m ms = Some ms' \<Longrightarrow> mset ms' = add_mset m (mset ms)"
  by (induction ms arbitrary: ms') (auto split: TimestampOrdering.splits)

lemma insert_scan_comparable:
  "common_basis (insert (ts m) (ts ` set ms)) \<Longrightarrow> \<exists>ms'. insert_scan ts m ms = Some ms'"
proof (induction ms)
  case (Cons x xs)
  then obtain ms' where "insert_scan ts m xs = Some ms'"
    by (auto simp: common_basis_def)
  moreover have "CompareTimestamps (ts m) (ts x) \<noteq> NotComparable"
    by (rule CompareTimestamps_comparable, rule common_basis_subset [OF Cons.prems]) auto
  ultimately show ?case by (auto split: TimestampOrdering.splits)
qed simp

text \<open>The scan splits the buffer where the new entry goes.\<close>

lemma insert_scan_split:
  assumes "insert_scan ts m ms = Some ms'"
  shows "\<exists>xs ys. ms = xs @ ys \<and> ms' = xs @ m # ys \<and>
    (\<forall>x\<in>set xs. CompareTimestamps (ts m) (ts x) = After) \<and>
    (ys \<noteq> [] \<longrightarrow> not_after (ts m) (ts (hd ys)))"
  using assms
proof (induction ms arbitrary: ms')
  case Nil
  then show ?case by simp
next
  case (Cons x xs)
  show ?case
  proof (cases "CompareTimestamps (ts m) (ts x) = After")
    case True
    with Cons.prems obtain ms'' where "insert_scan ts m xs = Some ms''" "ms' = x # ms''"
      by auto
    with Cons.IH True obtain us vs where "xs = us @ vs" "ms'' = us @ m # vs"
      "\<forall>u\<in>set us. CompareTimestamps (ts m) (ts u) = After"
      "vs \<noteq> [] \<longrightarrow> not_after (ts m) (ts (hd vs))" by blast
    with True \<open>ms' = x # ms''\<close> show ?thesis
      by (intro exI [of _ "x # us"] exI [of _ vs]) auto
  next
    case False
    with Cons.prems have "ms' = m # x # xs" "not_after (ts m) (ts x)"
      by (auto simp: not_after_def split: TimestampOrdering.splits)
    then show ?thesis by (intro exI [of _ "[]"] exI [of _ "x # xs"]) auto
  qed
qed

lemma insert_scan_sorted:
  assumes scan: "insert_scan ts m ms = Some ms'"
    and sorted: "time_sorted ts ms"
    and basis: "common_basis (insert (ts m) (ts ` set ms))"
  shows "time_sorted ts ms'"
proof -
  obtain xs ys where split: "ms = xs @ ys" "ms' = xs @ m # ys"
    and before: "\<forall>x\<in>set xs. CompareTimestamps (ts m) (ts x) = After"
    and hd: "ys \<noteq> [] \<longrightarrow> not_after (ts m) (ts (hd ys))"
    using insert_scan_split [OF scan] by blast
  have after: "not_after (ts m) (ts y)" if y: "y \<in> set ys" for y
  proof (cases ys)
    case (Cons z zs)
    with sorted split y have "y = z \<or> not_after (ts z) (ts y)"
      by (auto simp: time_sorted_def sorted_wrt_append)
    moreover have "common_basis {ts m, ts z, ts y}"
      using basis by (rule common_basis_subset) (use split Cons y in auto)
    ultimately show ?thesis using hd Cons not_after_trans by auto
  qed (use y in simp)
  show ?thesis
    using sorted before after unfolding time_sorted_def split
    by (intro sorted_wrt_insert_between) (auto intro: After_not_after)
qed

lemma append_sorted:
  assumes "ms \<noteq> []" "time_sorted ts ms" "not_after (ts (last ms)) (ts m)"
    and basis: "common_basis (insert (ts m) (ts ` set ms))"
  shows "time_sorted ts (ms @ [m])"
proof -
  have "not_after (ts x) (ts m)" if x: "x \<in> set ms" for x
  proof -
    have "x = last ms \<or> not_after (ts x) (ts (last ms))"
      using assms(1,2) x append_butlast_last_id [OF assms(1)]
      by (metis (mono_tags, lifting) UnE append_butlast_last_id list.set_intros(1)
          set_ConsD set_append sorted_wrt_append time_sorted_def empty_iff list.set(1))
    moreover have "common_basis {ts x, ts (last ms), ts m}"
      using basis by (rule common_basis_subset) (use x assms(1) in auto)
    ultimately show ?thesis using assms(3) not_after_trans by blast
  qed
  with assms(2) show ?thesis by (simp add: time_sorted_def sorted_wrt_append)
qed

lemma EnforceMaxSize_cases:
  "EnforceMaxSize b r = (r, b) \<and> (max_size b = 0 \<or> length (measurements b) \<le> max_size b) \<or>
   EnforceMaxSize b r = (InsertedAndDroppedOldest, b\<lparr>measurements := tl (measurements b)\<rparr>) \<and>
   max_size b \<noteq> 0 \<and> max_size b < length (measurements b)"
  by (auto simp: EnforceMaxSize_def)

text \<open>What one insertion did, whatever path it took.\<close>

lemma Insert_outcome:
  "Insert ts b m = (RejectedNotComparable, b) \<or> Insert ts b m = (RejectedOutOfOrder, b) \<or>
   (\<exists>ms. Insert ts b m = EnforceMaxSize (b\<lparr>measurements := ms\<rparr>) Inserted \<and>
      mset ms = add_mset m (mset (measurements b)) \<and>
      (buffer_ok ts b \<and> common_basis (insert (ts m) (ts ` set (measurements b)))
         \<longrightarrow> time_sorted ts ms)) \<or>
   measurements b = [] \<and> Insert ts b m = (Inserted, b\<lparr>measurements := [m]\<rparr>)"
proof (cases "measurements b = []")
  case False
  note ne = False
  show ?thesis
  proof (cases "CompareTimestamps (ts (last (measurements b))) (ts m)")
    case Before
    with ne append_sorted [of "measurements b" ts m] show ?thesis
      by (auto simp: Insert_def not_after_def buffer_ok_def
          intro!: exI [of _ "measurements b @ [m]"])
  next
    case Equal
    with ne append_sorted [of "measurements b" ts m] show ?thesis
      by (auto simp: Insert_def not_after_def buffer_ok_def
          intro!: exI [of _ "measurements b @ [m]"])
  next
    case After
    show ?thesis
    proof (cases "insert_scan ts m (measurements b)")
      case (Some ms)
      with ne After insert_scan_set [OF Some] insert_scan_sorted [OF Some] show ?thesis
        by (auto simp: Insert_def buffer_ok_def intro!: exI [of _ ms])
    qed (use ne After in \<open>auto simp: Insert_def\<close>)
  qed (use ne in \<open>simp add: Insert_def\<close>)
qed (simp add: Insert_def)


definition insert_post ::
  "('m \<Rightarrow> Timestamp) \<Rightarrow> 'm TimeOrderedBuffer \<Rightarrow> 'm \<Rightarrow> BufferInsertResult \<Rightarrow> 'm TimeOrderedBuffer \<Rightarrow> bool"
where
  "insert_post ts b m r b' \<longleftrightarrow>
     (case r of
        Inserted \<Rightarrow> mset (measurements b') = add_mset m (mset (measurements b))
      | InsertedAndDroppedOldest \<Rightarrow>
          length (measurements b') = max_size b \<and>
          (\<exists>old. add_mset old (mset (measurements b')) = add_mset m (mset (measurements b)) \<and>
             (\<forall>x\<in>set (measurements b'). not_after (ts old) (ts x)))
      | RejectedOutOfOrder \<Rightarrow>
          b' = b \<and> \<not> allow_out_of_order_insert b \<and>
          (\<exists>l. Latest b = Some l \<and> IsBefore (ts m) (ts l))
      | RejectedNotComparable \<Rightarrow> False)"

lemma EnforceMaxSize_ok:
  assumes "EnforceMaxSize (b\<lparr>measurements := ms\<rparr>) Inserted = (r, b')"
    and ms: "mset ms = add_mset m (mset (measurements b))"
    and sorted: "time_sorted ts ms"
    and basis: "common_basis (insert (ts m) (ts ` set (measurements b)))"
    and ok: "buffer_ok ts b"
  shows "buffer_ok ts b' \<and> insert_post ts b m r b'"
proof -
  have set_ms: "set ms = insert m (set (measurements b))"
    using ms by (metis set_mset_add_mset_insert set_mset_mset)
  then have basis': "common_basis (ts ` set ms)" using basis by simp
  have len: "length ms = Suc (length (measurements b))"
    using ms by (metis size_add_mset size_mset)
  show ?thesis
  proof (cases "max_size b = 0 \<or> length ms \<le> max_size b")
    case True
    with assms(1) have "r = Inserted" "b' = b\<lparr>measurements := ms\<rparr>"
      by (auto simp: EnforceMaxSize_def)
    with True ms sorted basis' show ?thesis by (auto simp: buffer_ok_def insert_post_def)
  next
    case False
    with assms(1) have r: "r = InsertedAndDroppedOldest"
      and b': "b' = b\<lparr>measurements := tl ms\<rparr>" by (auto simp: EnforceMaxSize_def)
    obtain old rest where ms_eq: "ms = old # rest" using len by (cases ms) auto
    from False ok len have "length rest = max_size b"
      by (auto simp: ms_eq buffer_ok_def)
    moreover have "common_basis (ts ` set rest)"
      using basis' by (rule common_basis_subset) (auto simp: ms_eq)
    ultimately show ?thesis
      using sorted ms by (auto simp: r b' ms_eq buffer_ok_def insert_post_def time_sorted_def)
  qed
qed

lemma Insert_ooo_reason:
  assumes "Insert ts b m = (RejectedOutOfOrder, b')"
  shows "b' = b \<and> \<not> allow_out_of_order_insert b \<and>
    (\<exists>l. Latest b = Some l \<and> IsBefore (ts m) (ts l))"
proof -
  have e: "EnforceMaxSize c Inserted \<noteq> (RejectedOutOfOrder, b')" for c :: "'a TimeOrderedBuffer"
    using EnforceMaxSize_cases [of c Inserted] by auto
  from assms e have "measurements b \<noteq> []"
    and "CompareTimestamps (ts (last (measurements b))) (ts m) = After"
    and "b' = b" "\<not> allow_out_of_order_insert b"
    by (auto simp: Insert_def split: if_splits TimestampOrdering.splits option.splits)
  then show ?thesis
    using CompareTimestamps_flip [of "ts m" "ts (last (measurements b))"]
    by (auto simp: Latest_def IsBefore_def split: list.splits)
qed

lemma Insert_comparable:
  assumes "common_basis (insert (ts m) (ts ` set (measurements b)))"
  shows "fst (Insert ts b m) \<noteq> RejectedNotComparable"
proof -
  have e: "fst (EnforceMaxSize c Inserted) \<noteq> RejectedNotComparable"
    for c :: "'a TimeOrderedBuffer"
    using EnforceMaxSize_cases [of c Inserted] by auto
  obtain ms where scan: "insert_scan ts m (measurements b) = Some ms"
    using insert_scan_comparable [OF assms] by blast
  have "measurements b \<noteq> [] \<Longrightarrow>
    CompareTimestamps (ts (last (measurements b))) (ts m) \<noteq> NotComparable"
    by (rule CompareTimestamps_comparable, rule common_basis_subset [OF assms]) auto
  then show ?thesis using scan e
    by (auto simp: Insert_def split: TimestampOrdering.splits)
qed

text \<open>
  C36. Inserting a measurement that shares the buffer's time basis keeps the buffer sorted and
  within its bound. An accepted measurement is added and nothing else changes, unless the
  bound is reached: then exactly one entry that is not after any survivor is evicted. The
  only possible rejection is of a measurement older than the newest one while reordering is
  disabled, and it leaves the buffer untouched.
\<close>

theorem Insert_correct:
  assumes "buffer_ok ts b"
    and "common_basis (insert (ts m) (ts ` set (measurements b)))"
    and "Insert ts b m = (r, b')"
  shows "buffer_ok ts b' \<and> insert_post ts b m r b'"
proof -
  consider "r = RejectedNotComparable" | "r = RejectedOutOfOrder"
    | ms where "EnforceMaxSize (b\<lparr>measurements := ms\<rparr>) Inserted = (r, b')"
        "mset ms = add_mset m (mset (measurements b))" "time_sorted ts ms"
    | "measurements b = []" "(r, b') = (Inserted, b\<lparr>measurements := [m]\<rparr>)"
    using Insert_outcome [of ts b m] assms by auto
  then show ?thesis
  proof cases
    case 1
    with Insert_comparable [OF assms(2)] assms(3) show ?thesis by simp
  next
    case 2
    with Insert_ooo_reason [of ts b m b'] assms(1,3) show ?thesis by (auto simp: insert_post_def)
  next
    case 3
    show ?thesis by (rule EnforceMaxSize_ok [OF 3 assms(2,1)])
  next
    case 4
    with assms(2) show ?thesis by (auto simp: buffer_ok_def insert_post_def time_sorted_def)
  qed
qed

lemma Insert_correct_witness:
  "\<exists>b'. Insert id \<lparr>max_size = 2, allow_out_of_order_insert = True,
           measurements = [steady_at 1, steady_at 5]\<rparr> (steady_at 3)
         = (InsertedAndDroppedOldest, b') \<and> measurements b' = [steady_at 3, steady_at 5] \<and>
       buffer_ok id b'"
proof -
  let ?b = "\<lparr>max_size = 2, allow_out_of_order_insert = True,
      measurements = [steady_at 1, steady_at 5]\<rparr>"
  let ?b' = "?b\<lparr>measurements := [steady_at 3, steady_at 5]\<rparr>"
  have ok: "buffer_ok id ?b"
    by (simp add: buffer_ok_def time_sorted_def common_basis_def not_after_def
        CompareTimestamps_def steady_at_def)
  have basis: "common_basis (insert (id (steady_at 3)) (id ` set (measurements ?b)))"
    by (simp add: common_basis_def steady_at_def)
  have ins: "Insert id ?b (steady_at 3) = (InsertedAndDroppedOldest, ?b')"
    by (simp add: Insert_def EnforceMaxSize_def CompareTimestamps_def steady_at_def)
  show ?thesis using Insert_correct [OF ok basis ins] ins by auto
qed

text \<open>
  Without a shared basis the ordering promise fails: three insertions, each accepted,
  can leave a measurement in the buffer behind a later one.
\<close>

theorem Insert_mixed_basis_unsorted:
  "\<exists>x y z b1 b2 b3.
     Insert id (TimeOrderedBuffer_new 0 True) x = (Inserted, b1) \<and>
     Insert id b1 y = (Inserted, b2) \<and> Insert id b2 z = (Inserted, b3) \<and>
     \<not> time_sorted id (measurements b3)"
proof -
  let ?x = "gps_at 1 5"
  let ?y = "(gps_at 1 6)\<lparr>steady := MonotonicTime 1, has_steady := True\<rparr>"
  let ?z = "(gps_at 1 4)\<lparr>steady := MonotonicTime 2, has_steady := True\<rparr>"
  have "Insert id (TimeOrderedBuffer_new 0 True) ?x
      = (Inserted, TimeOrderedBuffer_new 0 True\<lparr>measurements := [?x]\<rparr>)"
    by (simp add: Insert_def TimeOrderedBuffer_new_def)
  moreover have "Insert id (TimeOrderedBuffer_new 0 True\<lparr>measurements := [?x]\<rparr>) ?y
      = (Inserted, TimeOrderedBuffer_new 0 True\<lparr>measurements := [?x, ?y]\<rparr>)"
    by (simp add: Insert_def TimeOrderedBuffer_new_def EnforceMaxSize_def CompareTimestamps_def
        CompareGpsTime_def gps_at_def Timestamp_default_def)
  moreover have "Insert id (TimeOrderedBuffer_new 0 True\<lparr>measurements := [?x, ?y]\<rparr>) ?z
      = (Inserted, TimeOrderedBuffer_new 0 True\<lparr>measurements := [?x, ?y, ?z]\<rparr>)"
    by (simp add: Insert_def TimeOrderedBuffer_new_def EnforceMaxSize_def CompareTimestamps_def
        CompareGpsTime_def gps_at_def Timestamp_default_def)
  moreover have "\<not> time_sorted id [?x, ?y, ?z]"
    by (simp add: time_sorted_def not_after_def CompareTimestamps_def CompareGpsTime_def
        gps_at_def Timestamp_default_def)
  ultimately show ?thesis by (metis TimeOrderedBuffer.select_convs(3) TimeOrderedBuffer.surjective
      TimeOrderedBuffer.update_convs(3))
qed

section \<open>Popping\<close>

lemma pop_loop_takeWhile:
  "pop_loop ts t e ms = (takeWhile (\<lambda>x. should_pop (CompareTimestamps (ts x) t) e) ms,
     dropWhile (\<lambda>x. should_pop (CompareTimestamps (ts x) t) e) ms)"
  by (induction ms) (auto simp: Let_def should_pop_def)

lemma PopUntil_split:
  "fst (PopUntil ts b t e) @ measurements (snd (PopUntil ts b t e)) = measurements b"
  by (simp add: PopUntil_def pop_loop_takeWhile)

lemma PopUntil_popped:
  "x \<in> set (fst (PopUntil ts b t e)) \<Longrightarrow> should_pop (CompareTimestamps (ts x) t) e"
  by (auto simp: PopUntil_def pop_loop_takeWhile dest: set_takeWhileD)

lemma PopUntil_frame [simp]:
  "max_size (snd (PopUntil ts b t e)) = max_size b"
  "allow_out_of_order_insert (snd (PopUntil ts b t e)) = allow_out_of_order_insert b"
  by (simp_all add: PopUntil_def pop_loop_takeWhile)

lemma buffer_ok_suffix:
  assumes "buffer_ok ts b" and "popped @ rest = measurements b"
  shows "buffer_ok ts (b\<lparr>measurements := rest\<rparr>) \<and> time_sorted ts popped"
proof -
  have "common_basis (ts ` (set popped \<union> set rest))"
    using assms by (metis buffer_ok_def set_append)
  then have "common_basis (ts ` set rest)" by (rule common_basis_subset) auto
  moreover have "time_sorted ts (popped @ rest)"
    "max_size b = 0 \<or> length (popped @ rest) \<le> max_size b"
    using assms by (simp_all add: buffer_ok_def)
  ultimately show ?thesis by (auto simp: buffer_ok_def time_sorted_def sorted_wrt_append)
qed

lemma buffer_ok_PopUntil [fg_inv]:
  "buffer_ok ts b \<Longrightarrow> buffer_ok ts (snd (PopUntil ts b t e))"
  using buffer_ok_suffix [OF _ takeWhile_dropWhile_id, of ts b]
  by (simp add: PopUntil_def pop_loop_takeWhile)

lemma should_pop_earlier:
  assumes "common_basis {y, x, t}" and "not_after y x"
    and "should_pop (CompareTimestamps x t) e"
  shows "should_pop (CompareTimestamps y t) e"
  using not_after_trans [OF assms(1,2)] not_after_Before_trans [OF assms(1,2)] assms(3)
  by (auto simp: should_pop_def not_after_def)

lemma PopUntil_rest:
  assumes ok: "buffer_ok ts b"
    and basis: "common_basis (insert t (ts ` set (measurements b)))"
    and x: "x \<in> set (measurements (snd (PopUntil ts b t e)))"
  shows "\<not> should_pop (CompareTimestamps (ts x) t) e"
proof -
  let ?P = "\<lambda>x. should_pop (CompareTimestamps (ts x) t) e"
  let ?rest = "dropWhile ?P (measurements b)"
  have rest: "measurements (snd (PopUntil ts b t e)) = ?rest"
    by (simp add: PopUntil_def pop_loop_takeWhile)
  obtain y ys where y: "?rest = y # ys" using x rest by (cases ?rest) auto
  then have np: "\<not> ?P y" by (rule dropWhile_hd_False)
  have "sorted_wrt (\<lambda>x y. not_after (ts x) (ts y)) (takeWhile ?P (measurements b) @ ?rest)"
    using ok by (simp add: buffer_ok_def time_sorted_def)
  then have "x = y \<or> not_after (ts y) (ts x)"
    using x rest y by (auto simp: sorted_wrt_append)
  moreover have "y \<in> set (measurements b)" "x \<in> set (measurements b)"
    using x y unfolding rest by (auto dest: set_dropWhileD [of _ ?P] intro: set_dropWhileD [of _ ?P])
  then have "common_basis {ts y, ts x, t}"
    by (intro common_basis_subset [OF basis]) auto
  ultimately show ?thesis using np should_pop_earlier by blast
qed

text \<open>
  C37. Popping up to a target takes a prefix in chronological order and loses nothing: the
  popped measurements followed by the remaining ones are the old contents, everything popped
  is at or before the target (strictly before when equal entries are excluded), everything
  left is after it, and the buffer stays well formed.
\<close>

theorem PopUntil_correct:
  assumes "buffer_ok ts b"
    and "common_basis (insert t (ts ` set (measurements b)))"
    and "PopUntil ts b t include_equal = (popped, b')"
  shows "popped @ measurements b' = measurements b \<and> time_sorted ts popped \<and> buffer_ok ts b' \<and>
    popped = filter (\<lambda>x. IsBefore (ts x) t \<or> include_equal \<and> IsEqualTime (ts x) t) (measurements b) \<and>
    (\<forall>x\<in>set (measurements b'). \<not> IsBefore (ts x) t \<and> (include_equal \<longrightarrow> IsAfter (ts x) t))"
proof -
  let ?P = "\<lambda>x. should_pop (CompareTimestamps (ts x) t) include_equal"
  have split: "popped @ measurements b' = measurements b"
    using PopUntil_split [of ts b t include_equal] assms(3) by simp
  have yes: "\<forall>x\<in>set popped. ?P x"
    using PopUntil_popped [of _ ts b t include_equal] assms(3) by simp
  have no: "\<forall>x\<in>set (measurements b'). \<not> ?P x"
    using PopUntil_rest [OF assms(1,2), of _ include_equal] assms(3) by simp
  have cmp: "CompareTimestamps (ts x) t \<noteq> NotComparable" if "x \<in> set (measurements b)" for x
    by (rule CompareTimestamps_comparable, rule common_basis_subset [OF assms(2)]) (use that in auto)
  have mem: "set (measurements b') \<subseteq> set (measurements b)"
    using split by (metis Un_upper2 set_append)
  have "time_sorted ts popped"
    using buffer_ok_suffix [OF assms(1) split] by simp
  moreover have "filter ?P (popped @ measurements b') = popped"
    using yes no by simp
  then have "filter ?P (measurements b) = popped" by (simp only: split)
  moreover have "buffer_ok ts b'"
    using buffer_ok_PopUntil [OF assms(1), of t include_equal] assms(3) by simp
  moreover have "\<not> IsBefore (ts x) t \<and> (include_equal \<longrightarrow> IsAfter (ts x) t)"
    if "x \<in> set (measurements b')" for x
    using no that cmp [of x] mem
    by (cases "CompareTimestamps (ts x) t") (auto simp: should_pop_def IsBefore_def IsAfter_def)
  ultimately show ?thesis
    using split by (auto simp: should_pop_def IsBefore_def IsEqualTime_def)
qed

lemma PopUntil_correct_witness:
  "\<exists>b'. PopUntil id \<lparr>max_size = 0, allow_out_of_order_insert = True,
           measurements = [steady_at 1, steady_at 3, steady_at 5]\<rparr> (steady_at 3) True
         = ([steady_at 1, steady_at 3], b') \<and> measurements b' = [steady_at 5]"
proof -
  let ?b = "\<lparr>max_size = 0, allow_out_of_order_insert = True,
      measurements = [steady_at 1, steady_at 3, steady_at 5]\<rparr>"
  have ok: "buffer_ok id ?b"
    by (simp add: buffer_ok_def time_sorted_def common_basis_def not_after_def
        CompareTimestamps_def steady_at_def)
  have basis: "common_basis (insert (steady_at 3) (id ` set (measurements ?b)))"
    by (simp add: common_basis_def steady_at_def)
  have pop: "PopUntil id ?b (steady_at 3) True
      = ([steady_at 1, steady_at 3], ?b\<lparr>measurements := [steady_at 5]\<rparr>)"
    by (simp add: PopUntil_def pop_loop_takeWhile should_pop_def CompareTimestamps_def
        steady_at_def)
  show ?thesis using PopUntil_correct [OF ok basis pop] pop by auto
qed


section \<open>The interface the estimators use\<close>

text \<open>
  An estimator stores IMU samples in the buffer and takes them out again in batches, each up
  to the time of the next aiding measurement. What it relies on is stated once here: a batch
  is cut off the front, at or before the target, and what stays behind is after it.
\<close>

locale time_buffer =
  fixes items :: "'b \<Rightarrow> 'm list"
    and stamp :: "'m \<Rightarrow> Timestamp"
    and ok :: "'b \<Rightarrow> bool"
    and pop :: "'b \<Rightarrow> Timestamp \<Rightarrow> 'm list \<times> 'b"
  assumes ok_sorted: "ok b \<Longrightarrow> time_sorted stamp (items b)"
    and ok_pop: "ok b \<Longrightarrow> ok (snd (pop b t))"
    and pop_split: "fst (pop b t) @ items (snd (pop b t)) = items b"
    and pop_upto: "x \<in> set (fst (pop b t)) \<Longrightarrow> not_after (stamp x) t"
    and pop_rest: "ok b \<Longrightarrow> common_basis (insert t (stamp ` set (items b))) \<Longrightarrow>
      x \<in> set (items (snd (pop b t))) \<Longrightarrow> IsAfter (stamp x) t"
begin

lemma popped_sorted:
  assumes "ok b"
  shows "time_sorted stamp (fst (pop b t))"
proof -
  have "time_sorted stamp (fst (pop b t) @ items (snd (pop b t)))"
    using ok_sorted [OF assms] by (simp only: pop_split)
  then show ?thesis by (simp add: time_sorted_def sorted_wrt_append)
qed

lemma items_pop_subset: "set (items (snd (pop b t))) \<subseteq> set (items b)"
  using pop_split [of b t] by (metis Un_upper2 set_append)

lemma popped_subset: "set (fst (pop b t)) \<subseteq> set (items b)"
  using pop_split [of b t] by (metis Un_upper1 set_append)

text \<open>Consecutive batches are consecutive in time.\<close>

lemma consecutive_batches:
  assumes "ok b" and "common_basis (insert t (stamp ` set (items b)))"
    and "pop b t = (batch, b')" and "pop b' t' = (batch', b'')"
  shows "time_sorted stamp (batch @ batch') \<and> (\<forall>x\<in>set batch'. IsAfter (stamp x) t)"
proof -
  have s1: "batch @ items b' = items b" using pop_split [of b t] assms(3) by simp
  have s2: "batch' @ items b'' = items b'" using pop_split [of b' t'] assms(4) by simp
  have "time_sorted stamp (batch @ (batch' @ items b''))"
    using ok_sorted [OF assms(1)] by (simp only: s1 s2)
  then have "time_sorted stamp (batch @ batch')"
    by (auto simp: time_sorted_def sorted_wrt_append)
  moreover have "IsAfter (stamp x) t" if "x \<in> set batch'" for x
  proof -
    have "x \<in> set (items b')" using that s2 by (metis Un_iff set_append)
    then show ?thesis using pop_rest [OF assms(1,2)] assms(3) by simp
  qed
  ultimately show ?thesis by blast
qed

end

interpretation buffer: time_buffer measurements ts "buffer_ok ts" "\<lambda>b t. PopUntil ts b t True"
  for ts :: "'m \<Rightarrow> Timestamp"
proof unfold_locales
  fix b :: "'m TimeOrderedBuffer" and t x
  show "buffer_ok ts b \<Longrightarrow> time_sorted ts (measurements b)" by (simp add: buffer_ok_def)
  show "buffer_ok ts b \<Longrightarrow> buffer_ok ts (snd (PopUntil ts b t True))"
    by (rule buffer_ok_PopUntil)
  show "fst (PopUntil ts b t True) @ measurements (snd (PopUntil ts b t True)) = measurements b"
    by (rule PopUntil_split)
  show "x \<in> set (fst (PopUntil ts b t True)) \<Longrightarrow> not_after (ts x) t"
    using PopUntil_popped [of x ts b t True] by (auto simp: should_pop_def not_after_def)
  assume "buffer_ok ts b" "common_basis (insert t (ts ` set (measurements b)))"
    "x \<in> set (measurements (snd (PopUntil ts b t True)))"
  moreover from this have "x \<in> set (measurements b)"
    using PopUntil_split [of ts b t True] by (metis Un_iff set_append)
  moreover from calculation have "common_basis {ts x, t}"
    by (elim common_basis_subset) auto
  ultimately show "IsAfter (ts x) t"
    using PopUntil_rest [of ts b t x True] CompareTimestamps_comparable [of "ts x" t]
    by (cases "CompareTimestamps (ts x) t") (auto simp: should_pop_def IsAfter_def)
qed

end
