(* ===== verification/Fg_Estimator.thy ===== *)
theory Fg_Estimator
  imports Fg_Sensors Fg_Buffer
begin

text \<open>
  The navigation output of \<^verbatim>\<open>src/core/include/falconguide/core/navigation_state.hpp\<close>, the
  backend-neutral interface of
  \<^verbatim>\<open>src/estimation/include/falconguide/estimation/estimator_interface.hpp\<close>, the accessors of
  \<^verbatim>\<open>measurement_variant_helpers.hpp\<close> and the diagnostic names of \<^verbatim>\<open>diagnostics.hpp\<close>.
\<close>

section \<open>navigation\_state.hpp\<close>

datatype NavigationStatus =
    Status_Unknown | Status_NotInitialized | Status_Initializing | Nominal | Status_Degraded
  | DeadReckoning | Status_Fault

datatype EstimatorMode =
    Mode_Unknown | InertialOnly | VisualInertial | GnssInertial | VisualInertialGnss
  | MultiSensorFusion

datatype SensorHealth =
    Health_Unknown | Healthy | Health_Degraded | Health_Rejected | Missing | Stale | Health_Fault

record SensorStatus =
  health :: SensorHealth
  used_in_solution :: bool
  innovation_norm :: "real option"
  last_update_age_s :: "real option"

definition SensorStatus_default :: SensorStatus where
  "SensorStatus_default =
     \<lparr>health = Health_Unknown, used_in_solution = False, innovation_norm = None,
      last_update_age_s = None\<rparr>"

record NavigationSensorStatus =
  ss_imu :: SensorStatus
  ss_gnss :: SensorStatus
  ss_magnetometer :: SensorStatus
  ss_barometer :: SensorStatus
  ss_radar_altimeter :: SensorStatus
  ss_range_finder :: SensorStatus
  ss_optical_flow :: SensorStatus
  ss_wheel_odometry :: SensorStatus
  ss_airspeed :: SensorStatus
  ss_dvl :: SensorStatus
  ss_echo_sounder :: SensorStatus
  ss_camera :: SensorStatus
  ss_visual_odometry :: SensorStatus
  ss_geo_reference :: SensorStatus
  ss_terrain_contour_matching :: SensorStatus
  ss_external_slam :: SensorStatus
  ss_external_pose :: SensorStatus
  ss_external_velocity :: SensorStatus
  ss_external_odometry :: SensorStatus

definition NavigationSensorStatus_default :: NavigationSensorStatus where
  "NavigationSensorStatus_default =
     (let d = SensorStatus_default in
      \<lparr>ss_imu = d, ss_gnss = d, ss_magnetometer = d, ss_barometer = d, ss_radar_altimeter = d,
       ss_range_finder = d, ss_optical_flow = d, ss_wheel_odometry = d, ss_airspeed = d,
       ss_dvl = d, ss_echo_sounder = d, ss_camera = d, ss_visual_odometry = d,
       ss_geo_reference = d, ss_terrain_contour_matching = d, ss_external_slam = d,
       ss_external_pose = d, ss_external_velocity = d, ss_external_odometry = d\<rparr>)"

record NavigationQuality =
  initialized :: bool
  degraded :: bool
  position_accuracy_m :: "real option"
  velocity_accuracy_mps :: "real option"
  attitude_accuracy_rad :: "real option"
  horizontal_accuracy_m :: "real option"
  vertical_accuracy_m :: "real option"

definition NavigationQuality_default :: NavigationQuality where
  "NavigationQuality_default =
     \<lparr>initialized = False, degraded = False, position_accuracy_m = None,
      velocity_accuracy_mps = None, attitude_accuracy_rad = None, horizontal_accuracy_m = None,
      vertical_accuracy_m = None\<rparr>"

record NavigationState =
  nav_timestamp :: Timestamp
  nav_position_ecef_m :: "EcefFrame Vec3"
  nav_velocity_ecef_mps :: "EcefFrame Vec3"
  nav_position_enu_m :: "EnuFrame Vec3"
  nav_velocity_enu_mps :: "EnuFrame Vec3"
  nav_orientation_body_to_enu :: Quaterniond
  nav_angular_rate_body_radps :: "BodyFrame Vec3"
  nav_specific_force_body_mps2 :: "BodyFrame Vec3"
  nav_covariance :: MatrixXd
  nav_status :: NavigationStatus
  nav_mode :: EstimatorMode
  nav_quality :: NavigationQuality
  nav_sensors :: NavigationSensorStatus

definition NavigationState_default :: NavigationState where
  "NavigationState_default =
     \<lparr>nav_timestamp = Timestamp_default, nav_position_ecef_m = Vec3_zero,
      nav_velocity_ecef_mps = Vec3_zero, nav_position_enu_m = Vec3_zero,
      nav_velocity_enu_mps = Vec3_zero, nav_orientation_body_to_enu = Quaterniond_Identity,
      nav_angular_rate_body_radps = Vec3_zero, nav_specific_force_body_mps2 = Vec3_zero,
      nav_covariance = Matrix_Zero 15 15, nav_status = Status_Unknown, nav_mode = Mode_Unknown,
      nav_quality = NavigationQuality_default, nav_sensors = NavigationSensorStatus_default\<rparr>"

section \<open>estimator\_interface.hpp\<close>

datatype SensorMeasurement =
    M_Imu ImuMeasurement
  | M_Magnetometer MagnetometerMeasurement
  | M_Barometer BarometerMeasurement
  | M_RadarAltimeter RadarAltimeterMeasurement
  | M_WheelEncoder WheelEncoderMeasurement
  | M_WheelOdometry WheelOdometryMeasurement
  | M_Airspeed AirspeedMeasurement
  | M_RangeFinder RangeFinderMeasurement
  | M_OpticalFlow OpticalFlowMeasurement
  | M_Dvl DvlMeasurement
  | M_EchoSounder EchoSounderMeasurement
  | M_ExternalPose ExternalPoseMeasurement
  | M_ExternalVelocity ExternalVelocityMeasurement
  | M_ExternalOdometry ExternalOdometryMeasurement
  | M_GnssObservation GnssObservationEpoch
  | M_GnssSolution GnssSolution
  | M_CameraFrame CameraFrameMeasurement
  | M_GeoReferenceImage GeoReferenceImageMeasurement
  | M_AidingSolution AidingSolution
  | M_StarTracker StarTrackerMeasurement
  | M_GnssTightlyCoupled GnssTightlyCoupledEpoch

datatype EstimatorBackend = Backend_Unknown | Ekf | CeresSlidingWindow | GtsamFactorGraph | Custom

datatype EstimatorUpdateResult =
    Accepted | Buffered | Rejected | Result_OutOfOrder | NotInitialized | BackendError

record MeasurementUpdateReport =
  result :: EstimatorUpdateResult
  model_name :: string
  correction_norm :: "real option"

definition report :: "EstimatorUpdateResult \<Rightarrow> MeasurementUpdateReport" where
  "report r = \<lparr>result = r, model_name = [], correction_norm = None\<rparr>"

record EstimatorOptions =
  eo_backend :: EstimatorBackend
  max_buffered_measurements :: nat
  enable_sensor_health_reporting :: bool
  enable_covariance_output :: bool

definition EstimatorOptions_default :: EstimatorOptions where
  "EstimatorOptions_default =
     \<lparr>eo_backend = Backend_Unknown, max_buffered_measurements = 0,
      enable_sensor_health_reporting = True, enable_covariance_output = True\<rparr>"

record EstimatorInfo =
  info_backend :: EstimatorBackend
  info_name :: string
  info_version :: string

section \<open>measurement\_variant\_helpers.hpp\<close>

fun GetTimestamp :: "SensorMeasurement \<Rightarrow> Timestamp" where
  "GetTimestamp (M_Imu m) = imu_timestamp m"
| "GetTimestamp (M_Magnetometer m) = mag_timestamp m"
| "GetTimestamp (M_Barometer m) = baro_timestamp m"
| "GetTimestamp (M_RadarAltimeter m) = ralt_timestamp m"
| "GetTimestamp (M_WheelEncoder m) = we_timestamp m"
| "GetTimestamp (M_WheelOdometry m) = odo_timestamp m"
| "GetTimestamp (M_Airspeed m) = asp_timestamp m"
| "GetTimestamp (M_RangeFinder m) = rf_timestamp m"
| "GetTimestamp (M_OpticalFlow m) = of_timestamp m"
| "GetTimestamp (M_Dvl m) = dvl_timestamp m"
| "GetTimestamp (M_EchoSounder m) = es_timestamp m"
| "GetTimestamp (M_ExternalPose m) = ep_timestamp m"
| "GetTimestamp (M_ExternalVelocity m) = ev_timestamp m"
| "GetTimestamp (M_ExternalOdometry m) = eo_timestamp m"
| "GetTimestamp (M_GnssObservation m) = goe_timestamp m"
| "GetTimestamp (M_GnssSolution m) = gnss_timestamp m"
| "GetTimestamp (M_CameraFrame m) = cam_timestamp m"
| "GetTimestamp (M_GeoReferenceImage m) = geo_timestamp m"
| "GetTimestamp (M_AidingSolution m) = aid_timestamp m"
| "GetTimestamp (M_StarTracker m) = st_timestamp m"
| "GetTimestamp (M_GnssTightlyCoupled m) = tce_timestamp m"

fun GetValidity :: "SensorMeasurement \<Rightarrow> MeasurementValidity" where
  "GetValidity (M_Imu m) = imu_validity m"
| "GetValidity (M_Magnetometer m) = mag_validity m"
| "GetValidity (M_Barometer m) = baro_validity m"
| "GetValidity (M_RadarAltimeter m) = ralt_validity m"
| "GetValidity (M_WheelEncoder m) = we_validity m"
| "GetValidity (M_WheelOdometry m) = odo_validity m"
| "GetValidity (M_Airspeed m) = asp_validity m"
| "GetValidity (M_RangeFinder m) = rf_validity m"
| "GetValidity (M_OpticalFlow m) = of_validity m"
| "GetValidity (M_Dvl m) = dvl_validity m"
| "GetValidity (M_EchoSounder m) = es_validity m"
| "GetValidity (M_ExternalPose m) = ep_validity m"
| "GetValidity (M_ExternalVelocity m) = ev_validity m"
| "GetValidity (M_ExternalOdometry m) = eo_validity m"
| "GetValidity (M_GnssObservation m) = goe_validity m"
| "GetValidity (M_GnssSolution m) = gnss_validity m"
| "GetValidity (M_CameraFrame m) = cam_validity m"
| "GetValidity (M_GeoReferenceImage m) = geo_validity m"
| "GetValidity (M_AidingSolution m) = aid_validity m"
| "GetValidity (M_StarTracker m) = st_validity m"
| "GetValidity (M_GnssTightlyCoupled m) = tce_validity m"

definition IsValid :: "SensorMeasurement \<Rightarrow> bool" where
  "IsValid m \<longleftrightarrow> GetValidity m = Valid"

fun is_imu :: "SensorMeasurement \<Rightarrow> bool" where
  "is_imu (M_Imu _) = True"
| "is_imu _ = False"

fun is_gnss_solution :: "SensorMeasurement \<Rightarrow> bool" where
  "is_gnss_solution (M_GnssSolution _) = True"
| "is_gnss_solution _ = False"

section \<open>diagnostics.hpp\<close>

fun NavigationStatus_ToString :: "NavigationStatus \<Rightarrow> string" where
  "NavigationStatus_ToString Status_Unknown = ''Unknown''"
| "NavigationStatus_ToString Status_NotInitialized = ''NotInitialized''"
| "NavigationStatus_ToString Status_Initializing = ''Initializing''"
| "NavigationStatus_ToString Nominal = ''Nominal''"
| "NavigationStatus_ToString Status_Degraded = ''Degraded''"
| "NavigationStatus_ToString DeadReckoning = ''DeadReckoning''"
| "NavigationStatus_ToString Status_Fault = ''Fault''"

fun EstimatorMode_ToString :: "EstimatorMode \<Rightarrow> string" where
  "EstimatorMode_ToString Mode_Unknown = ''Unknown''"
| "EstimatorMode_ToString InertialOnly = ''InertialOnly''"
| "EstimatorMode_ToString VisualInertial = ''VisualInertial''"
| "EstimatorMode_ToString GnssInertial = ''GnssInertial''"
| "EstimatorMode_ToString VisualInertialGnss = ''VisualInertialGnss''"
| "EstimatorMode_ToString MultiSensorFusion = ''MultiSensorFusion''"

fun SensorHealth_ToString :: "SensorHealth \<Rightarrow> string" where
  "SensorHealth_ToString Health_Unknown = ''Unknown''"
| "SensorHealth_ToString Healthy = ''Healthy''"
| "SensorHealth_ToString Health_Degraded = ''Degraded''"
| "SensorHealth_ToString Health_Rejected = ''Rejected''"
| "SensorHealth_ToString Missing = ''Missing''"
| "SensorHealth_ToString Stale = ''Stale''"
| "SensorHealth_ToString Health_Fault = ''Fault''"

fun MeasurementValidity_ToString :: "MeasurementValidity \<Rightarrow> string" where
  "MeasurementValidity_ToString Valid = ''Valid''"
| "MeasurementValidity_ToString Saturated = ''Saturated''"
| "MeasurementValidity_ToString Dropped = ''Dropped''"
| "MeasurementValidity_ToString OutOfOrder = ''OutOfOrder''"
| "MeasurementValidity_ToString Validity_Unknown = ''Unknown''"

fun GnssFixType_ToString :: "GnssFixType \<Rightarrow> string" where
  "GnssFixType_ToString NoFix = ''NoFix''"
| "GnssFixType_ToString Single = ''Single''"
| "GnssFixType_ToString Differential = ''Differential''"
| "GnssFixType_ToString RtkFloat = ''RtkFloat''"
| "GnssFixType_ToString RtkFixed = ''RtkFixed''"
| "GnssFixType_ToString PrecisePointPositioning = ''PrecisePointPositioning''"

fun GnssConstellation_ToString :: "GnssConstellation \<Rightarrow> string" where
  "GnssConstellation_ToString Gps = ''GPS''"
| "GnssConstellation_ToString Glonass = ''GLONASS''"
| "GnssConstellation_ToString Galileo = ''Galileo''"
| "GnssConstellation_ToString BeiDou = ''BeiDou''"
| "GnssConstellation_ToString Qzss = ''QZSS''"
| "GnssConstellation_ToString Sbas = ''SBAS''"
| "GnssConstellation_ToString Constellation_Unknown = ''Unknown''"

fun EstimatorBackend_ToString :: "EstimatorBackend \<Rightarrow> string" where
  "EstimatorBackend_ToString Backend_Unknown = ''Unknown''"
| "EstimatorBackend_ToString Ekf = ''EKF''"
| "EstimatorBackend_ToString CeresSlidingWindow = ''CeresSlidingWindow''"
| "EstimatorBackend_ToString GtsamFactorGraph = ''GtsamFactorGraph''"
| "EstimatorBackend_ToString Custom = ''Custom''"

fun EstimatorUpdateResult_ToString :: "EstimatorUpdateResult \<Rightarrow> string" where
  "EstimatorUpdateResult_ToString Accepted = ''Accepted''"
| "EstimatorUpdateResult_ToString Buffered = ''Buffered''"
| "EstimatorUpdateResult_ToString Rejected = ''Rejected''"
| "EstimatorUpdateResult_ToString Result_OutOfOrder = ''OutOfOrder''"
| "EstimatorUpdateResult_ToString NotInitialized = ''NotInitialized''"
| "EstimatorUpdateResult_ToString BackendError = ''BackendError''"

fun AidingSource_ToString :: "AidingSource \<Rightarrow> string" where
  "AidingSource_ToString AidingSource_Unknown = ''Unknown''"
| "AidingSource_ToString VisualOdometry = ''VisualOdometry''"
| "AidingSource_ToString GeoReference = ''GeoReference''"
| "AidingSource_ToString TerrainContourMatching = ''TERCOM''"
| "AidingSource_ToString ExternalSlam = ''ExternalSLAM''"
| "AidingSource_ToString SceneMatching = ''SceneMatching''"
| "AidingSource_ToString FeatureBasedNavigation = ''FeatureBasedNav''"
| "AidingSource_ToString RadioNavigation = ''RadioNavigation''"

text \<open>
  The diagnostic names identify their values: within each of the nine enumerations no two
  values print alike, so a log or a telemetry consumer can tell them apart.
\<close>

theorem ToString_injective:
  "inj NavigationStatus_ToString \<and> inj EstimatorMode_ToString \<and> inj SensorHealth_ToString \<and>
   inj MeasurementValidity_ToString \<and> inj GnssFixType_ToString \<and>
   inj GnssConstellation_ToString \<and> inj EstimatorBackend_ToString \<and>
   inj EstimatorUpdateResult_ToString \<and> inj AidingSource_ToString"
  by (intro conjI injI; case_tac x; case_tac y; simp)

end
