(* ===== verification/Fg_Pipeline.thy ===== *)
theory Fg_Pipeline
  imports Fg_Queue Fg_Estimator
begin

text \<open>
  The worker-thread pipeline of \<^verbatim>\<open>src/estimation/src/estimator_pipeline.cpp\<close>: producers
  push from any thread, one worker drains the queue into the estimator and notifies the
  observers, and one control thread starts, stops and resets it.

  The threads interleave at the granularity of the code's atomic accesses: the load of
  \<open>running_\<close> in \<open>Push\<close> and the queue operation after it are two steps, \<open>Stop\<close> is an
  exchange, a shutdown request and a join. The estimator is the interface
  \<^verbatim>\<open>INavigationEstimator\<close>: a state with the virtual functions given as arguments.
\<close>

section \<open>State\<close>

text \<open>The worker thread: not joinable, at the head of its loop, holding a measurement, ended.\<close>

datatype Worker = NoThread | AtPop | Got SensorMeasurement | Ended

text \<open>The control thread, between the statements of \<open>Stop\<close>.\<close>

datatype Control = Idle | StopExchanged | Joining

record 'est EstimatorPipeline =
  estimator :: 'est
  p_queue :: "SensorMeasurement MeasurementQueue"
  observers :: "nat list"
  running :: bool
  worker :: Worker
  control :: Control
  in_flight :: "SensorMeasurement list"

text \<open>What the environment sees of a step.\<close>

datatype event =
    PushReturned SensorMeasurement bool
  | Processed SensorMeasurement MeasurementUpdateReport
  | Notified nat NavigationState
  | NotifiedReset nat
  | StopReturned

record 'est estimator_ops =
  add_measurement :: "'est \<Rightarrow> SensorMeasurement \<Rightarrow> (MeasurementUpdateReport \<times> 'est) option"
  latest_state :: "'est \<Rightarrow> NavigationState option"
  reset_estimator :: "'est \<Rightarrow> 'est"
  is_initialized :: "'est \<Rightarrow> bool"

definition EstimatorPipeline_new :: "'est \<Rightarrow> nat \<Rightarrow> 'est EstimatorPipeline" where
  "EstimatorPipeline_new est queue_capacity =
     \<lparr>estimator = est, p_queue = MeasurementQueue_new queue_capacity, observers = [],
      running = False, worker = NoThread, control = Idle, in_flight = []\<rparr>"

definition RegisterObserver :: "'est EstimatorPipeline \<Rightarrow> nat \<Rightarrow> 'est EstimatorPipeline" where
  "RegisterObserver p obs = p\<lparr>observers := observers p @ [obs]\<rparr>"

section \<open>The operations\<close>

definition NotifyObservers :: "'est EstimatorPipeline \<Rightarrow> NavigationState \<Rightarrow> event list" where
  "NotifyObservers p state = map (\<lambda>obs. Notified obs state) (observers p)"

definition NotifyReset :: "'est EstimatorPipeline \<Rightarrow> event list" where
  "NotifyReset p = map NotifiedReset (observers p)"

definition Pipeline_Reset ::
  "'est estimator_ops \<Rightarrow> 'est EstimatorPipeline \<Rightarrow> event list \<times> 'est EstimatorPipeline" where
  "Pipeline_Reset ops p =
     (NotifyReset p, p\<lparr>estimator := reset_estimator ops (estimator p)\<rparr>)"

text \<open>
  The body of \<open>RunLoop\<close> after \<open>Pop\<close> has delivered a measurement. An estimator call that does
  not return is \<^term>\<open>None\<close>.
\<close>

definition process_measurement ::
  "'est estimator_ops \<Rightarrow> 'est EstimatorPipeline \<Rightarrow> SensorMeasurement \<Rightarrow>
     (event list \<times> 'est EstimatorPipeline) option" where
  "process_measurement ops p m =
     (case add_measurement ops (estimator p) m of
        None \<Rightarrow> None
      | Some (rep, est) \<Rightarrow>
          (let p' = p\<lparr>estimator := est\<rparr>;
               notes = (if result rep = Accepted
                        then (case latest_state ops est of
                                None \<Rightarrow> []
                              | Some state \<Rightarrow> NotifyObservers p' state)
                        else [])
           in Some (Processed m rep # notes, p')))"

section \<open>Steps\<close>

inductive pipeline_step ::
  "'est estimator_ops \<Rightarrow> 'est EstimatorPipeline \<Rightarrow> event list \<Rightarrow> 'est EstimatorPipeline \<Rightarrow> bool"
  for ops :: "'est estimator_ops"
where
  push_refused:
    "\<not> running p \<Longrightarrow> pipeline_step ops p [PushReturned m False] p"
| push_checked:
    "running p \<Longrightarrow> pipeline_step ops p [] (p\<lparr>in_flight := m # in_flight p\<rparr>)"
| push_queued:
    "m \<in> set (in_flight p) \<Longrightarrow> Queue_Push (p_queue p) m = (ok, q) \<Longrightarrow>
     pipeline_step ops p [PushReturned m ok]
       (p\<lparr>in_flight := remove1 m (in_flight p), p_queue := q\<rparr>)"
| start:
    "control p = Idle \<Longrightarrow> \<not> running p \<Longrightarrow> worker p = NoThread \<Longrightarrow>
     pipeline_step ops p [] (p\<lparr>running := True, worker := AtPop\<rparr>)"
| start_again:
    "control p = Idle \<Longrightarrow> running p \<Longrightarrow> pipeline_step ops p [] p"
| stop_not_running:
    "control p = Idle \<Longrightarrow> \<not> running p \<Longrightarrow> pipeline_step ops p [StopReturned] p"
| stop_exchange:
    "control p = Idle \<Longrightarrow> running p \<Longrightarrow>
     pipeline_step ops p [] (p\<lparr>running := False, control := StopExchanged\<rparr>)"
| stop_request:
    "control p = StopExchanged \<Longrightarrow>
     pipeline_step ops p []
       (p\<lparr>p_queue := Queue_RequestShutdown (p_queue p), control := Joining\<rparr>)"
| stop_joined:
    "control p = Joining \<Longrightarrow> worker p = Ended \<Longrightarrow>
     pipeline_step ops p [StopReturned] (p\<lparr>worker := NoThread, control := Idle\<rparr>)"
| worker_pop:
    "worker p = AtPop \<Longrightarrow> Queue_Pop (p_queue p) = Some (Some m, q) \<Longrightarrow>
     pipeline_step ops p [] (p\<lparr>p_queue := q, worker := Got m\<rparr>)"
| worker_exit:
    "worker p = AtPop \<Longrightarrow> Queue_Pop (p_queue p) = Some (None, q) \<Longrightarrow>
     pipeline_step ops p [] (p\<lparr>p_queue := q, worker := Ended\<rparr>)"
| worker_add:
    "worker p = Got m \<Longrightarrow> process_measurement ops p m = Some (evs, p') \<Longrightarrow>
     pipeline_step ops p evs (p'\<lparr>worker := AtPop\<rparr>)"
| register_observer:
    "control p = Idle \<Longrightarrow> worker p = NoThread \<Longrightarrow>
     pipeline_step ops p [] (RegisterObserver p obs)"
| reset:
    "control p = Idle \<Longrightarrow> worker p = NoThread \<Longrightarrow> Pipeline_Reset ops p = (evs, p') \<Longrightarrow>
     pipeline_step ops p evs p'"

text \<open>
  \<open>RegisterObserver\<close> and \<open>Reset\<close> touch the observers and the estimator without a lock, so the
  relation has them as steps only while no worker thread exists.
\<close>

inductive pipeline_run ::
  "'est estimator_ops \<Rightarrow> 'est EstimatorPipeline \<Rightarrow> event list \<Rightarrow> 'est EstimatorPipeline \<Rightarrow> bool"
  for ops :: "'est estimator_ops" and p0 :: "'est EstimatorPipeline"
where
  run_start: "pipeline_run ops p0 [] p0"
| run_step: "pipeline_run ops p0 tr p \<Longrightarrow> pipeline_step ops p evs p' \<Longrightarrow>
     pipeline_run ops p0 (tr @ evs) p'"

fun accepted_pushes :: "event list \<Rightarrow> SensorMeasurement list" where
  "accepted_pushes [] = []"
| "accepted_pushes (PushReturned m ok # tr) =
     (if ok then m # accepted_pushes tr else accepted_pushes tr)"
| "accepted_pushes (_ # tr) = accepted_pushes tr"

fun processed :: "event list \<Rightarrow> SensorMeasurement list" where
  "processed [] = []"
| "processed (Processed m rep # tr) = m # processed tr"
| "processed (_ # tr) = processed tr"

fun in_worker :: "Worker \<Rightarrow> SensorMeasurement list" where
  "in_worker (Got m) = [m]"
| "in_worker _ = []"

lemma accepted_pushes_append [simp]:
  "accepted_pushes (a @ b) = accepted_pushes a @ accepted_pushes b"
  by (induction a rule: accepted_pushes.induct) auto

lemma processed_append [simp]: "processed (a @ b) = processed a @ processed b"
  by (induction a rule: processed.induct) auto

lemma notes_silent [simp]:
  "accepted_pushes (NotifyObservers p s) = []" "processed (NotifyObservers p s) = []"
proof -
  have "accepted_pushes (map (\<lambda>obs. Notified obs s) os) = []"
    "processed (map (\<lambda>obs. Notified obs s) os) = []" for os
    by (induction os) auto
  then show "accepted_pushes (NotifyObservers p s) = []" "processed (NotifyObservers p s) = []"
    by (simp_all add: NotifyObservers_def)
qed

lemma process_measurement_events:
  assumes "process_measurement ops p m = Some (evs, p')"
  shows "accepted_pushes evs = []" "processed evs = [m]"
    "p_queue p' = p_queue p" "worker p' = worker p" "control p' = control p"
    "running p' = running p" "observers p' = observers p" "in_flight p' = in_flight p"
  using assms
  by (auto simp: process_measurement_def Let_def split: prod.splits if_splits option.splits)

lemma reset_notes_silent [simp]:
  "accepted_pushes (NotifyReset p) = []" "processed (NotifyReset p) = []"
proof -
  have "accepted_pushes (map NotifiedReset os) = []" "processed (map NotifiedReset os) = []" for os
    by (induction os) auto
  then show "accepted_pushes (NotifyReset p) = []" "processed (NotifyReset p) = []"
    by (simp_all add: NotifyReset_def)
qed

lemma Pipeline_Reset_events:
  assumes "Pipeline_Reset ops p = (evs, p')"
  shows "accepted_pushes evs = []" "processed evs = []" "p' = p\<lparr>estimator := estimator p'\<rparr>"
  using assms by (auto simp: Pipeline_Reset_def)

lemmas pipeline_ops = RegisterObserver_def Pipeline_Reset_def


section \<open>The invariant\<close>

definition pipeline_inv :: "event list \<Rightarrow> 'est EstimatorPipeline \<Rightarrow> bool" where
  "pipeline_inv tr p \<longleftrightarrow>
     length (queue (p_queue p)) \<le> capacity (p_queue p) \<and>
     accepted_pushes tr = processed tr @ in_worker (worker p) @ queue (p_queue p) \<and>
     (worker p = NoThread \<longleftrightarrow> control p = Idle \<and> \<not> running p) \<and>
     (worker p = NoThread \<longrightarrow> queue (p_queue p) = [] \<and> (shutdown (p_queue p) \<or> in_flight p = [])) \<and>
     (worker p = Ended \<longrightarrow> queue (p_queue p) = [] \<and> shutdown (p_queue p)) \<and>
     (control p = Joining \<longrightarrow> shutdown (p_queue p)) \<and>
     (control p \<noteq> Idle \<longrightarrow> \<not> running p)"

lemma pipeline_inv_new [fg_inv]: "pipeline_inv [] (EstimatorPipeline_new est n)"
  by (simp add: pipeline_inv_def EstimatorPipeline_new_def MeasurementQueue_new_def)

lemma Queue_Push_cases:
  "Queue_Push q m = (ok, q') \<Longrightarrow>
     (ok \<and> \<not> shutdown q \<and> length (queue q) < capacity q \<and> q' = q\<lparr>queue := queue q @ [m]\<rparr>) \<or>
     (\<not> ok \<and> q' = q)"
  by (auto simp: Queue_Push_def split: if_splits)

lemma Queue_Pop_Some:
  "Queue_Pop q = Some (Some m, q') \<longleftrightarrow> (\<exists>ms. queue q = m # ms \<and> q' = q\<lparr>queue := ms\<rparr>)"
  by (auto simp: Queue_Pop_def split: list.splits)

lemma Queue_Pop_None:
  "Queue_Pop q = Some (None, q') \<longleftrightarrow> queue q = [] \<and> shutdown q \<and> q' = q"
  by (auto simp: Queue_Pop_def split: list.splits)

lemmas queue_results = Queue_Pop_Some Queue_Pop_None

lemma pipeline_step_inv [fg_inv]:
  assumes "pipeline_step ops p evs p'" and "pipeline_inv tr p"
  shows "pipeline_inv (tr @ evs) p'"
  using assms
proof (induction rule: pipeline_step.induct)
  case (push_queued m p ok q)
  then show ?case
    using Queue_Push_cases [of "p_queue p" m ok q]
    by (cases "worker p") (auto simp: pipeline_inv_def)
next
  case (worker_add p m evs p')
  then show ?case
    using process_measurement_events [OF worker_add(2)] by (auto simp: pipeline_inv_def)
next
  case (worker_pop p m q)
  then show ?case by (auto simp: pipeline_inv_def queue_results)
qed (auto simp: pipeline_inv_def queue_results Queue_RequestShutdown_def pipeline_ops)

lemma pipeline_run_inv:
  "pipeline_run ops p0 tr p \<Longrightarrow> pipeline_inv tr0 p0 \<Longrightarrow> pipeline_inv (tr0 @ tr) p"
proof (induction rule: pipeline_run.induct)
  case (run_step tr p evs p')
  then show ?case using pipeline_step_inv [OF run_step(2), of "tr0 @ tr"] by simp
qed simp

lemma pipeline_run_new_inv:
  "pipeline_run ops (EstimatorPipeline_new est n) tr p \<Longrightarrow> pipeline_inv tr p"
  using pipeline_run_inv [OF _ pipeline_inv_new] by fastforce

lemma pipeline_step_capacity:
  "pipeline_step ops p evs p' \<Longrightarrow> capacity (p_queue p') = capacity (p_queue p)"
  by (induction rule: pipeline_step.induct)
     (auto simp: queue_results Queue_RequestShutdown_def process_measurement_events pipeline_ops
       dest!: Queue_Push_cases)

lemma pipeline_run_capacity:
  "pipeline_run ops p0 tr p \<Longrightarrow> capacity (p_queue p) = capacity (p_queue p0)"
  by (induction rule: pipeline_run.induct) (auto dest: pipeline_step_capacity)

text \<open>
  C3. Every measurement a producer was told is accepted reaches the estimator exactly once and
  in acceptance order: at any moment, in any interleaving of producers, worker and control,
  the accepted pushes are the processed measurements, then the one the worker holds, then the
  queue, and the queue never exceeds its capacity.
\<close>

theorem pipeline_exactly_once:
  assumes "pipeline_run ops (EstimatorPipeline_new est n) tr p"
  shows "accepted_pushes tr = processed tr @ in_worker (worker p) @ queue (p_queue p) \<and>
    length (queue (p_queue p)) \<le> n"
  using pipeline_run_new_inv [OF assms] pipeline_run_capacity [OF assms]
  by (simp add: pipeline_inv_def EstimatorPipeline_new_def MeasurementQueue_new_def)

text \<open>
  Stopping loses nothing: whenever the pipeline is stopped (no \<open>Stop\<close> in progress and not
  running), every measurement ever accepted has been given to the estimator.
\<close>

theorem pipeline_stop_drains:
  assumes "pipeline_run ops (EstimatorPipeline_new est n) tr p"
    and "control p = Idle" and "\<not> running p"
  shows "processed tr = accepted_pushes tr"
  using pipeline_run_new_inv [OF assms(1)] assms(2,3) by (auto simp: pipeline_inv_def)

section \<open>Shutdown\<close>

lemma pipeline_step_shutdown:
  assumes "pipeline_step ops p evs p'" and "shutdown (p_queue p)"
  shows "shutdown (p_queue p') \<and> accepted_pushes evs = []"
  using assms
proof (induction rule: pipeline_step.induct)
  case (push_queued m p ok q)
  then have "\<not> ok" "q = p_queue p"
    using measurement_queue.closed_push [of "p_queue p" m] Queue_Push_cases [of "p_queue p" m ok q]
    by auto
  with push_queued show ?case by simp
next
  case (worker_add p m evs p')
  then show ?case using process_measurement_events [OF worker_add(2)] by simp
qed (auto simp: queue_results Queue_RequestShutdown_def pipeline_ops)

lemma pipeline_run_shutdown:
  "pipeline_run ops p tr p' \<Longrightarrow> shutdown (p_queue p) \<Longrightarrow>
     shutdown (p_queue p') \<and> accepted_pushes tr = []"
  by (induction rule: pipeline_run.induct) (auto dest: pipeline_step_shutdown)

text \<open>
  The pipeline cannot be restarted. The queue's shutdown flag is never cleared, so once a
  \<open>Stop\<close> has requested shutdown no later push is accepted, although \<open>Start\<close> succeeds again
  and \<open>IsRunning\<close> reports true.
\<close>

theorem pipeline_restart_accepts_nothing:
  assumes "shutdown (p_queue p)" and "control p = Idle" and "\<not> running p" and "worker p = NoThread"
  shows "\<exists>p'. pipeline_step ops p [] p' \<and> running p' \<and>
    (\<forall>tr p''. pipeline_run ops p' tr p'' \<longrightarrow> accepted_pushes tr = [])"
proof (intro exI conjI allI impI)
  let ?p' = "p\<lparr>running := True, worker := AtPop\<rparr>"
  show "pipeline_step ops p [] ?p'" using assms(2-4) by (rule pipeline_step.start)
  show "running ?p'" by simp
  fix tr p''
  assume "pipeline_run ops ?p' tr p''"
  then show "accepted_pushes tr = []"
    using pipeline_run_shutdown [of ops ?p' tr p''] assms(1) by simp
qed

section \<open>The worker ends\<close>

fun worker_work :: "'est EstimatorPipeline \<Rightarrow> nat" where
  "worker_work p =
     (case worker p of
        NoThread \<Rightarrow> 0
      | Ended \<Rightarrow> 0
      | AtPop \<Rightarrow> 2 * length (queue (p_queue p)) + 1
      | Got _ \<Rightarrow> 2 * length (queue (p_queue p)) + 2)"

text \<open>With shutdown requested the worker is never blocked, and each of its steps is progress.\<close>

text \<open>
  The estimator calls return on \<open>good\<close> states and \<open>adm\<close>issible measurements and stay good.
\<close>

definition returns_on :: "'est estimator_ops \<Rightarrow> ('est \<Rightarrow> bool) \<Rightarrow> (SensorMeasurement \<Rightarrow> bool) \<Rightarrow> bool" where
  "returns_on ops good adm \<longleftrightarrow>
     (\<forall>est m. good est \<longrightarrow> adm m \<longrightarrow>
        (\<exists>rep est'. add_measurement ops est m = Some (rep, est') \<and> good est'))"

definition pending_ok :: "('est \<Rightarrow> bool) \<Rightarrow> (SensorMeasurement \<Rightarrow> bool) \<Rightarrow> 'est EstimatorPipeline \<Rightarrow> bool" where
  "pending_ok good adm p \<longleftrightarrow>
     good (estimator p) \<and> (\<forall>m\<in>set (in_worker (worker p) @ queue (p_queue p)). adm m)"

lemma process_measurement_returns:
  assumes "returns_on ops good adm" "good (estimator p)" "adm m"
  obtains evs p' where "process_measurement ops p m = Some (evs, p')" "good (estimator p')"
proof -
  from assms obtain rep est where "add_measurement ops (estimator p) m = Some (rep, est)" "good est"
    unfolding returns_on_def by blast
  then have "process_measurement ops p m = Some (fst (the (process_measurement ops p m)),
      snd (the (process_measurement ops p m)))" "good (estimator (snd (the (process_measurement ops p m))))"
    by (simp_all add: process_measurement_def Let_def)
  then show thesis by (rule that)
qed

lemma worker_progress:
  assumes "returns_on ops good adm" and "shutdown (p_queue p)" and "worker p \<noteq> NoThread" and "worker p \<noteq> Ended"
    and "pending_ok good adm p"
  shows "\<exists>evs p'. pipeline_step ops p evs p' \<and> worker_work p = Suc (worker_work p') \<and>
    worker p' \<noteq> NoThread \<and> pending_ok good adm p' \<and>
    in_worker (worker p) @ queue (p_queue p) =
      processed evs @ in_worker (worker p') @ queue (p_queue p') \<and> control p' = control p"
proof (cases "worker p")
  case AtPop
  show ?thesis
  proof (cases "queue (p_queue p)")
    case Nil
    with AtPop assms(2) have "pipeline_step ops p [] (p\<lparr>p_queue := p_queue p, worker := Ended\<rparr>)"
      by (intro worker_exit) (auto simp: queue_results)
    moreover have "pending_ok good adm (p\<lparr>p_queue := p_queue p, worker := Ended\<rparr>)"
      using assms(5) Nil by (simp add: pending_ok_def)
    ultimately show ?thesis using AtPop Nil by fastforce
  next
    case (Cons m ms)
    let ?q = "p_queue p\<lparr>queue := ms\<rparr>"
    from AtPop Cons have "pipeline_step ops p [] (p\<lparr>p_queue := ?q, worker := Got m\<rparr>)"
      by (intro worker_pop) (auto simp: queue_results)
    moreover have "pending_ok good adm (p\<lparr>p_queue := ?q, worker := Got m\<rparr>)"
      using assms(5) Cons by (simp add: pending_ok_def)
    ultimately show ?thesis using AtPop Cons by fastforce
  qed
next
  case (Got m)
  have "good (estimator p)" "adm m" using assms(5) Got by (simp_all add: pending_ok_def)
  from process_measurement_returns [OF assms(1) this] obtain evs p' where
    pm: "process_measurement ops p m = Some (evs, p')" "good (estimator p')" by blast
  have rest: "pending_ok good adm (p'\<lparr>worker := AtPop\<rparr>)"
    using pm assms(5) process_measurement_events [OF pm(1)] by (simp add: pending_ok_def)
  from Got pm(1) have "pipeline_step ops p evs (p'\<lparr>worker := AtPop\<rparr>)" by (rule worker_add)
  with Got rest process_measurement_events [OF pm(1)] show ?thesis
    by (intro exI [of _ evs] exI [of _ "p'\<lparr>worker := AtPop\<rparr>"]) simp
qed (use assms in auto)

lemma pipeline_run_cons:
  assumes "pipeline_run ops p' tr p''" and "pipeline_step ops p evs p'"
  shows "pipeline_run ops p (evs @ tr) p''"
  using assms(1)
proof (induction rule: pipeline_run.induct)
  case run_start
  show ?case using run_step [OF pipeline_run.run_start assms(2)] by simp
next
  case (run_step tr q evs' q')
  then show ?case using pipeline_run.run_step [OF run_step(3,2)] by simp
qed

lemma worker_drains:
  assumes ret: "returns_on ops good adm"
    and "shutdown (p_queue p)" and "worker p \<noteq> NoThread" and "worker p \<noteq> Ended"
    and "pending_ok good adm p"
  shows "\<exists>tr p'. pipeline_run ops p tr p' \<and> worker p' = Ended \<and>
    processed tr = in_worker (worker p) @ queue (p_queue p) \<and> control p' = control p"
  using assms(2-)
proof (induction "worker_work p" arbitrary: p rule: less_induct)
  case less
  from worker_progress [OF ret less.prems] obtain evs q where
    q: "pipeline_step ops p evs q" "worker_work p = Suc (worker_work q)" "worker q \<noteq> NoThread"
       "pending_ok good adm q"
       "in_worker (worker p) @ queue (p_queue p) =
          processed evs @ in_worker (worker q) @ queue (p_queue q)"
       "control q = control p" by blast
  have sd: "shutdown (p_queue q)" using pipeline_step_shutdown [OF q(1) less.prems(1)] by simp
  show ?case
  proof (cases "worker q = Ended")
    case True
    from q(2) True have "worker_work p = 1" by simp
    then have "in_worker (worker p) @ queue (p_queue p) = []"
      by (simp split: Worker.splits)
    with q(5) have "processed evs = []" by simp
    with \<open>in_worker (worker p) @ queue (p_queue p) = []\<close> True q(6)
    show ?thesis using pipeline_run_cons [OF run_start q(1)] by auto
  next
    case False
    from less.hyps [OF _ sd q(3) False q(4)] q(2) obtain tr r where
      r: "pipeline_run ops q tr r" "worker r = Ended"
         "processed tr = in_worker (worker q) @ queue (p_queue q)" "control r = control q"
      by auto
    from pipeline_run_cons [OF r(1) q(1)] r(2-4) q(5,6) show ?thesis
      by (intro exI [of _ "evs @ tr"] exI [of _ r]) simp
  qed
qed

lemma pipeline_run_append:
  assumes "pipeline_run ops p tr p'" and "pipeline_run ops p' tr' p''"
  shows "pipeline_run ops p (tr @ tr') p''"
  using assms(2)
proof (induction rule: pipeline_run.induct)
  case run_start
  show ?case using assms(1) by simp
next
  case (run_step tr' q evs q')
  show ?case using pipeline_run.run_step [OF run_step(3,2)] by simp
qed

lemma stop_drained:
  assumes "returns_on ops good adm" and "pipeline_run ops (EstimatorPipeline_new est n) tr p"
    and "control p = Joining" and "pending_ok good adm p"
  shows "\<exists>tr' p'. pipeline_run ops p (tr' @ [StopReturned]) p' \<and> control p' = Idle \<and>
    \<not> running p' \<and> processed (tr @ tr') = accepted_pushes (tr @ tr')"
proof -
  have inv: "pipeline_inv tr p" using pipeline_run_new_inv [OF assms(2)] .
  then have sd: "shutdown (p_queue p)" and w: "worker p \<noteq> NoThread"
    using assms(3) by (auto simp: pipeline_inv_def)
  obtain tr' q where q: "pipeline_run ops p tr' q" "worker q = Ended" "control q = Joining"
  proof (cases "worker p = Ended")
    case True
    with assms(3) that show thesis by (blast intro: run_start)
  next
    case False
    with worker_drains [OF assms(1) sd w _ assms(4)] assms(3) that show thesis by auto
  qed
  have invq: "pipeline_inv (tr @ tr') q" by (rule pipeline_run_inv [OF q(1) inv])
  let ?r = "q\<lparr>worker := NoThread, control := Idle\<rparr>"
  have "pipeline_run ops p (tr' @ [StopReturned]) ?r"
    using run_step [OF q(1) stop_joined] q(2,3) by simp
  moreover have "\<not> running ?r" "processed (tr @ tr') = accepted_pushes (tr @ tr')"
    using invq q(2,3) by (simp_all add: pipeline_inv_def)
  ultimately show ?thesis by (intro exI [of _ tr'] exI [of _ ?r]) simp
qed

text \<open>
  \<open>Stop\<close> returns, provided the estimator's calls on what is pending do: from every
  reachable state in which \<open>Stop\<close> waits for the worker, the worker's own steps process the
  measurement it holds and everything queued and then end the thread, so the join completes,
  and by then every accepted measurement has been processed.
\<close>

theorem stop_returns:
  assumes "returns_on ops good adm" and "pipeline_run ops (EstimatorPipeline_new est n) tr p"
    and "control p = Joining" and "pending_ok good adm p"
  shows "\<exists>tr' p'. pipeline_run ops p (tr' @ [StopReturned]) p' \<and> control p' = Idle \<and>
    \<not> running p' \<and> processed (tr @ tr') = accepted_pushes (tr @ tr')"
  using assms by (rule stop_drained)

section \<open>The estimator interface\<close>

text \<open>A GNSS solution has been accepted in a trace.\<close>

definition gnss_fixed :: "event list \<Rightarrow> bool" where
  "gnss_fixed tr \<longleftrightarrow> (\<exists>m rep. Processed m rep \<in> set tr \<and> is_gnss_solution m \<and> result rep = Accepted)"

text \<open>
  What the pipeline and its observers rely on, from the documentation of
  \<^verbatim>\<open>INavigationEstimator\<close>: calls return, IMU samples are only buffered, the first acceptance
  initialises and comes from a GNSS solution, initialisation lasts until a reset, and a state
  is available exactly while initialised.
\<close>

locale navigation_estimator =
  fixes ops :: "'est estimator_ops"
    and good :: "'est \<Rightarrow> bool"
    and adm :: "SensorMeasurement \<Rightarrow> bool"
  assumes add_returns: "good e \<Longrightarrow> adm m \<Longrightarrow>
      \<exists>rep e'. add_measurement ops e m = Some (rep, e') \<and> good e'"
    and imu_buffered: "good e \<Longrightarrow> adm m \<Longrightarrow> add_measurement ops e m = Some (rep, e') \<Longrightarrow>
      is_imu m \<Longrightarrow> result rep \<noteq> Accepted"
    and initialised_mono: "good e \<Longrightarrow> adm m \<Longrightarrow> add_measurement ops e m = Some (rep, e') \<Longrightarrow>
      is_initialized ops e \<Longrightarrow> is_initialized ops e'"
    and first_acceptance: "good e \<Longrightarrow> adm m \<Longrightarrow> add_measurement ops e m = Some (rep, e') \<Longrightarrow>
      \<not> is_initialized ops e \<Longrightarrow>
      (is_initialized ops e' \<longleftrightarrow> result rep = Accepted) \<and>
      (result rep = Accepted \<longrightarrow> is_gnss_solution m)"
    and latest: "good e \<Longrightarrow> latest_state ops e \<noteq> None \<longleftrightarrow> is_initialized ops e"
    and reset_clears: "good e \<Longrightarrow>
      good (reset_estimator ops e) \<and> \<not> is_initialized ops (reset_estimator ops e)"
begin

lemma returns: "returns_on ops good adm"
  using add_returns by (simp add: returns_on_def)

lemma add_good: "good e \<Longrightarrow> adm m \<Longrightarrow> add_measurement ops e m = Some (rep, e') \<Longrightarrow> good e'"
  using add_returns [of e m] by auto

lemma accepted_has_state:
  assumes "good e" "adm m" "add_measurement ops e m = Some (rep, e')" "result rep = Accepted"
  shows "\<exists>st. latest_state ops e' = Some st"
  using latest [OF add_good [OF assms(1-3)]] initialised_mono [OF assms(1-3)]
    first_acceptance [OF assms(1-3)] assms(4) by auto

text \<open>An accepted measurement is announced once to every observer, in registration order.\<close>

lemma announced:
  assumes "good (estimator p)" "adm m" "process_measurement ops p m = Some (evs, p')"
  shows "\<exists>rep. evs = Processed m rep #
    (if result rep = Accepted
     then map (\<lambda>obs. Notified obs (the (latest_state ops (estimator p')))) (observers p) else [])"
proof -
  obtain rep e where a: "add_measurement ops (estimator p) m = Some (rep, e)" "good e"
    using add_returns [OF assms(1,2)] by blast
  then show ?thesis
    using accepted_has_state [OF assms(1,2) a(1)] assms(3)
    by (cases "result rep = Accepted")
       (auto simp: process_measurement_def Let_def NotifyObservers_def)
qed

text \<open>Observers hear nothing until a GNSS solution has been accepted.\<close>

lemma quiet_step:
  assumes "pipeline_step ops p evs p'" "good (estimator p)"
    and "is_initialized ops (estimator p) \<longrightarrow> gnss_fixed tr"
    and "\<forall>m rep. Processed m rep \<in> set evs \<longrightarrow> adm m"
  shows "good (estimator p') \<and> (is_initialized ops (estimator p') \<longrightarrow> gnss_fixed (tr @ evs)) \<and>
    (\<forall>obs st. Notified obs st \<in> set evs \<longrightarrow> gnss_fixed (tr @ evs))"
  using assms
proof (induction rule: pipeline_step.induct)
  case (worker_add p m evs p')
  obtain rep e where a: "add_measurement ops (estimator p) m = Some (rep, e)"
    using worker_add(2) by (auto simp: process_measurement_def split: option.splits)
  have evs: "Processed m rep \<in> set evs" "estimator p' = e"
    "\<And>obs st. Notified obs st \<in> set evs \<Longrightarrow> result rep = Accepted"
    using worker_add(2) a
    by (auto simp: process_measurement_def Let_def NotifyObservers_def split: if_splits option.splits)
  then have adm: "adm m" using worker_add(5) by blast
  have fx: "gnss_fixed (tr @ evs)" if "is_initialized ops (estimator p) \<or> result rep = Accepted"
    using that worker_add(4) first_acceptance [OF worker_add(3) adm a] evs(1)
    unfolding gnss_fixed_def by (cases "is_initialized ops (estimator p)") fastforce+
  show ?case
    using add_good [OF worker_add(3) adm a] first_acceptance [OF worker_add(3) adm a] fx evs(2,3)
    by auto
next
  case (reset p evs p')
  then show ?case using reset_clears by (auto simp: Pipeline_Reset_def NotifyReset_def)
qed (auto simp: gnss_fixed_def RegisterObserver_def)

lemma quiet_run:
  assumes "pipeline_run ops p0 tr p" "good (estimator p0)" "\<not> is_initialized ops (estimator p0)"
    and "\<forall>m rep. Processed m rep \<in> set tr \<longrightarrow> adm m"
  shows "good (estimator p) \<and> (is_initialized ops (estimator p) \<longrightarrow> gnss_fixed tr) \<and>
    (\<forall>obs st. Notified obs st \<in> set tr \<longrightarrow> gnss_fixed tr)"
  using assms
proof (induction rule: pipeline_run.induct)
  case (run_step tr p evs p')
  then have ih: "good (estimator p)" "is_initialized ops (estimator p) \<longrightarrow> gnss_fixed tr"
    "\<forall>obs st. Notified obs st \<in> set tr \<longrightarrow> gnss_fixed tr" by auto
  have "gnss_fixed tr \<Longrightarrow> gnss_fixed (tr @ evs)" by (auto simp: gnss_fixed_def)
  with quiet_step [OF run_step(2) ih(1,2)] ih(3) run_step(6) show ?case by auto
qed simp

end

section \<open>A concrete run\<close>

text \<open>
  An estimator that counts its inputs, and the run in which the pipeline starts, accepts one
  IMU sample, processes it and stops; the theorems above are applied along it.
\<close>

definition counting_ops :: "nat estimator_ops" where
  "counting_ops = \<lparr>add_measurement = (\<lambda>n m. Some (report Buffered, Suc n)),
     latest_state = (\<lambda>n. None), reset_estimator = (\<lambda>n. 0), is_initialized = (\<lambda>n. True)\<rparr>"

definition demo_sample :: SensorMeasurement where
  "demo_sample = M_Imu ImuMeasurement_default"

abbreviation demo_0 :: "nat EstimatorPipeline" where
  "demo_0 \<equiv> EstimatorPipeline_new 0 4"

abbreviation demo_trace :: "event list" where
  "demo_trace \<equiv> [PushReturned demo_sample True]"

definition demo_joining :: "nat EstimatorPipeline" where
  "demo_joining = demo_0
     \<lparr>p_queue := \<lparr>capacity = 4, queue = [demo_sample], shutdown = True\<rparr>,
      worker := AtPop, control := Joining\<rparr>"

definition demo_stopped :: "nat EstimatorPipeline" where
  "demo_stopped = demo_0\<lparr>estimator := 1,
     p_queue := \<lparr>capacity = 4, queue = [], shutdown = True\<rparr>\<rparr>"

lemma demo_run_joining: "pipeline_run counting_ops demo_0 demo_trace demo_joining"
proof -
  let ?s1 = "demo_0\<lparr>running := True, worker := AtPop\<rparr>"
  let ?s2 = "?s1\<lparr>in_flight := [demo_sample]\<rparr>"
  let ?q = "\<lparr>capacity = 4, queue = [demo_sample], shutdown = False\<rparr>"
  let ?s3 = "?s2\<lparr>in_flight := [], p_queue := ?q\<rparr>"
  let ?s4 = "?s3\<lparr>running := False, control := StopExchanged\<rparr>"
  note new = EstimatorPipeline_new_def MeasurementQueue_new_def
  have 1: "pipeline_step counting_ops demo_0 [] ?s1" by (rule start) (simp_all add: new)
  have 2: "pipeline_step counting_ops ?s1 [] ?s2"
    using push_checked [of ?s1 counting_ops demo_sample] by (simp add: new)
  have 3: "pipeline_step counting_ops ?s2 demo_trace ?s3"
    using push_queued [of demo_sample ?s2 True ?q] by (simp add: new Queue_Push_def)
  have 4: "pipeline_step counting_ops ?s3 [] ?s4" by (rule stop_exchange) (simp_all add: new)
  have 5: "pipeline_step counting_ops ?s4 [] demo_joining"
    using stop_request [of ?s4 counting_ops] by (simp add: new demo_joining_def Queue_RequestShutdown_def)
  show ?thesis
    using pipeline_run_cons [OF pipeline_run_cons [OF pipeline_run_cons [OF pipeline_run_cons
          [OF pipeline_run_cons [OF run_start 5] 4] 3] 2] 1] by simp
qed

lemma demo_run_stopped:
  "pipeline_run counting_ops demo_0
     (demo_trace @ [Processed demo_sample (report Buffered), StopReturned]) demo_stopped"
proof -
  note new = EstimatorPipeline_new_def MeasurementQueue_new_def demo_joining_def
  let ?p = "demo_joining\<lparr>p_queue := \<lparr>capacity = 4, queue = [], shutdown = True\<rparr>,
    worker := Got demo_sample\<rparr>"
  let ?q = "?p\<lparr>estimator := 1, worker := AtPop\<rparr>"
  let ?r = "?q\<lparr>p_queue := p_queue ?q, worker := Ended\<rparr>"
  have 1: "pipeline_step counting_ops demo_joining [] ?p"
    by (rule worker_pop) (simp_all add: new queue_results)
  have 2: "pipeline_step counting_ops ?p [Processed demo_sample (report Buffered)] ?q"
    using worker_add [of ?p demo_sample counting_ops "[Processed demo_sample (report Buffered)]"
        "?p\<lparr>estimator := 1\<rparr>"]
    by (simp add: new process_measurement_def counting_ops_def report_def)
  have 3: "pipeline_step counting_ops ?q [] ?r"
    by (rule worker_exit) (simp_all add: new queue_results)
  have 4: "pipeline_step counting_ops ?r [StopReturned] demo_stopped"
    using stop_joined [of ?r counting_ops] by (simp add: new demo_stopped_def)
  show ?thesis
    using pipeline_run_append [OF demo_run_joining pipeline_run_cons [OF pipeline_run_cons
          [OF pipeline_run_cons [OF pipeline_run_cons [OF run_start 4] 3] 2] 1]] by simp
qed

theorem pipeline_exactly_once_witness:
  "accepted_pushes demo_trace = processed demo_trace @ in_worker (worker demo_joining) @
     queue (p_queue demo_joining) \<and> length (queue (p_queue demo_joining)) \<le> 4"
  by (rule pipeline_exactly_once [OF demo_run_joining])

theorem pipeline_stop_drains_witness:
  "processed (demo_trace @ [Processed demo_sample (report Buffered), StopReturned]) =
   accepted_pushes (demo_trace @ [Processed demo_sample (report Buffered), StopReturned])"
  by (rule pipeline_stop_drains [OF demo_run_stopped])
     (simp_all add: demo_stopped_def EstimatorPipeline_new_def)

theorem pipeline_restart_accepts_nothing_witness:
  "\<exists>p'. pipeline_step counting_ops demo_stopped [] p' \<and> running p' \<and>
    (\<forall>tr p''. pipeline_run counting_ops p' tr p'' \<longrightarrow> accepted_pushes tr = [])"
  by (rule pipeline_restart_accepts_nothing)
     (simp_all add: demo_stopped_def EstimatorPipeline_new_def)

theorem stop_returns_witness:
  "\<exists>tr' p'. pipeline_run counting_ops demo_joining (tr' @ [StopReturned]) p' \<and> control p' = Idle \<and>
    \<not> running p' \<and> processed (demo_trace @ tr') = accepted_pushes (demo_trace @ tr')"
  by (rule stop_returns [where good = "\<lambda>_. True" and adm = "\<lambda>_. True", OF _ demo_run_joining])
     (simp_all add: demo_joining_def returns_on_def pending_ok_def counting_ops_def)

end
