(* ===== verification/Fg_PipelineRuns.thy ===== *)
theory Fg_PipelineRuns
  imports Fg_Pipeline
begin

text \<open>
  Concrete runs of the pipeline around any estimator that meets the contract \<open>navigation_estimator\<close>: one
  measurement fed to an idle pipeline, a first fix announced to an observer, and a \<open>Stop\<close> that waits for
  the worker. The witnesses of the pipeline properties are these runs. Before that, infinite executions: under
  a fair scheduler a \<open>Stop\<close> that waits for the worker returns.
\<close>

section \<open>Fair executions\<close>

text \<open>
  An infinite execution is a sequence of states joined by steps. Its worker and control thread are scheduled
  fairly: again and again one of them moves, unless neither can. Producers may push as often as they like.
\<close>

definition execution ::
  "'est estimator_ops \<Rightarrow> 'est EstimatorPipeline \<Rightarrow> (nat \<Rightarrow> 'est EstimatorPipeline) \<Rightarrow> (nat \<Rightarrow> event list) \<Rightarrow> bool" where
  "execution ops p \<sigma> \<epsilon> \<longleftrightarrow> \<sigma> 0 = p \<and> (\<forall>n. pipeline_step ops (\<sigma> n) (\<epsilon> n) (\<sigma> (Suc n)))"

definition moves :: "'est EstimatorPipeline \<Rightarrow> 'est EstimatorPipeline \<Rightarrow> bool" where
  "moves p p' \<longleftrightarrow> worker p' \<noteq> worker p \<or> control p' \<noteq> control p"

definition can_move :: "'est estimator_ops \<Rightarrow> 'est EstimatorPipeline \<Rightarrow> bool" where
  "can_move ops p \<longleftrightarrow> (\<exists>evs p'. pipeline_step ops p evs p' \<and> moves p p')"

definition fair_threads :: "'est estimator_ops \<Rightarrow> (nat \<Rightarrow> 'est EstimatorPipeline) \<Rightarrow> bool" where
  "fair_threads ops \<sigma> \<longleftrightarrow> (\<forall>n. \<exists>m\<ge>n. moves (\<sigma> m) (\<sigma> (Suc m)) \<or> \<not> can_move ops (\<sigma> m))"

definition events_until :: "(nat \<Rightarrow> event list) \<Rightarrow> nat \<Rightarrow> event list" where
  "events_until \<epsilon> n = concat (map \<epsilon> [0..<n])"

lemma execution_run: "execution ops p \<sigma> \<epsilon> \<Longrightarrow> pipeline_run ops p (events_until \<epsilon> n) (\<sigma> n)"
proof (induction n)
  case 0
  then show ?case by (simp add: execution_def events_until_def run_start)
next
  case (Suc n)
  then show ?case
    using run_step [of ops p "events_until \<epsilon> n" "\<sigma> n" "\<epsilon> n" "\<sigma> (Suc n)"]
    by (simp add: execution_def events_until_def)
qed

text \<open>\<open>Stop\<close> waits for a worker that the estimator's calls cannot hold up.\<close>

definition waiting :: "('est \<Rightarrow> bool) \<Rightarrow> (SensorMeasurement \<Rightarrow> bool) \<Rightarrow> 'est EstimatorPipeline \<Rightarrow> bool" where
  "waiting good adm p \<longleftrightarrow> control p = Joining \<and> worker p \<noteq> NoThread \<and> shutdown (p_queue p) \<and> pending_ok good adm p"

lemma work_frame: "worker_work (p\<lparr>in_flight := ms\<rparr>) = worker_work p"
  "worker_work (p\<lparr>in_flight := ms, p_queue := p_queue p\<rparr>) = worker_work p"
  by (cases "worker p"; simp)+

text \<open>While it waits, a step is the return of \<open>Stop\<close>, a move of the worker, which is progress, or changes nothing
  for the two.\<close>

lemma waiting_step:
  assumes "returns_on ops good adm" "pipeline_step ops p evs p'" "waiting good adm p"
  shows "(evs = [StopReturned] \<and> control p' = Idle) \<or>
    (waiting good adm p' \<and> worker_work p = worker_work p' + of_bool (moves p p'))"
  using assms(2,3)
proof (induction rule: pipeline_step.induct)
  case (push_queued m p ok q)
  then have "q = p_queue p"
    using measurement_queue.closed_push [of "p_queue p" m] Queue_Push_cases [of "p_queue p" m ok q]
    by (auto simp: waiting_def)
  with push_queued show ?case by (simp add: waiting_def pending_ok_def moves_def work_frame del: worker_work.simps)
next
  case (push_checked p m)
  then show ?case by (simp add: waiting_def pending_ok_def moves_def work_frame del: worker_work.simps)
next
  case (worker_add p m evs p')
  from worker_add.prems worker_add(1) have "good (estimator p)" "adm m" by (simp_all add: waiting_def pending_ok_def)
  then have "good (estimator p')"
    using process_measurement_returns [OF assms(1)] worker_add(2) by fastforce
  with worker_add process_measurement_events [OF worker_add(2)] show ?case
    by (simp add: waiting_def pending_ok_def moves_def)
qed (auto simp: waiting_def pending_ok_def moves_def queue_results)

lemma waiting_can_move:
  assumes "returns_on ops good adm" "waiting good adm p"
  shows "can_move ops p"
proof (cases "worker p = Ended")
  case True
  then show ?thesis using stop_joined [of p ops] assms(2) by (force simp: can_move_def moves_def waiting_def)
next
  case False
  then obtain evs p' where st: "pipeline_step ops p evs p'" "worker_work p = Suc (worker_work p')" "control p' = control p"
    using worker_progress [OF assms(1)] assms(2) unfolding waiting_def by metis
  with waiting_step [OF assms(1) st(1) assms(2)] assms(2) have "moves p p'"
    by (cases "moves p p'") (auto simp: waiting_def)
  with st(1) show ?thesis by (auto simp: can_move_def)
qed

text \<open>Until the next move the two threads stay where they are.\<close>

lemma waiting_until:
  assumes "returns_on ops good adm" "\<And>n. pipeline_step ops (\<sigma> n) (\<epsilon> n) (\<sigma> (Suc n))" "waiting good adm (\<sigma> k)" "k \<le> m"
    and "\<forall>i. k \<le> i \<longrightarrow> i < m \<longrightarrow> \<not> moves (\<sigma> i) (\<sigma> (Suc i))"
  shows "waiting good adm (\<sigma> m) \<and> worker_work (\<sigma> m) = worker_work (\<sigma> k)"
  using assms(4,5)
proof (induction m rule: dec_induct)
  case base
  then show ?case using assms(3) by simp
next
  case (step m)
  then have w: "waiting good adm (\<sigma> m)" "worker_work (\<sigma> m) = worker_work (\<sigma> k)" "\<not> moves (\<sigma> m) (\<sigma> (Suc m))" by auto
  then have "control (\<sigma> (Suc m)) = Joining" by (simp add: moves_def waiting_def)
  with waiting_step [OF assms(1,2) w(1)] w(2,3) show ?case by simp
qed

lemma fair_stop:
  assumes "returns_on ops good adm" "\<And>n. pipeline_step ops (\<sigma> n) (\<epsilon> n) (\<sigma> (Suc n))" "fair_threads ops \<sigma>"
    and "waiting good adm (\<sigma> k)"
  shows "\<exists>n\<ge>k. \<epsilon> n = [StopReturned] \<and> control (\<sigma> n) = Joining \<and> control (\<sigma> (Suc n)) = Idle"
  using assms(4)
proof (induction "worker_work (\<sigma> k)" arbitrary: k rule: less_induct)
  case less
  let ?P = "\<lambda>m. k \<le> m \<and> (moves (\<sigma> m) (\<sigma> (Suc m)) \<or> \<not> can_move ops (\<sigma> m))"
  have ex: "\<exists>m. ?P m" using assms(3) by (auto simp: fair_threads_def)
  define m where "m = (LEAST m. ?P m)"
  have m: "?P m" unfolding m_def by (rule LeastI_ex [OF ex])
  have "\<not> ?P i" if "i < m" for i using not_less_Least that unfolding m_def by blast
  then have w: "waiting good adm (\<sigma> m)" "worker_work (\<sigma> m) = worker_work (\<sigma> k)"
    using waiting_until [OF assms(1,2) less.prems, of m] m by auto
  have mv: "moves (\<sigma> m) (\<sigma> (Suc m))" using waiting_can_move [OF assms(1) w(1)] m by blast
  consider "\<epsilon> m = [StopReturned]" "control (\<sigma> (Suc m)) = Idle"
    | "waiting good adm (\<sigma> (Suc m))" "worker_work (\<sigma> (Suc m)) < worker_work (\<sigma> k)"
    using waiting_step [OF assms(1,2) w(1)] w(2) mv by auto
  then show ?case
  proof cases
    case 1
    with w(1) m show ?thesis by (auto simp: waiting_def)
  next
    case 2
    with less.hyps [OF 2(2,1)] m show ?thesis by (meson Suc_leD le_trans)
  qed
qed

lemma stop_returned_ended: "pipeline_step ops p [StopReturned] p' \<Longrightarrow> control p = Joining \<Longrightarrow> worker p = Ended"
  by (cases rule: pipeline_step.cases, assumption)
     (auto simp: Pipeline_Reset_def dest: process_measurement_events(2))

text \<open>By the time \<open>Stop\<close> returns, everything accepted has been processed.\<close>

lemma fair_stop_drains:
  assumes "returns_on ops good adm" "pipeline_run ops (EstimatorPipeline_new est n) tr p"
    and "control p = Joining" "pending_ok good adm p" "execution ops p \<sigma> \<epsilon>" "fair_threads ops \<sigma>"
  shows "\<exists>k. \<epsilon> k = [StopReturned] \<and> control (\<sigma> k) = Joining \<and> control (\<sigma> (Suc k)) = Idle \<and>
    processed (tr @ events_until \<epsilon> k) = accepted_pushes (tr @ events_until \<epsilon> k)"
proof -
  have inv: "pipeline_inv tr p" using pipeline_run_new_inv [OF assms(2)] .
  then have "waiting good adm (\<sigma> 0)"
    using assms(3-5) by (auto simp: waiting_def pipeline_inv_def execution_def)
  with fair_stop [OF assms(1) _ assms(6)] obtain k where
    k: "\<epsilon> k = [StopReturned]" "control (\<sigma> k) = Joining" "control (\<sigma> (Suc k)) = Idle"
    using assms(5) unfolding execution_def by metis
  have st: "pipeline_step ops (\<sigma> k) (\<epsilon> k) (\<sigma> (Suc k))" using assms(5) by (simp add: execution_def)
  have "worker (\<sigma> k) = Ended" using stop_returned_ended st k(1,2) by metis
  then have "processed (tr @ events_until \<epsilon> k) = accepted_pushes (tr @ events_until \<epsilon> k)"
    using pipeline_run_inv [OF execution_run [OF assms(5)] inv, of k] by (simp add: pipeline_inv_def)
  with k show ?thesis by blast
qed

section \<open>A run of the pipeline\<close>

text \<open>One measurement pushed into an idle running pipeline and processed by the worker.\<close>

lemma feed:
  assumes "running p" "worker p = AtPop" "in_flight p = []" "queue (p_queue p) = []"
    "\<not> shutdown (p_queue p)" "0 < capacity (p_queue p)"
    and "add_measurement ops (estimator p) m = Some (rep, est)"
    and "process_measurement ops p m = Some (evs, p')"
  shows "pipeline_run ops p (PushReturned m True # evs) p'" "p' = p\<lparr>estimator := est\<rparr>"
proof -
  let ?p1 = "p\<lparr>in_flight := [m]\<rparr>"
  let ?q = "p_queue p\<lparr>queue := [m]\<rparr>"
  let ?p2 = "p\<lparr>p_queue := ?q\<rparr>"
  let ?p3 = "p\<lparr>worker := Got m\<rparr>"
  show p': "p' = p\<lparr>estimator := est\<rparr>"
    using assms(7,8) by (auto simp: process_measurement_def Let_def)
  have 1: "pipeline_step ops p [] ?p1" using push_checked [OF assms(1), of ops m] assms(3) by simp
  have flight: "p\<lparr>in_flight := [], p_queue := ?q\<rparr> = ?p2" using assms(3) by (cases p) simp
  have 2: "pipeline_step ops ?p1 [PushReturned m True] ?p2"
    using push_queued [of m ?p1 True ?q ops] assms by (simp add: Queue_Push_def flight)
  have "p_queue p\<lparr>queue := []\<rparr> = p_queue p" using assms(4) by simp
  then have 3: "pipeline_step ops ?p2 [] ?p3"
    using worker_pop [of ?p2 m "p_queue p" ops] assms(2,4) by (simp add: queue_results)
  have "process_measurement ops ?p3 m = Some (evs, p'\<lparr>worker := Got m\<rparr>)"
    using assms(7,8)
    by (auto simp: process_measurement_def Let_def NotifyObservers_def split: option.splits)
  moreover have "p'\<lparr>worker := AtPop\<rparr> = p'" using assms(2) p' by (cases p) simp
  ultimately have 4: "pipeline_step ops ?p3 evs p'"
    using worker_add [of ?p3 m ops evs "p'\<lparr>worker := Got m\<rparr>"] by simp
  from pipeline_run_cons [OF pipeline_run_cons [OF pipeline_run_cons [OF pipeline_run_cons
        [OF run_start 4] 3] 2] 1]
  show "pipeline_run ops p (PushReturned m True # evs) p'" by simp
qed

context navigation_estimator
begin

text \<open>A pipeline with one observer is started and fed a measurement that is accepted.\<close>

lemma first_fix_run:
  assumes "good k" "adm m" "add_measurement ops k m = Some (rep, k')" "result rep = Accepted" "0 < n"
  obtains tr p st where "pipeline_run ops (EstimatorPipeline_new k n) tr p"
    "tr = [PushReturned m True, Processed m rep, Notified 7 st]" "running p" "control p = Idle"
proof -
  let ?p = "(EstimatorPipeline_new k n)\<lparr>observers := [7], running := True, worker := AtPop\<rparr>"
  note new = EstimatorPipeline_new_def MeasurementQueue_new_def
  obtain evs p' where pm: "process_measurement ops ?p m = Some (evs, p')"
    using assms(3) by (simp add: process_measurement_def new Let_def)
  have est: "add_measurement ops (estimator ?p) m = Some (rep, k')"
    using assms(3) by (simp add: new)
  have fed: "pipeline_run ops ?p (PushReturned m True # evs) p'" "p' = ?p\<lparr>estimator := k'\<rparr>"
    using feed [OF _ _ _ _ _ _ est pm] assms(5) by (simp_all add: new)
  have "evs = [Processed m rep, Notified 7 (the (latest_state ops (estimator p')))]"
    using announced [OF _ assms(2) pm] assms(1,4) pm est
    by (auto simp: new process_measurement_def Let_def split: option.splits)
  moreover have "pipeline_step ops (EstimatorPipeline_new k n) [] ((EstimatorPipeline_new k n)\<lparr>observers := [7]\<rparr>)"
    using register_observer [of "EstimatorPipeline_new k n" ops 7] by (simp add: new RegisterObserver_def)
  moreover have "pipeline_step ops ((EstimatorPipeline_new k n)\<lparr>observers := [7]\<rparr>) [] ?p"
    using start [of "(EstimatorPipeline_new k n)\<lparr>observers := [7]\<rparr>" ops] by (simp add: new)
  ultimately have "pipeline_run ops (EstimatorPipeline_new k n)
      [PushReturned m True, Processed m rep, Notified 7 (the (latest_state ops (estimator p')))] p'"
    using pipeline_run_cons [OF pipeline_run_cons] fed(1) by fastforce
  then show thesis by (rule that [OF _ refl]) (simp_all add: fed(2) new)
qed

text \<open>The same run up to the point where \<open>Stop\<close> waits for the worker.\<close>

lemma joining_run:
  assumes "good k" "adm m" "add_measurement ops k m = Some (rep, k')" "result rep = Accepted" "0 < n"
  obtains tr p st where "pipeline_run ops (EstimatorPipeline_new k n) tr p" "accepted_pushes tr = [m]"
    "Notified 7 st \<in> set tr" "control p = Joining" "\<forall>m' rep'. Processed m' rep' \<in> set tr \<longrightarrow> m' = m"
proof -
  obtain tr p st where r: "pipeline_run ops (EstimatorPipeline_new k n) tr p"
    "tr = [PushReturned m True, Processed m rep, Notified 7 st]" "running p" "control p = Idle"
    using first_fix_run [OF assms] .
  let ?q = "p\<lparr>running := False, control := StopExchanged\<rparr>"
  have "pipeline_step ops p [] ?q" using r(3,4) by (intro stop_exchange)
  moreover have "pipeline_step ops ?q [] (?q\<lparr>p_queue := Queue_RequestShutdown (p_queue ?q), control := Joining\<rparr>)"
    by (rule stop_request) simp
  ultimately have "pipeline_run ops (EstimatorPipeline_new k n) ((tr @ []) @ [])
      (?q\<lparr>p_queue := Queue_RequestShutdown (p_queue ?q), control := Joining\<rparr>)"
    by (intro run_step [OF run_step [OF r(1)]])
  with r(2) show thesis by (intro that [of tr]) auto
qed

end

end
