(* ===== verification/Fg_Eigen.thy ===== *)
theory Fg_Eigen
  imports Fg_Containers
begin

text \<open>
  The interface to Eigen. The coefficients an Eigen object stores and the operations that only
  move coefficients (blocks, segments, the comma initialiser) are data; every numerical
  algorithm of Eigen is a field of the parameter \<open>eigen_ops\<close>. The predicate \<open>eigen_algebra\<close>
  states the documented meaning of the arithmetic operators, coefficient by coefficient inside
  the dimensions, and \<open>eigen_shapes\<close> the dimensions of the remaining results; nothing is
  assumed about the values of an inverse, a decomposition or a rotation.
\<close>

section \<open>Moving coefficients\<close>

definition vec :: "Vector3d \<Rightarrow> MatrixXd" where
  "vec v = MatrixXd 3 1 (\<lambda>i j. if i = 0 then v3_x v else if i = 1 then v3_y v else v3_z v)"

definition v3 :: "MatrixXd \<Rightarrow> Vector3d" where
  "v3 M = Vector3d (coeff M 0 0) (coeff M 1 0) (coeff M 2 0)"

definition mat_of_rows :: "nat \<Rightarrow> nat \<Rightarrow> real list list \<Rightarrow> MatrixXd" where
  "mat_of_rows r c xs = MatrixXd r c (\<lambda>i j. xs ! i ! j)"

definition Matrix_Constant :: "nat \<Rightarrow> nat \<Rightarrow> real \<Rightarrow> MatrixXd" where
  "Matrix_Constant r c x = MatrixXd r c (\<lambda>_ _. x)"

definition set_coeff :: "MatrixXd \<Rightarrow> nat \<Rightarrow> nat \<Rightarrow> real \<Rightarrow> MatrixXd" where
  "set_coeff M r c x =
     MatrixXd (mat_rows M) (mat_cols M) (\<lambda>i j. if i = r \<and> j = c then x else coeff M i j)"

definition set_block :: "MatrixXd \<Rightarrow> nat \<Rightarrow> nat \<Rightarrow> MatrixXd \<Rightarrow> MatrixXd" where
  "set_block M r c B =
     MatrixXd (mat_rows M) (mat_cols M)
       (\<lambda>i j. if r \<le> i \<and> i < r + mat_rows B \<and> c \<le> j \<and> j < c + mat_cols B
              then coeff B (i - r) (j - c) else coeff M i j)"

definition get_block :: "MatrixXd \<Rightarrow> nat \<Rightarrow> nat \<Rightarrow> nat \<Rightarrow> nat \<Rightarrow> MatrixXd" where
  "get_block M r c h w = MatrixXd h w (\<lambda>i j. coeff M (r + i) (c + j))"

definition segment :: "MatrixXd \<Rightarrow> nat \<Rightarrow> nat \<Rightarrow> MatrixXd" where
  "segment v off n = get_block v off 0 n 1"

lemma shape_simps [simp]:
  "mat_rows (vec v) = 3" "mat_cols (vec v) = 1"
  "mat_rows (mat_of_rows r c xs) = r" "mat_cols (mat_of_rows r c xs) = c"
  "mat_rows (Matrix_Constant r c x) = r" "mat_cols (Matrix_Constant r c x) = c"
  "mat_rows (Matrix_Zero r c) = r" "mat_cols (Matrix_Zero r c) = c"
  "mat_rows (Matrix_Identity n) = n" "mat_cols (Matrix_Identity n) = n"
  "mat_rows (set_coeff M i j x) = mat_rows M" "mat_cols (set_coeff M i j x) = mat_cols M"
  "mat_rows (set_block M i j B) = mat_rows M" "mat_cols (set_block M i j B) = mat_cols M"
  "mat_rows (get_block M i j h w) = h" "mat_cols (get_block M i j h w) = w"
  "mat_rows (segment M i n) = n" "mat_cols (segment M i n) = 1"
  by (simp_all add: vec_def mat_of_rows_def Matrix_Constant_def Matrix_Zero_def
      Matrix_Identity_def set_coeff_def set_block_def get_block_def segment_def)

section \<open>The parameter\<close>

record eigen_ops =
  e_add :: "MatrixXd \<Rightarrow> MatrixXd \<Rightarrow> MatrixXd"
  e_sub :: "MatrixXd \<Rightarrow> MatrixXd \<Rightarrow> MatrixXd"
  e_mul :: "MatrixXd \<Rightarrow> MatrixXd \<Rightarrow> MatrixXd"
  e_neg :: "MatrixXd \<Rightarrow> MatrixXd"
  e_scale :: "real \<Rightarrow> MatrixXd \<Rightarrow> MatrixXd"
  e_transpose :: "MatrixXd \<Rightarrow> MatrixXd"
  e_inverse :: "MatrixXd \<Rightarrow> MatrixXd"
  e_ldlt_solve :: "MatrixXd \<Rightarrow> MatrixXd \<Rightarrow> MatrixXd"
  e_norm :: "MatrixXd \<Rightarrow> real"
  e_trace :: "MatrixXd \<Rightarrow> real"
  e_dot :: "MatrixXd \<Rightarrow> MatrixXd \<Rightarrow> real"
  e_quat_mul :: "Quaterniond \<Rightarrow> Quaterniond \<Rightarrow> Quaterniond"
  e_quat_normalized :: "Quaterniond \<Rightarrow> Quaterniond"
  e_quat_norm :: "Quaterniond \<Rightarrow> real"
  e_quat_conjugate :: "Quaterniond \<Rightarrow> Quaterniond"
  e_rotation_matrix :: "Quaterniond \<Rightarrow> MatrixXd"
  e_quat_of_matrix :: "MatrixXd \<Rightarrow> Quaterniond"
  e_quat_of_angle_axis :: "real \<Rightarrow> MatrixXd \<Rightarrow> Quaterniond"
  e_angle_axis_of_quat :: "Quaterniond \<Rightarrow> real \<times> MatrixXd"

definition add_law :: "eigen_ops \<Rightarrow> bool" where
  "add_law E \<longleftrightarrow> (\<forall>A B. mat_rows B = mat_rows A \<and> mat_cols B = mat_cols A \<longrightarrow>
     mat_rows (e_add E A B) = mat_rows A \<and> mat_cols (e_add E A B) = mat_cols A \<and>
     (\<forall>i<mat_rows A. \<forall>j<mat_cols A. coeff (e_add E A B) i j = coeff A i j + coeff B i j))"

definition sub_law :: "eigen_ops \<Rightarrow> bool" where
  "sub_law E \<longleftrightarrow> (\<forall>A B. mat_rows B = mat_rows A \<and> mat_cols B = mat_cols A \<longrightarrow>
     mat_rows (e_sub E A B) = mat_rows A \<and> mat_cols (e_sub E A B) = mat_cols A \<and>
     (\<forall>i<mat_rows A. \<forall>j<mat_cols A. coeff (e_sub E A B) i j = coeff A i j - coeff B i j))"

definition mul_law :: "eigen_ops \<Rightarrow> bool" where
  "mul_law E \<longleftrightarrow> (\<forall>A B. mat_rows B = mat_cols A \<longrightarrow>
     mat_rows (e_mul E A B) = mat_rows A \<and> mat_cols (e_mul E A B) = mat_cols B \<and>
     (\<forall>i<mat_rows A. \<forall>j<mat_cols B.
        coeff (e_mul E A B) i j = (\<Sum>k<mat_cols A. coeff A i k * coeff B k j)))"

definition unary_laws :: "eigen_ops \<Rightarrow> bool" where
  "unary_laws E \<longleftrightarrow> (\<forall>s A.
     mat_rows (e_neg E A) = mat_rows A \<and> mat_cols (e_neg E A) = mat_cols A \<and>
     mat_rows (e_scale E s A) = mat_rows A \<and> mat_cols (e_scale E s A) = mat_cols A \<and>
     mat_rows (e_transpose E A) = mat_cols A \<and> mat_cols (e_transpose E A) = mat_rows A \<and>
     (\<forall>i<mat_rows A. \<forall>j<mat_cols A.
        coeff (e_neg E A) i j = - coeff A i j \<and>
        coeff (e_scale E s A) i j = s * coeff A i j \<and>
        coeff (e_transpose E A) j i = coeff A i j))"

definition eigen_algebra :: "eigen_ops \<Rightarrow> bool" where
  "eigen_algebra E \<longleftrightarrow> add_law E \<and> sub_law E \<and> mul_law E \<and> unary_laws E"

definition eigen_shapes :: "eigen_ops \<Rightarrow> bool" where
  "eigen_shapes E \<longleftrightarrow>
     (\<forall>A. mat_rows A = mat_cols A \<longrightarrow>
        mat_rows (e_inverse E A) = mat_rows A \<and> mat_cols (e_inverse E A) = mat_rows A) \<and>
     (\<forall>q. mat_rows (e_rotation_matrix E q) = 3 \<and> mat_cols (e_rotation_matrix E q) = 3) \<and>
     (\<forall>q. mat_rows (snd (e_angle_axis_of_quat E q)) = 3 \<and>
          mat_cols (snd (e_angle_axis_of_quat E q)) = 1)"

lemma e_add_simps [simp]:
  assumes "eigen_algebra E" "mat_rows B = mat_rows A" "mat_cols B = mat_cols A"
  shows "mat_rows (e_add E A B) = mat_rows A" "mat_cols (e_add E A B) = mat_cols A"
    "i < mat_rows A \<Longrightarrow> j < mat_cols A \<Longrightarrow> coeff (e_add E A B) i j = coeff A i j + coeff B i j"
  using assms by (auto simp: eigen_algebra_def add_law_def)

lemma e_sub_simps [simp]:
  assumes "eigen_algebra E" "mat_rows B = mat_rows A" "mat_cols B = mat_cols A"
  shows "mat_rows (e_sub E A B) = mat_rows A" "mat_cols (e_sub E A B) = mat_cols A"
    "i < mat_rows A \<Longrightarrow> j < mat_cols A \<Longrightarrow> coeff (e_sub E A B) i j = coeff A i j - coeff B i j"
  using assms by (auto simp: eigen_algebra_def sub_law_def)

lemma e_mul_simps [simp]:
  assumes "eigen_algebra E" "mat_rows B = mat_cols A"
  shows "mat_rows (e_mul E A B) = mat_rows A" "mat_cols (e_mul E A B) = mat_cols B"
    "i < mat_rows A \<Longrightarrow> j < mat_cols B \<Longrightarrow>
       coeff (e_mul E A B) i j = (\<Sum>k<mat_cols A. coeff A i k * coeff B k j)"
  using assms by (auto simp: eigen_algebra_def mul_law_def)

lemma e_neg_simps [simp]:
  assumes "eigen_algebra E"
  shows "mat_rows (e_neg E A) = mat_rows A" "mat_cols (e_neg E A) = mat_cols A"
    "i < mat_rows A \<Longrightarrow> j < mat_cols A \<Longrightarrow> coeff (e_neg E A) i j = - coeff A i j"
  using assms unfolding eigen_algebra_def unary_laws_def by blast+

lemma e_scale_simps [simp]:
  assumes "eigen_algebra E"
  shows "mat_rows (e_scale E s A) = mat_rows A" "mat_cols (e_scale E s A) = mat_cols A"
    "i < mat_rows A \<Longrightarrow> j < mat_cols A \<Longrightarrow> coeff (e_scale E s A) i j = s * coeff A i j"
  using assms unfolding eigen_algebra_def unary_laws_def by blast+

lemma e_transpose_simps [simp]:
  assumes "eigen_algebra E"
  shows "mat_rows (e_transpose E A) = mat_cols A" "mat_cols (e_transpose E A) = mat_rows A"
    "i < mat_cols A \<Longrightarrow> j < mat_rows A \<Longrightarrow> coeff (e_transpose E A) i j = coeff A j i"
  using assms unfolding eigen_algebra_def unary_laws_def by blast+

lemma e_shape_simps [simp]:
  assumes "eigen_shapes E"
  shows "mat_rows A = mat_cols A \<Longrightarrow> mat_rows (e_inverse E A) = mat_cols A"
    "mat_rows A = mat_cols A \<Longrightarrow> mat_cols (e_inverse E A) = mat_cols A"
    "mat_rows (e_rotation_matrix E q) = 3" "mat_cols (e_rotation_matrix E q) = 3"
    "mat_rows (snd (e_angle_axis_of_quat E q)) = 3" "mat_cols (snd (e_angle_axis_of_quat E q)) = 1"
  using assms unfolding eigen_shapes_def by auto

section \<open>Covariance matrices\<close>

text \<open>
  The meaning of a covariance: an \<open>n\<close> by \<open>n\<close> symmetric matrix whose quadratic form is never
  negative.
\<close>

definition quad :: "MatrixXd \<Rightarrow> (nat \<Rightarrow> real) \<Rightarrow> real" where
  "quad M x = (\<Sum>i<mat_rows M. \<Sum>j<mat_cols M. x i * coeff M i j * x j)"

definition square :: "nat \<Rightarrow> MatrixXd \<Rightarrow> bool" where
  "square n M \<longleftrightarrow> mat_rows M = n \<and> mat_cols M = n"

definition psd :: "nat \<Rightarrow> MatrixXd \<Rightarrow> bool" where
  "psd n M \<longleftrightarrow> square n M \<and> (\<forall>x. 0 \<le> quad M x)"

definition symmetric :: "MatrixXd \<Rightarrow> bool" where
  "symmetric M \<longleftrightarrow> (\<forall>i<mat_rows M. \<forall>j<mat_cols M. coeff M i j = coeff M j i)"

definition covariance_ok :: "nat \<Rightarrow> MatrixXd \<Rightarrow> bool" where
  "covariance_ok n M \<longleftrightarrow> psd n M \<and> symmetric M"

lemma squareD: "square n M \<Longrightarrow> mat_rows M = n" "square n M \<Longrightarrow> mat_cols M = n"
  by (simp_all add: square_def)

lemma psd_square: "psd n M \<Longrightarrow> square n M"
  by (simp add: psd_def)

lemma covariance_ok_psd: "covariance_ok n M \<Longrightarrow> psd n M"
  by (simp add: covariance_ok_def)

lemma quad_add:
  assumes "eigen_algebra E" "square n A" "square n B"
  shows "quad (e_add E A B) x = quad A x + quad B x"
  using assms by (simp add: quad_def square_def algebra_simps sum.distrib)

lemma psd_add:
  assumes "eigen_algebra E" "psd n A" "psd n B"
  shows "psd n (e_add E A B)"
  using assms quad_add [OF assms(1), of n A B] by (simp add: psd_def square_def)

lemma quad_scale:
  assumes "eigen_algebra E"
  shows "quad (e_scale E s A) x = s * quad A x"
  using assms by (simp add: quad_def sum_distrib_left mult_ac)

lemma psd_scale: "eigen_algebra E \<Longrightarrow> 0 \<le> s \<Longrightarrow> psd n A \<Longrightarrow> psd n (e_scale E s A)"
  by (simp add: psd_def square_def quad_scale)

lemma quad_transpose:
  assumes "eigen_algebra E" "square n A"
  shows "quad (e_transpose E A) x = quad A x"
proof -
  have "quad (e_transpose E A) x = (\<Sum>i<n. \<Sum>j<n. x i * coeff A j i * x j)"
    using assms by (simp add: quad_def square_def)
  also have "\<dots> = (\<Sum>j<n. \<Sum>i<n. x i * coeff A j i * x j)" by (rule sum.swap)
  also have "\<dots> = quad A x" using assms by (simp add: quad_def square_def mult_ac)
  finally show ?thesis .
qed

text \<open>The congruence \<open>A P A\<^sup>T\<close> of a positive semidefinite matrix is positive semidefinite.\<close>

lemma quad_congruence:
  assumes E: "eigen_algebra E" and A: "mat_rows A = m" "mat_cols A = n" and P: "square n P"
  shows "quad (e_mul E (e_mul E A P) (e_transpose E A)) x =
    quad P (\<lambda>k. \<Sum>i<m. x i * coeff A i k)"
proof -
  have "quad (e_mul E (e_mul E A P) (e_transpose E A)) x =
      (\<Sum>i<m. \<Sum>j<m. x i * (\<Sum>l<n. (\<Sum>k<n. coeff A i k * coeff P k l) * coeff A j l) * x j)"
    using E A P by (simp add: quad_def square_def)
  also have "\<dots> = (\<Sum>i<m. \<Sum>j<m. \<Sum>l<n. \<Sum>k<n.
      x i * coeff A i k * coeff P k l * (x j * coeff A j l))"
    by (simp add: sum_distrib_left sum_distrib_right mult_ac)
  also have "\<dots> = (\<Sum>i<m. \<Sum>l<n. \<Sum>j<m. \<Sum>k<n.
      x i * coeff A i k * coeff P k l * (x j * coeff A j l))"
    by (rule sum.cong [OF refl], rule sum.swap)
  also have "\<dots> = (\<Sum>i<m. \<Sum>l<n. \<Sum>k<n. \<Sum>j<m.
      x i * coeff A i k * coeff P k l * (x j * coeff A j l))"
    by (rule sum.cong [OF refl], rule sum.cong [OF refl], rule sum.swap)
  also have "\<dots> = (\<Sum>l<n. \<Sum>i<m. \<Sum>k<n. \<Sum>j<m.
      x i * coeff A i k * coeff P k l * (x j * coeff A j l))"
    by (rule sum.swap)
  also have "\<dots> = (\<Sum>l<n. \<Sum>k<n. \<Sum>i<m. \<Sum>j<m.
      x i * coeff A i k * coeff P k l * (x j * coeff A j l))"
    by (rule sum.cong [OF refl], rule sum.swap)
  also have "\<dots> = (\<Sum>k<n. \<Sum>l<n. \<Sum>i<m. \<Sum>j<m.
      x i * coeff A i k * coeff P k l * (x j * coeff A j l))"
    by (rule sum.swap)
  also have "\<dots> = (\<Sum>k<n. \<Sum>l<n.
      (\<Sum>i<m. x i * coeff A i k) * coeff P k l * (\<Sum>j<m. x j * coeff A j l))"
    by (simp add: sum_distrib_left sum_distrib_right mult_ac)
  also have "\<dots> = quad P (\<lambda>k. \<Sum>i<m. x i * coeff A i k)"
    using P by (simp add: quad_def square_def)
  finally show ?thesis .
qed

lemma psd_congruence:
  assumes "eigen_algebra E" "mat_rows A = m" "mat_cols A = n" "psd n P"
  shows "psd m (e_mul E (e_mul E A P) (e_transpose E A))"
  using assms quad_congruence [OF assms(1-3) psd_square [OF assms(4)]]
  by (simp add: psd_def square_def)

lemma psd_outer:
  assumes E: "eigen_algebra E" and A: "mat_rows A = m" "mat_cols A = n"
  shows "psd m (e_mul E A (e_transpose E A))"
proof -
  have "quad (e_mul E A (e_transpose E A)) x = (\<Sum>k<n. (\<Sum>i<m. x i * coeff A i k)\<^sup>2)" for x
  proof -
    have "quad (e_mul E A (e_transpose E A)) x =
        (\<Sum>i<m. \<Sum>j<m. \<Sum>k<n. (x i * coeff A i k) * (x j * coeff A j k))"
      using E A by (simp add: quad_def sum_distrib_left sum_distrib_right mult_ac)
    also have "\<dots> = (\<Sum>i<m. \<Sum>k<n. \<Sum>j<m. (x i * coeff A i k) * (x j * coeff A j k))"
      by (rule sum.cong [OF refl], rule sum.swap)
    also have "\<dots> = (\<Sum>k<n. \<Sum>i<m. \<Sum>j<m. (x i * coeff A i k) * (x j * coeff A j k))"
      by (rule sum.swap)
    also have "\<dots> = (\<Sum>k<n. (\<Sum>i<m. x i * coeff A i k)\<^sup>2)"
      by (simp only: power2_eq_square sum_product)
    finally show ?thesis .
  qed
  then show ?thesis using E A by (simp add: psd_def square_def sum_nonneg)
qed

lemma sum_shift_window:
  fixes f :: "nat \<Rightarrow> real"
  assumes "p + s \<le> n" "\<And>i. i < n \<Longrightarrow> \<not> (p \<le> i \<and> i < p + s) \<Longrightarrow> f i = 0"
  shows "(\<Sum>i<n. f i) = (\<Sum>i < s. f (p + i))"
proof -
  have "(\<Sum>i<n. f i) = (\<Sum>i\<in>{p..<p + s}. f i)"
    using assms by (intro sum.mono_neutral_right) auto
  also have "\<dots> = (\<Sum>i < s. f (p + i))"
    using sum.shift_bounds_nat_ivl [of f 0 p s] by (simp add: atLeast0LessThan add.commute)
  finally show ?thesis .
qed

text \<open>A principal block of a positive semidefinite matrix is positive semidefinite.\<close>

lemma psd_get_block:
  assumes "psd n M" "p + h \<le> n"
  shows "psd h (get_block M p p h h)"
proof -
  have "0 \<le> quad (get_block M p p h h) x" for x
  proof -
    let ?y = "\<lambda>i. if p \<le> i \<and> i < p + h then x (i - p) else 0"
    have "quad M ?y = (\<Sum>i<n. \<Sum>j<n. ?y i * coeff M i j * ?y j)"
      using assms(1) by (simp add: psd_def square_def quad_def)
    also have "\<dots> = (\<Sum>i<h. \<Sum>j<n. ?y (p + i) * coeff M (p + i) j * ?y j)"
      using assms(2) by (intro sum_shift_window) auto
    also have "\<dots> = (\<Sum>i<h. \<Sum>j<h. ?y (p + i) * coeff M (p + i) (p + j) * ?y (p + j))"
      using assms(2) by (intro sum.cong refl sum_shift_window) auto
    also have "\<dots> = quad (get_block M p p h h) x"
      by (simp add: quad_def get_block_def)
    finally have eq: "quad M ?y = quad (get_block M p p h h) x" .
    have "0 \<le> quad M ?y" using assms(1) unfolding psd_def by blast
    then show ?thesis unfolding eq .
  qed
  then show ?thesis by (simp add: psd_def square_def)
qed

section \<open>Block-diagonal matrices\<close>

lemma psd_Zero: "psd n (Matrix_Zero n n)"
  by (simp add: psd_def square_def quad_def) (simp add: Matrix_Zero_def)

lemma psd_Identity: "psd n (Matrix_Identity n)"
proof -
  have "quad (Matrix_Identity n) x = (\<Sum>i<n. x i * x i)" for x
    by (simp add: quad_def)
       (simp add: Matrix_Identity_def if_distrib [of "\<lambda>c. _ * c"] if_distrib [of "\<lambda>c. c * _"]
         sum.delta cong: if_cong)
  then show ?thesis by (simp add: psd_def square_def sum_nonneg)
qed

text \<open>\<open>clear_at M p s\<close>: the rows and columns \<open>p\<close> to \<open>p + s\<close> of \<open>M\<close> are zero.\<close>

definition clear_at :: "MatrixXd \<Rightarrow> nat \<Rightarrow> nat \<Rightarrow> bool" where
  "clear_at M p s \<longleftrightarrow>
     (\<forall>i<mat_rows M. \<forall>j<mat_cols M.
        p \<le> i \<and> i < p + s \<or> p \<le> j \<and> j < p + s \<longrightarrow> coeff M i j = 0)"

lemma clear_at_Zero: "clear_at (Matrix_Zero n n) p s"
  by (simp add: clear_at_def) (simp add: Matrix_Zero_def)

lemma clear_at_set_block:
  assumes "clear_at M p s" "square b B" "q + b \<le> p \<or> p + s \<le> q"
  shows "clear_at (set_block M q q B) p s"
  using assms by (auto simp: clear_at_def set_block_def square_def)

lemma quad_set_block:
  assumes "square n M" "square s B" "p + s \<le> n" "clear_at M p s"
  shows "quad (set_block M p p B) x = quad M x + quad B (\<lambda>k. x (p + k))"
proof -
  let ?in = "\<lambda>i. p \<le> i \<and> i < p + s"
  let ?b = "\<lambda>i j. if ?in i \<and> ?in j then coeff B (i - p) (j - p) else 0"
  have split: "coeff (set_block M p p B) i j = coeff M i j + ?b i j" if "i < n" "j < n" for i j
    using that assms by (auto simp: set_block_def clear_at_def square_def)
  have "quad (set_block M p p B) x = (\<Sum>i<n. \<Sum>j<n. x i * (coeff M i j + ?b i j) * x j)"
    using assms(1) by (simp add: quad_def square_def split)
  also have "\<dots> = quad M x + (\<Sum>i<n. \<Sum>j<n. x i * ?b i j * x j)"
    using assms(1) by (simp add: quad_def square_def algebra_simps sum.distrib)
  also have "(\<Sum>i<n. \<Sum>j<n. x i * ?b i j * x j) =
      (\<Sum>i < s. \<Sum>j<n. x (p + i) * ?b (p + i) j * x j)"
    using assms(3) by (intro sum_shift_window) auto
  also have "\<dots> = (\<Sum>i < s. \<Sum>j < s. x (p + i) * ?b (p + i) (p + j) * x (p + j))"
    using assms(3) by (intro sum.cong refl sum_shift_window) auto
  also have "\<dots> = quad B (\<lambda>k. x (p + k))"
    using assms(2) by (simp add: quad_def square_def)
  finally show ?thesis .
qed

lemma psd_set_block:
  assumes "psd n M" "psd s B" "p + s \<le> n" "clear_at M p s"
  shows "psd n (set_block M p p B)"
  using assms quad_set_block [of n M s B p] by (simp add: psd_def square_def)

lemma set_coeff_block: "set_coeff M r c x = set_block M r c (Matrix_Constant 1 1 x)"
  by (auto simp: set_coeff_def set_block_def Matrix_Constant_def fun_eq_iff)

lemma psd_Constant: "0 \<le> c \<Longrightarrow> psd 1 (Matrix_Constant 1 1 c)"
  by (simp add: psd_def square_def quad_def) (simp add: Matrix_Constant_def mult.commute mult.left_commute)

lemma psd_set_coeff:
  assumes "psd n M" "0 \<le> c" "i < n" "clear_at M i 1"
  shows "psd n (set_coeff M i i c)"
  unfolding set_coeff_block using assms psd_Constant by (intro psd_set_block) auto

lemma clear_at_set_coeff:
  "clear_at M p s \<Longrightarrow> q < p \<or> p + s \<le> q \<Longrightarrow> clear_at (set_coeff M q q c) p s"
  unfolding set_coeff_block
  by (rule clear_at_set_block [of _ _ _ 1]) (auto simp: square_def)

section \<open>A reference instance\<close>

text \<open>
  One concrete value of the parameter: the textbook formulas, with the inverse and the solver
  restricted to diagonal matrices. It shows that the laws above can hold and is where the
  theorems that assume them are applied.
\<close>

definition eigen_reference :: eigen_ops where
  "eigen_reference =
     \<lparr>e_add = (\<lambda>A B. MatrixXd (mat_rows A) (mat_cols A) (\<lambda>i j. coeff A i j + coeff B i j)),
      e_sub = (\<lambda>A B. MatrixXd (mat_rows A) (mat_cols A) (\<lambda>i j. coeff A i j - coeff B i j)),
      e_mul = (\<lambda>A B. MatrixXd (mat_rows A) (mat_cols B)
        (\<lambda>i j. \<Sum>k<mat_cols A. coeff A i k * coeff B k j)),
      e_neg = (\<lambda>A. MatrixXd (mat_rows A) (mat_cols A) (\<lambda>i j. - coeff A i j)),
      e_scale = (\<lambda>s A. MatrixXd (mat_rows A) (mat_cols A) (\<lambda>i j. s * coeff A i j)),
      e_transpose = (\<lambda>A. MatrixXd (mat_cols A) (mat_rows A) (\<lambda>i j. coeff A j i)),
      e_inverse = (\<lambda>A. MatrixXd (mat_rows A) (mat_cols A)
        (\<lambda>i j. if i = j then 1 / coeff A i i else 0)),
      e_ldlt_solve = (\<lambda>A b. MatrixXd (mat_rows b) (mat_cols b) (\<lambda>i j. coeff b i j / coeff A i i)),
      e_norm = (\<lambda>A. sqrt (\<Sum>i<mat_rows A. \<Sum>j<mat_cols A. coeff A i j * coeff A i j)),
      e_trace = (\<lambda>A. \<Sum>i<mat_rows A. coeff A i i),
      e_dot = (\<lambda>a b. \<Sum>i<mat_rows a. coeff a i 0 * coeff b i 0),
      e_quat_mul = (\<lambda>p q. Quaterniond
        (q_w p * q_w q - q_x p * q_x q - q_y p * q_y q - q_z p * q_z q)
        (q_w p * q_x q + q_x p * q_w q + q_y p * q_z q - q_z p * q_y q)
        (q_w p * q_y q - q_x p * q_z q + q_y p * q_w q + q_z p * q_x q)
        (q_w p * q_z q + q_x p * q_y q - q_y p * q_x q + q_z p * q_w q)),
      e_quat_normalized = (\<lambda>q. let n = sqrt (q_w q * q_w q + q_x q * q_x q + q_y q * q_y q + q_z q * q_z q)
        in Quaterniond (q_w q / n) (q_x q / n) (q_y q / n) (q_z q / n)),
      e_quat_norm = (\<lambda>q. sqrt (q_w q * q_w q + q_x q * q_x q + q_y q * q_y q + q_z q * q_z q)),
      e_quat_conjugate = (\<lambda>q. Quaterniond (q_w q) (- q_x q) (- q_y q) (- q_z q)),
      e_rotation_matrix = (\<lambda>q. mat_of_rows 3 3
        [[1 - 2 * (q_y q * q_y q + q_z q * q_z q), 2 * (q_x q * q_y q - q_w q * q_z q),
          2 * (q_x q * q_z q + q_w q * q_y q)],
         [2 * (q_x q * q_y q + q_w q * q_z q), 1 - 2 * (q_x q * q_x q + q_z q * q_z q),
          2 * (q_y q * q_z q - q_w q * q_x q)],
         [2 * (q_x q * q_z q - q_w q * q_y q), 2 * (q_y q * q_z q + q_w q * q_x q),
          1 - 2 * (q_x q * q_x q + q_y q * q_y q)]]),
      e_quat_of_matrix = (\<lambda>M. Quaterniond_Identity),
      e_quat_of_angle_axis = (\<lambda>a v. Quaterniond (cos (a / 2)) (sin (a / 2) * coeff v 0 0)
        (sin (a / 2) * coeff v 1 0) (sin (a / 2) * coeff v 2 0)),
      e_angle_axis_of_quat = (\<lambda>q. (2 * arccos (q_w q), vec (Vector3d (q_x q) (q_y q) (q_z q))))\<rparr>"

lemma eigen_reference_laws: "eigen_algebra eigen_reference" "eigen_shapes eigen_reference"
  by (simp_all add: eigen_algebra_def add_law_def sub_law_def mul_law_def unary_laws_def
      eigen_shapes_def eigen_reference_def)

end
