(* ===== verification/Fg_Layout.thy ===== *)
theory Fg_Layout
  imports Fg_Eigen
begin

text \<open>
  \<^verbatim>\<open>backends/ekf/state_layout.hpp\<close>: the registry of error-state segments. An assertion that
  fails is \<^term>\<open>None\<close>; \<open>Get\<close> of an unregistered segment throws.
\<close>

section \<open>Segments and layout\<close>

datatype StateSegmentId =
    Position | Velocity | Attitude | AccelBias | GyroBias | GnssClock | BaroBias

record StateSegment =
  offset :: nat
  seg_size :: nat

record StateLayout =
  segments :: "StateSegmentId \<rightharpoonup> StateSegment"
  total_size :: nat

definition StateLayout_empty :: StateLayout where
  "StateLayout_empty = \<lparr>segments = Map.empty, total_size = 0\<rparr>"

definition Layout_Register :: "StateLayout \<Rightarrow> StateSegmentId \<Rightarrow> int \<Rightarrow> StateLayout option" where
  "Layout_Register l sid n =
     (if segments l sid \<noteq> None then None
      else if n \<le> 0 then None
      else Some (l\<lparr>segments := (segments l)(sid \<mapsto> \<lparr>offset = total_size l, seg_size = nat n\<rparr>),
                   total_size := total_size l + nat n\<rparr>))"

definition Layout_Has :: "StateLayout \<Rightarrow> StateSegmentId \<Rightarrow> bool" where
  "Layout_Has l sid \<longleftrightarrow> segments l sid \<noteq> None"

definition Layout_Get :: "StateLayout \<Rightarrow> StateSegmentId \<Rightarrow> cpp_exception + StateSegment" where
  "Layout_Get l sid =
     (case segments l sid of None \<Rightarrow> Inl (OutOfRange ''unordered_map::at'') | Some s \<Rightarrow> Inr s)"

definition ZeroVector :: "StateLayout \<Rightarrow> MatrixXd" where
  "ZeroVector l = Matrix_Zero (total_size l) 1"

definition ZeroMatrix :: "StateLayout \<Rightarrow> MatrixXd" where
  "ZeroMatrix l = Matrix_Zero (total_size l) (total_size l)"

definition IdentityMatrix :: "StateLayout \<Rightarrow> MatrixXd" where
  "IdentityMatrix l = Matrix_Identity (total_size l)"

text \<open>A sequence of registrations, as the factory helpers make it.\<close>

fun Register_all :: "StateLayout \<Rightarrow> (StateSegmentId \<times> int) list \<Rightarrow> StateLayout option" where
  "Register_all l [] = Some l"
| "Register_all l ((sid, n) # rest) =
     (case Layout_Register l sid n of None \<Rightarrow> None | Some l' \<Rightarrow> Register_all l' rest)"

definition MakeStandardLayout :: "StateLayout option" where
  "MakeStandardLayout =
     Register_all StateLayout_empty
       [(Position, 3), (Velocity, 3), (Attitude, 3), (AccelBias, 3), (GyroBias, 3)]"

definition MakeTightlyCoupledLayout :: "StateLayout option" where
  "MakeTightlyCoupledLayout =
     (case MakeStandardLayout of
        None \<Rightarrow> None
      | Some layout \<Rightarrow> Layout_Register layout GnssClock 2)"

section \<open>Well-formed layouts\<close>

text \<open>
  Every index of the error-state vector belongs to exactly one registered segment, and every
  segment lies inside the vector.
\<close>

definition in_segment :: "StateSegment \<Rightarrow> nat \<Rightarrow> bool" where
  "in_segment s i \<longleftrightarrow> offset s \<le> i \<and> i < offset s + seg_size s"

definition layout_ok :: "StateLayout \<Rightarrow> bool" where
  "layout_ok l \<longleftrightarrow>
     (\<forall>sid s. segments l sid = Some s \<longrightarrow> 0 < seg_size s \<and> offset s + seg_size s \<le> total_size l) \<and>
     (\<forall>i<total_size l. \<exists>!sid. \<exists>s. segments l sid = Some s \<and> in_segment s i)"

lemma layout_ok_empty [fg_inv]: "layout_ok StateLayout_empty"
  by (simp add: layout_ok_def StateLayout_empty_def)

lemma Layout_Register_cases:
  assumes "Layout_Register l sid n = Some l'"
  shows "segments l sid = None" "0 < n"
    "segments l' = (segments l)(sid \<mapsto> \<lparr>offset = total_size l, seg_size = nat n\<rparr>)"
    "total_size l' = total_size l + nat n"
  using assms by (auto simp: Layout_Register_def split: if_splits)

lemma Layout_Register_ok [fg_inv]:
  assumes "layout_ok l" and "Layout_Register l sid n = Some l'"
  shows "layout_ok l'"
proof -
  note r = Layout_Register_cases [OF assms(2)]
  from assms(1) have bound: "\<And>k s. segments l k = Some s \<Longrightarrow>
      0 < seg_size s \<and> offset s + seg_size s \<le> total_size l"
    and cover: "\<And>i. i < total_size l \<Longrightarrow>
      \<exists>!k. \<exists>s. segments l k = Some s \<and> in_segment s i"
    by (auto simp: layout_ok_def)
  have "\<exists>!k. \<exists>s. segments l' k = Some s \<and> in_segment s i" if i: "i < total_size l'" for i
  proof (cases "i < total_size l")
    case True
    then have "(\<exists>s. segments l' k = Some s \<and> in_segment s i) \<longleftrightarrow>
        (\<exists>s. segments l k = Some s \<and> in_segment s i)" for k
      using r(1,3) by (auto simp: in_segment_def)
    with cover [OF True] show ?thesis by simp
  next
    case False
    show ?thesis
    proof (rule ex1I [of _ sid])
      show "\<exists>s. segments l' sid = Some s \<and> in_segment s i"
        using False i r by (simp add: in_segment_def)
    next
      fix k
      assume "\<exists>s. segments l' k = Some s \<and> in_segment s i"
      then show "k = sid"
        using False bound [of k] r(3) by (cases "k = sid") (auto simp: in_segment_def)
    qed
  qed
  moreover have "0 < seg_size s \<and> offset s + seg_size s \<le> total_size l'"
    if "segments l' k = Some s" for k s
    using that r bound [of k s] by (auto split: if_splits)
  ultimately show ?thesis by (simp add: layout_ok_def)
qed

lemma Register_all_ok: "layout_ok l \<Longrightarrow> Register_all l rs = Some l' \<Longrightarrow> layout_ok l'"
proof (induction l rs rule: Register_all.induct)
  case (2 l sid n rest)
  then show ?case by (auto split: option.splits intro: Layout_Register_ok)
qed simp

lemma Register_all_keeps:
  "Register_all l rs = Some l' \<Longrightarrow> segments l sid = Some s \<Longrightarrow> segments l' sid = Some s"
proof (induction l rs rule: Register_all.induct)
  case (2 l k n rest)
  from 2(2) obtain l1 where l1: "Layout_Register l k n = Some l1" "Register_all l1 rest = Some l'"
    by (auto split: option.splits)
  with 2(3) have "segments l1 sid = Some s" using Layout_Register_cases [OF l1(1)] by auto
  with 2(1) [OF l1] show ?case .
qed simp

lemma Register_all_offsets:
  assumes "Register_all l rs = Some l'"
  shows "total_size l' = total_size l + (\<Sum>r\<leftarrow>rs. nat (snd r)) \<and>
    (\<forall>k<length rs. segments l (fst (rs ! k)) = None \<and> 0 < snd (rs ! k) \<and>
       segments l' (fst (rs ! k)) =
         Some \<lparr>offset = total_size l + (\<Sum>r\<leftarrow>take k rs. nat (snd r)), seg_size = nat (snd (rs ! k))\<rparr>)"
  using assms
proof (induction l rs rule: Register_all.induct)
  case (2 l sid n rest)
  from 2(2) obtain l1 where l1: "Layout_Register l sid n = Some l1" "Register_all l1 rest = Some l'"
    by (auto split: option.splits)
  note r = Layout_Register_cases [OF l1(1)]
  note ih = 2(1) [OF l1]
  have "segments l1 sid = Some \<lparr>offset = total_size l, seg_size = nat n\<rparr>" using r(3) by simp
  from Register_all_keeps [OF l1(2) this]
  have first: "segments l' sid = Some \<lparr>offset = total_size l, seg_size = nat n\<rparr>" .
  have "segments l (fst (rest ! k)) = None" if "k < length rest" for k
    using ih that r(3) by (metis fun_upd_apply option.distinct(1))
  with ih r first show ?case
    by (auto simp: nth_Cons split: nat.splits)
qed simp

lemma MakeStandardLayout_eq:
  "MakeStandardLayout = Some
     \<lparr>segments = [Position \<mapsto> \<lparr>offset = 0, seg_size = 3\<rparr>, Velocity \<mapsto> \<lparr>offset = 3, seg_size = 3\<rparr>,
        Attitude \<mapsto> \<lparr>offset = 6, seg_size = 3\<rparr>, AccelBias \<mapsto> \<lparr>offset = 9, seg_size = 3\<rparr>,
        GyroBias \<mapsto> \<lparr>offset = 12, seg_size = 3\<rparr>], total_size = 15\<rparr>"
  by (simp add: MakeStandardLayout_def Layout_Register_def StateLayout_empty_def)

text \<open>
  C38. Layout registration is sound: any sequence of registrations that passes the assertions
  gives a layout whose segments partition the error-state vector; every segment starts where
  the sizes registered before it end, nothing registered later moves it, and the vector has
  the sum of the sizes.
\<close>

theorem Register_all_partition:
  assumes "Register_all StateLayout_empty rs = Some l"
  shows "(\<forall>i<total_size l. \<exists>!sid. \<exists>s. segments l sid = Some s \<and> in_segment s i) \<and>
    total_size l = (\<Sum>r\<leftarrow>rs. nat (snd r)) \<and>
    (\<forall>k<length rs. segments l (fst (rs ! k)) =
       Some \<lparr>offset = (\<Sum>r\<leftarrow>take k rs. nat (snd r)), seg_size = nat (snd (rs ! k))\<rparr>)"
proof -
  from Register_all_ok [OF layout_ok_empty assms]
  have "\<forall>i<total_size l. \<exists>!sid. \<exists>s. segments l sid = Some s \<and> in_segment s i"
    by (simp add: layout_ok_def)
  with Register_all_offsets [OF assms] show ?thesis by (simp add: StateLayout_empty_def)
qed

theorem Register_all_partition_witness:
  "let rs = [(Position, 3), (GnssClock, 2)]; l = the (Register_all StateLayout_empty rs) in
   (\<forall>i<total_size l. \<exists>!sid. \<exists>s. segments l sid = Some s \<and> in_segment s i) \<and>
    total_size l = (\<Sum>r\<leftarrow>rs. nat (snd r)) \<and>
    (\<forall>k<length rs. segments l (fst (rs ! k)) =
       Some \<lparr>offset = (\<Sum>r\<leftarrow>take k rs. nat (snd r)), seg_size = nat (snd (rs ! k))\<rparr>)"
  unfolding Let_def
  by (rule Register_all_partition) (simp add: Layout_Register_def StateLayout_empty_def)

section \<open>Layouts of the estimator\<close>

text \<open>
  \<open>EkfEstimator::BuildLayout\<close>: the standard layout, extended as the options ask.
\<close>

definition BuildLayout_with :: "bool \<Rightarrow> bool \<Rightarrow> StateLayout option" where
  "BuildLayout_with enable_clock enable_baro =
     (case MakeStandardLayout of
        None \<Rightarrow> None
      | Some l0 \<Rightarrow>
          (case (if enable_clock then Layout_Register l0 GnssClock 2 else Some l0) of
             None \<Rightarrow> None
           | Some l1 \<Rightarrow> (if enable_baro then Layout_Register l1 BaroBias 1 else Some l1)))"

text \<open>A layout that has the five inertial segments where the code expects them.\<close>

definition standard_layout :: "StateLayout \<Rightarrow> bool" where
  "standard_layout l \<longleftrightarrow>
     segments l Position = Some \<lparr>offset = 0, seg_size = 3\<rparr> \<and>
     segments l Velocity = Some \<lparr>offset = 3, seg_size = 3\<rparr> \<and>
     segments l Attitude = Some \<lparr>offset = 6, seg_size = 3\<rparr> \<and>
     segments l AccelBias = Some \<lparr>offset = 9, seg_size = 3\<rparr> \<and>
     segments l GyroBias = Some \<lparr>offset = 12, seg_size = 3\<rparr> \<and>
     (\<forall>s. segments l GnssClock = Some s \<longrightarrow> offset s = 15 \<and> seg_size s = 2) \<and>
     layout_ok l \<and> 15 \<le> total_size l"

lemma BuildLayout_with_layout_ok: "BuildLayout_with c b = Some l \<Longrightarrow> layout_ok l"
proof -
  assume build: "BuildLayout_with c b = Some l"
  obtain l0 where l0: "MakeStandardLayout = Some l0" using MakeStandardLayout_eq by simp
  then have ok0: "layout_ok l0"
    unfolding MakeStandardLayout_def by (rule Register_all_ok [OF layout_ok_empty])
  obtain l1 where l1: "(if c then Layout_Register l0 GnssClock 2 else Some l0) = Some l1"
    and l: "(if b then Layout_Register l1 BaroBias 1 else Some l1) = Some l"
    using build unfolding BuildLayout_with_def l0 by (auto split: option.splits)
  have "layout_ok l1" using l1 ok0 by (cases c) (auto intro: Layout_Register_ok)
  then show "layout_ok l" using l by (cases b) (auto intro: Layout_Register_ok)
qed

lemma BuildLayout_with_ok:
  "\<exists>l. BuildLayout_with c b = Some l \<and> standard_layout l \<and>
     total_size l = 15 + (if c then 2 else 0) + (if b then 1 else 0) \<and>
     (Layout_Has l GnssClock \<longleftrightarrow> c) \<and> (Layout_Has l BaroBias \<longleftrightarrow> b)"
proof -
  have "BuildLayout_with c b \<noteq> None"
    by (simp add: BuildLayout_with_def MakeStandardLayout_eq Layout_Register_def)
  then obtain l where l: "BuildLayout_with c b = Some l" by auto
  note eq = l [unfolded BuildLayout_with_def MakeStandardLayout_eq Layout_Register_def]
  have "standard_layout l"
    using eq BuildLayout_with_layout_ok [OF l]
    by (cases c; cases b) (simp_all add: standard_layout_def, auto)
  moreover have "total_size l = 15 + (if c then 2 else 0) + (if b then 1 else 0)"
    "Layout_Has l GnssClock \<longleftrightarrow> c" "Layout_Has l BaroBias \<longleftrightarrow> b"
    using eq by (cases c; cases b; auto simp: Layout_Has_def)+
  ultimately show ?thesis using l by blast
qed

end
