(* ===== verification/Fg_Math.thy ===== *)
theory Fg_Math
  imports Fg_Eigen
begin

text \<open>
  \<^verbatim>\<open>src/core/include/falconguide/core/math.hpp\<close> and \<^verbatim>\<open>coordinates.hpp\<close>: angles,
  rotations, the WGS84 conversions and the local tangent plane. The functions of
  \<^verbatim>\<open><cmath>\<close> are the real functions of the library; \<open>std_atan2\<close> and \<open>std_hypot\<close> spell out
  the two that the library does not have under that name.
\<close>

section \<open>math.hpp\<close>

definition std_atan2 :: "real \<Rightarrow> real \<Rightarrow> real" where
  "std_atan2 y x =
     (if x > 0 then arctan (y / x)
      else if x < 0 then (if y \<ge> 0 then arctan (y / x) + pi else arctan (y / x) - pi)
      else if y > 0 then pi / 2
      else if y < 0 then - (pi / 2)
      else 0)"

definition std_hypot :: "real \<Rightarrow> real \<Rightarrow> real" where
  "std_hypot x y = sqrt (x * x + y * y)"

definition kPi :: real where
  "kPi = 3.141592653589793238462643383279502884"

record EulerAngles =
  roll_rad :: real
  pitch_rad :: real
  yaw_rad :: real

definition DegToRad :: "real \<Rightarrow> real" where
  "DegToRad degrees = degrees * kPi / 180"

definition RadToDeg :: "real \<Rightarrow> real" where
  "RadToDeg radians = radians * 180 / kPi"

definition Near :: "real \<Rightarrow> real \<Rightarrow> real \<Rightarrow> bool" where
  "Near lhs rhs tolerance \<longleftrightarrow> \<bar>lhs - rhs\<bar> \<le> tolerance"

definition Clamp :: "'a::linorder \<Rightarrow> 'a \<Rightarrow> 'a \<Rightarrow> 'a" where
  "Clamp value min_value max_value =
     (if value < min_value then min_value
      else if value > max_value then max_value
      else value)"

definition WrapAngleRad :: "real \<Rightarrow> real" where
  "WrapAngleRad a = std_atan2 (sin a) (cos a)"

definition SkewSymmetric :: "MatrixXd \<Rightarrow> MatrixXd" where
  "SkewSymmetric v =
     mat_of_rows 3 3
       [[0, - coeff v 2 0, coeff v 1 0],
        [coeff v 2 0, 0, - coeff v 0 0],
        [- coeff v 1 0, coeff v 0 0, 0]]"

definition NormalizeQuaternion :: "eigen_ops \<Rightarrow> Quaterniond \<Rightarrow> Quaterniond" where
  "NormalizeQuaternion E q =
     (if e_quat_norm E q = 0 then Quaterniond_Identity else e_quat_normalized E q)"

definition ExpMapSo3 :: "eigen_ops \<Rightarrow> MatrixXd \<Rightarrow> Quaterniond" where
  "ExpMapSo3 E rv =
     (let angle = e_norm E rv in
      if angle < 1 / 10 ^ 12
      then NormalizeQuaternion E
             (Quaterniond 1 (0.5 * coeff rv 0 0) (0.5 * coeff rv 1 0) (0.5 * coeff rv 2 0))
      else e_quat_of_angle_axis E angle (e_scale E (1 / angle) rv))"

definition LogMapSo3 :: "eigen_ops \<Rightarrow> Quaterniond \<Rightarrow> MatrixXd" where
  "LogMapSo3 E q =
     (let (angle, axis) = e_angle_axis_of_quat E (NormalizeQuaternion E q) in e_scale E angle axis)"

definition EulerToQuaternion :: "eigen_ops \<Rightarrow> EulerAngles \<Rightarrow> Quaterniond" where
  "EulerToQuaternion E euler =
     (let roll = e_quat_of_angle_axis E (roll_rad euler) (vec (Vector3d 1 0 0));
          pitch = e_quat_of_angle_axis E (pitch_rad euler) (vec (Vector3d 0 1 0));
          yaw = e_quat_of_angle_axis E (yaw_rad euler) (vec (Vector3d 0 0 1))
      in NormalizeQuaternion E (e_quat_mul E (e_quat_mul E yaw pitch) roll))"

definition QuaternionToEuler :: "eigen_ops \<Rightarrow> Quaterniond \<Rightarrow> EulerAngles" where
  "QuaternionToEuler E q =
     (let rotation = e_rotation_matrix E (NormalizeQuaternion E q)
      in \<lparr>roll_rad = std_atan2 (coeff rotation 2 1) (coeff rotation 2 2),
          pitch_rad = arcsin (Clamp (- coeff rotation 2 0) (-1) 1),
          yaw_rad = std_atan2 (coeff rotation 1 0) (coeff rotation 0 0)\<rparr>)"

definition SymmetrizeCovariance :: "eigen_ops \<Rightarrow> MatrixXd \<Rightarrow> MatrixXd" where
  "SymmetrizeCovariance E P = e_scale E 0.5 (e_add E P (e_transpose E P))"

lemma SymmetrizeCovariance_ok:
  assumes "eigen_algebra E" "psd n P"
  shows "covariance_ok n (SymmetrizeCovariance E P)"
proof -
  have sq: "square n P" using assms(2) by (rule psd_square)
  have t: "psd n (e_transpose E P)"
    using assms sq by (simp add: psd_def quad_transpose) (simp add: square_def)
  have "psd n (SymmetrizeCovariance E P)"
    unfolding SymmetrizeCovariance_def by (intro psd_scale psd_add assms t) simp
  moreover have "symmetric (SymmetrizeCovariance E P)"
    using assms(1) sq by (simp add: symmetric_def SymmetrizeCovariance_def square_def)
  ultimately show ?thesis by (simp add: covariance_ok_def)
qed

lemma SkewSymmetric_square [simp]:
  "mat_rows (SkewSymmetric v) = 3" "mat_cols (SkewSymmetric v) = 3"
  by (simp_all add: SkewSymmetric_def)

subsection \<open>Angles\<close>

lemma std_atan2_polar:
  assumes "0 < r" "- pi < t" "t \<le> pi"
  shows "std_atan2 (r * sin t) (r * cos t) = t"
proof (cases "cos t = 0")
  case True
  have "t = pi / 2 \<or> t = - (pi / 2)"
  proof (cases "0 \<le> t")
    case True': True
    then have "t = pi / 2" using True assms(3) cos_inj_pi [of t "pi / 2"] by simp
    then show ?thesis by simp
  next
    case False
    then have "0 \<le> - t" "- t \<le> pi" "cos (- t) = 0" using assms(2) True by auto
    then have "- t = pi / 2"
      using cos_inj_pi [of "- t" "pi / 2"] by simp
    then show ?thesis by simp
  qed
  then show ?thesis
  proof
    assume t: "t = pi / 2"
    show ?thesis using assms(1) unfolding t by (simp add: std_atan2_def)
  next
    assume t: "t = - (pi / 2)"
    show ?thesis using assms(1) unfolding t by (simp add: std_atan2_def)
  qed
next
  case False
  have q: "r * sin t / (r * cos t) = tan t" using assms(1) by (simp add: tan_def)
  show ?thesis
  proof (cases "0 < cos t")
    case True
    have "- (pi / 2) < t \<and> t < pi / 2"
    proof (rule ccontr)
      assume "\<not> ?thesis"
      then have "cos t \<le> 0"
        using assms(2,3) cos_ge_zero [of "t - pi"] cos_ge_zero [of "t + pi"]
        by (auto simp: not_less)
      with True show False by simp
    qed
    then have "arctan (sin t / cos t) = t" using arctan_tan [of t] by (simp add: tan_def)
    with True assms(1) show ?thesis by (simp add: std_atan2_def)
  next
    case neg: False
    then have c: "cos t < 0" using False by simp
    have out: "t < - (pi / 2) \<or> pi / 2 < t"
    proof (rule ccontr)
      assume "\<not> ?thesis"
      then have "0 \<le> cos t" by (intro cos_ge_zero) auto
      with c show False by simp
    qed
    have rc: "r * cos t < 0" using assms(1) c by (simp add: mult_pos_neg)
    show ?thesis
    proof (cases "pi / 2 < t")
      case True
      then have "0 \<le> sin t" using assms(3) by (intro sin_ge_zero) auto
      moreover have "arctan (tan t) = t - pi"
        using True assms(3) arctan_unique [of "t - pi" "tan t"] by (simp add: tan_def)
      ultimately show ?thesis
        using rc assms(1) by (simp add: std_atan2_def tan_def)
    next
      case False
      then have lo: "t < - (pi / 2)" using out by simp
      then have "0 < sin (- t)" using assms(2) by (intro sin_gt_zero) auto
      then have "sin t < 0" by simp
      moreover have "arctan (tan t) = t + pi"
        using lo assms(2) arctan_unique [of "t + pi" "tan t"] by (simp add: tan_def)
      ultimately show ?thesis
        using rc mult_pos_neg [OF assms(1), of "sin t"] unfolding std_atan2_def q by simp
    qed
  qed
qed


lemma polar_exists:
  assumes "x \<noteq> 0 \<or> y \<noteq> 0"
  obtains r t where "0 < r" "- pi < t" "t \<le> pi" "x = r * cos t" "y = r * sin t"
    "r = sqrt (x * x + y * y)"
proof -
  define r where "r = sqrt (x * x + y * y)"
  have pos: "0 < x * x + y * y"
    using assms by (auto simp: sum_squares_gt_zero_iff)
  then have r: "0 < r" and rr: "r * r = x * x + y * y" unfolding r_def by simp_all
  have "(x / r)\<^sup>2 + (y / r)\<^sup>2 = (x * x + y * y) / (r * r)"
    by (simp only: power2_eq_square times_divide_times_eq add_divide_distrib)
  also have "\<dots> = 1" unfolding rr by (rule divide_self) (use pos in linarith)
  finally have one: "(x / r)\<^sup>2 + (y / r)\<^sup>2 = 1" .
  obtain u where u: "0 \<le> u" "u < 2 * pi" "x / r = cos u" "y / r = sin u"
    by (rule sincos_total_2pi [OF one])
  obtain t where t: "- pi < t" "t \<le> pi" "x / r = cos t" "y / r = sin t"
  proof (cases "u \<le> pi")
    case True
    with u that [of u] show thesis using pi_gt_zero by linarith
  next
    case False
    with u that [of "u - 2 * pi"] show thesis by (simp add: cos_diff sin_diff)
  qed
  with r have "x = r * cos t" "y = r * sin t" by (simp_all add: field_simps)
  with r t(1,2) r_def that show thesis by blast
qed

lemma std_atan2_sin_cos:
  assumes "0 < x"
  shows "sin (std_atan2 y x) = y / sqrt (x * x + y * y)"
    "cos (std_atan2 y x) = x / sqrt (x * x + y * y)"
proof -
  from assms obtain r t where rt: "0 < r" "- pi < t" "t \<le> pi" "x = r * cos t" "y = r * sin t"
    and r: "r = sqrt (x * x + y * y)" using polar_exists [of x y] by blast
  have "std_atan2 y x = t" unfolding rt(4,5) using rt(1-3) by (rule std_atan2_polar)
  then show "sin (std_atan2 y x) = y / sqrt (x * x + y * y)"
    "cos (std_atan2 y x) = x / sqrt (x * x + y * y)"
    unfolding r [symmetric] using rt(1,4,5) by simp_all
qed


text \<open>
  \<open>WrapAngleRad\<close> returns the representative of its argument in \<open>[-\<pi>, \<pi>]\<close>: the result lies
  in that interval and differs from the argument by a whole number of turns.
\<close>

theorem WrapAngleRad_correct:
  "- pi \<le> WrapAngleRad a \<and> WrapAngleRad a \<le> pi \<and>
   (\<exists>k::int. WrapAngleRad a = a + 2 * pi * real_of_int k)"
proof -
  have nz: "cos a \<noteq> 0 \<or> sin a \<noteq> 0" using sin_cos_squared_add [of a]
    by (auto simp del: sin_cos_squared_add)
  obtain r t where rt: "0 < r" "- pi < t" "t \<le> pi" "cos a = r * cos t" "sin a = r * sin t"
    and r: "r = sqrt (cos a * cos a + sin a * sin a)" using polar_exists [OF nz] by blast
  have "r = 1" using r sin_cos_squared_add2 [of a] by (simp add: power2_eq_square)
  have w: "WrapAngleRad a = t"
    unfolding WrapAngleRad_def rt(4,5) using rt(1-3) by (rule std_atan2_polar)
  have "sin t = sin a \<and> cos t = cos a" using rt(4,5) \<open>r = 1\<close> by simp
  then obtain k :: int where "t = a + 2 * pi * real_of_int k"
    using sin_cos_eq_iff [of t a] by auto
  with w rt(2,3) show ?thesis by auto
qed

lemma LogMapSo3_shape [simp]:
  assumes "eigen_algebra E" "eigen_shapes E"
  shows "mat_rows (LogMapSo3 E q) = 3" "mat_cols (LogMapSo3 E q) = 1"
  using assms by (simp_all add: LogMapSo3_def split_beta)

section \<open>coordinates.hpp\<close>

record Lla =
  latitude_rad :: real
  longitude_rad :: real
  altitude_m :: real

definition kSemiMajorAxisM :: real where "kSemiMajorAxisM = 6378137"
definition kFlattening :: real where "kFlattening = 1 / 298.257223563"
definition kSemiMinorAxisM :: real where
  "kSemiMinorAxisM = kSemiMajorAxisM * (1 - kFlattening)"
definition kFirstEccentricitySquared :: real where
  "kFirstEccentricitySquared = kFlattening * (2 - kFlattening)"
definition kSecondEccentricitySquared :: real where
  "kSecondEccentricitySquared = kFirstEccentricitySquared / (1 - kFirstEccentricitySquared)"

definition LlaToEcef :: "Lla \<Rightarrow> EcefFrame Vec3" where
  "LlaToEcef lla =
     (let sin_lat = sin (latitude_rad lla);
          cos_lat = cos (latitude_rad lla);
          sin_lon = sin (longitude_rad lla);
          cos_lon = cos (longitude_rad lla);
          prime_vertical_radius =
            kSemiMajorAxisM / sqrt (1 - kFirstEccentricitySquared * sin_lat * sin_lat);
          x = (prime_vertical_radius + altitude_m lla) * cos_lat * cos_lon;
          y = (prime_vertical_radius + altitude_m lla) * cos_lat * sin_lon;
          z = (prime_vertical_radius * (1 - kFirstEccentricitySquared) + altitude_m lla) * sin_lat
      in Vec3_xyz x y z)"

definition EcefToLla :: "EcefFrame Vec3 \<Rightarrow> Lla" where
  "EcefToLla ecef =
     (let x = Vec3_x ecef;
          y = Vec3_y ecef;
          z = Vec3_z ecef;
          p = std_hypot x y;
          theta = std_atan2 (z * kSemiMajorAxisM) (p * kSemiMinorAxisM);
          sin_theta = sin theta;
          cos_theta = cos theta;
          latitude =
            std_atan2
              (z + kSecondEccentricitySquared * kSemiMinorAxisM * sin_theta * sin_theta * sin_theta)
              (p - kFirstEccentricitySquared * kSemiMajorAxisM * cos_theta * cos_theta * cos_theta);
          longitude = std_atan2 y x;
          sin_lat = sin latitude;
          prime_vertical_radius =
            kSemiMajorAxisM / sqrt (1 - kFirstEccentricitySquared * sin_lat * sin_lat);
          altitude = p / cos latitude - prime_vertical_radius
      in \<lparr>latitude_rad = latitude, longitude_rad = longitude, altitude_m = altitude\<rparr>)"

definition EcefToEnuRotation :: "real \<Rightarrow> real \<Rightarrow> MatrixXd" where
  "EcefToEnuRotation lat lon =
     (let sin_lat = sin lat; cos_lat = cos lat; sin_lon = sin lon; cos_lon = cos lon
      in mat_of_rows 3 3
           [[- sin_lon, cos_lon, 0],
            [- sin_lat * cos_lon, - sin_lat * sin_lon, cos_lat],
            [cos_lat * cos_lon, cos_lat * sin_lon, sin_lat]])"

record LocalTangentPlane =
  origin_lla :: Lla
  origin_ecef_m :: "EcefFrame Vec3"
  ecef_to_enu_rotation :: MatrixXd

definition LocalTangentPlane_new :: "Lla \<Rightarrow> LocalTangentPlane" where
  "LocalTangentPlane_new o_lla =
     \<lparr>origin_lla = o_lla, origin_ecef_m = LlaToEcef o_lla,
      ecef_to_enu_rotation = EcefToEnuRotation (latitude_rad o_lla) (longitude_rad o_lla)\<rparr>"

definition EcefToEnu :: "eigen_ops \<Rightarrow> LocalTangentPlane \<Rightarrow> EcefFrame Vec3 \<Rightarrow> EnuFrame Vec3" where
  "EcefToEnu E ltp point =
     (let delta = e_sub E (vec (eigen point)) (vec (eigen (origin_ecef_m ltp)))
      in Vec3 (v3 (e_mul E (ecef_to_enu_rotation ltp) delta)))"

definition EnuToEcef :: "eigen_ops \<Rightarrow> LocalTangentPlane \<Rightarrow> EnuFrame Vec3 \<Rightarrow> EcefFrame Vec3" where
  "EnuToEcef E ltp point =
     Vec3 (v3 (e_add E (vec (eigen (origin_ecef_m ltp)))
       (e_mul E (e_transpose E (ecef_to_enu_rotation ltp)) (vec (eigen point)))))"


subsection \<open>The geodetic conversions\<close>

lemma wgs84_constants:
  "0 < kSemiMajorAxisM" "0 < kFlattening" "kFlattening < 1" "0 < kSemiMinorAxisM"
  by (simp_all add: kSemiMajorAxisM_def kFlattening_def kSemiMinorAxisM_def)

lemma first_eccentricity: "kFirstEccentricitySquared = 1 - (1 - kFlattening)\<^sup>2"
  by (simp add: kFirstEccentricitySquared_def power2_eq_square algebra_simps)

lemma prime_vertical_positive: "0 < 1 - kFirstEccentricitySquared * sin t * sin t"
proof -
  have q: "0 < (1 - kFlattening)\<^sup>2" using wgs84_constants(3) by simp
  have "1 - kFirstEccentricitySquared * sin t * sin t =
      (cos t)\<^sup>2 + (1 - kFlattening)\<^sup>2 * (sin t)\<^sup>2"
    unfolding first_eccentricity cos_squared_eq by (simp add: power2_eq_square algebra_simps)
  also have "0 < \<dots>"
  proof (cases "sin t = 0")
    case True
    then have "(cos t)\<^sup>2 = 1" by (simp add: cos_squared_eq)
    with True show ?thesis by simp
  next
    case False
    with q have "0 < (1 - kFlattening)\<^sup>2 * (sin t)\<^sup>2" by simp
    then show ?thesis by (simp add: add_nonneg_pos)
  qed
  finally show ?thesis .
qed

lemma hypot_polar: "0 \<le> r \<Longrightarrow> std_hypot (r * cos t) (r * sin t) = r"
proof -
  assume "0 \<le> r"
  have "r * cos t * (r * cos t) + r * sin t * (r * sin t) = r\<^sup>2 * ((cos t)\<^sup>2 + (sin t)\<^sup>2)"
    by (simp only: power2_eq_square algebra_simps)
  then show ?thesis using \<open>0 \<le> r\<close> by (simp add: std_hypot_def)
qed

text \<open>
  A surface point converts to ECEF onto the WGS84 ellipsoid, and its longitude, latitude
  and altitude come back exactly: \<open>EcefToLla\<close> inverts \<open>LlaToEcef\<close> at altitude 0 away from the
  poles, so its one-step latitude formula is exact on the ellipsoid.
\<close>

theorem EcefToLla_LlaToEcef_surface:
  assumes "- (pi / 2) < lat" "lat < pi / 2" "- pi < lon" "lon \<le> pi"
  shows "EcefToLla (LlaToEcef \<lparr>latitude_rad = lat, longitude_rad = lon, altitude_m = 0\<rparr>) =
    \<lparr>latitude_rad = lat, longitude_rad = lon, altitude_m = 0\<rparr>"
proof -
  let ?e = kFirstEccentricitySquared and ?a = kSemiMajorAxisM and ?q = "1 - kFlattening"
  let ?s = "sin lat" and ?c = "cos lat"
  define W where "W = sqrt (1 - ?e * ?s * ?s)"
  define N where "N = ?a / W"
  have W: "0 < W" "W * W = 1 - ?e * ?s * ?s"
    unfolding W_def using prime_vertical_positive [of lat] by simp_all
  have N: "0 < N" unfolding N_def using W(1) wgs84_constants(1) by simp
  have c: "0 < ?c" using assms(1,2) by (rule cos_gt_zero_pi)
  have q: "0 < ?q" "?e = 1 - ?q * ?q"
    using wgs84_constants(3) by (simp_all add: first_eccentricity power2_eq_square)
  have WW: "W * W = ?c * ?c + ?q * ?s * (?q * ?s)"
    unfolding W(2) q(2) using cos_squared_eq [of lat] by (simp add: power2_eq_square algebra_simps)
  have b: "kSemiMinorAxisM = ?a * ?q" by (simp add: kSemiMinorAxisM_def)
  let ?p = "LlaToEcef \<lparr>latitude_rad = lat, longitude_rad = lon, altitude_m = 0\<rparr>"
  have xyz: "Vec3_x ?p = N * ?c * cos lon" "Vec3_y ?p = N * ?c * sin lon"
    "Vec3_z ?p = N * (?q * ?q) * ?s"
    by (simp_all add: LlaToEcef_def Let_def Vec3_xyz_def Vec3_x_def Vec3_y_def Vec3_z_def
        N_def W_def q(2) [symmetric])
       (simp add: q(2))
  have p: "std_hypot (Vec3_x ?p) (Vec3_y ?p) = N * ?c"
    unfolding xyz(1,2) using N c by (intro hypot_polar) simp
  define theta where "theta = std_atan2 (Vec3_z ?p * ?a) (N * ?c * kSemiMinorAxisM)"
  have root: "sqrt (N * ?c * (?a * ?q) * (N * ?c * (?a * ?q)) +
      N * (?q * ?q) * ?s * ?a * (N * (?q * ?q) * ?s * ?a)) = N * ?a * ?q * W"
  proof (rule real_sqrt_unique)
    show "(N * ?a * ?q * W)\<^sup>2 = N * ?c * (?a * ?q) * (N * ?c * (?a * ?q)) +
        N * (?q * ?q) * ?s * ?a * (N * (?q * ?q) * ?s * ?a)"
    proof -
      have "(N * ?a * ?q * W)\<^sup>2 = (N * ?a * ?q) * (N * ?a * ?q) * (W * W)"
        by (simp only: power2_eq_square mult_ac)
      then show ?thesis unfolding WW by (simp only: algebra_simps)
    qed
    show "0 \<le> N * ?a * ?q * W" using N q W wgs84_constants(1) by simp
  qed
  have pos: "0 < N * ?c * (?a * ?q)" using N c q wgs84_constants(1) by simp
  have "sin theta = N * (?q * ?q) * ?s * ?a / (N * ?a * ?q * W)"
    "cos theta = N * ?c * (?a * ?q) / (N * ?a * ?q * W)"
    unfolding theta_def xyz(3) b root [symmetric] by (rule std_atan2_sin_cos [OF pos])+
  then have th: "sin theta = ?q * ?s / W" "cos theta = ?c / W"
    using N q W wgs84_constants(1) by (simp_all add: divide_simps)
  define k where "k = ?a * (?q * ?q) / (W * W * W)"
  have k: "0 < k" unfolding k_def using W(1) q(1) wgs84_constants(1) by (intro divide_pos_pos mult_pos_pos)
  have e2: "kSecondEccentricitySquared * (?q * ?q) = ?e"
  proof -
    have "1 - ?e = ?q * ?q" unfolding q(2) by simp
    then show ?thesis unfolding kSecondEccentricitySquared_def using q(1) by simp
  qed
  have num: "Vec3_z ?p + kSecondEccentricitySquared * kSemiMinorAxisM * sin theta * sin theta *
      sin theta = k * ?s"
  proof -
    have "kSecondEccentricitySquared * kSemiMinorAxisM * sin theta * sin theta * sin theta =
        (kSecondEccentricitySquared * (?q * ?q)) * (?a * (?q * ?q) * ?s * (?s * ?s)) / (W * W * W)"
      unfolding th b
      by (simp only: times_divide_eq_right times_divide_eq_left divide_divide_eq_left mult_ac)
    also have "\<dots> = k * ?s * (?e * ?s * ?s)"
      unfolding e2 k_def by (simp only: times_divide_eq_left times_divide_eq_right mult_ac)
    finally have "Vec3_z ?p + kSecondEccentricitySquared * kSemiMinorAxisM * sin theta * sin theta *
        sin theta = k * ?s * (W * W) + k * ?s * (?e * ?s * ?s)"
      unfolding xyz(3) unfolding N_def k_def using W(1) by simp
    also have "\<dots> = k * ?s * (W * W + ?e * ?s * ?s)" by (simp only: distrib_left)
    also have "W * W + ?e * ?s * ?s = 1" unfolding W(2) by simp
    finally show ?thesis by simp
  qed
  have den: "N * ?c - ?e * ?a * cos theta * cos theta * cos theta = k * ?c"
  proof -
    have "?e * ?a * cos theta * cos theta * cos theta = ?a * ?c * (?e * (?c * ?c)) / (W * W * W)"
      unfolding th
      by (simp only: times_divide_eq_right times_divide_eq_left divide_divide_eq_left mult_ac)
    moreover have "N * ?c = ?a * ?c * (W * W) / (W * W * W)" unfolding N_def using W(1) by simp
    ultimately have "N * ?c - ?e * ?a * cos theta * cos theta * cos theta =
        ?a * ?c * (W * W - ?e * (?c * ?c)) / (W * W * W)"
      by (simp only: diff_divide_distrib right_diff_distrib)
    also have "W * W - ?e * (?c * ?c) = 1 - ?e"
    proof -
      have "?c * ?c = 1 - ?s * ?s" using cos_squared_eq [of lat] by (simp add: power2_eq_square)
      then have "W * W - ?e * (?c * ?c) = 1 - ?e * ?s * ?s - ?e * (1 - ?s * ?s)"
        by (simp only: W(2))
      then show ?thesis by (simp add: right_diff_distrib)
    qed
    also have "1 - ?e = ?q * ?q" unfolding q(2) by simp
    finally show ?thesis unfolding k_def by (simp add: mult_ac)
  qed
  have lat: "std_atan2 (k * ?s) (k * ?c) = lat"
    by (rule std_atan2_polar) (use k assms(1,2) in auto)
  have lon: "std_atan2 (Vec3_y ?p) (Vec3_x ?p) = lon"
    unfolding xyz(1,2) by (rule std_atan2_polar) (use N c assms(3,4) in auto)
  have alt: "N * ?c / ?c - ?a / sqrt (1 - ?e * ?s * ?s) = 0"
    using c by (simp add: N_def W_def)
  show ?thesis
    unfolding EcefToLla_def Let_def p lon theta_def [symmetric] num den lat alt ..
qed


theorem EcefToLla_LlaToEcef_surface_witness:
  "EcefToLla (LlaToEcef \<lparr>latitude_rad = 1 / 2, longitude_rad = 1, altitude_m = 0\<rparr>) =
    \<lparr>latitude_rad = 1 / 2, longitude_rad = 1, altitude_m = 0\<rparr>"
  by (rule EcefToLla_LlaToEcef_surface) (use pi_ge_two in auto)

subsection \<open>The local tangent plane\<close>

lemma sum3: "(\<Sum>k<3. f k) = f 0 + f 1 + (f 2 :: real)" for f :: "nat \<Rightarrow> real"
  by (simp add: numeral_eq_Suc)

lemma v3_mul:
  assumes "eigen_algebra E" "square 3 R" "mat_rows v = 3" "mat_cols v = 1"
  shows "v3 (e_mul E R v) = Vector3d
    (coeff R 0 0 * coeff v 0 0 + coeff R 0 1 * coeff v 1 0 + coeff R 0 2 * coeff v 2 0)
    (coeff R 1 0 * coeff v 0 0 + coeff R 1 1 * coeff v 1 0 + coeff R 1 2 * coeff v 2 0)
    (coeff R 2 0 * coeff v 0 0 + coeff R 2 1 * coeff v 1 0 + coeff R 2 2 * coeff v 2 0)"
  using assms by (simp add: v3_def square_def sum3)

lemma vec_coeff [simp]:
  "coeff (vec v) 0 j = v3_x v" "coeff (vec v) (Suc 0) j = v3_y v" "coeff (vec v) 2 j = v3_z v"
  by (simp_all add: vec_def)

lemma EcefToEnuRotation_square: "square 3 (EcefToEnuRotation lat lon)"
  by (simp add: EcefToEnuRotation_def Let_def square_def)

lemma EcefToEnuRotation_coeff:
  "coeff (EcefToEnuRotation lat lon) 0 0 = - sin lon"
  "coeff (EcefToEnuRotation lat lon) 0 (Suc 0) = cos lon"
  "coeff (EcefToEnuRotation lat lon) 0 2 = 0"
  "coeff (EcefToEnuRotation lat lon) (Suc 0) 0 = - sin lat * cos lon"
  "coeff (EcefToEnuRotation lat lon) (Suc 0) (Suc 0) = - sin lat * sin lon"
  "coeff (EcefToEnuRotation lat lon) (Suc 0) 2 = cos lat"
  "coeff (EcefToEnuRotation lat lon) 2 0 = cos lat * cos lon"
  "coeff (EcefToEnuRotation lat lon) 2 (Suc 0) = cos lat * sin lon"
  "coeff (EcefToEnuRotation lat lon) 2 2 = sin lat"
  by (simp_all add: EcefToEnuRotation_def Let_def mat_of_rows_def)

lemma EcefToEnu_explicit:
  assumes "eigen_algebra E" "ltp = LocalTangentPlane_new \<lparr>latitude_rad = lat, longitude_rad = lon, altitude_m = h\<rparr>"
    "o_ecef = eigen (origin_ecef_m ltp)"
  shows "eigen (EcefToEnu E ltp p) =
    (let dx = v3_x (eigen p) - v3_x o_ecef; dy = v3_y (eigen p) - v3_y o_ecef;
         dz = v3_z (eigen p) - v3_z o_ecef
     in Vector3d (- sin lon * dx + cos lon * dy)
          (- sin lat * cos lon * dx - sin lat * sin lon * dy + cos lat * dz)
          (cos lat * cos lon * dx + cos lat * sin lon * dy + sin lat * dz))"
  using assms EcefToEnuRotation_square
  by (simp add: EcefToEnu_def Let_def v3_mul LocalTangentPlane_new_def EcefToEnuRotation_coeff)

lemma EnuToEcef_explicit:
  assumes "eigen_algebra E" "ltp = LocalTangentPlane_new \<lparr>latitude_rad = lat, longitude_rad = lon, altitude_m = h\<rparr>"
    "o_ecef = eigen (origin_ecef_m ltp)"
  shows "eigen (EnuToEcef E ltp p) =
    (let e = v3_x (eigen p); n = v3_y (eigen p); u = v3_z (eigen p)
     in Vector3d (v3_x o_ecef + (- sin lon * e - sin lat * cos lon * n + cos lat * cos lon * u))
          (v3_y o_ecef + (cos lon * e - sin lat * sin lon * n + cos lat * sin lon * u))
          (v3_z o_ecef + (cos lat * n + sin lat * u)))"
  using assms EcefToEnuRotation_square [of lat lon]
  by (simp add: EnuToEcef_def Let_def v3_def sum3 LocalTangentPlane_new_def
      EcefToEnuRotation_coeff square_def)


lemma unit_circle_products: "sin t * sin t + cos t * cos t = (1 :: real)"
  using sin_cos_squared_add [of t] by (simp only: power2_eq_square)

lemma rotation_back:
  fixes a b s c :: real
  assumes "a * a + b * b = 1" "s * s + c * c = 1"
  shows "- a * (- a * x + b * y) - s * b * (- s * b * x - s * a * y + c * z) +
      c * b * (c * b * x + c * a * y + s * z) = x"
    "b * (- a * x + b * y) - s * a * (- s * b * x - s * a * y + c * z) +
      c * a * (c * b * x + c * a * y + s * z) = y"
    "c * (- s * b * x - s * a * y + c * z) + s * (c * b * x + c * a * y + s * z) = z"
    "- a * (- a * x - s * b * y + c * b * z) + b * (b * x - s * a * y + c * a * z) = x"
    "- s * b * (- a * x - s * b * y + c * b * z) - s * a * (b * x - s * a * y + c * a * z) +
      c * (c * y + s * z) = y"
    "c * b * (- a * x - s * b * y + c * b * z) + c * a * (b * x - s * a * y + c * a * z) +
      s * (c * y + s * z) = z"
  using assms by algebra+

text \<open>
  The local tangent plane is a rigid frame at its origin: converting an ECEF point to ENU
  and back, or an ENU point to ECEF and back, is the identity, and the plane's own origin has
  ENU coordinates zero.
\<close>

theorem LocalTangentPlane_roundtrip:
  assumes "eigen_algebra E"
  shows "let ltp = LocalTangentPlane_new o_lla in
    EnuToEcef E ltp (EcefToEnu E ltp p) = p \<and> EcefToEnu E ltp (EnuToEcef E ltp q) = q \<and>
    EcefToEnu E ltp (LlaToEcef o_lla) = Vec3_zero"
proof -
  obtain lat lon h where o_lla: "o_lla = \<lparr>latitude_rad = lat, longitude_rad = lon, altitude_m = h\<rparr>"
    by (cases o_lla)
  define ltp where "ltp = LocalTangentPlane_new o_lla"
  note ltp = ltp_def [unfolded o_lla]
  note to_enu = EcefToEnu_explicit [OF assms ltp refl]
  note to_ecef = EnuToEcef_explicit [OF assms ltp refl]
  note rot = rotation_back [OF unit_circle_products unit_circle_products]
  have 1: "eigen (EnuToEcef E ltp (EcefToEnu E ltp p)) = eigen p"
    unfolding to_ecef to_enu Let_def Vector3d.sel rot by (cases "eigen p") simp
  have 2: "eigen (EcefToEnu E ltp (EnuToEcef E ltp q)) = eigen q"
    unfolding to_ecef to_enu Let_def Vector3d.sel add_diff_cancel_left' rot
    by (cases "eigen q") simp
  have "origin_ecef_m ltp = LlaToEcef o_lla" by (simp add: ltp_def LocalTangentPlane_new_def)
  then have 3: "eigen (EcefToEnu E ltp (LlaToEcef o_lla)) = Vector3d_Zero"
    by (simp add: to_enu Vector3d_Zero_def)
  from 1 2 3 show ?thesis
    unfolding Let_def ltp_def [symmetric] Vec3_zero_def by (metis Vec3.expand Vec3.sel)
qed

theorem LocalTangentPlane_roundtrip_witness:
  "let ltp = LocalTangentPlane_new \<lparr>latitude_rad = 1, longitude_rad = 2, altitude_m = 30\<rparr> in
    EnuToEcef eigen_reference ltp (EcefToEnu eigen_reference ltp (Vec3_xyz 7 8 9)) = Vec3_xyz 7 8 9 \<and>
    EcefToEnu eigen_reference ltp (EnuToEcef eigen_reference ltp (Vec3_xyz 4 5 6)) = Vec3_xyz 4 5 6 \<and>
    EcefToEnu eigen_reference ltp
      (LlaToEcef \<lparr>latitude_rad = 1, longitude_rad = 2, altitude_m = 30\<rparr>) = Vec3_zero"
  by (rule LocalTangentPlane_roundtrip [OF eigen_reference_laws(1)])

end
