(* ===== verification/Fg_EkfUpdate.thy ===== *)
theory Fg_EkfUpdate
  imports Fg_Layout Fg_Math Fg_Estimator
begin

text \<open>
  The EKF state of \<^verbatim>\<open>backends/ekf/ekf_state.hpp\<close>, the plugin interface of
  \<^verbatim>\<open>measurement_models/measurement_model.hpp\<close> and the Joseph-form update of
  \<^verbatim>\<open>ekf_update.hpp\<close>, with the contract the engine needs from every model.
\<close>

section \<open>ekf\_state.hpp\<close>

record NominalState =
  nom_timestamp :: Timestamp
  nom_position_enu_m :: "EnuFrame Vec3"
  nom_velocity_enu_mps :: "EnuFrame Vec3"
  nom_orientation_body_to_enu :: Quaterniond
  nom_accel_bias_mps2 :: "ImuFrame Vec3"
  nom_gyro_bias_radps :: "ImuFrame Vec3"
  nom_gnss_clock :: "Vector2d option"

definition NominalState_default :: NominalState where
  "NominalState_default =
     \<lparr>nom_timestamp = Timestamp_default, nom_position_enu_m = Vec3_zero,
      nom_velocity_enu_mps = Vec3_zero, nom_orientation_body_to_enu = Quaterniond_Identity,
      nom_accel_bias_mps2 = Vec3_zero, nom_gyro_bias_radps = Vec3_zero, nom_gnss_clock = None\<rparr>"

record ImuNoiseModel =
  accel_noise_density_mps2_per_sqrthz :: real
  gyro_noise_density_radps_per_sqrthz :: real
  accel_random_walk_mps3_per_sqrthz :: real
  gyro_random_walk_radps2_per_sqrthz :: real

definition ImuNoiseModel_default :: ImuNoiseModel where
  "ImuNoiseModel_default =
     \<lparr>accel_noise_density_mps2_per_sqrthz = 0.003,
      gyro_noise_density_radps_per_sqrthz = 0.00015,
      accel_random_walk_mps3_per_sqrthz = 0.00003,
      gyro_random_walk_radps2_per_sqrthz = 0.000002\<rparr>"

record EkfState =
  nominal :: NominalState
  error_state :: MatrixXd
  covariance :: MatrixXd
  layout :: StateLayout

section \<open>measurement\_model.hpp\<close>

text \<open>
  \<open>Apply\<close> takes the nominal state, error state and covariance by reference; the results come
  back as a tuple. The local tangent plane is the only field of \<open>UpdateContext\<close>.
\<close>

type_synonym apply_result = "EstimatorUpdateResult \<times> NominalState \<times> MatrixXd \<times> MatrixXd"

record IMeasurementModel =
  model_Name :: string
  model_CanHandle :: "SensorMeasurement \<Rightarrow> bool"
  model_Apply :: "NominalState \<Rightarrow> MatrixXd \<Rightarrow> MatrixXd \<Rightarrow> StateLayout \<Rightarrow> SensorMeasurement \<Rightarrow>
    LocalTangentPlane option \<Rightarrow> cpp_exception + apply_result"

section \<open>ekf\_update.hpp\<close>

definition EkfUpdate ::
  "eigen_ops \<Rightarrow> MatrixXd \<Rightarrow> MatrixXd \<Rightarrow> MatrixXd \<Rightarrow> MatrixXd \<Rightarrow> MatrixXd \<Rightarrow> real \<Rightarrow>
     EstimatorUpdateResult \<times> MatrixXd \<times> MatrixXd" where
  "EkfUpdate E dx P H dz R_meas mahal_gate =
     (let n = mat_rows P;
          PHt = e_mul E P (e_transpose E H);
          S = e_add E (e_mul E H PHt) R_meas;
          mahal = coeff (e_mul E (e_transpose E dz) (e_ldlt_solve E S dz)) 0 0
      in if mahal_gate > 0 \<and> mahal > mahal_gate then (Rejected, dx, P)
         else
           (let K = e_mul E PHt (e_inverse E S);
                dx' = e_add E dx (e_mul E K dz);
                IKH = e_sub E (Matrix_Identity n) (e_mul E K H);
                P' = e_add E (e_mul E (e_mul E IKH P) (e_transpose E IKH))
                             (e_mul E (e_mul E K R_meas) (e_transpose E K))
            in (Accepted, dx', SymmetrizeCovariance E P')))"

definition vector :: "nat \<Rightarrow> MatrixXd \<Rightarrow> bool" where
  "vector n v \<longleftrightarrow> mat_rows v = n \<and> mat_cols v = 1"

lemma joseph_form_psd:
  assumes E: "eigen_algebra E" and P: "psd n P" and R: "psd m R"
    and K: "mat_rows K = n" "mat_cols K = m" and H: "mat_rows H = m" "mat_cols H = n"
  shows "covariance_ok n (SymmetrizeCovariance E
    (e_add E
      (e_mul E (e_mul E (e_sub E (Matrix_Identity n) (e_mul E K H)) P)
        (e_transpose E (e_sub E (Matrix_Identity n) (e_mul E K H))))
      (e_mul E (e_mul E K R) (e_transpose E K))))"
proof (rule SymmetrizeCovariance_ok [OF E psd_add [OF E]])
  show "psd n (e_mul E (e_mul E (e_sub E (Matrix_Identity n) (e_mul E K H)) P)
      (e_transpose E (e_sub E (Matrix_Identity n) (e_mul E K H))))"
    using E K H by (intro psd_congruence [OF E _ _ P]) simp_all
  show "psd n (e_mul E (e_mul E K R) (e_transpose E K))"
    using psd_congruence [OF E K R] .
qed

lemma EkfUpdate_ok:
  assumes E: "eigen_algebra E" "eigen_shapes E" and P: "psd n P" and dx: "vector n dx"
    and H: "mat_rows H = m" "mat_cols H = n" and dz: "vector m dz" and R: "psd m R"
    and upd: "EkfUpdate E dx P H dz R gate = (r, dx', P')"
  shows "(r = Accepted \<and> vector n dx' \<and> covariance_ok n P') \<or> (r = Rejected \<and> dx' = dx \<and> P' = P)"
proof -
  define S where "S = e_add E (e_mul E H (e_mul E P (e_transpose E H))) R"
  define K where "K = e_mul E (e_mul E P (e_transpose E H)) (e_inverse E S)"
  have sqP: "mat_rows P = n" "mat_cols P = n" and sqR: "mat_rows R = m" "mat_cols R = m"
    using P R by (auto simp: psd_def square_def)
  have S: "mat_rows S = m" "mat_cols S = m" using E(1) H sqP sqR by (simp_all add: S_def)
  have K: "mat_rows K = n" "mat_cols K = m" using E H sqP S by (simp_all add: K_def)
  show ?thesis
  proof (cases "gate > 0 \<and> coeff (e_mul E (e_transpose E dz) (e_ldlt_solve E S dz)) 0 0 > gate")
    case True
    then show ?thesis using upd by (simp add: EkfUpdate_def Let_def S_def [symmetric])
  next
    case False
    then have eq: "r = Accepted" "dx' = e_add E dx (e_mul E K dz)"
      "P' = SymmetrizeCovariance E
        (e_add E
          (e_mul E (e_mul E (e_sub E (Matrix_Identity n) (e_mul E K H)) P)
            (e_transpose E (e_sub E (Matrix_Identity n) (e_mul E K H))))
          (e_mul E (e_mul E K R) (e_transpose E K)))"
      using upd sqP(1) by (auto simp: EkfUpdate_def Let_def S_def [symmetric] K_def [symmetric])
    have "covariance_ok n P'" unfolding eq(3) by (rule joseph_form_psd [OF E(1) P R K H])
    moreover have "vector n dx'" using E(1) K dx dz by (simp add: eq(2) vector_def)
    ultimately show ?thesis using eq(1) by simp
  qed
qed

text \<open>
  C2. The Joseph-form update keeps a covariance a covariance: whatever the inverse and the
  solver compute, a symmetric positive semidefinite \<open>n \<times> n\<close> matrix and a positive semidefinite
  measurement noise give a symmetric positive semidefinite \<open>n \<times> n\<close> result, and a gated-out
  innovation changes neither the error state nor the covariance.
\<close>

theorem EkfUpdate_covariance:
  assumes "eigen_algebra E" "eigen_shapes E" "covariance_ok n P" "vector n dx"
    and "mat_rows H = m" "mat_cols H = n" "vector m dz" "psd m R"
  shows "case EkfUpdate E dx P H dz R gate of (r, dx', P') \<Rightarrow>
    covariance_ok n P' \<and> vector n dx' \<and> (r = Accepted \<or> r = Rejected \<and> dx' = dx \<and> P' = P)"
proof -
  obtain r dx' P' where u: "EkfUpdate E dx P H dz R gate = (r, dx', P')"
    by (cases "EkfUpdate E dx P H dz R gate") auto
  from EkfUpdate_ok [OF assms(1,2) covariance_ok_psd [OF assms(3)] assms(4-8) u] assms(3,4)
  show ?thesis by (auto simp: u)
qed

theorem EkfUpdate_covariance_witness:
  "case EkfUpdate eigen_reference (Matrix_Zero 2 1) (Matrix_Identity 2)
     (mat_of_rows 1 2 [[1, 0]]) (Matrix_Constant 1 1 3) (Matrix_Identity 1) 0 of (r, dx', P') \<Rightarrow>
    covariance_ok 2 P' \<and> vector 2 dx' \<and>
    (r = Accepted \<or> r = Rejected \<and> dx' = Matrix_Zero 2 1 \<and> P' = Matrix_Identity 2)"
proof (rule EkfUpdate_covariance [where m = 1, OF eigen_reference_laws])
  show "covariance_ok 2 (Matrix_Identity 2)"
    by (simp add: covariance_ok_def psd_Identity symmetric_def) (simp add: Matrix_Identity_def)
qed (simp_all add: vector_def psd_Identity)

section \<open>The contract of a measurement model\<close>

text \<open>
  What the engine relies on, for an \<open>n\<close>-dimensional layout: \<open>Apply\<close> returns one of three
  results, leaves the nominal state alone, and keeps the error state an \<open>n\<close>-vector and the
  covariance a covariance. \<open>clean\<close> models moreover change nothing unless they accept.
\<close>

definition apply_ok :: "bool \<Rightarrow> nat \<Rightarrow> NominalState \<Rightarrow> MatrixXd \<Rightarrow> MatrixXd \<Rightarrow> apply_result \<Rightarrow> bool" where
  "apply_ok clean n nom dx P res =
     (case res of (r, nom', dx', P') \<Rightarrow>
        r \<in> {Accepted, Rejected, NotInitialized} \<and> nom' = nom \<and> vector n dx' \<and>
        covariance_ok n P' \<and> (clean \<and> r \<noteq> Accepted \<longrightarrow> dx' = dx \<and> P' = P))"

lemma apply_ok_unchanged:
  "r \<in> {Rejected, NotInitialized} \<Longrightarrow> vector n dx \<Longrightarrow> covariance_ok n P \<Longrightarrow>
     apply_ok clean n nom dx P (r, nom, dx, P)"
  by (auto simp: apply_ok_def)

lemma apply_ok_EkfUpdate:
  assumes "eigen_algebra E" "eigen_shapes E" "covariance_ok n P" "vector n dx"
    and "mat_rows H = m" "mat_cols H = n" "vector m dz" "psd m R"
  shows "apply_ok clean n nom dx P
    (case EkfUpdate E dx P H dz R gate of (r, dx', P') \<Rightarrow> (r, nom, dx', P'))"
proof -
  obtain r dx' P' where u: "EkfUpdate E dx P H dz R gate = (r, dx', P')"
    by (cases "EkfUpdate E dx P H dz R gate") auto
  from EkfUpdate_ok [OF assms(1,2) covariance_ok_psd [OF assms(3)] assms(4-8) u] assms(3,4)
  show ?thesis by (auto simp: u apply_ok_def)
qed


text \<open>\<open>return EkfUpdate(...)\<close> at the end of an \<open>Apply\<close>, and \<open>std::optional::value_or\<close>.\<close>

definition value_or :: "'a option \<Rightarrow> 'a \<Rightarrow> 'a" where
  "value_or x d = (case x of None \<Rightarrow> d | Some v \<Rightarrow> v)"

definition return_update ::
  "eigen_ops \<Rightarrow> NominalState \<Rightarrow> MatrixXd \<Rightarrow> MatrixXd \<Rightarrow> MatrixXd \<Rightarrow> MatrixXd \<Rightarrow> MatrixXd \<Rightarrow> real \<Rightarrow>
     cpp_exception + apply_result" where
  "return_update E nom dx P H dz R_meas gate =
     (case EkfUpdate E dx P H dz R_meas gate of (r, dx', P') \<Rightarrow> Inr (r, nom, dx', P'))"

text \<open>The covariance blocks a measurement carries, as its producer promises them.\<close>

fun covariances_ok :: "SensorMeasurement \<Rightarrow> bool" where
  "covariances_ok (M_Dvl d) = covariance_ok 3 (dvl_velocity_covariance_m2ps2 d)"
| "covariances_ok (M_ExternalPose p) = covariance_ok 6 (ep_covariance p)"
| "covariances_ok (M_GnssSolution g) =
     (covariance_ok 3 (gnss_position_covariance_ecef_m2 g) \<and> covariance_ok 3 (gnss_velocity_covariance_ecef_m2ps2 g))"
| "covariances_ok (M_AidingSolution a) =
     (covariance_ok 3 (aid_position_covariance_ecef_m2 a) \<and> covariance_ok 3 (aid_velocity_covariance_ecef_mps2 a))"
| "covariances_ok _ = True"

definition context_ok :: "LocalTangentPlane option \<Rightarrow> bool" where
  "context_ok ctx \<longleftrightarrow> (\<forall>ltp. ctx = Some ltp \<longrightarrow> square 3 (ecef_to_enu_rotation ltp))"

definition returns_ok ::
  "bool \<Rightarrow> nat \<Rightarrow> NominalState \<Rightarrow> MatrixXd \<Rightarrow> MatrixXd \<Rightarrow> cpp_exception + apply_result \<Rightarrow> bool" where
  "returns_ok clean n nom dx P r \<longleftrightarrow> (\<exists>res. r = Inr res \<and> apply_ok clean n nom dx P res)"

definition model_ok :: "bool \<Rightarrow> IMeasurementModel \<Rightarrow> bool" where
  "model_ok clean mdl \<longleftrightarrow>
     (\<forall>nom dx P l m ctx.
        standard_layout l \<longrightarrow> covariance_ok (total_size l) P \<longrightarrow> vector (total_size l) dx \<longrightarrow>
        context_ok ctx \<longrightarrow> covariances_ok m \<longrightarrow> model_CanHandle mdl m \<longrightarrow>
        returns_ok clean (total_size l) nom dx P (model_Apply mdl nom dx P l m ctx))"

lemma return_update_ok:
  assumes "eigen_algebra E" "eigen_shapes E" "covariance_ok n P" "vector n dx"
    and "mat_rows H = m" "mat_cols H = n" "vector m dz" "psd m R"
  shows "returns_ok clean n nom dx P (return_update E nom dx P H dz R gate)"
  using apply_ok_EkfUpdate [OF assms, of clean nom gate]
  by (cases "EkfUpdate E dx P H dz R gate") (simp add: return_update_def returns_ok_def)

lemma unchanged_ok:
  assumes "r \<in> {Rejected, NotInitialized}" "vector n dx" "covariance_ok n P"
  shows "returns_ok clean n nom dx P (Inr (r, nom, dx, P))"
  using apply_ok_unchanged [OF assms] by (simp add: returns_ok_def)

lemma model_okI:
  assumes "\<And>nom dx P l m ctx. standard_layout l \<Longrightarrow> covariance_ok (total_size l) P \<Longrightarrow>
      vector (total_size l) dx \<Longrightarrow> context_ok ctx \<Longrightarrow> covariances_ok m \<Longrightarrow>
      model_CanHandle mdl m \<Longrightarrow>
      returns_ok clean (total_size l) nom dx P (model_Apply mdl nom dx P l m ctx)"
  shows "model_ok clean mdl"
  using assms unfolding model_ok_def by blast

lemma standard_Get [simp]:
  assumes "standard_layout l"
  shows "Layout_Get l Position = Inr \<lparr>offset = 0, seg_size = 3\<rparr>"
    "Layout_Get l Velocity = Inr \<lparr>offset = 3, seg_size = 3\<rparr>"
    "Layout_Get l Attitude = Inr \<lparr>offset = 6, seg_size = 3\<rparr>"
    "Layout_Get l AccelBias = Inr \<lparr>offset = 9, seg_size = 3\<rparr>"
    "Layout_Get l GyroBias = Inr \<lparr>offset = 12, seg_size = 3\<rparr>"
  using assms by (simp_all add: standard_layout_def Layout_Get_def)

lemma psd_sigma: "eigen_algebra E \<Longrightarrow> psd n (e_scale E (s * s) (Matrix_Identity n))"
  by (intro psd_scale psd_Identity) auto

lemma vector_simps [simp]:
  "vector n (Matrix_Constant m k c) \<longleftrightarrow> m = n \<and> k = 1"
  "vector n (Matrix_Zero m k) \<longleftrightarrow> m = n \<and> k = 1"
  "vector n (vec v) \<longleftrightarrow> n = 3"
  "vector n (set_coeff M i j c) \<longleftrightarrow> vector n M"
  "vector n (set_block M i j B) \<longleftrightarrow> vector n M"
  by (auto simp: vector_def)

end
