(* ===== verification/Fg_Ekf.thy ===== *)
theory Fg_Ekf
  imports Fg_EkfUpdate
begin

text \<open>
  The error-state EKF engine of \<^verbatim>\<open>src/estimation/src/backends/ekf/ekf_estimator.cpp\<close>.
  Each public method holds the mutex, so each is one function on the estimator's state.
  A method returns \<^term>\<open>None\<close> when its propagation loop does not terminate, and an exception
  of the layout or of a model as \<^term>\<open>Inl\<close>.
\<close>

section \<open>Options and state\<close>

record EkfOptions =
  base :: EstimatorOptions
  imu_noise :: ImuNoiseModel
  min_imu_dt_s :: real
  max_imu_dt_s :: real
  dead_reckoning_threshold_s :: real
  enable_gnss_clock_state :: bool
  enable_baro_bias_state :: bool

definition EkfOptions_default :: EkfOptions where
  "EkfOptions_default =
     \<lparr>base = EstimatorOptions_default, imu_noise = ImuNoiseModel_default,
      min_imu_dt_s = 1 / 10 ^ 6, max_imu_dt_s = 0.05, dead_reckoning_threshold_s = 5,
      enable_gnss_clock_state = False, enable_baro_bias_state = False\<rparr>"

record EkfEstimator =
  options :: EkfOptions
  initialised :: bool
  state :: EkfState
  measurement_models :: "IMeasurementModel list"
  imu_buffer :: "ImuMeasurement TimeOrderedBuffer"
  last_aiding_timestamp :: "Timestamp option"
  local_tangent_plane :: "LocalTangentPlane option"

definition kGravityMps2 :: real where "kGravityMps2 = 9.80665"
definition kInitPosSigmaM :: real where "kInitPosSigmaM = 10"
definition kInitVelSigmaMps :: real where "kInitVelSigmaMps = 1"
definition kInitAttSigmaRad :: real where "kInitAttSigmaRad = 0.5"
definition kInitAbaSigma :: real where "kInitAbaSigma = 0.3"
definition kInitGbaSigma :: real where "kInitGbaSigma = 0.05"
definition kInitClkBiasSigmaM :: real where "kInitClkBiasSigmaM = 100"
definition kInitClkDriftSigmaMps :: real where "kInitClkDriftSigmaMps = 10"

section \<open>Construction, registration, reset\<close>

text \<open>A failing assertion of \<open>Register\<close> would be \<^term>\<open>None\<close>; \<open>BuildLayout_with_ok\<close> excludes it.\<close>

definition BuildLayout :: "EkfOptions \<Rightarrow> StateLayout option" where
  "BuildLayout opts = BuildLayout_with (enable_gnss_clock_state opts) (enable_baro_bias_state opts)"

definition EkfEstimator_new :: "EkfOptions \<Rightarrow> EkfEstimator option" where
  "EkfEstimator_new opts =
     (case BuildLayout opts of
        None \<Rightarrow> None
      | Some l \<Rightarrow> Some
          \<lparr>options = opts, initialised = False,
           state = \<lparr>nominal = NominalState_default, error_state = ZeroVector l,
                    covariance = ZeroMatrix l, layout = l\<rparr>,
           measurement_models = [], imu_buffer = TimeOrderedBuffer_new 2000 True,
           last_aiding_timestamp = None, local_tangent_plane = None\<rparr>)"

definition RegisterMeasurementModel :: "EkfEstimator \<Rightarrow> IMeasurementModel \<Rightarrow> EkfEstimator" where
  "RegisterMeasurementModel k mdl = k\<lparr>measurement_models := measurement_models k @ [mdl]\<rparr>"

definition Ekf_Info :: "EkfEstimator \<Rightarrow> EstimatorInfo" where
  "Ekf_Info k = \<lparr>info_backend = Ekf, info_name = ''EkfEstimator'', info_version = ''1.0''\<rparr>"

definition Ekf_Options :: "EkfEstimator \<Rightarrow> EstimatorOptions" where
  "Ekf_Options k = base (options k)"

definition Ekf_IsInitialized :: "EkfEstimator \<Rightarrow> bool" where
  "Ekf_IsInitialized k = initialised k"

definition Ekf_Reset :: "EkfEstimator \<Rightarrow> EkfEstimator option" where
  "Ekf_Reset k =
     (case BuildLayout (options k) of
        None \<Rightarrow> None
      | Some l \<Rightarrow> Some
          (k\<lparr>initialised := False, local_tangent_plane := None, last_aiding_timestamp := None,
             imu_buffer := Clear (imu_buffer k),
             state := \<lparr>nominal = NominalState_default, error_state = ZeroVector l,
                       covariance = ZeroMatrix l, layout = l\<rparr>\<rparr>))"

section \<open>IMU propagation\<close>

text \<open>The nominal-state part of \<open>PropagateImu\<close>.\<close>

definition propagate_nominal ::
  "eigen_ops \<Rightarrow> NominalState \<Rightarrow> ImuMeasurement \<Rightarrow> real \<Rightarrow> NominalState" where
  "propagate_nominal E nom imu dt =
     (let f = e_sub E (vec (eigen (imu_specific_force_mps2 imu))) (vec (eigen (nom_accel_bias_mps2 nom)));
          omega = e_sub E (vec (eigen (imu_angular_rate_radps imu))) (vec (eigen (nom_gyro_bias_radps nom)));
          R = e_rotation_matrix E (nom_orientation_body_to_enu nom);
          g_enu = vec (Vector3d 0 0 (- kGravityMps2));
          a_enu = e_add E (e_mul E R f) g_enu;
          p = vec (eigen (nom_position_enu_m nom));
          v = vec (eigen (nom_velocity_enu_mps nom))
      in nom\<lparr>nom_position_enu_m := Vec3 (v3 (e_add E (e_add E p (e_scale E dt v))
               (e_scale E dt (e_scale E dt (e_scale E 0.5 a_enu))))),
             nom_velocity_enu_mps := Vec3 (v3 (e_add E v (e_scale E dt a_enu))),
             nom_orientation_body_to_enu := e_quat_normalized E
               (e_quat_mul E (nom_orientation_body_to_enu nom) (ExpMapSo3 E (e_scale E dt omega))),
             nom_timestamp := imu_timestamp imu\<rparr>)"

text \<open>
  The matrices \<open>F\<close>, \<open>G\<close> and \<open>Qc\<close> of the covariance part, over the offsets of the segments.
\<close>

definition error_dynamics ::
  "eigen_ops \<Rightarrow> StateLayout \<Rightarrow> nat \<Rightarrow> nat \<Rightarrow> nat \<Rightarrow> nat \<Rightarrow> nat \<Rightarrow> MatrixXd \<Rightarrow> MatrixXd \<Rightarrow> MatrixXd \<Rightarrow>
     MatrixXd" where
  "error_dynamics E l pos vel att aba gba R f omega =
     (let n = total_size l;
          F0 = Matrix_Zero n n;
          F1 = set_block F0 pos vel (Matrix_Identity 3);
          F2 = set_block F1 vel att (e_mul E (e_neg E R) (SkewSymmetric f));
          F3 = set_block F2 vel aba (e_neg E R);
          F4 = set_block F3 att att (e_neg E (SkewSymmetric omega));
          F5 = set_block F4 att gba (e_neg E (Matrix_Identity 3))
      in case segments l GnssClock of
           None \<Rightarrow> F5
         | Some clk \<Rightarrow> set_coeff F5 (offset clk) (offset clk + 1) 1)"

definition noise_input ::
  "eigen_ops \<Rightarrow> nat \<Rightarrow> nat \<Rightarrow> nat \<Rightarrow> nat \<Rightarrow> nat \<Rightarrow> MatrixXd \<Rightarrow> MatrixXd" where
  "noise_input E n vel att aba gba R =
     (let G0 = Matrix_Zero n 12;
          G1 = set_block G0 vel 0 (e_neg E R);
          G2 = set_block G1 att 3 (e_neg E (Matrix_Identity 3));
          G3 = set_block G2 aba 6 (Matrix_Identity 3)
      in set_block G3 gba 9 (Matrix_Identity 3))"

definition noise_density :: "eigen_ops \<Rightarrow> ImuNoiseModel \<Rightarrow> MatrixXd" where
  "noise_density E noise =
     (let qa = accel_noise_density_mps2_per_sqrthz noise;
          qg = gyro_noise_density_radps_per_sqrthz noise;
          qba = accel_random_walk_mps3_per_sqrthz noise;
          qbg = gyro_random_walk_radps2_per_sqrthz noise;
          Q1 = set_block (Matrix_Zero 12 12) 0 0 (e_scale E (qa * qa) (Matrix_Identity 3));
          Q2 = set_block Q1 3 3 (e_scale E (qg * qg) (Matrix_Identity 3));
          Q3 = set_block Q2 6 6 (e_scale E (qba * qba) (Matrix_Identity 3))
      in set_block Q3 9 9 (e_scale E (qbg * qbg) (Matrix_Identity 3)))"

definition PropagateImu ::
  "eigen_ops \<Rightarrow> EkfOptions \<Rightarrow> EkfState \<Rightarrow> ImuMeasurement \<Rightarrow> real \<Rightarrow> cpp_exception + EkfState" where
  "PropagateImu E opts s imu dt =
     (let nom = nominal s; l = layout s; n = total_size l;
          f = e_sub E (vec (eigen (imu_specific_force_mps2 imu))) (vec (eigen (nom_accel_bias_mps2 nom)));
          omega = e_sub E (vec (eigen (imu_angular_rate_radps imu))) (vec (eigen (nom_gyro_bias_radps nom)));
          R = e_rotation_matrix E (nom_orientation_body_to_enu nom)
      in bind_sum (Layout_Get l Position) (\<lambda>pos.
         bind_sum (Layout_Get l Velocity) (\<lambda>vel.
         bind_sum (Layout_Get l Attitude) (\<lambda>att.
         bind_sum (Layout_Get l AccelBias) (\<lambda>aba.
         bind_sum (Layout_Get l GyroBias) (\<lambda>gba.
           let F = error_dynamics E l (offset pos) (offset vel) (offset att) (offset aba)
                     (offset gba) R f omega;
               G = noise_input E n (offset vel) (offset att) (offset aba) (offset gba) R;
               Qc = noise_density E (imu_noise opts);
               Phi = e_add E (Matrix_Identity n) (e_scale E dt F);
               Q = e_scale E dt (e_mul E (e_mul E G Qc) (e_transpose E G));
               P = e_add E (e_mul E (e_mul E Phi (covariance s)) (e_transpose E Phi)) Q
           in Inr (s\<lparr>nominal := propagate_nominal E nom imu dt,
                     covariance := SymmetrizeCovariance E P\<rparr>)))))))"

text \<open>
  The splitting loop \<open>while (remaining > 0.0)\<close> of \<open>PropagateTo\<close>. It need not end, so it is a
  partial function.
\<close>

partial_function (option) split_loop ::
  "eigen_ops \<Rightarrow> EkfOptions \<Rightarrow> ImuMeasurement \<Rightarrow> EkfState \<Rightarrow> real \<Rightarrow> (cpp_exception + EkfState) option"
where
  "split_loop E opts imu s remaining =
     (if remaining > 0
      then (let step = min remaining (max_imu_dt_s opts) in
            case PropagateImu E opts s imu step of
              Inl e \<Rightarrow> Some (Inl e)
            | Inr s' \<Rightarrow> split_loop E opts imu s' (remaining - step))
      else Some (Inr s))"

definition set_timestamp :: "EkfState \<Rightarrow> Timestamp \<Rightarrow> EkfState" where
  "set_timestamp s t = s\<lparr>nominal := (nominal s)\<lparr>nom_timestamp := t\<rparr>\<rparr>"

fun propagate_batch ::
  "eigen_ops \<Rightarrow> EkfOptions \<Rightarrow> EkfState \<Rightarrow> ImuMeasurement list \<Rightarrow> (cpp_exception + EkfState) option"
where
  "propagate_batch E opts s [] = Some (Inr s)"
| "propagate_batch E opts s (imu # batch) =
     (if \<not> has_steady (nom_timestamp (nominal s)) \<and> \<not> has_gps (nom_timestamp (nominal s))
      then propagate_batch E opts (set_timestamp s (imu_timestamp imu)) batch
      else
        (case TimeDifference (imu_timestamp imu) (nom_timestamp (nominal s)) of
           None \<Rightarrow> propagate_batch E opts s batch
         | Some dt \<Rightarrow>
             (if seconds dt < min_imu_dt_s opts then propagate_batch E opts s batch
              else
                (case split_loop E opts imu s (seconds dt) of
                   None \<Rightarrow> None
                 | Some (Inl e) \<Rightarrow> Some (Inl e)
                 | Some (Inr s') \<Rightarrow>
                     propagate_batch E opts (set_timestamp s' (imu_timestamp imu)) batch))))"

definition PropagateTo ::
  "eigen_ops \<Rightarrow> EkfEstimator \<Rightarrow> Timestamp \<Rightarrow> (cpp_exception + EkfEstimator) option" where
  "PropagateTo E k target =
     (case PopUntil imu_timestamp (imu_buffer k) target True of
        (imu_batch, buffer) \<Rightarrow>
          (case propagate_batch E (options k) (state k) imu_batch of
             None \<Rightarrow> None
           | Some (Inl e) \<Rightarrow> Some (Inl e)
           | Some (Inr s) \<Rightarrow> Some (Inr (k\<lparr>imu_buffer := buffer, state := s\<rparr>))))"

section \<open>Error injection\<close>

definition add_segment :: "eigen_ops \<Rightarrow> 'frame Vec3 \<Rightarrow> MatrixXd \<Rightarrow> StateSegment \<Rightarrow> 'frame Vec3" where
  "add_segment E v dx seg =
     Vec3 (v3 (e_add E (vec (eigen v)) (segment dx (offset seg) (seg_size seg))))"

definition InjectErrorAndReset :: "eigen_ops \<Rightarrow> EkfState \<Rightarrow> cpp_exception + EkfState" where
  "InjectErrorAndReset E s =
     (let nom = nominal s; l = layout s; dx = error_state s
      in bind_sum (Layout_Get l Position) (\<lambda>pos.
         bind_sum (Layout_Get l Velocity) (\<lambda>vel.
         bind_sum (Layout_Get l Attitude) (\<lambda>att.
         bind_sum (Layout_Get l AccelBias) (\<lambda>aba.
         bind_sum (Layout_Get l GyroBias) (\<lambda>gba.
           let clock = (case (segments l GnssClock, nom_gnss_clock nom) of
                          (Some clk, Some c) \<Rightarrow>
                            Some (Vector2d (v2_x c + coeff dx (offset clk) 0)
                                           (v2_y c + coeff dx (offset clk + 1) 0))
                        | _ \<Rightarrow> nom_gnss_clock nom)
           in Inr (s\<lparr>nominal := nom
                \<lparr>nom_position_enu_m := add_segment E (nom_position_enu_m nom) dx pos,
                 nom_velocity_enu_mps := add_segment E (nom_velocity_enu_mps nom) dx vel,
                 nom_orientation_body_to_enu := e_quat_normalized E
                   (e_quat_mul E (nom_orientation_body_to_enu nom)
                      (ExpMapSo3 E (segment dx (offset att) (seg_size att)))),
                 nom_accel_bias_mps2 := add_segment E (nom_accel_bias_mps2 nom) dx aba,
                 nom_gyro_bias_radps := add_segment E (nom_gyro_bias_radps nom) dx gba,
                 nom_gnss_clock := clock\<rparr>,
                error_state := Matrix_Zero (mat_rows dx) (mat_cols dx)\<rparr>)))))))"

section \<open>Initialisation\<close>

definition initial_covariance ::
  "eigen_ops \<Rightarrow> StateLayout \<Rightarrow> nat \<Rightarrow> nat \<Rightarrow> nat \<Rightarrow> nat \<Rightarrow> nat \<Rightarrow> MatrixXd \<Rightarrow> GnssSolution \<Rightarrow> MatrixXd"
where
  "initial_covariance E l pos vel att aba gba R gnss =
     (let n = total_size l;
          diag = (\<lambda>c. e_scale E (c * c) (Matrix_Identity 3));
          P_pos = e_mul E (e_mul E R (gnss_position_covariance_ecef_m2 gnss)) (e_transpose E R);
          P_vel = e_mul E (e_mul E R (gnss_velocity_covariance_ecef_m2ps2 gnss)) (e_transpose E R);
          P1 = set_block (set_block (Matrix_Zero n n) pos pos P_pos) vel vel P_vel;
          P2 = (if e_norm E (get_block P1 pos pos 3 3) < 1 / 10 ^ 12
                then set_block (set_block P1 pos pos (diag kInitPosSigmaM))
                       vel vel (diag kInitVelSigmaMps)
                else P1);
          P3 = set_block P2 att att (diag kInitAttSigmaRad);
          P4 = set_block P3 aba aba (diag kInitAbaSigma);
          P5 = set_block P4 gba gba (diag kInitGbaSigma)
      in case segments l GnssClock of
           None \<Rightarrow> P5
         | Some clk \<Rightarrow>
             set_coeff
               (set_coeff P5 (offset clk) (offset clk) (kInitClkBiasSigmaM * kInitClkBiasSigmaM))
               (offset clk + 1) (offset clk + 1) (kInitClkDriftSigmaMps * kInitClkDriftSigmaMps))"

definition TryInitialiseFromGnss ::
  "eigen_ops \<Rightarrow> EkfEstimator \<Rightarrow> GnssSolution \<Rightarrow> cpp_exception + (bool \<times> EkfEstimator)" where
  "TryInitialiseFromGnss E k gnss =
     (if gnss_fix_type gnss = NoFix then Inr (False, k)
      else if gnss_validity gnss \<noteq> Valid then Inr (False, k)
      else
        (let l = layout (state k);
             ltp = LocalTangentPlane_new (EcefToLla (gnss_position_ecef_m gnss));
             R = ecef_to_enu_rotation ltp;
             nom = \<lparr>nom_timestamp = gnss_timestamp gnss, nom_position_enu_m = Vec3_xyz 0 0 0,
                    nom_velocity_enu_mps = Vec3 (v3 (e_mul E R (vec (eigen (gnss_velocity_ecef_mps gnss))))),
                    nom_orientation_body_to_enu = Quaterniond_Identity,
                    nom_accel_bias_mps2 = Vec3_xyz 0 0 0, nom_gyro_bias_radps = Vec3_xyz 0 0 0,
                    nom_gnss_clock = (if Layout_Has l GnssClock then Some (Vector2d 0 0)
                                      else nom_gnss_clock (nominal (state k)))\<rparr>
         in bind_sum (Layout_Get l Position) (\<lambda>pos.
            bind_sum (Layout_Get l Velocity) (\<lambda>vel.
            bind_sum (Layout_Get l Attitude) (\<lambda>att.
            bind_sum (Layout_Get l AccelBias) (\<lambda>aba.
            bind_sum (Layout_Get l GyroBias) (\<lambda>gba.
              Inr (True, k\<lparr>initialised := True, local_tangent_plane := Some ltp,
                state := \<lparr>nominal = nom, error_state = ZeroVector l,
                  covariance = initial_covariance E l (offset pos) (offset vel) (offset att)
                    (offset aba) (offset gba) R gnss,
                  layout = l\<rparr>\<rparr>))))))))"

section \<open>Output\<close>

definition segment_accuracy :: "eigen_ops \<Rightarrow> EkfState \<Rightarrow> StateSegment \<Rightarrow> real" where
  "segment_accuracy E s seg =
     sqrt (e_trace E (get_block (covariance s) (offset seg) (offset seg) 3 3) / 3)"

definition navigation_status :: "EkfEstimator \<Rightarrow> NavigationStatus" where
  "navigation_status k =
     (let t = nom_timestamp (nominal (state k)) in
      case last_aiding_timestamp k of
        None \<Rightarrow> DeadReckoning
      | Some aiding \<Rightarrow>
          (if has_steady t \<and> has_steady aiding
           then (case TimeDifference t aiding of
                   None \<Rightarrow> Nominal
                 | Some age \<Rightarrow>
                     (if seconds age > dead_reckoning_threshold_s (options k)
                      then DeadReckoning else Nominal))
           else DeadReckoning))"

definition BuildNavigationState :: "eigen_ops \<Rightarrow> EkfEstimator \<Rightarrow> cpp_exception + NavigationState" where
  "BuildNavigationState E k =
     (let s = state k; nom = nominal s; l = layout s;
          out0 = NavigationState_default
            \<lparr>nav_timestamp := nom_timestamp nom, nav_position_enu_m := nom_position_enu_m nom,
             nav_velocity_enu_mps := nom_velocity_enu_mps nom,
             nav_orientation_body_to_enu := nom_orientation_body_to_enu nom\<rparr>;
          out1 = (case local_tangent_plane k of
                    None \<Rightarrow> out0
                  | Some ltp \<Rightarrow> out0
                      \<lparr>nav_position_ecef_m := EnuToEcef E ltp (nom_position_enu_m nom),
                       nav_velocity_ecef_mps := Vec3 (v3 (e_mul E
                         (e_transpose E (ecef_to_enu_rotation ltp))
                         (vec (eigen (nom_velocity_enu_mps nom)))))\<rparr>);
          out2 = (if total_size l \<ge> 15
                  then out1\<lparr>nav_covariance := get_block (covariance s) 0 0 15 15\<rparr> else out1)
      in if \<not> initialised k
         then Inr (out2\<lparr>nav_quality := (nav_quality out2)\<lparr>initialized := False\<rparr>,
                        nav_status := Status_NotInitialized, nav_mode := Mode_Unknown\<rparr>)
         else
           bind_sum (Layout_Get l Position) (\<lambda>pos.
           bind_sum (Layout_Get l Velocity) (\<lambda>vel.
           bind_sum (Layout_Get l Attitude) (\<lambda>att.
             Inr (out2
               \<lparr>nav_quality := (nav_quality out2)
                  \<lparr>initialized := True,
                   position_accuracy_m := Some (segment_accuracy E s pos),
                   velocity_accuracy_mps := Some (segment_accuracy E s vel),
                   attitude_accuracy_rad := Some (segment_accuracy E s att)\<rparr>,
                nav_mode := (if measurement_models k = [] then InertialOnly else MultiSensorFusion),
                nav_status := navigation_status k,
                nav_sensors := (nav_sensors out2)
                  \<lparr>ss_imu := (ss_imu (nav_sensors out2))
                     \<lparr>health := Healthy, used_in_solution := True\<rparr>\<rparr>\<rparr>)))))"

definition Ekf_LatestState :: "eigen_ops \<Rightarrow> EkfEstimator \<Rightarrow> cpp_exception + NavigationState option" where
  "Ekf_LatestState E k =
     (if \<not> initialised k then Inr None
      else bind_sum (BuildNavigationState E k) (\<lambda>nav. Inr (Some nav)))"

section \<open>Measurements\<close>

text \<open>
  The dispatch loop: the first model that can handle the measurement decides; its exception
  escapes, an accepted update is injected.
\<close>

fun dispatch ::
  "eigen_ops \<Rightarrow> EkfEstimator \<Rightarrow> SensorMeasurement \<Rightarrow> IMeasurementModel list \<Rightarrow>
     cpp_exception + (MeasurementUpdateReport \<times> EkfEstimator)" where
  "dispatch E k m [] = Inr (report Rejected, k)"
| "dispatch E k m (mdl # models) =
     (if \<not> model_CanHandle mdl m then dispatch E k m models
      else
        bind_sum
          (model_Apply mdl (nominal (state k)) (error_state (state k)) (covariance (state k))
             (layout (state k)) m (local_tangent_plane k))
          (\<lambda>(r, nom', dx', P').
             let s' = (state k)\<lparr>nominal := nom', error_state := dx', covariance := P'\<rparr>
             in if r = Accepted
                then
                  (let corr = e_norm E dx' in
                   bind_sum (InjectErrorAndReset E s') (\<lambda>s''.
                     Inr (\<lparr>result = r, model_name = model_Name mdl, correction_norm = Some corr\<rparr>,
                          k\<lparr>state := s'', last_aiding_timestamp := Some (GetTimestamp m)\<rparr>)))
                else Inr (\<lparr>result = r, model_name = model_Name mdl, correction_norm = None\<rparr>,
                          k\<lparr>state := s'\<rparr>)))"

definition Ekf_AddMeasurement ::
  "eigen_ops \<Rightarrow> EkfEstimator \<Rightarrow> SensorMeasurement \<Rightarrow>
     (cpp_exception + (MeasurementUpdateReport \<times> EkfEstimator)) option" where
  "Ekf_AddMeasurement E k m =
     (case m of
        M_Imu imu \<Rightarrow>
          (case Insert imu_timestamp (imu_buffer k) imu of
             (r, buffer) \<Rightarrow>
               (if r = RejectedOutOfOrder \<or> r = RejectedNotComparable
                then Some (Inr (report Result_OutOfOrder, k\<lparr>imu_buffer := buffer\<rparr>))
                else Some (Inr (report Buffered, k\<lparr>imu_buffer := buffer\<rparr>))))
      | _ \<Rightarrow>
          (if \<not> initialised k
           then
             (case m of
                M_GnssSolution gnss \<Rightarrow>
                  Some (bind_sum (TryInitialiseFromGnss E k gnss) (\<lambda>(ok, k').
                    Inr (\<lparr>result = (if ok then Accepted else Rejected),
                          model_name = ''GnssLooselyCoupled'', correction_norm = None\<rparr>, k')))
              | _ \<Rightarrow> Some (Inr (report NotInitialized, k)))
           else
             (case PropagateTo E k (GetTimestamp m) of
                None \<Rightarrow> None
              | Some (Inl e) \<Rightarrow> Some (Inl e)
              | Some (Inr k') \<Rightarrow> Some (dispatch E k' m (measurement_models k')))))"

definition Ekf_ProcessUntil ::
  "eigen_ops \<Rightarrow> EkfEstimator \<Rightarrow> Timestamp \<Rightarrow>
     (cpp_exception + (EstimatorUpdateResult \<times> EkfEstimator)) option" where
  "Ekf_ProcessUntil E k t =
     (if \<not> initialised k then Some (Inr (NotInitialized, k))
      else
        (case PropagateTo E k t of
           None \<Rightarrow> None
         | Some (Inl e) \<Rightarrow> Some (Inl e)
         | Some (Inr k') \<Rightarrow> Some (Inr (Accepted, k'))))"

end
