(* ===== verification/Fg_EkfInvariant.thy ===== *)
theory Fg_EkfInvariant
  imports Fg_Ekf
begin

text \<open>
  The invariant of the EKF engine and its preservation by every operation: the layout keeps
  the shape the options ask for, the error state is a vector of that dimension, the covariance
  a covariance, and the tangent plane exists exactly when the filter is initialised.
\<close>

section \<open>The state invariant\<close>

definition ekf_state_ok :: "EkfState \<Rightarrow> bool" where
  "ekf_state_ok s \<longleftrightarrow> standard_layout (layout s) \<and>
     vector (total_size (layout s)) (error_state s) \<and>
     covariance_ok (total_size (layout s)) (covariance s)"

lemma ekf_state_okD:
  assumes "ekf_state_ok s"
  shows "standard_layout (layout s)" "vector (total_size (layout s)) (error_state s)"
    "covariance_ok (total_size (layout s)) (covariance s)"
    "psd (total_size (layout s)) (covariance s)"
  using assms by (auto simp: ekf_state_ok_def covariance_ok_def)

lemma covariance_ok_Zero: "covariance_ok n (Matrix_Zero n n)"
  by (simp add: covariance_ok_def psd_Zero symmetric_def) (simp add: Matrix_Zero_def)

section \<open>Propagation\<close>

lemma error_dynamics_square:
  "mat_rows (error_dynamics E l p v a b g R f w) = total_size l"
  "mat_cols (error_dynamics E l p v a b g R f w) = total_size l"
  by (simp_all add: error_dynamics_def Let_def split: option.splits)

lemma noise_input_shape:
  "mat_rows (noise_input E n v a b g R) = n" "mat_cols (noise_input E n v a b g R) = 12"
  by (simp_all add: noise_input_def Let_def)

lemma clear_at_set_sigma:
  assumes "eigen_algebra E" "clear_at M p s" "q + 3 \<le> p"
  shows "clear_at (set_block M q q (e_scale E c (Matrix_Identity 3))) p s"
  using assms by (intro clear_at_set_block [of _ _ _ 3]) (auto simp: square_def)

lemma psd_set_sigma:
  assumes "eigen_algebra E" "psd n M" "clear_at M p 3" "p + 3 \<le> n"
  shows "psd n (set_block M p p (e_scale E (c * c) (Matrix_Identity 3)))"
  using assms psd_sigma [OF assms(1)] by (intro psd_set_block) auto

lemma noise_density_psd:
  assumes "eigen_algebra E"
  shows "psd 12 (noise_density E noise)"
  unfolding noise_density_def Let_def
  by (intro psd_set_sigma [OF assms] clear_at_set_sigma [OF assms] psd_Zero
      clear_at_Zero) simp_all

lemma PropagateImu_ok:
  assumes E: "eigen_algebra E" "eigen_shapes E" and s: "ekf_state_ok s" and dt: "0 \<le> dt"
  shows "\<exists>s'. PropagateImu E opts s imu dt = Inr s' \<and> ekf_state_ok s' \<and> layout s' = layout s \<and>
    error_state s' = error_state s \<and> nom_timestamp (nominal s') = imu_timestamp imu \<and>
    nom_gnss_clock (nominal s') = nom_gnss_clock (nominal s)"
proof -
  let ?n = "total_size (layout s)"
  note sD = ekf_state_okD [OF s]
  define R where "R = e_rotation_matrix E (nom_orientation_body_to_enu (nominal s))"
  define F where "F = error_dynamics E (layout s) 0 3 6 9 12 R
    (e_sub E (vec (eigen (imu_specific_force_mps2 imu))) (vec (eigen (nom_accel_bias_mps2 (nominal s)))))
    (e_sub E (vec (eigen (imu_angular_rate_radps imu))) (vec (eigen (nom_gyro_bias_radps (nominal s)))))"
  define Phi where "Phi = e_add E (Matrix_Identity ?n) (e_scale E dt F)"
  define G where "G = noise_input E ?n 3 6 9 12 R"
  define Q where "Q = e_scale E dt (e_mul E (e_mul E G (noise_density E (imu_noise opts))) (e_transpose E G))"
  define P where "P = e_add E (e_mul E (e_mul E Phi (covariance s)) (e_transpose E Phi)) Q"
  have Phi: "mat_rows Phi = ?n" "mat_cols Phi = ?n"
    using E(1) by (simp_all add: Phi_def F_def error_dynamics_square)
  have "psd ?n Q"
    unfolding Q_def G_def
    by (intro psd_scale psd_congruence [OF E(1) noise_input_shape] noise_density_psd E(1) dt)
  then have "psd ?n P"
    unfolding P_def by (intro psd_add psd_congruence [OF E(1) Phi sD(4)] E(1))
  then have "covariance_ok ?n (SymmetrizeCovariance E P)" by (rule SymmetrizeCovariance_ok [OF E(1)])
  moreover have "PropagateImu E opts s imu dt =
      Inr (s\<lparr>nominal := propagate_nominal E (nominal s) imu dt, covariance := SymmetrizeCovariance E P\<rparr>)"
    using sD(1)
    by (simp add: PropagateImu_def Let_def P_def Q_def Phi_def F_def G_def R_def)
  ultimately show ?thesis
    using s by (simp add: ekf_state_ok_def propagate_nominal_def Let_def)
qed

definition split_post :: "EkfState \<Rightarrow> EkfState \<Rightarrow> bool" where
  "split_post s s' \<longleftrightarrow> ekf_state_ok s' \<and> layout s' = layout s \<and> error_state s' = error_state s \<and>
     nom_gnss_clock (nominal s') = nom_gnss_clock (nominal s)"

lemma split_post_refl: "ekf_state_ok s \<Longrightarrow> split_post s s"
  by (simp add: split_post_def)

lemma split_post_trans: "split_post s t \<Longrightarrow> split_post t u \<Longrightarrow> split_post s u"
  by (simp add: split_post_def)

text \<open>The measure of the splitting loops: the number of steps still to take.\<close>

lemma split_decreases:
  assumes "0 < r" "(0::real) < m"
  shows "nat \<lceil>(r - min r m) / m\<rceil> < nat \<lceil>r / m\<rceil>"
proof (cases "r \<le> m")
  case False
  then have "(r - min r m) / m = r / m - 1" using assms by (simp add: diff_divide_distrib)
  moreover have "0 < r / m" using assms by simp
  ultimately show ?thesis by (simp add: ceiling_diff_one)
qed (use assms in simp)

lemma split_loop_returns:
  assumes E: "eigen_algebra E" "eigen_shapes E" and m: "0 < max_imu_dt_s opts"
    and "ekf_state_ok s"
  shows "\<exists>s'. split_loop E opts imu s r = Some (Inr s') \<and> split_post s s'"
  using assms(4)
proof (induction "nat \<lceil>r / max_imu_dt_s opts\<rceil>" arbitrary: r s rule: less_induct)
  case less
  let ?m = "max_imu_dt_s opts"
  show ?case
  proof (cases "0 < r")
    case False
    then show ?thesis using less.prems by (simp add: split_loop.simps split_post_refl)
  next
    case True
    let ?step = "min r ?m"
    have "0 \<le> ?step" using True m by simp
    from PropagateImu_ok [OF E less.prems this, of opts imu] obtain t where
      t: "PropagateImu E opts s imu ?step = Inr t" "split_post s t"
      by (auto simp: split_post_def)
    have decr: "nat \<lceil>(r - ?step) / ?m\<rceil> < nat \<lceil>r / ?m\<rceil>" by (rule split_decreases [OF True m])
    have "ekf_state_ok t" using t(2) by (simp add: split_post_def)
    from less.hyps [OF decr this] obtain u where
      "split_loop E opts imu t (r - ?step) = Some (Inr u)" "split_post t u" by blast
    with t True split_post_trans show ?thesis
      by (subst split_loop.simps) (auto simp: Let_def)
  qed
qed

lemma split_loop_diverges:
  assumes m: "max_imu_dt_s opts \<le> 0" and r: "0 < r" and s: "standard_layout (layout s)"
  shows "split_loop E opts imu s r = None"
proof (rule ccontr)
  assume "split_loop E opts imu s r \<noteq> None"
  then obtain y where "split_loop E opts imu s r = Some y" by auto
  then have "max_imu_dt_s opts \<le> 0 \<longrightarrow> 0 < r \<longrightarrow> standard_layout (layout s) \<longrightarrow> False"
  proof (rule split_loop.raw_induct [where P = "\<lambda>E opts imu s r y. max_imu_dt_s opts \<le> 0 \<longrightarrow>
        0 < r \<longrightarrow> standard_layout (layout s) \<longrightarrow> False", rotated])
    fix f E opts imu s r and y :: "cpp_exception + EkfState"
    assume IH: "\<And>E opts imu s r y. f E opts imu s r = Some y \<Longrightarrow> max_imu_dt_s opts \<le> 0 \<longrightarrow>
        0 < r \<longrightarrow> standard_layout (layout s) \<longrightarrow> False"
      and body: "(if 0 < r
         then let step = min r (max_imu_dt_s opts)
              in case PropagateImu E opts s imu step of Inl e \<Rightarrow> Some (Inl e)
                 | Inr s' \<Rightarrow> f E opts imu s' (r - step)
         else Some (Inr s)) = Some y"
    show "max_imu_dt_s opts \<le> 0 \<longrightarrow> 0 < r \<longrightarrow> standard_layout (layout s) \<longrightarrow> False"
    proof (intro impI)
      assume a: "max_imu_dt_s opts \<le> 0" "0 < r" "standard_layout (layout s)"
      then obtain s' where p: "PropagateImu E opts s imu (min r (max_imu_dt_s opts)) = Inr s'"
        "layout s' = layout s"
        by (simp add: PropagateImu_def Let_def)
      have "0 < r - min r (max_imu_dt_s opts)" using a by (simp add: min_def)
      moreover have "f E opts imu s' (r - min r (max_imu_dt_s opts)) = Some y"
        using body a(2) p(1) by (simp add: Let_def)
      ultimately show False using IH a p(2) by metis
    qed
  qed
  with m r s show False by simp
qed

lemma set_timestamp_post [simp]:
  "split_post s t \<Longrightarrow> split_post s (set_timestamp t ts)"
  "ekf_state_ok t \<Longrightarrow> ekf_state_ok (set_timestamp t ts)"
  by (auto simp: split_post_def ekf_state_ok_def set_timestamp_def)

lemma propagate_batch_returns:
  assumes E: "eigen_algebra E" "eigen_shapes E" and m: "0 < max_imu_dt_s opts"
    and "ekf_state_ok s"
  shows "\<exists>s'. propagate_batch E opts s batch = Some (Inr s') \<and> split_post s s'"
  using assms(4)
proof (induction batch arbitrary: s)
  case Nil
  then show ?case by (simp add: split_post_refl)
next
  case (Cons imu batch)
  let ?skip = "\<not> has_steady (nom_timestamp (nominal s)) \<and> \<not> has_gps (nom_timestamp (nominal s))"
  obtain t where t: "split_post s t"
    "propagate_batch E opts s (imu # batch) = propagate_batch E opts t batch"
  proof (cases ?skip)
    case True
    then have "propagate_batch E opts s (imu # batch) =
        propagate_batch E opts (set_timestamp s (imu_timestamp imu)) batch" by simp
    with that show thesis using set_timestamp_post(1) [OF split_post_refl [OF Cons.prems]] by blast
  next
    case False
    show thesis
    proof (cases "TimeDifference (imu_timestamp imu) (nom_timestamp (nominal s))")
      case None
      with False have "propagate_batch E opts s (imu # batch) = propagate_batch E opts s batch" by auto
      with that show thesis using split_post_refl [OF Cons.prems] by blast
    next
      case (Some dt)
      obtain u where u: "split_loop E opts imu s (seconds dt) = Some (Inr u)" "split_post s u"
        using split_loop_returns [OF E m Cons.prems] by blast
      have "propagate_batch E opts s (imu # batch) = propagate_batch E opts
          (if seconds dt < min_imu_dt_s opts then s else set_timestamp u (imu_timestamp imu)) batch"
        using False Some u(1) by auto
      with that show thesis
        using split_post_refl [OF Cons.prems] set_timestamp_post(1) [OF u(2)] by metis
    qed
  qed
  then have "ekf_state_ok t" by (simp add: split_post_def)
  from Cons.IH [OF this] t split_post_trans show ?case by metis
qed

section \<open>The estimator invariant\<close>

definition ekf_ok :: "EkfEstimator \<Rightarrow> bool" where
  "ekf_ok k \<longleftrightarrow> ekf_state_ok (state k) \<and> BuildLayout (options k) = Some (layout (state k)) \<and>
     (initialised k \<longleftrightarrow> local_tangent_plane k \<noteq> None) \<and> context_ok (local_tangent_plane k) \<and>
     (\<forall>mdl\<in>set (measurement_models k). model_ok False mdl) \<and>
     (last_aiding_timestamp k \<noteq> None \<longrightarrow> initialised k)"

lemma model_ok_weaken: "model_ok clean mdl \<Longrightarrow> model_ok False mdl"
  by (fastforce simp: model_ok_def returns_ok_def apply_ok_def split: prod.splits)

lemma ekf_ok_new: "EkfEstimator_new opts = Some k \<Longrightarrow> ekf_ok k"
  using BuildLayout_with_ok [of "enable_gnss_clock_state opts" "enable_baro_bias_state opts"]
  by (auto simp: EkfEstimator_new_def BuildLayout_def ekf_ok_def ekf_state_ok_def context_ok_def
      ZeroVector_def ZeroMatrix_def covariance_ok_Zero)

lemma EkfEstimator_new_defined: "\<exists>k. EkfEstimator_new opts = Some k"
  using BuildLayout_with_ok [of "enable_gnss_clock_state opts" "enable_baro_bias_state opts"]
  by (auto simp: EkfEstimator_new_def BuildLayout_def)

lemma ekf_ok_register: "ekf_ok k \<Longrightarrow> model_ok clean mdl \<Longrightarrow> ekf_ok (RegisterMeasurementModel k mdl)"
  by (auto simp: ekf_ok_def RegisterMeasurementModel_def intro: model_ok_weaken)

lemma ekf_ok_reset:
  assumes "ekf_ok k"
  shows "\<exists>k'. Ekf_Reset k = Some k' \<and> ekf_ok k' \<and> \<not> initialised k' \<and> measurements (imu_buffer k') = [] \<and>
    error_state (state k') = ZeroVector (layout (state k')) \<and> options k' = options k \<and>
    measurement_models k' = measurement_models k"
  using assms
  by (auto simp: Ekf_Reset_def ekf_ok_def ekf_state_ok_def context_ok_def Clear_def
      ZeroVector_def ZeroMatrix_def covariance_ok_Zero)

lemma PropagateTo_ok:
  assumes E: "eigen_algebra E" "eigen_shapes E" and m: "0 < max_imu_dt_s (options k)" and k: "ekf_ok k"
  shows "\<exists>k'. PropagateTo E k t = Some (Inr k') \<and> ekf_ok k' \<and>
    k' = k\<lparr>imu_buffer := snd (PopUntil imu_timestamp (imu_buffer k) t True), state := state k'\<rparr> \<and>
    split_post (state k) (state k')"
proof -
  obtain batch b where p: "PopUntil imu_timestamp (imu_buffer k) t True = (batch, b)" by fastforce
  from k have "ekf_state_ok (state k)" by (simp add: ekf_ok_def)
  from propagate_batch_returns [OF E m this] obtain s where
    s: "propagate_batch E (options k) (state k) batch = Some (Inr s)" "split_post (state k) s" by blast
  from s k show ?thesis by (auto simp: PropagateTo_def p ekf_ok_def split_post_def)
qed

lemma InjectErrorAndReset_ok:
  assumes "ekf_state_ok s"
  shows "\<exists>s'. InjectErrorAndReset E s = Inr s' \<and> ekf_state_ok s' \<and> layout s' = layout s \<and>
    error_state s' = ZeroVector (layout s) \<and> covariance s' = covariance s \<and>
    nom_timestamp (nominal s') = nom_timestamp (nominal s)"
  using assms
  by (auto simp: InjectErrorAndReset_def Let_def ekf_state_ok_def ZeroVector_def vector_def)

section \<open>Initialisation\<close>

lemma symmetric_set_block:
  assumes "symmetric M" "square n M" "symmetric B" "square b B"
  shows "symmetric (set_block M p p B)"
  using assms by (auto simp: symmetric_def set_block_def square_def)

lemma symmetric_congruence:
  assumes E: "eigen_algebra E" and R: "square 3 R" and C: "square 3 C" "symmetric C"
  shows "symmetric (e_mul E (e_mul E R C) (e_transpose E R))"
  using assms by (auto simp: symmetric_def square_def sum3 algebra_simps)

lemma covariance_ok_congruence:
  assumes "eigen_algebra E" "square 3 R" "covariance_ok 3 C"
  shows "covariance_ok 3 (e_mul E (e_mul E R C) (e_transpose E R))"
  using assms psd_congruence [OF assms(1), of R 3 3 C] symmetric_congruence [OF assms(1,2), of C]
  by (auto simp: covariance_ok_def square_def psd_def)

lemma covariance_ok_sigma: "eigen_algebra E \<Longrightarrow> covariance_ok 3 (e_scale E (c * c) (Matrix_Identity 3))"
  by (simp add: covariance_ok_def psd_sigma symmetric_def) (simp add: Matrix_Identity_def)

lemma covariance_ok_set_block:
  assumes "covariance_ok n M" "covariance_ok b B" "p + b \<le> n" "clear_at M p b"
  shows "covariance_ok n (set_block M p p B)"
  using assms psd_set_block [of n M b B p] symmetric_set_block [of M n B b p]
  by (auto simp: covariance_ok_def psd_def)

lemma covariance_ok_Constant: "0 \<le> c \<Longrightarrow> covariance_ok 1 (Matrix_Constant 1 1 c)"
  using psd_Constant [of c] by (simp add: covariance_ok_def symmetric_def)

lemma covariance_ok_set_coeff:
  "covariance_ok n M \<Longrightarrow> 0 \<le> c \<Longrightarrow> i < n \<Longrightarrow> clear_at M i 1 \<Longrightarrow> covariance_ok n (set_coeff M i i c)"
  unfolding set_coeff_block using covariance_ok_Constant
  by (intro covariance_ok_set_block [of _ _ 1]) auto

lemma set_block_overwrite:
  "mat_rows B = mat_rows C \<Longrightarrow> mat_cols B = mat_cols C \<Longrightarrow>
     set_block (set_block M p q B) p q C = set_block M p q C"
  by (auto simp: set_block_def fun_eq_iff)

lemma set_block_commute:
  "q + mat_rows C \<le> p \<or> p + mat_rows B \<le> q \<Longrightarrow>
     set_block (set_block M p p B) q q C = set_block (set_block M q q C) p p B"
  by (auto simp: set_block_def fun_eq_iff)

lemma clear_at_cov_block:
  "clear_at M p s \<Longrightarrow> covariance_ok b B \<Longrightarrow> q + b \<le> p \<or> p + s \<le> q \<Longrightarrow>
     clear_at (set_block M q q B) p s"
  by (rule clear_at_set_block) (auto simp: covariance_ok_def psd_def)

lemma initial_covariance_ok:
  assumes E: "eigen_algebra E" and l: "standard_layout l" and R: "square 3 R"
    and cov: "covariance_ok 3 (gnss_position_covariance_ecef_m2 g)"
      "covariance_ok 3 (gnss_velocity_covariance_ecef_m2ps2 g)"
  shows "covariance_ok (total_size l) (initial_covariance E l 0 3 6 9 12 R g)"
proof -
  let ?n = "total_size l"
  let ?d = "\<lambda>c. e_scale E (c * c) (Matrix_Identity 3)"
  define A where "A = e_mul E (e_mul E R (gnss_position_covariance_ecef_m2 g)) (e_transpose E R)"
  define B where "B = e_mul E (e_mul E R (gnss_velocity_covariance_ecef_m2ps2 g)) (e_transpose E R)"
  have n: "15 \<le> ?n" using l by (simp add: standard_layout_def)
  have A: "covariance_ok 3 A" and B: "covariance_ok 3 B"
    unfolding A_def B_def using covariance_ok_congruence [OF E R] cov by auto
  note d = covariance_ok_sigma [OF E]
  note blocks = covariance_ok_set_block clear_at_cov_block clear_at_Zero covariance_ok_Zero
  define base where "base X Y = set_block (set_block (set_block (set_block (set_block
      (Matrix_Zero ?n ?n) 0 0 X) 3 3 Y) 6 6 (?d kInitAttSigmaRad)) 9 9 (?d kInitAbaSigma))
      12 12 (?d kInitGbaSigma)" for X Y
  have base: "covariance_ok ?n (base X Y)" "clear_at (base X Y) 15 1" "clear_at (base X Y) 16 1"
    if "covariance_ok 3 X" "covariance_ok 3 Y" for X Y
    unfolding base_def using n that d
    by (auto intro!: blocks(1) [of _ _ 3] blocks(2) [of _ _ _ 3] blocks(3,4))
  obtain X Y where XY: "covariance_ok 3 X" "covariance_ok 3 Y"
    and eq: "initial_covariance E l 0 3 6 9 12 R g =
      (case segments l GnssClock of None \<Rightarrow> base X Y
       | Some clk \<Rightarrow> set_coeff (set_coeff (base X Y) (offset clk) (offset clk)
           (kInitClkBiasSigmaM * kInitClkBiasSigmaM)) (offset clk + 1) (offset clk + 1)
           (kInitClkDriftSigmaMps * kInitClkDriftSigmaMps))"
  proof (cases "e_norm E (get_block (set_block (set_block (Matrix_Zero ?n ?n) 0 0 A) 3 3 B) 0 0 3 3)
      < 1 / 10 ^ 12")
    case True
    have ow: "set_block (set_block (set_block (set_block (Matrix_Zero ?n ?n) 0 0 A) 3 3 B) 0 0
        (?d kInitPosSigmaM)) 3 3 (?d kInitVelSigmaMps) =
        set_block (set_block (Matrix_Zero ?n ?n) 0 0 (?d kInitPosSigmaM)) 3 3 (?d kInitVelSigmaMps)"
    proof -
      have sq: "mat_rows A = 3" "mat_cols A = 3" "mat_rows B = 3" "mat_cols B = 3"
        using A B by (auto simp: covariance_ok_def psd_def square_def)
      have "set_block (set_block (set_block (Matrix_Zero ?n ?n) 0 0 A) 3 3 B) 0 0 (?d kInitPosSigmaM) =
          set_block (set_block (Matrix_Zero ?n ?n) 0 0 (?d kInitPosSigmaM)) 3 3 B"
        using sq E by (subst set_block_commute) (simp_all add: set_block_overwrite)
      then show ?thesis using sq E by (simp add: set_block_overwrite)
    qed
    show thesis
      by (rule that [OF d d])
         (simp only: initial_covariance_def Let_def A_def [symmetric] B_def [symmetric] True if_True
           ow base_def)
  next
    case False
    show thesis
      by (rule that [OF A B])
         (simp only: initial_covariance_def Let_def A_def [symmetric] B_def [symmetric] False if_False
           base_def)
  qed
  show ?thesis
  proof (cases "segments l GnssClock")
    case None
    then show ?thesis using base(1) [OF XY] eq by simp
  next
    case (Some clk)
    with l have clk: "offset clk = 15" "seg_size clk = 2" and "layout_ok l"
      by (auto simp: standard_layout_def)
    with Some have "15 + 2 \<le> ?n" unfolding layout_ok_def by metis
    with clk(1) have clk: "offset clk = 15" "17 \<le> ?n" by simp_all
    have "covariance_ok ?n (set_coeff (base X Y) 15 15 (kInitClkBiasSigmaM * kInitClkBiasSigmaM))"
      using base [OF XY] clk(2) by (intro covariance_ok_set_coeff) auto
    then have "covariance_ok ?n (set_coeff (set_coeff (base X Y) 15 15
        (kInitClkBiasSigmaM * kInitClkBiasSigmaM)) 16 16 (kInitClkDriftSigmaMps * kInitClkDriftSigmaMps))"
      using base [OF XY] clk(2) by (intro covariance_ok_set_coeff clear_at_set_coeff) auto
    then show ?thesis using eq Some clk(1) by simp
  qed
qed

lemma ltp_rotation_square: "square 3 (ecef_to_enu_rotation (LocalTangentPlane_new o_lla))"
  by (simp add: LocalTangentPlane_new_def EcefToEnuRotation_square)

definition gnss_usable :: "GnssSolution \<Rightarrow> bool" where
  "gnss_usable g \<longleftrightarrow> gnss_fix_type g \<noteq> NoFix \<and> gnss_validity g = Valid"

lemma TryInitialiseFromGnss_ok:
  assumes E: "eigen_algebra E" and k: "ekf_ok k" and cov: "covariances_ok (M_GnssSolution g)"
  shows "\<exists>k'. TryInitialiseFromGnss E k g = Inr (gnss_usable g, k') \<and> ekf_ok k' \<and>
    options k' = options k \<and> measurement_models k' = measurement_models k \<and>
    imu_buffer k' = imu_buffer k \<and> last_aiding_timestamp k' = last_aiding_timestamp k \<and>
    (gnss_usable g \<longrightarrow> initialised k' \<and> error_state (state k') = ZeroVector (layout (state k')) \<and>
       nom_timestamp (nominal (state k')) = gnss_timestamp g) \<and>
    (\<not> gnss_usable g \<longrightarrow> k' = k)"
proof (cases "gnss_usable g")
  case False
  then show ?thesis
    using k by (auto simp: TryInitialiseFromGnss_def gnss_usable_def)
next
  case True
  have l: "standard_layout (layout (state k))" using k by (simp add: ekf_ok_def ekf_state_ok_def)
  have "covariance_ok (total_size (layout (state k))) (initial_covariance E (layout (state k)) 0 3 6 9 12
      (ecef_to_enu_rotation (LocalTangentPlane_new (EcefToLla (gnss_position_ecef_m g)))) g)"
    using cov by (intro initial_covariance_ok [OF E l ltp_rotation_square]) auto
  then show ?thesis
    using k l True ltp_rotation_square
    by (simp add: TryInitialiseFromGnss_def gnss_usable_def Let_def ekf_ok_def ekf_state_ok_def
        context_ok_def ZeroVector_def)
qed

section \<open>Measurements\<close>

definition models_clean :: "EkfEstimator \<Rightarrow> bool" where
  "models_clean k \<longleftrightarrow> (\<forall>mdl\<in>set (measurement_models k). model_ok True mdl)"

definition error_zero :: "EkfEstimator \<Rightarrow> bool" where
  "error_zero k \<longleftrightarrow> error_state (state k) = ZeroVector (layout (state k))"

text \<open>What every call promises of the report and the new state.\<close>

definition dispatch_post :: "EkfEstimator \<Rightarrow> SensorMeasurement \<Rightarrow> MeasurementUpdateReport \<Rightarrow> EkfEstimator \<Rightarrow> bool"
where
  "dispatch_post k m rep k' \<longleftrightarrow>
     result rep \<in> {Accepted, Rejected, NotInitialized} \<and> ekf_ok k' \<and> options k' = options k \<and>
     measurement_models k' = measurement_models k \<and> imu_buffer k' = imu_buffer k \<and>
     local_tangent_plane k' = local_tangent_plane k \<and> initialised k' = initialised k \<and>
     layout (state k') = layout (state k) \<and>
     nom_timestamp (nominal (state k')) = nom_timestamp (nominal (state k)) \<and>
     (result rep = Accepted \<longrightarrow> error_zero k' \<and> last_aiding_timestamp k' = Some (GetTimestamp m)) \<and>
     (result rep \<noteq> Accepted \<longrightarrow> last_aiding_timestamp k' = last_aiding_timestamp k \<and>
        (models_clean k \<longrightarrow> state k' = state k))"

lemma dispatch_ok:
  assumes k: "ekf_ok k" "initialised k" and cov: "covariances_ok m"
    and models: "set models \<subseteq> set (measurement_models k)"
  shows "\<exists>rep k'. dispatch E k m models = Inr (rep, k') \<and> dispatch_post k m rep k'"
  using models
proof (induction models)
  case Nil
  then show ?case using k by (simp add: dispatch_post_def report_def)
next
  case (Cons mdl models)
  show ?case
  proof (cases "model_CanHandle mdl m")
    case False
    then show ?thesis using Cons by simp
  next
    case True
    have s: "ekf_state_ok (state k)" and ctx: "context_ok (local_tangent_plane k)"
      using k by (simp_all add: ekf_ok_def)
    define clean where "clean = models_clean k"
    have "clean \<Longrightarrow> model_ok True mdl" using Cons.prems by (simp add: clean_def models_clean_def)
    moreover have "model_ok False mdl" using k Cons.prems by (simp add: ekf_ok_def)
    ultimately have "model_ok clean mdl" by (cases clean) simp_all
    then obtain r nom dx P where ap: "model_Apply mdl (nominal (state k)) (error_state (state k))
        (covariance (state k)) (layout (state k)) m (local_tangent_plane k) = Inr (r, nom, dx, P)"
      and post: "apply_ok clean (total_size (layout (state k))) (nominal (state k))
        (error_state (state k)) (covariance (state k)) (r, nom, dx, P)"
      using True ctx cov ekf_state_okD [OF s] unfolding model_ok_def returns_ok_def by (metis prod_cases4)
    let ?s = "(state k)\<lparr>nominal := nom, error_state := dx, covariance := P\<rparr>"
    have s': "ekf_state_ok ?s" using s post by (simp add: ekf_state_ok_def apply_ok_def)
    show ?thesis
    proof (cases "r = Accepted")
      case acc: True
      obtain u where u: "InjectErrorAndReset E ?s = Inr u" "ekf_state_ok u"
        "layout u = layout (state k)" "error_state u = ZeroVector (layout (state k))"
        "nom_timestamp (nominal u) = nom_timestamp nom"
        using InjectErrorAndReset_ok [OF s', of E] by auto
      with True ap acc post k show ?thesis
        by (simp add: Let_def dispatch_post_def ekf_ok_def error_zero_def apply_ok_def)
    next
      case False
      with True ap post k s' show ?thesis
        by (auto simp: Let_def dispatch_post_def ekf_ok_def apply_ok_def clean_def)
    qed
  qed
qed

definition add_post :: "EkfEstimator \<Rightarrow> SensorMeasurement \<Rightarrow> MeasurementUpdateReport \<Rightarrow> EkfEstimator \<Rightarrow> bool"
where
  "add_post k m rep k' \<longleftrightarrow>
     ekf_ok k' \<and> options k' = options k \<and> measurement_models k' = measurement_models k \<and>
     (models_clean k \<and> error_zero k \<longrightarrow> error_zero k') \<and>
     (is_imu m \<longrightarrow> result rep \<in> {Buffered, Result_OutOfOrder} \<and>
        k' = k\<lparr>imu_buffer := imu_buffer k'\<rparr>) \<and>
     (\<not> is_imu m \<and> \<not> initialised k \<and> \<not> is_gnss_solution m \<longrightarrow>
        result rep = NotInitialized \<and> k' = k) \<and>
     (\<not> initialised k \<longrightarrow> (initialised k' \<longleftrightarrow> result rep = Accepted)) \<and>
     (\<not> initialised k \<and> is_gnss_solution m \<longrightarrow> result rep \<in> {Accepted, Rejected}) \<and>
     (initialised k \<longrightarrow> initialised k') \<and>
     (\<not> is_imu m \<and> initialised k \<longrightarrow>
        result rep \<in> {Accepted, Rejected, NotInitialized} \<and>
        imu_buffer k' = snd (PopUntil imu_timestamp (imu_buffer k) (GetTimestamp m) True)) \<and>
     (result rep = Accepted \<longrightarrow> error_zero k')"

lemma error_zero_post:
  "split_post (state k) (state k') \<Longrightarrow> error_zero k \<Longrightarrow> error_zero k'"
  by (simp add: split_post_def error_zero_def)

lemma Ekf_AddMeasurement_imu:
  assumes "ekf_ok k"
  shows "\<exists>rep k'. Ekf_AddMeasurement E k (M_Imu imu) = Some (Inr (rep, k')) \<and> add_post k (M_Imu imu) rep k'"
proof -
  obtain r b where i: "Insert imu_timestamp (imu_buffer k) imu = (r, b)" by fastforce
  from assms show ?thesis
    by (auto simp: Ekf_AddMeasurement_def i add_post_def ekf_ok_def error_zero_def report_def)
qed

lemma Ekf_AddMeasurement_uninitialised:
  assumes E: "eigen_algebra E" and k: "ekf_ok k" and m: "\<not> is_imu m" "covariances_ok m" "\<not> initialised k"
  shows "\<exists>rep k'. Ekf_AddMeasurement E k m = Some (Inr (rep, k')) \<and> add_post k m rep k'"
proof (cases "\<exists>g. m = M_GnssSolution g")
  case True
  then obtain g where g: "m = M_GnssSolution g" by blast
  with m(2) have "covariances_ok (M_GnssSolution g)" by simp
  from TryInitialiseFromGnss_ok [OF E k this] obtain k' where
    k': "TryInitialiseFromGnss E k g = Inr (gnss_usable g, k')" "ekf_ok k'"
      "options k' = options k" "measurement_models k' = measurement_models k"
      "gnss_usable g \<longrightarrow> initialised k' \<and> error_zero k'" "\<not> gnss_usable g \<longrightarrow> k' = k"
    by (auto simp: error_zero_def)
  then show ?thesis
    using m(3) by (auto simp: Ekf_AddMeasurement_def g add_post_def)
next
  case False
  then have "Ekf_AddMeasurement E k m = Some (Inr (report NotInitialized, k))" "\<not> is_gnss_solution m"
    using m(1,3) by (cases m; simp add: Ekf_AddMeasurement_def)+
  then show ?thesis using k m by (simp add: add_post_def report_def)
qed

lemma Ekf_AddMeasurement_initialised:
  assumes E: "eigen_algebra E" "eigen_shapes E" and k: "ekf_ok k" and m: "\<not> is_imu m" "covariances_ok m"
    and i: "initialised k" and dt: "0 < max_imu_dt_s (options k)"
  shows "\<exists>rep k'. Ekf_AddMeasurement E k m = Some (Inr (rep, k')) \<and> add_post k m rep k'"
proof -
  from PropagateTo_ok [OF E dt k, of "GetTimestamp m"] obtain k1 where
    k1: "PropagateTo E k (GetTimestamp m) = Some (Inr k1)" "ekf_ok k1"
      "k1 = k\<lparr>imu_buffer := snd (PopUntil imu_timestamp (imu_buffer k) (GetTimestamp m) True), state := state k1\<rparr>"
      "split_post (state k) (state k1)" by blast
  have same: "initialised k1 = initialised k" "options k1 = options k"
    "measurement_models k1 = measurement_models k"
    "imu_buffer k1 = snd (PopUntil imu_timestamp (imu_buffer k) (GetTimestamp m) True)"
    by (subst k1(3), simp)+
  from same(1) i have "initialised k1" by simp
  from dispatch_ok [OF k1(2) this m(2) subset_refl, of E] obtain rep k2 where
    k2: "dispatch E k1 m (measurement_models k1) = Inr (rep, k2)" "dispatch_post k1 m rep k2" by blast
  have eq: "Ekf_AddMeasurement E k m = Some (Inr (rep, k2))"
    using m(1) i k1(1) k2(1) by (cases m) (simp_all add: Ekf_AddMeasurement_def)
  have "error_zero k2" if "models_clean k" "error_zero k"
  proof -
    have "models_clean k1" using that(1) same(3) by (simp add: models_clean_def)
    with k2(2) error_zero_post [OF k1(4) that(2)] show ?thesis
      by (cases "result rep = Accepted") (auto simp: dispatch_post_def error_zero_def)
  qed
  with eq k2(2) same i m(1) show ?thesis
    by (intro exI [of _ rep] exI [of _ k2]) (auto simp: add_post_def dispatch_post_def)
qed

lemma Ekf_AddMeasurement_ok:
  assumes "eigen_algebra E" "eigen_shapes E" "ekf_ok k" "covariances_ok m" "0 < max_imu_dt_s (options k)"
  shows "\<exists>rep k'. Ekf_AddMeasurement E k m = Some (Inr (rep, k')) \<and> add_post k m rep k'"
proof (cases "is_imu m")
  case True
  then show ?thesis using Ekf_AddMeasurement_imu [OF assms(3), of E] by (cases m) auto
next
  case False
  then show ?thesis
    using Ekf_AddMeasurement_uninitialised [OF assms(1,3) False assms(4)]
      Ekf_AddMeasurement_initialised [OF assms(1,2,3) False assms(4) _ assms(5)] by blast
qed

end
