(* ===== verification/Fg_EkfScalarModels.thy ===== *)
theory Fg_EkfScalarModels
  imports Fg_EkfUpdate
begin

text \<open>
  The altitude and depth models of
  \<^verbatim>\<open>src/estimation/src/backends/ekf/measurement_models/\<close>: barometer, radar altimeter, range
  finder and echo sounder. Each observes the vertical position with one scalar.
\<close>

section \<open>barometer\<close>

record BarometerOptions =
  bo_altitude_sigma_m :: "real option"
  bo_isa_sea_level_pressure_pa :: real
  bo_innovation_gate :: real

definition BarometerOptions_default :: BarometerOptions where
  "BarometerOptions_default =
     \<lparr>bo_altitude_sigma_m = None, bo_isa_sea_level_pressure_pa = 101325, bo_innovation_gate = 0\<rparr>"

definition kIsaExponent :: real where "kIsaExponent = 1 / 5.25588"

definition PressureToAltitude :: "real \<Rightarrow> real \<Rightarrow> real" where
  "PressureToAltitude pressure_pa sea_level_pa =
     44330.77 * (1 - (pressure_pa / sea_level_pa) powr kIsaExponent)"

fun get_Barometer :: "SensorMeasurement \<Rightarrow> cpp_exception + BarometerMeasurement" where
  "get_Barometer (M_Barometer m) = Inr m"
| "get_Barometer _ = Inl BadVariantAccess"

definition Barometer_Apply ::
  "eigen_ops \<Rightarrow> BarometerOptions \<Rightarrow> NominalState \<Rightarrow> MatrixXd \<Rightarrow> MatrixXd \<Rightarrow> StateLayout \<Rightarrow>
     SensorMeasurement \<Rightarrow> LocalTangentPlane option \<Rightarrow> cpp_exception + apply_result" where
  "Barometer_Apply E options nom dx P l m ctx =
     bind_sum (get_Barometer m) (\<lambda>baro.
       if baro_validity baro \<noteq> Valid then Inr (Rejected, nom, dx, P)
       else
         (let observation =
                (case baro_altitude_m baro of
                   Some altitude \<Rightarrow> Some (altitude, value_or (bo_altitude_sigma_m options) 1)
                 | None \<Rightarrow>
                     (if baro_pressure_pa baro > 0
                      then Some (PressureToAltitude (baro_pressure_pa baro)
                                   (bo_isa_sea_level_pressure_pa options),
                                 value_or (bo_altitude_sigma_m options) 5)
                      else None))
          in case observation of
               None \<Rightarrow> Inr (Rejected, nom, dx, P)
             | Some (z_obs, sigma_m) \<Rightarrow>
                 bind_sum (Layout_Get l Position) (\<lambda>pos_seg.
                   let n = total_size l;
                       h_pos = Vec3_z (nom_position_enu_m nom);
                       H_pos = set_coeff (Matrix_Zero 1 n) 0 (offset pos_seg + 2) 1;
                       (h_pred, H) =
                         (case segments l BaroBias of
                            None \<Rightarrow> (h_pos, H_pos)
                          | Some bb_seg \<Rightarrow>
                              (h_pos + coeff dx (offset bb_seg) 0,
                               set_coeff H_pos 0 (offset bb_seg) 1))
                   in return_update E nom dx P H (Matrix_Constant 1 1 (z_obs - h_pred))
                        (Matrix_Constant 1 1 (sigma_m * sigma_m)) (bo_innovation_gate options))))"

definition Barometer :: "eigen_ops \<Rightarrow> BarometerOptions \<Rightarrow> IMeasurementModel" where
  "Barometer E options =
     \<lparr>model_Name = ''Unknown'', model_CanHandle = (\<lambda>m. \<not> isl (get_Barometer m)),
      model_Apply = Barometer_Apply E options\<rparr>"

section \<open>radar\_altimeter\<close>

record RadarAltimeterOptions =
  rao_terrain_elevation_m :: real
  rao_sigma_m :: "real option"
  rao_innovation_gate :: real

definition RadarAltimeterOptions_default :: RadarAltimeterOptions where
  "RadarAltimeterOptions_default =
     \<lparr>rao_terrain_elevation_m = 0, rao_sigma_m = None, rao_innovation_gate = 0\<rparr>"

fun get_RadarAltimeter :: "SensorMeasurement \<Rightarrow> cpp_exception + RadarAltimeterMeasurement" where
  "get_RadarAltimeter (M_RadarAltimeter m) = Inr m"
| "get_RadarAltimeter _ = Inl BadVariantAccess"

definition RadarAltimeter_Apply ::
  "eigen_ops \<Rightarrow> RadarAltimeterOptions \<Rightarrow> NominalState \<Rightarrow> MatrixXd \<Rightarrow> MatrixXd \<Rightarrow> StateLayout \<Rightarrow>
     SensorMeasurement \<Rightarrow> LocalTangentPlane option \<Rightarrow> cpp_exception + apply_result" where
  "RadarAltimeter_Apply E options nom dx P l m ctx =
     bind_sum (get_RadarAltimeter m) (\<lambda>ralt.
       if ralt_validity ralt \<noteq> Valid then Inr (Rejected, nom, dx, P)
       else if ralt_surface ralt = Surface_Invalid then Inr (Rejected, nom, dx, P)
       else if ralt_range_m ralt < 0 then Inr (Rejected, nom, dx, P)
       else
         bind_sum (Layout_Get l Position) (\<lambda>pos_seg.
           let n = total_size l;
               h_pred = Vec3_z (nom_position_enu_m nom) - rao_terrain_elevation_m options;
               sigma = value_or (rao_sigma_m options) 0.5;
               H = set_coeff (Matrix_Zero 1 n) 0 (offset pos_seg + 2) 1
           in return_update E nom dx P H (Matrix_Constant 1 1 (ralt_range_m ralt - h_pred))
                (Matrix_Constant 1 1 (sigma * sigma)) (rao_innovation_gate options)))"

definition RadarAltimeter :: "eigen_ops \<Rightarrow> RadarAltimeterOptions \<Rightarrow> IMeasurementModel" where
  "RadarAltimeter E options =
     \<lparr>model_Name = ''Unknown'', model_CanHandle = (\<lambda>m. \<not> isl (get_RadarAltimeter m)),
      model_Apply = RadarAltimeter_Apply E options\<rparr>"

section \<open>range\_finder\<close>

record RangeFinderOptions =
  rfo_expected_range_m :: real
  rfo_use_as_altitude :: bool
  rfo_terrain_elevation_m :: real
  rfo_sigma_m :: "real option"
  rfo_innovation_gate :: real

definition RangeFinderOptions_default :: RangeFinderOptions where
  "RangeFinderOptions_default =
     \<lparr>rfo_expected_range_m = 0, rfo_use_as_altitude = True, rfo_terrain_elevation_m = 0,
      rfo_sigma_m = None, rfo_innovation_gate = 0\<rparr>"

fun get_RangeFinder :: "SensorMeasurement \<Rightarrow> cpp_exception + RangeFinderMeasurement" where
  "get_RangeFinder (M_RangeFinder m) = Inr m"
| "get_RangeFinder _ = Inl BadVariantAccess"

definition RangeFinder_Apply ::
  "eigen_ops \<Rightarrow> RangeFinderOptions \<Rightarrow> NominalState \<Rightarrow> MatrixXd \<Rightarrow> MatrixXd \<Rightarrow> StateLayout \<Rightarrow>
     SensorMeasurement \<Rightarrow> LocalTangentPlane option \<Rightarrow> cpp_exception + apply_result" where
  "RangeFinder_Apply E options nom dx P l m ctx =
     (if \<not> rfo_use_as_altitude options then Inr (Rejected, nom, dx, P)
      else
        bind_sum (get_RangeFinder m) (\<lambda>rf.
          if rf_validity rf \<noteq> Valid then Inr (Rejected, nom, dx, P)
          else if rf_range_m rf < 0 then Inr (Rejected, nom, dx, P)
          else
            bind_sum (Layout_Get l Position) (\<lambda>pos_seg.
              let n = total_size l;
                  h_pred = Vec3_z (nom_position_enu_m nom) - rfo_terrain_elevation_m options;
                  sigma = value_or (rfo_sigma_m options) 0.3;
                  H = set_coeff (Matrix_Zero 1 n) 0 (offset pos_seg + 2) 1
              in return_update E nom dx P H (Matrix_Constant 1 1 (rf_range_m rf - h_pred))
                   (Matrix_Constant 1 1 (sigma * sigma)) (rfo_innovation_gate options))))"

definition RangeFinder :: "eigen_ops \<Rightarrow> RangeFinderOptions \<Rightarrow> IMeasurementModel" where
  "RangeFinder E options =
     \<lparr>model_Name = ''Unknown'', model_CanHandle = (\<lambda>m. \<not> isl (get_RangeFinder m)),
      model_Apply = RangeFinder_Apply E options\<rparr>"

section \<open>echo\_sounder\<close>

record EchoSounderOptions =
  eso_sound_speed_mps :: real
  eso_depth_origin_m :: real
  eso_sigma_m :: "real option"
  eso_innovation_gate :: real

definition EchoSounderOptions_default :: EchoSounderOptions where
  "EchoSounderOptions_default =
     \<lparr>eso_sound_speed_mps = 1500, eso_depth_origin_m = 0, eso_sigma_m = None,
      eso_innovation_gate = 0\<rparr>"

fun get_EchoSounder :: "SensorMeasurement \<Rightarrow> cpp_exception + EchoSounderMeasurement" where
  "get_EchoSounder (M_EchoSounder m) = Inr m"
| "get_EchoSounder _ = Inl BadVariantAccess"

definition EchoSounder_Apply ::
  "eigen_ops \<Rightarrow> EchoSounderOptions \<Rightarrow> NominalState \<Rightarrow> MatrixXd \<Rightarrow> MatrixXd \<Rightarrow> StateLayout \<Rightarrow>
     SensorMeasurement \<Rightarrow> LocalTangentPlane option \<Rightarrow> cpp_exception + apply_result" where
  "EchoSounder_Apply E options nom dx P l m ctx =
     bind_sum (get_EchoSounder m) (\<lambda>es.
       if es_validity es \<noteq> Valid then Inr (Rejected, nom, dx, P)
       else if es_depth_or_range_m es < 0 then Inr (Rejected, nom, dx, P)
       else
         (let sound_speed = value_or (es_sound_speed_mps es) (eso_sound_speed_mps options);
              corrected_depth = es_depth_or_range_m es * sound_speed / eso_sound_speed_mps options
          in bind_sum (Layout_Get l Position) (\<lambda>pos_seg.
               let n = total_size l;
                   h_pred = - Vec3_z (nom_position_enu_m nom) + eso_depth_origin_m options;
                   sigma = value_or (eso_sigma_m options) 0.2;
                   H = set_coeff (Matrix_Zero 1 n) 0 (offset pos_seg + 2) (-1)
               in return_update E nom dx P H (Matrix_Constant 1 1 (corrected_depth - h_pred))
                    (Matrix_Constant 1 1 (sigma * sigma)) (eso_innovation_gate options))))"

definition EchoSounder :: "eigen_ops \<Rightarrow> EchoSounderOptions \<Rightarrow> IMeasurementModel" where
  "EchoSounder E options =
     \<lparr>model_Name = ''Unknown'', model_CanHandle = (\<lambda>m. \<not> isl (get_EchoSounder m)),
      model_Apply = EchoSounder_Apply E options\<rparr>"

section \<open>The contract\<close>

lemma scalar_update_ok:
  assumes "eigen_algebra E" "eigen_shapes E" "covariance_ok n P" "vector n dx"
    and "mat_rows H = 1" "mat_cols H = n"
  shows "returns_ok clean n nom dx P
    (return_update E nom dx P H (Matrix_Constant 1 1 d) (Matrix_Constant 1 1 (s * s)) gate)"
  by (rule return_update_ok [OF assms]) (simp_all only: vector_simps psd_Constant zero_le_square)

lemma Barometer_ok:
  assumes "eigen_algebra E" "eigen_shapes E"
  shows "model_ok True (Barometer E options)"
proof (rule model_okI)
  fix nom dx P l m ctx
  assume l: "standard_layout l" and P: "covariance_ok (total_size l) P"
    and dx: "vector (total_size l) dx" and "model_CanHandle (Barometer E options) m"
  then obtain b where m: "m = M_Barometer b"
    by (cases m) (auto simp: Barometer_def)
  show "returns_ok True (total_size l) nom dx P (model_Apply (Barometer E options) nom dx P l m ctx)"
    using l by (auto simp: Barometer_def Barometer_Apply_def m Let_def split: option.splits
        simp del: One_nat_def intro!: scalar_update_ok [OF assms P dx] unchanged_ok [OF _ dx P])
qed

lemma RadarAltimeter_ok:
  assumes "eigen_algebra E" "eigen_shapes E"
  shows "model_ok True (RadarAltimeter E options)"
proof (rule model_okI)
  fix nom dx P l m ctx
  assume l: "standard_layout l" and P: "covariance_ok (total_size l) P"
    and dx: "vector (total_size l) dx" and "model_CanHandle (RadarAltimeter E options) m"
  then obtain b where m: "m = M_RadarAltimeter b"
    by (cases m) (auto simp: RadarAltimeter_def)
  show "returns_ok True (total_size l) nom dx P
      (model_Apply (RadarAltimeter E options) nom dx P l m ctx)"
    using l by (auto simp: RadarAltimeter_def RadarAltimeter_Apply_def m Let_def
        simp del: One_nat_def intro!: scalar_update_ok [OF assms P dx] unchanged_ok [OF _ dx P])
qed

lemma RangeFinder_ok:
  assumes "eigen_algebra E" "eigen_shapes E"
  shows "model_ok True (RangeFinder E options)"
proof (rule model_okI)
  fix nom dx P l m ctx
  assume l: "standard_layout l" and P: "covariance_ok (total_size l) P"
    and dx: "vector (total_size l) dx" and "model_CanHandle (RangeFinder E options) m"
  then obtain b where m: "m = M_RangeFinder b"
    by (cases m) (auto simp: RangeFinder_def)
  show "returns_ok True (total_size l) nom dx P
      (model_Apply (RangeFinder E options) nom dx P l m ctx)"
    using l by (auto simp: RangeFinder_def RangeFinder_Apply_def m Let_def
        simp del: One_nat_def intro!: scalar_update_ok [OF assms P dx] unchanged_ok [OF _ dx P])
qed

lemma EchoSounder_ok:
  assumes "eigen_algebra E" "eigen_shapes E"
  shows "model_ok True (EchoSounder E options)"
proof (rule model_okI)
  fix nom dx P l m ctx
  assume l: "standard_layout l" and P: "covariance_ok (total_size l) P"
    and dx: "vector (total_size l) dx" and "model_CanHandle (EchoSounder E options) m"
  then obtain b where m: "m = M_EchoSounder b"
    by (cases m) (auto simp: EchoSounder_def)
  show "returns_ok True (total_size l) nom dx P
      (model_Apply (EchoSounder E options) nom dx P l m ctx)"
    using l by (auto simp: EchoSounder_def EchoSounder_Apply_def m Let_def
        simp del: One_nat_def intro!: scalar_update_ok [OF assms P dx] unchanged_ok [OF _ dx P])
qed

end
