(* ===== verification/Fg_EkfVectorModels.thy ===== *)
theory Fg_EkfVectorModels
  imports Fg_EkfUpdate
begin

text \<open>
  The body-frame velocity and attitude models of
  \<^verbatim>\<open>src/estimation/src/backends/ekf/measurement_models/\<close>: wheel odometry, external
  velocity, DVL, optical flow, airspeed, magnetometer and star tracker.
\<close>

section \<open>wheel\_odometry and external\_velocity\<close>

record WheelOdometryOptions =
  woo_sigma_linear_mps :: real
  woo_sigma_angular_radps :: real
  woo_use_angular_rate :: bool
  woo_latest_gyro_radps :: Vector3d
  woo_innovation_gate :: real

definition WheelOdometryOptions_default :: WheelOdometryOptions where
  "WheelOdometryOptions_default =
     \<lparr>woo_sigma_linear_mps = 0.1, woo_sigma_angular_radps = 0.05, woo_use_angular_rate = False,
      woo_latest_gyro_radps = Vector3d_Zero, woo_innovation_gate = 0\<rparr>"

fun get_WheelOdometry :: "SensorMeasurement \<Rightarrow> cpp_exception + WheelOdometryMeasurement" where
  "get_WheelOdometry (M_WheelOdometry m) = Inr m"
| "get_WheelOdometry _ = Inl BadVariantAccess"

definition WheelOdometry_Apply ::
  "eigen_ops \<Rightarrow> WheelOdometryOptions \<Rightarrow> NominalState \<Rightarrow> MatrixXd \<Rightarrow> MatrixXd \<Rightarrow> StateLayout \<Rightarrow>
     SensorMeasurement \<Rightarrow> LocalTangentPlane option \<Rightarrow> cpp_exception + apply_result" where
  "WheelOdometry_Apply E options nom dx P l m ctx =
     bind_sum (get_WheelOdometry m) (\<lambda>odo.
       if odo_validity odo \<noteq> Valid then Inr (Rejected, nom, dx, P)
       else
         bind_sum (Layout_Get l Velocity) (\<lambda>vel_seg.
         bind_sum (Layout_Get l Attitude) (\<lambda>att_seg.
           let n = total_size l;
               R = e_rotation_matrix E (nom_orientation_body_to_enu nom);
               v_body = e_mul E (e_transpose E R) (vec (eigen (nom_velocity_enu_mps nom)));
               v_obs = vec (eigen (odo_linear_velocity_body_mps odo));
               m_lin = (if woo_use_angular_rate options then 6 else 3);
               H0 = set_block (Matrix_Zero m_lin n) 0 (offset vel_seg) (e_transpose E R);
               H1 = set_block H0 0 (offset att_seg) (SkewSymmetric v_body);
               dz1 = set_block (Matrix_Zero m_lin 1) 0 0 (e_sub E v_obs v_body);
               (H, dz) =
                 (if woo_use_angular_rate options
                  then (case segments l GyroBias of
                          None \<Rightarrow> (H1, dz1)
                        | Some bg_seg \<Rightarrow>
                            (let omega_pred = e_sub E (vec (woo_latest_gyro_radps options))
                                   (vec (eigen (nom_gyro_bias_radps nom)));
                                 omega_obs = vec (eigen (odo_angular_rate_body_radps odo))
                             in (set_block H1 3 (offset bg_seg) (e_neg E (Matrix_Identity 3)),
                                 set_block dz1 3 0 (e_sub E omega_obs omega_pred))))
                  else (H1, dz1));
               s_lin = woo_sigma_linear_mps options;
               s_ang = woo_sigma_angular_radps options;
               R_lin = set_block (Matrix_Zero m_lin m_lin) 0 0
                 (e_scale E (s_lin * s_lin) (Matrix_Identity 3));
               R_meas = (if woo_use_angular_rate options
                 then set_block R_lin 3 3 (e_scale E (s_ang * s_ang) (Matrix_Identity 3))
                 else R_lin)
           in return_update E nom dx P H dz R_meas (woo_innovation_gate options))))"

definition WheelOdometry :: "eigen_ops \<Rightarrow> WheelOdometryOptions \<Rightarrow> IMeasurementModel" where
  "WheelOdometry E options =
     \<lparr>model_Name = ''Unknown'', model_CanHandle = (\<lambda>m. \<not> isl (get_WheelOdometry m)),
      model_Apply = WheelOdometry_Apply E options\<rparr>"

record ExternalVelocityOptions =
  evo_sigma_linear_mps :: "real option"
  evo_sigma_angular_radps :: "real option"
  evo_use_angular_rate :: bool
  evo_latest_gyro_radps :: Vector3d
  evo_innovation_gate :: real

definition ExternalVelocityOptions_default :: ExternalVelocityOptions where
  "ExternalVelocityOptions_default =
     \<lparr>evo_sigma_linear_mps = None, evo_sigma_angular_radps = None, evo_use_angular_rate = False,
      evo_latest_gyro_radps = Vector3d_Zero, evo_innovation_gate = 0\<rparr>"

fun get_ExternalVelocity :: "SensorMeasurement \<Rightarrow> cpp_exception + ExternalVelocityMeasurement" where
  "get_ExternalVelocity (M_ExternalVelocity m) = Inr m"
| "get_ExternalVelocity _ = Inl BadVariantAccess"

definition ExternalVelocity_Apply ::
  "eigen_ops \<Rightarrow> ExternalVelocityOptions \<Rightarrow> NominalState \<Rightarrow> MatrixXd \<Rightarrow> MatrixXd \<Rightarrow> StateLayout \<Rightarrow>
     SensorMeasurement \<Rightarrow> LocalTangentPlane option \<Rightarrow> cpp_exception + apply_result" where
  "ExternalVelocity_Apply E options nom dx P l m ctx =
     bind_sum (get_ExternalVelocity m) (\<lambda>ev.
       if ev_validity ev \<noteq> Valid then Inr (Rejected, nom, dx, P)
       else
         bind_sum (Layout_Get l Velocity) (\<lambda>vel_seg.
         bind_sum (Layout_Get l Attitude) (\<lambda>att_seg.
           let n = total_size l;
               R = e_rotation_matrix E (nom_orientation_body_to_enu nom);
               v_body = e_mul E (e_transpose E R) (vec (eigen (nom_velocity_enu_mps nom)));
               v_obs = vec (eigen (ev_linear_velocity_body_mps ev));
               m_lin = (if evo_use_angular_rate options then 6 else 3);
               H0 = set_block (Matrix_Zero m_lin n) 0 (offset vel_seg) (e_transpose E R);
               H1 = set_block H0 0 (offset att_seg) (SkewSymmetric v_body);
               dz1 = set_block (Matrix_Zero m_lin 1) 0 0 (e_sub E v_obs v_body);
               (H, dz) =
                 (if evo_use_angular_rate options
                  then (case segments l GyroBias of
                          None \<Rightarrow> (H1, dz1)
                        | Some bg_seg \<Rightarrow>
                            (let omega_pred = e_sub E (vec (evo_latest_gyro_radps options))
                                   (vec (eigen (nom_gyro_bias_radps nom)));
                                 omega_obs = vec (eigen (ev_angular_rate_body_radps ev))
                             in (set_block H1 3 (offset bg_seg) (e_neg E (Matrix_Identity 3)),
                                 set_block dz1 3 0 (e_sub E omega_obs omega_pred))))
                  else (H1, dz1));
               s_lin = value_or (evo_sigma_linear_mps options) 0.1;
               s_ang = value_or (evo_sigma_angular_radps options) 0.05;
               R_lin = set_block (Matrix_Zero m_lin m_lin) 0 0
                 (e_scale E (s_lin * s_lin) (Matrix_Identity 3));
               R_meas = (if evo_use_angular_rate options
                 then set_block R_lin 3 3 (e_scale E (s_ang * s_ang) (Matrix_Identity 3))
                 else R_lin)
           in return_update E nom dx P H dz R_meas (evo_innovation_gate options))))"

definition ExternalVelocity :: "eigen_ops \<Rightarrow> ExternalVelocityOptions \<Rightarrow> IMeasurementModel" where
  "ExternalVelocity E options =
     \<lparr>model_Name = ''Unknown'', model_CanHandle = (\<lambda>m. \<not> isl (get_ExternalVelocity m)),
      model_Apply = ExternalVelocity_Apply E options\<rparr>"

section \<open>dvl\<close>

record DvlOptions =
  dvo_dvl_to_body_rotation :: MatrixXd
  dvo_bottom_track_only :: bool
  dvo_sigma_mps :: "real option"
  dvo_innovation_gate :: real

definition DvlOptions_default :: DvlOptions where
  "DvlOptions_default =
     \<lparr>dvo_dvl_to_body_rotation = Matrix_Identity 3, dvo_bottom_track_only = False,
      dvo_sigma_mps = None, dvo_innovation_gate = 0\<rparr>"

fun get_Dvl :: "SensorMeasurement \<Rightarrow> cpp_exception + DvlMeasurement" where
  "get_Dvl (M_Dvl m) = Inr m"
| "get_Dvl _ = Inl BadVariantAccess"

definition Dvl_Apply ::
  "eigen_ops \<Rightarrow> DvlOptions \<Rightarrow> NominalState \<Rightarrow> MatrixXd \<Rightarrow> MatrixXd \<Rightarrow> StateLayout \<Rightarrow>
     SensorMeasurement \<Rightarrow> LocalTangentPlane option \<Rightarrow> cpp_exception + apply_result" where
  "Dvl_Apply E options nom dx P l m ctx =
     bind_sum (get_Dvl m) (\<lambda>dvl.
       if dvl_validity dvl \<noteq> Valid then Inr (Rejected, nom, dx, P)
       else if dvo_bottom_track_only options \<and> dvl_reference dvl \<noteq> BottomTrack
       then Inr (Rejected, nom, dx, P)
       else
         bind_sum (Layout_Get l Velocity) (\<lambda>vel_seg.
         bind_sum (Layout_Get l Attitude) (\<lambda>att_seg.
           let n = total_size l;
               R = e_rotation_matrix E (nom_orientation_body_to_enu nom);
               D = e_transpose E (dvo_dvl_to_body_rotation options);
               A = e_mul E D (e_transpose E R);
               v_enu = vec (eigen (nom_velocity_enu_mps nom));
               v_pred = e_mul E A v_enu;
               v_obs = vec (eigen (dvl_velocity_mps dvl));
               H0 = set_block (Matrix_Zero 3 n) 0 (offset vel_seg) A;
               H = set_block H0 0 (offset att_seg)
                 (e_mul E D (SkewSymmetric (e_mul E (e_transpose E R) v_enu)));
               dz = e_sub E v_obs v_pred;
               s = value_or (dvo_sigma_mps options) 0.05;
               R_meas = (if e_trace E (dvl_velocity_covariance_m2ps2 dvl) > 1 / 10 ^ 12
                 then dvl_velocity_covariance_m2ps2 dvl
                 else e_scale E (s * s) (Matrix_Identity 3))
           in return_update E nom dx P H dz R_meas (dvo_innovation_gate options))))"

definition Dvl :: "eigen_ops \<Rightarrow> DvlOptions \<Rightarrow> IMeasurementModel" where
  "Dvl E options =
     \<lparr>model_Name = ''Unknown'', model_CanHandle = (\<lambda>m. \<not> isl (get_Dvl m)),
      model_Apply = Dvl_Apply E options\<rparr>"

section \<open>optical\_flow\<close>

record OpticalFlowOptions =
  ofo_fallback_altitude_m :: real
  ofo_sigma_radps :: real
  ofo_innovation_gate :: real

definition OpticalFlowOptions_default :: OpticalFlowOptions where
  "OpticalFlowOptions_default =
     \<lparr>ofo_fallback_altitude_m = 10, ofo_sigma_radps = 0.01, ofo_innovation_gate = 0\<rparr>"

fun get_OpticalFlow :: "SensorMeasurement \<Rightarrow> cpp_exception + OpticalFlowMeasurement" where
  "get_OpticalFlow (M_OpticalFlow m) = Inr m"
| "get_OpticalFlow _ = Inl BadVariantAccess"

definition OpticalFlow_Apply ::
  "eigen_ops \<Rightarrow> OpticalFlowOptions \<Rightarrow> NominalState \<Rightarrow> MatrixXd \<Rightarrow> MatrixXd \<Rightarrow> StateLayout \<Rightarrow>
     SensorMeasurement \<Rightarrow> LocalTangentPlane option \<Rightarrow> cpp_exception + apply_result" where
  "OpticalFlow_Apply E options nom dx P l m ctx =
     bind_sum (get_OpticalFlow m) (\<lambda>flow.
       if of_validity flow \<noteq> Valid then Inr (Rejected, nom, dx, P)
       else
         (case of_integration_time_s flow of
            None \<Rightarrow> Inr (Rejected, nom, dx, P)
          | Some dt \<Rightarrow>
              if dt < 1 / 10 ^ 6 then Inr (Rejected, nom, dx, P)
              else
                (let z = value_or (of_ground_distance_m flow) (ofo_fallback_altitude_m options)
                 in if z < 0.1 then Inr (Rejected, nom, dx, P)
                    else
                      (let v_body_x = of_integrated_flow_x_rad flow / dt * z;
                           v_body_y = of_integrated_flow_y_rad flow / dt * z
                       in bind_sum (Layout_Get l Velocity) (\<lambda>vel_seg.
                          bind_sum (Layout_Get l Attitude) (\<lambda>att_seg.
                            let n = total_size l;
                                R = e_rotation_matrix E (nom_orientation_body_to_enu nom);
                                v_body = e_mul E (e_transpose E R)
                                  (vec (eigen (nom_velocity_enu_mps nom)));
                                dz = mat_of_rows 2 1
                                  [[v_body_x - coeff v_body 0 0], [v_body_y - coeff v_body 1 0]];
                                H0 = set_block (Matrix_Zero 2 n) 0 (offset vel_seg)
                                  (get_block (e_transpose E R) 0 0 2 3);
                                H = set_block H0 0 (offset att_seg)
                                  (get_block (SkewSymmetric v_body) 0 0 2 3);
                                sv = ofo_sigma_radps options * z
                            in return_update E nom dx P H dz
                                 (e_scale E (sv * sv) (Matrix_Identity 2))
                                 (ofo_innovation_gate options)))))))"

definition OpticalFlow :: "eigen_ops \<Rightarrow> OpticalFlowOptions \<Rightarrow> IMeasurementModel" where
  "OpticalFlow E options =
     \<lparr>model_Name = ''Unknown'', model_CanHandle = (\<lambda>m. \<not> isl (get_OpticalFlow m)),
      model_Apply = OpticalFlow_Apply E options\<rparr>"

section \<open>airspeed\<close>

record AirspeedOptions =
  aso_wind_enu_mps :: Vector3d
  aso_sigma_mps :: real
  aso_innovation_gate :: real

definition AirspeedOptions_default :: AirspeedOptions where
  "AirspeedOptions_default =
     \<lparr>aso_wind_enu_mps = Vector3d_Zero, aso_sigma_mps = 0.5, aso_innovation_gate = 0\<rparr>"

fun get_Airspeed :: "SensorMeasurement \<Rightarrow> cpp_exception + AirspeedMeasurement" where
  "get_Airspeed (M_Airspeed m) = Inr m"
| "get_Airspeed _ = Inl BadVariantAccess"

definition Airspeed_Apply ::
  "eigen_ops \<Rightarrow> AirspeedOptions \<Rightarrow> NominalState \<Rightarrow> MatrixXd \<Rightarrow> MatrixXd \<Rightarrow> StateLayout \<Rightarrow>
     SensorMeasurement \<Rightarrow> LocalTangentPlane option \<Rightarrow> cpp_exception + apply_result" where
  "Airspeed_Apply E options nom dx P l m ctx =
     bind_sum (get_Airspeed m) (\<lambda>asp.
       if asp_validity asp \<noteq> Valid then Inr (Rejected, nom, dx, P)
       else if asp_airspeed_mps asp < 0 then Inr (Rejected, nom, dx, P)
       else
         bind_sum (Layout_Get l Velocity) (\<lambda>vel_seg.
         bind_sum (Layout_Get l Attitude) (\<lambda>att_seg.
           let n = total_size l;
               R = e_rotation_matrix E (nom_orientation_body_to_enu nom);
               v_air = e_sub E (vec (eigen (nom_velocity_enu_mps nom))) (vec (aso_wind_enu_mps options));
               v_body = e_mul E (e_transpose E R) v_air;
               h_pred = e_norm E v_body
           in if h_pred < 1 / 10 ^ 3 then Inr (Rejected, nom, dx, P)
              else
                (let u_body = e_scale E (1 / h_pred) v_body;
                     H0 = set_block (Matrix_Zero 1 n) 0 (offset vel_seg)
                       (e_mul E (e_transpose E u_body) (e_transpose E R));
                     H = set_block H0 0 (offset att_seg)
                       (e_mul E (e_transpose E u_body) (SkewSymmetric v_body))
                 in return_update E nom dx P H
                      (Matrix_Constant 1 1 (asp_airspeed_mps asp - h_pred))
                      (Matrix_Constant 1 1 (aso_sigma_mps options * aso_sigma_mps options))
                      (aso_innovation_gate options)))))"

definition Airspeed :: "eigen_ops \<Rightarrow> AirspeedOptions \<Rightarrow> IMeasurementModel" where
  "Airspeed E options =
     \<lparr>model_Name = ''Unknown'', model_CanHandle = (\<lambda>m. \<not> isl (get_Airspeed m)),
      model_Apply = Airspeed_Apply E options\<rparr>"

section \<open>magnetometer\<close>

record MagnetometerOptions =
  mgo_reference_field_enu_tesla :: Vector3d
  mgo_sigma_tesla :: "real option"
  mgo_innovation_gate :: real

definition MagnetometerOptions_default :: MagnetometerOptions where
  "MagnetometerOptions_default =
     \<lparr>mgo_reference_field_enu_tesla = Vector3d 0 (2 / 10 ^ 5) (- (4.3 / 10 ^ 5)),
      mgo_sigma_tesla = None, mgo_innovation_gate = 0\<rparr>"

fun get_Magnetometer :: "SensorMeasurement \<Rightarrow> cpp_exception + MagnetometerMeasurement" where
  "get_Magnetometer (M_Magnetometer m) = Inr m"
| "get_Magnetometer _ = Inl BadVariantAccess"

definition Magnetometer_Apply ::
  "eigen_ops \<Rightarrow> MagnetometerOptions \<Rightarrow> NominalState \<Rightarrow> MatrixXd \<Rightarrow> MatrixXd \<Rightarrow> StateLayout \<Rightarrow>
     SensorMeasurement \<Rightarrow> LocalTangentPlane option \<Rightarrow> cpp_exception + apply_result" where
  "Magnetometer_Apply E options nom dx P l m ctx =
     bind_sum (get_Magnetometer m) (\<lambda>mag.
       if mag_validity mag \<noteq> Valid then Inr (Rejected, nom, dx, P)
       else
         bind_sum (Layout_Get l Attitude) (\<lambda>att_seg.
           let n = total_size l;
               R = e_rotation_matrix E (nom_orientation_body_to_enu nom);
               reference = vec (mgo_reference_field_enu_tesla options);
               b_pred = e_mul E (e_transpose E R) reference;
               b_obs = vec (eigen (mag_magnetic_field_tesla mag));
               dz = e_sub E b_obs b_pred;
               H = set_block (Matrix_Zero 3 n) 0 (offset att_seg) (SkewSymmetric b_pred);
               s = value_or (mgo_sigma_tesla options) (e_norm E reference * 0.05)
           in return_update E nom dx P H dz (e_scale E (s * s) (Matrix_Identity 3))
                (mgo_innovation_gate options)))"

definition Magnetometer :: "eigen_ops \<Rightarrow> MagnetometerOptions \<Rightarrow> IMeasurementModel" where
  "Magnetometer E options =
     \<lparr>model_Name = ''Unknown'', model_CanHandle = (\<lambda>m. \<not> isl (get_Magnetometer m)),
      model_Apply = Magnetometer_Apply E options\<rparr>"

section \<open>star\_tracker\<close>

record StarTrackerOptions =
  sto_star_tracker_to_body :: Quaterniond
  sto_sigma_yaw_rad :: real
  sto_sigma_pitch_rad :: real
  sto_sigma_roll_rad :: real
  sto_use_pitch_roll :: bool
  sto_innovation_gate :: real

definition StarTrackerOptions_default :: StarTrackerOptions where
  "StarTrackerOptions_default =
     \<lparr>sto_star_tracker_to_body = Quaterniond_Identity, sto_sigma_yaw_rad = 0.001,
      sto_sigma_pitch_rad = 0.001, sto_sigma_roll_rad = 0.001, sto_use_pitch_roll = True,
      sto_innovation_gate = 0\<rparr>"

fun get_StarTracker :: "SensorMeasurement \<Rightarrow> cpp_exception + StarTrackerMeasurement" where
  "get_StarTracker (M_StarTracker m) = Inr m"
| "get_StarTracker _ = Inl BadVariantAccess"

definition QuaternionFromStarTracker ::
  "eigen_ops \<Rightarrow> real \<Rightarrow> real \<Rightarrow> real \<Rightarrow> Quaterniond \<Rightarrow> Quaterniond" where
  "QuaternionFromStarTracker E lon lat yaw sensor_to_body =
     (let q_lon = e_quat_of_angle_axis E lon (vec (Vector3d 0 0 1));
          q_lat = e_quat_of_angle_axis E (kPi / 2 - lat) (vec (Vector3d 0 1 0));
          q_yaw = e_quat_of_angle_axis E (- yaw) (vec (Vector3d 0 0 1))
      in e_quat_normalized E
           (e_quat_mul E (e_quat_mul E (e_quat_mul E q_lon q_lat) q_yaw) sensor_to_body))"

definition StarTracker_Apply ::
  "eigen_ops \<Rightarrow> StarTrackerOptions \<Rightarrow> NominalState \<Rightarrow> MatrixXd \<Rightarrow> MatrixXd \<Rightarrow> StateLayout \<Rightarrow>
     SensorMeasurement \<Rightarrow> LocalTangentPlane option \<Rightarrow> cpp_exception + apply_result" where
  "StarTracker_Apply E options nom dx P l m ctx =
     bind_sum (get_StarTracker m) (\<lambda>st.
       if st_validity st \<noteq> Valid then Inr (Rejected, nom, dx, P)
       else
         bind_sum (Layout_Get l Attitude) (\<lambda>att_seg.
           let use_pr = (sto_use_pitch_roll options \<and> st_pitch_rad st \<noteq> None \<and> st_roll_rad st \<noteq> None);
               n = total_size l;
               q_obs = QuaternionFromStarTracker E (st_longitude_rad st) (st_latitude_rad st)
                 (st_yaw_rad st) (sto_star_tracker_to_body options);
               q_pred = nom_orientation_body_to_enu nom;
               d_theta = LogMapSo3 E (e_quat_mul E (e_quat_conjugate E q_pred) q_obs);
               s_yaw = sto_sigma_yaw_rad options;
               s_pitch = sto_sigma_pitch_rad options;
               s_roll = sto_sigma_roll_rad options;
               mdim = (if use_pr then 3 else 1);
               H = (if use_pr
                 then set_block (Matrix_Zero mdim n) 0 (offset att_seg) (Matrix_Identity 3)
                 else set_coeff (Matrix_Zero mdim n) 0 (offset att_seg + 2) 1);
               dz = (if use_pr then d_theta
                 else set_coeff (Matrix_Zero mdim 1) 0 0 (coeff d_theta 2 0));
               R_meas = (if use_pr
                 then set_coeff (set_coeff (set_coeff (Matrix_Zero mdim mdim)
                   0 0 (s_roll * s_roll)) 1 1 (s_pitch * s_pitch)) 2 2 (s_yaw * s_yaw)
                 else set_coeff (Matrix_Zero mdim mdim) 0 0 (s_yaw * s_yaw))
           in return_update E nom dx P H dz R_meas (sto_innovation_gate options)))"

definition StarTracker :: "eigen_ops \<Rightarrow> StarTrackerOptions \<Rightarrow> IMeasurementModel" where
  "StarTracker E options =
     \<lparr>model_Name = ''Unknown'', model_CanHandle = (\<lambda>m. \<not> isl (get_StarTracker m)),
      model_Apply = StarTracker_Apply E options\<rparr>"

section \<open>The contract\<close>

lemma psd_block_pair:
  assumes "psd a A" "psd b B"
  shows "psd (a + b) (set_block (set_block (Matrix_Zero (a + b) (a + b)) 0 0 A) a a B)"
proof -
  have "psd (a + b) (set_block (Matrix_Zero (a + b) (a + b)) 0 0 A)"
    by (rule psd_set_block [OF psd_Zero assms(1) _ clear_at_Zero]) simp
  then show ?thesis
    by (rule psd_set_block [OF _ assms(2)])
       (simp_all add: clear_at_set_block [OF clear_at_Zero psd_square [OF assms(1)]])
qed

lemma psd_sigma_pair:
  assumes "eigen_algebra E"
  shows "psd 6 (set_block (set_block (Matrix_Zero 6 6) 0 0 (e_scale E (a * a) (Matrix_Identity 3)))
    3 3 (e_scale E (b * b) (Matrix_Identity 3)))"
  using psd_block_pair [OF psd_sigma [OF assms, of 3 a] psd_sigma [OF assms, of 3 b]] by simp

lemma psd_sigma_single:
  assumes "eigen_algebra E"
  shows "psd 3 (set_block (Matrix_Zero 3 3) 0 0 (e_scale E (a * a) (Matrix_Identity 3)))"
  by (rule psd_set_block [OF psd_Zero psd_sigma [OF assms] _ clear_at_Zero]) simp

lemma psd_diag3:
  "psd 3 (set_coeff (set_coeff (set_coeff (Matrix_Zero 3 3) 0 0 (a * a)) 1 1 (b * b)) 2 2 (c * c))"
  by (intro psd_set_coeff psd_Zero clear_at_set_coeff clear_at_Zero) auto

lemma psd_diag1: "psd 1 (set_coeff (Matrix_Zero 1 1) 0 0 (a * a))"
  by (intro psd_set_coeff psd_Zero clear_at_Zero) auto

lemmas contract_simps = Let_def One_nat_def [symmetric]

lemma WheelOdometry_ok:
  assumes E: "eigen_algebra E" "eigen_shapes E"
  shows "model_ok True (WheelOdometry E options)"
proof (rule model_okI)
  fix nom dx P l m ctx
  assume l: "standard_layout l" and P: "covariance_ok (total_size l) P"
    and dx: "vector (total_size l) dx" and "model_CanHandle (WheelOdometry E options) m"
  then obtain w where m: "m = M_WheelOdometry w"
    by (cases m) (auto simp: WheelOdometry_def)
  have g: "segments l GyroBias = Some \<lparr>offset = 12, seg_size = 3\<rparr>"
    using l by (simp add: standard_layout_def)
  note upd = return_update_ok [OF E P dx]
  show "returns_ok True (total_size l) nom dx P
      (model_Apply (WheelOdometry E options) nom dx P l m ctx)"
  proof (cases "woo_use_angular_rate options")
    case True
    then show ?thesis
      using l g by (auto simp: WheelOdometry_def WheelOdometry_Apply_def m Let_def
          psd_sigma_pair [OF E(1)] intro!: unchanged_ok [OF _ dx P] upd [where m = 6])
  next
    case False
    then show ?thesis
      using l by (auto simp: WheelOdometry_def WheelOdometry_Apply_def m Let_def
          psd_sigma_single [OF E(1)] intro!: unchanged_ok [OF _ dx P] upd [where m = 3])
  qed
qed

lemma ExternalVelocity_ok:
  assumes E: "eigen_algebra E" "eigen_shapes E"
  shows "model_ok True (ExternalVelocity E options)"
proof (rule model_okI)
  fix nom dx P l m ctx
  assume l: "standard_layout l" and P: "covariance_ok (total_size l) P"
    and dx: "vector (total_size l) dx" and "model_CanHandle (ExternalVelocity E options) m"
  then obtain w where m: "m = M_ExternalVelocity w"
    by (cases m) (auto simp: ExternalVelocity_def)
  have g: "segments l GyroBias = Some \<lparr>offset = 12, seg_size = 3\<rparr>"
    using l by (simp add: standard_layout_def)
  note upd = return_update_ok [OF E P dx]
  show "returns_ok True (total_size l) nom dx P
      (model_Apply (ExternalVelocity E options) nom dx P l m ctx)"
  proof (cases "evo_use_angular_rate options")
    case True
    then show ?thesis
      using l g by (auto simp: ExternalVelocity_def ExternalVelocity_Apply_def m Let_def
          psd_sigma_pair [OF E(1)] intro!: unchanged_ok [OF _ dx P] upd [where m = 6])
  next
    case False
    then show ?thesis
      using l by (auto simp: ExternalVelocity_def ExternalVelocity_Apply_def m Let_def
          psd_sigma_single [OF E(1)] intro!: unchanged_ok [OF _ dx P] upd [where m = 3])
  qed
qed

lemma Dvl_ok:
  assumes E: "eigen_algebra E" "eigen_shapes E" and rot: "square 3 (dvo_dvl_to_body_rotation options)"
  shows "model_ok True (Dvl E options)"
proof (rule model_okI)
  fix nom dx P l m ctx
  assume l: "standard_layout l" and P: "covariance_ok (total_size l) P"
    and dx: "vector (total_size l) dx" and cov: "covariances_ok m"
    and "model_CanHandle (Dvl E options) m"
  then obtain d where m: "m = M_Dvl d" by (cases m) (auto simp: Dvl_def)
  note upd = return_update_ok [OF E P dx, where m = 3]
  have cov: "psd 3 (dvl_velocity_covariance_m2ps2 d)" using cov by (simp add: m covariance_ok_psd)
  show "returns_ok True (total_size l) nom dx P (model_Apply (Dvl E options) nom dx P l m ctx)"
    using l rot E by (auto simp: Dvl_def Dvl_Apply_def m Let_def square_def vector_def
        cov psd_sigma intro!: unchanged_ok [OF _ dx P] upd)
qed

lemma OpticalFlow_ok:
  assumes E: "eigen_algebra E" "eigen_shapes E"
  shows "model_ok True (OpticalFlow E options)"
proof (rule model_okI)
  fix nom dx P l m ctx
  assume l: "standard_layout l" and P: "covariance_ok (total_size l) P"
    and dx: "vector (total_size l) dx" and "model_CanHandle (OpticalFlow E options) m"
  then obtain w where m: "m = M_OpticalFlow w" by (cases m) (auto simp: OpticalFlow_def)
  show "returns_ok True (total_size l) nom dx P
      (model_Apply (OpticalFlow E options) nom dx P l m ctx)"
    using l E by (auto simp: OpticalFlow_def OpticalFlow_Apply_def m Let_def vector_def psd_sigma
        split: option.splits
        intro!: unchanged_ok [OF _ dx P] return_update_ok [OF E P dx, where m = 2])
qed

lemma Airspeed_ok:
  assumes E: "eigen_algebra E" "eigen_shapes E"
  shows "model_ok True (Airspeed E options)"
proof (rule model_okI)
  fix nom dx P l m ctx
  assume l: "standard_layout l" and P: "covariance_ok (total_size l) P"
    and dx: "vector (total_size l) dx" and "model_CanHandle (Airspeed E options) m"
  then obtain w where m: "m = M_Airspeed w" by (cases m) (auto simp: Airspeed_def)
  show "returns_ok True (total_size l) nom dx P
      (model_Apply (Airspeed E options) nom dx P l m ctx)"
    using l E by (auto simp: Airspeed_def Airspeed_Apply_def m Let_def vector_def psd_Constant
        simp del: One_nat_def
        intro!: unchanged_ok [OF _ dx P] return_update_ok [OF E P dx, where m = 1])
qed

lemma Magnetometer_ok:
  assumes E: "eigen_algebra E" "eigen_shapes E"
  shows "model_ok True (Magnetometer E options)"
proof (rule model_okI)
  fix nom dx P l m ctx
  assume l: "standard_layout l" and P: "covariance_ok (total_size l) P"
    and dx: "vector (total_size l) dx" and "model_CanHandle (Magnetometer E options) m"
  then obtain w where m: "m = M_Magnetometer w" by (cases m) (auto simp: Magnetometer_def)
  show "returns_ok True (total_size l) nom dx P
      (model_Apply (Magnetometer E options) nom dx P l m ctx)"
    using l E by (auto simp: Magnetometer_def Magnetometer_Apply_def m Let_def vector_def psd_sigma
        intro!: unchanged_ok [OF _ dx P] return_update_ok [OF E P dx, where m = 3])
qed

lemma StarTracker_ok:
  assumes E: "eigen_algebra E" "eigen_shapes E"
  shows "model_ok True (StarTracker E options)"
proof (rule model_okI)
  fix nom dx P l m ctx
  assume l: "standard_layout l" and P: "covariance_ok (total_size l) P"
    and dx: "vector (total_size l) dx" and "model_CanHandle (StarTracker E options) m"
  then obtain w where m: "m = M_StarTracker w" by (cases m) (auto simp: StarTracker_def)
  show "returns_ok True (total_size l) nom dx P
      (model_Apply (StarTracker E options) nom dx P l m ctx)"
  proof (cases "sto_use_pitch_roll options \<and> st_pitch_rad w \<noteq> None \<and> st_roll_rad w \<noteq> None")
    case True
    then show ?thesis
      using l E by (auto simp: StarTracker_def StarTracker_Apply_def m Let_def vector_def psd_diag3
          simp del: One_nat_def
          intro!: unchanged_ok [OF _ dx P] return_update_ok [OF E P dx, where m = 3])
  next
    case False
    then show ?thesis
      using l E by (auto simp: StarTracker_def StarTracker_Apply_def m Let_def vector_def psd_diag1
          simp del: One_nat_def
          intro!: unchanged_ok [OF _ dx P] return_update_ok [OF E P dx, where m = 1])
  qed
qed

end
