(* ===== verification/Fg_EkfPoseModels.thy ===== *)
theory Fg_EkfPoseModels
  imports Fg_EkfVectorModels
begin

text \<open>
  The position, velocity and pose models of
  \<^verbatim>\<open>src/estimation/src/backends/ekf/measurement_models/\<close>: loosely coupled GNSS, external
  pose, external odometry and aiding solutions. The last three apply up to three updates in a
  row and accept when any of them does.
\<close>

section \<open>gnss\_loosely\_coupled\<close>

record GnssLooselyCoupledOptions =
  glo_position_sigma_m :: "real option"
  glo_velocity_sigma_mps :: "real option"
  glo_position_gate :: real

definition GnssLooselyCoupledOptions_default :: GnssLooselyCoupledOptions where
  "GnssLooselyCoupledOptions_default =
     \<lparr>glo_position_sigma_m = None, glo_velocity_sigma_mps = None, glo_position_gate = 0\<rparr>"

fun get_GnssSolution :: "SensorMeasurement \<Rightarrow> cpp_exception + GnssSolution" where
  "get_GnssSolution (M_GnssSolution m) = Inr m"
| "get_GnssSolution _ = Inl BadVariantAccess"

definition GnssLooselyCoupled_ApplySolution ::
  "eigen_ops \<Rightarrow> GnssLooselyCoupledOptions \<Rightarrow> NominalState \<Rightarrow> MatrixXd \<Rightarrow> MatrixXd \<Rightarrow> StateLayout \<Rightarrow>
     GnssSolution \<Rightarrow> LocalTangentPlane \<Rightarrow> cpp_exception + apply_result" where
  "GnssLooselyCoupled_ApplySolution E options nom dx P l gnss ltp =
     bind_sum (Layout_Get l Position) (\<lambda>pos_seg.
     bind_sum (Layout_Get l Velocity) (\<lambda>vel_seg.
       let n = total_size l;
           R = ecef_to_enu_rotation ltp;
           gnss_pos_enu = vec (eigen (EcefToEnu E ltp (gnss_position_ecef_m gnss)));
           gnss_vel_enu = e_mul E R (vec (eigen (gnss_velocity_ecef_mps gnss)));
           dz_pos = e_sub E gnss_pos_enu (vec (eigen (nom_position_enu_m nom)));
           dz_vel = e_sub E gnss_vel_enu (vec (eigen (nom_velocity_enu_mps nom)));
           dz = set_block (set_block (Matrix_Zero 6 1) 0 0 dz_pos) 3 0 dz_vel;
           H = set_block (set_block (Matrix_Zero 6 n) 0 (offset pos_seg) (Matrix_Identity 3))
                 3 (offset vel_seg) (Matrix_Identity 3);
           R_pos = (case glo_position_sigma_m options of
                      Some s \<Rightarrow> e_scale E (s * s) (Matrix_Identity 3)
                    | None \<Rightarrow> e_mul E (e_mul E R (gnss_position_covariance_ecef_m2 gnss))
                                (e_transpose E R));
           R_vel = (case glo_velocity_sigma_mps options of
                      Some s \<Rightarrow> e_scale E (s * s) (Matrix_Identity 3)
                    | None \<Rightarrow> e_mul E (e_mul E R (gnss_velocity_covariance_ecef_m2ps2 gnss))
                                (e_transpose E R));
           R_meas = set_block (set_block (Matrix_Zero 6 6) 0 0 R_pos) 3 3 R_vel;
           S = e_add E (e_mul E (e_mul E H P) (e_transpose E H)) R_meas;
           head = get_block dz 0 0 3 1;
           mahal = coeff (e_mul E (e_transpose E head)
                     (e_ldlt_solve E (get_block S 0 0 3 3) head)) 0 0
       in if glo_position_gate options > 0 \<and> mahal > glo_position_gate options
          then Inr (Rejected, nom, dx, P)
          else
            (let K = e_mul E (e_mul E P (e_transpose E H)) (e_inverse E S);
                 dx' = e_add E dx (e_mul E K dz);
                 IKH = e_sub E (Matrix_Identity n) (e_mul E K H);
                 P' = e_add E (e_mul E (e_mul E IKH P) (e_transpose E IKH))
                              (e_mul E (e_mul E K R_meas) (e_transpose E K))
             in Inr (Accepted, nom, dx', SymmetrizeCovariance E P'))))"

definition GnssLooselyCoupled_Apply ::
  "eigen_ops \<Rightarrow> GnssLooselyCoupledOptions \<Rightarrow> NominalState \<Rightarrow> MatrixXd \<Rightarrow> MatrixXd \<Rightarrow> StateLayout \<Rightarrow>
     SensorMeasurement \<Rightarrow> LocalTangentPlane option \<Rightarrow> cpp_exception + apply_result" where
  "GnssLooselyCoupled_Apply E options nom dx P l m ctx =
     (case ctx of
        None \<Rightarrow> Inr (NotInitialized, nom, dx, P)
      | Some ltp \<Rightarrow>
          bind_sum (get_GnssSolution m) (\<lambda>gnss.
            if gnss_fix_type gnss = NoFix then Inr (Rejected, nom, dx, P)
            else if gnss_validity gnss \<noteq> Valid then Inr (Rejected, nom, dx, P)
            else GnssLooselyCoupled_ApplySolution E options nom dx P l gnss ltp))"

definition GnssLooselyCoupled :: "eigen_ops \<Rightarrow> GnssLooselyCoupledOptions \<Rightarrow> IMeasurementModel" where
  "GnssLooselyCoupled E options =
     \<lparr>model_Name = ''Unknown'', model_CanHandle = (\<lambda>m. \<not> isl (get_GnssSolution m)),
      model_Apply = GnssLooselyCoupled_Apply E options\<rparr>"

section \<open>Consecutive sub-updates\<close>

text \<open>
  The pattern of the three models below: the running result becomes \<open>Accepted\<close> when a
  sub-update is accepted and the error state and covariance flow from one to the next.
\<close>

type_synonym update_acc = "EstimatorUpdateResult \<times> MatrixXd \<times> MatrixXd"

definition sub_update ::
  "eigen_ops \<Rightarrow> MatrixXd \<Rightarrow> MatrixXd \<Rightarrow> MatrixXd \<Rightarrow> real \<Rightarrow> update_acc \<Rightarrow> update_acc" where
  "sub_update E H dz R_meas gate acc =
     (case acc of (res, dx, P) \<Rightarrow>
        (case EkfUpdate E dx P H dz R_meas gate of (r, dx', P') \<Rightarrow>
           (if r = Accepted then Accepted else res, dx', P')))"

definition identity_H :: "nat \<Rightarrow> StateSegment \<Rightarrow> MatrixXd" where
  "identity_H n seg = set_block (Matrix_Zero 3 n) 0 (offset seg) (Matrix_Identity 3)"

text \<open>The attitude innovation \<open>LogMapSo3(q_pred.conjugate() * q_obs)\<close> of a body-to-ECEF attitude.\<close>

definition attitude_innovation ::
  "eigen_ops \<Rightarrow> NominalState \<Rightarrow> LocalTangentPlane \<Rightarrow> Quaterniond \<Rightarrow> MatrixXd" where
  "attitude_innovation E nom ltp q_body_to_ecef =
     (let q_ecef_to_enu = e_quat_of_matrix E (ecef_to_enu_rotation ltp);
          q_obs = e_quat_normalized E (e_quat_mul E q_ecef_to_enu q_body_to_ecef)
      in LogMapSo3 E (e_quat_mul E (e_quat_conjugate E (nom_orientation_body_to_enu nom)) q_obs))"

section \<open>external\_pose\<close>

record ExternalPoseOptions =
  epo_use_position :: bool
  epo_use_orientation :: bool
  epo_position_sigma_m :: "real option"
  epo_orientation_sigma_rad :: "real option"
  epo_innovation_gate :: real

definition ExternalPoseOptions_default :: ExternalPoseOptions where
  "ExternalPoseOptions_default =
     \<lparr>epo_use_position = True, epo_use_orientation = True, epo_position_sigma_m = None,
      epo_orientation_sigma_rad = None, epo_innovation_gate = 0\<rparr>"

fun get_ExternalPose :: "SensorMeasurement \<Rightarrow> cpp_exception + ExternalPoseMeasurement" where
  "get_ExternalPose (M_ExternalPose m) = Inr m"
| "get_ExternalPose _ = Inl BadVariantAccess"

definition ExternalPose_Apply ::
  "eigen_ops \<Rightarrow> ExternalPoseOptions \<Rightarrow> NominalState \<Rightarrow> MatrixXd \<Rightarrow> MatrixXd \<Rightarrow> StateLayout \<Rightarrow>
     SensorMeasurement \<Rightarrow> LocalTangentPlane option \<Rightarrow> cpp_exception + apply_result" where
  "ExternalPose_Apply E options nom dx P l m ctx =
     bind_sum (get_ExternalPose m) (\<lambda>ep.
       if ep_validity ep \<noteq> Valid then Inr (Rejected, nom, dx, P)
       else
         (case ctx of
            None \<Rightarrow> Inr (NotInitialized, nom, dx, P)
          | Some ltp \<Rightarrow>
              bind_sum (Layout_Get l Position) (\<lambda>pos_seg.
              bind_sum (Layout_Get l Attitude) (\<lambda>att_seg.
                let n = total_size l;
                    R = ecef_to_enu_rotation ltp;
                    gate = epo_innovation_gate options;
                    acc0 = (Rejected, dx, P);
                    p_enu = vec (eigen (EcefToEnu E ltp (ep_position_ecef_m ep)));
                    dz_p = e_sub E p_enu (vec (eigen (nom_position_enu_m nom)));
                    R_cov = e_mul E (e_mul E R (get_block (ep_covariance ep) 0 0 3 3))
                      (e_transpose E R);
                    R_pos = (case epo_position_sigma_m options of
                               Some s \<Rightarrow> e_scale E (s * s) (Matrix_Identity 3)
                             | None \<Rightarrow> (if e_trace E R_cov < 1 / 10 ^ 12
                                        then e_scale E 4 (Matrix_Identity 3) else R_cov));
                    acc1 = (if epo_use_position options
                      then sub_update E (identity_H n pos_seg) dz_p R_pos gate acc0 else acc0);
                    d_theta = attitude_innovation E nom ltp (ep_orientation_body_to_ecef ep);
                    s = value_or (epo_orientation_sigma_rad options) 0.02;
                    R_att = e_scale E (s * s) (Matrix_Identity 3);
                    acc2 = (if epo_use_orientation options
                      then sub_update E (identity_H n att_seg) d_theta R_att gate acc1 else acc1)
                in case acc2 of (r, dx', P') \<Rightarrow> Inr (r, nom, dx', P')))))"

definition ExternalPose :: "eigen_ops \<Rightarrow> ExternalPoseOptions \<Rightarrow> IMeasurementModel" where
  "ExternalPose E options =
     \<lparr>model_Name = ''Unknown'', model_CanHandle = (\<lambda>m. \<not> isl (get_ExternalPose m)),
      model_Apply = ExternalPose_Apply E options\<rparr>"

section \<open>external\_odometry\<close>

record ExternalOdometryOptions =
  exo_use_position :: bool
  exo_use_velocity :: bool
  exo_use_orientation :: bool
  exo_position_sigma_m :: "real option"
  exo_velocity_sigma_mps :: "real option"
  exo_orientation_sigma_rad :: "real option"
  exo_innovation_gate :: real

definition ExternalOdometryOptions_default :: ExternalOdometryOptions where
  "ExternalOdometryOptions_default =
     \<lparr>exo_use_position = True, exo_use_velocity = True, exo_use_orientation = True,
      exo_position_sigma_m = None, exo_velocity_sigma_mps = None,
      exo_orientation_sigma_rad = None, exo_innovation_gate = 0\<rparr>"

fun get_ExternalOdometry :: "SensorMeasurement \<Rightarrow> cpp_exception + ExternalOdometryMeasurement" where
  "get_ExternalOdometry (M_ExternalOdometry m) = Inr m"
| "get_ExternalOdometry _ = Inl BadVariantAccess"

definition ExternalOdometry_Apply ::
  "eigen_ops \<Rightarrow> ExternalOdometryOptions \<Rightarrow> NominalState \<Rightarrow> MatrixXd \<Rightarrow> MatrixXd \<Rightarrow> StateLayout \<Rightarrow>
     SensorMeasurement \<Rightarrow> LocalTangentPlane option \<Rightarrow> cpp_exception + apply_result" where
  "ExternalOdometry_Apply E options nom dx P l m ctx =
     bind_sum (get_ExternalOdometry m) (\<lambda>eo.
       if eo_validity eo \<noteq> Valid then Inr (Rejected, nom, dx, P)
       else
         (case ctx of
            None \<Rightarrow> Inr (NotInitialized, nom, dx, P)
          | Some ltp \<Rightarrow>
              bind_sum (Layout_Get l Position) (\<lambda>pos_seg.
              bind_sum (Layout_Get l Velocity) (\<lambda>vel_seg.
              bind_sum (Layout_Get l Attitude) (\<lambda>att_seg.
                let n = total_size l;
                    R = ecef_to_enu_rotation ltp;
                    gate = exo_innovation_gate options;
                    acc0 = (Rejected, dx, P);
                    p_enu = vec (eigen (EcefToEnu E ltp (eo_position_ecef_m eo)));
                    dz_p = e_sub E p_enu (vec (eigen (nom_position_enu_m nom)));
                    s_p = value_or (exo_position_sigma_m options) 1;
                    acc1 = (if exo_use_position options
                      then sub_update E (identity_H n pos_seg) dz_p
                             (e_scale E (s_p * s_p) (Matrix_Identity 3)) gate acc0
                      else acc0);
                    v_enu = e_mul E R (vec (eigen (eo_velocity_ecef_mps eo)));
                    dz_v = e_sub E v_enu (vec (eigen (nom_velocity_enu_mps nom)));
                    s_v = value_or (exo_velocity_sigma_mps options) 0.1;
                    acc2 = (if exo_use_velocity options
                      then sub_update E (identity_H n vel_seg) dz_v
                             (e_scale E (s_v * s_v) (Matrix_Identity 3)) gate acc1
                      else acc1);
                    d_theta = attitude_innovation E nom ltp (eo_orientation_body_to_ecef eo);
                    s_a = value_or (exo_orientation_sigma_rad options) 0.02;
                    acc3 = (if exo_use_orientation options
                      then sub_update E (identity_H n att_seg) d_theta
                             (e_scale E (s_a * s_a) (Matrix_Identity 3)) gate acc2
                      else acc2)
                in case acc3 of (r, dx', P') \<Rightarrow> Inr (r, nom, dx', P'))))))"

definition ExternalOdometry :: "eigen_ops \<Rightarrow> ExternalOdometryOptions \<Rightarrow> IMeasurementModel" where
  "ExternalOdometry E options =
     \<lparr>model_Name = ''Unknown'', model_CanHandle = (\<lambda>m. \<not> isl (get_ExternalOdometry m)),
      model_Apply = ExternalOdometry_Apply E options\<rparr>"

section \<open>aiding\_solution\<close>

record AidingSolutionOptions =
  ado_min_match_score :: real
  ado_position_sigma_m :: "real option"
  ado_velocity_sigma_mps :: "real option"
  ado_attitude_sigma_rad :: "real option"
  ado_innovation_gate :: real

definition AidingSolutionOptions_default :: AidingSolutionOptions where
  "AidingSolutionOptions_default =
     \<lparr>ado_min_match_score = 0, ado_position_sigma_m = None, ado_velocity_sigma_mps = None,
      ado_attitude_sigma_rad = None, ado_innovation_gate = 0\<rparr>"

fun get_AidingSolution :: "SensorMeasurement \<Rightarrow> cpp_exception + AidingSolution" where
  "get_AidingSolution (M_AidingSolution m) = Inr m"
| "get_AidingSolution _ = Inl BadVariantAccess"

text \<open>The noise of a block: the override, or the rotated covariance with a floor of \<open>d\<close>.\<close>

definition aiding_noise ::
  "eigen_ops \<Rightarrow> MatrixXd \<Rightarrow> real option \<Rightarrow> MatrixXd \<Rightarrow> real \<Rightarrow> MatrixXd" where
  "aiding_noise E R sigma cov d =
     (case sigma of
        Some s \<Rightarrow> e_scale E (s * s) (Matrix_Identity 3)
      | None \<Rightarrow>
          (let rotated = e_mul E (e_mul E R cov) (e_transpose E R)
           in if e_trace E rotated < 1 / 10 ^ 12
              then e_scale E (d * d) (Matrix_Identity 3) else rotated))"

text \<open>The position, velocity and attitude blocks of \<open>AidingSolution::Apply\<close>.\<close>

definition aiding_position ::
  "eigen_ops \<Rightarrow> AidingSolutionOptions \<Rightarrow> NominalState \<Rightarrow> LocalTangentPlane \<Rightarrow> nat \<Rightarrow> StateSegment \<Rightarrow>
     AidingSolution \<Rightarrow> update_acc \<Rightarrow> update_acc" where
  "aiding_position E options nom ltp n pos_seg aid acc =
     (case aid_position_ecef_m aid of
        None \<Rightarrow> acc
      | Some position \<Rightarrow>
          (let p_enu = vec (eigen (EcefToEnu E ltp position));
               dz_p = e_sub E p_enu (vec (eigen (nom_position_enu_m nom)));
               R_pos = aiding_noise E (ecef_to_enu_rotation ltp) (ado_position_sigma_m options)
                 (aid_position_covariance_ecef_m2 aid) 10
           in sub_update E (identity_H n pos_seg) dz_p R_pos (ado_innovation_gate options) acc))"

definition aiding_velocity ::
  "eigen_ops \<Rightarrow> AidingSolutionOptions \<Rightarrow> NominalState \<Rightarrow> LocalTangentPlane \<Rightarrow> nat \<Rightarrow> StateSegment \<Rightarrow>
     AidingSolution \<Rightarrow> update_acc \<Rightarrow> update_acc" where
  "aiding_velocity E options nom ltp n vel_seg aid acc =
     (case aid_velocity_ecef_mps aid of
        None \<Rightarrow> acc
      | Some velocity \<Rightarrow>
          (let v_enu = e_mul E (ecef_to_enu_rotation ltp) (vec (eigen velocity));
               dz_v = e_sub E v_enu (vec (eigen (nom_velocity_enu_mps nom)));
               R_vel = aiding_noise E (ecef_to_enu_rotation ltp) (ado_velocity_sigma_mps options)
                 (aid_velocity_covariance_ecef_mps2 aid) 1
           in sub_update E (identity_H n vel_seg) dz_v R_vel (ado_innovation_gate options) acc))"

definition aiding_attitude ::
  "eigen_ops \<Rightarrow> AidingSolutionOptions \<Rightarrow> NominalState \<Rightarrow> LocalTangentPlane \<Rightarrow> nat \<Rightarrow> StateSegment \<Rightarrow>
     AidingSolution \<Rightarrow> update_acc \<Rightarrow> update_acc" where
  "aiding_attitude E options nom ltp n att_seg aid acc =
     (case aid_orientation_body_to_ecef aid of
        None \<Rightarrow> acc
      | Some q \<Rightarrow>
          (let v = aid_orientation_validity aid in
           if \<not> OrientationValidity_any v then acc
           else
             (let d_theta = attitude_innovation E nom ltp q;
                  s = value_or (ado_attitude_sigma_rad options) 0.05;
                  H0 = identity_H n att_seg;
                  H1 = (if ov_roll v then H0 else set_block H0 0 0 (Matrix_Zero 1 n));
                  H2 = (if ov_pitch v then H1 else set_block H1 1 0 (Matrix_Zero 1 n));
                  H3 = (if ov_yaw v then H2 else set_block H2 2 0 (Matrix_Zero 1 n));
                  dz_a = mat_of_rows 3 1
                    [[if ov_roll v then coeff d_theta 0 0 else 0],
                     [if ov_pitch v then coeff d_theta 1 0 else 0],
                     [if ov_yaw v then coeff d_theta 2 0 else 0]]
              in sub_update E H3 dz_a (e_scale E (s * s) (Matrix_Identity 3))
                   (ado_innovation_gate options) acc)))"

definition AidingSolution_Apply ::
  "eigen_ops \<Rightarrow> AidingSolutionOptions \<Rightarrow> NominalState \<Rightarrow> MatrixXd \<Rightarrow> MatrixXd \<Rightarrow> StateLayout \<Rightarrow>
     SensorMeasurement \<Rightarrow> LocalTangentPlane option \<Rightarrow> cpp_exception + apply_result" where
  "AidingSolution_Apply E options nom dx P l m ctx =
     bind_sum (get_AidingSolution m) (\<lambda>aid.
       if aid_validity aid \<noteq> Valid then Inr (Rejected, nom, dx, P)
       else if (case aid_match_score aid of
                  None \<Rightarrow> False | Some score \<Rightarrow> score < ado_min_match_score options)
       then Inr (Rejected, nom, dx, P)
       else
         (case ctx of
            None \<Rightarrow> Inr (NotInitialized, nom, dx, P)
          | Some ltp \<Rightarrow>
              bind_sum (Layout_Get l Position) (\<lambda>pos_seg.
              bind_sum (Layout_Get l Velocity) (\<lambda>vel_seg.
              bind_sum (Layout_Get l Attitude) (\<lambda>att_seg.
                let n = total_size l;
                    acc1 = aiding_position E options nom ltp n pos_seg aid (Rejected, dx, P);
                    acc2 = aiding_velocity E options nom ltp n vel_seg aid acc1;
                    acc3 = aiding_attitude E options nom ltp n att_seg aid acc2
                in case acc3 of (r, dx', P') \<Rightarrow> Inr (r, nom, dx', P'))))))"

definition AidingSolution :: "eigen_ops \<Rightarrow> AidingSolutionOptions \<Rightarrow> IMeasurementModel" where
  "AidingSolution E options =
     \<lparr>model_Name = ''Unknown'', model_CanHandle = (\<lambda>m. \<not> isl (get_AidingSolution m)),
      model_Apply = AidingSolution_Apply E options\<rparr>"

section \<open>The contract\<close>

lemma GnssLooselyCoupled_ApplySolution_ok:
  assumes E: "eigen_algebra E" "eigen_shapes E" and l: "standard_layout l"
    and P: "covariance_ok (total_size l) P" and dx: "vector (total_size l) dx"
    and R: "square 3 (ecef_to_enu_rotation ltp)"
    and cov: "psd 3 (gnss_position_covariance_ecef_m2 g)" "psd 3 (gnss_velocity_covariance_ecef_m2ps2 g)"
  shows "returns_ok True (total_size l) nom dx P
    (GnssLooselyCoupled_ApplySolution E options nom dx P l g ltp)"
proof -
  let ?n = "total_size l" and ?R = "ecef_to_enu_rotation ltp"
  define R_pos where "R_pos = (case glo_position_sigma_m options of
      Some s \<Rightarrow> e_scale E (s * s) (Matrix_Identity 3)
    | None \<Rightarrow> e_mul E (e_mul E ?R (gnss_position_covariance_ecef_m2 g)) (e_transpose E ?R))"
  define R_vel where "R_vel = (case glo_velocity_sigma_mps options of
      Some s \<Rightarrow> e_scale E (s * s) (Matrix_Identity 3)
    | None \<Rightarrow> e_mul E (e_mul E ?R (gnss_velocity_covariance_ecef_m2ps2 g)) (e_transpose E ?R))"
  define H where "H = set_block (set_block (Matrix_Zero 6 ?n) 0 0 (Matrix_Identity 3)) 3 3 (Matrix_Identity 3)"
  define Rm where "Rm = set_block (set_block (Matrix_Zero 6 6) 0 0 R_pos) 3 3 R_vel"
  define dz where "dz = set_block (set_block (Matrix_Zero 6 1) 0 0
      (e_sub E (vec (eigen (EcefToEnu E ltp (gnss_position_ecef_m g)))) (vec (eigen (nom_position_enu_m nom)))))
      3 0 (e_sub E (e_mul E ?R (vec (eigen (gnss_velocity_ecef_mps g)))) (vec (eigen (nom_velocity_enu_mps nom))))"
  define S where "S = e_add E (e_mul E (e_mul E H P) (e_transpose E H)) Rm"
  define K where "K = e_mul E (e_mul E P (e_transpose E H)) (e_inverse E S)"
  have "psd 3 R_pos" "psd 3 R_vel"
    using R cov psd_congruence [OF E(1) _ _ cov(1), of ?R 3] psd_congruence [OF E(1) _ _ cov(2), of ?R 3]
      psd_sigma [OF E(1)]
    by (auto simp: R_pos_def R_vel_def square_def split: option.splits)
  then have Rm: "psd 6 Rm" unfolding Rm_def using psd_block_pair [of 3 R_pos 3 R_vel] by simp
  have H: "mat_rows H = 6" "mat_cols H = ?n" by (simp_all add: H_def)
  have sq: "mat_rows P = ?n" "mat_cols P = ?n" "mat_rows Rm = 6" "mat_cols Rm = 6"
    using P Rm by (auto simp: covariance_ok_def psd_def square_def)
  have S: "mat_rows S = 6" "mat_cols S = 6" using E(1) H sq by (simp_all add: S_def)
  have K: "mat_rows K = ?n" "mat_cols K = 6" using E H sq S by (simp_all add: K_def)
  have dz: "vector 6 dz" by (simp add: dz_def)
  have acc: "apply_ok True ?n nom dx P (Accepted, nom, e_add E dx (e_mul E K dz),
      SymmetrizeCovariance E (e_add E
        (e_mul E (e_mul E (e_sub E (Matrix_Identity ?n) (e_mul E K H)) P)
          (e_transpose E (e_sub E (Matrix_Identity ?n) (e_mul E K H))))
        (e_mul E (e_mul E K Rm) (e_transpose E K))))"
    using joseph_form_psd [OF E(1) covariance_ok_psd [OF P] Rm K H] E(1) K dx dz
    by (simp add: apply_ok_def vector_def)
  show ?thesis
    using l acc unchanged_ok [OF _ dx P, of Rejected True nom]
    by (simp add: GnssLooselyCoupled_ApplySolution_def Let_def R_pos_def [symmetric]
        R_vel_def [symmetric] H_def [symmetric] Rm_def [symmetric] dz_def [symmetric]
        S_def [symmetric] K_def [symmetric] returns_ok_def del: One_nat_def)
qed

lemma GnssLooselyCoupled_ok:
  assumes E: "eigen_algebra E" "eigen_shapes E"
  shows "model_ok True (GnssLooselyCoupled E options)"
proof (rule model_okI)
  fix nom dx P l m ctx
  assume l: "standard_layout l" and P: "covariance_ok (total_size l) P"
    and dx: "vector (total_size l) dx" and ctx: "context_ok ctx" and cov: "covariances_ok m"
    and "model_CanHandle (GnssLooselyCoupled E options) m"
  then obtain g where m: "m = M_GnssSolution g" by (cases m) (auto simp: GnssLooselyCoupled_def)
  show "returns_ok True (total_size l) nom dx P
      (model_Apply (GnssLooselyCoupled E options) nom dx P l m ctx)"
    using ctx cov by (auto simp: GnssLooselyCoupled_def GnssLooselyCoupled_Apply_def m context_ok_def covariance_ok_psd
        split: option.splits
        intro!: unchanged_ok [OF _ dx P] GnssLooselyCoupled_ApplySolution_ok [OF E l P dx])
qed

definition acc_ok :: "nat \<Rightarrow> MatrixXd \<Rightarrow> MatrixXd \<Rightarrow> update_acc \<Rightarrow> bool" where
  "acc_ok n dx0 P0 acc =
     (case acc of (r, dx, P) \<Rightarrow>
        r \<in> {Accepted, Rejected} \<and> vector n dx \<and> covariance_ok n P \<and>
        (r \<noteq> Accepted \<longrightarrow> dx = dx0 \<and> P = P0))"

lemma acc_ok_start: "vector n dx \<Longrightarrow> covariance_ok n P \<Longrightarrow> acc_ok n dx P (Rejected, dx, P)"
  by (simp add: acc_ok_def)

lemma sub_update_ok:
  assumes E: "eigen_algebra E" "eigen_shapes E" and acc: "acc_ok n dx0 P0 acc"
    and H: "mat_rows H = 3" "mat_cols H = n" and dz: "vector 3 dz" and R: "psd 3 R"
  shows "acc_ok n dx0 P0 (sub_update E H dz R gate acc)"
proof -
  obtain res dx P where a: "acc = (res, dx, P)" by (cases acc)
  obtain r dx' P' where u: "EkfUpdate E dx P H dz R gate = (r, dx', P')"
    by (cases "EkfUpdate E dx P H dz R gate")
  from acc have P: "covariance_ok n P" and dx: "vector n dx" by (auto simp: a acc_ok_def)
  from EkfUpdate_ok [OF E covariance_ok_psd [OF P] dx H dz R u] acc
  show ?thesis by (auto simp: a acc_ok_def sub_update_def u)
qed

lemma acc_ok_returns:
  "acc_ok n dx P acc \<Longrightarrow>
     returns_ok True n nom dx P (case acc of (r, dx', P') \<Rightarrow> Inr (r, nom, dx', P'))"
  by (cases acc) (auto simp: acc_ok_def returns_ok_def apply_ok_def)

lemma identity_H_shape [simp]: "mat_rows (identity_H n seg) = 3" "mat_cols (identity_H n seg) = n"
  by (simp_all add: identity_H_def)

lemma attitude_innovation_vector [simp]:
  "eigen_algebra E \<Longrightarrow> eigen_shapes E \<Longrightarrow> vector 3 (attitude_innovation E nom ltp q)"
  by (simp add: attitude_innovation_def Let_def vector_def)

lemma difference_vector [simp]:
  "eigen_algebra E \<Longrightarrow> vector 3 (e_sub E (vec a) (vec b))"
  "eigen_algebra E \<Longrightarrow> square 3 R \<Longrightarrow> vector 3 (e_sub E (e_mul E R (vec a)) (vec b))"
  by (simp_all add: vector_def square_def)

lemma psd_rotated:
  "eigen_algebra E \<Longrightarrow> square 3 R \<Longrightarrow> psd 3 C \<Longrightarrow> psd 3 (e_mul E (e_mul E R C) (e_transpose E R))"
  by (rule psd_congruence) (simp_all add: square_def)

lemma psd_scaled_identity: "eigen_algebra E \<Longrightarrow> 0 \<le> c \<Longrightarrow> psd n (e_scale E c (Matrix_Identity n))"
  by (rule psd_scale) (auto intro: psd_Identity)

lemma aiding_noise_psd:
  "eigen_algebra E \<Longrightarrow> square 3 R \<Longrightarrow> psd 3 C \<Longrightarrow> psd 3 (aiding_noise E R s C d)"
  by (auto simp: aiding_noise_def Let_def psd_rotated psd_scaled_identity split: option.splits)

lemmas sub_update_intros = acc_ok_returns sub_update_ok acc_ok_start

lemma ExternalPose_ok:
  assumes E: "eigen_algebra E" "eigen_shapes E"
  shows "model_ok True (ExternalPose E options)"
proof (rule model_okI)
  fix nom dx P l m ctx
  assume l: "standard_layout l" and P: "covariance_ok (total_size l) P"
    and dx: "vector (total_size l) dx" and ctx: "context_ok ctx" and cov: "covariances_ok m"
    and "model_CanHandle (ExternalPose E options) m"
  then obtain e where m: "m = M_ExternalPose e" by (cases m) (auto simp: ExternalPose_def)
  have block: "psd 3 (get_block (ep_covariance e) 0 0 3 3)"
    using cov by (auto simp: m covariance_ok_psd intro!: psd_get_block [of 6])
  show "returns_ok True (total_size l) nom dx P
      (model_Apply (ExternalPose E options) nom dx P l m ctx)"
  proof (cases ctx)
    case None
    then show ?thesis
      by (auto simp: ExternalPose_def ExternalPose_Apply_def m intro!: unchanged_ok [OF _ dx P])
  next
    case (Some ltp)
    then have R: "square 3 (ecef_to_enu_rotation ltp)" using ctx by (simp add: context_ok_def)
    show ?thesis
      using l by (auto simp: ExternalPose_def ExternalPose_Apply_def m Some Let_def E R P dx
          psd_rotated [OF E(1) R block] psd_scaled_identity simp del: split_paired_Ex
          split: option.splits
          intro!: unchanged_ok [OF _ dx P] acc_ok_returns sub_update_ok [OF E] acc_ok_start)
  qed
qed

lemma ExternalOdometry_ok:
  assumes E: "eigen_algebra E" "eigen_shapes E"
  shows "model_ok True (ExternalOdometry E options)"
proof (rule model_okI)
  fix nom dx P l m ctx
  assume l: "standard_layout l" and P: "covariance_ok (total_size l) P"
    and dx: "vector (total_size l) dx" and ctx: "context_ok ctx"
    and "model_CanHandle (ExternalOdometry E options) m"
  then obtain e where m: "m = M_ExternalOdometry e" by (cases m) (auto simp: ExternalOdometry_def)
  show "returns_ok True (total_size l) nom dx P
      (model_Apply (ExternalOdometry E options) nom dx P l m ctx)"
  proof (cases ctx)
    case None
    then show ?thesis
      by (auto simp: ExternalOdometry_def ExternalOdometry_Apply_def m
          intro!: unchanged_ok [OF _ dx P])
  next
    case (Some ltp)
    then have R: "square 3 (ecef_to_enu_rotation ltp)" using ctx by (simp add: context_ok_def)
    show ?thesis
      using l by (auto simp: ExternalOdometry_def ExternalOdometry_Apply_def m Some Let_def E R P dx
          psd_scaled_identity
          intro!: unchanged_ok [OF _ dx P] acc_ok_returns sub_update_ok [OF E] acc_ok_start)
  qed
qed

text \<open>The three sub-updates of an aiding solution, one lemma each.\<close>

lemma aiding_position_ok:
  assumes E: "eigen_algebra E" "eigen_shapes E" and "acc_ok n dx P acc"
    and "square 3 (ecef_to_enu_rotation ltp)" "psd 3 (aid_position_covariance_ecef_m2 aid)"
  shows "acc_ok n dx P (aiding_position E options nom ltp n seg aid acc)"
  using assms by (auto simp: aiding_position_def Let_def aiding_noise_psd split: option.splits
      intro!: sub_update_ok [OF E])

lemma aiding_velocity_ok:
  assumes E: "eigen_algebra E" "eigen_shapes E" and "acc_ok n dx P acc"
    and "square 3 (ecef_to_enu_rotation ltp)" "psd 3 (aid_velocity_covariance_ecef_mps2 aid)"
  shows "acc_ok n dx P (aiding_velocity E options nom ltp n seg aid acc)"
  using assms by (auto simp: aiding_velocity_def Let_def aiding_noise_psd split: option.splits
      intro!: sub_update_ok [OF E])

lemma aiding_attitude_ok:
  assumes E: "eigen_algebra E" "eigen_shapes E" and "acc_ok n dx P acc"
  shows "acc_ok n dx P (aiding_attitude E options nom ltp n seg aid acc)"
  using assms by (auto simp: aiding_attitude_def Let_def psd_scaled_identity vector_def
      split: option.splits intro!: sub_update_ok [OF E])

lemma AidingSolution_ok:
  assumes E: "eigen_algebra E" "eigen_shapes E"
  shows "model_ok True (AidingSolution E options)"
proof (rule model_okI)
  fix nom dx P l m ctx
  assume l: "standard_layout l" and P: "covariance_ok (total_size l) P"
    and dx: "vector (total_size l) dx" and ctx: "context_ok ctx" and cov: "covariances_ok m"
    and "model_CanHandle (AidingSolution E options) m"
  then obtain a where m: "m = M_AidingSolution a" by (cases m) (auto simp: AidingSolution_def)
  show "returns_ok True (total_size l) nom dx P
      (model_Apply (AidingSolution E options) nom dx P l m ctx)"
  proof (cases ctx)
    case None
    then show ?thesis
      by (auto simp: AidingSolution_def AidingSolution_Apply_def m
          intro!: unchanged_ok [OF _ dx P])
  next
    case (Some ltp)
    then have R: "square 3 (ecef_to_enu_rotation ltp)" using ctx by (simp add: context_ok_def)
    have cov: "psd 3 (aid_position_covariance_ecef_m2 a)" "psd 3 (aid_velocity_covariance_ecef_mps2 a)"
      using cov by (simp_all add: m covariance_ok_psd)
    show ?thesis
      using l by (auto simp: AidingSolution_def AidingSolution_Apply_def m Some P dx Let_def
          intro!: unchanged_ok [OF _ dx P] acc_ok_returns aiding_attitude_ok [OF E]
            aiding_velocity_ok [OF E _ R cov(2)] aiding_position_ok [OF E _ R cov(1)] acc_ok_start
          split: option.splits)
  qed
qed

end
