(* ===== verification/Fg_EkfTightlyCoupled.thy ===== *)
theory Fg_EkfTightlyCoupled
  imports Fg_EkfUpdate
begin

text \<open>
  \<^verbatim>\<open>gnss_tightly_coupled.cpp\<close>: raw pseudoranges and Doppler observations, one scalar
  update per observation.
\<close>

section \<open>Options and constants\<close>

record GnssTightlyCoupledOptions =
  gto_base_pseudorange_sigma_m :: real
  gto_pseudorange_noise_floor_m :: real
  gto_base_doppler_sigma_mps :: real
  gto_innovation_gate_sigma :: real
  gto_min_satellites :: nat

definition GnssTightlyCoupledOptions_default :: GnssTightlyCoupledOptions where
  "GnssTightlyCoupledOptions_default =
     \<lparr>gto_base_pseudorange_sigma_m = 3, gto_pseudorange_noise_floor_m = 0.1,
      gto_base_doppler_sigma_mps = 0.5, gto_innovation_gate_sigma = 3, gto_min_satellites = 4\<rparr>"

definition kSpeedOfLightMps :: real where "kSpeedOfLightMps = 299792458"
definition kEarthRotationRps :: real where "kEarthRotationRps = 7.2921151467 / 10 ^ 5"

fun CarrierFrequencyHz :: "GnssSignal \<Rightarrow> real" where
  "CarrierFrequencyHz L1 = 1575.42 * 10 ^ 6"
| "CarrierFrequencyHz L2 = 1227.60 * 10 ^ 6"
| "CarrierFrequencyHz L5 = 1176.45 * 10 ^ 6"
| "CarrierFrequencyHz E1 = 1575.42 * 10 ^ 6"
| "CarrierFrequencyHz E5a = 1176.45 * 10 ^ 6"
| "CarrierFrequencyHz E5b = 1207.14 * 10 ^ 6"
| "CarrierFrequencyHz B1 = 1561.098 * 10 ^ 6"
| "CarrierFrequencyHz B2 = 1207.14 * 10 ^ 6"
| "CarrierFrequencyHz Signal_Unknown = 1575.42 * 10 ^ 6"

definition SagnacCorrectionM :: "Vector3d \<Rightarrow> Vector3d \<Rightarrow> real" where
  "SagnacCorrectionM pos_sv pos_rcv =
     kEarthRotationRps / kSpeedOfLightMps *
       (v3_x pos_sv * v3_y pos_rcv - v3_y pos_sv * v3_x pos_rcv)"

section \<open>The scalar update\<close>

definition ScalarUpdate ::
  "eigen_ops \<Rightarrow> GnssTightlyCoupledOptions \<Rightarrow> MatrixXd \<Rightarrow> MatrixXd \<Rightarrow> MatrixXd \<Rightarrow> real \<Rightarrow> real \<Rightarrow>
     bool \<times> MatrixXd \<times> MatrixXd" where
  "ScalarUpdate E options dx P H_row innovation sigma =
     (let S = e_dot E H_row (e_mul E P H_row) + sigma * sigma
      in if S \<le> 0 then (False, dx, P)
         else if gto_innovation_gate_sigma options > 0 \<and>
                 \<bar>innovation\<bar> > gto_innovation_gate_sigma options * sqrt S
         then (False, dx, P)
         else
           (let K = e_scale E (1 / S) (e_mul E P H_row);
                dx' = e_add E dx (e_scale E innovation K);
                n = mat_rows dx';
                IKH = e_sub E (Matrix_Identity n) (e_mul E K (e_transpose E H_row));
                P' = e_add E (e_mul E (e_mul E IKH P) (e_transpose E IKH))
                       (e_scale E (sigma * sigma) (e_mul E K (e_transpose E K)))
            in (True, dx', SymmetrizeCovariance E P')))"

section \<open>Apply\<close>

text \<open>
  The state of the loop over the satellites: the count of accepted pseudoranges, the error
  state and the covariance. The receiver state is computed once, before the loop.
\<close>

type_synonym tc_acc = "nat \<times> MatrixXd \<times> MatrixXd"

record Receiver =
  rcv_position :: MatrixXd
  rcv_velocity :: MatrixXd
  rcv_R_enu_to_ecef :: MatrixXd
  rcv_clk_bias_m :: real
  rcv_clk_drift_mps :: real
  rcv_n :: nat
  rcv_pos_offset :: nat
  rcv_vel_offset :: nat
  rcv_clk_offset :: nat

definition pseudorange_sigma :: "GnssTightlyCoupledOptions \<Rightarrow> GnssRawObservation \<Rightarrow> real" where
  "pseudorange_sigma options raw =
     (case raw_carrier_to_noise_density_dbhz raw of
        None \<Rightarrow> gto_base_pseudorange_sigma_m options
      | Some cn0 \<Rightarrow> gto_base_pseudorange_sigma_m options * 10 powr (- cn0 / 40) +
                    gto_pseudorange_noise_floor_m options)"

definition line_of_sight_row :: "eigen_ops \<Rightarrow> Receiver \<Rightarrow> MatrixXd \<Rightarrow> nat \<Rightarrow> nat \<Rightarrow> MatrixXd" where
  "line_of_sight_row E rcv e off clk =
     set_coeff
       (set_block (Matrix_Zero (rcv_n rcv) 1) off 0
          (e_neg E (e_transpose E (e_mul E (e_transpose E e) (rcv_R_enu_to_ecef rcv)))))
       clk 0 1"

definition pseudorange_update ::
  "eigen_ops \<Rightarrow> GnssTightlyCoupledOptions \<Rightarrow> Receiver \<Rightarrow> GnssTightlyCoupledObservation \<Rightarrow>
     MatrixXd \<Rightarrow> real \<Rightarrow> tc_acc \<Rightarrow> tc_acc" where
  "pseudorange_update E options rcv obs e range_m acc =
     (case acc of (accepted, dx, P) \<Rightarrow>
        (let sv = tco_satellite obs; raw = tco_raw obs;
             sagnac = SagnacCorrectionM (eigen (sv_position_ecef_m sv)) (v3 (rcv_position rcv));
             rho_pred = range_m + sagnac + rcv_clk_bias_m rcv - sv_clock_bias_s sv * kSpeedOfLightMps +
               sv_ionospheric_delay_m sv + sv_tropospheric_delay_m sv;
             innovation = raw_pseudorange_m raw - rho_pred;
             H_rho = line_of_sight_row E rcv e (rcv_pos_offset rcv) (rcv_clk_offset rcv)
         in case ScalarUpdate E options dx P H_rho innovation (pseudorange_sigma options raw) of
              (ok, dx', P') \<Rightarrow> (if ok then Suc accepted else accepted, dx', P')))"

definition doppler_update ::
  "eigen_ops \<Rightarrow> GnssTightlyCoupledOptions \<Rightarrow> Receiver \<Rightarrow> GnssTightlyCoupledObservation \<Rightarrow>
     MatrixXd \<Rightarrow> tc_acc \<Rightarrow> tc_acc" where
  "doppler_update E options rcv obs e acc =
     (case raw_doppler_hz (tco_raw obs) of
        None \<Rightarrow> acc
      | Some doppler \<Rightarrow>
          (case acc of (accepted, dx, P) \<Rightarrow>
             (let sv = tco_satellite obs;
                  f_carrier = CarrierFrequencyHz (raw_signal (tco_raw obs));
                  range_rate_obs = - doppler * kSpeedOfLightMps / f_carrier;
                  v_rel = e_sub E (vec (eigen (sv_velocity_ecef_mps sv))) (rcv_velocity rcv);
                  range_rate_pred = e_dot E e v_rel + rcv_clk_drift_mps rcv -
                    sv_clock_drift_sps sv * kSpeedOfLightMps;
                  innovation = range_rate_obs - range_rate_pred;
                  H_rdot = line_of_sight_row E rcv e (rcv_vel_offset rcv) (rcv_clk_offset rcv + 1)
              in case ScalarUpdate E options dx P H_rdot innovation
                        (gto_base_doppler_sigma_mps options) of
                   (ok, dx', P') \<Rightarrow> (accepted, dx', P'))))"

definition satellite_update ::
  "eigen_ops \<Rightarrow> GnssTightlyCoupledOptions \<Rightarrow> Receiver \<Rightarrow> tc_acc \<Rightarrow>
     GnssTightlyCoupledObservation \<Rightarrow> tc_acc" where
  "satellite_update E options rcv acc obs =
     (if raw_validity (tco_raw obs) \<noteq> Valid then acc
      else if \<not> sv_healthy (tco_satellite obs) then acc
      else
        (let diff = e_sub E (vec (eigen (sv_position_ecef_m (tco_satellite obs)))) (rcv_position rcv);
             range_m = e_norm E diff
         in if range_m < 1 / 10 ^ 3 then acc
            else
              (let e = e_scale E (1 / range_m) diff
               in doppler_update E options rcv obs e
                    (pseudorange_update E options rcv obs e range_m acc))))"

fun get_GnssTightlyCoupled :: "SensorMeasurement \<Rightarrow> cpp_exception + GnssTightlyCoupledEpoch" where
  "get_GnssTightlyCoupled (M_GnssTightlyCoupled m) = Inr m"
| "get_GnssTightlyCoupled _ = Inl BadVariantAccess"

definition GnssTightlyCoupled_Apply ::
  "eigen_ops \<Rightarrow> GnssTightlyCoupledOptions \<Rightarrow> NominalState \<Rightarrow> MatrixXd \<Rightarrow> MatrixXd \<Rightarrow> StateLayout \<Rightarrow>
     SensorMeasurement \<Rightarrow> LocalTangentPlane option \<Rightarrow> cpp_exception + apply_result" where
  "GnssTightlyCoupled_Apply E options nom dx P l m ctx =
     (if \<not> Layout_Has l GnssClock then Inr (Rejected, nom, dx, P)
      else
        (case ctx of
           None \<Rightarrow> Inr (NotInitialized, nom, dx, P)
         | Some ltp \<Rightarrow>
             (case nom_gnss_clock nom of
                None \<Rightarrow> Inr (NotInitialized, nom, dx, P)
              | Some clock \<Rightarrow>
                  bind_sum (get_GnssTightlyCoupled m) (\<lambda>epoch.
                    if tce_validity epoch \<noteq> Valid then Inr (Rejected, nom, dx, P)
                    else if tce_sv_observations epoch = [] then Inr (Rejected, nom, dx, P)
                    else
                      bind_sum (Layout_Get l Position) (\<lambda>pos_seg.
                      bind_sum (Layout_Get l Velocity) (\<lambda>vel_seg.
                      bind_sum (Layout_Get l GnssClock) (\<lambda>clk_seg.
                        let R = e_transpose E (ecef_to_enu_rotation ltp);
                            rcv = \<lparr>rcv_position = vec (eigen (EnuToEcef E ltp (nom_position_enu_m nom))),
                                   rcv_velocity = e_mul E R (vec (eigen (nom_velocity_enu_mps nom))),
                                   rcv_R_enu_to_ecef = R,
                                   rcv_clk_bias_m = v2_x clock, rcv_clk_drift_mps = v2_y clock,
                                   rcv_n = total_size l, rcv_pos_offset = offset pos_seg,
                                   rcv_vel_offset = offset vel_seg, rcv_clk_offset = offset clk_seg\<rparr>
                        in case foldl (satellite_update E options rcv) (0, dx, P)
                                  (tce_sv_observations epoch) of
                             (accepted, dx', P') \<Rightarrow>
                               (if accepted < gto_min_satellites options
                                then Inr (Rejected, nom, dx', P')
                                else Inr (Accepted, nom, dx', P')))))))))"

definition GnssTightlyCoupled :: "eigen_ops \<Rightarrow> GnssTightlyCoupledOptions \<Rightarrow> IMeasurementModel" where
  "GnssTightlyCoupled E options =
     \<lparr>model_Name = ''Unknown'', model_CanHandle = (\<lambda>m. \<not> isl (get_GnssTightlyCoupled m)),
      model_Apply = GnssTightlyCoupled_Apply E options\<rparr>"

section \<open>The contract\<close>

lemma ScalarUpdate_ok:
  assumes E: "eigen_algebra E" and P: "covariance_ok n P" and dx: "vector n dx" and H: "vector n H"
    and upd: "ScalarUpdate E options dx P H innovation sigma = (ok, dx', P')"
  shows "vector n dx' \<and> covariance_ok n P' \<and> (\<not> ok \<longrightarrow> dx' = dx \<and> P' = P)"
proof -
  define S where "S = e_dot E H (e_mul E P H) + sigma * sigma"
  define K where "K = e_scale E (1 / S) (e_mul E P H)"
  have sq: "mat_rows P = n" "mat_cols P = n" using P by (auto simp: covariance_ok_def psd_def square_def)
  have K: "mat_rows K = n" "mat_cols K = 1" using E sq H by (simp_all add: K_def vector_def)
  let ?IKH = "e_sub E (Matrix_Identity n) (e_mul E K (e_transpose E H))"
  have dxn: "vector n (e_add E dx (e_scale E innovation K))"
    using E K dx by (simp add: vector_def)
  have IKH: "mat_rows ?IKH = n" "mat_cols ?IKH = n" using E K H by (simp_all add: vector_def)
  have "covariance_ok n (SymmetrizeCovariance E
      (e_add E (e_mul E (e_mul E ?IKH P) (e_transpose E ?IKH))
        (e_scale E (sigma * sigma) (e_mul E K (e_transpose E K)))))"
    by (intro SymmetrizeCovariance_ok psd_add psd_scale E psd_outer [OF E K]
        psd_congruence [OF E IKH covariance_ok_psd [OF P]]) simp
  with upd dxn P dx show ?thesis
    by (auto simp: ScalarUpdate_def Let_def S_def [symmetric] K_def [symmetric] vector_def
        split: if_splits)
qed

definition tc_ok :: "nat \<Rightarrow> tc_acc \<Rightarrow> bool" where
  "tc_ok n acc = (case acc of (accepted, dx, P) \<Rightarrow> vector n dx \<and> covariance_ok n P)"

lemma line_of_sight_row_vector: "vector (rcv_n rcv) (line_of_sight_row E rcv e off clk)"
  by (simp add: line_of_sight_row_def)

lemma ScalarUpdate_row_ok:
  assumes "eigen_algebra E" "covariance_ok (rcv_n rcv) P" "vector (rcv_n rcv) dx"
  shows "tc_ok (rcv_n rcv) (k, fst (snd (ScalarUpdate E options dx P
    (line_of_sight_row E rcv e off clk) innovation sigma)), snd (snd (ScalarUpdate E options dx P
    (line_of_sight_row E rcv e off clk) innovation sigma)))"
  using ScalarUpdate_ok [OF assms line_of_sight_row_vector]
  by (cases "ScalarUpdate E options dx P (line_of_sight_row E rcv e off clk) innovation sigma")
     (simp add: tc_ok_def)

lemma pseudorange_update_ok:
  assumes E: "eigen_algebra E" and "tc_ok (rcv_n rcv) acc"
  shows "tc_ok (rcv_n rcv) (pseudorange_update E options rcv obs e rho acc)"
proof -
  obtain k dx P where acc: "acc = (k, dx, P)" by (cases acc)
  with assms(2) have "covariance_ok (rcv_n rcv) P" "vector (rcv_n rcv) dx" by (auto simp: tc_ok_def)
  note row = ScalarUpdate_row_ok [OF E this]
  show ?thesis
    unfolding acc pseudorange_update_def Let_def split_beta fst_conv snd_conv
    by (rule row)
qed

lemma doppler_update_ok:
  assumes E: "eigen_algebra E" and "tc_ok (rcv_n rcv) acc"
  shows "tc_ok (rcv_n rcv) (doppler_update E options rcv obs e acc)"
proof (cases "raw_doppler_hz (tco_raw obs)")
  case None
  then show ?thesis using assms(2) by (simp add: doppler_update_def)
next
  case (Some doppler)
  obtain k dx P where acc: "acc = (k, dx, P)" by (cases acc)
  with assms(2) have "covariance_ok (rcv_n rcv) P" "vector (rcv_n rcv) dx" by (auto simp: tc_ok_def)
  note row = ScalarUpdate_row_ok [OF E this]
  show ?thesis
    unfolding acc doppler_update_def Let_def split_beta fst_conv snd_conv Some option.case
    by (rule row)
qed

lemma satellite_updates_ok:
  assumes E: "eigen_algebra E" and "tc_ok (rcv_n rcv) acc"
  shows "tc_ok (rcv_n rcv) (foldl (satellite_update E options rcv) acc obs)"
  using assms(2)
proof (induction obs arbitrary: acc)
  case (Cons ob obs)
  have "tc_ok (rcv_n rcv) (satellite_update E options rcv acc ob)"
    using Cons.prems
    by (simp add: satellite_update_def Let_def pseudorange_update_ok [OF E] doppler_update_ok [OF E])
  with Cons.IH show ?case by simp
qed simp

lemma GnssTightlyCoupled_ok:
  assumes E: "eigen_algebra E"
  shows "model_ok False (GnssTightlyCoupled E options)"
proof (rule model_okI)
  fix nom dx P l m ctx
  assume l: "standard_layout l" and P: "covariance_ok (total_size l) P"
    and dx: "vector (total_size l) dx" and "model_CanHandle (GnssTightlyCoupled E options) m"
  then obtain epoch where m: "m = M_GnssTightlyCoupled epoch"
    by (cases m) (auto simp: GnssTightlyCoupled_def)
  have loop: "returns_ok False (total_size l) nom dx P
      (case foldl (satellite_update E options rcv) (0, dx, P) obs of
         (accepted, dx', P') \<Rightarrow> (if accepted < gto_min_satellites options
            then Inr (Rejected, nom, dx', P') else Inr (Accepted, nom, dx', P')))"
    if "rcv_n rcv = total_size l" for rcv obs
    using satellite_updates_ok [OF E, of rcv "(0, dx, P)" options obs] that P dx
    by (auto simp: tc_ok_def returns_ok_def apply_ok_def split: prod.splits)
  show "returns_ok False (total_size l) nom dx P
      (model_Apply (GnssTightlyCoupled E options) nom dx P l m ctx)"
    using l by (auto simp: GnssTightlyCoupled_def GnssTightlyCoupled_Apply_def m Let_def
        Layout_Has_def Layout_Get_def [of l GnssClock] split: option.splits
        intro!: unchanged_ok [OF _ dx P] loop)
qed

end
