(* ===== verification/Fg_System.thy ===== *)
theory Fg_System
  imports Fg_EkfInvariant Fg_EkfScalarModels Fg_EkfPoseModels Fg_EkfTightlyCoupled Fg_Pipeline
begin

text \<open>
  The configuration of \<^verbatim>\<open>navigation_system_config.hpp\<close> and the EKF factory of
  \<^verbatim>\<open>src/estimation/src/navigation_system.cpp\<close>, with the properties of the estimator that
  the factory builds: the engine together with the sixteen concrete measurement models.
\<close>

section \<open>Configuration\<close>

datatype EstimatorBackendChoice = Choice_Ekf | Choice_Ukf | Choice_Ceres | Choice_Gtsam

datatype GnssIntegrationMode = LooselyCoupled | TightlyCoupled

record GnssSensorConfig =
  gnss_enabled :: bool
  gnss_mode :: GnssIntegrationMode
  gnss_loosely_coupled :: GnssLooselyCoupledOptions
  gnss_tightly_coupled :: GnssTightlyCoupledOptions

text \<open>
  The per-sensor blocks all have the shape of an \<open>enabled\<close> flag and the model's options.
\<close>

record 'o SensorConfig =
  sc_enabled :: bool
  sc_options :: 'o

record MerweSigmaParams =
  mer_alpha :: real
  mer_beta :: real
  mer_kappa :: real

record NavigationSystemConfig =
  cfg_imu_noise :: ImuNoiseModel
  cfg_gnss :: GnssSensorConfig
  cfg_barometer :: "BarometerOptions SensorConfig"
  cfg_magnetometer :: "MagnetometerOptions SensorConfig"
  cfg_star_tracker :: "StarTrackerOptions SensorConfig"
  cfg_wheel_odometry :: "WheelOdometryOptions SensorConfig"
  cfg_radar_altimeter :: "RadarAltimeterOptions SensorConfig"
  cfg_range_finder :: "RangeFinderOptions SensorConfig"
  cfg_optical_flow :: "OpticalFlowOptions SensorConfig"
  cfg_dvl :: "DvlOptions SensorConfig"
  cfg_echo_sounder :: "EchoSounderOptions SensorConfig"
  cfg_airspeed :: "AirspeedOptions SensorConfig"
  cfg_external_pose :: "ExternalPoseOptions SensorConfig"
  cfg_external_velocity :: "ExternalVelocityOptions SensorConfig"
  cfg_external_odometry :: "ExternalOdometryOptions SensorConfig"
  cfg_aiding_solution :: "AidingSolutionOptions SensorConfig"
  cfg_backend :: EstimatorBackendChoice
  cfg_ukf_sigma_params :: MerweSigmaParams
  cfg_dead_reckoning_threshold_s :: real
  cfg_min_imu_dt_s :: real
  cfg_max_imu_dt_s :: real

definition disabled :: "'o \<Rightarrow> 'o SensorConfig" where
  "disabled o_default = \<lparr>sc_enabled = False, sc_options = o_default\<rparr>"

definition MerweSigmaParams_default :: MerweSigmaParams where
  "MerweSigmaParams_default = \<lparr>mer_alpha = 0.001, mer_beta = 2, mer_kappa = 0\<rparr>"

definition NavigationSystemConfig_default :: NavigationSystemConfig where
  "NavigationSystemConfig_default =
     \<lparr>cfg_imu_noise = ImuNoiseModel_default,
      cfg_gnss = \<lparr>gnss_enabled = False, gnss_mode = LooselyCoupled,
        gnss_loosely_coupled = GnssLooselyCoupledOptions_default,
        gnss_tightly_coupled = GnssTightlyCoupledOptions_default\<rparr>,
      cfg_barometer = disabled BarometerOptions_default,
      cfg_magnetometer = disabled MagnetometerOptions_default,
      cfg_star_tracker = disabled StarTrackerOptions_default,
      cfg_wheel_odometry = disabled WheelOdometryOptions_default,
      cfg_radar_altimeter = disabled RadarAltimeterOptions_default,
      cfg_range_finder = disabled RangeFinderOptions_default,
      cfg_optical_flow = disabled OpticalFlowOptions_default,
      cfg_dvl = disabled DvlOptions_default,
      cfg_echo_sounder = disabled EchoSounderOptions_default,
      cfg_airspeed = disabled AirspeedOptions_default,
      cfg_external_pose = disabled ExternalPoseOptions_default,
      cfg_external_velocity = disabled ExternalVelocityOptions_default,
      cfg_external_odometry = disabled ExternalOdometryOptions_default,
      cfg_aiding_solution = disabled AidingSolutionOptions_default,
      cfg_backend = Choice_Ekf, cfg_ukf_sigma_params = MerweSigmaParams_default,
      cfg_dead_reckoning_threshold_s = 5, cfg_min_imu_dt_s = 1 / 10 ^ 6, cfg_max_imu_dt_s = 0.05\<rparr>"

section \<open>The EKF factory\<close>

definition tightly_coupled_gnss :: "NavigationSystemConfig \<Rightarrow> bool" where
  "tightly_coupled_gnss c \<longleftrightarrow> gnss_enabled (cfg_gnss c) \<and> gnss_mode (cfg_gnss c) = TightlyCoupled"

definition ekf_options :: "NavigationSystemConfig \<Rightarrow> EkfOptions" where
  "ekf_options c = EkfOptions_default
     \<lparr>imu_noise := cfg_imu_noise c,
      dead_reckoning_threshold_s := cfg_dead_reckoning_threshold_s c,
      min_imu_dt_s := cfg_min_imu_dt_s c, max_imu_dt_s := cfg_max_imu_dt_s c,
      enable_gnss_clock_state := tightly_coupled_gnss c\<rparr>"

definition if_enabled :: "('o \<Rightarrow> IMeasurementModel) \<Rightarrow> 'o SensorConfig \<Rightarrow> IMeasurementModel list" where
  "if_enabled mk sc = (if sc_enabled sc then [mk (sc_options sc)] else [])"

definition ekf_models :: "eigen_ops \<Rightarrow> NavigationSystemConfig \<Rightarrow> IMeasurementModel list" where
  "ekf_models E c =
     (if gnss_enabled (cfg_gnss c)
      then (if gnss_mode (cfg_gnss c) = LooselyCoupled
            then [GnssLooselyCoupled E (gnss_loosely_coupled (cfg_gnss c))]
            else [GnssTightlyCoupled E (gnss_tightly_coupled (cfg_gnss c))])
      else []) @
     if_enabled (Barometer E) (cfg_barometer c) @
     if_enabled (Magnetometer E) (cfg_magnetometer c) @
     if_enabled (WheelOdometry E) (cfg_wheel_odometry c) @
     if_enabled (Airspeed E) (cfg_airspeed c) @
     if_enabled (OpticalFlow E) (cfg_optical_flow c) @
     if_enabled (RadarAltimeter E) (cfg_radar_altimeter c) @
     if_enabled (RangeFinder E) (cfg_range_finder c) @
     if_enabled (Dvl E) (cfg_dvl c) @
     if_enabled (EchoSounder E) (cfg_echo_sounder c) @
     if_enabled (ExternalPose E) (cfg_external_pose c) @
     if_enabled (ExternalVelocity E) (cfg_external_velocity c) @
     if_enabled (ExternalOdometry E) (cfg_external_odometry c) @
     if_enabled (AidingSolution E) (cfg_aiding_solution c) @
     if_enabled (StarTracker E) (cfg_star_tracker c)"

definition BuildEkfEstimator :: "eigen_ops \<Rightarrow> NavigationSystemConfig \<Rightarrow> EkfEstimator option" where
  "BuildEkfEstimator E c =
     (case EkfEstimator_new (ekf_options c) of
        None \<Rightarrow> None
      | Some est \<Rightarrow> Some (foldl RegisterMeasurementModel est (ekf_models E c)))"

lemma foldl_register:
  "foldl RegisterMeasurementModel k ms = k\<lparr>measurement_models := measurement_models k @ ms\<rparr>"
  by (induction ms arbitrary: k) (simp_all add: RegisterMeasurementModel_def)

text \<open>The DVL mounting rotation is a \<open>Matrix3d\<close>: its dimensions are fixed by its C++ type.\<close>

definition config_typed :: "NavigationSystemConfig \<Rightarrow> bool" where
  "config_typed c \<longleftrightarrow> square 3 (dvo_dvl_to_body_rotation (sc_options (cfg_dvl c)))"

lemma if_enabled_ball:
  "(\<forall>mdl\<in>set (if_enabled mk sc). P mdl) \<longleftrightarrow> (sc_enabled sc \<longrightarrow> P (mk (sc_options sc)))"
  by (simp add: if_enabled_def)

lemmas concrete_models_ok =
  GnssLooselyCoupled_ok Barometer_ok Magnetometer_ok WheelOdometry_ok Airspeed_ok OpticalFlow_ok
  RadarAltimeter_ok RangeFinder_ok EchoSounder_ok ExternalPose_ok ExternalVelocity_ok
  ExternalOdometry_ok AidingSolution_ok StarTracker_ok

lemma ekf_models_ok:
  assumes E: "eigen_algebra E" "eigen_shapes E" and c: "config_typed c"
  shows "\<forall>mdl\<in>set (ekf_models E c). model_ok (\<not> tightly_coupled_gnss c) mdl"
proof -
  have weaken: "model_ok True x \<Longrightarrow> model_ok b x" for b x
    by (cases b) (auto intro: model_ok_weaken)
  note clean = concrete_models_ok [OF E, THEN weaken]
  have dvl: "model_ok b (Dvl E (sc_options (cfg_dvl c)))" for b
    using c by (auto simp: config_typed_def intro: weaken [OF Dvl_ok [OF E]])
  have gnss: "\<forall>mdl\<in>set (if gnss_enabled (cfg_gnss c)
      then (if gnss_mode (cfg_gnss c) = LooselyCoupled
            then [GnssLooselyCoupled E (gnss_loosely_coupled (cfg_gnss c))]
            else [GnssTightlyCoupled E (gnss_tightly_coupled (cfg_gnss c))])
      else []). model_ok (\<not> tightly_coupled_gnss c) mdl"
    using clean(1) GnssTightlyCoupled_ok [OF E(1)]
    by (cases "gnss_mode (cfg_gnss c)") (auto simp: tightly_coupled_gnss_def)
  show ?thesis
    unfolding ekf_models_def set_append ball_Un if_enabled_ball
    using gnss clean dvl by simp
qed

text \<open>Each registered model handles one variant, and no two the same one.\<close>

fun variant :: "SensorMeasurement \<Rightarrow> nat" where
  "variant (M_Imu _) = 0"
| "variant (M_Magnetometer _) = 1"
| "variant (M_Barometer _) = 2"
| "variant (M_RadarAltimeter _) = 3"
| "variant (M_WheelEncoder _) = 4"
| "variant (M_WheelOdometry _) = 5"
| "variant (M_Airspeed _) = 6"
| "variant (M_RangeFinder _) = 7"
| "variant (M_OpticalFlow _) = 8"
| "variant (M_Dvl _) = 9"
| "variant (M_EchoSounder _) = 10"
| "variant (M_ExternalPose _) = 11"
| "variant (M_ExternalVelocity _) = 12"
| "variant (M_ExternalOdometry _) = 13"
| "variant (M_GnssObservation _) = 14"
| "variant (M_GnssSolution _) = 15"
| "variant (M_CameraFrame _) = 16"
| "variant (M_GeoReferenceImage _) = 17"
| "variant (M_AidingSolution _) = 18"
| "variant (M_StarTracker _) = 19"
| "variant (M_GnssTightlyCoupled _) = 20"

lemma CanHandle_variant:
  "model_CanHandle (GnssLooselyCoupled E o1) m \<longleftrightarrow> variant m = 15"
  "model_CanHandle (GnssTightlyCoupled E o2) m \<longleftrightarrow> variant m = 20"
  "model_CanHandle (Barometer E o3) m \<longleftrightarrow> variant m = 2"
  "model_CanHandle (Magnetometer E o4) m \<longleftrightarrow> variant m = 1"
  "model_CanHandle (WheelOdometry E o5) m \<longleftrightarrow> variant m = 5"
  "model_CanHandle (Airspeed E o6) m \<longleftrightarrow> variant m = 6"
  "model_CanHandle (OpticalFlow E o7) m \<longleftrightarrow> variant m = 8"
  "model_CanHandle (RadarAltimeter E o8) m \<longleftrightarrow> variant m = 3"
  "model_CanHandle (RangeFinder E o9) m \<longleftrightarrow> variant m = 7"
  "model_CanHandle (Dvl E o10) m \<longleftrightarrow> variant m = 9"
  "model_CanHandle (EchoSounder E o11) m \<longleftrightarrow> variant m = 10"
  "model_CanHandle (ExternalPose E o12) m \<longleftrightarrow> variant m = 11"
  "model_CanHandle (ExternalVelocity E o13) m \<longleftrightarrow> variant m = 12"
  "model_CanHandle (ExternalOdometry E o14) m \<longleftrightarrow> variant m = 13"
  "model_CanHandle (AidingSolution E o15) m \<longleftrightarrow> variant m = 18"
  "model_CanHandle (StarTracker E o16) m \<longleftrightarrow> variant m = 19"
  by (cases m; simp add: GnssLooselyCoupled_def GnssTightlyCoupled_def Barometer_def
      Magnetometer_def WheelOdometry_def Airspeed_def OpticalFlow_def RadarAltimeter_def
      RangeFinder_def Dvl_def EchoSounder_def ExternalPose_def ExternalVelocity_def
      ExternalOdometry_def AidingSolution_def StarTracker_def)+

lemma if_enabled_filter:
  "filter P (if_enabled mk sc) = (if sc_enabled sc \<and> P (mk (sc_options sc)) then [mk (sc_options sc)] else [])"
  by (simp add: if_enabled_def)

text \<open>
  Dispatch is unambiguous: of the models the factory registers, at most one can handle any
  measurement, so the registration order never decides which model processes it.
\<close>

theorem ekf_models_unambiguous:
  "length (filter (\<lambda>mdl. model_CanHandle mdl m) (ekf_models E c)) \<le> 1"
  by (cases m) (simp_all add: ekf_models_def if_enabled_filter CanHandle_variant)

section \<open>The built estimator\<close>

lemma BuildEkfEstimator_parts:
  assumes "BuildEkfEstimator E c = Some k"
  obtains est where "EkfEstimator_new (ekf_options c) = Some est"
    "k = est\<lparr>measurement_models := ekf_models E c\<rparr>" "options k = ekf_options c" "\<not> initialised k"
    "measurement_models k = ekf_models E c" "error_zero k"
proof -
  from assms obtain est where est: "EkfEstimator_new (ekf_options c) = Some est"
    by (auto simp: BuildEkfEstimator_def split: option.splits)
  then have new: "measurement_models est = []" "options est = ekf_options c" "\<not> initialised est"
    "error_state (state est) = ZeroVector (layout (state est))"
    by (auto simp: EkfEstimator_new_def split: option.splits)
  have "k = est\<lparr>measurement_models := ekf_models E c\<rparr>"
    using assms est new(1) by (simp add: BuildEkfEstimator_def foldl_register)
  with est new that show thesis by (simp add: error_zero_def)
qed

lemma BuildEkfEstimator_good:
  assumes E: "eigen_algebra E" "eigen_shapes E" and c: "config_typed c" and k: "BuildEkfEstimator E c = Some k"
  shows "ekf_ok k" "\<not> initialised k" "options k = ekf_options c" "measurement_models k = ekf_models E c"
    "error_zero k" "\<not> tightly_coupled_gnss c \<Longrightarrow> models_clean k"
proof -
  from BuildEkfEstimator_parts [OF k] obtain est where
    est: "EkfEstimator_new (ekf_options c) = Some est" "k = est\<lparr>measurement_models := ekf_models E c\<rparr>"
    and parts: "options k = ekf_options c" "\<not> initialised k" "measurement_models k = ekf_models E c"
      "error_zero k" by metis
  show "options k = ekf_options c" "\<not> initialised k" "measurement_models k = ekf_models E c"
    "error_zero k" by (fact parts)+
  show "\<not> tightly_coupled_gnss c \<Longrightarrow> models_clean k"
    using ekf_models_ok [OF E c] parts(3) by (simp add: models_clean_def)
  show "ekf_ok k"
    using ekf_ok_new [OF est(1)] ekf_models_ok [OF E c] model_ok_weaken est(2)
    by (auto simp: ekf_ok_def)
qed

section \<open>Sequences of measurements\<close>

fun Ekf_AddMeasurements ::
  "eigen_ops \<Rightarrow> EkfEstimator \<Rightarrow> SensorMeasurement list \<Rightarrow>
     (cpp_exception + (MeasurementUpdateReport list \<times> EkfEstimator)) option" where
  "Ekf_AddMeasurements E k [] = Some (Inr ([], k))"
| "Ekf_AddMeasurements E k (m # ms) =
     (case Ekf_AddMeasurement E k m of
        None \<Rightarrow> None
      | Some (Inl e) \<Rightarrow> Some (Inl e)
      | Some (Inr (rep, k')) \<Rightarrow>
          (case Ekf_AddMeasurements E k' ms of
             None \<Rightarrow> None
           | Some (Inl e) \<Rightarrow> Some (Inl e)
           | Some (Inr (reps, k'')) \<Rightarrow> Some (Inr (rep # reps, k''))))"

lemma Ekf_AddMeasurements_ok:
  assumes E: "eigen_algebra E" "eigen_shapes E"
    and "ekf_ok k" "0 < max_imu_dt_s (options k)" "\<forall>m\<in>set ms. covariances_ok m"
  shows "\<exists>reps k'. Ekf_AddMeasurements E k ms = Some (Inr (reps, k')) \<and> ekf_ok k' \<and>
    length reps = length ms \<and> options k' = options k \<and>
    (models_clean k \<and> error_zero k \<longrightarrow> error_zero k') \<and>
    (initialised k' \<longleftrightarrow> initialised k \<or> (\<exists>i<length ms. is_gnss_solution (ms ! i) \<and> result (reps ! i) = Accepted))"
  using assms(3-)
proof (induction ms arbitrary: k)
  case (Cons m ms)
  from Ekf_AddMeasurement_ok [OF E Cons.prems(1) _ Cons.prems(2), of m] Cons.prems(3) obtain rep k1 where
    k1: "Ekf_AddMeasurement E k m = Some (Inr (rep, k1))" "add_post k m rep k1" by auto
  then have k1': "ekf_ok k1" "options k1 = options k" "measurement_models k1 = measurement_models k"
    by (auto simp: add_post_def)
  from Cons.IH [OF k1'(1)] k1'(2) Cons.prems(2,3) obtain reps k2 where
    k2: "Ekf_AddMeasurements E k1 ms = Some (Inr (reps, k2))" "ekf_ok k2" "length reps = length ms"
      "options k2 = options k" "models_clean k1 \<and> error_zero k1 \<longrightarrow> error_zero k2"
      "initialised k2 \<longleftrightarrow> initialised k1 \<or> (\<exists>i<length ms. is_gnss_solution (ms ! i) \<and> result (reps ! i) = Accepted)"
    by auto
  have init: "initialised k1 \<longleftrightarrow> initialised k \<or> (is_gnss_solution m \<and> result rep = Accepted)"
    using k1(2) by (cases m) (auto simp: add_post_def)
  have clean: "models_clean k1 = models_clean k" using k1'(3) by (simp add: models_clean_def)
  have zero: "models_clean k \<and> error_zero k \<longrightarrow> error_zero k1" using k1(2) by (simp add: add_post_def)
  have index: "(\<exists>i<length (m # ms). is_gnss_solution ((m # ms) ! i) \<and> result ((rep # reps) ! i) = Accepted)
      \<longleftrightarrow> (is_gnss_solution m \<and> result rep = Accepted) \<or>
        (\<exists>i<length ms. is_gnss_solution (ms ! i) \<and> result (reps ! i) = Accepted)"
    by (auto simp: less_Suc_eq_0_disj)
  have run: "Ekf_AddMeasurements E k (m # ms) = Some (Inr (rep # reps, k2))"
    using k1(1) k2(1) by simp
  show ?case
    unfolding index
    using run k2(2-6) init clean zero k1'(2)
    by (intro exI [of _ "rep # reps"] exI [of _ k2]) (simp only: index, auto)
qed simp

lemma BuildEkfEstimator_defined: "\<exists>k. BuildEkfEstimator E c = Some k"
  using EkfEstimator_new_defined [of "ekf_options c"] by (auto simp: BuildEkfEstimator_def)

text \<open>
  C1. The EKF is safe on every input: with a typed configuration and a positive largest IMU step, fed any
  sequence of measurements whose covariance blocks are covariances, the estimator the factory builds returns
  from every call without an exception, reports once per measurement, keeps its covariance symmetric positive
  semidefinite of the layout's dimension, and is initialised exactly when some GNSS solution
  was accepted.
\<close>

theorem ekf_run_safe:
  assumes "eigen_algebra E" "eigen_shapes E" "config_typed c" "0 < cfg_max_imu_dt_s c"
    and "BuildEkfEstimator E c = Some k" "\<forall>m\<in>set ms. covariances_ok m"
  shows "\<exists>reps k'. Ekf_AddMeasurements E k ms = Some (Inr (reps, k')) \<and> length reps = length ms \<and>
    covariance_ok (total_size (layout (state k'))) (covariance (state k')) \<and>
    total_size (layout (state k')) = (if tightly_coupled_gnss c then 17 else 15) \<and>
    (initialised k' \<longleftrightarrow> (\<exists>i<length ms. is_gnss_solution (ms ! i) \<and> result (reps ! i) = Accepted))"
proof -
  note good = BuildEkfEstimator_good [OF assms(1-3,5)]
  have "0 < max_imu_dt_s (options k)" using assms(4) good(3) by (simp add: ekf_options_def)
  from Ekf_AddMeasurements_ok [OF assms(1,2) good(1) this assms(6)] obtain reps k' where
    r: "Ekf_AddMeasurements E k ms = Some (Inr (reps, k'))" "ekf_ok k'" "length reps = length ms"
      "options k' = options k"
      "initialised k' \<longleftrightarrow> initialised k \<or> (\<exists>i<length ms. is_gnss_solution (ms ! i) \<and> result (reps ! i) = Accepted)"
    by blast
  have "BuildLayout (ekf_options c) = Some (layout (state k'))"
    using r(2,4) good(3) by (simp add: ekf_ok_def)
  then have "total_size (layout (state k')) = (if tightly_coupled_gnss c then 17 else 15)"
    using BuildLayout_with_ok [of "tightly_coupled_gnss c" False]
    by (auto simp: BuildLayout_def ekf_options_def EkfOptions_default_def)
  with r good(2) show ?thesis by (auto simp: ekf_ok_def ekf_state_ok_def)
qed

definition demo_config :: NavigationSystemConfig where
  "demo_config = NavigationSystemConfig_default
     \<lparr>cfg_gnss := (cfg_gnss NavigationSystemConfig_default)\<lparr>gnss_enabled := True\<rparr>\<rparr>"

definition demo_inputs :: "SensorMeasurement list" where
  "demo_inputs = [M_Imu ImuMeasurement_default,
     M_GnssSolution (GnssSolution_default\<lparr>gnss_fix_type := Single\<rparr>),
     M_Magnetometer MagnetometerMeasurement_default]"

lemma demo_facts:
  "config_typed demo_config" "0 < cfg_max_imu_dt_s demo_config" "\<not> tightly_coupled_gnss demo_config"
  "\<forall>m\<in>set demo_inputs. covariances_ok m"
  by (simp_all add: config_typed_def demo_config_def NavigationSystemConfig_default_def disabled_def
      DvlOptions_default_def square_def tightly_coupled_gnss_def demo_inputs_def
      GnssSolution_default_def covariance_ok_Zero)

theorem ekf_run_safe_witness:
  "\<exists>k reps k'. BuildEkfEstimator eigen_reference demo_config = Some k \<and>
    Ekf_AddMeasurements eigen_reference k demo_inputs = Some (Inr (reps, k')) \<and>
    length reps = length demo_inputs \<and>
    covariance_ok (total_size (layout (state k'))) (covariance (state k')) \<and>
    total_size (layout (state k')) = (if tightly_coupled_gnss demo_config then 17 else 15) \<and>
    (initialised k' \<longleftrightarrow>
      (\<exists>i<length demo_inputs. is_gnss_solution (demo_inputs ! i) \<and> result (reps ! i) = Accepted))"
proof -
  obtain k where k: "BuildEkfEstimator eigen_reference demo_config = Some k"
    using BuildEkfEstimator_defined by blast
  with ekf_run_safe [OF eigen_reference_laws demo_facts(1,2) k demo_facts(4)] show ?thesis by blast
qed

text \<open>
  C5. Without tightly coupled GNSS the error state is zero between calls: every accepted
  correction has been folded into the nominal state, and every rejected measurement has
  changed nothing but the IMU propagation.
\<close>

theorem ekf_error_state_zero:
  assumes "eigen_algebra E" "eigen_shapes E" "config_typed c" "0 < cfg_max_imu_dt_s c"
    and "BuildEkfEstimator E c = Some k" "\<forall>m\<in>set ms. covariances_ok m" "\<not> tightly_coupled_gnss c"
    and "Ekf_AddMeasurements E k ms = Some (Inr (reps, k'))"
  shows "error_state (state k') = ZeroVector (layout (state k'))"
proof -
  note good = BuildEkfEstimator_good [OF assms(1-3,5)]
  have "0 < max_imu_dt_s (options k)" using assms(4) good(3) by (simp add: ekf_options_def)
  from Ekf_AddMeasurements_ok [OF assms(1,2) good(1) this assms(6)] good(5) good(6) [OF assms(7)] assms(8)
  show ?thesis by (auto simp: error_zero_def)
qed

theorem ekf_error_state_zero_witness:
  "\<exists>k reps k'. BuildEkfEstimator eigen_reference demo_config = Some k \<and>
    Ekf_AddMeasurements eigen_reference k demo_inputs = Some (Inr (reps, k')) \<and>
    error_state (state k') = ZeroVector (layout (state k'))"
proof -
  obtain k where k: "BuildEkfEstimator eigen_reference demo_config = Some k"
    using BuildEkfEstimator_defined by blast
  note good = BuildEkfEstimator_good [OF eigen_reference_laws demo_facts(1) k]
  have "0 < max_imu_dt_s (options k)" using demo_facts(2) good(3) by (simp add: ekf_options_def)
  with Ekf_AddMeasurements_ok [OF eigen_reference_laws good(1) _ demo_facts(4)] obtain reps k' where
    r: "Ekf_AddMeasurements eigen_reference k demo_inputs = Some (Inr (reps, k'))" by blast
  with k ekf_error_state_zero [OF eigen_reference_laws demo_facts(1,2) k demo_facts(4,3) r]
  show ?thesis by blast
qed

section \<open>The estimator behind the pipeline\<close>

text \<open>
  The virtual functions the pipeline calls. A call that throws on the worker thread does not
  return to the loop.
\<close>

definition ekf_ops :: "eigen_ops \<Rightarrow> EkfEstimator estimator_ops" where
  "ekf_ops E =
     \<lparr>add_measurement = (\<lambda>k m. case Ekf_AddMeasurement E k m of
          Some (Inr (rep, k')) \<Rightarrow> Some (rep, k') | _ \<Rightarrow> None),
      latest_state = (\<lambda>k. case Ekf_LatestState E k of Inr st \<Rightarrow> st | Inl _ \<Rightarrow> None),
      reset_estimator = (\<lambda>k. case Ekf_Reset k of Some k' \<Rightarrow> k' | None \<Rightarrow> k),
      is_initialized = Ekf_IsInitialized\<rparr>"

definition ekf_good :: "eigen_ops \<Rightarrow> EkfEstimator \<Rightarrow> bool" where
  "ekf_good E k \<longleftrightarrow> eigen_algebra E \<and> eigen_shapes E \<and> ekf_ok k \<and> 0 < max_imu_dt_s (options k)"

lemma ekf_ops_add:
  assumes "ekf_good E k" "covariances_ok m"
  obtains rep k' where "add_measurement (ekf_ops E) k m = Some (rep, k')" "add_post k m rep k'"
    "ekf_good E k'"
proof -
  from assms Ekf_AddMeasurement_ok [of E k m] obtain rep k' where
    "Ekf_AddMeasurement E k m = Some (Inr (rep, k'))" "add_post k m rep k'"
    unfolding ekf_good_def by blast
  moreover from this assms(1) have "ekf_good E k'" by (simp add: add_post_def ekf_good_def)
  ultimately show thesis using that by (simp add: ekf_ops_def)
qed

lemma ekf_ops_post:
  assumes "ekf_good E k" "covariances_ok m" "add_measurement (ekf_ops E) k m = Some (rep, k')"
  shows "add_post k m rep k'"
  using ekf_ops_add [OF assms(1,2)] assms(3) by (metis option.inject prod.inject)

lemma Ekf_LatestState_ok:
  assumes "ekf_ok k"
  shows "\<exists>st. Ekf_LatestState E k = Inr st \<and> (st \<noteq> None \<longleftrightarrow> initialised k)"
  using assms
  by (auto simp: Ekf_LatestState_def BuildNavigationState_def Let_def ekf_ok_def ekf_state_ok_def)

interpretation ekf: navigation_estimator "ekf_ops E" "ekf_good E" covariances_ok
  for E :: eigen_ops
proof
  fix k m rep k'
  assume k: "ekf_good E k" and m: "covariances_ok m"
  show "\<exists>rep k'. add_measurement (ekf_ops E) k m = Some (rep, k') \<and> ekf_good E k'"
    using ekf_ops_add [OF k m] by metis
  assume add: "add_measurement (ekf_ops E) k m = Some (rep, k')"
  note post = ekf_ops_post [OF k m add]
  show "is_imu m \<Longrightarrow> result rep \<noteq> Accepted" using post by (auto simp: add_post_def)
  show "is_initialized (ekf_ops E) k \<Longrightarrow> is_initialized (ekf_ops E) k'"
    using post by (simp add: add_post_def ekf_ops_def Ekf_IsInitialized_def)
  show "\<not> is_initialized (ekf_ops E) k \<Longrightarrow>
      (is_initialized (ekf_ops E) k' \<longleftrightarrow> result rep = Accepted) \<and>
      (result rep = Accepted \<longrightarrow> is_gnss_solution m)"
    using post by (cases m) (auto simp: add_post_def ekf_ops_def Ekf_IsInitialized_def)
next
  fix k assume k: "ekf_good E k"
  then have "ekf_ok k" by (simp add: ekf_good_def)
  from Ekf_LatestState_ok [OF this, of E]
  show "(latest_state (ekf_ops E) k \<noteq> None) = is_initialized (ekf_ops E) k"
    by (auto simp: ekf_ops_def Ekf_IsInitialized_def)
  from ekf_ok_reset [OF \<open>ekf_ok k\<close>] k
  show "ekf_good E (reset_estimator (ekf_ops E) k) \<and>
      \<not> is_initialized (ekf_ops E) (reset_estimator (ekf_ops E) k)"
    by (auto simp: ekf_ops_def Ekf_IsInitialized_def ekf_good_def)
qed

end
