(* ===== verification/Fg_EkfScenarios.thy ===== *)
theory Fg_EkfScenarios
  imports Fg_System
begin

text \<open>
  Scenarios in which the EKF of the factory departs from its documentation: a configuration under which
  the engine never returns, and a rejected tightly coupled epoch that changes the filter.
\<close>

definition demo_fix :: SensorMeasurement where
  "demo_fix = M_GnssSolution (GnssSolution_default\<lparr>gnss_fix_type := Single\<rparr>)"

lemma demo_fix_facts [simp]:
  "covariances_ok demo_fix" "is_gnss_solution demo_fix"
  by (simp_all add: demo_fix_def GnssSolution_default_def covariance_ok_Zero)

section \<open>The first fix\<close>

lemma Ekf_AddMeasurement_first_fix:
  assumes "eigen_algebra E" "ekf_ok k" "\<not> initialised k" "gnss_usable g" "covariances_ok (M_GnssSolution g)"
  obtains rep k' where "Ekf_AddMeasurement E k (M_GnssSolution g) = Some (Inr (rep, k'))"
    "result rep = Accepted" "TryInitialiseFromGnss E k g = Inr (True, k')" "ekf_ok k'" "initialised k'"
    "options k' = options k" "measurement_models k' = measurement_models k"
    "imu_buffer k' = imu_buffer k" "nom_timestamp (nominal (state k')) = gnss_timestamp g"
proof -
  from TryInitialiseFromGnss_ok [OF assms(1,2,5)] assms(4) obtain k' where
    "TryInitialiseFromGnss E k g = Inr (True, k')" "ekf_ok k'" "initialised k'" "options k' = options k"
    "measurement_models k' = measurement_models k" "imu_buffer k' = imu_buffer k"
    "nom_timestamp (nominal (state k')) = gnss_timestamp g" by auto
  with assms(3) that show thesis by (simp add: Ekf_AddMeasurement_def)
qed

section \<open>A configuration under which the engine hangs\<close>

lemma BuildEkfEstimator_buffer:
  assumes "BuildEkfEstimator E c = Some k"
  shows "imu_buffer k = TimeOrderedBuffer_new 2000 True"
proof -
  from BuildEkfEstimator_parts [OF assms] obtain est where
    "EkfEstimator_new (ekf_options c) = Some est" "k = est\<lparr>measurement_models := ekf_models E c\<rparr>" .
  then show ?thesis by (auto simp: EkfEstimator_new_def split: option.splits)
qed

lemma split_loop_hang:
  assumes "max_imu_dt_s opts \<le> 0" "standard_layout (layout s)"
    and "has_steady (nom_timestamp (nominal s))" "has_steady (imu_timestamp imu)"
    and "TimeDifference (imu_timestamp imu) (nom_timestamp (nominal s)) = Some dt"
    and "0 < seconds dt" "min_imu_dt_s opts \<le> seconds dt"
  shows "propagate_batch E opts s (imu # batch) = None"
  using assms split_loop_diverges [OF assms(1,6,2)] by simp

text \<open>
  C6. With \<open>max_imu_dt_s\<close> zero or negative, which the configuration accepts, the engine hangs:
  after a valid first fix and an IMU sample later by at least \<open>min_imu_dt_s\<close>, the next measurement that is
  not an IMU sample, at or after the time of that sample, never returns. All three carry steady-clock times.
\<close>

theorem ekf_zero_step_hangs:
  assumes "eigen_algebra E" "eigen_shapes E" "config_typed c" "cfg_max_imu_dt_s c \<le> 0"
    and "BuildEkfEstimator E c = Some k" "covariances_ok (M_GnssSolution g)"
    and "gnss_fix_type g \<noteq> NoFix" "gnss_validity g = Valid" "\<not> is_imu m"
    and "has_steady (gnss_timestamp g)" "has_steady (imu_timestamp imu)" "has_steady (GetTimestamp m)"
    and "TimeDifference (imu_timestamp imu) (gnss_timestamp g) = Some dt"
    and "0 < seconds dt" "cfg_min_imu_dt_s c \<le> seconds dt"
    and "\<not> IsAfter (imu_timestamp imu) (GetTimestamp m)"
  shows "Ekf_AddMeasurements E k [M_GnssSolution g, M_Imu imu, m] = None"
proof -
  note good = BuildEkfEstimator_good [OF assms(1-3,5)]
  note buf = BuildEkfEstimator_buffer [OF assms(5)]
  have "gnss_usable g" using assms(7,8) by (simp add: gnss_usable_def)
  from Ekf_AddMeasurement_first_fix [OF assms(1) good(1,2) this assms(6)] obtain rep k1 where
    k1: "Ekf_AddMeasurement E k (M_GnssSolution g) = Some (Inr (rep, k1))" "ekf_ok k1" "initialised k1"
      "options k1 = options k" "imu_buffer k1 = imu_buffer k"
      "nom_timestamp (nominal (state k1)) = gnss_timestamp g" by metis
  define k2 where "k2 = k1\<lparr>imu_buffer := (imu_buffer k1)\<lparr>measurements := [imu]\<rparr>\<rparr>"
  have k2: "Ekf_AddMeasurement E k1 (M_Imu imu) = Some (Inr (report Buffered, k2))"
    using k1(5) buf by (simp add: Ekf_AddMeasurement_def Insert_def k2_def TimeOrderedBuffer_new_def)
  have cmp: "CompareTimestamps (imu_timestamp imu) (GetTimestamp m) \<in> {Before, Equal}"
    using assms(11,12,16) by (auto simp: IsAfter_def CompareTimestamps_def)
  have "propagate_batch E (options k2) (state k2) [imu] = None"
    using assms(4,10,11,13,14,15) k1(2,4,6) good(3)
    by (intro split_loop_hang) (simp_all add: k2_def ekf_options_def ekf_ok_def ekf_state_ok_def)
  then have "PropagateTo E k2 (GetTimestamp m) = None"
    using cmp by (auto simp: PropagateTo_def PopUntil_def should_pop_def k2_def)
  then have "Ekf_AddMeasurement E k2 m = None"
    using assms(9) k1(3) by (cases m) (simp_all add: Ekf_AddMeasurement_def k2_def)
  with k1(1) k2 show ?thesis by simp
qed

definition zero_step_config :: NavigationSystemConfig where
  "zero_step_config = demo_config\<lparr>cfg_max_imu_dt_s := 0\<rparr>"

theorem ekf_zero_step_hangs_witness:
  "\<exists>k. BuildEkfEstimator eigen_reference zero_step_config = Some k \<and>
    Ekf_AddMeasurements eigen_reference k
      [M_GnssSolution (GnssSolution_default\<lparr>gnss_fix_type := Single, gnss_timestamp := steady_at 0\<rparr>),
       M_Imu (ImuMeasurement_default\<lparr>imu_timestamp := steady_at 1000000000\<rparr>),
       M_Barometer (BarometerMeasurement_default\<lparr>baro_timestamp := steady_at 1000000000\<rparr>)] = None"
proof -
  obtain k where k: "BuildEkfEstimator eigen_reference zero_step_config = Some k"
    using BuildEkfEstimator_defined by blast
  have "config_typed zero_step_config" "cfg_max_imu_dt_s zero_step_config \<le> 0"
    "cfg_min_imu_dt_s zero_step_config \<le> 1"
    using demo_facts(1)
    by (simp_all add: zero_step_config_def config_typed_def demo_config_def NavigationSystemConfig_default_def)
  note hang = ekf_zero_step_hangs [OF eigen_reference_laws this(1,2) k, where dt = "Duration 1000000000"]
  with \<open>cfg_min_imu_dt_s zero_step_config \<le> 1\<close> k show ?thesis
    by (intro exI [of _ k] conjI hang)
       (simp_all add: GnssSolution_default_def ImuMeasurement_default_def BarometerMeasurement_default_def
         covariance_ok_Zero steady_at_def TimeDifference_def MonotonicTime_minus_def seconds_def
         IsAfter_def CompareTimestamps_def)
qed

section \<open>A rejected epoch that changes the filter\<close>

definition tc_config :: NavigationSystemConfig where
  "tc_config = NavigationSystemConfig_default
     \<lparr>cfg_gnss := (cfg_gnss NavigationSystemConfig_default)\<lparr>gnss_enabled := True, gnss_mode := TightlyCoupled\<rparr>\<rparr>"

definition equator_fix :: GnssSolution where
  "equator_fix = GnssSolution_default
     \<lparr>gnss_fix_type := Single, gnss_position_ecef_m := Vec3_xyz 6378137 0 0\<rparr>"

definition one_satellite :: GnssTightlyCoupledEpoch where
  "one_satellite =
     \<lparr>tce_timestamp = Timestamp_default,
      tce_sv_observations =
        [\<lparr>tco_raw = \<lparr>raw_satellite = \<lparr>constellation = Gps, prn = 1\<rparr>, raw_signal = L1,
            raw_pseudorange_m = 20000001, raw_carrier_phase_cycles = None, raw_doppler_hz = None,
            raw_carrier_to_noise_density_dbhz = None, raw_lock_time_s = None, raw_validity = Valid\<rparr>,
          tco_satellite = \<lparr>sv_satellite = \<lparr>constellation = Gps, prn = 1\<rparr>,
            sv_position_ecef_m = Vec3_xyz 26378137 0 0, sv_velocity_ecef_mps = Vec3_zero,
            sv_clock_bias_s = 0, sv_clock_drift_sps = 0, sv_ionospheric_delay_m = 0,
            sv_tropospheric_delay_m = 0, sv_healthy = True\<rparr>\<rparr>],
      tce_validity = Valid\<rparr>"

lemma EcefToLla_equator:
  "EcefToLla (Vec3_xyz 6378137 0 0) = \<lparr>latitude_rad = 0, longitude_rad = 0, altitude_m = 0\<rparr>"
proof -
  have h: "std_hypot 6378137 0 = 6378137" by (simp add: std_hypot_def)
  have t: "0 < x \<Longrightarrow> std_atan2 0 x = 0" for x by (simp add: std_atan2_def)
  have b: "0 < kSemiMinorAxisM" by (rule wgs84_constants)
  have e: "0 < 6378137 - kFirstEccentricitySquared * kSemiMajorAxisM"
    by (simp add: kFirstEccentricitySquared_def kFlattening_def kSemiMajorAxisM_def)
  show ?thesis
    using t [of "6378137 * kSemiMinorAxisM"] t [of 6378137] t [OF e] b
    by (simp add: EcefToLla_def Let_def Vec3_xyz_def Vec3_x_def Vec3_y_def Vec3_z_def h kSemiMajorAxisM_def)
qed

lemma equator_plane:
  "LlaToEcef \<lparr>latitude_rad = 0, longitude_rad = 0, altitude_m = 0\<rparr> = Vec3_xyz 6378137 0 0"
  "EcefToEnuRotation 0 0 = mat_of_rows 3 3 [[0, 1, 0], [0, 0, 1], [1, 0, 0]]"
  by (simp_all add: LlaToEcef_def EcefToEnuRotation_def Let_def kSemiMajorAxisM_def)

lemma set_block_below: "p + mat_rows B \<le> i \<Longrightarrow> coeff (set_block M p q B) i j = coeff M i j"
  by (simp add: set_block_def)

lemma coeff_if: "coeff (if b then X else Y) i j = (if b then coeff X i j else coeff Y i j)"
  by simp

lemma coeff_set_coeff: "coeff (set_coeff M r c x) i j = (if i = r \<and> j = c then x else coeff M i j)"
  by (simp add: set_coeff_def)

lemma initial_covariance_clock_row:
  assumes "eigen_algebra E" "square 3 R" "total_size l = 17" "segments l GnssClock = Some \<lparr>offset = 15, seg_size = 2\<rparr>"
    and "square 3 (gnss_position_covariance_ecef_m2 g)" "square 3 (gnss_velocity_covariance_ecef_m2ps2 g)"
  shows "coeff (initial_covariance E l 0 3 6 9 12 R g) 15 j = (if j = 15 then 10000 else 0)"
proof -
  have rows: "mat_rows (e_scale E c (Matrix_Identity 3)) = 3"
    "square 3 C \<Longrightarrow> mat_rows (e_mul E (e_mul E R C) (e_transpose E R)) = 3" for c C
    using assms(1,2) by (simp_all add: square_def)
  show ?thesis
    using rows(2) [OF assms(5)] rows(2) [OF assms(6)]
    by (simp add: initial_covariance_def assms(3,4) Let_def coeff_set_coeff set_block_below rows(1)
        coeff_if kInitClkBiasSigmaM_def Matrix_Zero_def)
qed

lemma tc_layout:
  assumes "BuildLayout (ekf_options c) = Some l" "tightly_coupled_gnss c"
  shows "total_size l = 17" "segments l GnssClock = Some \<lparr>offset = 15, seg_size = 2\<rparr>" "standard_layout l"
proof -
  show l: "total_size l = 17" "standard_layout l"
    using BuildLayout_with_ok [of True False] assms
    by (auto simp: BuildLayout_def ekf_options_def EkfOptions_default_def)
  have "Layout_Has l GnssClock"
    using BuildLayout_with_ok [of True False] assms
    by (auto simp: BuildLayout_def ekf_options_def EkfOptions_default_def)
  with l(2) show "segments l GnssClock = Some \<lparr>offset = 15, seg_size = 2\<rparr>"
    by (auto simp: standard_layout_def Layout_Has_def)
qed

lemma tc_config_coupled: "tightly_coupled_gnss tc_config"
  by (simp add: tc_config_def tightly_coupled_gnss_def)


abbreviation E0 :: eigen_ops where "E0 \<equiv> eigen_reference"

lemma eigen_reference_ops:
  "e_add E0 A B = MatrixXd (mat_rows A) (mat_cols A) (\<lambda>i j. coeff A i j + coeff B i j)"
  "e_sub E0 A B = MatrixXd (mat_rows A) (mat_cols A) (\<lambda>i j. coeff A i j - coeff B i j)"
  "e_mul E0 A B = MatrixXd (mat_rows A) (mat_cols B) (\<lambda>i j. \<Sum>k<mat_cols A. coeff A i k * coeff B k j)"
  "e_scale E0 c A = MatrixXd (mat_rows A) (mat_cols A) (\<lambda>i j. c * coeff A i j)"
  "e_dot E0 A B = (\<Sum>i<mat_rows A. coeff A i 0 * coeff B i 0)"
  "e_norm E0 A = sqrt (\<Sum>i<mat_rows A. \<Sum>j<mat_cols A. coeff A i j * coeff A i j)"
  by (simp_all add: eigen_reference_def)

lemma EnuToEcef_origin:
  assumes "eigen_algebra E" "square 3 (ecef_to_enu_rotation p)"
  shows "EnuToEcef E p (Vec3_xyz 0 0 0) = origin_ecef_m p"
proof -
  obtain x y z where o: "origin_ecef_m p = Vec3 (Vector3d x y z)"
    by (metis Vec3.exhaust Vector3d.exhaust)
  have rt: "mat_rows (e_transpose E (ecef_to_enu_rotation p)) = 3" "mat_cols (e_transpose E (ecef_to_enu_rotation p)) = 3"
    using assms by (simp_all add: square_def)
  show ?thesis
    using assms(1) rt by (simp add: EnuToEcef_def o v3_def Vec3_xyz_def sum3 vec_def)
qed

lemma one_satellite_update:
  assumes "rcv_position rcv = vec (Vector3d 6378137 0 0)" "rcv_clk_bias_m rcv = 0"
    "rcv_R_enu_to_ecef rcv = e_transpose E0 (EcefToEnuRotation 0 0)" "rcv_n rcv = 17" 
    "rcv_pos_offset rcv = 0" "rcv_clk_offset rcv = 15"
   and P: "covariance_ok 17 P" "\<And>j. coeff P 15 j = (if j = 15 then 10000 else 0)"
   shows "\<exists>dx P'. foldl (satellite_update E0 GnssTightlyCoupledOptions_default rcv) (0, Matrix_Zero 17 1, P) (tce_sv_observations one_satellite)
     = (1, dx, P') \<and> coeff dx 15 0 \<noteq> 0"
proof -
  let ?obs = "hd (tce_sv_observations one_satellite)"
  let ?e = "vec (Vector3d 1 0 0)"
  let ?H = "line_of_sight_row E0 rcv ?e 0 15"
  have diff: "e_sub E0 (vec (eigen (sv_position_ecef_m (tco_satellite ?obs)))) (rcv_position rcv) =
      MatrixXd 3 1 (\<lambda>i j. if i = 0 then 20000000 else 0)"
    using assms(1) by (simp add: one_satellite_def eigen_reference_ops vec_def Vec3_xyz_def fun_eq_iff)
  have norm: "e_norm E0 (MatrixXd 3 1 (\<lambda>i j. if i = 0 then 20000000 else 0)) = 20000000"
    by (simp add: eigen_reference_ops eval_nat_numeral)
  have e: "e_scale E0 (1 / 20000000) (MatrixXd 3 1 (\<lambda>i j. if i = 0 then 20000000 else 0)) = ?e"
    by (simp add: eigen_reference_ops vec_def fun_eq_iff)
  have H: "coeff ?H 15 0 = 1" "mat_rows ?H = 17" "mat_cols ?H = 1"
    using assms(4) by (simp_all add: line_of_sight_row_def coeff_set_coeff)
  have sqP: "mat_rows P = 17" "mat_cols P = 17" using P(1) by (auto simp: covariance_ok_def psd_def square_def)
  have "coeff (e_mul E0 P ?H) 15 0 = (\<Sum>k<17. coeff P 15 k * coeff ?H k 0)"
    using sqP by (simp add: eigen_reference_ops)
  also have "\<dots> = (\<Sum>k<(17::nat). if k = 15 then 10000 else 0)"
    by (rule sum.cong) (simp_all add: P(2) H)
  finally have PH: "coeff (e_mul E0 P ?H) 15 0 = 10000" by simp
  define S where "S = e_dot E0 ?H (e_mul E0 P ?H) + 9"
  have "0 \<le> e_dot E0 ?H (e_mul E0 P ?H)"
  proof -
    have "e_dot E0 ?H (e_mul E0 P ?H) = quad P (\<lambda>i. coeff ?H i 0)"
      using sqP H by (simp add: eigen_reference_ops quad_def sum_distrib_left mult_ac)
    then show ?thesis using P(1) by (simp add: covariance_ok_def psd_def)
  qed
  then have S: "9 \<le> S" by (simp add: S_def)
  have gate: "1 \<le> 3 * sqrt S" using S real_sqrt_le_mono [of 9 S] by simp
  have "\<exists>dx' P'. ScalarUpdate E0 GnssTightlyCoupledOptions_default (Matrix_Zero 17 1) P ?H 1 3 = (True, dx', P') \<and> coeff dx' 15 0 = 10000 / S"
    using S gate PH by (simp add: ScalarUpdate_def Let_def S_def [symmetric] GnssTightlyCoupledOptions_default_def)
      (simp add: eigen_reference_ops Matrix_Zero_def)
  then obtain dx' P' where upd: "ScalarUpdate E0 GnssTightlyCoupledOptions_default (Matrix_Zero 17 1) P ?H 1 3 = (True, dx', P')" "coeff dx' 15 0 = 10000 / S" by blast
  have obs: "tce_sv_observations one_satellite = [?obs]" "raw_validity (tco_raw ?obs) = Valid"
    "sv_healthy (tco_satellite ?obs)" "raw_doppler_hz (tco_raw ?obs) = None"
    by (simp_all add: one_satellite_def)
  have "pseudorange_update E0 GnssTightlyCoupledOptions_default rcv ?obs ?e 20000000 (0, Matrix_Zero 17 1, P) = (1, dx', P')"
    using upd(1) assms(1,2,5,6)
    by (simp add: pseudorange_update_def Let_def one_satellite_def SagnacCorrectionM_def v3_def vec_def
       Vec3_xyz_def pseudorange_sigma_def GnssTightlyCoupledOptions_default_def)
  then have "satellite_update E0 GnssTightlyCoupledOptions_default rcv (0, Matrix_Zero 17 1, P) ?obs = (1, dx', P')"
    using obs by (simp add: satellite_update_def Let_def diff norm e doppler_update_def del: One_nat_def)
  then show ?thesis using upd(2) S by (subst obs(1)) simp
qed


abbreviation tc_model :: IMeasurementModel where
  "tc_model \<equiv> GnssTightlyCoupled E0 GnssTightlyCoupledOptions_default"

abbreviation equator_ltp :: LocalTangentPlane where
  "equator_ltp \<equiv> LocalTangentPlane_new \<lparr>latitude_rad = 0, longitude_rad = 0, altitude_m = 0\<rparr>"

abbreviation accepted_fix :: MeasurementUpdateReport where
  "accepted_fix \<equiv> \<lparr>result = Accepted, model_name = ''GnssLooselyCoupled'', correction_norm = None\<rparr>"

abbreviation rejected_epoch :: MeasurementUpdateReport where
  "rejected_epoch \<equiv> \<lparr>result = Rejected, model_name = ''Unknown'', correction_norm = None\<rparr>"

text \<open>What the fix on the equator leaves in the filter.\<close>

definition equator_state :: "EkfEstimator \<Rightarrow> bool" where
  "equator_state k \<longleftrightarrow>
     ekf_ok k \<and> initialised k \<and> measurement_models k = [tc_model] \<and>
     imu_buffer k = TimeOrderedBuffer_new 2000 True \<and> total_size (layout (state k)) = 17 \<and>
     segments (layout (state k)) GnssClock = Some \<lparr>offset = 15, seg_size = 2\<rparr> \<and>
     error_state (state k) = Matrix_Zero 17 1 \<and> local_tangent_plane k = Some equator_ltp \<and>
     (\<forall>j. coeff (covariance (state k)) 15 j = (if j = 15 then 10000 else 0)) \<and>
     nom_gnss_clock (nominal (state k)) = Some (Vector2d 0 0) \<and>
     nom_position_enu_m (nominal (state k)) = Vec3_xyz 0 0 0"

lemma equator_fix_usable:
  "gnss_fix_type equator_fix \<noteq> NoFix" "gnss_validity equator_fix = Valid" "gnss_usable equator_fix"
  "gnss_position_ecef_m equator_fix = Vec3_xyz 6378137 0 0"
  "square 3 (gnss_position_covariance_ecef_m2 equator_fix)"
  "square 3 (gnss_velocity_covariance_ecef_m2ps2 equator_fix)"
  "covariances_ok (M_GnssSolution equator_fix)"
  by (simp_all add: equator_fix_def GnssSolution_default_def gnss_usable_def square_def covariance_ok_Zero)

lemma equator_fix_state:
  assumes k: "BuildEkfEstimator E0 tc_config = Some k"
  shows "\<exists>k1. Ekf_AddMeasurement E0 k (M_GnssSolution equator_fix) = Some (Inr (accepted_fix, k1)) \<and>
    equator_state k1"
proof -
  have typed: "config_typed tc_config"
    by (simp add: config_typed_def tc_config_def NavigationSystemConfig_default_def disabled_def
        DvlOptions_default_def square_def)
  note good = BuildEkfEstimator_good [OF eigen_reference_laws typed k]
  from TryInitialiseFromGnss_ok [OF eigen_reference_laws(1) good(1) equator_fix_usable(7)] equator_fix_usable(3)
  obtain k1 where k1: "TryInitialiseFromGnss E0 k equator_fix = Inr (True, k1)" "ekf_ok k1"
    "initialised k1" "measurement_models k1 = measurement_models k" "imu_buffer k1 = imu_buffer k"
    by auto
  define l where "l = layout (state k)"
  have "BuildLayout (ekf_options tc_config) = Some l"
    using good(1,3) by (simp add: ekf_ok_def l_def)
  note tl = tc_layout [OF this tc_config_coupled]
  have st: "layout (state k1) = l" "error_state (state k1) = Matrix_Zero 17 1"
    "covariance (state k1) = initial_covariance E0 l 0 3 6 9 12 (EcefToEnuRotation 0 0) equator_fix"
    "local_tangent_plane k1 = Some equator_ltp"
    "nom_gnss_clock (nominal (state k1)) = Some (Vector2d 0 0)"
    "nom_position_enu_m (nominal (state k1)) = Vec3_xyz 0 0 0"
    using k1(1) tl equator_fix_usable(1,2,4)
    by (auto simp: TryInitialiseFromGnss_def Let_def l_def [symmetric] EcefToLla_equator
        LocalTangentPlane_new_def ZeroVector_def Layout_Has_def)
  have "measurement_models k1 = [tc_model]"
    using k1(4) good(4) by (simp add: ekf_models_def tc_config_def NavigationSystemConfig_default_def
        if_enabled_def disabled_def)
  then have "equator_state k1"
    using k1 st tl BuildEkfEstimator_buffer [OF k]
      initial_covariance_clock_row [OF eigen_reference_laws(1) EcefToEnuRotation_square tl(1,2)
        equator_fix_usable(5,6)]
    by (simp add: equator_state_def)
  moreover have "Ekf_AddMeasurement E0 k (M_GnssSolution equator_fix) = Some (Inr (accepted_fix, k1))"
    using k1(1) good(2) by (simp add: Ekf_AddMeasurement_def)
  ultimately show ?thesis by blast
qed

text \<open>The receiver of the tightly coupled model, in the layout of a tightly coupled filter.\<close>

definition tc_receiver :: "eigen_ops \<Rightarrow> EkfEstimator \<Rightarrow> Receiver" where
  "tc_receiver E k =
     (let ltp = the (local_tangent_plane k); nom = nominal (state k); clock = the (nom_gnss_clock nom);
          R = e_transpose E (ecef_to_enu_rotation ltp)
      in \<lparr>rcv_position = vec (eigen (EnuToEcef E ltp (nom_position_enu_m nom))),
          rcv_velocity = e_mul E R (vec (eigen (nom_velocity_enu_mps nom))), rcv_R_enu_to_ecef = R,
          rcv_clk_bias_m = v2_x clock, rcv_clk_drift_mps = v2_y clock, rcv_n = 17, rcv_pos_offset = 0,
          rcv_vel_offset = 3, rcv_clk_offset = 15\<rparr>)"

lemma one_satellite_loop:
  assumes k: "equator_state k"
  shows "\<exists>dx P'. foldl (satellite_update E0 GnssTightlyCoupledOptions_default (tc_receiver E0 k))
      (0, error_state (state k), covariance (state k)) (tce_sv_observations one_satellite) = (1, dx, P') \<and>
      coeff dx 15 0 \<noteq> 0"
proof -
  note st = k [unfolded equator_state_def]
  have "rcv_position (tc_receiver E0 k) = vec (Vector3d 6378137 0 0)"
    using EnuToEcef_origin [OF eigen_reference_laws(1), of equator_ltp] ltp_rotation_square st
    by (simp add: tc_receiver_def Let_def) (simp add: LocalTangentPlane_new_def equator_plane Vec3_xyz_def)
  moreover have cov: "covariance_ok 17 (covariance (state k))"
    using st by (metis ekf_ok_def ekf_state_ok_def)
  ultimately have "\<exists>dx P'. foldl (satellite_update E0 GnssTightlyCoupledOptions_default (tc_receiver E0 k))
      (0, Matrix_Zero 17 1, covariance (state k)) (tce_sv_observations one_satellite) = (1, dx, P') \<and>
      coeff dx 15 0 \<noteq> 0"
    using st cov
    by (intro one_satellite_update) (simp_all add: tc_receiver_def Let_def LocalTangentPlane_new_def)
  then show ?thesis using st by simp
qed

lemma Ekf_AddMeasurements_models:
  assumes E: "eigen_algebra E" "eigen_shapes E" and "ekf_ok k" "0 < max_imu_dt_s (options k)" "\<forall>m\<in>set ms. covariances_ok m"
    and "Ekf_AddMeasurements E k ms = Some (Inr (reps, k'))"
  shows "measurement_models k' = measurement_models k"
  using assms(3-)
proof (induction ms arbitrary: k reps)
  case (Cons m ms)
  from Ekf_AddMeasurement_ok [OF E Cons.prems(1) _ Cons.prems(2), of m] Cons.prems(3) obtain rep k1 where
    k1: "Ekf_AddMeasurement E k m = Some (Inr (rep, k1))" "add_post k m rep k1" by auto
  then have k1': "ekf_ok k1" "options k1 = options k" "measurement_models k1 = measurement_models k"
    by (auto simp: add_post_def)
  obtain reps1 where "Ekf_AddMeasurements E k1 ms = Some (Inr (reps1, k'))"
    using Cons.prems(4) k1(1) by (auto simp: bind_sum_Inr split: option.splits sum.splits prod.splits)
  from Cons.IH [OF k1'(1) _ _ this] k1'(2,3) Cons.prems(2,3) show ?case by simp
qed simp

text \<open>What the model of a tightly coupled filter makes of an epoch.\<close>

lemma tc_apply:
  assumes "ekf_ok k" "options k = ekf_options c" "tightly_coupled_gnss c" "initialised k"
    and "nom_gnss_clock (nominal (state k)) \<noteq> None" "tce_validity epoch = Valid" "tce_sv_observations epoch \<noteq> []"
    and "foldl (satellite_update E opts (tc_receiver E k)) (0, error_state (state k), covariance (state k))
      (tce_sv_observations epoch) = (n, dx, P)" "n < gto_min_satellites opts"
  shows "GnssTightlyCoupled_Apply E opts (nominal (state k)) (error_state (state k)) (covariance (state k))
      (layout (state k)) (M_GnssTightlyCoupled epoch) (local_tangent_plane k) = Inr (Rejected, nominal (state k), dx, P)"
proof -
  let ?l = "layout (state k)"
  have l: "total_size ?l = 17" "segments ?l GnssClock = Some \<lparr>offset = 15, seg_size = 2\<rparr>" "standard_layout ?l"
    using tc_layout [of c ?l] assms(1-3) by (simp_all add: ekf_ok_def)
  obtain ltp clock where c: "local_tangent_plane k = Some ltp" "nom_gnss_clock (nominal (state k)) = Some clock"
    using assms(1,4,5) by (auto simp: ekf_ok_def)
  show ?thesis
    using l c assms(6-9) unfolding tc_receiver_def
    by (simp add: GnssTightlyCoupled_Apply_def Layout_Has_def Layout_Get_def standard_layout_def Let_def)
qed

text \<open>
  C15. A rejected tightly coupled epoch is not without effect: when fewer satellites than required are
  accepted, in any reachable initialised state of a tightly coupled filter that has a clock state, the epoch
  is reported as rejected, but the error state and the covariance the filter is left with, after the usual
  propagation to the epoch, are those produced by the satellites that were accepted, not those from before.
\<close>

theorem tc_rejection_leaks:
  assumes "eigen_algebra E" "eigen_shapes E" "config_typed c" "0 < cfg_max_imu_dt_s c" "tightly_coupled_gnss c"
    and "BuildEkfEstimator E c = Some k0" "\<forall>m\<in>set ms. covariances_ok m"
    and "Ekf_AddMeasurements E k0 ms = Some (Inr (reps, k))" "initialised k"
    and "tce_validity epoch = Valid" "tce_sv_observations epoch \<noteq> []"
    and "PropagateTo E k (tce_timestamp epoch) = Some (Inr k1)" "nom_gnss_clock (nominal (state k1)) \<noteq> None"
    and "foldl (satellite_update E (gnss_tightly_coupled (cfg_gnss c)) (tc_receiver E k1))
      (0, error_state (state k1), covariance (state k1)) (tce_sv_observations epoch) = (n, dx, P)"
    and "n < gto_min_satellites (gnss_tightly_coupled (cfg_gnss c))"
  shows "\<exists>rep. Ekf_AddMeasurement E k (M_GnssTightlyCoupled epoch) =
      Some (Inr (rep, k1\<lparr>state := (state k1)\<lparr>error_state := dx, covariance := P\<rparr>\<rparr>)) \<and> result rep = Rejected"
proof -
  note good = BuildEkfEstimator_good [OF assms(1-3,6)]
  have dt: "0 < max_imu_dt_s (options k0)" using assms(4) good(3) by (simp add: ekf_options_def)
  have k: "ekf_ok k" "options k = ekf_options c" "measurement_models k = ekf_models E c"
    using Ekf_AddMeasurements_ok [OF assms(1,2) good(1) dt assms(7)] assms(8) good(3,4)
      Ekf_AddMeasurements_models [OF assms(1,2) good(1) dt assms(7,8)] by auto
  then have "0 < max_imu_dt_s (options k)" using dt good(3) by simp
  from PropagateTo_ok [OF assms(1,2) this k(1), of "tce_timestamp epoch"] assms(12) have
    "ekf_ok k1" and k1: "k1 = k\<lparr>imu_buffer := snd (PopUntil imu_timestamp (imu_buffer k) (tce_timestamp epoch) True),
      state := state k1\<rparr>" by auto
  have same: "options k1 = ekf_options c" "measurement_models k1 = ekf_models E c" "initialised k1"
    using k(2,3) assms(9) by (subst k1, simp)+
  have models: "ekf_models E c = GnssTightlyCoupled E (gnss_tightly_coupled (cfg_gnss c)) # tl (ekf_models E c)"
    using assms(5) by (simp add: ekf_models_def tightly_coupled_gnss_def)
  have "dispatch E k1 (M_GnssTightlyCoupled epoch) (ekf_models E c) =
      Inr (\<lparr>result = Rejected, model_name = ''Unknown'', correction_norm = None\<rparr>,
        k1\<lparr>state := (state k1)\<lparr>error_state := dx, covariance := P\<rparr>\<rparr>)"
    using tc_apply [OF \<open>ekf_ok k1\<close> same(1) assms(5) same(3) assms(13,10,11,14,15)]
    by (subst models) (simp add: GnssTightlyCoupled_def Let_def)
  then show ?thesis
    using assms(9,12) same(2) by (auto simp: Ekf_AddMeasurement_def)
qed

text \<open>
  After a fix on the equator, an epoch with one good satellite is rejected, because four are needed, and leaves a
  nonzero error state, to be injected with the next accepted measurement.
\<close>

theorem tc_rejection_leaks_witness:
  "\<exists>k k1 k2 rep1 rep2. BuildEkfEstimator eigen_reference tc_config = Some k \<and>
     Ekf_AddMeasurements eigen_reference k [M_GnssSolution equator_fix] = Some (Inr ([rep1], k1)) \<and>
     Ekf_AddMeasurement eigen_reference k1 (M_GnssTightlyCoupled one_satellite) = Some (Inr (rep2, k2)) \<and>
     result rep1 = Accepted \<and> result rep2 = Rejected \<and>
     error_state (state k1) = ZeroVector (layout (state k1)) \<and> error_state (state k2) \<noteq> ZeroVector (layout (state k2))"
proof -
  obtain k where k: "BuildEkfEstimator E0 tc_config = Some k" using BuildEkfEstimator_defined by blast
  from equator_fix_state [OF k] obtain k1 where
    k1: "Ekf_AddMeasurement E0 k (M_GnssSolution equator_fix) = Some (Inr (accepted_fix, k1))"
    "equator_state k1" by blast
  note st = k1(2) [unfolded equator_state_def]
  have cfg: "gnss_tightly_coupled (cfg_gnss tc_config) = GnssTightlyCoupledOptions_default"
    "0 < cfg_max_imu_dt_s tc_config" "config_typed tc_config"
    by (simp_all add: tc_config_def NavigationSystemConfig_default_def config_typed_def disabled_def
        DvlOptions_default_def square_def)
  from one_satellite_loop [OF k1(2)] obtain dx P where loop:
    "foldl (satellite_update E0 (gnss_tightly_coupled (cfg_gnss tc_config)) (tc_receiver E0 k1))
      (0, error_state (state k1), covariance (state k1)) (tce_sv_observations one_satellite) = (1, dx, P)"
    "coeff dx 15 0 \<noteq> 0" unfolding cfg by blast
  have one: "tce_validity one_satellite = Valid" "tce_sv_observations one_satellite \<noteq> []"
    "1 < gto_min_satellites (gnss_tightly_coupled (cfg_gnss tc_config))"
    by (simp_all add: one_satellite_def cfg GnssTightlyCoupledOptions_default_def)
  have run: "Ekf_AddMeasurements E0 k [M_GnssSolution equator_fix] = Some (Inr ([accepted_fix], k1))"
    using k1(1) by simp
  have quiet: "PropagateTo E0 k1 (tce_timestamp one_satellite) = Some (Inr k1)"
    using st by (simp add: PropagateTo_def PopUntil_def TimeOrderedBuffer_new_def)
  have covs: "\<forall>m\<in>set [M_GnssSolution equator_fix]. covariances_ok m" using equator_fix_usable(7) by simp
  have clk: "nom_gnss_clock (nominal (state k1)) \<noteq> None" "initialised k1" using st by simp_all
  let ?k2 = "k1\<lparr>state := (state k1)\<lparr>error_state := dx, covariance := P\<rparr>\<rparr>"
  obtain rep2 where "Ekf_AddMeasurement E0 k1 (M_GnssTightlyCoupled one_satellite) = Some (Inr (rep2, ?k2))"
    "result rep2 = Rejected"
    using tc_rejection_leaks [OF eigen_reference_laws cfg(3,2) tc_config_coupled k covs run clk(2) one(1,2) quiet clk(1)
        loop(1) one(3)] by blast
  moreover have "error_state (state ?k2) \<noteq> ZeroVector (layout (state ?k2))"
    using loop(2) by (auto simp: ZeroVector_def Matrix_Zero_def)
  moreover have "error_state (state k1) = ZeroVector (layout (state k1))"
    using st by (simp add: ZeroVector_def)
  ultimately show ?thesis using k run by (intro exI [of _ k] exI [of _ k1] exI [of _ ?k2]) auto
qed

end
