(* ===== verification/Fg_Ukf.thy ===== *)
theory Fg_Ukf
  imports Fg_System
begin

text \<open>
  The unscented Kalman filter of \<^verbatim>\<open>src/estimation/src/backends/ukf/ukf_estimator.cpp\<close> with
  the types of \<^verbatim>\<open>ukf_state.hpp\<close> and the plugin interface \<^verbatim>\<open>ukf_measurement_model.hpp\<close>.
  Beside the Eigen operations \<open>E\<close> the definitions take \<open>llt\<close>, Eigen's Cholesky decomposition:
  the success flag and the factor \<open>L\<close>. As for the EKF each public method is one function,
  \<^const>\<open>None\<close> stands for a propagation loop that does not end, and \<^const>\<open>Inl\<close> for an exception.
\<close>

section \<open>ukf\_state.hpp\<close>

definition kStateSize :: nat where "kStateSize = 15"

definition kNumSigmaPoints :: nat where "kNumSigmaPoints = 2 * kStateSize + 1"

record SigmaWeights =
  mean_weights :: MatrixXd
  cov_weights :: MatrixXd

record UkfNominalState =
  unom_timestamp :: Timestamp
  unom_position_enu_m :: "EnuFrame Vec3"
  unom_velocity_enu_mps :: "EnuFrame Vec3"
  unom_orientation_body_to_enu :: Quaterniond
  unom_accel_bias_mps2 :: "ImuFrame Vec3"
  unom_gyro_bias_radps :: "ImuFrame Vec3"

definition UkfNominalState_default :: UkfNominalState where
  "UkfNominalState_default =
     \<lparr>unom_timestamp = Timestamp_default, unom_position_enu_m = Vec3_zero,
      unom_velocity_enu_mps = Vec3_zero, unom_orientation_body_to_enu = Quaterniond_Identity,
      unom_accel_bias_mps2 = Vec3_zero, unom_gyro_bias_radps = Vec3_zero\<rparr>"

record UkfState =
  ukf_nominal :: UkfNominalState
  ukf_covariance :: MatrixXd
  ukf_sigma_points :: MatrixXd

definition UkfState_default :: "eigen_ops \<Rightarrow> UkfState" where
  "UkfState_default E =
     \<lparr>ukf_nominal = UkfNominalState_default,
      ukf_covariance = e_scale E (1 / 10 ^ 4) (Matrix_Identity kStateSize),
      ukf_sigma_points = Matrix_Zero kStateSize kNumSigmaPoints\<rparr>"

text \<open>\<open>SigmaWeights::Compute\<close>.\<close>

definition merwe_lambda :: "MerweSigmaParams \<Rightarrow> real" where
  "merwe_lambda p =
     mer_alpha p * mer_alpha p * (real kStateSize + mer_kappa p) - real kStateSize"

definition SigmaWeights_Compute :: "MerweSigmaParams \<Rightarrow> SigmaWeights" where
  "SigmaWeights_Compute p =
     (let n = real kStateSize; lambda = merwe_lambda p; w_i = 1 / (2 * (n + lambda)) in
      \<lparr>mean_weights = MatrixXd kNumSigmaPoints 1 (\<lambda>i _. if i = 0 then lambda / (n + lambda) else w_i),
       cov_weights = MatrixXd kNumSigmaPoints 1
         (\<lambda>i _. if i = 0 then lambda / (n + lambda) + (1 - mer_alpha p * mer_alpha p + mer_beta p)
                else w_i)\<rparr>)"

section \<open>ukf\_measurement\_model.hpp\<close>

record IUkfMeasurementModel =
  ukf_Name :: string
  ukf_CanHandle :: "SensorMeasurement \<Rightarrow> bool"
  ukf_MeasurementDim :: "SensorMeasurement \<Rightarrow> cpp_exception + nat"
  ukf_Predict :: "UkfNominalState \<Rightarrow> LocalTangentPlane option \<Rightarrow> MatrixXd"
  ukf_Observe :: "SensorMeasurement \<Rightarrow> LocalTangentPlane option \<Rightarrow> cpp_exception + MatrixXd option"
  ukf_NoiseCovariance :: "SensorMeasurement \<Rightarrow> LocalTangentPlane option \<Rightarrow> cpp_exception + MatrixXd"
  ukf_Innovation :: "MatrixXd \<Rightarrow> MatrixXd \<Rightarrow> MatrixXd"

section \<open>Options and state of the estimator\<close>

record UkfOptions =
  ukf_base :: EstimatorOptions
  ukf_sigma_params :: MerweSigmaParams
  ukf_imu_noise :: ImuNoiseModel
  ukf_gnss_position_sigma_m :: "real option"
  ukf_min_imu_dt_s :: real
  ukf_max_imu_dt_s :: real
  ukf_dead_reckoning_threshold_s :: real

definition UkfOptions_default :: UkfOptions where
  "UkfOptions_default =
     \<lparr>ukf_base = EstimatorOptions_default, ukf_sigma_params = MerweSigmaParams_default,
      ukf_imu_noise = ImuNoiseModel_default, ukf_gnss_position_sigma_m = None,
      ukf_min_imu_dt_s = 1 / 10 ^ 6, ukf_max_imu_dt_s = 0.05, ukf_dead_reckoning_threshold_s = 5\<rparr>"

record UkfEstimator =
  ukf_options :: UkfOptions
  ukf_weights :: SigmaWeights
  ukf_state :: UkfState
  ukf_initialised :: bool
  ukf_models :: "IUkfMeasurementModel list"
  ukf_imu_buffer :: "ImuMeasurement TimeOrderedBuffer"
  ukf_last_imu_timestamp :: "Timestamp option"
  ukf_last_aiding_timestamp :: "Timestamp option"
  ukf_local_tangent_plane :: "LocalTangentPlane option"

definition UkfEstimator_new :: "eigen_ops \<Rightarrow> UkfOptions \<Rightarrow> UkfEstimator" where
  "UkfEstimator_new E opts =
     \<lparr>ukf_options = opts, ukf_weights = SigmaWeights_Compute (ukf_sigma_params opts),
      ukf_state = UkfState_default E, ukf_initialised = False, ukf_models = [],
      ukf_imu_buffer = TimeOrderedBuffer_new 2000 True, ukf_last_imu_timestamp = None,
      ukf_last_aiding_timestamp = None, ukf_local_tangent_plane = None\<rparr>"

definition Ukf_RegisterMeasurementModel :: "UkfEstimator \<Rightarrow> IUkfMeasurementModel \<Rightarrow> UkfEstimator" where
  "Ukf_RegisterMeasurementModel k mdl = k\<lparr>ukf_models := ukf_models k @ [mdl]\<rparr>"

definition Ukf_Info :: "UkfEstimator \<Rightarrow> EstimatorInfo" where
  "Ukf_Info k = \<lparr>info_backend = Custom, info_name = ''UkfEstimator'', info_version = ''1.0''\<rparr>"

definition Ukf_Options :: "UkfEstimator \<Rightarrow> EstimatorOptions" where
  "Ukf_Options k = ukf_base (ukf_options k)"

definition Ukf_IsInitialized :: "UkfEstimator \<Rightarrow> bool" where
  "Ukf_IsInitialized k = ukf_initialised k"

definition Ukf_Reset :: "eigen_ops \<Rightarrow> UkfEstimator \<Rightarrow> UkfEstimator" where
  "Ukf_Reset E k = k
     \<lparr>ukf_initialised := False, ukf_local_tangent_plane := None, ukf_last_aiding_timestamp := None,
      ukf_last_imu_timestamp := None, ukf_imu_buffer := Clear (ukf_imu_buffer k),
      ukf_state := UkfState_default E\<rparr>"

section \<open>Sigma points\<close>

definition UnpackSigmaPoint :: "eigen_ops \<Rightarrow> UkfNominalState \<Rightarrow> MatrixXd \<Rightarrow> UkfNominalState" where
  "UnpackSigmaPoint E mean sigma =
     \<lparr>unom_timestamp = Timestamp_default,
      unom_position_enu_m = Vec3 (v3 (e_add E (vec (eigen (unom_position_enu_m mean))) (segment sigma 0 3))),
      unom_velocity_enu_mps = Vec3 (v3 (e_add E (vec (eigen (unom_velocity_enu_mps mean))) (segment sigma 3 3))),
      unom_orientation_body_to_enu = e_quat_normalized E
        (e_quat_mul E (unom_orientation_body_to_enu mean) (ExpMapSo3 E (segment sigma 6 3))),
      unom_accel_bias_mps2 = Vec3 (v3 (e_add E (vec (eigen (unom_accel_bias_mps2 mean))) (segment sigma 9 3))),
      unom_gyro_bias_radps = Vec3 (v3 (e_add E (vec (eigen (unom_gyro_bias_radps mean))) (segment sigma 12 3)))\<rparr>"

text \<open>All fifteen coefficients of the result are assigned.\<close>

definition PackSigmaPoint :: "eigen_ops \<Rightarrow> UkfNominalState \<Rightarrow> UkfNominalState \<Rightarrow> MatrixXd" where
  "PackSigmaPoint E mean s =
     (let v0 = Matrix_Zero kStateSize 1;
          v1 = set_block v0 0 0 (e_sub E (vec (eigen (unom_position_enu_m s))) (vec (eigen (unom_position_enu_m mean))));
          v2 = set_block v1 3 0 (e_sub E (vec (eigen (unom_velocity_enu_mps s))) (vec (eigen (unom_velocity_enu_mps mean))));
          v3 = set_block v2 6 0 (LogMapSo3 E (e_quat_mul E (e_quat_conjugate E (unom_orientation_body_to_enu mean))
                 (unom_orientation_body_to_enu s)));
          v4 = set_block v3 9 0 (e_sub E (vec (eigen (unom_accel_bias_mps2 s))) (vec (eigen (unom_accel_bias_mps2 mean))))
      in set_block v4 12 0 (e_sub E (vec (eigen (unom_gyro_bias_radps s))) (vec (eigen (unom_gyro_bias_radps mean)))))"

definition PropagateOnePoint ::
  "eigen_ops \<Rightarrow> UkfNominalState \<Rightarrow> ImuMeasurement \<Rightarrow> real \<Rightarrow> UkfNominalState" where
  "PropagateOnePoint E s imu dt =
     (let f = e_sub E (vec (eigen (imu_specific_force_mps2 imu))) (vec (eigen (unom_accel_bias_mps2 s)));
          omega = e_sub E (vec (eigen (imu_angular_rate_radps imu))) (vec (eigen (unom_gyro_bias_radps s)));
          R = e_rotation_matrix E (unom_orientation_body_to_enu s);
          g_enu = vec (Vector3d 0 0 (- kGravityMps2));
          a_enu = e_add E (e_mul E R f) g_enu;
          p = vec (eigen (unom_position_enu_m s));
          v = vec (eigen (unom_velocity_enu_mps s))
      in \<lparr>unom_timestamp = Timestamp_default,
          unom_position_enu_m = Vec3 (v3 (e_add E (e_add E p (e_scale E dt v))
            (e_scale E dt (e_scale E dt (e_scale E 0.5 a_enu))))),
          unom_velocity_enu_mps = Vec3 (v3 (e_add E v (e_scale E dt a_enu))),
          unom_orientation_body_to_enu = e_quat_normalized E
            (e_quat_mul E (unom_orientation_body_to_enu s) (ExpMapSo3 E (e_scale E dt omega))),
          unom_accel_bias_mps2 = unom_accel_bias_mps2 s,
          unom_gyro_bias_radps = unom_gyro_bias_radps s\<rparr>)"

text \<open>A matrix given by its columns, and one column of a matrix.\<close>

definition mat_of_cols :: "nat \<Rightarrow> MatrixXd list \<Rightarrow> MatrixXd" where
  "mat_of_cols r cs = MatrixXd r (length cs) (\<lambda>i j. coeff (cs ! j) i 0)"

definition col :: "MatrixXd \<Rightarrow> nat \<Rightarrow> MatrixXd" where
  "col M j = get_block M 0 j (mat_rows M) 1"

definition sigma_columns :: "eigen_ops \<Rightarrow> MatrixXd \<Rightarrow> MatrixXd list" where
  "sigma_columns E L =
     Matrix_Zero kStateSize 1 # map (\<lambda>i. get_block L 0 i kStateSize 1) [0..<kStateSize] @
     map (\<lambda>i. e_neg E (get_block L 0 i kStateSize 1)) [0..<kStateSize]"

definition GenerateSigmaPoints ::
  "eigen_ops \<Rightarrow> (MatrixXd \<Rightarrow> bool \<times> MatrixXd) \<Rightarrow> UkfOptions \<Rightarrow> UkfState \<Rightarrow> UkfState" where
  "GenerateSigmaPoints E llt opts s =
     (let scale = real kStateSize + merwe_lambda (ukf_sigma_params opts);
          (ok, L) = llt (e_scale E scale (ukf_covariance s));
          P = (if ok then ukf_covariance s
               else e_add E (ukf_covariance s) (e_scale E (1 / 10 ^ 9) (Matrix_Identity kStateSize)));
          L' = (if ok then L else snd (llt (e_scale E scale P)))
      in s\<lparr>ukf_covariance := P, ukf_sigma_points := mat_of_cols kStateSize (sigma_columns E L')\<rparr>)"

text \<open>The accumulation loops over the sigma points, \<open>z += w(i) * x(i)\<close>.\<close>

definition weighted_sum :: "eigen_ops \<Rightarrow> MatrixXd \<Rightarrow> MatrixXd \<Rightarrow> (nat \<Rightarrow> MatrixXd) \<Rightarrow> MatrixXd" where
  "weighted_sum E w z x =
     foldl (\<lambda>a i. e_add E a (e_scale E (coeff w i 0) (x i))) z [0..<kNumSigmaPoints]"

text \<open>The loops that add \<open>w(i) * x(i) * y(i).transpose()\<close>.\<close>

definition weighted_outer ::
  "eigen_ops \<Rightarrow> MatrixXd \<Rightarrow> MatrixXd \<Rightarrow> (nat \<Rightarrow> MatrixXd) \<Rightarrow> (nat \<Rightarrow> MatrixXd) \<Rightarrow> MatrixXd" where
  "weighted_outer E w z x y =
     foldl (\<lambda>a i. e_add E a (e_mul E (e_scale E (coeff w i 0) (x i)) (e_transpose E (y i))))
       z [0..<kNumSigmaPoints]"

section \<open>Propagation\<close>

text \<open>The iterated quaternion mean: at most five rounds, ended early by a small correction.\<close>

fun quaternion_mean ::
  "eigen_ops \<Rightarrow> MatrixXd \<Rightarrow> (nat \<Rightarrow> Quaterniond) \<Rightarrow> Quaterniond \<Rightarrow> nat \<Rightarrow> Quaterniond" where
  "quaternion_mean E w qs q 0 = q"
| "quaternion_mean E w qs q (Suc rounds) =
     (let d = weighted_sum E w (Matrix_Zero 3 1)
                (\<lambda>i. LogMapSo3 E (e_quat_mul E (e_quat_conjugate E q) (qs i)));
          q' = e_quat_normalized E (e_quat_mul E q (ExpMapSo3 E d))
      in if e_norm E d < 1 / 10 ^ 10 then q' else quaternion_mean E w qs q' rounds)"

definition BuildProcessNoise :: "eigen_ops \<Rightarrow> UkfOptions \<Rightarrow> UkfState \<Rightarrow> ImuMeasurement \<Rightarrow> real \<Rightarrow> MatrixXd" where
  "BuildProcessNoise E opts s imu dt =
     (let R = e_rotation_matrix E (unom_orientation_body_to_enu (ukf_nominal s));
          G0 = Matrix_Zero kStateSize 12;
          G1 = set_block G0 3 0 (e_neg E R);
          G2 = set_block G1 6 3 (e_neg E (Matrix_Identity 3));
          G3 = set_block G2 9 6 (Matrix_Identity 3);
          G = set_block G3 12 9 (Matrix_Identity 3);
          qa = accel_noise_density_mps2_per_sqrthz (ukf_imu_noise opts);
          qg = gyro_noise_density_radps_per_sqrthz (ukf_imu_noise opts);
          qba = accel_random_walk_mps3_per_sqrthz (ukf_imu_noise opts);
          qbg = gyro_random_walk_radps2_per_sqrthz (ukf_imu_noise opts);
          Q1 = set_block (Matrix_Zero 12 12) 0 0 (e_scale E (qa * qa) (Matrix_Identity 3));
          Q2 = set_block Q1 3 3 (e_scale E (qg * qg) (Matrix_Identity 3));
          Q3 = set_block Q2 6 6 (e_scale E (qba * qba) (Matrix_Identity 3));
          Qc = set_block Q3 9 9 (e_scale E (qbg * qbg) (Matrix_Identity 3))
      in e_scale E dt (e_mul E (e_mul E G Qc) (e_transpose E G)))"

definition Ukf_PropagateImu ::
  "eigen_ops \<Rightarrow> (MatrixXd \<Rightarrow> bool \<times> MatrixXd) \<Rightarrow> UkfOptions \<Rightarrow> SigmaWeights \<Rightarrow> UkfState \<Rightarrow> ImuMeasurement \<Rightarrow>
     real \<Rightarrow> UkfState" where
  "Ukf_PropagateImu E llt opts w s0 imu dt =
     (let s = GenerateSigmaPoints E llt opts s0;
          wm = mean_weights w; wc = cov_weights w;
          propagated = (\<lambda>i. PropagateOnePoint E
            (UnpackSigmaPoint E (ukf_nominal s) (col (ukf_sigma_points s) i)) imu dt);
          mean = (\<lambda>get. v3 (weighted_sum E wm (Matrix_Zero 3 1) (\<lambda>i. vec (get (propagated i)))));
          new_nom =
            \<lparr>unom_timestamp = imu_timestamp imu,
             unom_position_enu_m = Vec3 (mean (\<lambda>x. eigen (unom_position_enu_m x))),
             unom_velocity_enu_mps = Vec3 (mean (\<lambda>x. eigen (unom_velocity_enu_mps x))),
             unom_orientation_body_to_enu =
               quaternion_mean E wm (\<lambda>i. unom_orientation_body_to_enu (propagated i))
                 (unom_orientation_body_to_enu (propagated 0)) 5,
             unom_accel_bias_mps2 = Vec3 (mean (\<lambda>x. eigen (unom_accel_bias_mps2 x))),
             unom_gyro_bias_radps = Vec3 (mean (\<lambda>x. eigen (unom_gyro_bias_radps x)))\<rparr>;
          dx = (\<lambda>i. PackSigmaPoint E new_nom (propagated i));
          new_cov = weighted_outer E wc (Matrix_Zero kStateSize kStateSize) dx dx;
          new_cov' = e_add E new_cov (BuildProcessNoise E opts s imu dt)
      in s\<lparr>ukf_nominal := new_nom, ukf_covariance := SymmetrizeCovariance E new_cov'\<rparr>)"

partial_function (option) ukf_split_loop ::
  "eigen_ops \<Rightarrow> (MatrixXd \<Rightarrow> bool \<times> MatrixXd) \<Rightarrow> UkfOptions \<Rightarrow> SigmaWeights \<Rightarrow> ImuMeasurement \<Rightarrow> UkfState \<Rightarrow>
     real \<Rightarrow> UkfState option"
where
  "ukf_split_loop E llt opts w imu s remaining =
     (if remaining > 0
      then (let step = min remaining (ukf_max_imu_dt_s opts) in
            ukf_split_loop E llt opts w imu (Ukf_PropagateImu E llt opts w s imu step) (remaining - step))
      else Some s)"

definition ukf_set_timestamp :: "UkfState \<Rightarrow> Timestamp \<Rightarrow> UkfState" where
  "ukf_set_timestamp s t = s\<lparr>ukf_nominal := (ukf_nominal s)\<lparr>unom_timestamp := t\<rparr>\<rparr>"

fun ukf_propagate_batch ::
  "eigen_ops \<Rightarrow> (MatrixXd \<Rightarrow> bool \<times> MatrixXd) \<Rightarrow> UkfOptions \<Rightarrow> SigmaWeights \<Rightarrow> UkfState \<Rightarrow> ImuMeasurement list \<Rightarrow>
     UkfState option"
where
  "ukf_propagate_batch E llt opts w s [] = Some s"
| "ukf_propagate_batch E llt opts w s (imu # batch) =
     (if \<not> has_steady (unom_timestamp (ukf_nominal s)) \<and> \<not> has_gps (unom_timestamp (ukf_nominal s))
      then ukf_propagate_batch E llt opts w (ukf_set_timestamp s (imu_timestamp imu)) batch
      else
        (case TimeDifference (imu_timestamp imu) (unom_timestamp (ukf_nominal s)) of
           None \<Rightarrow> ukf_propagate_batch E llt opts w s batch
         | Some dt \<Rightarrow>
             (if seconds dt < ukf_min_imu_dt_s opts then ukf_propagate_batch E llt opts w s batch
              else
                (case ukf_split_loop E llt opts w imu s (seconds dt) of
                   None \<Rightarrow> None
                 | Some s' \<Rightarrow>
                     ukf_propagate_batch E llt opts w (ukf_set_timestamp s' (imu_timestamp imu)) batch))))"

definition Ukf_PropagateTo ::
  "eigen_ops \<Rightarrow> (MatrixXd \<Rightarrow> bool \<times> MatrixXd) \<Rightarrow> UkfEstimator \<Rightarrow> Timestamp \<Rightarrow> UkfEstimator option" where
  "Ukf_PropagateTo E llt k target =
     (case PopUntil imu_timestamp (ukf_imu_buffer k) target True of
        (imu_batch, buffer) \<Rightarrow>
          map_option (\<lambda>s. k\<lparr>ukf_imu_buffer := buffer, ukf_state := s\<rparr>)
            (ukf_propagate_batch E llt (ukf_options k) (ukf_weights k) (ukf_state k) imu_batch))"

section \<open>Measurement update\<close>

text \<open>
  \<open>ApplyMeasurementModel\<close> after a successful \<open>Observe\<close>. Assigning a prediction of another
  dimension than the observation to a column of \<open>Z\<close> fails an assertion of Eigen.
\<close>

definition ukf_predictions ::
  "eigen_ops \<Rightarrow> IUkfMeasurementModel \<Rightarrow> UkfState \<Rightarrow> LocalTangentPlane option \<Rightarrow> nat \<Rightarrow> MatrixXd" where
  "ukf_predictions E mdl s ctx i =
     ukf_Predict mdl (UnpackSigmaPoint E (ukf_nominal s) (col (ukf_sigma_points s) i)) ctx"

definition ukf_correct ::
  "eigen_ops \<Rightarrow> IUkfMeasurementModel \<Rightarrow> SigmaWeights \<Rightarrow> UkfState \<Rightarrow> MatrixXd \<Rightarrow> MatrixXd \<Rightarrow>
     LocalTangentPlane option \<Rightarrow> MatrixXd \<times> UkfState" where
  "ukf_correct E mdl w s z_obs R_meas ctx =
     (let m = mat_rows z_obs;
          Z = ukf_predictions E mdl s ctx;
          z_pred = weighted_sum E (mean_weights w) (Matrix_Zero m 1) Z;
          dz = (\<lambda>i. ukf_Innovation mdl (Z i) z_pred);
          S = weighted_outer E (cov_weights w) R_meas dz dz;
          Pxz = weighted_outer E (cov_weights w) (Matrix_Zero kStateSize m)
                  (\<lambda>i. col (ukf_sigma_points s) i) dz;
          K = e_transpose E (e_ldlt_solve E S (e_transpose E Pxz));
          delta_x = e_mul E K (ukf_Innovation mdl z_obs z_pred);
          P = e_sub E (ukf_covariance s) (e_mul E (e_mul E K S) (e_transpose E K));
          nom = UnpackSigmaPoint E (ukf_nominal s) delta_x
      in (delta_x, s\<lparr>ukf_nominal := nom\<lparr>unom_timestamp := unom_timestamp (ukf_nominal s)\<rparr>,
                     ukf_covariance := SymmetrizeCovariance E P\<rparr>))"

definition ApplyMeasurementModel ::
  "eigen_ops \<Rightarrow> (MatrixXd \<Rightarrow> bool \<times> MatrixXd) \<Rightarrow> IUkfMeasurementModel \<Rightarrow> SensorMeasurement \<Rightarrow> UkfEstimator \<Rightarrow>
     cpp_exception + (MeasurementUpdateReport \<times> UkfEstimator)" where
  "ApplyMeasurementModel E llt mdl m k =
     (let ctx = ukf_local_tangent_plane k in
      bind_sum (ukf_Observe mdl m ctx) (\<lambda>z_obs_opt.
        case z_obs_opt of
          None \<Rightarrow> Inr (\<lparr>result = Rejected, model_name = ukf_Name mdl, correction_norm = None\<rparr>, k)
        | Some z_obs \<Rightarrow>
            bind_sum (ukf_NoiseCovariance mdl m ctx) (\<lambda>R_meas.
              let s = GenerateSigmaPoints E llt (ukf_options k) (ukf_state k) in
              if \<exists>i<kNumSigmaPoints. mat_rows (ukf_predictions E mdl s ctx i) \<noteq> mat_rows z_obs
              then Inl AssertionFailed
              else
                (case ukf_correct E mdl (ukf_weights k) s z_obs R_meas ctx of
                   (delta_x, s') \<Rightarrow>
                     Inr (\<lparr>result = Accepted, model_name = ukf_Name mdl, correction_norm = Some (e_norm E delta_x)\<rparr>,
                          k\<lparr>ukf_state := s'\<rparr>)))))"

section \<open>Initialisation and output\<close>

definition ukf_initial_covariance :: "eigen_ops \<Rightarrow> MatrixXd \<Rightarrow> GnssSolution \<Rightarrow> MatrixXd" where
  "ukf_initial_covariance E R gnss =
     (let diag = (\<lambda>c. e_scale E (c * c) (Matrix_Identity 3));
          cov_pos0 = e_mul E (e_mul E R (gnss_position_covariance_ecef_m2 gnss)) (e_transpose E R);
          cov_vel0 = e_mul E (e_mul E R (gnss_velocity_covariance_ecef_m2ps2 gnss)) (e_transpose E R);
          none = (e_norm E cov_pos0 < 1 / 10 ^ 12);
          cov_pos = (if none then diag kInitPosSigmaM else cov_pos0);
          cov_vel = (if none then diag kInitVelSigmaMps else cov_vel0);
          P0 = Matrix_Zero kStateSize kStateSize;
          P1 = set_block P0 0 0 cov_pos;
          P2 = set_block P1 3 3 cov_vel;
          P3 = set_block P2 6 6 (diag kInitAttSigmaRad);
          P4 = set_block P3 9 9 (diag kInitAbaSigma)
      in set_block P4 12 12 (diag kInitGbaSigma))"

definition Ukf_TryInitialiseFromGnss :: "eigen_ops \<Rightarrow> UkfEstimator \<Rightarrow> GnssSolution \<Rightarrow> bool \<times> UkfEstimator" where
  "Ukf_TryInitialiseFromGnss E k gnss =
     (if gnss_fix_type gnss = NoFix then (False, k)
      else if gnss_validity gnss \<noteq> Valid then (False, k)
      else
        (let ltp = LocalTangentPlane_new (EcefToLla (gnss_position_ecef_m gnss));
             R = ecef_to_enu_rotation ltp;
             nom = \<lparr>unom_timestamp = gnss_timestamp gnss, unom_position_enu_m = Vec3_xyz 0 0 0,
                    unom_velocity_enu_mps = Vec3 (v3 (e_mul E R (vec (eigen (gnss_velocity_ecef_mps gnss))))),
                    unom_orientation_body_to_enu = Quaterniond_Identity,
                    unom_accel_bias_mps2 = Vec3_xyz 0 0 0, unom_gyro_bias_radps = Vec3_xyz 0 0 0\<rparr>
         in (True, k\<lparr>ukf_initialised := True, ukf_local_tangent_plane := Some ltp,
               ukf_state := \<lparr>ukf_nominal = nom, ukf_covariance = ukf_initial_covariance E R gnss,
                 ukf_sigma_points = Matrix_Zero kStateSize kNumSigmaPoints\<rparr>\<rparr>)))"

definition ukf_accuracy :: "eigen_ops \<Rightarrow> UkfState \<Rightarrow> nat \<Rightarrow> real" where
  "ukf_accuracy E s off = sqrt (e_trace E (get_block (ukf_covariance s) off off 3 3) / 3)"

definition ukf_navigation_status :: "UkfEstimator \<Rightarrow> NavigationStatus" where
  "ukf_navigation_status k =
     (let t = unom_timestamp (ukf_nominal (ukf_state k)) in
      case ukf_last_aiding_timestamp k of
        None \<Rightarrow> DeadReckoning
      | Some aiding \<Rightarrow>
          (if has_steady t \<and> has_steady aiding
           then (case TimeDifference t aiding of
                   None \<Rightarrow> Nominal
                 | Some age \<Rightarrow>
                     (if seconds age > ukf_dead_reckoning_threshold_s (ukf_options k)
                      then DeadReckoning else Nominal))
           else DeadReckoning))"

definition Ukf_BuildNavigationState :: "eigen_ops \<Rightarrow> UkfEstimator \<Rightarrow> NavigationState" where
  "Ukf_BuildNavigationState E k =
     (let s = ukf_state k; nom = ukf_nominal s;
          out0 = NavigationState_default
            \<lparr>nav_timestamp := unom_timestamp nom, nav_position_enu_m := unom_position_enu_m nom,
             nav_velocity_enu_mps := unom_velocity_enu_mps nom,
             nav_orientation_body_to_enu := unom_orientation_body_to_enu nom\<rparr>;
          out1 = (case ukf_local_tangent_plane k of
                    None \<Rightarrow> out0
                  | Some ltp \<Rightarrow> out0
                      \<lparr>nav_position_ecef_m := EnuToEcef E ltp (unom_position_enu_m nom),
                       nav_velocity_ecef_mps := Vec3 (v3 (e_mul E
                         (e_transpose E (ecef_to_enu_rotation ltp))
                         (vec (eigen (unom_velocity_enu_mps nom)))))\<rparr>)
      in out1
           \<lparr>nav_covariance := ukf_covariance s,
            nav_quality := (nav_quality out1)
              \<lparr>initialized := ukf_initialised k,
               position_accuracy_m := Some (ukf_accuracy E s 0),
               velocity_accuracy_mps := Some (ukf_accuracy E s 3),
               attitude_accuracy_rad := Some (ukf_accuracy E s 6)\<rparr>,
            nav_status := ukf_navigation_status k,
            nav_mode := (if ukf_models k = [] then InertialOnly else MultiSensorFusion),
            nav_sensors := (nav_sensors out1)
              \<lparr>ss_imu := (ss_imu (nav_sensors out1))\<lparr>health := Healthy, used_in_solution := True\<rparr>\<rparr>\<rparr>)"

definition Ukf_LatestState :: "eigen_ops \<Rightarrow> UkfEstimator \<Rightarrow> NavigationState option" where
  "Ukf_LatestState E k = (if \<not> ukf_initialised k then None else Some (Ukf_BuildNavigationState E k))"

section \<open>Measurements\<close>

fun ukf_dispatch ::
  "eigen_ops \<Rightarrow> (MatrixXd \<Rightarrow> bool \<times> MatrixXd) \<Rightarrow> UkfEstimator \<Rightarrow> SensorMeasurement \<Rightarrow>
     IUkfMeasurementModel list \<Rightarrow> cpp_exception + (MeasurementUpdateReport \<times> UkfEstimator)" where
  "ukf_dispatch E llt k m [] = Inr (report Rejected, k)"
| "ukf_dispatch E llt k m (mdl # models) =
     (if \<not> ukf_CanHandle mdl m then ukf_dispatch E llt k m models
      else
        bind_sum (ApplyMeasurementModel E llt mdl m k) (\<lambda>(rep, k').
          Inr (rep, if result rep = Accepted
                    then k'\<lparr>ukf_last_aiding_timestamp := Some (GetTimestamp m)\<rparr> else k')))"

definition Ukf_AddMeasurement ::
  "eigen_ops \<Rightarrow> (MatrixXd \<Rightarrow> bool \<times> MatrixXd) \<Rightarrow> UkfEstimator \<Rightarrow> SensorMeasurement \<Rightarrow>
     (cpp_exception + (MeasurementUpdateReport \<times> UkfEstimator)) option" where
  "Ukf_AddMeasurement E llt k m =
     (case m of
        M_Imu imu \<Rightarrow>
          (case Insert imu_timestamp (ukf_imu_buffer k) imu of
             (r, buffer) \<Rightarrow>
               (if r = RejectedOutOfOrder \<or> r = RejectedNotComparable
                then Some (Inr (report Result_OutOfOrder, k\<lparr>ukf_imu_buffer := buffer\<rparr>))
                else Some (Inr (report Buffered, k\<lparr>ukf_imu_buffer := buffer\<rparr>))))
      | _ \<Rightarrow>
          (if \<not> ukf_initialised k
           then
             (case m of
                M_GnssSolution gnss \<Rightarrow>
                  (case Ukf_TryInitialiseFromGnss E k gnss of
                     (ok, k') \<Rightarrow>
                       Some (Inr (\<lparr>result = (if ok then Accepted else Rejected),
                                   model_name = ''UkfGnssLooselyCoupled'', correction_norm = None\<rparr>, k')))
              | _ \<Rightarrow> Some (Inr (report NotInitialized, k)))
           else
             map_option (\<lambda>k'. ukf_dispatch E llt k' m (ukf_models k')) (Ukf_PropagateTo E llt k (GetTimestamp m))))"

definition Ukf_ProcessUntil ::
  "eigen_ops \<Rightarrow> (MatrixXd \<Rightarrow> bool \<times> MatrixXd) \<Rightarrow> UkfEstimator \<Rightarrow> Timestamp \<Rightarrow>
     (EstimatorUpdateResult \<times> UkfEstimator) option" where
  "Ukf_ProcessUntil E llt k t =
     (if \<not> ukf_initialised k then Some (NotInitialized, k)
      else map_option (\<lambda>k'. (Accepted, k')) (Ukf_PropagateTo E llt k t))"

end
