(* ===== verification/Fg_UkfModels.thy ===== *)
theory Fg_UkfModels
  imports Fg_Ukf
begin

text \<open>
  The fourteen measurement models of
  \<^verbatim>\<open>src/estimation/src/backends/ukf/measurement_models/\<close>. A model gives a prediction for a
  nominal state, an observation for a measurement (\<^const>\<open>None\<close> rejects it) and a noise
  covariance; \<open>ctx\<close> is the local tangent plane. Blocks of a vector that are assigned in turn
  are concatenated. The names of the models are those of the interface, since no model overrides
  \<open>Name\<close>.
\<close>

definition ukf_default_Innovation :: "eigen_ops \<Rightarrow> MatrixXd \<Rightarrow> MatrixXd \<Rightarrow> MatrixXd" where
  "ukf_default_Innovation E z_obs z_pred = e_sub E z_obs z_pred"

text \<open>\<open>z.segment<3>(row) = block; row += 3\<close> for the active blocks, in order.\<close>

definition stack3 :: "MatrixXd list \<Rightarrow> MatrixXd" where
  "stack3 bs = MatrixXd (3 * length bs) 1 (\<lambda>i _. coeff (bs ! (i div 3)) (i mod 3) 0)"

text \<open>\<open>R.block<3, 3>(row, row) = block; row += 3\<close> on a zero matrix.\<close>

definition stack_diag3 :: "MatrixXd list \<Rightarrow> MatrixXd" where
  "stack_diag3 bs = MatrixXd (3 * length bs) (3 * length bs)
     (\<lambda>i j. if i div 3 = j div 3 then coeff (bs ! (i div 3)) (i mod 3) (j mod 3) else 0)"

definition sigma3 :: "eigen_ops \<Rightarrow> real \<Rightarrow> MatrixXd" where
  "sigma3 E s = e_scale E (s * s) (Matrix_Identity 3)"

text \<open>\<open>R * C * R.transpose()\<close>.\<close>

definition rotated :: "eigen_ops \<Rightarrow> MatrixXd \<Rightarrow> MatrixXd \<Rightarrow> MatrixXd" where
  "rotated E R C = e_mul E (e_mul E R C) (e_transpose E R)"

text \<open>\<open>ctx.ltp ? ctx.ltp->ecef_to_enu_rotation() : Identity\<close>.\<close>

definition ctx_rotation :: "LocalTangentPlane option \<Rightarrow> MatrixXd" where
  "ctx_rotation ctx = (case ctx of None \<Rightarrow> Matrix_Identity 3 | Some ltp \<Rightarrow> ecef_to_enu_rotation ltp)"

text \<open>The velocity in the body frame, \<open>R.transpose() * v_enu\<close>.\<close>

definition body_velocity :: "eigen_ops \<Rightarrow> UkfNominalState \<Rightarrow> MatrixXd" where
  "body_velocity E s =
     e_mul E (e_transpose E (e_rotation_matrix E (unom_orientation_body_to_enu s)))
       (vec (eigen (unom_velocity_enu_mps s)))"

section \<open>ukf\_gnss\_loosely\_coupled\<close>

record UkfGnssLooselyCoupledOptions =
  uglo_position_sigma_m :: "real option"
  uglo_velocity_sigma_mps :: "real option"

definition UkfGnssLooselyCoupledOptions_default :: UkfGnssLooselyCoupledOptions where
  "UkfGnssLooselyCoupledOptions_default =
     \<lparr>uglo_position_sigma_m = None,
      uglo_velocity_sigma_mps = None\<rparr>"

definition UkfGnssLooselyCoupled_Predict :: "eigen_ops \<Rightarrow> UkfGnssLooselyCoupledOptions \<Rightarrow> UkfNominalState \<Rightarrow> LocalTangentPlane option \<Rightarrow> MatrixXd" where
  "UkfGnssLooselyCoupled_Predict E opts s ctx =
     stack3 [vec (eigen (unom_position_enu_m s)), vec (eigen (unom_velocity_enu_mps s))]"

definition UkfGnssLooselyCoupled_Observe ::
  "eigen_ops \<Rightarrow> UkfGnssLooselyCoupledOptions \<Rightarrow> SensorMeasurement \<Rightarrow> LocalTangentPlane option \<Rightarrow> cpp_exception + MatrixXd option" where
  "UkfGnssLooselyCoupled_Observe E opts m ctx =
     (case ctx of
        None \<Rightarrow> Inr None
      | Some ltp \<Rightarrow>
          bind_sum (get_GnssSolution m) (\<lambda>gnss.
            if gnss_fix_type gnss = NoFix then Inr None
            else if gnss_validity gnss \<noteq> Valid then Inr None
            else Inr (Some (stack3
              [vec (eigen (EcefToEnu E ltp (gnss_position_ecef_m gnss))),
               e_mul E (ecef_to_enu_rotation ltp) (vec (eigen (gnss_velocity_ecef_mps gnss)))]))))"

definition UkfGnssLooselyCoupled_NoiseCovariance ::
  "eigen_ops \<Rightarrow> UkfGnssLooselyCoupledOptions \<Rightarrow> SensorMeasurement \<Rightarrow> LocalTangentPlane option \<Rightarrow> cpp_exception + MatrixXd" where
  "UkfGnssLooselyCoupled_NoiseCovariance E opts m ctx =
     bind_sum (get_GnssSolution m) (\<lambda>gnss.
       let R = ctx_rotation ctx;
           R_pos = (case uglo_position_sigma_m opts of
                      Some s \<Rightarrow> sigma3 E s
                    | None \<Rightarrow> rotated E R (gnss_position_covariance_ecef_m2 gnss));
           R_vel = (case uglo_velocity_sigma_mps opts of
                      Some s \<Rightarrow> sigma3 E s
                    | None \<Rightarrow> rotated E R (gnss_velocity_covariance_ecef_m2ps2 gnss))
       in Inr (stack_diag3 [R_pos, R_vel]))"

definition UkfGnssLooselyCoupled :: "eigen_ops \<Rightarrow> UkfGnssLooselyCoupledOptions \<Rightarrow> IUkfMeasurementModel" where
  "UkfGnssLooselyCoupled E opts =
     \<lparr>ukf_Name = ''Unknown'', ukf_CanHandle = (\<lambda>m. \<not> isl (get_GnssSolution m)),
      ukf_MeasurementDim = (\<lambda>_. Inr 6), ukf_Predict = UkfGnssLooselyCoupled_Predict E opts,
      ukf_Observe = UkfGnssLooselyCoupled_Observe E opts, ukf_NoiseCovariance = UkfGnssLooselyCoupled_NoiseCovariance E opts,
      ukf_Innovation = ukf_default_Innovation E\<rparr>"

section \<open>ukf\_barometer\<close>

record UkfBarometerOptions =
  ubo_altitude_sigma_m :: "real option"
  ubo_isa_sea_level_pressure_pa :: real
  ubo_innovation_gate :: real

definition UkfBarometerOptions_default :: UkfBarometerOptions where
  "UkfBarometerOptions_default =
     \<lparr>ubo_altitude_sigma_m = None,
      ubo_isa_sea_level_pressure_pa = 101325,
      ubo_innovation_gate = 0\<rparr>"

definition ukf_kIsaExponent :: real where "ukf_kIsaExponent = 1 / 5.25588"

definition ukf_PressureToAltitude :: "real \<Rightarrow> real \<Rightarrow> real" where
  "ukf_PressureToAltitude pressure_pa sea_level_pa =
     44330.77 * (1 - (pressure_pa / sea_level_pa) powr ukf_kIsaExponent)"

definition UkfBarometer_Predict :: "eigen_ops \<Rightarrow> UkfBarometerOptions \<Rightarrow> UkfNominalState \<Rightarrow> LocalTangentPlane option \<Rightarrow> MatrixXd" where
  "UkfBarometer_Predict E opts s ctx =
     Matrix_Constant 1 1 (Vec3_z (unom_position_enu_m s))"

definition UkfBarometer_Observe ::
  "eigen_ops \<Rightarrow> UkfBarometerOptions \<Rightarrow> SensorMeasurement \<Rightarrow> LocalTangentPlane option \<Rightarrow> cpp_exception + MatrixXd option" where
  "UkfBarometer_Observe E opts m ctx =
     bind_sum (get_Barometer m) (\<lambda>baro.
       if baro_validity baro \<noteq> Valid then Inr None
       else
         (case baro_altitude_m baro of
            Some altitude \<Rightarrow> Inr (Some (Matrix_Constant 1 1 altitude))
          | None \<Rightarrow>
              (if baro_pressure_pa baro > 0
               then Inr (Some (Matrix_Constant 1 1
                      (ukf_PressureToAltitude (baro_pressure_pa baro) (ubo_isa_sea_level_pressure_pa opts))))
               else Inr None)))"

definition UkfBarometer_NoiseCovariance ::
  "eigen_ops \<Rightarrow> UkfBarometerOptions \<Rightarrow> SensorMeasurement \<Rightarrow> LocalTangentPlane option \<Rightarrow> cpp_exception + MatrixXd" where
  "UkfBarometer_NoiseCovariance E opts m ctx =
     (let s = value_or (ubo_altitude_sigma_m opts) 2 in Inr (Matrix_Constant 1 1 (s * s)))"

definition UkfBarometer :: "eigen_ops \<Rightarrow> UkfBarometerOptions \<Rightarrow> IUkfMeasurementModel" where
  "UkfBarometer E opts =
     \<lparr>ukf_Name = ''Unknown'', ukf_CanHandle = (\<lambda>m. \<not> isl (get_Barometer m)),
      ukf_MeasurementDim = (\<lambda>_. Inr 1), ukf_Predict = UkfBarometer_Predict E opts,
      ukf_Observe = UkfBarometer_Observe E opts, ukf_NoiseCovariance = UkfBarometer_NoiseCovariance E opts,
      ukf_Innovation = ukf_default_Innovation E\<rparr>"

section \<open>ukf\_magnetometer\<close>

record UkfMagnetometerOptions =
  umgo_reference_field_enu_tesla :: Vector3d
  umgo_sigma_tesla :: "real option"
  umgo_innovation_gate :: real

definition UkfMagnetometerOptions_default :: UkfMagnetometerOptions where
  "UkfMagnetometerOptions_default =
     \<lparr>umgo_reference_field_enu_tesla = Vector3d 0 (2 / 10 ^ 5) (- (4.3 / 10 ^ 5)),
      umgo_sigma_tesla = None,
      umgo_innovation_gate = 0\<rparr>"

definition UkfMagnetometer_Predict :: "eigen_ops \<Rightarrow> UkfMagnetometerOptions \<Rightarrow> UkfNominalState \<Rightarrow> LocalTangentPlane option \<Rightarrow> MatrixXd" where
  "UkfMagnetometer_Predict E opts s ctx =
     e_mul E (e_transpose E (e_rotation_matrix E (unom_orientation_body_to_enu s)))
       (vec (umgo_reference_field_enu_tesla opts))"

definition UkfMagnetometer_Observe ::
  "eigen_ops \<Rightarrow> UkfMagnetometerOptions \<Rightarrow> SensorMeasurement \<Rightarrow> LocalTangentPlane option \<Rightarrow> cpp_exception + MatrixXd option" where
  "UkfMagnetometer_Observe E opts m ctx =
     bind_sum (get_Magnetometer m) (\<lambda>mag.
       if mag_validity mag \<noteq> Valid then Inr None
       else Inr (Some (vec (eigen (mag_magnetic_field_tesla mag)))))"

definition UkfMagnetometer_NoiseCovariance ::
  "eigen_ops \<Rightarrow> UkfMagnetometerOptions \<Rightarrow> SensorMeasurement \<Rightarrow> LocalTangentPlane option \<Rightarrow> cpp_exception + MatrixXd" where
  "UkfMagnetometer_NoiseCovariance E opts m ctx =
     Inr (sigma3 E (value_or (umgo_sigma_tesla opts)
       (e_norm E (vec (umgo_reference_field_enu_tesla opts)) * 0.05)))"

definition UkfMagnetometer :: "eigen_ops \<Rightarrow> UkfMagnetometerOptions \<Rightarrow> IUkfMeasurementModel" where
  "UkfMagnetometer E opts =
     \<lparr>ukf_Name = ''Unknown'', ukf_CanHandle = (\<lambda>m. \<not> isl (get_Magnetometer m)),
      ukf_MeasurementDim = (\<lambda>_. Inr 3), ukf_Predict = UkfMagnetometer_Predict E opts,
      ukf_Observe = UkfMagnetometer_Observe E opts, ukf_NoiseCovariance = UkfMagnetometer_NoiseCovariance E opts,
      ukf_Innovation = ukf_default_Innovation E\<rparr>"

section \<open>ukf\_wheel\_odometry\<close>

record UkfWheelOdometryOptions =
  uwoo_sigma_linear_mps :: real
  uwoo_innovation_gate :: real

definition UkfWheelOdometryOptions_default :: UkfWheelOdometryOptions where
  "UkfWheelOdometryOptions_default =
     \<lparr>uwoo_sigma_linear_mps = 0.1,
      uwoo_innovation_gate = 0\<rparr>"

definition UkfWheelOdometry_Predict :: "eigen_ops \<Rightarrow> UkfWheelOdometryOptions \<Rightarrow> UkfNominalState \<Rightarrow> LocalTangentPlane option \<Rightarrow> MatrixXd" where
  "UkfWheelOdometry_Predict E opts s ctx =
     body_velocity E s"

definition UkfWheelOdometry_Observe ::
  "eigen_ops \<Rightarrow> UkfWheelOdometryOptions \<Rightarrow> SensorMeasurement \<Rightarrow> LocalTangentPlane option \<Rightarrow> cpp_exception + MatrixXd option" where
  "UkfWheelOdometry_Observe E opts m ctx =
     bind_sum (get_WheelOdometry m) (\<lambda>odo.
       if odo_validity odo \<noteq> Valid then Inr None
       else Inr (Some (vec (eigen (odo_linear_velocity_body_mps odo)))))"

definition UkfWheelOdometry_NoiseCovariance ::
  "eigen_ops \<Rightarrow> UkfWheelOdometryOptions \<Rightarrow> SensorMeasurement \<Rightarrow> LocalTangentPlane option \<Rightarrow> cpp_exception + MatrixXd" where
  "UkfWheelOdometry_NoiseCovariance E opts m ctx =
     Inr (sigma3 E (uwoo_sigma_linear_mps opts))"

definition UkfWheelOdometry :: "eigen_ops \<Rightarrow> UkfWheelOdometryOptions \<Rightarrow> IUkfMeasurementModel" where
  "UkfWheelOdometry E opts =
     \<lparr>ukf_Name = ''Unknown'', ukf_CanHandle = (\<lambda>m. \<not> isl (get_WheelOdometry m)),
      ukf_MeasurementDim = (\<lambda>_. Inr 3), ukf_Predict = UkfWheelOdometry_Predict E opts,
      ukf_Observe = UkfWheelOdometry_Observe E opts, ukf_NoiseCovariance = UkfWheelOdometry_NoiseCovariance E opts,
      ukf_Innovation = ukf_default_Innovation E\<rparr>"

section \<open>ukf\_airspeed\<close>

record UkfAirspeedOptions =
  uaso_wind_enu_mps :: Vector3d
  uaso_sigma_mps :: real
  uaso_innovation_gate :: real

definition UkfAirspeedOptions_default :: UkfAirspeedOptions where
  "UkfAirspeedOptions_default =
     \<lparr>uaso_wind_enu_mps = Vector3d_Zero,
      uaso_sigma_mps = 0.5,
      uaso_innovation_gate = 0\<rparr>"

definition UkfAirspeed_Predict :: "eigen_ops \<Rightarrow> UkfAirspeedOptions \<Rightarrow> UkfNominalState \<Rightarrow> LocalTangentPlane option \<Rightarrow> MatrixXd" where
  "UkfAirspeed_Predict E opts s ctx =
     (let R = e_rotation_matrix E (unom_orientation_body_to_enu s);
          v_air = e_sub E (vec (eigen (unom_velocity_enu_mps s))) (vec (uaso_wind_enu_mps opts))
      in Matrix_Constant 1 1 (e_norm E (e_mul E (e_transpose E R) v_air)))"

definition UkfAirspeed_Observe ::
  "eigen_ops \<Rightarrow> UkfAirspeedOptions \<Rightarrow> SensorMeasurement \<Rightarrow> LocalTangentPlane option \<Rightarrow> cpp_exception + MatrixXd option" where
  "UkfAirspeed_Observe E opts m ctx =
     bind_sum (get_Airspeed m) (\<lambda>asp.
       if asp_validity asp \<noteq> Valid \<or> asp_airspeed_mps asp < 0 then Inr None
       else Inr (Some (Matrix_Constant 1 1 (asp_airspeed_mps asp))))"

definition UkfAirspeed_NoiseCovariance ::
  "eigen_ops \<Rightarrow> UkfAirspeedOptions \<Rightarrow> SensorMeasurement \<Rightarrow> LocalTangentPlane option \<Rightarrow> cpp_exception + MatrixXd" where
  "UkfAirspeed_NoiseCovariance E opts m ctx =
     Inr (Matrix_Constant 1 1 (uaso_sigma_mps opts * uaso_sigma_mps opts))"

definition UkfAirspeed :: "eigen_ops \<Rightarrow> UkfAirspeedOptions \<Rightarrow> IUkfMeasurementModel" where
  "UkfAirspeed E opts =
     \<lparr>ukf_Name = ''Unknown'', ukf_CanHandle = (\<lambda>m. \<not> isl (get_Airspeed m)),
      ukf_MeasurementDim = (\<lambda>_. Inr 1), ukf_Predict = UkfAirspeed_Predict E opts,
      ukf_Observe = UkfAirspeed_Observe E opts, ukf_NoiseCovariance = UkfAirspeed_NoiseCovariance E opts,
      ukf_Innovation = ukf_default_Innovation E\<rparr>"

section \<open>ukf\_optical\_flow\<close>

record UkfOpticalFlowOptions =
  uofo_fallback_altitude_m :: real
  uofo_sigma_radps :: real
  uofo_innovation_gate :: real

definition UkfOpticalFlowOptions_default :: UkfOpticalFlowOptions where
  "UkfOpticalFlowOptions_default =
     \<lparr>uofo_fallback_altitude_m = 10,
      uofo_sigma_radps = 0.01,
      uofo_innovation_gate = 0\<rparr>"

definition UkfOpticalFlow_Predict :: "eigen_ops \<Rightarrow> UkfOpticalFlowOptions \<Rightarrow> UkfNominalState \<Rightarrow> LocalTangentPlane option \<Rightarrow> MatrixXd" where
  "UkfOpticalFlow_Predict E opts s ctx =
     (let vb = body_velocity E s in mat_of_rows 2 1 [[coeff vb 0 0], [coeff vb 1 0]])"

definition UkfOpticalFlow_Observe ::
  "eigen_ops \<Rightarrow> UkfOpticalFlowOptions \<Rightarrow> SensorMeasurement \<Rightarrow> LocalTangentPlane option \<Rightarrow> cpp_exception + MatrixXd option" where
  "UkfOpticalFlow_Observe E opts m ctx =
     bind_sum (get_OpticalFlow m) (\<lambda>flow.
       if of_validity flow \<noteq> Valid then Inr None
       else
         (case of_integration_time_s flow of
            None \<Rightarrow> Inr None
          | Some dt \<Rightarrow>
              (if dt < 1 / 10 ^ 6 then Inr None
               else
                 (let z = value_or (of_ground_distance_m flow) (uofo_fallback_altitude_m opts) in
                  if z < 0.1 then Inr None
                  else Inr (Some (mat_of_rows 2 1
                         [[of_integrated_flow_x_rad flow / dt * z], [of_integrated_flow_y_rad flow / dt * z]]))))))"

definition UkfOpticalFlow_NoiseCovariance ::
  "eigen_ops \<Rightarrow> UkfOpticalFlowOptions \<Rightarrow> SensorMeasurement \<Rightarrow> LocalTangentPlane option \<Rightarrow> cpp_exception + MatrixXd" where
  "UkfOpticalFlow_NoiseCovariance E opts m ctx =
     bind_sum (get_OpticalFlow m) (\<lambda>flow.
       let z = value_or (of_ground_distance_m flow) (uofo_fallback_altitude_m opts);
           sv = uofo_sigma_radps opts * max z 0.1
       in Inr (e_scale E (sv * sv) (Matrix_Identity 2)))"

definition UkfOpticalFlow :: "eigen_ops \<Rightarrow> UkfOpticalFlowOptions \<Rightarrow> IUkfMeasurementModel" where
  "UkfOpticalFlow E opts =
     \<lparr>ukf_Name = ''Unknown'', ukf_CanHandle = (\<lambda>m. \<not> isl (get_OpticalFlow m)),
      ukf_MeasurementDim = (\<lambda>_. Inr 2), ukf_Predict = UkfOpticalFlow_Predict E opts,
      ukf_Observe = UkfOpticalFlow_Observe E opts, ukf_NoiseCovariance = UkfOpticalFlow_NoiseCovariance E opts,
      ukf_Innovation = ukf_default_Innovation E\<rparr>"

section \<open>ukf\_radar\_altimeter\<close>

record UkfRadarAltimeterOptions =
  urao_terrain_elevation_m :: real
  urao_sigma_m :: "real option"
  urao_innovation_gate :: real

definition UkfRadarAltimeterOptions_default :: UkfRadarAltimeterOptions where
  "UkfRadarAltimeterOptions_default =
     \<lparr>urao_terrain_elevation_m = 0,
      urao_sigma_m = None,
      urao_innovation_gate = 0\<rparr>"

definition UkfRadarAltimeter_Predict :: "eigen_ops \<Rightarrow> UkfRadarAltimeterOptions \<Rightarrow> UkfNominalState \<Rightarrow> LocalTangentPlane option \<Rightarrow> MatrixXd" where
  "UkfRadarAltimeter_Predict E opts s ctx =
     Matrix_Constant 1 1 (Vec3_z (unom_position_enu_m s) - urao_terrain_elevation_m opts)"

definition UkfRadarAltimeter_Observe ::
  "eigen_ops \<Rightarrow> UkfRadarAltimeterOptions \<Rightarrow> SensorMeasurement \<Rightarrow> LocalTangentPlane option \<Rightarrow> cpp_exception + MatrixXd option" where
  "UkfRadarAltimeter_Observe E opts m ctx =
     bind_sum (get_RadarAltimeter m) (\<lambda>ralt.
       if ralt_validity ralt = Valid \<and> ralt_surface ralt \<noteq> Surface_Invalid \<and> ralt_range_m ralt \<ge> 0
       then Inr (Some (Matrix_Constant 1 1 (ralt_range_m ralt)))
       else Inr None)"

definition UkfRadarAltimeter_NoiseCovariance ::
  "eigen_ops \<Rightarrow> UkfRadarAltimeterOptions \<Rightarrow> SensorMeasurement \<Rightarrow> LocalTangentPlane option \<Rightarrow> cpp_exception + MatrixXd" where
  "UkfRadarAltimeter_NoiseCovariance E opts m ctx =
     (let s = value_or (urao_sigma_m opts) 0.5 in Inr (Matrix_Constant 1 1 (s * s)))"

definition UkfRadarAltimeter :: "eigen_ops \<Rightarrow> UkfRadarAltimeterOptions \<Rightarrow> IUkfMeasurementModel" where
  "UkfRadarAltimeter E opts =
     \<lparr>ukf_Name = ''Unknown'', ukf_CanHandle = (\<lambda>m. \<not> isl (get_RadarAltimeter m)),
      ukf_MeasurementDim = (\<lambda>_. Inr 1), ukf_Predict = UkfRadarAltimeter_Predict E opts,
      ukf_Observe = UkfRadarAltimeter_Observe E opts, ukf_NoiseCovariance = UkfRadarAltimeter_NoiseCovariance E opts,
      ukf_Innovation = ukf_default_Innovation E\<rparr>"

section \<open>ukf\_dvl\<close>

record UkfDvlOptions =
  udvo_dvl_to_body_rotation :: MatrixXd
  udvo_bottom_track_only :: bool
  udvo_sigma_mps :: "real option"
  udvo_innovation_gate :: real

definition UkfDvlOptions_default :: UkfDvlOptions where
  "UkfDvlOptions_default =
     \<lparr>udvo_dvl_to_body_rotation = Matrix_Identity 3,
      udvo_bottom_track_only = False,
      udvo_sigma_mps = None,
      udvo_innovation_gate = 0\<rparr>"

definition UkfDvl_Predict :: "eigen_ops \<Rightarrow> UkfDvlOptions \<Rightarrow> UkfNominalState \<Rightarrow> LocalTangentPlane option \<Rightarrow> MatrixXd" where
  "UkfDvl_Predict E opts s ctx =
     e_mul E (e_mul E (e_transpose E (udvo_dvl_to_body_rotation opts))
         (e_transpose E (e_rotation_matrix E (unom_orientation_body_to_enu s))))
       (vec (eigen (unom_velocity_enu_mps s)))"

definition UkfDvl_Observe ::
  "eigen_ops \<Rightarrow> UkfDvlOptions \<Rightarrow> SensorMeasurement \<Rightarrow> LocalTangentPlane option \<Rightarrow> cpp_exception + MatrixXd option" where
  "UkfDvl_Observe E opts m ctx =
     bind_sum (get_Dvl m) (\<lambda>dvl.
       if dvl_validity dvl \<noteq> Valid then Inr None
       else if udvo_bottom_track_only opts \<and> dvl_reference dvl \<noteq> BottomTrack then Inr None
       else Inr (Some (vec (eigen (dvl_velocity_mps dvl)))))"

definition UkfDvl_NoiseCovariance ::
  "eigen_ops \<Rightarrow> UkfDvlOptions \<Rightarrow> SensorMeasurement \<Rightarrow> LocalTangentPlane option \<Rightarrow> cpp_exception + MatrixXd" where
  "UkfDvl_NoiseCovariance E opts m ctx =
     bind_sum (get_Dvl m) (\<lambda>dvl.
       if e_trace E (dvl_velocity_covariance_m2ps2 dvl) > 1 / 10 ^ 12
       then Inr (dvl_velocity_covariance_m2ps2 dvl)
       else Inr (sigma3 E (value_or (udvo_sigma_mps opts) 0.05)))"

definition UkfDvl :: "eigen_ops \<Rightarrow> UkfDvlOptions \<Rightarrow> IUkfMeasurementModel" where
  "UkfDvl E opts =
     \<lparr>ukf_Name = ''Unknown'', ukf_CanHandle = (\<lambda>m. \<not> isl (get_Dvl m)),
      ukf_MeasurementDim = (\<lambda>_. Inr 3), ukf_Predict = UkfDvl_Predict E opts,
      ukf_Observe = UkfDvl_Observe E opts, ukf_NoiseCovariance = UkfDvl_NoiseCovariance E opts,
      ukf_Innovation = ukf_default_Innovation E\<rparr>"

section \<open>ukf\_echo\_sounder\<close>

record UkfEchoSounderOptions =
  ueso_sound_speed_mps :: real
  ueso_depth_origin_m :: real
  ueso_sigma_m :: "real option"
  ueso_innovation_gate :: real

definition UkfEchoSounderOptions_default :: UkfEchoSounderOptions where
  "UkfEchoSounderOptions_default =
     \<lparr>ueso_sound_speed_mps = 1500,
      ueso_depth_origin_m = 0,
      ueso_sigma_m = None,
      ueso_innovation_gate = 0\<rparr>"

definition UkfEchoSounder_Predict :: "eigen_ops \<Rightarrow> UkfEchoSounderOptions \<Rightarrow> UkfNominalState \<Rightarrow> LocalTangentPlane option \<Rightarrow> MatrixXd" where
  "UkfEchoSounder_Predict E opts s ctx =
     Matrix_Constant 1 1 (- Vec3_z (unom_position_enu_m s) + ueso_depth_origin_m opts)"

definition UkfEchoSounder_Observe ::
  "eigen_ops \<Rightarrow> UkfEchoSounderOptions \<Rightarrow> SensorMeasurement \<Rightarrow> LocalTangentPlane option \<Rightarrow> cpp_exception + MatrixXd option" where
  "UkfEchoSounder_Observe E opts m ctx =
     bind_sum (get_EchoSounder m) (\<lambda>es.
       if es_validity es \<noteq> Valid \<or> es_depth_or_range_m es < 0 then Inr None
       else
         (let sound_speed = value_or (es_sound_speed_mps es) (ueso_sound_speed_mps opts)
          in Inr (Some (Matrix_Constant 1 1
                   (es_depth_or_range_m es * sound_speed / ueso_sound_speed_mps opts)))))"

definition UkfEchoSounder_NoiseCovariance ::
  "eigen_ops \<Rightarrow> UkfEchoSounderOptions \<Rightarrow> SensorMeasurement \<Rightarrow> LocalTangentPlane option \<Rightarrow> cpp_exception + MatrixXd" where
  "UkfEchoSounder_NoiseCovariance E opts m ctx =
     (let s = value_or (ueso_sigma_m opts) 0.2 in Inr (Matrix_Constant 1 1 (s * s)))"

definition UkfEchoSounder :: "eigen_ops \<Rightarrow> UkfEchoSounderOptions \<Rightarrow> IUkfMeasurementModel" where
  "UkfEchoSounder E opts =
     \<lparr>ukf_Name = ''Unknown'', ukf_CanHandle = (\<lambda>m. \<not> isl (get_EchoSounder m)),
      ukf_MeasurementDim = (\<lambda>_. Inr 1), ukf_Predict = UkfEchoSounder_Predict E opts,
      ukf_Observe = UkfEchoSounder_Observe E opts, ukf_NoiseCovariance = UkfEchoSounder_NoiseCovariance E opts,
      ukf_Innovation = ukf_default_Innovation E\<rparr>"

section \<open>ukf\_external\_pose\<close>

record UkfExternalPoseOptions =
  uepo_use_position :: bool
  uepo_use_orientation :: bool
  uepo_position_sigma_m :: "real option"
  uepo_orientation_sigma_rad :: "real option"
  uepo_innovation_gate :: real

definition UkfExternalPoseOptions_default :: UkfExternalPoseOptions where
  "UkfExternalPoseOptions_default =
     \<lparr>uepo_use_position = True,
      uepo_use_orientation = True,
      uepo_position_sigma_m = None,
      uepo_orientation_sigma_rad = None,
      uepo_innovation_gate = 0\<rparr>"

text \<open>\<open>LogMapSo3((Quaterniond(R_ecef_to_enu) * q).normalized())\<close>.\<close>

definition observed_attitude :: "eigen_ops \<Rightarrow> LocalTangentPlane \<Rightarrow> Quaterniond \<Rightarrow> MatrixXd" where
  "observed_attitude E ltp q =
     LogMapSo3 E (e_quat_normalized E (e_quat_mul E (e_quat_of_matrix E (ecef_to_enu_rotation ltp)) q))"

definition UkfExternalPose_Predict :: "eigen_ops \<Rightarrow> UkfExternalPoseOptions \<Rightarrow> UkfNominalState \<Rightarrow> LocalTangentPlane option \<Rightarrow> MatrixXd" where
  "UkfExternalPose_Predict E opts s ctx =
     stack3 ((if uepo_use_position opts then [vec (eigen (unom_position_enu_m s))] else []) @
       (if uepo_use_orientation opts then [LogMapSo3 E (unom_orientation_body_to_enu s)] else []))"

definition UkfExternalPose_Observe ::
  "eigen_ops \<Rightarrow> UkfExternalPoseOptions \<Rightarrow> SensorMeasurement \<Rightarrow> LocalTangentPlane option \<Rightarrow> cpp_exception + MatrixXd option" where
  "UkfExternalPose_Observe E opts m ctx =
     bind_sum (get_ExternalPose m) (\<lambda>ep.
       if ep_validity ep \<noteq> Valid then Inr None
       else
         (case ctx of
            None \<Rightarrow> Inr None
          | Some ltp \<Rightarrow>
              Inr (Some (stack3
                ((if uepo_use_position opts then [vec (eigen (EcefToEnu E ltp (ep_position_ecef_m ep)))] else []) @
                 (if uepo_use_orientation opts then [observed_attitude E ltp (ep_orientation_body_to_ecef ep)]
                  else []))))))"

definition UkfExternalPose_NoiseCovariance ::
  "eigen_ops \<Rightarrow> UkfExternalPoseOptions \<Rightarrow> SensorMeasurement \<Rightarrow> LocalTangentPlane option \<Rightarrow> cpp_exception + MatrixXd" where
  "UkfExternalPose_NoiseCovariance E opts m ctx =
     bind_sum (get_ExternalPose m) (\<lambda>ep.
       let R_cov = rotated E (ctx_rotation ctx) (get_block (ep_covariance ep) 0 0 3 3);
           R_pos = (case uepo_position_sigma_m opts of
                      Some s \<Rightarrow> sigma3 E s
                    | None \<Rightarrow> (if e_trace E R_cov < 1 / 10 ^ 12 then e_scale E 4 (Matrix_Identity 3) else R_cov));
           R_att = sigma3 E (value_or (uepo_orientation_sigma_rad opts) 0.02)
       in Inr (stack_diag3 ((if uepo_use_position opts then [R_pos] else []) @
                            (if uepo_use_orientation opts then [R_att] else []))))"

definition UkfExternalPose :: "eigen_ops \<Rightarrow> UkfExternalPoseOptions \<Rightarrow> IUkfMeasurementModel" where
  "UkfExternalPose E opts =
     \<lparr>ukf_Name = ''Unknown'', ukf_CanHandle = (\<lambda>m. \<not> isl (get_ExternalPose m)),
      ukf_MeasurementDim = (\<lambda>_. Inr ((if uepo_use_position opts then 3 else 0) + (if uepo_use_orientation opts then 3 else 0))), ukf_Predict = UkfExternalPose_Predict E opts,
      ukf_Observe = UkfExternalPose_Observe E opts, ukf_NoiseCovariance = UkfExternalPose_NoiseCovariance E opts,
      ukf_Innovation = ukf_default_Innovation E\<rparr>"

section \<open>ukf\_external\_velocity\<close>

record UkfExternalVelocityOptions =
  uevo_sigma_linear_mps :: "real option"
  uevo_innovation_gate :: real

definition UkfExternalVelocityOptions_default :: UkfExternalVelocityOptions where
  "UkfExternalVelocityOptions_default =
     \<lparr>uevo_sigma_linear_mps = None,
      uevo_innovation_gate = 0\<rparr>"

definition UkfExternalVelocity_Predict :: "eigen_ops \<Rightarrow> UkfExternalVelocityOptions \<Rightarrow> UkfNominalState \<Rightarrow> LocalTangentPlane option \<Rightarrow> MatrixXd" where
  "UkfExternalVelocity_Predict E opts s ctx =
     body_velocity E s"

definition UkfExternalVelocity_Observe ::
  "eigen_ops \<Rightarrow> UkfExternalVelocityOptions \<Rightarrow> SensorMeasurement \<Rightarrow> LocalTangentPlane option \<Rightarrow> cpp_exception + MatrixXd option" where
  "UkfExternalVelocity_Observe E opts m ctx =
     bind_sum (get_ExternalVelocity m) (\<lambda>ev.
       if ev_validity ev \<noteq> Valid then Inr None
       else Inr (Some (vec (eigen (ev_linear_velocity_body_mps ev)))))"

definition UkfExternalVelocity_NoiseCovariance ::
  "eigen_ops \<Rightarrow> UkfExternalVelocityOptions \<Rightarrow> SensorMeasurement \<Rightarrow> LocalTangentPlane option \<Rightarrow> cpp_exception + MatrixXd" where
  "UkfExternalVelocity_NoiseCovariance E opts m ctx =
     bind_sum (get_ExternalVelocity m) (\<lambda>ev.
       let C = get_block (ev_covariance ev) 0 0 3 3 in
       if e_trace E C > 1 / 10 ^ 12 then Inr C
       else Inr (sigma3 E (value_or (uevo_sigma_linear_mps opts) 0.1)))"

definition UkfExternalVelocity :: "eigen_ops \<Rightarrow> UkfExternalVelocityOptions \<Rightarrow> IUkfMeasurementModel" where
  "UkfExternalVelocity E opts =
     \<lparr>ukf_Name = ''Unknown'', ukf_CanHandle = (\<lambda>m. \<not> isl (get_ExternalVelocity m)),
      ukf_MeasurementDim = (\<lambda>_. Inr 3), ukf_Predict = UkfExternalVelocity_Predict E opts,
      ukf_Observe = UkfExternalVelocity_Observe E opts, ukf_NoiseCovariance = UkfExternalVelocity_NoiseCovariance E opts,
      ukf_Innovation = ukf_default_Innovation E\<rparr>"

section \<open>ukf\_external\_odometry\<close>

record UkfExternalOdometryOptions =
  uexo_use_position :: bool
  uexo_use_velocity :: bool
  uexo_use_orientation :: bool
  uexo_position_sigma_m :: "real option"
  uexo_velocity_sigma_mps :: "real option"
  uexo_orientation_sigma_rad :: "real option"
  uexo_innovation_gate :: real

definition UkfExternalOdometryOptions_default :: UkfExternalOdometryOptions where
  "UkfExternalOdometryOptions_default =
     \<lparr>uexo_use_position = True,
      uexo_use_velocity = True,
      uexo_use_orientation = True,
      uexo_position_sigma_m = None,
      uexo_velocity_sigma_mps = None,
      uexo_orientation_sigma_rad = None,
      uexo_innovation_gate = 0\<rparr>"

definition UkfExternalOdometry_Predict :: "eigen_ops \<Rightarrow> UkfExternalOdometryOptions \<Rightarrow> UkfNominalState \<Rightarrow> LocalTangentPlane option \<Rightarrow> MatrixXd" where
  "UkfExternalOdometry_Predict E opts s ctx =
     stack3 ((if uexo_use_position opts then [vec (eigen (unom_position_enu_m s))] else []) @
       (if uexo_use_velocity opts then [vec (eigen (unom_velocity_enu_mps s))] else []) @
       (if uexo_use_orientation opts then [LogMapSo3 E (unom_orientation_body_to_enu s)] else []))"

definition UkfExternalOdometry_Observe ::
  "eigen_ops \<Rightarrow> UkfExternalOdometryOptions \<Rightarrow> SensorMeasurement \<Rightarrow> LocalTangentPlane option \<Rightarrow> cpp_exception + MatrixXd option" where
  "UkfExternalOdometry_Observe E opts m ctx =
     bind_sum (get_ExternalOdometry m) (\<lambda>eo.
       if eo_validity eo \<noteq> Valid then Inr None
       else
         (case ctx of
            None \<Rightarrow> Inr None
          | Some ltp \<Rightarrow>
              Inr (Some (stack3
                ((if uexo_use_position opts then [vec (eigen (EcefToEnu E ltp (eo_position_ecef_m eo)))] else []) @
                 (if uexo_use_velocity opts
                  then [e_mul E (ecef_to_enu_rotation ltp) (vec (eigen (eo_velocity_ecef_mps eo)))] else []) @
                 (if uexo_use_orientation opts then [observed_attitude E ltp (eo_orientation_body_to_ecef eo)]
                  else []))))))"

definition UkfExternalOdometry_NoiseCovariance ::
  "eigen_ops \<Rightarrow> UkfExternalOdometryOptions \<Rightarrow> SensorMeasurement \<Rightarrow> LocalTangentPlane option \<Rightarrow> cpp_exception + MatrixXd" where
  "UkfExternalOdometry_NoiseCovariance E opts m ctx =
     Inr (stack_diag3
       ((if uexo_use_position opts then [sigma3 E (value_or (uexo_position_sigma_m opts) 1)] else []) @
        (if uexo_use_velocity opts then [sigma3 E (value_or (uexo_velocity_sigma_mps opts) 0.1)] else []) @
        (if uexo_use_orientation opts then [sigma3 E (value_or (uexo_orientation_sigma_rad opts) 0.02)]
         else [])))"

definition UkfExternalOdometry :: "eigen_ops \<Rightarrow> UkfExternalOdometryOptions \<Rightarrow> IUkfMeasurementModel" where
  "UkfExternalOdometry E opts =
     \<lparr>ukf_Name = ''Unknown'', ukf_CanHandle = (\<lambda>m. \<not> isl (get_ExternalOdometry m)),
      ukf_MeasurementDim = (\<lambda>_. Inr ((if uexo_use_position opts then 3 else 0) + (if uexo_use_velocity opts then 3 else 0) +
        (if uexo_use_orientation opts then 3 else 0))), ukf_Predict = UkfExternalOdometry_Predict E opts,
      ukf_Observe = UkfExternalOdometry_Observe E opts, ukf_NoiseCovariance = UkfExternalOdometry_NoiseCovariance E opts,
      ukf_Innovation = ukf_default_Innovation E\<rparr>"

section \<open>ukf\_aiding\_solution\<close>

record UkfAidingSolutionOptions =
  uado_min_match_score :: real
  uado_position_sigma_m :: "real option"
  uado_velocity_sigma_mps :: "real option"
  uado_attitude_sigma_rad :: "real option"
  uado_innovation_gate :: real

definition UkfAidingSolutionOptions_default :: UkfAidingSolutionOptions where
  "UkfAidingSolutionOptions_default =
     \<lparr>uado_min_match_score = 0,
      uado_position_sigma_m = None,
      uado_velocity_sigma_mps = None,
      uado_attitude_sigma_rad = None,
      uado_innovation_gate = 0\<rparr>"

definition ActiveBlocks :: "AidingSolution \<Rightarrow> bool \<times> bool \<times> bool" where
  "ActiveBlocks aid =
     (aid_position_ecef_m aid \<noteq> None, aid_velocity_ecef_mps aid \<noteq> None,
      aid_orientation_body_to_ecef aid \<noteq> None \<and> OrientationValidity_any (aid_orientation_validity aid))"

text \<open>The noise of a block: a positive override, or the rotated covariance with a floor.\<close>

definition ukf_aiding_noise ::
  "eigen_ops \<Rightarrow> LocalTangentPlane option \<Rightarrow> real option \<Rightarrow> MatrixXd \<Rightarrow> real \<Rightarrow> MatrixXd" where
  "ukf_aiding_noise E ctx sigma cov d =
     (let s = value_or sigma 0 in
      if s > 0 then sigma3 E s
      else
        (let C = rotated E (ctx_rotation ctx) cov in
         if e_trace E C < 1 / 10 ^ 12 then e_scale E d (Matrix_Identity 3) else C))"

definition UkfAidingSolution_Predict :: "eigen_ops \<Rightarrow> UkfAidingSolutionOptions \<Rightarrow> UkfNominalState \<Rightarrow> LocalTangentPlane option \<Rightarrow> MatrixXd" where
  "UkfAidingSolution_Predict E opts s ctx =
     stack3 [vec (eigen (unom_position_enu_m s)), vec (eigen (unom_velocity_enu_mps s)),
       LogMapSo3 E (unom_orientation_body_to_enu s)]"

definition UkfAidingSolution_Observe ::
  "eigen_ops \<Rightarrow> UkfAidingSolutionOptions \<Rightarrow> SensorMeasurement \<Rightarrow> LocalTangentPlane option \<Rightarrow> cpp_exception + MatrixXd option" where
  "UkfAidingSolution_Observe E opts m ctx =
     bind_sum (get_AidingSolution m) (\<lambda>aid.
       if aid_validity aid \<noteq> Valid then Inr None
       else if (case aid_match_score aid of None \<Rightarrow> False | Some score \<Rightarrow> score < uado_min_match_score opts)
       then Inr None
       else
         (case ctx of
            None \<Rightarrow> Inr None
          | Some ltp \<Rightarrow>
              (let R = ecef_to_enu_rotation ltp;
                   blocks =
                     (case aid_position_ecef_m aid of
                        None \<Rightarrow> [] | Some p \<Rightarrow> [vec (eigen (EcefToEnu E ltp p))]) @
                     (case aid_velocity_ecef_mps aid of
                        None \<Rightarrow> [] | Some v \<Rightarrow> [e_mul E R (vec (eigen v))]) @
                     (case aid_orientation_body_to_ecef aid of
                        None \<Rightarrow> []
                      | Some q \<Rightarrow> (if OrientationValidity_any (aid_orientation_validity aid)
                                  then [observed_attitude E ltp q] else []))
               in if blocks = [] then Inr None else Inr (Some (stack3 blocks)))))"

definition UkfAidingSolution_NoiseCovariance ::
  "eigen_ops \<Rightarrow> UkfAidingSolutionOptions \<Rightarrow> SensorMeasurement \<Rightarrow> LocalTangentPlane option \<Rightarrow> cpp_exception + MatrixXd" where
  "UkfAidingSolution_NoiseCovariance E opts m ctx =
     bind_sum (get_AidingSolution m) (\<lambda>aid.
       case ActiveBlocks aid of (has_pos, has_vel, has_att) \<Rightarrow>
         Inr (stack_diag3
           ((if has_pos then [ukf_aiding_noise E ctx (uado_position_sigma_m opts)
               (aid_position_covariance_ecef_m2 aid) 100] else []) @
            (if has_vel then [ukf_aiding_noise E ctx (uado_velocity_sigma_mps opts)
               (aid_velocity_covariance_ecef_mps2 aid) 1] else []) @
            (if has_att then [sigma3 E (value_or (uado_attitude_sigma_rad opts) 0.05)] else []))))"

definition UkfAidingSolution :: "eigen_ops \<Rightarrow> UkfAidingSolutionOptions \<Rightarrow> IUkfMeasurementModel" where
  "UkfAidingSolution E opts =
     \<lparr>ukf_Name = ''Unknown'', ukf_CanHandle = (\<lambda>m. \<not> isl (get_AidingSolution m)),
      ukf_MeasurementDim = (\<lambda>m. bind_sum (get_AidingSolution m) (\<lambda>aid.
        case ActiveBlocks aid of (has_pos, has_vel, has_att) \<Rightarrow>
          Inr ((if has_pos then 3 else 0) + (if has_vel then 3 else 0) + (if has_att then 3 else 0)))), ukf_Predict = UkfAidingSolution_Predict E opts,
      ukf_Observe = UkfAidingSolution_Observe E opts, ukf_NoiseCovariance = UkfAidingSolution_NoiseCovariance E opts,
      ukf_Innovation = ukf_default_Innovation E\<rparr>"

section \<open>ukf\_star\_tracker\<close>

record UkfStarTrackerOptions =
  usto_star_tracker_to_body :: Quaterniond
  usto_sigma_yaw_rad :: real
  usto_sigma_pitch_rad :: real
  usto_sigma_roll_rad :: real
  usto_use_pitch_roll :: bool
  usto_innovation_gate :: real

definition UkfStarTrackerOptions_default :: UkfStarTrackerOptions where
  "UkfStarTrackerOptions_default =
     \<lparr>usto_star_tracker_to_body = Quaterniond_Identity,
      usto_sigma_yaw_rad = 0.001,
      usto_sigma_pitch_rad = 0.001,
      usto_sigma_roll_rad = 0.001,
      usto_use_pitch_roll = True,
      usto_innovation_gate = 0\<rparr>"

definition ukf_QuaternionFromStarTracker ::
  "eigen_ops \<Rightarrow> real \<Rightarrow> real \<Rightarrow> real \<Rightarrow> Quaterniond \<Rightarrow> Quaterniond" where
  "ukf_QuaternionFromStarTracker E lon lat yaw sensor_to_body =
     (let q_lon = e_quat_of_angle_axis E lon (vec (Vector3d 0 0 1));
          q_lat = e_quat_of_angle_axis E (kPi / 2 - lat) (vec (Vector3d 0 1 0));
          q_yaw = e_quat_of_angle_axis E (- yaw) (vec (Vector3d 0 0 1))
      in e_quat_normalized E
           (e_quat_mul E (e_quat_mul E (e_quat_mul E q_lon q_lat) q_yaw) sensor_to_body))"

definition star_tracker_full :: "UkfStarTrackerOptions \<Rightarrow> StarTrackerMeasurement \<Rightarrow> bool" where
  "star_tracker_full opts st \<longleftrightarrow>
     usto_use_pitch_roll opts \<and> st_pitch_rad st \<noteq> None \<and> st_roll_rad st \<noteq> None"

definition UkfStarTracker_Innovation :: "eigen_ops \<Rightarrow> MatrixXd \<Rightarrow> MatrixXd \<Rightarrow> MatrixXd" where
  "UkfStarTracker_Innovation E z_obs z_pred =
     (let diff = e_sub E z_obs z_pred
      in MatrixXd (mat_rows diff) (mat_cols diff) (\<lambda>i j. WrapAngleRad (coeff diff i j)))"

text \<open>
  The full noise matrix is a default-constructed \<open>Matrix3d\<close> of which only the diagonal is
  assigned: the parameter \<open>uninit\<close> is what the memory holds elsewhere.
\<close>

definition UkfStarTracker_Predict :: "eigen_ops \<Rightarrow> UkfStarTrackerOptions \<Rightarrow> UkfNominalState \<Rightarrow> LocalTangentPlane option \<Rightarrow> MatrixXd" where
  "UkfStarTracker_Predict E opts s ctx =
     LogMapSo3 E (unom_orientation_body_to_enu s)"

definition UkfStarTracker_Observe ::
  "eigen_ops \<Rightarrow> UkfStarTrackerOptions \<Rightarrow> SensorMeasurement \<Rightarrow> LocalTangentPlane option \<Rightarrow> cpp_exception + MatrixXd option" where
  "UkfStarTracker_Observe E opts m ctx =
     bind_sum (get_StarTracker m) (\<lambda>st.
       if st_validity st \<noteq> Valid then Inr None
       else Inr (Some (LogMapSo3 E (ukf_QuaternionFromStarTracker E (st_longitude_rad st) (st_latitude_rad st)
              (st_yaw_rad st) (usto_star_tracker_to_body opts)))))"

definition UkfStarTracker_NoiseCovariance ::
  "eigen_ops \<Rightarrow> (nat \<Rightarrow> nat \<Rightarrow> real) \<Rightarrow> UkfStarTrackerOptions \<Rightarrow> SensorMeasurement \<Rightarrow> LocalTangentPlane option \<Rightarrow> cpp_exception + MatrixXd" where
  "UkfStarTracker_NoiseCovariance E uninit opts m ctx =
     bind_sum (get_StarTracker m) (\<lambda>st.
       let yaw = usto_sigma_yaw_rad opts * usto_sigma_yaw_rad opts in
       if star_tracker_full opts st
       then Inr (set_coeff (set_coeff (set_coeff (MatrixXd 3 3 uninit)
              0 0 (usto_sigma_roll_rad opts * usto_sigma_roll_rad opts))
              1 1 (usto_sigma_pitch_rad opts * usto_sigma_pitch_rad opts)) 2 2 yaw)
       else Inr (set_coeff (e_scale E (10 ^ 6) (Matrix_Identity 3)) 2 2 yaw))"

definition UkfStarTracker :: "eigen_ops \<Rightarrow> (nat \<Rightarrow> nat \<Rightarrow> real) \<Rightarrow> UkfStarTrackerOptions \<Rightarrow> IUkfMeasurementModel" where
  "UkfStarTracker E uninit opts =
     \<lparr>ukf_Name = ''Unknown'', ukf_CanHandle = (\<lambda>m. \<not> isl (get_StarTracker m)),
      ukf_MeasurementDim = (\<lambda>m. bind_sum (get_StarTracker m) (\<lambda>st. Inr (if star_tracker_full opts st then 3 else 1))), ukf_Predict = UkfStarTracker_Predict E opts,
      ukf_Observe = UkfStarTracker_Observe E opts, ukf_NoiseCovariance = UkfStarTracker_NoiseCovariance E uninit opts,
      ukf_Innovation = UkfStarTracker_Innovation E\<rparr>"

end
