(* ===== verification/Fg_UkfMoments.thy ===== *)
theory Fg_UkfMoments
  imports Fg_UkfModels
begin

text \<open>
  The unscented transform: the weights sum to one, the sigma points reproduce the mean and the
  covariance they were drawn from, and for a model that is linear in the error state, such as
  loosely coupled GNSS, the transformed points give exactly the innovation covariance and the
  cross covariance of the linear Kalman filter. Last, the observations that break it.
\<close>

section \<open>Accumulation loops\<close>

text \<open>
  What is asked of \<^verbatim>\<open>Eigen::LLT\<close>: a factor it returns for a symmetric matrix multiplies back. It reads the lower
  triangle only, so nothing is asked on a matrix that is not symmetric.
\<close>

definition llt_contract :: "(MatrixXd \<Rightarrow> bool \<times> MatrixXd) \<Rightarrow> bool" where
  "llt_contract llt \<longleftrightarrow>
     (\<forall>n A. square n A \<longrightarrow> symmetric A \<longrightarrow> square n (snd (llt A)) \<and>
        (fst (llt A) \<longrightarrow> (\<forall>i<n. \<forall>j<n.
           (\<Sum>k<n. coeff (snd (llt A)) i k * coeff (snd (llt A)) j k) = coeff A i j)))"

lemma foldl_add:
  assumes E: "eigen_algebra E" and x: "\<And>k. k < n \<Longrightarrow> mat_rows (x k) = r \<and> mat_cols (x k) = c"
    and z: "mat_rows z = r" "mat_cols z = c"
  shows "mat_rows (foldl (\<lambda>a k. e_add E a (x k)) z [0..<n]) = r \<and>
    mat_cols (foldl (\<lambda>a k. e_add E a (x k)) z [0..<n]) = c \<and>
    (\<forall>i<r. \<forall>j<c. coeff (foldl (\<lambda>a k. e_add E a (x k)) z [0..<n]) i j = coeff z i j + (\<Sum>k<n. coeff (x k) i j))"
  using x
proof (induction n)
  case (Suc n)
  then show ?case using E by (auto simp: algebra_simps)
qed (use z in simp)

lemma weighted_sum_coeff:
  assumes "eigen_algebra E" and "\<And>k. k < kNumSigmaPoints \<Longrightarrow> mat_rows (x k) = r \<and> mat_cols (x k) = c"
    and "mat_rows z = r" "mat_cols z = c"
  shows "mat_rows (weighted_sum E w z x) = r" "mat_cols (weighted_sum E w z x) = c"
    "i < r \<Longrightarrow> j < c \<Longrightarrow> coeff (weighted_sum E w z x) i j =
       coeff z i j + (\<Sum>k<kNumSigmaPoints. coeff w k 0 * coeff (x k) i j)"
  using foldl_add [OF assms(1), of kNumSigmaPoints "\<lambda>k. e_scale E (coeff w k 0) (x k)" r c z] assms
  by (auto simp: weighted_sum_def)

lemma weighted_outer_coeff:
  assumes E: "eigen_algebra E" and x: "\<And>k. k < kNumSigmaPoints \<Longrightarrow> mat_rows (x k) = r \<and> mat_cols (x k) = 1"
    and y: "\<And>k. k < kNumSigmaPoints \<Longrightarrow> mat_rows (y k) = c \<and> mat_cols (y k) = 1"
    and z: "mat_rows z = r" "mat_cols z = c"
  shows "mat_rows (weighted_outer E w z x y) = r" "mat_cols (weighted_outer E w z x y) = c"
    "i < r \<Longrightarrow> j < c \<Longrightarrow> coeff (weighted_outer E w z x y) i j =
       coeff z i j + (\<Sum>k<kNumSigmaPoints. coeff w k 0 * coeff (x k) i 0 * coeff (y k) j 0)"
proof -
  let ?t = "\<lambda>k. e_mul E (e_scale E (coeff w k 0) (x k)) (e_transpose E (y k))"
  have t: "k < kNumSigmaPoints \<Longrightarrow> mat_rows (?t k) = r \<and> mat_cols (?t k) = c" for k
    using E x y by simp
  note f = foldl_add [OF E t z]
  show "mat_rows (weighted_outer E w z x y) = r" "mat_cols (weighted_outer E w z x y) = c"
    using f by (simp_all add: weighted_outer_def)
  assume ij: "i < r" "j < c"
  have "coeff (?t k) i j = coeff w k 0 * coeff (x k) i 0 * coeff (y k) j 0" if "k < kNumSigmaPoints" for k
    using E x [OF that] y [OF that] ij by simp
  then show "coeff (weighted_outer E w z x y) i j =
      coeff z i j + (\<Sum>k<kNumSigmaPoints. coeff w k 0 * coeff (x k) i 0 * coeff (y k) j 0)"
    using f ij by (simp add: weighted_outer_def)
qed

text \<open>The centre point and the fifteen symmetric pairs.\<close>

lemma sum_sigma_points:
  "(\<Sum>k<kNumSigmaPoints. f k) = f 0 + (\<Sum>i<kStateSize. f (i + 1) + f (i + 1 + kStateSize))"
proof -
  have "(\<Sum>k<kNumSigmaPoints. f k) = (\<Sum>k<Suc (kStateSize + kStateSize). f k)"
    by (simp add: kNumSigmaPoints_def mult_2)
  also have "\<dots> = f 0 + (\<Sum>k<kStateSize + kStateSize. f (Suc k))" by (rule sum.lessThan_Suc_shift)
  also have "(\<Sum>k<kStateSize + kStateSize. f (Suc k)) =
      (\<Sum>k<kStateSize. f (Suc k)) + (\<Sum>k<kStateSize. f (Suc (k + kStateSize)))"
  proof -
    have "(\<Sum>k<kStateSize + kStateSize. f (Suc k)) =
        (\<Sum>k<kStateSize. f (Suc k)) + (\<Sum>k=kStateSize..<kStateSize + kStateSize. f (Suc k))"
      by (metis add_leE lessThan_atLeast0 nat_le_linear sum.atLeastLessThan_concat zero_le)
    also have "(\<Sum>k=kStateSize..<kStateSize + kStateSize. f (Suc k)) = (\<Sum>k<kStateSize. f (Suc (k + kStateSize)))"
      using sum.shift_bounds_nat_ivl [of "\<lambda>k. f (Suc k)" 0 kStateSize kStateSize] by (simp add: lessThan_atLeast0)
    finally show ?thesis .
  qed
  finally show ?thesis by (simp add: sum.distrib)
qed

section \<open>Weights and sigma points\<close>

definition merwe_scale :: "MerweSigmaParams \<Rightarrow> real" where
  "merwe_scale p = real kStateSize + merwe_lambda p"

lemma weights_coeff:
  "coeff (mean_weights (SigmaWeights_Compute p)) 0 0 = merwe_lambda p / merwe_scale p"
  "0 < i \<Longrightarrow> coeff (mean_weights (SigmaWeights_Compute p)) i 0 = 1 / (2 * merwe_scale p)"
  "0 < i \<Longrightarrow> coeff (cov_weights (SigmaWeights_Compute p)) i 0 = 1 / (2 * merwe_scale p)"
  by (simp_all add: SigmaWeights_Compute_def Let_def merwe_scale_def)

lemma mean_weights_sum:
  assumes "merwe_scale p \<noteq> 0"
  shows "(\<Sum>k<kNumSigmaPoints. coeff (mean_weights (SigmaWeights_Compute p)) k 0) = 1"
proof -
  have "(\<Sum>k<kNumSigmaPoints. coeff (mean_weights (SigmaWeights_Compute p)) k 0) =
      merwe_lambda p / merwe_scale p + real kStateSize * (2 * (1 / (2 * merwe_scale p)))"
    unfolding sum_sigma_points by (simp add: weights_coeff)
  also have "\<dots> = (merwe_lambda p + real kStateSize) / merwe_scale p" by (simp add: add_divide_distrib)
  finally show ?thesis using assms by (simp add: merwe_scale_def add.commute)
qed

text \<open>The points drawn when the decomposition succeeds.\<close>

lemma sigma_point_coeff:
  assumes E: "eigen_algebra E" and L: "mat_rows L = kStateSize" and r: "r < kStateSize"
  defines "M \<equiv> mat_of_cols kStateSize (sigma_columns E L)"
  shows "coeff (col M 0) r 0 = 0"
    "i < kStateSize \<Longrightarrow> coeff (col M (i + 1)) r 0 = coeff L r i"
    "i < kStateSize \<Longrightarrow> coeff (col M (i + 1 + kStateSize)) r 0 = - coeff L r i"
    "mat_rows (col M k) = kStateSize" "mat_cols (col M k) = 1" "mat_cols M = kNumSigmaPoints"
proof -
  show "coeff (col M 0) r 0 = 0"
    by (simp add: M_def col_def mat_of_cols_def sigma_columns_def get_block_def Matrix_Zero_def)
  show "i < kStateSize \<Longrightarrow> coeff (col M (i + 1)) r 0 = coeff L r i"
    by (simp add: M_def col_def mat_of_cols_def sigma_columns_def get_block_def nth_append)
  show "i < kStateSize \<Longrightarrow> coeff (col M (i + 1 + kStateSize)) r 0 = - coeff L r i"
  proof -
    assume i: "i < kStateSize"
    then have "sigma_columns E L ! (i + 1 + kStateSize) = e_neg E (get_block L 0 i kStateSize 1)"
      by (simp add: sigma_columns_def nth_append)
    moreover have "coeff (e_neg E (get_block L 0 i kStateSize 1)) r 0 = - coeff (get_block L 0 i kStateSize 1) r 0"
      using E r by simp
    ultimately show ?thesis by (simp add: M_def col_def mat_of_cols_def get_block_def)
  qed
  show "mat_rows (col M k) = kStateSize" "mat_cols (col M k) = 1"
    by (simp_all add: M_def col_def mat_of_cols_def)
  show "mat_cols M = kNumSigmaPoints" by (simp add: M_def mat_of_cols_def sigma_columns_def kNumSigmaPoints_def)
qed

locale sigma_points =
  fixes E :: eigen_ops and llt :: "MatrixXd \<Rightarrow> bool \<times> MatrixXd" and opts :: UkfOptions and s0 :: UkfState
  assumes algebra: "eigen_algebra E" and contract: "llt_contract llt"
    and scale: "merwe_scale (ukf_sigma_params opts) \<noteq> 0"
    and dim: "square kStateSize (ukf_covariance s0)" and sym: "symmetric (ukf_covariance s0)"
    and success: "fst (llt (e_scale E (merwe_scale (ukf_sigma_params opts)) (ukf_covariance s0)))"
begin

definition factor :: MatrixXd where
  "factor = snd (llt (e_scale E (merwe_scale (ukf_sigma_params opts)) (ukf_covariance s0)))"

lemma generated:
  "ukf_covariance (GenerateSigmaPoints E llt opts s0) = ukf_covariance s0"
  "ukf_nominal (GenerateSigmaPoints E llt opts s0) = ukf_nominal s0"
  "ukf_sigma_points (GenerateSigmaPoints E llt opts s0) = mat_of_cols kStateSize (sigma_columns E factor)"
proof -
  obtain L where "llt (e_scale E (merwe_scale (ukf_sigma_params opts)) (ukf_covariance s0)) = (True, L)"
    using success by (metis prod.collapse)
  then show "ukf_covariance (GenerateSigmaPoints E llt opts s0) = ukf_covariance s0"
    "ukf_nominal (GenerateSigmaPoints E llt opts s0) = ukf_nominal s0"
    "ukf_sigma_points (GenerateSigmaPoints E llt opts s0) = mat_of_cols kStateSize (sigma_columns E factor)"
    by (simp_all add: GenerateSigmaPoints_def Let_def factor_def merwe_scale_def)
qed

lemma scaled_covariance: "square kStateSize (e_scale E (merwe_scale (ukf_sigma_params opts)) (ukf_covariance s0))"
    "symmetric (e_scale E (merwe_scale (ukf_sigma_params opts)) (ukf_covariance s0))"
  using algebra dim sym by (simp_all add: square_def symmetric_def)

lemma factor_rows: "mat_rows factor = kStateSize"
  using contract scaled_covariance by (simp add: factor_def llt_contract_def square_def)

lemma factor_square:
  assumes "r < kStateSize" "c < kStateSize"
  shows "(\<Sum>k<kStateSize. coeff factor r k * coeff factor c k) =
    merwe_scale (ukf_sigma_params opts) * coeff (ukf_covariance s0) r c"
proof -
  have "(\<Sum>k<kStateSize. coeff factor r k * coeff factor c k) =
      coeff (e_scale E (merwe_scale (ukf_sigma_params opts)) (ukf_covariance s0)) r c"
    using contract scaled_covariance success assms unfolding llt_contract_def factor_def by blast
  then show ?thesis using algebra dim assms by (simp add: square_def)
qed

abbreviation point :: "nat \<Rightarrow> MatrixXd" where
  "point k \<equiv> col (ukf_sigma_points (GenerateSigmaPoints E llt opts s0)) k"

lemma point_shape: "mat_rows (point k) = kStateSize" "mat_cols (point k) = 1"
  using sigma_point_coeff(4,5) [OF algebra factor_rows, of 0 k] by (simp_all add: generated kStateSize_def)

lemma point_coeff:
  assumes "r < kStateSize"
  shows "coeff (point 0) r 0 = 0"
    "i < kStateSize \<Longrightarrow> coeff (point (i + 1)) r 0 = coeff factor r i"
    "i < kStateSize \<Longrightarrow> coeff (point (i + 1 + kStateSize)) r 0 = - coeff factor r i"
  unfolding generated using sigma_point_coeff(1-3) [OF algebra factor_rows assms] by blast+

lemma point_mean:
  assumes "r < kStateSize"
  shows "(\<Sum>k<kNumSigmaPoints. coeff (mean_weights (SigmaWeights_Compute (ukf_sigma_params opts))) k 0 * coeff (point k) r 0) = 0"
proof -
  let ?f = "\<lambda>k. coeff (mean_weights (SigmaWeights_Compute (ukf_sigma_params opts))) k 0 * coeff (point k) r 0"
  have "(\<Sum>i<kStateSize. ?f (i + 1) + ?f (i + 1 + kStateSize)) = (\<Sum>i<kStateSize. 0)"
    by (intro sum.cong refl) (simp only: point_coeff(2,3) [OF assms] lessThan_iff, simp add: weights_coeff)
  then show ?thesis unfolding sum_sigma_points [of ?f] by (simp add: point_coeff(1) [OF assms])
qed

lemma point_covariance:
  assumes r: "r < kStateSize" and c: "c < kStateSize"
  shows "(\<Sum>k<kNumSigmaPoints. coeff (cov_weights (SigmaWeights_Compute (ukf_sigma_params opts))) k 0 *
      coeff (point k) r 0 * coeff (point k) c 0) = coeff (ukf_covariance s0) r c"
proof -
  let ?w = "cov_weights (SigmaWeights_Compute (ukf_sigma_params opts))"
    and ?sc = "merwe_scale (ukf_sigma_params opts)"
  let ?f = "\<lambda>k. coeff ?w k 0 * coeff (point k) r 0 * coeff (point k) c 0"
  have "(\<Sum>i<kStateSize. ?f (i + 1) + ?f (i + 1 + kStateSize)) =
      (\<Sum>i<kStateSize. 1 / ?sc * (coeff factor r i * coeff factor c i))"
    by (intro sum.cong refl)
       (simp only: point_coeff(2,3) [OF r] point_coeff(2,3) [OF c] lessThan_iff, simp add: weights_coeff)
  also have "\<dots> = 1 / ?sc * (?sc * coeff (ukf_covariance s0) r c)"
    by (simp only: sum_distrib_left [symmetric] factor_square [OF r c])
  also have "\<dots> = coeff (ukf_covariance s0) r c" using scale by simp
  finally show ?thesis unfolding sum_sigma_points [of ?f] by (simp add: point_coeff(1) [OF r])
qed

end

text \<open>A decomposition that succeeds exactly on the positive diagonal matrices.\<close>

definition diagonal_llt :: "MatrixXd \<Rightarrow> bool \<times> MatrixXd" where
  "diagonal_llt A =
     (let n = mat_rows A in
      if list_all (\<lambda>i. 0 < coeff A i i \<and> list_all (\<lambda>j. i = j \<or> coeff A i j = 0) [0..<n]) [0..<n]
      then (True, MatrixXd n n (\<lambda>i j. if i = j then sqrt (coeff A i i) else 0))
      else (False, Matrix_Zero n n))"

lemma diagonal_llt_contract: "llt_contract diagonal_llt"
  unfolding llt_contract_def
proof (intro allI conjI impI)
  fix n A
  assume "square n A" "symmetric A"
  then have n: "n = mat_rows A" by (simp add: square_def)
  show "square n (snd (diagonal_llt A))"
    by (simp add: diagonal_llt_def Let_def square_def n)
  fix i j
  assume ok: "fst (diagonal_llt A)" and "i < n" "j < n"
  then have ij: "i < mat_rows A" "j < mat_rows A" by (simp_all add: n)
  have all: "\<forall>i<mat_rows A. 0 < coeff A i i \<and> (\<forall>j<mat_rows A. i = j \<or> coeff A i j = 0)"
    using ok by (simp add: diagonal_llt_def Let_def list_all_iff atLeast0LessThan split: if_splits)
  have d: "0 < coeff A i i" "i \<noteq> j \<Longrightarrow> coeff A i j = 0" using all ij by blast+
  have L: "snd (diagonal_llt A) = MatrixXd (mat_rows A) (mat_rows A) (\<lambda>i j. if i = j then sqrt (coeff A i i) else 0)"
    using ok by (simp add: diagonal_llt_def Let_def split: if_splits)
  have "(\<Sum>k<mat_rows A. coeff (snd (diagonal_llt A)) i k * coeff (snd (diagonal_llt A)) j k) =
      (\<Sum>k<mat_rows A. if k = i then (if i = j then coeff A i i else 0) else 0)"
    unfolding L using d(1) by (intro sum.cong refl) auto
  also have "\<dots> = coeff A i j" using ij d(2) by simp
  finally show "(\<Sum>k<n. coeff (snd (diagonal_llt A)) i k * coeff (snd (diagonal_llt A)) j k) = coeff A i j" unfolding n .
qed

lemma default_scale: "merwe_scale (ukf_sigma_params UkfOptions_default) = 15 / 10 ^ 6"
  by (simp add: merwe_scale_def merwe_lambda_def UkfOptions_default_def MerweSigmaParams_default_def kStateSize_def)

lemma default_decomposes:
  "fst (diagonal_llt (e_scale eigen_reference (merwe_scale (ukf_sigma_params UkfOptions_default))
     (ukf_covariance (UkfState_default eigen_reference))))"
proof -
  have E: "eigen_algebra eigen_reference" using eigen_reference_laws by simp
  have I: "coeff (Matrix_Identity n) i j = (if i = j \<and> i < n then 1 else 0)" for n i j
    by (simp add: Matrix_Identity_def)
  show ?thesis
    using E by (simp add: diagonal_llt_def Let_def UkfState_default_def default_scale list_all_iff I)
qed

interpretation default_points: sigma_points eigen_reference diagonal_llt UkfOptions_default
  "UkfState_default eigen_reference"
  using eigen_reference_laws diagonal_llt_contract default_decomposes
  by unfold_locales (simp_all add: default_scale square_def UkfState_default_def symmetric_def Matrix_Identity_def)

section \<open>A model that is linear in the error state\<close>

lemma vec_v3: "i < 3 \<Longrightarrow> coeff (vec (v3 M)) i j = coeff M i 0"
  by (auto simp: vec_def v3_def numeral_3_eq_3 numeral_2_eq_2 less_Suc_eq)

lemma stack3_shape [simp]: "mat_rows (stack3 bs) = 3 * length bs" "mat_cols (stack3 bs) = 1"
  by (simp_all add: stack3_def)

lemma stack_diag3_shape [simp]:
  "mat_rows (stack_diag3 bs) = 3 * length bs" "mat_cols (stack_diag3 bs) = 3 * length bs"
  by (simp_all add: stack_diag3_def)

lemma stack3_pair:
  "i < 3 \<Longrightarrow> coeff (stack3 [a, b]) i j = coeff a i 0"
  "3 \<le> i \<Longrightarrow> i < 6 \<Longrightarrow> coeff (stack3 [a, b]) i j = coeff b (i - 3) 0"
proof -
  show "i < 3 \<Longrightarrow> coeff (stack3 [a, b]) i j = coeff a i 0" by (simp add: stack3_def)
  assume "3 \<le> i" "i < 6"
  then have "i div 3 = 1" "i mod 3 = i - 3" by (auto simp: mod_if div_if)
  then show "coeff (stack3 [a, b]) i j = coeff b (i - 3) 0" by (simp add: stack3_def)
qed

text \<open>The predicted position and velocity move with the first six coefficients of the error.\<close>

lemma gnss_predict_linear:
  assumes E: "eigen_algebra E" and i: "i < 6"
  shows "coeff (UkfGnssLooselyCoupled_Predict E opts (UnpackSigmaPoint E nom sigma) ctx) i 0 =
    coeff (UkfGnssLooselyCoupled_Predict E opts nom ctx) i 0 + coeff sigma i 0"
proof (cases "i < 3")
  case True
  then show ?thesis using E
    by (simp add: UkfGnssLooselyCoupled_Predict_def UnpackSigmaPoint_def stack3_pair vec_v3)
       (simp add: segment_def get_block_def)
next
  case False
  then have "i - 3 < 3" "3 \<le> i" using i by simp_all
  then show ?thesis using E i
    by (simp add: UkfGnssLooselyCoupled_Predict_def UnpackSigmaPoint_def stack3_pair vec_v3)
       (simp add: segment_def get_block_def)
qed

section \<open>Properties\<close>

text \<open>
  C8. The unscented transform is exact on the first two moments: whenever the Cholesky
  decomposition of a symmetric covariance succeeds, the sigma points drawn from it have weighted mean
  zero and weighted covariance exactly that covariance, for every spread parameter with a nonzero scale.
\<close>

theorem sigma_points_moments:
  assumes "eigen_algebra E" and "llt_contract llt" and "merwe_scale (ukf_sigma_params opts) \<noteq> 0"
    and "square kStateSize (ukf_covariance s) \<and> symmetric (ukf_covariance s)"
    and "fst (llt (e_scale E (merwe_scale (ukf_sigma_params opts)) (ukf_covariance s)))"
    and "w = SigmaWeights_Compute (ukf_sigma_params opts)"
    and "x = (\<lambda>i. col (ukf_sigma_points (GenerateSigmaPoints E llt opts s)) i)"
  shows "(\<forall>r<kStateSize. coeff (weighted_sum E (mean_weights w) (Matrix_Zero kStateSize 1) x) r 0 = 0) \<and>
    (\<forall>r<kStateSize. \<forall>c<kStateSize.
       coeff (weighted_outer E (cov_weights w) (Matrix_Zero kStateSize kStateSize) x x) r c = coeff (ukf_covariance s) r c) \<and>
    (\<Sum>i<kNumSigmaPoints. coeff (mean_weights w) i 0) = 1"
proof -
  have pts: "sigma_points E llt opts s" using assms(1-5) by unfold_locales auto
  have shape: "mat_rows (x k) = kStateSize \<and> mat_cols (x k) = 1" for k
    using sigma_points.point_shape [OF pts] by (simp add: assms(7))
  have z: "coeff (Matrix_Zero a b) i j = 0" for a b i j by (simp add: Matrix_Zero_def)
  show ?thesis
    using sigma_points.point_mean [OF pts] sigma_points.point_covariance [OF pts] mean_weights_sum [OF assms(3)]
    by (simp add: weighted_sum_coeff [OF assms(1) shape] weighted_outer_coeff [OF assms(1) shape shape] z
        assms(6) flip: assms(7))
qed

lemma default_scale_nonzero: "merwe_scale (ukf_sigma_params UkfOptions_default) \<noteq> 0"
  by (simp add: default_scale)

lemma default_square: "square kStateSize (ukf_covariance (UkfState_default eigen_reference)) \<and>
  symmetric (ukf_covariance (UkfState_default eigen_reference))"
  using eigen_reference_laws(1) by (simp add: square_def UkfState_default_def symmetric_def Matrix_Identity_def)

theorem sigma_points_moments_witness:
  "coeff (weighted_outer eigen_reference (cov_weights (SigmaWeights_Compute (ukf_sigma_params UkfOptions_default)))
       (Matrix_Zero kStateSize kStateSize)
       (\<lambda>i. col (ukf_sigma_points (GenerateSigmaPoints eigen_reference diagonal_llt UkfOptions_default
              (UkfState_default eigen_reference))) i)
       (\<lambda>i. col (ukf_sigma_points (GenerateSigmaPoints eigen_reference diagonal_llt UkfOptions_default
              (UkfState_default eigen_reference))) i)) 3 3 =
     coeff (ukf_covariance (UkfState_default eigen_reference)) 3 3"
proof -
  have "3 < kStateSize" by (simp add: kStateSize_def)
  with sigma_points_moments [OF eigen_reference_laws(1) diagonal_llt_contract default_scale_nonzero default_square
      default_decomposes refl refl] show ?thesis by blast
qed

text \<open>Predictions that are an affine function of the error have the value at the nominal state as mean.\<close>

lemma affine_mean:
  assumes "sigma_points E llt opts s0" and "\<And>k. mat_rows (Z k) = n \<and> mat_cols (Z k) = 1" "i < n" "i < kStateSize"
    and "\<And>k. coeff (Z k) i 0 = h + coeff (col (ukf_sigma_points (GenerateSigmaPoints E llt opts s0)) k) i 0"
  shows "coeff (weighted_sum E (mean_weights (SigmaWeights_Compute (ukf_sigma_params opts))) (Matrix_Zero n 1) Z) i 0 = h"
proof -
  let ?w = "SigmaWeights_Compute (ukf_sigma_params opts)"
  let ?x = "\<lambda>k. col (ukf_sigma_points (GenerateSigmaPoints E llt opts s0)) k"
  have "coeff (weighted_sum E (mean_weights ?w) (Matrix_Zero n 1) Z) i 0 =
      (\<Sum>k<kNumSigmaPoints. coeff (mean_weights ?w) k 0 * (h + coeff (?x k) i 0))"
    using weighted_sum_coeff(3) [OF sigma_points.algebra [OF assms(1)] assms(2), of "Matrix_Zero n 1" i 0 "mean_weights ?w"] assms(3)
    by (simp add: assms(5) Matrix_Zero_def)
  also have "\<dots> = (\<Sum>k<kNumSigmaPoints. coeff (mean_weights ?w) k 0) * h +
      (\<Sum>k<kNumSigmaPoints. coeff (mean_weights ?w) k 0 * coeff (?x k) i 0)"
    by (simp add: distrib_left sum.distrib sum_distrib_right)
  also have "\<dots> = h"
    using sigma_points.point_mean [OF assms(1,4)] mean_weights_sum [OF sigma_points.scale [OF assms(1)]] by simp
  finally show ?thesis .
qed

text \<open>
  C7. On loosely coupled GNSS, whose model is linear in the error state, and when the Cholesky
  decomposition of the symmetric covariance succeeds, the unscented update is the linear Kalman
  update: the predicted measurement is the current position and velocity, the innovation covariance
  is the position and velocity block of the covariance plus the noise, and the cross covariance is
  the first six columns of the covariance, exactly as in the EKF.
\<close>

theorem ukf_gnss_is_linear:
  assumes "eigen_algebra E" and "llt_contract llt" and "merwe_scale (ukf_sigma_params opts) \<noteq> 0"
    and "square kStateSize (ukf_covariance s0) \<and> symmetric (ukf_covariance s0)"
    and "fst (llt (e_scale E (merwe_scale (ukf_sigma_params opts)) (ukf_covariance s0)))"
    and "w = SigmaWeights_Compute (ukf_sigma_params opts)" and "s = GenerateSigmaPoints E llt opts s0"
    and "mdl = UkfGnssLooselyCoupled E o_gnss" and "square 6 R_meas"
    and "Z = ukf_predictions E mdl s ctx" and "z_pred = weighted_sum E (mean_weights w) (Matrix_Zero 6 1) Z"
    and "dz = (\<lambda>i. ukf_Innovation mdl (Z i) z_pred)"
  shows "(\<forall>i<6. coeff z_pred i 0 = coeff (ukf_Predict mdl (ukf_nominal s0) ctx) i 0) \<and>
    (\<forall>i<6. \<forall>j<6. coeff (weighted_outer E (cov_weights w) R_meas dz dz) i j =
       coeff R_meas i j + coeff (ukf_covariance s0) i j) \<and>
    (\<forall>i<kStateSize. \<forall>j<6.
       coeff (weighted_outer E (cov_weights w) (Matrix_Zero kStateSize 6) (\<lambda>i. col (ukf_sigma_points s) i) dz) i j =
       coeff (ukf_covariance s0) i j)"
proof -
  have pts: "sigma_points E llt opts s0" using assms(1-5) by unfold_locales auto
  let ?x = "\<lambda>i. col (ukf_sigma_points s) i" and ?h = "ukf_Predict mdl (ukf_nominal s0) ctx"
  have x: "mat_rows (?x k) = kStateSize \<and> mat_cols (?x k) = 1" for k
    using sigma_points.point_shape [OF pts] by (simp add: assms(7))
  have Zs: "mat_rows (Z k) = 6 \<and> mat_cols (Z k) = 1" for k
    by (simp add: assms(8,10) ukf_predictions_def UkfGnssLooselyCoupled_def UkfGnssLooselyCoupled_Predict_def)
  have Z: "coeff (Z k) i 0 = coeff ?h i 0 + coeff (?x k) i 0" if "i < 6" for k i
    using gnss_predict_linear [OF assms(1) that] sigma_points.generated(2) [OF pts]
    by (simp add: assms(7,8,10) ukf_predictions_def UkfGnssLooselyCoupled_def)
  have less: "i < 6 \<Longrightarrow> i < kStateSize" for i by (simp add: kStateSize_def)
  have pred: "coeff z_pred i 0 = coeff ?h i 0" if "i < 6" for i
    using affine_mean [where h = "coeff ?h i 0", OF pts Zs that less [OF that]] Z [OF that] by (simp add: assms(6,7,11))
  have zp: "mat_rows z_pred = 6 \<and> mat_cols z_pred = 1"
    using weighted_sum_coeff(1,2) [OF assms(1) Zs, of "Matrix_Zero 6 1"] by (simp add: assms(11))
  have dz: "mat_rows (dz k) = 6 \<and> mat_cols (dz k) = 1" "i < 6 \<Longrightarrow> coeff (dz k) i 0 = coeff (?x k) i 0" for k i
    using assms(1) Zs zp pred Z
    by (simp_all add: assms(8,12) UkfGnssLooselyCoupled_def ukf_default_Innovation_def)
  have S: "coeff (weighted_outer E (cov_weights w) R_meas dz dz) i j = coeff R_meas i j + coeff (ukf_covariance s0) i j"
    if "i < 6" "j < 6" for i j
    using weighted_outer_coeff(3) [OF assms(1) dz(1) dz(1), of R_meas i j "cov_weights w"] that assms(9)
      sigma_points.point_covariance [OF pts less less] by (simp add: dz(2) square_def assms(6,7))
  have Pxz: "coeff (weighted_outer E (cov_weights w) (Matrix_Zero kStateSize 6) ?x dz) i j = coeff (ukf_covariance s0) i j"
    if "i < kStateSize" "j < 6" for i j
    using weighted_outer_coeff(3) [OF assms(1) x dz(1), of "Matrix_Zero kStateSize 6" i j "cov_weights w"] that
      sigma_points.point_covariance [OF pts _ less] by (simp add: dz(2) Matrix_Zero_def assms(6,7))
  show ?thesis using pred S Pxz by blast
qed

theorem ukf_gnss_is_linear_witness:
  "coeff (weighted_sum eigen_reference (mean_weights (SigmaWeights_Compute (ukf_sigma_params UkfOptions_default)))
       (Matrix_Zero 6 1)
       (ukf_predictions eigen_reference (UkfGnssLooselyCoupled eigen_reference UkfGnssLooselyCoupledOptions_default)
          (GenerateSigmaPoints eigen_reference diagonal_llt UkfOptions_default (UkfState_default eigen_reference)) None)) 4 0 =
     coeff (ukf_Predict (UkfGnssLooselyCoupled eigen_reference UkfGnssLooselyCoupledOptions_default)
       (ukf_nominal (UkfState_default eigen_reference)) None) 4 0"
proof -
  have "square 6 (Matrix_Identity 6)" by (simp add: square_def)
  from ukf_gnss_is_linear [OF eigen_reference_laws(1) diagonal_llt_contract default_scale_nonzero default_square
      default_decomposes refl refl refl this refl refl refl]
  have "\<forall>i<6. coeff (weighted_sum eigen_reference (mean_weights (SigmaWeights_Compute (ukf_sigma_params UkfOptions_default)))
       (Matrix_Zero 6 1)
       (ukf_predictions eigen_reference (UkfGnssLooselyCoupled eigen_reference UkfGnssLooselyCoupledOptions_default)
          (GenerateSigmaPoints eigen_reference diagonal_llt UkfOptions_default (UkfState_default eigen_reference)) None)) i 0 =
     coeff (ukf_Predict (UkfGnssLooselyCoupled eigen_reference UkfGnssLooselyCoupledOptions_default)
       (ukf_nominal (UkfState_default eigen_reference)) None) i 0" by blast
  then show ?thesis by simp
qed

end
