(* ===== verification/Fg_UkfInvariant.thy ===== *)
theory Fg_UkfInvariant
  imports Fg_UkfMoments Fg_EkfInvariant
begin

text \<open>
  The contract of the UKF measurement models, discharged by all fourteen of them, and the
  invariant of the UKF engine: the covariance stays a symmetric matrix of the state dimension.
  The only measurements outside the contract are aiding solutions that lack a block.
\<close>

section \<open>The contract of a model\<close>

text \<open>An aiding solution that carries position, velocity and orientation.\<close>

fun aiding_complete :: "SensorMeasurement \<Rightarrow> bool" where
  "aiding_complete (M_AidingSolution aid) \<longleftrightarrow> ActiveBlocks aid = (True, True, True)"
| "aiding_complete _ \<longleftrightarrow> True"

text \<open>
  Observation, prediction and noise agree on one dimension, and innovations keep it.
\<close>

definition dims_ok ::
  "IUkfMeasurementModel \<Rightarrow> SensorMeasurement \<Rightarrow> LocalTangentPlane option \<Rightarrow> MatrixXd \<Rightarrow> bool" where
  "dims_ok mdl m ctx z \<longleftrightarrow>
     mat_cols z = 1 \<and> (\<forall>s. vector (mat_rows z) (ukf_Predict mdl s ctx)) \<and>
     (\<exists>R. ukf_NoiseCovariance mdl m ctx = Inr R \<and> square (mat_rows z) R)"

definition ukf_model_ok :: "IUkfMeasurementModel \<Rightarrow> bool" where
  "ukf_model_ok mdl \<longleftrightarrow>
     (\<forall>a b. vector (mat_rows a) b \<longrightarrow> vector (mat_rows a) a \<longrightarrow> vector (mat_rows a) (ukf_Innovation mdl a b)) \<and>
     (\<forall>m ctx. ukf_CanHandle mdl m \<longrightarrow> context_ok ctx \<longrightarrow> covariances_ok m \<longrightarrow> aiding_complete m \<longrightarrow>
        (\<exists>z. ukf_Observe mdl m ctx = Inr z \<and> (\<forall>z'. z = Some z' \<longrightarrow> dims_ok mdl m ctx z')))"

lemma ukf_model_okI:
  assumes "\<And>a b. vector (mat_rows a) b \<Longrightarrow> vector (mat_rows a) a \<Longrightarrow> vector (mat_rows a) (ukf_Innovation mdl a b)"
    and "\<And>m ctx. ukf_CanHandle mdl m \<Longrightarrow> context_ok ctx \<Longrightarrow> covariances_ok m \<Longrightarrow> aiding_complete m \<Longrightarrow>
      \<exists>z. ukf_Observe mdl m ctx = Inr z \<and> (\<forall>z'. z = Some z' \<longrightarrow> dims_ok mdl m ctx z')"
  shows "ukf_model_ok mdl"
  using assms unfolding ukf_model_ok_def by blast

lemma default_Innovation_vector:
  "eigen_algebra E \<Longrightarrow> vector (mat_rows a) b \<Longrightarrow> vector (mat_rows a) a \<Longrightarrow>
     vector (mat_rows a) (ukf_default_Innovation E a b)"
  by (simp add: vector_def ukf_default_Innovation_def)

lemma covariance_ok_shape: "covariance_ok n C \<Longrightarrow> mat_rows C = n" "covariance_ok n C \<Longrightarrow> mat_cols C = n"
  by (simp_all add: covariance_ok_def psd_def square_def)

lemma sigma3_shape [simp]:
  assumes "eigen_algebra E"
  shows "mat_rows (sigma3 E s) = 3" "mat_cols (sigma3 E s) = 3"
  using assms by (simp_all add: sigma3_def)

lemma body_velocity_shape [simp]:
  assumes "eigen_algebra E" "eigen_shapes E"
  shows "mat_rows (body_velocity E s) = 3" "mat_cols (body_velocity E s) = 1"
  using assms by (simp_all add: body_velocity_def)

lemmas dims_simps = dims_ok_def vector_def square_def

lemma handled: "\<not> isl x \<longleftrightarrow> (\<exists>a. x = Inr a)"
  by (cases x) simp_all

text \<open>The models that need no case analysis beyond their guards.\<close>

lemma ukf_scalar_models_ok:
  assumes E: "eigen_algebra E" "eigen_shapes E"
  shows "ukf_model_ok (UkfBarometer E o1)" "ukf_model_ok (UkfAirspeed E o2)"
    "ukf_model_ok (UkfRadarAltimeter E o3)" "ukf_model_ok (UkfEchoSounder E o4)"
proof -
  note inn = default_Innovation_vector [OF E(1)]
  show "ukf_model_ok (UkfBarometer E o1)"
    by (rule ukf_model_okI)
       (auto simp: UkfBarometer_def UkfBarometer_Observe_def UkfBarometer_Predict_def
         UkfBarometer_NoiseCovariance_def Let_def dims_simps inn [unfolded vector_def] handled split: option.splits)
  show "ukf_model_ok (UkfAirspeed E o2)"
    by (rule ukf_model_okI)
       (auto simp: UkfAirspeed_def UkfAirspeed_Observe_def UkfAirspeed_Predict_def
         UkfAirspeed_NoiseCovariance_def Let_def dims_simps inn [unfolded vector_def] handled split: option.splits)
  show "ukf_model_ok (UkfRadarAltimeter E o3)"
    by (rule ukf_model_okI)
       (auto simp: UkfRadarAltimeter_def UkfRadarAltimeter_Observe_def UkfRadarAltimeter_Predict_def
         UkfRadarAltimeter_NoiseCovariance_def Let_def dims_simps inn [unfolded vector_def] handled split: option.splits)
  show "ukf_model_ok (UkfEchoSounder E o4)"
    by (rule ukf_model_okI)
       (auto simp: UkfEchoSounder_def UkfEchoSounder_Observe_def UkfEchoSounder_Predict_def
         UkfEchoSounder_NoiseCovariance_def Let_def dims_simps inn [unfolded vector_def] handled split: option.splits)
qed

lemma ukf_vector_models_ok:
  assumes E: "eigen_algebra E" "eigen_shapes E"
  shows "ukf_model_ok (UkfMagnetometer E o1)" "ukf_model_ok (UkfWheelOdometry E o2)"
    "ukf_model_ok (UkfOpticalFlow E o3)" "ukf_model_ok (UkfExternalVelocity E o4)"
    "ukf_model_ok (UkfStarTracker E uninit o5)"
proof -
  note inn = default_Innovation_vector [OF E(1)]
  show "ukf_model_ok (UkfMagnetometer E o1)"
    by (rule ukf_model_okI)
       (auto simp: UkfMagnetometer_def UkfMagnetometer_Observe_def UkfMagnetometer_Predict_def
         UkfMagnetometer_NoiseCovariance_def Let_def dims_simps inn [unfolded vector_def] handled E split: option.splits)
  show "ukf_model_ok (UkfWheelOdometry E o2)"
    by (rule ukf_model_okI)
       (auto simp: UkfWheelOdometry_def UkfWheelOdometry_Observe_def UkfWheelOdometry_Predict_def
         UkfWheelOdometry_NoiseCovariance_def Let_def dims_simps inn [unfolded vector_def] handled E split: option.splits)
  show "ukf_model_ok (UkfOpticalFlow E o3)"
    by (rule ukf_model_okI)
       (auto simp: UkfOpticalFlow_def UkfOpticalFlow_Observe_def UkfOpticalFlow_Predict_def
         UkfOpticalFlow_NoiseCovariance_def Let_def dims_simps inn [unfolded vector_def] handled E split: option.splits)
  show "ukf_model_ok (UkfExternalVelocity E o4)"
    by (rule ukf_model_okI)
       (auto simp: UkfExternalVelocity_def UkfExternalVelocity_Observe_def UkfExternalVelocity_Predict_def
         UkfExternalVelocity_NoiseCovariance_def Let_def dims_simps inn [unfolded vector_def] handled E split: option.splits)
  show "ukf_model_ok (UkfStarTracker E uninit o5)"
    by (rule ukf_model_okI)
       (auto simp: UkfStarTracker_def UkfStarTracker_Observe_def UkfStarTracker_Predict_def
         UkfStarTracker_NoiseCovariance_def Let_def dims_simps UkfStarTracker_Innovation_def handled E split: option.splits)
qed

lemma getters:
  "get_Dvl m = Inr d \<longleftrightarrow> m = M_Dvl d"
  "get_GnssSolution m = Inr g \<longleftrightarrow> m = M_GnssSolution g"
  "get_ExternalPose m = Inr ep \<longleftrightarrow> m = M_ExternalPose ep"
  "get_AidingSolution m = Inr aid \<longleftrightarrow> m = M_AidingSolution aid"
  by (cases m; auto)+

lemma ctx_rotation_shape [simp]:
  assumes "context_ok ctx"
  shows "mat_rows (ctx_rotation ctx) = 3" "mat_cols (ctx_rotation ctx) = 3"
  using assms by (auto simp: ctx_rotation_def context_ok_def square_def split: option.splits)

lemma rotated_shape [simp]:
  assumes "eigen_algebra E" "mat_cols R = 3" "mat_rows C = 3" "mat_cols C = 3"
  shows "mat_rows (rotated E R C) = mat_rows R" "mat_cols (rotated E R C) = mat_rows R"
  using assms by (simp_all add: rotated_def)

lemma ukf_pose_models_ok:
  assumes E: "eigen_algebra E" "eigen_shapes E"
  shows "ukf_model_ok (UkfGnssLooselyCoupled E o1)" "square 3 (udvo_dvl_to_body_rotation o2) \<Longrightarrow> ukf_model_ok (UkfDvl E o2)"
    "ukf_model_ok (UkfExternalPose E o3)" "ukf_model_ok (UkfExternalOdometry E o4)"
    "ukf_model_ok (UkfAidingSolution E o5)"
proof -
  note inn = default_Innovation_vector [OF E(1)]
  show "ukf_model_ok (UkfGnssLooselyCoupled E o1)"
    by (rule ukf_model_okI)
       (auto simp: UkfGnssLooselyCoupled_def UkfGnssLooselyCoupled_Observe_def UkfGnssLooselyCoupled_Predict_def
         UkfGnssLooselyCoupled_NoiseCovariance_def Let_def dims_simps inn [unfolded vector_def] handled E getters covariance_ok_shape split: option.splits)
  show "square 3 (udvo_dvl_to_body_rotation o2) \<Longrightarrow> ukf_model_ok (UkfDvl E o2)"
    by (rule ukf_model_okI)
       (auto simp: UkfDvl_def UkfDvl_Observe_def UkfDvl_Predict_def
         UkfDvl_NoiseCovariance_def Let_def dims_simps inn [unfolded vector_def] handled E getters covariance_ok_shape split: option.splits)
  show "ukf_model_ok (UkfExternalPose E o3)"
    by (rule ukf_model_okI)
       (auto simp: UkfExternalPose_def UkfExternalPose_Observe_def UkfExternalPose_Predict_def
         UkfExternalPose_NoiseCovariance_def Let_def dims_simps inn [unfolded vector_def] handled E getters split: option.splits)
  show "ukf_model_ok (UkfExternalOdometry E o4)"
    by (rule ukf_model_okI)
       (auto simp: UkfExternalOdometry_def UkfExternalOdometry_Observe_def UkfExternalOdometry_Predict_def
         UkfExternalOdometry_NoiseCovariance_def Let_def dims_simps inn [unfolded vector_def] handled E split: option.splits)
  show "ukf_model_ok (UkfAidingSolution E o5)"
    by (rule ukf_model_okI)
       (auto simp: UkfAidingSolution_def UkfAidingSolution_Observe_def UkfAidingSolution_Predict_def
         UkfAidingSolution_NoiseCovariance_def Let_def dims_simps inn [unfolded vector_def] handled E getters ActiveBlocks_def split: option.splits)
qed

section \<open>The invariant of the state\<close>

definition ldlt_shapes :: "eigen_ops \<Rightarrow> bool" where
  "ldlt_shapes E \<longleftrightarrow> (\<forall>A b. mat_rows A = mat_cols A \<longrightarrow> mat_rows b = mat_rows A \<longrightarrow>
     mat_rows (e_ldlt_solve E A b) = mat_rows A \<and> mat_cols (e_ldlt_solve E A b) = mat_cols b)"

lemma eigen_reference_ldlt: "ldlt_shapes eigen_reference"
  by (simp add: ldlt_shapes_def eigen_reference_def)

definition ukf_state_ok :: "UkfState \<Rightarrow> bool" where
  "ukf_state_ok s \<longleftrightarrow> square kStateSize (ukf_covariance s) \<and> symmetric (ukf_covariance s)"

lemma symmetrized_ok:
  assumes "eigen_algebra E" "square n P"
  shows "square n (SymmetrizeCovariance E P)" "symmetric (SymmetrizeCovariance E P)"
  using assms by (simp_all add: SymmetrizeCovariance_def square_def symmetric_def)

lemma symmetrized_state_ok:
  "eigen_algebra E \<Longrightarrow> square kStateSize P \<Longrightarrow>
     ukf_state_ok (s\<lparr>ukf_nominal := n, ukf_covariance := SymmetrizeCovariance E P\<rparr>)"
  using symmetrized_ok by (simp add: ukf_state_ok_def)

lemma ukf_state_ok_default: "eigen_algebra E \<Longrightarrow> ukf_state_ok (UkfState_default E)"
  by (simp add: ukf_state_ok_def UkfState_default_def square_def symmetric_def)
     (simp add: Matrix_Identity_def)

lemma GenerateSigmaPoints_ok:
  assumes "eigen_algebra E" "ukf_state_ok s"
  shows "ukf_state_ok (GenerateSigmaPoints E llt opts s)"
    "ukf_nominal (GenerateSigmaPoints E llt opts s) = ukf_nominal s"
    "mat_rows (ukf_sigma_points (GenerateSigmaPoints E llt opts s)) = kStateSize"
proof -
  have "coeff (Matrix_Identity n) i j = coeff (Matrix_Identity n) j i" for n i j
    by (auto simp: Matrix_Identity_def)
  then show "ukf_state_ok (GenerateSigmaPoints E llt opts s)" using assms
    by (auto simp: ukf_state_ok_def GenerateSigmaPoints_def Let_def square_def symmetric_def split: prod.splits)
qed (simp_all add: GenerateSigmaPoints_def Let_def mat_of_cols_def split: prod.splits)

lemma PackSigmaPoint_vector: "vector kStateSize (PackSigmaPoint E mean s)"
  by (simp add: PackSigmaPoint_def Let_def vector_def)

lemma BuildProcessNoise_square: "eigen_algebra E \<Longrightarrow> square kStateSize (BuildProcessNoise E opts s imu dt)"
  by (simp add: BuildProcessNoise_def Let_def square_def)

text \<open>What one propagation step and everything made of such steps keeps.\<close>

lemma Ukf_PropagateImu_ok:
  assumes E: "eigen_algebra E"
  shows "ukf_state_ok (Ukf_PropagateImu E llt opts w s imu dt)"
proof -
  have "vector kStateSize (PackSigmaPoint E n q)" for n q by (rule PackSigmaPoint_vector)
  then have outer: "square kStateSize (weighted_outer E wc (Matrix_Zero kStateSize kStateSize)
      (\<lambda>i. PackSigmaPoint E n (q i)) (\<lambda>i. PackSigmaPoint E n (q i)))" for wc n q
    unfolding square_def vector_def using weighted_outer_coeff(1,2) [OF E] by simp
  have "square kStateSize A \<Longrightarrow> square kStateSize B \<Longrightarrow> square kStateSize (e_add E A B)" for A B
    using E by (simp add: square_def)
  with outer BuildProcessNoise_square [OF E] show ?thesis
    unfolding Ukf_PropagateImu_def Let_def by (intro symmetrized_state_ok E) simp
qed

lemma ukf_split_loop_returns:
  assumes E: "eigen_algebra E" and m: "0 < ukf_max_imu_dt_s opts" and "ukf_state_ok s"
  shows "\<exists>s'. ukf_split_loop E llt opts w imu s r = Some s' \<and> ukf_state_ok s'"
  using assms(3)
proof (induction "nat \<lceil>r / ukf_max_imu_dt_s opts\<rceil>" arbitrary: r s rule: less_induct)
  case less
  let ?m = "ukf_max_imu_dt_s opts"
  show ?case
  proof (cases "0 < r")
    case True
    let ?step = "min r ?m"
    have "nat \<lceil>(r - ?step) / ?m\<rceil> < nat \<lceil>r / ?m\<rceil>" by (rule split_decreases [OF True m])
    from less.hyps [OF this Ukf_PropagateImu_ok [OF E]] True show ?thesis
      by (subst ukf_split_loop.simps) (simp add: Let_def)
  qed (use less.prems in \<open>simp add: ukf_split_loop.simps\<close>)
qed

lemma ukf_set_timestamp_ok [simp]: "ukf_state_ok (ukf_set_timestamp s t) \<longleftrightarrow> ukf_state_ok s"
  by (simp add: ukf_set_timestamp_def ukf_state_ok_def)

lemma ukf_propagate_batch_returns:
  assumes E: "eigen_algebra E" and m: "0 < ukf_max_imu_dt_s opts" and "ukf_state_ok s"
  shows "\<exists>s'. ukf_propagate_batch E llt opts w s batch = Some s' \<and> ukf_state_ok s'"
  using assms(3)
proof (induction batch arbitrary: s)
  case (Cons imu batch)
  from ukf_split_loop_returns [OF E m Cons.prems] obtain u where
    "ukf_split_loop E llt opts w imu s r = Some (u r)" "ukf_state_ok (u r)" for r by metis
  with Cons show ?case by (auto split: option.splits)
qed simp

section \<open>The measurement update\<close>

lemma ukf_correct_ok:
  assumes E: "eigen_algebra E" "ldlt_shapes E" and mdl: "ukf_model_ok mdl" and d: "dims_ok mdl m ctx z"
    and s: "ukf_state_ok s" "mat_rows (ukf_sigma_points s) = kStateSize"
    and R: "square (mat_rows z) R" and c: "ukf_correct E mdl w s z R ctx = (dx, s')"
  shows "ukf_state_ok s'"
proof -
  let ?m = "mat_rows z" and ?Z = "ukf_predictions E mdl s ctx"
  let ?zp = "weighted_sum E (mean_weights w) (Matrix_Zero ?m 1) ?Z"
  let ?dz = "\<lambda>i. ukf_Innovation mdl (?Z i) ?zp"
  let ?x = "\<lambda>i. col (ukf_sigma_points s) i"
  let ?S = "weighted_outer E (cov_weights w) R ?dz ?dz"
  let ?Pxz = "weighted_outer E (cov_weights w) (Matrix_Zero kStateSize ?m) ?x ?dz"
  let ?K = "e_transpose E (e_ldlt_solve E ?S (e_transpose E ?Pxz))"
  have Z: "mat_rows (?Z k) = ?m \<and> mat_cols (?Z k) = 1" for k
    using d by (simp add: dims_ok_def vector_def ukf_predictions_def)
  have zp: "mat_rows ?zp = ?m" "mat_cols ?zp = 1" using weighted_sum_coeff(1,2) [OF E(1) Z] by simp_all
  have dz: "mat_rows (?dz k) = ?m \<and> mat_cols (?dz k) = 1" for k
    using mdl Z [of k] zp unfolding ukf_model_ok_def vector_def by metis
  have x: "mat_rows (?x k) = kStateSize \<and> mat_cols (?x k) = 1" for k using s(2) by (simp add: col_def)
  have S: "mat_rows ?S = ?m" "mat_cols ?S = ?m"
    using weighted_outer_coeff(1,2) [OF E(1) dz dz] R by (simp_all add: square_def)
  have Pxz: "mat_rows ?Pxz = kStateSize" "mat_cols ?Pxz = ?m"
    using weighted_outer_coeff(1,2) [OF E(1) x dz] by simp_all
  have K: "mat_rows ?K = kStateSize" "mat_cols ?K = ?m"
    using E S Pxz by (simp_all add: ldlt_shapes_def)
  have "square kStateSize (e_sub E (ukf_covariance s) (e_mul E (e_mul E ?K ?S) (e_transpose E ?K)))"
    using E(1) S K s(1) by (simp add: square_def ukf_state_ok_def)
  with c show ?thesis
    unfolding ukf_correct_def Let_def by (auto intro: symmetrized_state_ok [OF E(1)])
qed

definition ukf_ok :: "UkfEstimator \<Rightarrow> bool" where
  "ukf_ok k \<longleftrightarrow> ukf_state_ok (ukf_state k) \<and> 0 < ukf_max_imu_dt_s (ukf_options k) \<and>
     (ukf_initialised k \<longleftrightarrow> ukf_local_tangent_plane k \<noteq> None) \<and> context_ok (ukf_local_tangent_plane k) \<and>
     (\<forall>mdl\<in>set (ukf_models k). ukf_model_ok mdl)"

text \<open>What a call leaves alone.\<close>

definition ukf_same :: "UkfEstimator \<Rightarrow> UkfEstimator \<Rightarrow> bool" where
  "ukf_same k k' \<longleftrightarrow> ukf_options k' = ukf_options k \<and> ukf_models k' = ukf_models k \<and>
     (ukf_initialised k \<longrightarrow> ukf_initialised k' \<and> ukf_local_tangent_plane k' = ukf_local_tangent_plane k)"

lemma ukf_same_refl [simp]: "ukf_same k k"
  by (simp add: ukf_same_def)

text \<open>There is no gate: an update that observes anything is accepted.\<close>

lemma ApplyMeasurementModel_ok:
  assumes E: "eigen_algebra E" "ldlt_shapes E" and k: "ukf_ok k" and mdl: "ukf_model_ok mdl"
    and m: "ukf_CanHandle mdl m" "covariances_ok m" "aiding_complete m"
  shows "\<exists>z rep k'. ukf_Observe mdl m (ukf_local_tangent_plane k) = Inr z \<and>
    ApplyMeasurementModel E llt mdl m k = Inr (rep, k') \<and> ukf_ok k' \<and> ukf_same k k' \<and>
    ukf_initialised k' = ukf_initialised k \<and>
    result rep = (if z = None then Rejected else Accepted) \<and> (z = None \<longrightarrow> k' = k)"
proof -
  let ?ctx = "ukf_local_tangent_plane k"
  from mdl m k obtain z where z: "ukf_Observe mdl m ?ctx = Inr z" "\<And>z'. z = Some z' \<Longrightarrow> dims_ok mdl m ?ctx z'"
    unfolding ukf_model_ok_def ukf_ok_def by blast
  show ?thesis
  proof (cases z)
    case None
    with z k show ?thesis by (simp add: ApplyMeasurementModel_def)
  next
    case (Some z')
    let ?s = "GenerateSigmaPoints E llt (ukf_options k) (ukf_state k)"
    have st: "ukf_state_ok (ukf_state k)" using k by (simp add: ukf_ok_def)
    have d: "dims_ok mdl m ?ctx z'" using z Some by blast
    then obtain R where R: "ukf_NoiseCovariance mdl m ?ctx = Inr R" "square (mat_rows z') R"
      by (auto simp: dims_ok_def)
    obtain dx s' where c: "ukf_correct E mdl (ukf_weights k) ?s z' R ?ctx = (dx, s')" by fastforce
    note s' = ukf_correct_ok [OF E mdl d GenerateSigmaPoints_ok(1,3) [OF E(1) st] R(2) c]
    have "mat_rows (ukf_predictions E mdl ?s ?ctx i) = mat_rows z'" for i
      using d by (simp add: dims_ok_def vector_def ukf_predictions_def)
    with z(1) Some R(1) c s' k show ?thesis
      by (simp add: ApplyMeasurementModel_def Let_def ukf_ok_def ukf_same_def)
  qed
qed

lemma ukf_dispatch_ok:
  assumes E: "eigen_algebra E" "ldlt_shapes E" and k: "ukf_ok k"
    and m: "covariances_ok m" "aiding_complete m" and ms: "\<forall>mdl\<in>set ms. ukf_model_ok mdl"
  shows "\<exists>rep k'. ukf_dispatch E llt k m ms = Inr (rep, k') \<and> ukf_ok k' \<and> ukf_same k k' \<and>
    ukf_initialised k' = ukf_initialised k \<and> result rep \<in> {Accepted, Rejected}"
  using ms
proof (induction ms)
  case Nil
  then show ?case using k by (simp add: report_def)
next
  case (Cons mdl ms)
  show ?case
  proof (cases "ukf_CanHandle mdl m")
    case True
    from Cons.prems have "ukf_model_ok mdl" by simp
    from ApplyMeasurementModel_ok [OF E k this True m, of llt] obtain z rep k' where
      "ApplyMeasurementModel E llt mdl m k = Inr (rep, k')" "ukf_ok k'" "ukf_same k k'"
      "ukf_initialised k' = ukf_initialised k" "result rep = (if z = (None :: MatrixXd option) then Rejected else Accepted)"
      by blast
    with True show ?thesis by (simp add: ukf_ok_def ukf_same_def)
  qed (use Cons in simp)
qed

section \<open>Measurements\<close>

lemma ukf_initial_covariance_ok:
  assumes E: "eigen_algebra E" and R: "square 3 R" and g: "covariances_ok (M_GnssSolution g)"
  shows "square kStateSize (ukf_initial_covariance E R g)" "symmetric (ukf_initial_covariance E R g)"
proof -
  have blocks: "symmetric (set_block M p p B) \<and> square kStateSize (set_block M p p B)"
    if "symmetric M \<and> square kStateSize M" "covariance_ok 3 B" for M p B
    using that symmetric_set_block [of M kStateSize B 3 p]
    by (simp add: covariance_ok_def psd_def square_def)
  have zero: "symmetric (Matrix_Zero kStateSize kStateSize) \<and> square kStateSize (Matrix_Zero kStateSize kStateSize)"
    by (simp add: symmetric_def square_def) (simp add: Matrix_Zero_def)
  have "symmetric (ukf_initial_covariance E R g) \<and> square kStateSize (ukf_initial_covariance E R g)"
    unfolding ukf_initial_covariance_def Let_def
    using g covariance_ok_sigma [OF E] covariance_ok_congruence [OF E R]
    by (intro blocks zero) (simp_all split: if_splits)
  then show "square kStateSize (ukf_initial_covariance E R g)" "symmetric (ukf_initial_covariance E R g)" by simp_all
qed

lemma Ukf_TryInitialiseFromGnss_ok:
  assumes E: "eigen_algebra E" and k: "ukf_ok k" and cov: "covariances_ok (M_GnssSolution g)"
  shows "\<exists>k'. Ukf_TryInitialiseFromGnss E k g = (gnss_usable g, k') \<and> ukf_ok k' \<and>
    ukf_options k' = ukf_options k \<and> ukf_models k' = ukf_models k \<and>
    (gnss_usable g \<longrightarrow> ukf_initialised k') \<and> (\<not> gnss_usable g \<longrightarrow> k' = k)"
  using k ltp_rotation_square ukf_initial_covariance_ok [OF E ltp_rotation_square cov]
  by (auto simp: Ukf_TryInitialiseFromGnss_def gnss_usable_def Let_def ukf_ok_def ukf_state_ok_def context_ok_def)

lemma Ukf_PropagateTo_ok:
  assumes E: "eigen_algebra E" and k: "ukf_ok k"
  shows "\<exists>k'. Ukf_PropagateTo E llt k t = Some k' \<and> ukf_ok k' \<and> ukf_same k k' \<and>
    ukf_initialised k' = ukf_initialised k \<and> ukf_local_tangent_plane k' = ukf_local_tangent_plane k"
proof -
  obtain batch b where p: "PopUntil imu_timestamp (ukf_imu_buffer k) t True = (batch, b)" by fastforce
  from k have "0 < ukf_max_imu_dt_s (ukf_options k)" "ukf_state_ok (ukf_state k)" by (simp_all add: ukf_ok_def)
  from ukf_propagate_batch_returns [OF E this] k show ?thesis
    by (fastforce simp: Ukf_PropagateTo_def p ukf_ok_def ukf_same_def)
qed

definition ukf_post :: "UkfEstimator \<Rightarrow> SensorMeasurement \<Rightarrow> MeasurementUpdateReport \<Rightarrow> UkfEstimator \<Rightarrow> bool" where
  "ukf_post k m rep k' \<longleftrightarrow>
     ukf_ok k' \<and> ukf_same k k' \<and>
     (is_imu m \<longrightarrow> result rep \<in> {Buffered, Result_OutOfOrder}) \<and>
     (\<not> ukf_initialised k \<longrightarrow> (ukf_initialised k' \<longleftrightarrow> result rep = Accepted) \<and>
        (result rep = Accepted \<longrightarrow> is_gnss_solution m))"

lemma Ukf_AddMeasurement_ok:
  assumes E: "eigen_algebra E" "ldlt_shapes E" and k: "ukf_ok k"
    and m: "covariances_ok m" "aiding_complete m"
  shows "\<exists>rep k'. Ukf_AddMeasurement E llt k m = Some (Inr (rep, k')) \<and> ukf_post k m rep k'"
proof -
  consider (imu) imu where "m = M_Imu imu" | (wait) "\<not> is_imu m" "\<not> ukf_initialised k"
    | (run) "\<not> is_imu m" "ukf_initialised k" by (cases m) auto
  then show ?thesis
  proof cases
    case imu
    then show ?thesis using k
      by (cases "Insert imu_timestamp (ukf_imu_buffer k) imu")
         (auto simp: Ukf_AddMeasurement_def ukf_post_def ukf_ok_def ukf_same_def report_def)
  next
    case wait
    show ?thesis
    proof (cases "\<exists>g. m = M_GnssSolution g")
      case True
      then obtain g where g: "m = M_GnssSolution g" by blast
      from Ukf_TryInitialiseFromGnss_ok [OF E(1) k] m(1) show ?thesis unfolding g
        using wait(2) by (cases "gnss_usable g") (fastforce simp: Ukf_AddMeasurement_def ukf_post_def ukf_same_def)+
    next
      case False
      then have "Ukf_AddMeasurement E llt k m = Some (Inr (report NotInitialized, k))"
        using wait by (cases m; simp add: Ukf_AddMeasurement_def)+
      then show ?thesis using k wait by (simp add: ukf_post_def report_def)
    qed
  next
    case run
    from Ukf_PropagateTo_ok [OF E(1) k, of llt "GetTimestamp m"] obtain k1 where
      k1: "Ukf_PropagateTo E llt k (GetTimestamp m) = Some k1" "ukf_ok k1" "ukf_same k k1" "ukf_initialised k1"
      using run(2) by auto
    then have "\<forall>mdl\<in>set (ukf_models k1). ukf_model_ok mdl" by (simp add: ukf_ok_def)
    from ukf_dispatch_ok [OF E k1(2) m this, of llt] obtain rep k2 where
      k2: "ukf_dispatch E llt k1 m (ukf_models k1) = Inr (rep, k2)" "ukf_ok k2" "ukf_same k1 k2" by blast
    have "Ukf_AddMeasurement E llt k m = Some (ukf_dispatch E llt k1 m (ukf_models k1))"
      using run k1(1) by (cases m; simp add: Ukf_AddMeasurement_def)
    with k1 k2 run show ?thesis by (auto simp: ukf_post_def ukf_same_def)
  qed
qed

end
