(* ===== verification/Fg_UkfSystem.thy ===== *)
theory Fg_UkfSystem
  imports Fg_UkfInvariant Fg_EkfScenarios
begin

text \<open>
  The UKF factory of \<^verbatim>\<open>src/estimation/src/navigation_system.cpp\<close> and the properties of the
  estimator it builds: the engine with the fourteen concrete models keeps its invariant, returns
  from every call, and implements the interface the pipeline relies on.
\<close>

section \<open>The factory\<close>

definition ukf_gnss_options :: "GnssLooselyCoupledOptions \<Rightarrow> UkfGnssLooselyCoupledOptions" where
  "ukf_gnss_options g = UkfGnssLooselyCoupledOptions_default
     \<lparr>uglo_position_sigma_m := glo_position_sigma_m g, uglo_velocity_sigma_mps := glo_velocity_sigma_mps g\<rparr>"

definition ukf_barometer_options :: "BarometerOptions \<Rightarrow> UkfBarometerOptions" where
  "ukf_barometer_options c = UkfBarometerOptions_default
     \<lparr>ubo_altitude_sigma_m := bo_altitude_sigma_m c,
      ubo_isa_sea_level_pressure_pa := bo_isa_sea_level_pressure_pa c,
      ubo_innovation_gate := bo_innovation_gate c\<rparr>"

definition ukf_magnetometer_options :: "MagnetometerOptions \<Rightarrow> UkfMagnetometerOptions" where
  "ukf_magnetometer_options c = UkfMagnetometerOptions_default
     \<lparr>umgo_reference_field_enu_tesla := mgo_reference_field_enu_tesla c,
      umgo_sigma_tesla := mgo_sigma_tesla c,
      umgo_innovation_gate := mgo_innovation_gate c\<rparr>"

definition ukf_wheel_odometry_options :: "WheelOdometryOptions \<Rightarrow> UkfWheelOdometryOptions" where
  "ukf_wheel_odometry_options c = UkfWheelOdometryOptions_default
     \<lparr>uwoo_sigma_linear_mps := woo_sigma_linear_mps c,
      uwoo_innovation_gate := woo_innovation_gate c\<rparr>"

definition ukf_airspeed_options :: "AirspeedOptions \<Rightarrow> UkfAirspeedOptions" where
  "ukf_airspeed_options c = UkfAirspeedOptions_default
     \<lparr>uaso_wind_enu_mps := aso_wind_enu_mps c,
      uaso_sigma_mps := aso_sigma_mps c,
      uaso_innovation_gate := aso_innovation_gate c\<rparr>"

definition ukf_optical_flow_options :: "OpticalFlowOptions \<Rightarrow> UkfOpticalFlowOptions" where
  "ukf_optical_flow_options c = UkfOpticalFlowOptions_default
     \<lparr>uofo_fallback_altitude_m := ofo_fallback_altitude_m c,
      uofo_sigma_radps := ofo_sigma_radps c,
      uofo_innovation_gate := ofo_innovation_gate c\<rparr>"

definition ukf_radar_altimeter_options :: "RadarAltimeterOptions \<Rightarrow> UkfRadarAltimeterOptions" where
  "ukf_radar_altimeter_options c = UkfRadarAltimeterOptions_default
     \<lparr>urao_terrain_elevation_m := rao_terrain_elevation_m c,
      urao_sigma_m := rao_sigma_m c,
      urao_innovation_gate := rao_innovation_gate c\<rparr>"

definition ukf_dvl_options :: "DvlOptions \<Rightarrow> UkfDvlOptions" where
  "ukf_dvl_options c = UkfDvlOptions_default
     \<lparr>udvo_dvl_to_body_rotation := dvo_dvl_to_body_rotation c,
      udvo_bottom_track_only := dvo_bottom_track_only c,
      udvo_sigma_mps := dvo_sigma_mps c,
      udvo_innovation_gate := dvo_innovation_gate c\<rparr>"

definition ukf_echo_sounder_options :: "EchoSounderOptions \<Rightarrow> UkfEchoSounderOptions" where
  "ukf_echo_sounder_options c = UkfEchoSounderOptions_default
     \<lparr>ueso_sound_speed_mps := eso_sound_speed_mps c,
      ueso_depth_origin_m := eso_depth_origin_m c,
      ueso_sigma_m := eso_sigma_m c,
      ueso_innovation_gate := eso_innovation_gate c\<rparr>"

definition ukf_external_pose_options :: "ExternalPoseOptions \<Rightarrow> UkfExternalPoseOptions" where
  "ukf_external_pose_options c = UkfExternalPoseOptions_default
     \<lparr>uepo_use_position := epo_use_position c,
      uepo_use_orientation := epo_use_orientation c,
      uepo_position_sigma_m := epo_position_sigma_m c,
      uepo_orientation_sigma_rad := epo_orientation_sigma_rad c,
      uepo_innovation_gate := epo_innovation_gate c\<rparr>"

definition ukf_external_velocity_options :: "ExternalVelocityOptions \<Rightarrow> UkfExternalVelocityOptions" where
  "ukf_external_velocity_options c = UkfExternalVelocityOptions_default
     \<lparr>uevo_sigma_linear_mps := evo_sigma_linear_mps c,
      uevo_innovation_gate := evo_innovation_gate c\<rparr>"

definition ukf_external_odometry_options :: "ExternalOdometryOptions \<Rightarrow> UkfExternalOdometryOptions" where
  "ukf_external_odometry_options c = UkfExternalOdometryOptions_default
     \<lparr>uexo_use_position := exo_use_position c,
      uexo_use_velocity := exo_use_velocity c,
      uexo_use_orientation := exo_use_orientation c,
      uexo_position_sigma_m := exo_position_sigma_m c,
      uexo_velocity_sigma_mps := exo_velocity_sigma_mps c,
      uexo_orientation_sigma_rad := exo_orientation_sigma_rad c,
      uexo_innovation_gate := exo_innovation_gate c\<rparr>"

definition ukf_aiding_solution_options :: "AidingSolutionOptions \<Rightarrow> UkfAidingSolutionOptions" where
  "ukf_aiding_solution_options c = UkfAidingSolutionOptions_default
     \<lparr>uado_min_match_score := ado_min_match_score c,
      uado_position_sigma_m := ado_position_sigma_m c,
      uado_velocity_sigma_mps := ado_velocity_sigma_mps c,
      uado_attitude_sigma_rad := ado_attitude_sigma_rad c,
      uado_innovation_gate := ado_innovation_gate c\<rparr>"

definition ukf_star_tracker_options :: "StarTrackerOptions \<Rightarrow> UkfStarTrackerOptions" where
  "ukf_star_tracker_options c = UkfStarTrackerOptions_default
     \<lparr>usto_star_tracker_to_body := sto_star_tracker_to_body c,
      usto_sigma_yaw_rad := sto_sigma_yaw_rad c,
      usto_sigma_pitch_rad := sto_sigma_pitch_rad c,
      usto_sigma_roll_rad := sto_sigma_roll_rad c,
      usto_use_pitch_roll := sto_use_pitch_roll c,
      usto_innovation_gate := sto_innovation_gate c\<rparr>"

definition ukf_if_enabled :: "('o \<Rightarrow> IUkfMeasurementModel) \<Rightarrow> 'o SensorConfig \<Rightarrow> IUkfMeasurementModel list" where
  "ukf_if_enabled mk sc = (if sc_enabled sc then [mk (sc_options sc)] else [])"

definition ukf_factory_options :: "NavigationSystemConfig \<Rightarrow> UkfOptions" where
  "ukf_factory_options cfg = UkfOptions_default
     \<lparr>ukf_sigma_params := cfg_ukf_sigma_params cfg, ukf_imu_noise := cfg_imu_noise cfg,
      ukf_dead_reckoning_threshold_s := cfg_dead_reckoning_threshold_s cfg,
      ukf_min_imu_dt_s := cfg_min_imu_dt_s cfg, ukf_max_imu_dt_s := cfg_max_imu_dt_s cfg\<rparr>"

definition ukf_factory_models ::
  "eigen_ops \<Rightarrow> (nat \<Rightarrow> nat \<Rightarrow> real) \<Rightarrow> NavigationSystemConfig \<Rightarrow> IUkfMeasurementModel list" where
  "ukf_factory_models E uninit cfg =
     (if gnss_enabled (cfg_gnss cfg)
      then [UkfGnssLooselyCoupled E (ukf_gnss_options (gnss_loosely_coupled (cfg_gnss cfg)))] else []) @
     ukf_if_enabled (\<lambda>c. UkfBarometer E (ukf_barometer_options c)) (cfg_barometer cfg) @
     ukf_if_enabled (\<lambda>c. UkfMagnetometer E (ukf_magnetometer_options c)) (cfg_magnetometer cfg) @
     ukf_if_enabled (\<lambda>c. UkfWheelOdometry E (ukf_wheel_odometry_options c)) (cfg_wheel_odometry cfg) @
     ukf_if_enabled (\<lambda>c. UkfAirspeed E (ukf_airspeed_options c)) (cfg_airspeed cfg) @
     ukf_if_enabled (\<lambda>c. UkfOpticalFlow E (ukf_optical_flow_options c)) (cfg_optical_flow cfg) @
     ukf_if_enabled (\<lambda>c. UkfRadarAltimeter E (ukf_radar_altimeter_options c)) (cfg_radar_altimeter cfg) @
     ukf_if_enabled (\<lambda>c. UkfDvl E (ukf_dvl_options c)) (cfg_dvl cfg) @
     ukf_if_enabled (\<lambda>c. UkfEchoSounder E (ukf_echo_sounder_options c)) (cfg_echo_sounder cfg) @
     ukf_if_enabled (\<lambda>c. UkfExternalPose E (ukf_external_pose_options c)) (cfg_external_pose cfg) @
     ukf_if_enabled (\<lambda>c. UkfExternalVelocity E (ukf_external_velocity_options c)) (cfg_external_velocity cfg) @
     ukf_if_enabled (\<lambda>c. UkfExternalOdometry E (ukf_external_odometry_options c)) (cfg_external_odometry cfg) @
     ukf_if_enabled (\<lambda>c. UkfAidingSolution E (ukf_aiding_solution_options c)) (cfg_aiding_solution cfg) @
     ukf_if_enabled (\<lambda>c. UkfStarTracker E uninit (ukf_star_tracker_options c)) (cfg_star_tracker cfg)"

definition BuildUkfEstimator ::
  "eigen_ops \<Rightarrow> (nat \<Rightarrow> nat \<Rightarrow> real) \<Rightarrow> NavigationSystemConfig \<Rightarrow> UkfEstimator" where
  "BuildUkfEstimator E uninit cfg =
     foldl Ukf_RegisterMeasurementModel (UkfEstimator_new E (ukf_factory_options cfg))
       (ukf_factory_models E uninit cfg)"

section \<open>The estimator it builds\<close>

lemma foldl_ukf_register:
  "foldl Ukf_RegisterMeasurementModel k ms = k\<lparr>ukf_models := ukf_models k @ ms\<rparr>"
  by (induction ms arbitrary: k) (simp_all add: Ukf_RegisterMeasurementModel_def)

lemma ukf_if_enabled_simps:
  "(\<forall>mdl\<in>set (ukf_if_enabled mk sc). P mdl) \<longleftrightarrow> (sc_enabled sc \<longrightarrow> P (mk (sc_options sc)))"
  "filter Q (ukf_if_enabled mk sc) =
     (if sc_enabled sc \<and> Q (mk (sc_options sc)) then [mk (sc_options sc)] else [])"
  by (simp_all add: ukf_if_enabled_def)

lemma ukf_factory_models_ok:
  assumes E: "eigen_algebra E" "eigen_shapes E" and c: "config_typed cfg"
  shows "\<forall>mdl\<in>set (ukf_factory_models E uninit cfg). ukf_model_ok mdl"
proof -
  note models = ukf_scalar_models_ok [OF E] ukf_vector_models_ok [OF E] ukf_pose_models_ok(1,3-5) [OF E]
  have "square 3 (udvo_dvl_to_body_rotation (ukf_dvl_options (sc_options (cfg_dvl cfg))))"
    using c by (simp add: config_typed_def ukf_dvl_options_def)
  note dvl = ukf_pose_models_ok(2) [OF E this]
  show ?thesis
    unfolding ukf_factory_models_def set_append ball_Un ukf_if_enabled_simps by (simp add: models dvl)
qed

lemma BuildUkfEstimator_good:
  assumes E: "eigen_algebra E" "eigen_shapes E" and c: "config_typed cfg" "0 < cfg_max_imu_dt_s cfg"
  shows "ukf_ok (BuildUkfEstimator E uninit cfg)" "\<not> ukf_initialised (BuildUkfEstimator E uninit cfg)"
    "ukf_models (BuildUkfEstimator E uninit cfg) = ukf_factory_models E uninit cfg"
proof -
  have k: "BuildUkfEstimator E uninit cfg =
      (UkfEstimator_new E (ukf_factory_options cfg))\<lparr>ukf_models := ukf_factory_models E uninit cfg\<rparr>"
    by (simp add: BuildUkfEstimator_def foldl_ukf_register) (simp add: UkfEstimator_new_def)
  show "ukf_ok (BuildUkfEstimator E uninit cfg)" unfolding k
    using c(2) ukf_state_ok_default [OF E(1)] ukf_factory_models_ok [OF E c(1)]
    by (simp add: ukf_ok_def UkfEstimator_new_def ukf_factory_options_def context_ok_def)
qed (simp_all add: BuildUkfEstimator_def foldl_ukf_register UkfEstimator_new_def)

fun Ukf_AddMeasurements ::
  "eigen_ops \<Rightarrow> (MatrixXd \<Rightarrow> bool \<times> MatrixXd) \<Rightarrow> UkfEstimator \<Rightarrow> SensorMeasurement list \<Rightarrow>
     (cpp_exception + (MeasurementUpdateReport list \<times> UkfEstimator)) option" where
  "Ukf_AddMeasurements E llt k [] = Some (Inr ([], k))"
| "Ukf_AddMeasurements E llt k (m # ms) =
     (case Ukf_AddMeasurement E llt k m of
        None \<Rightarrow> None
      | Some (Inl e) \<Rightarrow> Some (Inl e)
      | Some (Inr (rep, k')) \<Rightarrow>
          map_option (\<lambda>r. bind_sum r (\<lambda>(reps, k''). Inr (rep # reps, k''))) (Ukf_AddMeasurements E llt k' ms))"

definition ukf_admissible :: "SensorMeasurement \<Rightarrow> bool" where
  "ukf_admissible m \<longleftrightarrow> covariances_ok m \<and> aiding_complete m"

lemma Ukf_AddMeasurements_ok:
  assumes E: "eigen_algebra E" "ldlt_shapes E" and "ukf_ok k" "\<forall>m\<in>set ms. ukf_admissible m"
  shows "\<exists>reps k'. Ukf_AddMeasurements E llt k ms = Some (Inr (reps, k')) \<and> ukf_ok k' \<and>
    length reps = length ms \<and> ukf_same k k' \<and>
    (ukf_initialised k' \<longleftrightarrow>
       ukf_initialised k \<or> (\<exists>i<length ms. is_gnss_solution (ms ! i) \<and> result (reps ! i) = Accepted))"
  using assms(3-)
proof (induction ms arbitrary: k)
  case (Cons m ms)
  from Cons.prems have m: "covariances_ok m" "aiding_complete m" and ms: "\<forall>m\<in>set ms. ukf_admissible m"
    by (simp_all add: ukf_admissible_def)
  from Ukf_AddMeasurement_ok [OF E Cons.prems(1) m, of llt] obtain rep k1 where
    k1: "Ukf_AddMeasurement E llt k m = Some (Inr (rep, k1))" "ukf_post k m rep k1" by blast
  from Cons.IH [OF _ ms, of k1] k1(2) obtain reps k2 where
    k2: "Ukf_AddMeasurements E llt k1 ms = Some (Inr (reps, k2))" "ukf_ok k2" "length reps = length ms"
      "ukf_same k1 k2" "ukf_initialised k2 \<longleftrightarrow> ukf_initialised k1 \<or>
         (\<exists>i<length ms. is_gnss_solution (ms ! i) \<and> result (reps ! i) = Accepted)"
    by (auto simp: ukf_post_def)
  have "(\<exists>i<length (m # ms). is_gnss_solution ((m # ms) ! i) \<and> result ((rep # reps) ! i) = Accepted) \<longleftrightarrow>
      is_gnss_solution m \<and> result rep = Accepted \<or>
      (\<exists>i<length ms. is_gnss_solution (ms ! i) \<and> result (reps ! i) = Accepted)"
    by (simp add: Ex_less_Suc2)
  with k1 k2 show ?case by (auto simp: ukf_post_def ukf_same_def)
qed simp

section \<open>The estimator behind the pipeline\<close>

definition ukf_ops :: "eigen_ops \<Rightarrow> (MatrixXd \<Rightarrow> bool \<times> MatrixXd) \<Rightarrow> UkfEstimator estimator_ops" where
  "ukf_ops E llt =
     \<lparr>add_measurement = (\<lambda>k m. case Ukf_AddMeasurement E llt k m of
          Some (Inr (rep, k')) \<Rightarrow> Some (rep, k') | _ \<Rightarrow> None),
      latest_state = Ukf_LatestState E, reset_estimator = Ukf_Reset E, is_initialized = Ukf_IsInitialized\<rparr>"

definition ukf_good :: "eigen_ops \<Rightarrow> UkfEstimator \<Rightarrow> bool" where
  "ukf_good E k \<longleftrightarrow> eigen_algebra E \<and> ldlt_shapes E \<and> ukf_ok k"

lemma ukf_ops_add:
  assumes "ukf_good E k" "ukf_admissible m"
  shows "\<exists>rep k'. add_measurement (ukf_ops E llt) k m = Some (rep, k') \<and> ukf_post k m rep k' \<and> ukf_good E k'"
proof -
  from assms Ukf_AddMeasurement_ok [of E k m llt] obtain rep k' where
    "Ukf_AddMeasurement E llt k m = Some (Inr (rep, k'))" "ukf_post k m rep k'"
    unfolding ukf_good_def ukf_admissible_def by blast
  with assms(1) show ?thesis by (simp add: ukf_ops_def ukf_good_def ukf_post_def)
qed

lemma ukf_ok_reset: "eigen_algebra E \<Longrightarrow> ukf_ok k \<Longrightarrow> ukf_ok (Ukf_Reset E k) \<and> \<not> ukf_initialised (Ukf_Reset E k)"
  by (simp add: ukf_ok_def Ukf_Reset_def ukf_state_ok_default context_ok_def)

interpretation ukf: navigation_estimator "ukf_ops E llt" "ukf_good E" ukf_admissible
  for E :: eigen_ops and llt :: "MatrixXd \<Rightarrow> bool \<times> MatrixXd"
proof
  fix k m rep k'
  assume k: "ukf_good E k" and m: "ukf_admissible m"
  show "\<exists>rep k'. add_measurement (ukf_ops E llt) k m = Some (rep, k') \<and> ukf_good E k'"
    using ukf_ops_add [OF k m] by blast
  assume add: "add_measurement (ukf_ops E llt) k m = Some (rep, k')"
  have post: "ukf_post k m rep k'" using ukf_ops_add [OF k m, of llt] add by auto
  show "is_imu m \<Longrightarrow> result rep \<noteq> Accepted" using post by (auto simp: ukf_post_def)
  show "is_initialized (ukf_ops E llt) k \<Longrightarrow> is_initialized (ukf_ops E llt) k'"
    using post by (simp add: ukf_post_def ukf_same_def ukf_ops_def Ukf_IsInitialized_def)
  show "\<not> is_initialized (ukf_ops E llt) k \<Longrightarrow>
      (is_initialized (ukf_ops E llt) k' \<longleftrightarrow> result rep = Accepted) \<and>
      (result rep = Accepted \<longrightarrow> is_gnss_solution m)"
    using post by (simp add: ukf_post_def ukf_ops_def Ukf_IsInitialized_def)
next
  fix k assume "ukf_good E k"
  then show "(latest_state (ukf_ops E llt) k \<noteq> None) = is_initialized (ukf_ops E llt) k"
    "ukf_good E (reset_estimator (ukf_ops E llt) k) \<and>
      \<not> is_initialized (ukf_ops E llt) (reset_estimator (ukf_ops E llt) k)"
    using ukf_ok_reset [of E k]
    by (simp_all add: ukf_ops_def Ukf_IsInitialized_def Ukf_LatestState_def ukf_good_def)
qed

section \<open>Properties\<close>

text \<open>
  C9. All dimensions agree in the UKF the factory builds from a typed configuration with a positive largest
  IMU step: on any sequence of measurements whose covariance blocks are covariances and without a partial aiding solution, every \<open>AddMeasurement\<close> call returns
  without an exception or a failed assertion of Eigen, there is one report per measurement, the
  covariance stays a symmetric 15x15 matrix, and the filter is initialised exactly when a GNSS
  solution was accepted.
\<close>

theorem ukf_run_safe:
  assumes "eigen_algebra E" "eigen_shapes E" "ldlt_shapes E" "config_typed cfg" "0 < cfg_max_imu_dt_s cfg"
    and "\<forall>m\<in>set ms. covariances_ok m \<and> aiding_complete m"
  shows "\<exists>reps k. Ukf_AddMeasurements E llt (BuildUkfEstimator E uninit cfg) ms = Some (Inr (reps, k)) \<and>
    length reps = length ms \<and> square 15 (ukf_covariance (ukf_state k)) \<and>
    symmetric (ukf_covariance (ukf_state k)) \<and>
    (ukf_initialised k \<longleftrightarrow> (\<exists>i<length ms. is_gnss_solution (ms ! i) \<and> result (reps ! i) = Accepted))"
proof -
  note good = BuildUkfEstimator_good [OF assms(1,2,4,5)]
  have "\<forall>m\<in>set ms. ukf_admissible m" using assms(6) by (simp add: ukf_admissible_def)
  from Ukf_AddMeasurements_ok [OF assms(1,3) good(1) this] good(2) show ?thesis
    by (fastforce simp: ukf_ok_def ukf_state_ok_def kStateSize_def)
qed

theorem ukf_run_safe_witness:
  "\<exists>reps k. Ukf_AddMeasurements eigen_reference diagonal_llt
      (BuildUkfEstimator eigen_reference (\<lambda>_ _. 0) demo_config) demo_inputs = Some (Inr (reps, k)) \<and>
    length reps = length demo_inputs \<and> square 15 (ukf_covariance (ukf_state k))"
proof -
  have "\<forall>m\<in>set demo_inputs. covariances_ok m \<and> aiding_complete m"
    using demo_facts(4) by (simp add: demo_inputs_def)
  from ukf_run_safe [OF eigen_reference_laws eigen_reference_ldlt demo_facts(1,2) this] show ?thesis by blast
qed

text \<open>Each of the registered models handles one variant.\<close>

lemma ukf_CanHandle_variant:
  "ukf_CanHandle (UkfGnssLooselyCoupled E o1) m \<longleftrightarrow> variant m = 15"
  "ukf_CanHandle (UkfBarometer E o3) m \<longleftrightarrow> variant m = 2"
  "ukf_CanHandle (UkfMagnetometer E o4) m \<longleftrightarrow> variant m = 1"
  "ukf_CanHandle (UkfWheelOdometry E o5) m \<longleftrightarrow> variant m = 5"
  "ukf_CanHandle (UkfAirspeed E o6) m \<longleftrightarrow> variant m = 6"
  "ukf_CanHandle (UkfOpticalFlow E o7) m \<longleftrightarrow> variant m = 8"
  "ukf_CanHandle (UkfRadarAltimeter E o8) m \<longleftrightarrow> variant m = 3"
  "ukf_CanHandle (UkfDvl E o10) m \<longleftrightarrow> variant m = 9"
  "ukf_CanHandle (UkfEchoSounder E o11) m \<longleftrightarrow> variant m = 10"
  "ukf_CanHandle (UkfExternalPose E o12) m \<longleftrightarrow> variant m = 11"
  "ukf_CanHandle (UkfExternalVelocity E o13) m \<longleftrightarrow> variant m = 12"
  "ukf_CanHandle (UkfExternalOdometry E o14) m \<longleftrightarrow> variant m = 13"
  "ukf_CanHandle (UkfAidingSolution E o15) m \<longleftrightarrow> variant m = 18"
  "ukf_CanHandle (UkfStarTracker E uninit o16) m \<longleftrightarrow> variant m = 19"
  by (cases m; simp add: UkfGnssLooselyCoupled_def UkfBarometer_def UkfMagnetometer_def UkfWheelOdometry_def
      UkfAirspeed_def UkfOpticalFlow_def UkfRadarAltimeter_def UkfDvl_def UkfEchoSounder_def UkfExternalPose_def
      UkfExternalVelocity_def UkfExternalOdometry_def UkfAidingSolution_def UkfStarTracker_def)+

lemma ukf_dispatch_filter:
  "ukf_dispatch E llt k m ms = ukf_dispatch E llt k m (filter (\<lambda>mdl. ukf_CanHandle mdl m) ms)"
  by (induction ms) simp_all

lemma ukf_aiding_dispatch:
  assumes "sc_enabled (cfg_aiding_solution cfg)"
  shows "filter (\<lambda>mdl. ukf_CanHandle mdl (M_AidingSolution aid)) (ukf_factory_models E uninit cfg) =
    [UkfAidingSolution E (ukf_aiding_solution_options (sc_options (cfg_aiding_solution cfg)))]"
  using assms by (simp add: ukf_factory_models_def ukf_if_enabled_simps ukf_CanHandle_variant)

lemma aiding_observe_rows:
  assumes "aid_validity aid = Valid" "\<forall>x. aid_match_score aid = Some x \<longrightarrow> uado_min_match_score opts \<le> x"
    and "ActiveBlocks aid = (a, b, c)" "a \<or> b \<or> c"
  shows "\<exists>z. UkfAidingSolution_Observe E opts (M_AidingSolution aid) (Some ltp) = Inr (Some z) \<and>
    mat_rows z = 3 * length (filter id [a, b, c])"
proof -
  have score: "\<not> (case aid_match_score aid of None \<Rightarrow> False | Some x \<Rightarrow> x < uado_min_match_score opts)"
    using assms(2) by (auto split: option.splits)
  show ?thesis using assms(1,3,4) score
    by (cases "aid_position_ecef_m aid"; cases "aid_velocity_ecef_mps aid"; cases "aid_orientation_body_to_ecef aid";
        cases "OrientationValidity_any (aid_orientation_validity aid)")
       (auto simp: UkfAidingSolution_Observe_def ActiveBlocks_def Let_def)
qed

lemma ukf_run_reaches:
  assumes "eigen_algebra E" "eigen_shapes E" "ldlt_shapes E" "config_typed cfg" "0 < cfg_max_imu_dt_s cfg"
    and "\<forall>m\<in>set ms. covariances_ok m \<and> aiding_complete m"
    and "Ukf_AddMeasurements E llt (BuildUkfEstimator E uninit cfg) ms = Some (Inr (reps, k))"
  shows "ukf_ok k" "ukf_models k = ukf_factory_models E uninit cfg"
proof -
  note good = BuildUkfEstimator_good [OF assms(1,2,4,5), of uninit]
  have "\<forall>m\<in>set ms. ukf_admissible m" using assms(6) by (simp add: ukf_admissible_def)
  from Ukf_AddMeasurements_ok [OF assms(1,3) good(1) this, of llt] assms(7) good(3)
  show "ukf_ok k" "ukf_models k = ukf_factory_models E uninit cfg" by (auto simp: ukf_same_def)
qed

text \<open>
  C10. A partial aiding solution aborts the UKF: once the filter is initialised, any valid aiding
  solution that carries some but not all of position, velocity and orientation fails the
  dimension assertion of Eigen inside the update, because \<open>Observe\<close> stacks the blocks present
  while \<open>Predict\<close> always stacks three.
\<close>

theorem ukf_partial_aiding_asserts:
  assumes "eigen_algebra E" "eigen_shapes E" "ldlt_shapes E" "config_typed cfg" "0 < cfg_max_imu_dt_s cfg"
    and "\<forall>m\<in>set ms. covariances_ok m \<and> aiding_complete m" "sc_enabled (cfg_aiding_solution cfg)"
    and "Ukf_AddMeasurements E llt (BuildUkfEstimator E uninit cfg) ms = Some (Inr (reps, k))" "ukf_initialised k"
    and "aid_validity aid = Valid"
    and "\<forall>x. aid_match_score aid = Some x \<longrightarrow> ado_min_match_score (sc_options (cfg_aiding_solution cfg)) \<le> x"
    and "ActiveBlocks aid = (a, b, c)" "a \<or> b \<or> c" "\<not> (a \<and> b \<and> c)"
  shows "Ukf_AddMeasurement E llt k (M_AidingSolution aid) = Some (Inl AssertionFailed)"
proof -
  let ?m = "M_AidingSolution aid"
  let ?o = "ukf_aiding_solution_options (sc_options (cfg_aiding_solution cfg))"
  let ?mdl = "UkfAidingSolution E ?o"
  note k = ukf_run_reaches [OF assms(1-6,8)]
  from Ukf_PropagateTo_ok [OF assms(1) k(1)] obtain k1 where
    k1: "Ukf_PropagateTo E llt k (GetTimestamp ?m) = Some k1" "ukf_ok k1" "ukf_same k k1" by blast
  then obtain ltp where ltp: "ukf_local_tangent_plane k1 = Some ltp"
    using assms(9) by (auto simp: ukf_ok_def ukf_same_def)
  have "\<forall>x. aid_match_score aid = Some x \<longrightarrow> uado_min_match_score ?o \<le> x"
    using assms(11) by (simp add: ukf_aiding_solution_options_def)
  from aiding_observe_rows [OF assms(10) this assms(12,13)] obtain z where
    z: "UkfAidingSolution_Observe E ?o ?m (Some ltp) = Inr (Some z)" "mat_rows z = 3 * length (filter id [a, b, c])"
    by blast
  have "mat_rows (ukf_predictions E ?mdl s (Some ltp) 0) = 9" for s
    by (simp add: ukf_predictions_def UkfAidingSolution_def UkfAidingSolution_Predict_def)
  moreover have "mat_rows z \<noteq> 9" using z(2) assms(14) by (cases a; cases b; cases c) simp_all
  ultimately have "\<exists>i<kNumSigmaPoints. mat_rows (ukf_predictions E ?mdl s (Some ltp) i) \<noteq> mat_rows z" for s
    by (intro exI [of _ 0]) (simp add: kNumSigmaPoints_def)
  with z(1) have "ApplyMeasurementModel E llt ?mdl ?m k1 = Inl AssertionFailed"
    by (simp add: ApplyMeasurementModel_def ltp UkfAidingSolution_def UkfAidingSolution_NoiseCovariance_def
        assms(12) Let_def)
  moreover have "ukf_dispatch E llt k1 ?m (ukf_models k1) = ukf_dispatch E llt k1 ?m [?mdl]"
    using k1(3) k(2) ukf_dispatch_filter [of E llt k1 ?m "ukf_models k1"] ukf_aiding_dispatch [OF assms(7)]
    by (simp add: ukf_same_def)
  ultimately show ?thesis using k1(1) assms(9)
    by (simp add: Ukf_AddMeasurement_def ukf_CanHandle_variant)
qed

definition aiding_config :: NavigationSystemConfig where
  "aiding_config = demo_config\<lparr>cfg_aiding_solution := \<lparr>sc_enabled = True, sc_options = AidingSolutionOptions_default\<rparr>\<rparr>"

lemma aiding_config_facts:
  "config_typed aiding_config" "0 < cfg_max_imu_dt_s aiding_config" "sc_enabled (cfg_aiding_solution aiding_config)"
  using demo_facts(1,2) by (simp_all add: aiding_config_def config_typed_def)

text \<open>The first fix initialises the filter.\<close>

lemma ukf_first_fix:
  assumes "eigen_algebra E" "ldlt_shapes E" "ukf_ok k" "\<not> ukf_initialised k"
  obtains reps k' where "Ukf_AddMeasurements E llt k [demo_fix] = Some (Inr (reps, k'))" "ukf_initialised k'"
    "\<forall>m\<in>set [demo_fix]. covariances_ok m \<and> aiding_complete m"
proof -
  let ?g = "GnssSolution_default\<lparr>gnss_fix_type := Single\<rparr>"
  have g: "covariances_ok (M_GnssSolution ?g)" using demo_fix_facts(1) by (simp add: demo_fix_def)
  have "gnss_usable ?g" by (simp add: gnss_usable_def GnssSolution_default_def)
  with Ukf_TryInitialiseFromGnss_ok [OF assms(1,3) g] obtain k' where
    k': "Ukf_TryInitialiseFromGnss E k ?g = (True, k')" "ukf_initialised k'" by auto
  then have "Ukf_AddMeasurements E llt k [demo_fix] =
      Some (Inr ([\<lparr>result = Accepted, model_name = ''UkfGnssLooselyCoupled'', correction_norm = None\<rparr>], k'))"
    using assms(4) by (simp add: demo_fix_def Ukf_AddMeasurement_def)
  then show thesis using k'(2) by (rule that) (use demo_fix_facts(1) in \<open>simp add: demo_fix_def\<close>)
qed

text \<open>A valid solution of visual odometry that carries a position only.\<close>

definition position_only :: AidingSolution where
  "position_only =
     \<lparr>aid_timestamp = Timestamp_default, aid_source = VisualOdometry, aid_position_ecef_m = Some Vec3_zero,
      aid_position_covariance_ecef_m2 = Matrix_Zero 3 3, aid_velocity_ecef_mps = None,
      aid_velocity_covariance_ecef_mps2 = Matrix_Zero 3 3, aid_orientation_body_to_ecef = None,
      aid_orientation_validity = \<lparr>ov_yaw = False, ov_pitch = False, ov_roll = False\<rparr>,
      aid_orientation_sigma_rad = Vector3d_Zero, aid_match_score = None, aid_validity = Valid\<rparr>"

theorem ukf_partial_aiding_asserts_witness:
  "\<exists>reps k. Ukf_AddMeasurements eigen_reference diagonal_llt
      (BuildUkfEstimator eigen_reference (\<lambda>_ _. 0) aiding_config) [demo_fix] = Some (Inr (reps, k)) \<and>
    Ukf_AddMeasurement eigen_reference diagonal_llt k (M_AidingSolution position_only) = Some (Inl AssertionFailed)"
proof -
  note good = BuildUkfEstimator_good [OF eigen_reference_laws aiding_config_facts(1,2), of "\<lambda>_ _. 0"]
  obtain reps k where k: "Ukf_AddMeasurements eigen_reference diagonal_llt
      (BuildUkfEstimator eigen_reference (\<lambda>_ _. 0) aiding_config) [demo_fix] = Some (Inr (reps, k))"
    "ukf_initialised k" "\<forall>m\<in>set [demo_fix]. covariances_ok m \<and> aiding_complete m"
    using ukf_first_fix [OF eigen_reference_laws(1) eigen_reference_ldlt good(1,2)] by blast
  have "aid_validity position_only = Valid" "aid_match_score position_only = None"
    "ActiveBlocks position_only = (True, False, False)"
    by (simp_all add: position_only_def ActiveBlocks_def OrientationValidity_any_def)
  then have "Ukf_AddMeasurement eigen_reference diagonal_llt k (M_AidingSolution position_only) = Some (Inl AssertionFailed)"
    by (intro ukf_partial_aiding_asserts [OF eigen_reference_laws eigen_reference_ldlt aiding_config_facts(1,2) k(3)
        aiding_config_facts(3) k(1,2)]) auto
  with k(1) show ?thesis by blast
qed

text \<open>
  The UKF has no innovation gate: after any run, a measurement whose model makes an
  observation of it is accepted, whatever its innovation and whatever gates are configured.
\<close>

theorem ukf_has_no_gate:
  assumes "eigen_algebra E" "eigen_shapes E" "ldlt_shapes E" "config_typed cfg" "0 < cfg_max_imu_dt_s cfg"
    and "\<forall>m\<in>set ms. covariances_ok m \<and> aiding_complete m"
    and "Ukf_AddMeasurements E llt (BuildUkfEstimator E uninit cfg) ms = Some (Inr (reps, k))" "ukf_initialised k"
    and "covariances_ok m" "aiding_complete m" "\<not> is_imu m"
    and "filter (\<lambda>mdl. ukf_CanHandle mdl m) (ukf_factory_models E uninit cfg) = mdl # rest"
    and "ukf_Observe mdl m (ukf_local_tangent_plane k) = Inr (Some z)"
  shows "\<exists>rep k'. Ukf_AddMeasurement E llt k m = Some (Inr (rep, k')) \<and> result rep = Accepted"
proof -
  note k = ukf_run_reaches [OF assms(1-7)]
  from Ukf_PropagateTo_ok [OF assms(1) k(1)] obtain k1 where
    k1: "Ukf_PropagateTo E llt k (GetTimestamp m) = Some k1" "ukf_ok k1" "ukf_same k k1" by blast
  have "mdl \<in> set (filter (\<lambda>mdl. ukf_CanHandle mdl m) (ukf_factory_models E uninit cfg))"
    unfolding assms(12) by simp
  then have can: "ukf_CanHandle mdl m" and ok: "ukf_model_ok mdl"
    using ukf_factory_models_ok [OF assms(1,2,4)] by auto
  from ApplyMeasurementModel_ok [OF assms(1,3) k1(2) ok can assms(9,10), of llt] obtain rep k2 where
    "ApplyMeasurementModel E llt mdl m k1 = Inr (rep, k2)" "result rep = Accepted"
    using assms(8,13) k1(3) by (auto simp: ukf_same_def)
  then have "ukf_dispatch E llt k1 m (ukf_models k1) = Inr (rep, k2\<lparr>ukf_last_aiding_timestamp := Some (GetTimestamp m)\<rparr>)"
    using ukf_dispatch_filter [of E llt k1 m "ukf_models k1"] k1(3) k(2) assms(12) can by (simp add: ukf_same_def)
  with \<open>result rep = Accepted\<close> k1(1) assms(8,11) show ?thesis
    by (cases m) (simp_all add: Ukf_AddMeasurement_def)
qed

definition wheel_config :: NavigationSystemConfig where
  "wheel_config = demo_config\<lparr>cfg_wheel_odometry := \<lparr>sc_enabled = True, sc_options = WheelOdometryOptions_default\<rparr>\<rparr>"

lemma wheel_config_facts: "config_typed wheel_config" "0 < cfg_max_imu_dt_s wheel_config"
  using demo_facts(1,2) by (simp_all add: wheel_config_def config_typed_def)

definition wheel_sample :: WheelOdometryMeasurement where
  "wheel_sample =
     \<lparr>odo_timestamp = Timestamp_default, odo_linear_velocity_body_mps = Vec3_xyz 1000 0 0,
      odo_angular_rate_body_radps = Vec3_zero, odo_covariance = Matrix_Zero 6 6, odo_validity = Valid\<rparr>"

theorem ukf_has_no_gate_witness:
  "\<exists>reps k. Ukf_AddMeasurements eigen_reference diagonal_llt
      (BuildUkfEstimator eigen_reference (\<lambda>_ _. 0) wheel_config) [demo_fix] = Some (Inr (reps, k)) \<and>
    (\<exists>rep k'. Ukf_AddMeasurement eigen_reference diagonal_llt k (M_WheelOdometry wheel_sample) = Some (Inr (rep, k')) \<and>
       result rep = Accepted)"
proof -
  note good = BuildUkfEstimator_good [OF eigen_reference_laws wheel_config_facts, of "\<lambda>_ _. 0"]
  obtain reps k where k: "Ukf_AddMeasurements eigen_reference diagonal_llt
      (BuildUkfEstimator eigen_reference (\<lambda>_ _. 0) wheel_config) [demo_fix] = Some (Inr (reps, k))"
    "ukf_initialised k" "\<forall>m\<in>set [demo_fix]. covariances_ok m \<and> aiding_complete m"
    using ukf_first_fix [OF eigen_reference_laws(1) eigen_reference_ldlt good(1,2)] by blast
  have f: "filter (\<lambda>mdl. ukf_CanHandle mdl (M_WheelOdometry odo))
      (ukf_factory_models eigen_reference (\<lambda>_ _. 0) wheel_config) =
      UkfWheelOdometry eigen_reference (ukf_wheel_odometry_options WheelOdometryOptions_default) # []" for odo
    by (simp add: ukf_factory_models_def ukf_if_enabled_simps ukf_CanHandle_variant wheel_config_def)
  have "\<exists>rep k'. Ukf_AddMeasurement eigen_reference diagonal_llt k (M_WheelOdometry wheel_sample) = Some (Inr (rep, k')) \<and>
      result rep = Accepted"
    by (rule ukf_has_no_gate [OF eigen_reference_laws eigen_reference_ldlt wheel_config_facts k(3,1,2) _ _ _ f])
       (simp_all add: UkfWheelOdometry_def UkfWheelOdometry_Observe_def wheel_sample_def)
  with k(1) show ?thesis by blast
qed

end
