(* ===== verification/Fg_Quaternions.thy ===== *)
theory Fg_Quaternions
  imports Fg_Math
begin

text \<open>
  What the code relies on of Eigen's quaternions: the laws of the product, the conjugate, normalisation and
  the rotation matrix, and from them that rotations are orthonormal and multiply like quaternions. The
  reference instance of Eigen satisfies the laws.
\<close>

section \<open>The laws\<close>

lemma all_less_3: "(\<forall>i<3. P i) \<longleftrightarrow> P 0 \<and> P 1 \<and> P (2::nat)"
  by (simp add: numeral_3_eq_3 numeral_2_eq_2 less_Suc_eq) blast

text \<open>Eigen's quaternions: the product, the conjugate, normalisation and the rotation matrix.\<close>

definition quat_laws :: "eigen_ops \<Rightarrow> bool" where
  "quat_laws E \<longleftrightarrow>
     (\<forall>p q. e_quat_mul E p q = Quaterniond
        (q_w p * q_w q - q_x p * q_x q - q_y p * q_y q - q_z p * q_z q)
        (q_w p * q_x q + q_x p * q_w q + q_y p * q_z q - q_z p * q_y q)
        (q_w p * q_y q - q_x p * q_z q + q_y p * q_w q + q_z p * q_x q)
        (q_w p * q_z q + q_x p * q_y q - q_y p * q_x q + q_z p * q_w q)) \<and>
     (\<forall>q. e_quat_conjugate E q = Quaterniond (q_w q) (- q_x q) (- q_y q) (- q_z q)) \<and>
     (\<forall>q. \<exists>c. e_quat_normalized E q = Quaterniond (c * q_w q) (c * q_x q) (c * q_y q) (c * q_z q) \<and>
        (q = Quaterniond 0 0 0 0 \<or> c * q_w q * (c * q_w q) + c * q_x q * (c * q_x q) + c * q_y q * (c * q_y q) + c * q_z q * (c * q_z q) = 1)) \<and>
     (\<forall>q. let R = e_rotation_matrix E q in
        coeff R 0 0 = 1 - 2 * (q_y q * q_y q + q_z q * q_z q) \<and> coeff R 0 1 = 2 * (q_x q * q_y q - q_w q * q_z q) \<and>
        coeff R 0 2 = 2 * (q_x q * q_z q + q_w q * q_y q) \<and> coeff R 1 0 = 2 * (q_x q * q_y q + q_w q * q_z q) \<and>
        coeff R 1 1 = 1 - 2 * (q_x q * q_x q + q_z q * q_z q) \<and> coeff R 1 2 = 2 * (q_y q * q_z q - q_w q * q_x q) \<and>
        coeff R 2 0 = 2 * (q_x q * q_z q - q_w q * q_y q) \<and> coeff R 2 1 = 2 * (q_y q * q_z q + q_w q * q_x q) \<and>
        coeff R 2 2 = 1 - 2 * (q_x q * q_x q + q_y q * q_y q))"

lemma quat_lawsD:
  assumes "quat_laws E"
  shows "e_quat_mul E p q = Quaterniond
        (q_w p * q_w q - q_x p * q_x q - q_y p * q_y q - q_z p * q_z q)
        (q_w p * q_x q + q_x p * q_w q + q_y p * q_z q - q_z p * q_y q)
        (q_w p * q_y q - q_x p * q_z q + q_y p * q_w q + q_z p * q_x q)
        (q_w p * q_z q + q_x p * q_y q - q_y p * q_x q + q_z p * q_w q)"
    and "e_quat_conjugate E q = Quaterniond (q_w q) (- q_x q) (- q_y q) (- q_z q)"
    and "\<exists>c. e_quat_normalized E q = Quaterniond (c * q_w q) (c * q_x q) (c * q_y q) (c * q_z q)"
  using assms unfolding quat_laws_def by blast+

definition unit_quat :: "Quaterniond \<Rightarrow> bool" where
  "unit_quat q \<longleftrightarrow> q_w q * q_w q + q_x q * q_x q + q_y q * q_y q + q_z q * q_z q = 1"

lemma normalized_unit: "quat_laws E \<Longrightarrow> unit_quat (e_quat_normalized E q) \<or> e_quat_normalized E q = Quaterniond 0 0 0 0"
  unfolding quat_laws_def unit_quat_def by (metis mult_zero_right Quaterniond.sel)

text \<open>The transposed rotation undoes the rotation.\<close>

definition rotates_back :: "MatrixXd \<Rightarrow> bool" where
  "rotates_back R \<longleftrightarrow> (\<forall>x y z. \<forall>i<3.
     coeff R 0 i * (coeff R 0 0 * x + coeff R 0 1 * y + coeff R 0 2 * z) +
     coeff R 1 i * (coeff R 1 0 * x + coeff R 1 1 * y + coeff R 1 2 * z) +
     coeff R 2 i * (coeff R 2 0 * x + coeff R 2 1 * y + coeff R 2 2 * z) = (if i = 0 then x else if i = 1 then y else z))"

lemma orthonormal_unit:
  fixes a b c d :: real
  assumes "a * a + b * b + c * c + d * d = 1"
  defines "r00 \<equiv> 1 - 2 * (c * c + d * d)" and "r01 \<equiv> 2 * (b * c - a * d)" and "r02 \<equiv> 2 * (b * d + a * c)"
    and "r10 \<equiv> 2 * (b * c + a * d)" and "r11 \<equiv> 1 - 2 * (b * b + d * d)" and "r12 \<equiv> 2 * (c * d - a * b)"
    and "r20 \<equiv> 2 * (b * d - a * c)" and "r21 \<equiv> 2 * (c * d + a * b)" and "r22 \<equiv> 1 - 2 * (b * b + c * c)"
  shows "r00 * r00 + r10 * r10 + r20 * r20 = 1" "r01 * r01 + r11 * r11 + r21 * r21 = 1"
    "r02 * r02 + r12 * r12 + r22 * r22 = 1" "r00 * r01 + r10 * r11 + r20 * r21 = 0"
    "r00 * r02 + r10 * r12 + r20 * r22 = 0" "r01 * r02 + r11 * r12 + r21 * r22 = 0"
  using assms(1) unfolding r00_def r01_def r02_def r10_def r11_def r12_def r20_def r21_def r22_def by algebra+

lemma rotates_back_columns:
  fixes x y z :: real
  assumes "r00 * r00 + r10 * r10 + r20 * r20 = 1" "r01 * r01 + r11 * r11 + r21 * r21 = 1"
    "r02 * r02 + r12 * r12 + r22 * r22 = 1" "r00 * r01 + r10 * r11 + r20 * r21 = 0"
    "r00 * r02 + r10 * r12 + r20 * r22 = 0" "r01 * r02 + r11 * r12 + r21 * r22 = 0"
  shows "r00 * (r00 * x + r01 * y + r02 * z) + r10 * (r10 * x + r11 * y + r12 * z) + r20 * (r20 * x + r21 * y + r22 * z) = x"
    "r01 * (r00 * x + r01 * y + r02 * z) + r11 * (r10 * x + r11 * y + r12 * z) + r21 * (r20 * x + r21 * y + r22 * z) = y"
    "r02 * (r00 * x + r01 * y + r02 * z) + r12 * (r10 * x + r11 * y + r12 * z) + r22 * (r20 * x + r21 * y + r22 * z) = z"
  using assms by algebra+

lemma rotation_rotates_back:
  assumes "quat_laws E" "unit_quat q \<or> q = Quaterniond 0 0 0 0"
  shows "rotates_back (e_rotation_matrix E q)"
proof -
  let ?R = "e_rotation_matrix E q"
  have c: "coeff ?R 0 0 = 1 - 2 * (q_y q * q_y q + q_z q * q_z q)" "coeff ?R 0 1 = 2 * (q_x q * q_y q - q_w q * q_z q)"
    "coeff ?R 0 2 = 2 * (q_x q * q_z q + q_w q * q_y q)" "coeff ?R 1 0 = 2 * (q_x q * q_y q + q_w q * q_z q)"
    "coeff ?R 1 1 = 1 - 2 * (q_x q * q_x q + q_z q * q_z q)" "coeff ?R 1 2 = 2 * (q_y q * q_z q - q_w q * q_x q)"
    "coeff ?R 2 0 = 2 * (q_x q * q_z q - q_w q * q_y q)" "coeff ?R 2 1 = 2 * (q_y q * q_z q + q_w q * q_x q)"
    "coeff ?R 2 2 = 1 - 2 * (q_x q * q_x q + q_y q * q_y q)"
    using assms(1) unfolding quat_laws_def Let_def by blast+
  show ?thesis
  proof (cases "unit_quat q")
    case True
    then have u: "q_w q * q_w q + q_x q * q_x q + q_y q * q_y q + q_z q * q_z q = 1" by (simp add: unit_quat_def)
    show ?thesis
      unfolding rotates_back_def all_less_3 c using rotates_back_columns [OF orthonormal_unit [OF u]] by simp
  next
    case False
    then have "q = Quaterniond 0 0 0 0" using assms(2) by simp
    then show ?thesis unfolding rotates_back_def all_less_3 c by simp
  qed
qed

lemma normalized_rotation:
  assumes "quat_laws E" "unit_quat q" "i < 3" "j < 3"
  shows "coeff (e_rotation_matrix E (e_quat_normalized E q)) i j = coeff (e_rotation_matrix E q) i j"
proof -
  obtain c where c: "e_quat_normalized E q = Quaterniond (c * q_w q) (c * q_x q) (c * q_y q) (c * q_z q)"
    and n: "q = Quaterniond 0 0 0 0 \<or> c * q_w q * (c * q_w q) + c * q_x q * (c * q_x q) + c * q_y q * (c * q_y q) + c * q_z q * (c * q_z q) = 1"
    using assms(1) unfolding quat_laws_def by blast
  have q: "q_w q * q_w q + q_x q * q_x q + q_y q * q_y q + q_z q * q_z q = 1" using assms(2) by (simp add: unit_quat_def)
  then have "c * q_w q * (c * q_w q) + c * q_x q * (c * q_x q) + c * q_y q * (c * q_y q) + c * q_z q * (c * q_z q) = 1"
    using n by auto
  then have cc: "c * c = 1" using q by algebra
  have e: "c * x * (c * y) = x * y" for x y using cc by algebra
  have "i = 0 \<or> i = 1 \<or> i = 2" "j = 0 \<or> j = 1 \<or> j = 2" using assms(3,4) by auto
  then show ?thesis
    using assms(1) unfolding c quat_laws_def Let_def by (elim disjE) (simp_all add: e)
qed

text \<open>Unit quaternions form a group, and their rotation matrices multiply and transpose accordingly.\<close>

lemma normalized_nonzero: "quat_laws E \<Longrightarrow> q \<noteq> Quaterniond 0 0 0 0 \<Longrightarrow> unit_quat (e_quat_normalized E q)"
  unfolding quat_laws_def unit_quat_def by (metis Quaterniond.sel)

lemma unit_quat_nonzero: "unit_quat q \<Longrightarrow> q \<noteq> Quaterniond 0 0 0 0"
  by (auto simp: unit_quat_def)

lemma unit_quat_conjugate: "quat_laws E \<Longrightarrow> unit_quat q \<Longrightarrow> unit_quat (e_quat_conjugate E q)"
  by (simp add: quat_lawsD(2) unit_quat_def)

lemma unit_quat_mul:
  assumes "quat_laws E" "unit_quat p" "unit_quat q"
  shows "unit_quat (e_quat_mul E p q)"
proof -
  have "(a * e - b * f - c * g - d * h) * (a * e - b * f - c * g - d * h) + (a * f + b * e + c * h - d * g) * (a * f + b * e + c * h - d * g) +
      (a * g - b * h + c * e + d * f) * (a * g - b * h + c * e + d * f) + (a * h + b * g - c * f + d * e) * (a * h + b * g - c * f + d * e) =
      (a * a + b * b + c * c + d * d) * (e * e + f * f + g * g + h * h)" for a b c d e f g h :: real
    by algebra
  then show ?thesis using assms(2,3) by (simp add: unit_quat_def quat_lawsD(1) [OF assms(1)])
qed

lemma rotation_coeffs:
  assumes "quat_laws E" "unit_quat q"
  shows "coeff (e_rotation_matrix E q) 0 0 = q_w q * q_w q + q_x q * q_x q - q_y q * q_y q - q_z q * q_z q"
    "coeff (e_rotation_matrix E q) 0 1 = 2 * (q_x q * q_y q - q_w q * q_z q)"
    "coeff (e_rotation_matrix E q) 0 2 = 2 * (q_x q * q_z q + q_w q * q_y q)"
    "coeff (e_rotation_matrix E q) 1 0 = 2 * (q_x q * q_y q + q_w q * q_z q)"
    "coeff (e_rotation_matrix E q) 1 1 = q_w q * q_w q - q_x q * q_x q + q_y q * q_y q - q_z q * q_z q"
    "coeff (e_rotation_matrix E q) 1 2 = 2 * (q_y q * q_z q - q_w q * q_x q)"
    "coeff (e_rotation_matrix E q) 2 0 = 2 * (q_x q * q_z q - q_w q * q_y q)"
    "coeff (e_rotation_matrix E q) 2 1 = 2 * (q_y q * q_z q + q_w q * q_x q)"
    "coeff (e_rotation_matrix E q) 2 2 = q_w q * q_w q - q_x q * q_x q - q_y q * q_y q + q_z q * q_z q"
proof -
  have d: "coeff (e_rotation_matrix E q) 0 0 = 1 - 2 * (q_y q * q_y q + q_z q * q_z q)"
    "coeff (e_rotation_matrix E q) 1 1 = 1 - 2 * (q_x q * q_x q + q_z q * q_z q)"
    "coeff (e_rotation_matrix E q) 2 2 = 1 - 2 * (q_x q * q_x q + q_y q * q_y q)"
    using assms(1) unfolding quat_laws_def Let_def by blast+
  show "coeff (e_rotation_matrix E q) 0 0 = q_w q * q_w q + q_x q * q_x q - q_y q * q_y q - q_z q * q_z q"
    "coeff (e_rotation_matrix E q) 1 1 = q_w q * q_w q - q_x q * q_x q + q_y q * q_y q - q_z q * q_z q"
    "coeff (e_rotation_matrix E q) 2 2 = q_w q * q_w q - q_x q * q_x q - q_y q * q_y q + q_z q * q_z q"
    using assms(2) unfolding unit_quat_def d by algebra+
  show "coeff (e_rotation_matrix E q) 0 1 = 2 * (q_x q * q_y q - q_w q * q_z q)"
    "coeff (e_rotation_matrix E q) 0 2 = 2 * (q_x q * q_z q + q_w q * q_y q)"
    "coeff (e_rotation_matrix E q) 1 0 = 2 * (q_x q * q_y q + q_w q * q_z q)"
    "coeff (e_rotation_matrix E q) 1 2 = 2 * (q_y q * q_z q - q_w q * q_x q)"
    "coeff (e_rotation_matrix E q) 2 0 = 2 * (q_x q * q_z q - q_w q * q_y q)"
    "coeff (e_rotation_matrix E q) 2 1 = 2 * (q_y q * q_z q + q_w q * q_x q)"
    using assms(1) unfolding quat_laws_def Let_def by blast+
qed

lemma rotation_conjugate:
  assumes "quat_laws E" "unit_quat q" "i < 3" "j < 3"
  shows "coeff (e_rotation_matrix E (e_quat_conjugate E q)) i j = coeff (e_rotation_matrix E q) j i"
proof -
  have "i = 0 \<or> i = 1 \<or> i = 2" "j = 0 \<or> j = 1 \<or> j = 2" using assms(3,4) by auto
  then show ?thesis
    using rotation_coeffs [OF assms(1,2)] rotation_coeffs [OF assms(1) unit_quat_conjugate [OF assms(1,2)]]
    by (elim disjE) (simp_all add: quat_lawsD(2) [OF assms(1)])
qed

lemma rotation_mul:
  assumes "quat_laws E" "unit_quat p" "unit_quat q" "i < 3" "j < 3"
  shows "coeff (e_rotation_matrix E (e_quat_mul E p q)) i j =
    coeff (e_rotation_matrix E p) i 0 * coeff (e_rotation_matrix E q) 0 j +
    coeff (e_rotation_matrix E p) i 1 * coeff (e_rotation_matrix E q) 1 j +
    coeff (e_rotation_matrix E p) i 2 * coeff (e_rotation_matrix E q) 2 j"
proof -
  note c = rotation_coeffs [OF assms(1,2)] rotation_coeffs [OF assms(1,3)]
    rotation_coeffs [OF assms(1) unit_quat_mul [OF assms(1-3)]]
  have "i = 0 \<or> i = 1 \<or> i = 2" "j = 0 \<or> j = 1 \<or> j = 2" using assms(4,5) by auto
  then show ?thesis
    by (elim disjE; hypsubst; simp only: c; simp add: quat_lawsD(1) [OF assms(1)] algebra_simps)
qed

section \<open>The reference instance\<close>

lemma quat_square_zero:
  assumes "q_w q * q_w q + q_x q * q_x q + q_y q * q_y q + q_z q * q_z q = 0"
  shows "q = Quaterniond 0 0 0 0"
proof -
  have "q_w q * q_w q \<ge> 0" "q_x q * q_x q \<ge> 0" "q_y q * q_y q \<ge> 0" "q_z q * q_z q \<ge> 0"
    by (rule zero_le_square)+
  then have "q_w q * q_w q = 0" "q_x q * q_x q = 0" "q_y q * q_y q = 0" "q_z q * q_z q = 0"
    using assms by linarith+
  then show ?thesis by (cases q) simp
qed

lemma scaled_square_sum:
  fixes n :: real
  assumes "n = w * w + x * x + y * y + z * z" "n \<noteq> 0"
  shows "1 / sqrt n * w * (1 / sqrt n * w) + 1 / sqrt n * x * (1 / sqrt n * x) +
    1 / sqrt n * y * (1 / sqrt n * y) + 1 / sqrt n * z * (1 / sqrt n * z) = 1"
proof -
  have n: "n \<ge> 0" unfolding assms(1) by (intro add_nonneg_nonneg zero_le_square)
  have "1 / sqrt n * w * (1 / sqrt n * w) + 1 / sqrt n * x * (1 / sqrt n * x) +
    1 / sqrt n * y * (1 / sqrt n * y) + 1 / sqrt n * z * (1 / sqrt n * z) =
    (1 / sqrt n) * (1 / sqrt n) * (w * w + x * x + y * y + z * z)"
    by (simp only: distrib_left mult.assoc mult.left_commute mult.commute)
  also have "\<dots> = n / (sqrt n * sqrt n)" using assms(1) by simp
  also have "\<dots> = 1" using n assms(2) by simp
  finally show ?thesis .
qed

lemma eigen_reference_quat: "quat_laws eigen_reference"
proof -
  have "\<exists>c. e_quat_normalized eigen_reference q = Quaterniond (c * q_w q) (c * q_x q) (c * q_y q) (c * q_z q) \<and>
      (q = Quaterniond 0 0 0 0 \<or> c * q_w q * (c * q_w q) + c * q_x q * (c * q_x q) + c * q_y q * (c * q_y q) + c * q_z q * (c * q_z q) = 1)" for q
  proof (intro exI conjI)
    let ?n = "q_w q * q_w q + q_x q * q_x q + q_y q * q_y q + q_z q * q_z q"
    show "e_quat_normalized eigen_reference q =
        Quaterniond (1 / sqrt ?n * q_w q) (1 / sqrt ?n * q_x q) (1 / sqrt ?n * q_y q) (1 / sqrt ?n * q_z q)"
      by (simp add: eigen_reference_def Let_def)
    have "1 / sqrt ?n * q_w q * (1 / sqrt ?n * q_w q) + 1 / sqrt ?n * q_x q * (1 / sqrt ?n * q_x q) +
        1 / sqrt ?n * q_y q * (1 / sqrt ?n * q_y q) + 1 / sqrt ?n * q_z q * (1 / sqrt ?n * q_z q) = 1" if "?n \<noteq> 0"
      by (rule scaled_square_sum [OF refl that])
    then show "q = Quaterniond 0 0 0 0 \<or> 1 / sqrt ?n * q_w q * (1 / sqrt ?n * q_w q) + 1 / sqrt ?n * q_x q * (1 / sqrt ?n * q_x q) +
        1 / sqrt ?n * q_y q * (1 / sqrt ?n * q_y q) + 1 / sqrt ?n * q_z q * (1 / sqrt ?n * q_z q) = 1"
      using quat_square_zero [of q] by blast
  qed
  then show ?thesis
    unfolding quat_laws_def by (simp add: eigen_reference_def mat_of_rows_def)
qed

end
