(* ===== verification/Fg_Preintegrator.thy ===== *)
theory Fg_Preintegrator
  imports Fg_EkfInvariant Fg_Quaternions
begin

text \<open>
  IMU preintegration of the Ceres backend,
  \<^verbatim>\<open>estimation/backends/ceres/imu_preintegrator.hpp\<close> with the factor of \<^verbatim>\<open>ceres_state.hpp\<close>: the
  increments of position, rotation and velocity between two keyframes, their covariance and the bias
  Jacobians. Shown are the invariant of the covariance, the integrated time, and that for a constant
  specific force without rotation the increments are the exact ones however the interval is sampled.
\<close>

section \<open>Data\<close>

record ImuPreintegration =
  ip_start_timestamp :: Timestamp
  ip_end_timestamp :: Timestamp
  ip_delta_p :: Vector3d
  ip_delta_q :: Quaterniond
  ip_delta_v :: Vector3d
  ip_covariance :: MatrixXd
  ip_jacobian_dp_dba :: MatrixXd
  ip_jacobian_dp_dbg :: MatrixXd
  ip_linearisation_accel_bias_mps2 :: "ImuFrame Vec3"
  ip_linearisation_gyro_bias_radps :: "ImuFrame Vec3"
  ip_integration_time_s :: real
  ip_num_samples :: nat

definition ImuPreintegration_default :: ImuPreintegration where
  "ImuPreintegration_default =
     \<lparr>ip_start_timestamp = Timestamp_default, ip_end_timestamp = Timestamp_default,
      ip_delta_p = Vector3d_Zero, ip_delta_q = Quaterniond_Identity, ip_delta_v = Vector3d_Zero,
      ip_covariance = Matrix_Zero 9 9, ip_jacobian_dp_dba = Matrix_Zero 9 3,
      ip_jacobian_dp_dbg = Matrix_Zero 9 3, ip_linearisation_accel_bias_mps2 = Vec3_zero,
      ip_linearisation_gyro_bias_radps = Vec3_zero, ip_integration_time_s = 0, ip_num_samples = 0\<rparr>"

record PreintegratorParams =
  pp_accel_noise_density_mps2_sqrthz :: real
  pp_gyro_noise_density_radps_sqrthz :: real
  pp_accel_random_walk_mps3_sqrthz :: real
  pp_gyro_random_walk_radps2_sqrthz :: real

definition PreintegratorParams_default :: PreintegratorParams where
  "PreintegratorParams_default =
     \<lparr>pp_accel_noise_density_mps2_sqrthz = 3 / 10 ^ 3, pp_gyro_noise_density_radps_sqrthz = 1.5 / 10 ^ 4,
      pp_accel_random_walk_mps3_sqrthz = 3 / 10 ^ 5, pp_gyro_random_walk_radps2_sqrthz = 2 / 10 ^ 6\<rparr>"

record ImuPreintegrator =
  pi_params :: PreintegratorParams
  pi_t0 :: Timestamp
  pi_ba :: Vector3d
  pi_bg :: Vector3d
  pi_delta_p :: Vector3d
  pi_delta_q :: Quaterniond
  pi_delta_v :: Vector3d
  pi_cov :: MatrixXd
  J_dp_dba :: MatrixXd
  J_dp_dbg :: MatrixXd
  J_dq_dbg :: MatrixXd
  J_dv_dba :: MatrixXd
  J_dv_dbg :: MatrixXd
  pi_delta_t :: real
  has_prev :: bool
  prev_ts :: Timestamp
  prev_imu :: ImuMeasurement
  pi_num_samples :: nat

definition ImuPreintegrator_new :: ImuPreintegrator where
  "ImuPreintegrator_new =
     \<lparr>pi_params = PreintegratorParams_default, pi_t0 = Timestamp_default, pi_ba = Vector3d_Zero,
      pi_bg = Vector3d_Zero, pi_delta_p = Vector3d_Zero, pi_delta_q = Quaterniond_Identity,
      pi_delta_v = Vector3d_Zero, pi_cov = Matrix_Zero 9 9, J_dp_dba = Matrix_Zero 3 3,
      J_dp_dbg = Matrix_Zero 3 3, J_dq_dbg = Matrix_Zero 3 3, J_dv_dba = Matrix_Zero 3 3,
      J_dv_dbg = Matrix_Zero 3 3, pi_delta_t = 0, has_prev = False, prev_ts = Timestamp_default,
      prev_imu = ImuMeasurement_default, pi_num_samples = 0\<rparr>"

section \<open>Operations\<close>

definition ExpMap :: "eigen_ops \<Rightarrow> MatrixXd \<Rightarrow> Quaterniond" where
  "ExpMap E phi =
     (let angle = e_norm E phi in
      if angle < 1 / 10 ^ 10
      then Quaterniond 1 (0.5 * coeff phi 0 0) (0.5 * coeff phi 1 0) (0.5 * coeff phi 2 0)
      else let s = sin (0.5 * angle) / angle in
        Quaterniond (cos (0.5 * angle)) (s * coeff phi 0 0) (s * coeff phi 1 0) (s * coeff phi 2 0))"

definition Skew :: "MatrixXd \<Rightarrow> MatrixXd" where
  "Skew v = mat_of_rows 3 3
     [[0, - coeff v 2 0, coeff v 1 0], [coeff v 2 0, 0, - coeff v 0 0], [- coeff v 1 0, coeff v 0 0, 0]]"

definition Preint_Reset_params ::
  "Vector3d \<Rightarrow> Vector3d \<Rightarrow> Timestamp \<Rightarrow> PreintegratorParams \<Rightarrow> ImuPreintegrator \<Rightarrow> ImuPreintegrator" where
  "Preint_Reset_params accel_bias gyro_bias t0 params s = s
     \<lparr>pi_params := params, pi_t0 := t0, pi_ba := accel_bias, pi_bg := gyro_bias,
      pi_delta_p := Vector3d_Zero, pi_delta_q := Quaterniond_Identity, pi_delta_v := Vector3d_Zero,
      pi_cov := Matrix_Zero 9 9, J_dp_dba := Matrix_Zero 3 3, J_dp_dbg := Matrix_Zero 3 3,
      J_dq_dbg := Matrix_Zero 3 3, J_dv_dba := Matrix_Zero 3 3, J_dv_dbg := Matrix_Zero 3 3,
      pi_delta_t := 0, has_prev := False, pi_num_samples := 0\<rparr>"

definition Preint_Reset :: "Vector3d \<Rightarrow> Vector3d \<Rightarrow> Timestamp \<Rightarrow> ImuPreintegrator \<Rightarrow> ImuPreintegrator" where
  "Preint_Reset accel_bias gyro_bias t0 s =
     Preint_Reset_params accel_bias gyro_bias t0 PreintegratorParams_default s"

text \<open>The matrices of the covariance propagation over one step.\<close>

definition preint_F :: "eigen_ops \<Rightarrow> MatrixXd \<Rightarrow> MatrixXd \<Rightarrow> MatrixXd \<Rightarrow> real \<Rightarrow> MatrixXd" where
  "preint_F E Ra Sa w_mid dt =
     (let F0 = Matrix_Identity 9;
          F1 = set_block F0 0 3 (e_scale E dt (e_mul E (e_neg E Ra) Sa));
          F2 = set_block F1 0 6 (e_scale E dt (Matrix_Identity 3));
          F3 = set_block F2 3 3 (Matrix_Identity 3);
          F4 = set_block F3 3 3 (e_sub E (get_block F3 3 3 3 3) (e_scale E dt (Skew w_mid)))
      in set_block F4 6 3 (e_scale E dt (e_mul E (e_neg E Ra) Sa)))"

definition preint_G :: "eigen_ops \<Rightarrow> MatrixXd \<Rightarrow> real \<Rightarrow> MatrixXd" where
  "preint_G E Ra dt =
     (let G0 = Matrix_Zero 9 6;
          G1 = set_block G0 0 0 (e_scale E dt (e_scale E dt (e_scale E 0.5 Ra)));
          G2 = set_block G1 3 3 (e_scale E dt (Matrix_Identity 3))
      in set_block G2 6 0 (e_scale E dt Ra))"

definition preint_Q :: "eigen_ops \<Rightarrow> PreintegratorParams \<Rightarrow> MatrixXd" where
  "preint_Q E params =
     (let qa = pp_accel_noise_density_mps2_sqrthz params * pp_accel_noise_density_mps2_sqrthz params;
          qg = pp_gyro_noise_density_radps_sqrthz params * pp_gyro_noise_density_radps_sqrthz params;
          Q1 = set_block (Matrix_Zero 6 6) 0 0 (e_scale E qa (Matrix_Identity 3))
      in set_block Q1 3 3 (e_scale E qg (Matrix_Identity 3)))"

text \<open>The part of \<open>Integrate\<close> after the checks of the time step.\<close>

definition preint_step :: "eigen_ops \<Rightarrow> ImuMeasurement \<Rightarrow> real \<Rightarrow> ImuPreintegrator \<Rightarrow> ImuPreintegrator" where
  "preint_step E imu dt s =
     (let ba = vec (pi_ba s); bg = vec (pi_bg s);
          a0 = e_sub E (vec (eigen (imu_specific_force_mps2 (prev_imu s)))) ba;
          a1 = e_sub E (vec (eigen (imu_specific_force_mps2 imu))) ba;
          w0 = e_sub E (vec (eigen (imu_angular_rate_radps (prev_imu s)))) bg;
          w1 = e_sub E (vec (eigen (imu_angular_rate_radps imu))) bg;
          a_mid = e_scale E 0.5 (e_add E a0 a1);
          w_mid = e_scale E 0.5 (e_add E w0 w1);
          R = e_rotation_matrix E (pi_delta_q s);
          a_world = e_mul E R a_mid;
          Sa = Skew a_mid;
          F = preint_F E R Sa w_mid dt;
          G = preint_G E R dt;
          Q = preint_Q E (pi_params s);
          RS = e_mul E (e_mul E R Sa) (J_dq_dbg s)
      in s
       \<lparr>pi_delta_p := v3 (e_add E (vec (pi_delta_p s))
          (e_add E (e_scale E dt (vec (pi_delta_v s))) (e_scale E dt (e_scale E dt (e_scale E 0.5 a_world))))),
        pi_delta_v := v3 (e_add E (vec (pi_delta_v s)) (e_scale E dt a_world)),
        pi_delta_q := e_quat_normalized E (e_quat_mul E (pi_delta_q s) (ExpMap E (e_scale E dt w_mid))),
        pi_cov := e_add E (e_mul E (e_mul E F (pi_cov s)) (e_transpose E F))
          (e_mul E (e_mul E G Q) (e_transpose E G)),
        J_dp_dba := e_add E (J_dp_dba s)
          (e_add E (e_scale E dt (J_dv_dba s)) (e_scale E dt (e_scale E dt (e_scale E 0.5 R)))),
        J_dp_dbg := e_add E (J_dp_dbg s) (e_sub E (e_scale E dt (J_dv_dbg s))
          (e_scale E dt (e_scale E dt (e_mul E (e_mul E (e_scale E 0.5 R) Sa) (J_dq_dbg s))))),
        J_dv_dba := e_add E (J_dv_dba s) (e_scale E dt R),
        J_dv_dbg := e_sub E (J_dv_dbg s) (e_scale E dt RS),
        J_dq_dbg := e_sub E (e_mul E (e_sub E (Matrix_Identity 3) (e_scale E dt (Skew w_mid))) (J_dq_dbg s))
          (e_scale E dt (Matrix_Identity 3)),
        pi_delta_t := pi_delta_t s + dt, prev_ts := imu_timestamp imu, prev_imu := imu,
        pi_num_samples := Suc (pi_num_samples s)\<rparr>)"

definition Preint_Integrate :: "eigen_ops \<Rightarrow> ImuPreintegrator \<Rightarrow> ImuMeasurement \<Rightarrow> ImuPreintegrator" where
  "Preint_Integrate E s imu =
     (if \<not> has_prev s then s\<lparr>prev_ts := imu_timestamp imu, prev_imu := imu, has_prev := True\<rparr>
      else let dt = seconds (MonotonicTime_minus (steady (imu_timestamp imu)) (steady (prev_ts s))) in
        if dt \<le> 0 \<or> dt > 1 then s\<lparr>prev_ts := imu_timestamp imu, prev_imu := imu\<rparr>
        else preint_step E imu dt s)"

definition Preint_Finalize :: "ImuPreintegrator \<Rightarrow> Timestamp \<Rightarrow> ImuPreintegration" where
  "Preint_Finalize s t1 =
     ImuPreintegration_default
       \<lparr>ip_start_timestamp := pi_t0 s, ip_end_timestamp := t1, ip_delta_p := pi_delta_p s,
        ip_delta_q := pi_delta_q s, ip_delta_v := pi_delta_v s, ip_covariance := pi_cov s,
        ip_jacobian_dp_dba :=
          set_block (set_block (set_block (Matrix_Zero 9 3) 0 0 (J_dp_dba s)) 3 0 (J_dq_dbg s)) 6 0 (J_dv_dba s),
        ip_jacobian_dp_dbg := set_block (set_block (Matrix_Zero 9 3) 0 0 (J_dp_dbg s)) 6 0 (J_dv_dbg s),
        ip_linearisation_accel_bias_mps2 := Vec3_xyz (v3_x (pi_ba s)) (v3_y (pi_ba s)) (v3_z (pi_ba s)),
        ip_linearisation_gyro_bias_radps := Vec3_xyz (v3_x (pi_bg s)) (v3_y (pi_bg s)) (v3_z (pi_bg s)),
        ip_integration_time_s := pi_delta_t s, ip_num_samples := pi_num_samples s\<rparr>"

abbreviation Preint_Integrate_all :: "eigen_ops \<Rightarrow> ImuPreintegrator \<Rightarrow> ImuMeasurement list \<Rightarrow> ImuPreintegrator" where
  "Preint_Integrate_all E \<equiv> foldl (Preint_Integrate E)"

section \<open>The covariance\<close>

definition preint_ok :: "ImuPreintegrator \<Rightarrow> bool" where
  "preint_ok s \<longleftrightarrow> covariance_ok 9 (pi_cov s) \<and> square 3 (J_dp_dba s) \<and> square 3 (J_dp_dbg s) \<and>
     square 3 (J_dq_dbg s) \<and> square 3 (J_dv_dba s) \<and> square 3 (J_dv_dbg s)"

lemma preint_ok_reset [fg_inv]:
  "preint_ok ImuPreintegrator_new" "preint_ok (Preint_Reset_params ba bg t params s)" "preint_ok (Preint_Reset ba bg t s)"
  by (simp_all add: preint_ok_def ImuPreintegrator_new_def Preint_Reset_def Preint_Reset_params_def
      covariance_ok_Zero square_def)

lemma symmetric_add:
  assumes "eigen_algebra E" "square n A" "square n B" "symmetric A" "symmetric B"
  shows "symmetric (e_add E A B)"
  using assms by (simp add: symmetric_def square_def)

lemma symmetric_congruence_any:
  assumes E: "eigen_algebra E" and A: "mat_rows A = m" "mat_cols A = n" and P: "square n P" "symmetric P"
  shows "symmetric (e_mul E (e_mul E A P) (e_transpose E A))"
proof -
  let ?M = "e_mul E (e_mul E A P) (e_transpose E A)"
  have eq: "coeff ?M i j = (\<Sum>l<n. \<Sum>k<n. coeff A i k * coeff P k l * coeff A j l)" if "i < m" "j < m" for i j
    using that E A P(1) by (simp add: square_def sum_distrib_right)
  have swap: "(\<Sum>l<n. \<Sum>k<n. coeff A i k * coeff P k l * coeff A j l) =
      (\<Sum>l<n. \<Sum>k<n. coeff A j k * coeff P k l * coeff A i l)" for i j
    using P by (subst sum.swap) (intro sum.cong refl, auto simp: symmetric_def square_def)
  have "mat_rows ?M = m" "mat_cols ?M = m" using E A P(1) by (simp_all add: square_def)
  then show ?thesis unfolding symmetric_def using eq swap by simp
qed

lemma covariance_ok_congruence_any:
  assumes "eigen_algebra E" "mat_rows A = m" "mat_cols A = n" "covariance_ok n P"
  shows "covariance_ok m (e_mul E (e_mul E A P) (e_transpose E A))"
  using assms psd_congruence [OF assms(1-3)] symmetric_congruence_any [OF assms(1-3)]
  by (auto simp: covariance_ok_def psd_def)

lemma covariance_ok_add:
  "eigen_algebra E \<Longrightarrow> covariance_ok n A \<Longrightarrow> covariance_ok n B \<Longrightarrow> covariance_ok n (e_add E A B)"
  using psd_add symmetric_add by (auto simp: covariance_ok_def psd_def)

lemma preint_shapes [simp]:
  "mat_rows (preint_F E Ra Sa w dt) = 9" "mat_cols (preint_F E Ra Sa w dt) = 9"
  "mat_rows (preint_G E Ra dt) = 9" "mat_cols (preint_G E Ra dt) = 6"
  "mat_rows (Skew v) = 3" "mat_cols (Skew v) = 3"
  by (simp_all add: preint_F_def preint_G_def Skew_def Let_def)

lemma preint_Q_ok: "eigen_algebra E \<Longrightarrow> covariance_ok 6 (preint_Q E params)"
  unfolding preint_Q_def Let_def
  by (intro covariance_ok_set_block [where b = 3] covariance_ok_sigma covariance_ok_Zero clear_at_set_sigma clear_at_Zero)
     simp_all

lemma preint_step_ok:
  assumes E: "eigen_algebra E" "eigen_shapes E" and s: "preint_ok s"
  shows "preint_ok (preint_step E imu dt s)"
proof -
  have "covariance_ok 9 (pi_cov (preint_step E imu dt s))"
    using s preint_Q_ok [OF E(1)]
    by (auto simp: preint_step_def Let_def preint_ok_def
        intro!: covariance_ok_add [OF E(1)] covariance_ok_congruence_any [OF E(1)])
  then show ?thesis
    using E s by (simp add: preint_step_def Let_def preint_ok_def square_def)
qed

lemma Preint_Integrate_ok [fg_inv]:
  assumes "eigen_algebra E" "eigen_shapes E" "preint_ok s"
  shows "preint_ok (Preint_Integrate E s imu)"
  using assms preint_step_ok [OF assms] by (simp add: Preint_Integrate_def Let_def preint_ok_def)

lemma Preint_Integrate_all_ok:
  assumes "eigen_algebra E" "eigen_shapes E" "preint_ok s"
  shows "preint_ok (Preint_Integrate_all E s ms)"
  using assms(3) by (induction ms arbitrary: s) (simp_all add: Preint_Integrate_ok [OF assms(1,2)])

section \<open>The accelerometer bias\<close>

text \<open>
  Two integrations of the same samples that differ in the accelerometer bias by \<open>d\<close>: all but the
  increments, the covariance and two Jacobians agree, and the increments differ by \<open>J d\<close>.
\<close>

definition minus_J :: "Vector3d \<Rightarrow> MatrixXd \<Rightarrow> Vector3d \<Rightarrow> Vector3d" where
  "minus_J v J d = Vector3d
     (v3_x v - (coeff J 0 0 * v3_x d + coeff J 0 1 * v3_y d + coeff J 0 2 * v3_z d))
     (v3_y v - (coeff J 1 0 * v3_x d + coeff J 1 1 * v3_y d + coeff J 1 2 * v3_z d))
     (v3_z v - (coeff J 2 0 * v3_x d + coeff J 2 1 * v3_y d + coeff J 2 2 * v3_z d))"

definition bias_shifted :: "Vector3d \<Rightarrow> ImuPreintegrator \<Rightarrow> ImuPreintegrator \<Rightarrow> bool" where
  "bias_shifted d s s' \<longleftrightarrow>
     pi_ba s' = Vector3d (v3_x (pi_ba s) + v3_x d) (v3_y (pi_ba s) + v3_y d) (v3_z (pi_ba s) + v3_z d) \<and>
     pi_bg s' = pi_bg s \<and> pi_delta_q s' = pi_delta_q s \<and>
     J_dp_dba s' = J_dp_dba s \<and> J_dv_dba s' = J_dv_dba s \<and> has_prev s' = has_prev s \<and>
     prev_ts s' = prev_ts s \<and> prev_imu s' = prev_imu s \<and>
     pi_delta_v s' = minus_J (pi_delta_v s) (J_dv_dba s) d \<and>
     pi_delta_p s' = minus_J (pi_delta_p s) (J_dp_dba s) d"

lemma vec_shape [simp]: "mat_rows (vec v) = 3" "mat_cols (vec v) = 1"
  by (simp_all add: vec_def)

lemma v3_components [simp]: "v3_x (v3 M) = coeff M 0 0" "v3_y (v3 M) = coeff M 1 0" "v3_z (v3 M) = coeff M 2 0"
  by (simp_all add: v3_def)

lemma bias_shifted_step:
  assumes E: "eigen_algebra E" "eigen_shapes E" and s: "preint_ok s" "bias_shifted d s s'"
  shows "bias_shifted d (preint_step E imu dt s) (preint_step E imu dt s')"
proof -
  have sq: "mat_rows (J_dv_dba s) = 3" "mat_cols (J_dv_dba s) = 3" "mat_rows (J_dp_dba s) = 3" "mat_cols (J_dp_dba s) = 3"
    using s(1) by (simp_all add: preint_ok_def square_def)
  show ?thesis
    using s(2) sq E unfolding bias_shifted_def
    by (simp add: preint_step_def Let_def minus_J_def v3_def sum3) (simp add: field_simps)
qed

lemma bias_shifted_Integrate:
  assumes "eigen_algebra E" "eigen_shapes E" "preint_ok s" "bias_shifted d s s'"
  shows "bias_shifted d (Preint_Integrate E s imu) (Preint_Integrate E s' imu)"
  using assms bias_shifted_step [OF assms]
  by (simp add: Preint_Integrate_def Let_def) (simp add: bias_shifted_def)

lemma bias_shifted_all:
  assumes "eigen_algebra E" "eigen_shapes E" "preint_ok s" "bias_shifted d s s'"
  shows "bias_shifted d (Preint_Integrate_all E s ms) (Preint_Integrate_all E s' ms)"
  using assms(3,4)
  by (induction ms arbitrary: s s')
     (simp_all add: bias_shifted_Integrate [OF assms(1,2)] Preint_Integrate_ok [OF assms(1,2)])

lemma bias_shifted_Reset:
  "bias_shifted d (Preint_Reset ba bg t s)
     (Preint_Reset (Vector3d (v3_x ba + v3_x d) (v3_y ba + v3_y d) (v3_z ba + v3_z d)) bg t s)"
  by (simp add: bias_shifted_def Preint_Reset_def Preint_Reset_params_def minus_J_def Vector3d_Zero_def Matrix_Zero_def)

section \<open>Constant specific force without rotation\<close>

text \<open>What is asked of Eigen here: the norm of zero, and the identity quaternion.\<close>

definition identity_laws :: "eigen_ops \<Rightarrow> bool" where
  "identity_laws E \<longleftrightarrow>
     (\<forall>v. mat_rows v = 3 \<and> mat_cols v = 1 \<and> (\<forall>i<3. coeff v i 0 = 0) \<longrightarrow> e_norm E v = 0) \<and>
     (\<forall>i<3. \<forall>j<3. coeff (e_rotation_matrix E Quaterniond_Identity) i j = (if i = j then 1 else 0)) \<and>
     e_quat_mul E Quaterniond_Identity Quaterniond_Identity = Quaterniond_Identity \<and>
     e_quat_normalized E Quaterniond_Identity = Quaterniond_Identity"

lemma eigen_reference_identity: "identity_laws eigen_reference"
  by (auto simp: identity_laws_def all_less_3 sum3 eigen_reference_def Quaterniond_Identity_def mat_of_rows_def)

lemma ExpMap_zero:
  assumes "identity_laws E" "mat_rows v = 3" "mat_cols v = 1" "coeff v 0 0 = 0" "coeff v 1 0 = 0" "coeff v 2 0 = 0"
  shows "ExpMap E v = Quaterniond_Identity"
  using assms by (simp add: ExpMap_def identity_laws_def all_less_3 Quaterniond_Identity_def)

text \<open>The state after \<open>T\<close> seconds of force \<open>f\<close>.\<close>

definition scaled :: "real \<Rightarrow> Vector3d \<Rightarrow> Vector3d" where
  "scaled c v = Vector3d (c * v3_x v) (c * v3_y v) (c * v3_z v)"

definition minus3 :: "Vector3d \<Rightarrow> Vector3d \<Rightarrow> Vector3d" where
  "minus3 a b = Vector3d (v3_x a - v3_x b) (v3_y a - v3_y b) (v3_z a - v3_z b)"

definition moved :: "Vector3d \<Rightarrow> real \<Rightarrow> ImuPreintegrator \<Rightarrow> bool" where
  "moved a T s \<longleftrightarrow> pi_delta_q s = Quaterniond_Identity \<and> pi_delta_t s = T \<and>
     pi_delta_v s = scaled T a \<and> pi_delta_p s = scaled (T * T / 2) a"

lemma moved_step:
  assumes E: "eigen_algebra E" "eigen_shapes E" "identity_laws E"
    and s: "moved (minus3 f (pi_ba s)) T s"
    and c: "eigen (imu_specific_force_mps2 (prev_imu s)) = f" "eigen (imu_specific_force_mps2 imu) = f"
      "eigen (imu_angular_rate_radps (prev_imu s)) = pi_bg s" "eigen (imu_angular_rate_radps imu) = pi_bg s"
  shows "moved (minus3 f (pi_ba s)) (T + dt) (preint_step E imu dt s)"
proof -
  have id: "coeff (e_rotation_matrix E Quaterniond_Identity) i j = (if i = j then 1 else 0)" if "i < 3" "j < 3" for i j
    using E(3) that by (simp add: identity_laws_def)
  have q: "e_quat_normalized E (e_quat_mul E Quaterniond_Identity
      (ExpMap E (e_scale E dt (e_scale E h (e_add E (e_sub E (vec (pi_bg s)) (vec (pi_bg s)))
        (e_sub E (vec (pi_bg s)) (vec (pi_bg s)))))))) = Quaterniond_Identity" for h
    using E(3) by (subst ExpMap_zero [OF E(3)]) (simp_all add: E(1) identity_laws_def)
  show ?thesis
    using s c E unfolding moved_def
    by (simp add: preint_step_def Let_def q)
       (simp add: v3_def sum3 id scaled_def minus3_def field_simps)
qed

text \<open>Samples at strictly increasing times at most one second apart.\<close>

fun dense_samples :: "ImuMeasurement list \<Rightarrow> bool" where
  "dense_samples (a # b # ms) \<longleftrightarrow>
     0 < seconds (MonotonicTime_minus (steady (imu_timestamp b)) (steady (imu_timestamp a))) \<and>
     seconds (MonotonicTime_minus (steady (imu_timestamp b)) (steady (imu_timestamp a))) \<le> 1 \<and>
     dense_samples (b # ms)"
| "dense_samples _ \<longleftrightarrow> True"

abbreviation elapsed :: "ImuMeasurement \<Rightarrow> ImuMeasurement \<Rightarrow> real" where
  "elapsed a b \<equiv> seconds (MonotonicTime_minus (steady (imu_timestamp b)) (steady (imu_timestamp a)))"

lemma elapsed_add: "elapsed a b + elapsed b c = elapsed a c" "elapsed a a = 0"
  by (simp_all add: seconds_def MonotonicTime_minus_def add_divide_distrib [symmetric])

definition constant_samples :: "Vector3d \<Rightarrow> Vector3d \<Rightarrow> ImuMeasurement list \<Rightarrow> bool" where
  "constant_samples f w ms \<longleftrightarrow> (\<forall>m\<in>set ms. eigen (imu_specific_force_mps2 m) = f \<and> eigen (imu_angular_rate_radps m) = w)"

lemma moved_all:
  assumes E: "eigen_algebra E" "eigen_shapes E" "identity_laws E"
    and "dense_samples (m # ms)" "constant_samples f (pi_bg s) (m # ms)"
    and "has_prev s" "prev_imu s = m" "prev_ts s = imu_timestamp m" "moved (minus3 f (pi_ba s)) T s"
  shows "moved (minus3 f (pi_ba s)) (T + elapsed m (last (m # ms))) (Preint_Integrate_all E s ms) \<and>
    pi_num_samples (Preint_Integrate_all E s ms) = pi_num_samples s + length ms"
  using assms(4-)
proof (induction ms arbitrary: m s T)
  case Nil
  then show ?case by (simp add: elapsed_add)
next
  case (Cons n ms)
  let ?s = "preint_step E n (elapsed m n) s"
  have step: "Preint_Integrate E s n = ?s"
    using Cons.prems by (simp add: Preint_Integrate_def Let_def)
  have next_s: "has_prev ?s" "prev_imu ?s = n" "prev_ts ?s = imu_timestamp n" "pi_ba ?s = pi_ba s" "pi_bg ?s = pi_bg s"
    "pi_num_samples ?s = Suc (pi_num_samples s)"
    using Cons.prems by (simp_all add: preint_step_def Let_def)
  have "moved (minus3 f (pi_ba s)) (T + elapsed m n) ?s"
    using Cons.prems by (intro moved_step [OF E]) (simp_all add: constant_samples_def)
  with Cons.IH [of n ?s "T + elapsed m n"] Cons.prems next_s show ?case
    by (simp add: step constant_samples_def add.assoc elapsed_add)
qed

text \<open>C29. For a constant specific force and an angular rate equal to the gyro bias, the preintegrated
  increments are those of uniformly accelerated motion over the whole interval, for any
  sampling whose gaps are positive and at most one second (longer steps are dropped): no rotation, \<open>T (f - ba)\<close>, \<open>T\<^sup>2/2 (f - ba)\<close>, with \<open>T\<close> the time from the first to the last sample.\<close>

theorem preintegration_uniform_motion:
  assumes "eigen_algebra E" "eigen_shapes E" "identity_laws E"
    and "dense_samples (m # ms)" "constant_samples f bg (m # ms)"
  shows "let p = Preint_Finalize (Preint_Integrate_all E (Preint_Reset ba bg t0 s0) (m # ms)) t1;
      T = elapsed m (last (m # ms)) in
    ip_delta_q p = Quaterniond_Identity \<and> ip_delta_v p = scaled T (minus3 f ba) \<and>
    ip_delta_p p = scaled (T * T / 2) (minus3 f ba) \<and> ip_integration_time_s p = T \<and>
    ip_num_samples p = length ms"
proof -
  let ?s = "Preint_Integrate E (Preint_Reset ba bg t0 s0) m"
  have s: "has_prev ?s" "prev_imu ?s = m" "prev_ts ?s = imu_timestamp m" "pi_ba ?s = ba" "pi_bg ?s = bg"
    "pi_num_samples ?s = 0" "moved (minus3 f ba) 0 ?s"
    by (simp_all add: Preint_Integrate_def Preint_Reset_def Preint_Reset_params_def moved_def scaled_def Vector3d_Zero_def)
  from moved_all [OF assms(1-4), of f ?s 0] assms(5) s show ?thesis
    by (simp add: Preint_Finalize_def Let_def moved_def)
qed

definition rest_sample :: "int \<Rightarrow> ImuMeasurement" where
  "rest_sample ns = ImuMeasurement_default
     \<lparr>imu_timestamp := Timestamp_default\<lparr>has_steady := True, steady := MonotonicTime ns\<rparr>,
      imu_specific_force_mps2 := Vec3_xyz 0 0 9.80665\<rparr>"

theorem preintegration_uniform_motion_witness:
  "ip_delta_p (Preint_Finalize (Preint_Integrate_all eigen_reference
     (Preint_Reset Vector3d_Zero Vector3d_Zero Timestamp_default ImuPreintegrator_new) [rest_sample 0, rest_sample 700000000, rest_sample 1000000000]) Timestamp_default) =
   Vector3d 0 0 (9.80665 / 2)"
proof -
  have "dense_samples [rest_sample 0, rest_sample 700000000, rest_sample 1000000000]"
    by (simp add: rest_sample_def seconds_def MonotonicTime_minus_def)
  moreover have "constant_samples (Vector3d 0 0 9.80665) Vector3d_Zero
      [rest_sample 0, rest_sample 700000000, rest_sample 1000000000]"
    by (simp add: constant_samples_def rest_sample_def Vec3_xyz_def ImuMeasurement_default_def Vec3_zero_def)
  ultimately show ?thesis
    using preintegration_uniform_motion [OF eigen_reference_laws eigen_reference_identity, of "rest_sample 0"
        "[rest_sample 700000000, rest_sample 1000000000]" "Vector3d 0 0 9.80665" Vector3d_Zero Vector3d_Zero Timestamp_default ImuPreintegrator_new Timestamp_default]
    by (simp add: Let_def scaled_def minus3_def Vector3d_Zero_def)
       (simp add: rest_sample_def seconds_def MonotonicTime_minus_def)
qed

end
