(* ===== verification/Fg_Ceres.thy ===== *)
theory Fg_Ceres
  imports Fg_Preintegrator Fg_Pipeline
begin

text \<open>
  The sliding-window backend, \<^verbatim>\<open>estimation/src/backends/ceres/ceres_estimator.cpp\<close> with the cost
  functions of \<^verbatim>\<open>ceres_cost_functions.hpp\<close>, as built with Ceres. The estimator describes a
  least-squares problem, which is data here: residuals with the parameter blocks they are attached to,
  the blocks held constant and the blocks with a quaternion manifold. Solving it is a parameter, and so
  are the Cholesky factor of an information matrix and \<^verbatim>\<open>Quaterniond::FromTwoVectors\<close>. Each public method
  holds the mutex and is one function of the state.
\<close>

section \<open>Options and the window\<close>

datatype LossFunctionType = Loss_None | Huber | Cauchy | Tukey

datatype SolverStrategy = FastOneIteration | IteratedFull | AdaptiveBudget

record CeresOptions =
  co_base :: EstimatorOptions
  co_max_keyframes :: nat
  co_keyframe_min_distance_m :: real
  co_keyframe_min_rotation_rad :: real
  co_solver_strategy :: SolverStrategy
  co_max_solver_iterations :: int
  co_solver_time_budget_s :: real
  co_gnss_loss :: LossFunctionType
  co_vision_loss :: LossFunctionType
  co_huber_loss_parameter :: real
  co_enable_visual_factors :: bool

definition CeresOptions_default :: CeresOptions where
  "CeresOptions_default =
     \<lparr>co_base = EstimatorOptions_default, co_max_keyframes = 10, co_keyframe_min_distance_m = 0.5,
      co_keyframe_min_rotation_rad = 0.1, co_solver_strategy = IteratedFull,
      co_max_solver_iterations = 10, co_solver_time_budget_s = 0.05, co_gnss_loss = Huber,
      co_vision_loss = Huber, co_huber_loss_parameter = 1, co_enable_visual_factors = False\<rparr>"

text \<open>The seven numbers of a pose block: a position and the coefficients of a quaternion.\<close>

record PoseBlock =
  pb_position :: Vector3d
  pb_quaternion :: Quaterniond

definition PoseBlock_Set :: "Vector3d \<Rightarrow> Quaterniond \<Rightarrow> PoseBlock" where
  "PoseBlock_Set p q = \<lparr>pb_position = p, pb_quaternion = q\<rparr>"

definition PoseBlock_Rotation :: "eigen_ops \<Rightarrow> PoseBlock \<Rightarrow> Quaterniond" where
  "PoseBlock_Rotation E b = e_quat_normalized E (pb_quaternion b)"

record WindowKeyframe =
  kf_pose :: PoseBlock
  kf_vel :: Vector3d
  kf_ba :: Vector3d
  kf_bg :: Vector3d
  kf_timestamp :: Timestamp

definition WindowKeyframe_default :: WindowKeyframe where
  "WindowKeyframe_default =
     \<lparr>kf_pose = PoseBlock_Set Vector3d_Zero Quaterniond_Identity, kf_vel = Vector3d_Zero,
      kf_ba = Vector3d_Zero, kf_bg = Vector3d_Zero, kf_timestamp = Timestamp_default\<rparr>"

abbreviation kf_P :: "WindowKeyframe \<Rightarrow> Vector3d" where
  "kf_P kf \<equiv> pb_position (kf_pose kf)"

definition kf_Q :: "eigen_ops \<Rightarrow> WindowKeyframe \<Rightarrow> Quaterniond" where
  "kf_Q E kf = PoseBlock_Rotation E (kf_pose kf)"

section \<open>Cost functions\<close>

definition ceres_kGravityMps2 :: real where "ceres_kGravityMps2 = 9.80665"

definition QuatExp :: "eigen_ops \<Rightarrow> MatrixXd \<Rightarrow> Quaterniond" where
  "QuatExp E phi =
     (let angle = e_norm E phi in
      if angle < 1 / 10 ^ 10
      then Quaterniond 1 (coeff phi 0 0 * 0.5) (coeff phi 1 0 * 0.5) (coeff phi 2 0 * 0.5)
      else let s = sin (0.5 * angle) / angle in
        Quaterniond (cos (0.5 * angle)) (s * coeff phi 0 0) (s * coeff phi 1 0) (s * coeff phi 2 0))"

definition QuatResidual :: "Quaterniond \<Rightarrow> Vector3d" where
  "QuatResidual q =
     (let x = (if 0 < q_w q then q_x q else - q_x q);
          y = (if 0 < q_w q then q_y q else - q_y q);
          z = (if 0 < q_w q then q_z q else - q_z q)
      in Vector3d (2 * x) (2 * y) (2 * z))"

text \<open>The increments with the first-order correction for the present biases.\<close>

definition corrected_dp :: "eigen_ops \<Rightarrow> ImuPreintegration \<Rightarrow> MatrixXd \<Rightarrow> MatrixXd \<Rightarrow> MatrixXd" where
  "corrected_dp E preint dba dbg =
     e_add E (e_add E (vec (ip_delta_p preint)) (e_mul E (get_block (ip_jacobian_dp_dba preint) 0 0 3 3) dba))
       (e_mul E (get_block (ip_jacobian_dp_dbg preint) 0 0 3 3) dbg)"

definition corrected_dv :: "eigen_ops \<Rightarrow> ImuPreintegration \<Rightarrow> MatrixXd \<Rightarrow> MatrixXd \<Rightarrow> MatrixXd" where
  "corrected_dv E preint dba dbg =
     e_add E (e_add E (vec (ip_delta_v preint)) (e_mul E (get_block (ip_jacobian_dp_dba preint) 6 0 3 3) dba))
       (e_mul E (get_block (ip_jacobian_dp_dbg preint) 6 0 3 3) dbg)"

text \<open>The nine numbers of the IMU residual, as three scaled vectors.\<close>

definition ImuPreintegrationCost_eval ::
  "eigen_ops \<Rightarrow> ImuPreintegration \<Rightarrow> WindowKeyframe \<Rightarrow> WindowKeyframe \<Rightarrow> Vector3d \<times> Vector3d \<times> Vector3d" where
  "ImuPreintegrationCost_eval E preint ki kj =
     (let p_i = vec (kf_P ki); q_i = kf_Q E ki; R_i = e_rotation_matrix E q_i;
          p_j = vec (kf_P kj); q_j = kf_Q E kj;
          v_i = vec (kf_vel ki); v_j = vec (kf_vel kj);
          dba = e_sub E (vec (kf_ba ki)) (vec (eigen (ip_linearisation_accel_bias_mps2 preint)));
          dbg = e_sub E (vec (kf_bg ki)) (vec (eigen (ip_linearisation_gyro_bias_radps preint)));
          dp_corr = corrected_dp E preint dba dbg;
          dq_corr = QuatExp E (e_mul E (get_block (ip_jacobian_dp_dba preint) 3 0 3 3) dbg);
          dv_corr = corrected_dv E preint dba dbg;
          dt = ip_integration_time_s preint;
          g_enu = vec (Vector3d 0 0 (- ceres_kGravityMps2));
          r_p = e_sub E (e_mul E (e_transpose E R_i)
            (e_sub E (e_sub E (e_sub E p_j p_i) (e_scale E dt v_i))
              (e_scale E dt (e_scale E dt (e_scale E 0.5 g_enu))))) dp_corr;
          q_err = e_quat_mul E (e_quat_conjugate E (e_quat_mul E (ip_delta_q preint) dq_corr))
            (e_quat_mul E (e_quat_conjugate E q_i) q_j);
          r_q = vec (QuatResidual q_err);
          r_v = e_sub E (e_mul E (e_transpose E R_i)
            (e_sub E (e_sub E v_j v_i) (e_scale E dt g_enu))) dv_corr;
          info_scale = 1 / max (1 / 10 ^ 6) (sqrt (e_trace E (ip_covariance preint) / 9))
      in (v3 (e_scale E info_scale r_p), v3 (e_scale E info_scale r_q), v3 (e_scale E info_scale r_v)))"

text \<open>The library functions that are parameters, and the options of the solver the code sets.\<close>

datatype loss = HuberLoss real

record solver_options =
  sparse_normal_cholesky :: bool
  max_num_iterations :: int
  max_solver_time_in_seconds :: "real option"

record GnssPositionCost =
  gpc_meas :: Vector3d
  gpc_sqrt_info :: MatrixXd

record GnssVelocityCost =
  gvc_meas :: Vector3d
  gvc_sqrt_info :: MatrixXd

record BiasRandomWalkCost =
  bwc_accel_sigma :: real
  bwc_gyro_sigma :: real

text \<open>A residual with the keyframes whose blocks it reads.\<close>

datatype residual =
    ImuResidual ImuPreintegration nat nat
  | BiasResidual BiasRandomWalkCost nat nat
  | PositionResidual GnssPositionCost nat
  | VelocityResidual GnssVelocityCost nat

datatype block = PoseOf nat | VelOf nat | BiasOf nat

record problem =
  residuals :: "(residual \<times> loss option) list"
  manifolds :: "nat list"
  constants :: "block list"

record ceres_ops =
  c_llt_L :: "MatrixXd \<Rightarrow> MatrixXd"
  c_from_two_vectors :: "MatrixXd \<Rightarrow> MatrixXd \<Rightarrow> Quaterniond"
  c_solve :: "solver_options \<Rightarrow> problem \<Rightarrow> WindowKeyframe list \<Rightarrow> WindowKeyframe list"

definition GnssPositionCost_Create :: "eigen_ops \<Rightarrow> ceres_ops \<Rightarrow> Vector3d \<Rightarrow> MatrixXd \<Rightarrow> GnssPositionCost" where
  "GnssPositionCost_Create E C meas cov =
     \<lparr>gpc_meas = meas, gpc_sqrt_info = e_transpose E (c_llt_L C (e_inverse E cov))\<rparr>"

definition GnssPositionCost_eval :: "eigen_ops \<Rightarrow> GnssPositionCost \<Rightarrow> PoseBlock \<Rightarrow> Vector3d" where
  "GnssPositionCost_eval E c pose =
     v3 (e_mul E (gpc_sqrt_info c) (e_sub E (vec (pb_position pose)) (vec (gpc_meas c))))"

definition GnssVelocityCost_Create :: "eigen_ops \<Rightarrow> ceres_ops \<Rightarrow> Vector3d \<Rightarrow> MatrixXd \<Rightarrow> GnssVelocityCost" where
  "GnssVelocityCost_Create E C meas cov =
     \<lparr>gvc_meas = meas, gvc_sqrt_info = e_transpose E (c_llt_L C (e_inverse E cov))\<rparr>"

definition GnssVelocityCost_eval :: "eigen_ops \<Rightarrow> GnssVelocityCost \<Rightarrow> Vector3d \<Rightarrow> Vector3d" where
  "GnssVelocityCost_eval E c vel = v3 (e_mul E (gvc_sqrt_info c) (e_sub E (vec vel) (vec (gvc_meas c))))"

definition BiasRandomWalkCost_eval :: "BiasRandomWalkCost \<Rightarrow> WindowKeyframe \<Rightarrow> WindowKeyframe \<Rightarrow> Vector3d \<times> Vector3d" where
  "BiasRandomWalkCost_eval c ki kj =
     (let inv_a = 1 / bwc_accel_sigma c; inv_g = 1 / bwc_gyro_sigma c in
      (Vector3d ((v3_x (kf_ba kj) - v3_x (kf_ba ki)) * inv_a) ((v3_y (kf_ba kj) - v3_y (kf_ba ki)) * inv_a)
         ((v3_z (kf_ba kj) - v3_z (kf_ba ki)) * inv_a),
       Vector3d ((v3_x (kf_bg kj) - v3_x (kf_bg ki)) * inv_g) ((v3_y (kf_bg kj) - v3_y (kf_bg ki)) * inv_g)
         ((v3_z (kf_bg kj) - v3_z (kf_bg ki)) * inv_g)))"

section \<open>The estimator's state\<close>

record CeresImpl =
  ci_opts :: CeresOptions
  ci_window :: "WindowKeyframe list"
  ci_imu_factors :: "ImuPreintegration list"
  ci_preint :: ImuPreintegrator
  ci_preint_active :: bool
  ci_imu_buffer :: "ImuMeasurement list"
  ci_initialised :: bool
  ci_ltp :: "LocalTangentPlane option"
  ci_last_kf_time :: Timestamp
  ci_latest_state :: NavigationState

definition kMaxImuBuffer :: nat where "kMaxImuBuffer = 2000"

definition CeresImpl_new :: "CeresOptions \<Rightarrow> CeresImpl" where
  "CeresImpl_new opts =
     \<lparr>ci_opts = opts, ci_window = [], ci_imu_factors = [], ci_preint = ImuPreintegrator_new,
      ci_preint_active = False, ci_imu_buffer = [], ci_initialised = False, ci_ltp = None,
      ci_last_kf_time = Timestamp_default, ci_latest_state = NavigationState_default\<rparr>"

definition ceres_report :: "EstimatorUpdateResult \<Rightarrow> MeasurementUpdateReport" where
  "ceres_report r = \<lparr>result = r, model_name = ''CeresSlidingWindow'', correction_norm = None\<rparr>"

definition Ceres_AddImu :: "eigen_ops \<Rightarrow> CeresImpl \<Rightarrow> ImuMeasurement \<Rightarrow> MeasurementUpdateReport \<times> CeresImpl" where
  "Ceres_AddImu E s imu =
     (let s1 = (if length (ci_imu_buffer s) < kMaxImuBuffer then s\<lparr>ci_imu_buffer := ci_imu_buffer s @ [imu]\<rparr> else s);
          s2 = (if ci_preint_active s1 then s1\<lparr>ci_preint := Preint_Integrate E (ci_preint s1) imu\<rparr> else s1)
      in (report Buffered, s2))"

definition Ceres_BuildNavigationState :: "eigen_ops \<Rightarrow> CeresImpl \<Rightarrow> WindowKeyframe \<Rightarrow> CeresImpl" where
  "Ceres_BuildNavigationState E s kf =
     (let ltp = the (ci_ltp s);
          R_enu_to_ecef = e_transpose E (ecef_to_enu_rotation ltp);
          st = ci_latest_state s
      in s\<lparr>ci_latest_state := st
        \<lparr>nav_timestamp := kf_timestamp kf,
         nav_position_enu_m := Vec3 (kf_P kf), nav_velocity_enu_mps := Vec3 (kf_vel kf),
         nav_orientation_body_to_enu := kf_Q E kf,
         nav_position_ecef_m := Vec3 (v3 (e_add E (vec (eigen (origin_ecef_m ltp)))
           (e_mul E R_enu_to_ecef (vec (kf_P kf))))),
         nav_velocity_ecef_mps := Vec3 (v3 (e_mul E R_enu_to_ecef (vec (kf_vel kf)))),
         nav_covariance := Matrix_Zero 15 15, nav_status := Nominal,
         nav_quality := (nav_quality st)\<lparr>initialized := True\<rparr>\<rparr>\<rparr>)"

section \<open>Initialisation\<close>

definition vec_normalized :: "eigen_ops \<Rightarrow> MatrixXd \<Rightarrow> MatrixXd" where
  "vec_normalized E v = (if 0 < e_norm E v then e_scale E (1 / e_norm E v) v else v)"

definition gravity_body :: "eigen_ops \<Rightarrow> ImuMeasurement list \<Rightarrow> MatrixXd" where
  "gravity_body E buf =
     (if buf = [] then vec (Vector3d 0 0 (- ceres_kGravityMps2))
      else e_neg E (e_scale E (1 / real (length buf))
        (foldl (\<lambda>sum i. e_add E sum (vec (eigen (imu_specific_force_mps2 i)))) (vec Vector3d_Zero) buf)))"

definition initial_attitude :: "eigen_ops \<Rightarrow> ceres_ops \<Rightarrow> ImuMeasurement list \<Rightarrow> Quaterniond" where
  "initial_attitude E C buf =
     c_from_two_vectors C (e_neg E (vec_normalized E (gravity_body E buf)))
       (vec_normalized E (vec (Vector3d 0 0 (- ceres_kGravityMps2))))"

definition Ceres_InitFromGnss ::
  "eigen_ops \<Rightarrow> ceres_ops \<Rightarrow> CeresImpl \<Rightarrow> GnssSolution \<Rightarrow> MeasurementUpdateReport \<times> CeresImpl" where
  "Ceres_InitFromGnss E C s gnss =
     (let ltp = LocalTangentPlane_new (EcefToLla (gnss_position_ecef_m gnss));
          kf = WindowKeyframe_default
            \<lparr>kf_timestamp := gnss_timestamp gnss,
             kf_pose := PoseBlock_Set Vector3d_Zero (initial_attitude E C (ci_imu_buffer s)),
             kf_vel := Vector3d_Zero, kf_ba := Vector3d_Zero, kf_bg := Vector3d_Zero\<rparr>;
          preint = Preint_Reset Vector3d_Zero Vector3d_Zero (gnss_timestamp gnss) (ci_preint s);
          replay = filter (\<lambda>i. \<not> IsBefore (imu_timestamp i) (gnss_timestamp gnss)) (ci_imu_buffer s);
          s1 = s\<lparr>ci_ltp := Some ltp, ci_window := ci_window s @ [kf],
            ci_last_kf_time := gnss_timestamp gnss, ci_initialised := True,
            ci_preint := Preint_Integrate_all E preint replay, ci_preint_active := True\<rparr>
      in (ceres_report Accepted, Ceres_BuildNavigationState E s1 (last (ci_window s1))))"

section \<open>Updating the latest keyframe\<close>

text \<open>The problem on the single latest keyframe: both GNSS residuals, with the pose block held constant.\<close>

definition latest_problem :: "eigen_ops \<Rightarrow> ceres_ops \<Rightarrow> MatrixXd \<Rightarrow> GnssSolution \<Rightarrow> Vector3d \<Rightarrow> problem" where
  "latest_problem E C R_enu gnss pos_enu =
     (let cov_enu = e_mul E (e_mul E R_enu (gnss_position_covariance_ecef_m2 gnss)) (e_transpose E R_enu);
          vel_cov = e_mul E (e_mul E R_enu (gnss_velocity_covariance_ecef_m2ps2 gnss)) (e_transpose E R_enu);
          vel_enu = v3 (e_mul E R_enu (vec (eigen (gnss_velocity_ecef_mps gnss))))
      in \<lparr>residuals =
            [(PositionResidual (GnssPositionCost_Create E C pos_enu cov_enu) 0, None),
             (VelocityResidual (GnssVelocityCost_Create E C vel_enu vel_cov) 0, None)],
          manifolds = [0], constants = [PoseOf 0]\<rparr>)"

definition Ceres_UpdateLatestGnss ::
  "eigen_ops \<Rightarrow> ceres_ops \<Rightarrow> CeresImpl \<Rightarrow> GnssSolution \<Rightarrow> Vector3d \<Rightarrow> MeasurementUpdateReport \<times> CeresImpl" where
  "Ceres_UpdateLatestGnss E C s gnss pos_enu =
     (let R_enu = ecef_to_enu_rotation (the (ci_ltp s));
          sopts = \<lparr>sparse_normal_cholesky = False, max_num_iterations = 5, max_solver_time_in_seconds = None\<rparr>;
          kf = hd (c_solve C sopts (latest_problem E C R_enu gnss pos_enu) [last (ci_window s)]);
          s1 = s\<lparr>ci_window := butlast (ci_window s) @ [kf]\<rparr>
      in (ceres_report Accepted, Ceres_BuildNavigationState E s1 kf))"

section \<open>Keyframes\<close>

definition predict_keyframe :: "eigen_ops \<Rightarrow> WindowKeyframe \<Rightarrow> ImuPreintegration \<Rightarrow> Timestamp \<Rightarrow> WindowKeyframe" where
  "predict_keyframe E prev preint t =
     (let R_prev = e_rotation_matrix E (kf_Q E prev);
          g_enu = vec (Vector3d 0 0 (- ceres_kGravityMps2));
          dt = ip_integration_time_s preint;
          p_pred = v3 (e_add E (e_add E (e_add E (vec (kf_P prev)) (e_scale E dt (vec (kf_vel prev))))
            (e_scale E dt (e_scale E dt (e_scale E 0.5 g_enu)))) (e_mul E R_prev (vec (ip_delta_p preint))));
          v_pred = v3 (e_add E (e_add E (vec (kf_vel prev)) (e_scale E dt g_enu))
            (e_mul E R_prev (vec (ip_delta_v preint))));
          q_pred = e_quat_normalized E (e_quat_mul E (kf_Q E prev) (ip_delta_q preint))
      in WindowKeyframe_default
        \<lparr>kf_timestamp := t, kf_pose := PoseBlock_Set p_pred q_pred, kf_vel := v_pred,
         kf_ba := kf_ba prev, kf_bg := kf_bg prev\<rparr>)"

text \<open>\<^verbatim>\<open>while (window_.size() > max_keyframes + 1)\<close>.\<close>

fun trim_window :: "nat \<Rightarrow> WindowKeyframe list \<Rightarrow> ImuPreintegration list \<Rightarrow> WindowKeyframe list \<times> ImuPreintegration list" where
  "trim_window n [] fs = ([], fs)"
| "trim_window n (k # ks) fs = (if length (k # ks) > n + 1 then trim_window n ks (tl fs) else (k # ks, fs))"

definition window_problem ::
  "eigen_ops \<Rightarrow> ceres_ops \<Rightarrow> CeresOptions \<Rightarrow> MatrixXd \<Rightarrow> nat \<Rightarrow> ImuPreintegration list \<Rightarrow> GnssSolution \<Rightarrow>
     Vector3d \<Rightarrow> problem" where
  "window_problem E C opts R_enu n factors gnss pos_enu =
     (let imu = map (\<lambda>i. (ImuResidual (factors ! i) i (i + 1), None)) (filter (\<lambda>i. i < length factors) [0..<n - 1]);
          ba_sigma = (if max_buffered_measurements (co_base opts) > 0 then 0.01 else 0.01);
          walk = map (\<lambda>i. (BiasResidual \<lparr>bwc_accel_sigma = ba_sigma, bwc_gyro_sigma = 0.001\<rparr> i (i + 1), None)) [0..<n - 1];
          cov_enu = e_mul E (e_mul E R_enu (gnss_position_covariance_ecef_m2 gnss)) (e_transpose E R_enu);
          vel_cov_enu = e_mul E (e_mul E R_enu (gnss_velocity_covariance_ecef_m2ps2 gnss)) (e_transpose E R_enu);
          gnss_loss = (if co_gnss_loss opts = Huber then Some (HuberLoss (co_huber_loss_parameter opts)) else None);
          vel_enu = v3 (e_mul E R_enu (vec (eigen (gnss_velocity_ecef_mps gnss))))
      in \<lparr>residuals = imu @ walk @
            [(PositionResidual (GnssPositionCost_Create E C pos_enu cov_enu) (n - 1), gnss_loss),
             (VelocityResidual (GnssVelocityCost_Create E C vel_enu vel_cov_enu) (n - 1), gnss_loss)],
          manifolds = [0..<n], constants = [PoseOf 0, VelOf 0]\<rparr>)"

definition window_solver :: "CeresOptions \<Rightarrow> solver_options" where
  "window_solver opts =
     \<lparr>sparse_normal_cholesky = True,
      max_num_iterations = (if co_solver_strategy opts = FastOneIteration then 1 else co_max_solver_iterations opts),
      max_solver_time_in_seconds = Some (co_solver_time_budget_s opts)\<rparr>"

definition Ceres_Optimise :: "eigen_ops \<Rightarrow> ceres_ops \<Rightarrow> CeresImpl \<Rightarrow> GnssSolution \<Rightarrow> Vector3d \<Rightarrow> CeresImpl" where
  "Ceres_Optimise E C s gnss pos_enu =
     (let R_enu = ecef_to_enu_rotation (the (ci_ltp s));
          pr = window_problem E C (ci_opts s) R_enu (length (ci_window s)) (ci_imu_factors s) gnss pos_enu
      in s\<lparr>ci_window := c_solve C (window_solver (ci_opts s)) pr (ci_window s)\<rparr>)"

definition Ceres_CreateKeyframe ::
  "eigen_ops \<Rightarrow> ceres_ops \<Rightarrow> CeresImpl \<Rightarrow> GnssSolution \<Rightarrow> Vector3d \<Rightarrow> MeasurementUpdateReport \<times> CeresImpl" where
  "Ceres_CreateKeyframe E C s gnss pos_enu =
     (let preint = Preint_Finalize (ci_preint s) (gnss_timestamp gnss);
          kf = predict_keyframe E (last (ci_window s)) preint (gnss_timestamp gnss);
          (w, fs) = trim_window (co_max_keyframes (ci_opts s)) (ci_window s @ [kf]) (ci_imu_factors s @ [preint]);
          s1 = Ceres_Optimise E C (s\<lparr>ci_window := w, ci_imu_factors := fs\<rparr>) gnss pos_enu;
          new_kf = last (ci_window s1);
          s2 = s1\<lparr>ci_preint := Preint_Reset (kf_ba new_kf) (kf_bg new_kf) (gnss_timestamp gnss) (ci_preint s1),
            ci_last_kf_time := gnss_timestamp gnss\<rparr>
      in (ceres_report Accepted, Ceres_BuildNavigationState E s2 new_kf))"

text \<open>The position of a fix in the tangent plane, and the test for a fix close to the latest keyframe.\<close>

definition fix_position :: "eigen_ops \<Rightarrow> CeresImpl \<Rightarrow> GnssSolution \<Rightarrow> Vector3d" where
  "fix_position E s gnss =
     (let ltp = the (ci_ltp s) in
      v3 (e_mul E (ecef_to_enu_rotation ltp)
        (e_sub E (vec (eigen (gnss_position_ecef_m gnss))) (vec (eigen (origin_ecef_m ltp))))))"

definition close_to_keyframe :: "eigen_ops \<Rightarrow> CeresImpl \<Rightarrow> GnssSolution \<Rightarrow> bool" where
  "close_to_keyframe E s gnss =
     (let dist = e_norm E (e_sub E (vec (fix_position E s gnss)) (vec (kf_P (last (ci_window s)))));
          dt = seconds (MonotonicTime_minus (steady (gnss_timestamp gnss)) (steady (ci_last_kf_time s)))
      in dist < co_keyframe_min_distance_m (ci_opts s) \<and> dt < 0.2)"

definition Ceres_AddGnss ::
  "eigen_ops \<Rightarrow> ceres_ops \<Rightarrow> CeresImpl \<Rightarrow> GnssSolution \<Rightarrow> MeasurementUpdateReport \<times> CeresImpl" where
  "Ceres_AddGnss E C s gnss =
     (if gnss_validity gnss \<noteq> Valid then (report Rejected, s)
      else if \<not> ci_initialised s then Ceres_InitFromGnss E C s gnss
      else if close_to_keyframe E s gnss then Ceres_UpdateLatestGnss E C s gnss (fix_position E s gnss)
      else Ceres_CreateKeyframe E C s gnss (fix_position E s gnss))"

section \<open>The public interface\<close>

record CeresEstimator =
  ce_options :: CeresOptions
  ce_impl :: CeresImpl

definition CeresEstimator_new :: "CeresOptions \<Rightarrow> CeresEstimator" where
  "CeresEstimator_new opts = \<lparr>ce_options = opts, ce_impl = CeresImpl_new opts\<rparr>"

definition Ceres_IsInitialized :: "CeresEstimator \<Rightarrow> bool" where
  "Ceres_IsInitialized k = ci_initialised (ce_impl k)"

definition Ceres_LatestState :: "CeresEstimator \<Rightarrow> NavigationState option" where
  "Ceres_LatestState k = (if \<not> ci_initialised (ce_impl k) then None else Some (ci_latest_state (ce_impl k)))"

definition Ceres_AddMeasurement ::
  "eigen_ops \<Rightarrow> ceres_ops \<Rightarrow> CeresEstimator \<Rightarrow> SensorMeasurement \<Rightarrow> MeasurementUpdateReport \<times> CeresEstimator" where
  "Ceres_AddMeasurement E C k m =
     (let (rep, s) = (case m of
          M_Imu imu \<Rightarrow> Ceres_AddImu E (ce_impl k) imu
        | M_GnssSolution gnss \<Rightarrow> Ceres_AddGnss E C (ce_impl k) gnss
        | _ \<Rightarrow> (report Rejected, ce_impl k))
      in (rep, k\<lparr>ce_impl := s\<rparr>))"

definition Ceres_ProcessUntil :: "CeresEstimator \<Rightarrow> Timestamp \<Rightarrow> EstimatorUpdateResult" where
  "Ceres_ProcessUntil k t = Accepted"

definition Ceres_Reset :: "CeresEstimator \<Rightarrow> CeresEstimator" where
  "Ceres_Reset k = k\<lparr>ce_impl := CeresImpl_new (ce_options k)\<rparr>"

text \<open>The diagnostics snapshot.\<close>

record Keyframe =
  key_timestamp :: Timestamp
  key_position_enu_m :: "EnuFrame Vec3"
  key_orientation_body_to_enu :: Quaterniond
  key_velocity_enu_mps :: "EnuFrame Vec3"
  key_accel_bias_mps2 :: "ImuFrame Vec3"
  key_gyro_bias_radps :: "ImuFrame Vec3"
  key_marginalised :: bool

record SlidingWindowState =
  sw_keyframes :: "Keyframe list"
  sw_imu_factors :: "ImuPreintegration list"

definition Ceres_WindowState :: "eigen_ops \<Rightarrow> CeresEstimator \<Rightarrow> SlidingWindowState" where
  "Ceres_WindowState E k =
     \<lparr>sw_keyframes = map (\<lambda>kf.
        \<lparr>key_timestamp = kf_timestamp kf, key_position_enu_m = Vec3 (kf_P kf),
         key_orientation_body_to_enu = kf_Q E kf, key_velocity_enu_mps = Vec3 (kf_vel kf),
         key_accel_bias_mps2 = Vec3 (kf_ba kf), key_gyro_bias_radps = Vec3 (kf_bg kf),
         key_marginalised = False\<rparr>) (ci_window (ce_impl k)),
      sw_imu_factors = ci_imu_factors (ce_impl k)\<rparr>"

definition ceres_estimator_ops :: "eigen_ops \<Rightarrow> ceres_ops \<Rightarrow> CeresEstimator estimator_ops" where
  "ceres_estimator_ops E C =
     \<lparr>add_measurement = (\<lambda>k m. Some (Ceres_AddMeasurement E C k m)), latest_state = Ceres_LatestState,
      reset_estimator = Ceres_Reset, is_initialized = Ceres_IsInitialized\<rparr>"

end
