(* ===== verification/Fg_CeresProps.thy ===== *)
theory Fg_CeresProps
  imports Fg_Ceres
begin

text \<open>
  Properties of the sliding-window backend: the invariant of the window and its factors in every run, the
  consistency of a new keyframe with its IMU factor, and where the initial attitude, the bias correction
  and the update between keyframes go wrong.
\<close>

section \<open>The solver\<close>

text \<open>The parameter blocks a residual reads, and those the solver may change.\<close>

fun residual_blocks :: "residual \<Rightarrow> block set" where
  "residual_blocks (ImuResidual p i j) = {PoseOf i, VelOf i, BiasOf i, PoseOf j, VelOf j, BiasOf j}"
| "residual_blocks (BiasResidual c i j) = {BiasOf i, BiasOf j}"
| "residual_blocks (PositionResidual c i) = {PoseOf i}"
| "residual_blocks (VelocityResidual c i) = {VelOf i}"

definition problem_blocks :: "problem \<Rightarrow> block set" where
  "problem_blocks pr = (\<Union>r\<in>fst ` set (residuals pr). residual_blocks r)"

definition free_blocks :: "problem \<Rightarrow> block set" where
  "free_blocks pr = problem_blocks pr - set (constants pr)"

text \<open>
  Documented of \<^verbatim>\<open>ceres::Solve\<close>: only parameter blocks of the problem that are not constant change.
\<close>

definition unchanged_outside :: "block set \<Rightarrow> nat \<Rightarrow> WindowKeyframe \<Rightarrow> WindowKeyframe \<Rightarrow> bool" where
  "unchanged_outside free i k k' \<longleftrightarrow> kf_timestamp k' = kf_timestamp k \<and>
     (PoseOf i \<notin> free \<longrightarrow> kf_pose k' = kf_pose k) \<and> (VelOf i \<notin> free \<longrightarrow> kf_vel k' = kf_vel k) \<and>
     (BiasOf i \<notin> free \<longrightarrow> kf_ba k' = kf_ba k \<and> kf_bg k' = kf_bg k)"

definition solver_laws :: "ceres_ops \<Rightarrow> bool" where
  "solver_laws C \<longleftrightarrow> (\<forall>sopts pr w. length (c_solve C sopts pr w) = length w \<and>
     (\<forall>i<length w. unchanged_outside (free_blocks pr) i (w ! i) (c_solve C sopts pr w ! i)))"

lemma solver_lawsD:
  assumes "solver_laws C"
  shows "length (c_solve C sopts pr w) = length w"
    and "i < length w \<Longrightarrow> unchanged_outside (free_blocks pr) i (w ! i) (c_solve C sopts pr w ! i)"
    and "map kf_timestamp (c_solve C sopts pr w) = map kf_timestamp w"
  using assms by (auto simp: solver_laws_def unchanged_outside_def intro: nth_equalityI)

lemma solve_one:
  assumes "solver_laws C"
  shows "unchanged_outside (free_blocks pr) 0 k (hd (c_solve C sopts pr [k]))"
  using solver_lawsD(2) [OF assms, where i = 0 and w = "[k]" and pr = pr and sopts = sopts]
    solver_lawsD(1) [OF assms, where w = "[k]" and pr = pr and sopts = sopts]
  by (cases "c_solve C sopts pr [k]") auto



lemma latest_problem_free: "free_blocks (latest_problem E C R g p) = {VelOf 0}"
  by (auto simp: free_blocks_def latest_problem_def problem_blocks_def Let_def)


section \<open>The window invariant\<close>

text \<open>The factor between two keyframes spans exactly the time between them.\<close>

fun chained :: "WindowKeyframe list \<Rightarrow> ImuPreintegration list \<Rightarrow> bool" where
  "chained (a # b # w) (f # fs) \<longleftrightarrow> ip_start_timestamp f = kf_timestamp a \<and> ip_end_timestamp f = kf_timestamp b \<and>
     covariance_ok 9 (ip_covariance f) \<and> chained (b # w) fs"
| "chained [a] [] \<longleftrightarrow> True"
| "chained _ _ \<longleftrightarrow> False"

lemma chained_length: "chained w fs \<Longrightarrow> length w = Suc (length fs)"
  by (induction w fs rule: chained.induct) auto

lemma chained_append:
  assumes "chained w fs" "ip_start_timestamp f = kf_timestamp (last w)" "ip_end_timestamp f = kf_timestamp k"
    "covariance_ok 9 (ip_covariance f)"
  shows "chained (w @ [k]) (fs @ [f])"
  using assms by (induction w fs rule: chained.induct) auto

lemma chained_timestamps: "chained w fs \<Longrightarrow> map kf_timestamp w' = map kf_timestamp w \<Longrightarrow> chained w' fs"
  by (induction w fs arbitrary: w' rule: chained.induct) (auto simp: Cons_eq_map_conv map_eq_Cons_conv)

lemma trim_window_chained:
  assumes "chained w fs" "trim_window n w fs = (w', fs')"
  shows "chained w' fs' \<and> last w' = last w \<and> length w' = min (length w) (n + 1)"
  using assms
proof (induction n w fs rule: trim_window.induct)
  case (2 n k ks fs)
  show ?case
  proof (cases "length (k # ks) > n + 1")
    case True
    then obtain b w f gs where [simp]: "ks = b # w" "fs = f # gs"
      using "2.prems"(1) by (cases "(k # ks, fs)" rule: chained.cases) auto
    show ?thesis using 2 True by auto
  next
    case False
    then show ?thesis using "2.prems" chained_length [OF "2.prems"(1)] by auto
  qed
qed simp

definition ceres_ok :: "CeresEstimator \<Rightarrow> bool" where
  "ceres_ok k \<longleftrightarrow> (let s = ce_impl k in
     ci_opts s = ce_options k \<and> preint_ok (ci_preint s) \<and> length (ci_imu_buffer s) \<le> kMaxImuBuffer \<and>
     (if ci_initialised s
      then ci_ltp s \<noteq> None \<and> ci_preint_active s \<and> chained (ci_window s) (ci_imu_factors s) \<and>
        length (ci_window s) \<le> co_max_keyframes (ce_options k) + 1 \<and>
        pi_t0 (ci_preint s) = kf_timestamp (last (ci_window s)) \<and>
        ci_last_kf_time s = kf_timestamp (last (ci_window s)) \<and>
        pi_ba (ci_preint s) = kf_ba (last (ci_window s)) \<and> pi_bg (ci_preint s) = kf_bg (last (ci_window s)) \<and>
        nav_position_enu_m (ci_latest_state s) = Vec3 (kf_P (last (ci_window s)))
      else ci_window s = [] \<and> ci_imu_factors s = [] \<and> \<not> ci_preint_active s))"

lemma ceres_ok_new: "ceres_ok (CeresEstimator_new opts)" "ceres_ok (Ceres_Reset k)"
  by (simp_all add: ceres_ok_def CeresEstimator_new_def Ceres_Reset_def CeresImpl_new_def preint_ok_reset Let_def)

lemma Preint_Integrate_frame [simp]:
  "pi_t0 (Preint_Integrate E s imu) = pi_t0 s" "pi_ba (Preint_Integrate E s imu) = pi_ba s"
  "pi_bg (Preint_Integrate E s imu) = pi_bg s"
  by (simp_all add: Preint_Integrate_def preint_step_def Let_def)

lemma Preint_Integrate_all_frame [simp]:
  "pi_t0 (Preint_Integrate_all E s ms) = pi_t0 s" "pi_ba (Preint_Integrate_all E s ms) = pi_ba s"
  "pi_bg (Preint_Integrate_all E s ms) = pi_bg s"
  by (induction ms arbitrary: s) simp_all

lemma Preint_Reset_frame [simp]:
  "pi_t0 (Preint_Reset ba bg t s) = t" "pi_ba (Preint_Reset ba bg t s) = ba" "pi_bg (Preint_Reset ba bg t s) = bg"
  by (simp_all add: Preint_Reset_def Preint_Reset_params_def)

lemma BuildNavigationState_frame [simp]:
  "ci_opts (Ceres_BuildNavigationState E s kf) = ci_opts s" "ci_window (Ceres_BuildNavigationState E s kf) = ci_window s"
  "ci_imu_factors (Ceres_BuildNavigationState E s kf) = ci_imu_factors s"
  "ci_preint (Ceres_BuildNavigationState E s kf) = ci_preint s"
  "ci_preint_active (Ceres_BuildNavigationState E s kf) = ci_preint_active s"
  "ci_imu_buffer (Ceres_BuildNavigationState E s kf) = ci_imu_buffer s"
  "ci_initialised (Ceres_BuildNavigationState E s kf) = ci_initialised s"
  "ci_ltp (Ceres_BuildNavigationState E s kf) = ci_ltp s"
  "ci_last_kf_time (Ceres_BuildNavigationState E s kf) = ci_last_kf_time s"
  "nav_position_enu_m (ci_latest_state (Ceres_BuildNavigationState E s kf)) = Vec3 (kf_P kf)"
  by (simp_all add: Ceres_BuildNavigationState_def Let_def)

lemma ceres_ok_imu:
  assumes "eigen_algebra E" "eigen_shapes E" "ceres_ok k"
  shows "ceres_ok (k\<lparr>ce_impl := snd (Ceres_AddImu E (ce_impl k) imu)\<rparr>)"
  using assms
  by (auto simp: ceres_ok_def Ceres_AddImu_def Let_def Preint_Integrate_ok kMaxImuBuffer_def split: if_splits)

lemma ceres_ok_init:
  assumes "eigen_algebra E" "eigen_shapes E" "ceres_ok k" "\<not> ci_initialised (ce_impl k)"
  shows "ceres_ok (k\<lparr>ce_impl := snd (Ceres_InitFromGnss E C (ce_impl k) g)\<rparr>)"
  using assms(3,4)
  by (simp add: ceres_ok_def Ceres_InitFromGnss_def Let_def Preint_Integrate_all_ok [OF assms(1,2)] preint_ok_reset
      WindowKeyframe_default_def)

lemma chained_nonempty: "chained w fs \<Longrightarrow> w \<noteq> []"
  by (cases w) auto

lemma chained_replace_last:
  "chained w fs \<Longrightarrow> kf_timestamp k = kf_timestamp (last w) \<Longrightarrow> chained (butlast w @ [k]) fs"
  using chained_nonempty [of w fs] by (cases w rule: rev_cases) (auto elim: chained_timestamps)

text \<open>The update of the latest keyframe may change its velocity only.\<close>

lemma update_latest_kf:
  assumes "solver_laws C"
  obtains kf where "snd (Ceres_UpdateLatestGnss E C s g p) =
      Ceres_BuildNavigationState E (s\<lparr>ci_window := butlast (ci_window s) @ [kf]\<rparr>) kf"
    "kf_pose kf = kf_pose (last (ci_window s))" "kf_timestamp kf = kf_timestamp (last (ci_window s))"
    "kf_ba kf = kf_ba (last (ci_window s))" "kf_bg kf = kf_bg (last (ci_window s))"
proof -
  let ?sopts = "\<lparr>sparse_normal_cholesky = False, max_num_iterations = 5, max_solver_time_in_seconds = None\<rparr>"
  let ?pr = "latest_problem E C (ecef_to_enu_rotation (the (ci_ltp s))) g p"
  let ?kf = "hd (c_solve C ?sopts ?pr [last (ci_window s)])"
  have "unchanged_outside {VelOf 0} 0 (last (ci_window s)) ?kf"
    using solve_one [OF assms, of ?pr "last (ci_window s)" ?sopts] by (simp add: latest_problem_free)
  then show thesis
    by (intro that [of ?kf]) (simp_all add: Ceres_UpdateLatestGnss_def Let_def unchanged_outside_def)
qed

lemma ceres_ok_update:
  assumes "solver_laws C" "ceres_ok k" "ci_initialised (ce_impl k)"
  shows "ceres_ok (k\<lparr>ce_impl := snd (Ceres_UpdateLatestGnss E C (ce_impl k) g p)\<rparr>)"
proof -
  obtain kf where kf: "snd (Ceres_UpdateLatestGnss E C (ce_impl k) g p) =
      Ceres_BuildNavigationState E ((ce_impl k)\<lparr>ci_window := butlast (ci_window (ce_impl k)) @ [kf]\<rparr>) kf"
    "kf_timestamp kf = kf_timestamp (last (ci_window (ce_impl k)))"
    "kf_ba kf = kf_ba (last (ci_window (ce_impl k)))" "kf_bg kf = kf_bg (last (ci_window (ce_impl k)))"
    using update_latest_kf [OF assms(1)] by metis
  have "ci_window (ce_impl k) \<noteq> []" "chained (butlast (ci_window (ce_impl k)) @ [kf]) (ci_imu_factors (ce_impl k))"
    using assms(2,3) kf(2) by (auto simp: ceres_ok_def Let_def intro: chained_replace_last dest: chained_nonempty)
  then show ?thesis using assms(2,3) kf by (simp add: ceres_ok_def Let_def)
qed

lemma predict_timestamp [simp]: "kf_timestamp (predict_keyframe E prev p t) = t"
  by (simp add: predict_keyframe_def Let_def)

lemma Finalize_fields [simp]:
  "ip_start_timestamp (Preint_Finalize s t) = pi_t0 s" "ip_end_timestamp (Preint_Finalize s t) = t"
  "ip_covariance (Preint_Finalize s t) = pi_cov s" "ip_delta_p (Preint_Finalize s t) = pi_delta_p s"
  "ip_delta_v (Preint_Finalize s t) = pi_delta_v s" "ip_delta_q (Preint_Finalize s t) = pi_delta_q s"
  "ip_integration_time_s (Preint_Finalize s t) = pi_delta_t s"
  "eigen (ip_linearisation_accel_bias_mps2 (Preint_Finalize s t)) = pi_ba s"
  "eigen (ip_linearisation_gyro_bias_radps (Preint_Finalize s t)) = pi_bg s"
  by (simp_all add: Preint_Finalize_def Vec3_xyz_def)

lemma last_timestamp: "map kf_timestamp w' = map kf_timestamp w \<Longrightarrow> w \<noteq> [] \<Longrightarrow> kf_timestamp (last w') = kf_timestamp (last w)"
  by (metis last_map list.map_disc_iff)

text \<open>The window after a keyframe was added and trimmed, before it is optimised.\<close>

lemma trimmed_window:
  assumes "ceres_ok k" "ci_initialised (ce_impl k)" "s = ce_impl k"
    and "p = Preint_Finalize (ci_preint s) t" "kf = predict_keyframe E (last (ci_window s)) p t"
    and "trim_window n (ci_window s @ [kf]) (ci_imu_factors s @ [p]) = (w, fs)"
  shows "chained w fs" "last w = kf" "w \<noteq> []" "length w \<le> n + 1"
proof -
  have "chained (ci_window s @ [kf]) (ci_imu_factors s @ [p])"
    using assms(1-5) by (intro chained_append) (auto simp: ceres_ok_def Let_def preint_ok_def)
  from trim_window_chained [OF this assms(6)] show "chained w fs" "last w = kf" "length w \<le> n + 1" by auto
  then show "w \<noteq> []" using chained_nonempty by blast
qed

lemma ceres_ok_create:
  assumes "solver_laws C" "ceres_ok k" "ci_initialised (ce_impl k)"
  shows "ceres_ok (k\<lparr>ce_impl := snd (Ceres_CreateKeyframe E C (ce_impl k) g p)\<rparr>)"
proof -
  let ?s = "ce_impl k" and ?t = "gnss_timestamp g"
  let ?p = "Preint_Finalize (ci_preint ?s) ?t"
  let ?kf = "predict_keyframe E (last (ci_window ?s)) ?p ?t"
  obtain w fs where w: "trim_window (co_max_keyframes (ci_opts ?s)) (ci_window ?s @ [?kf]) (ci_imu_factors ?s @ [?p]) = (w, fs)"
    by force
  note t = trimmed_window [OF assms(2,3) refl refl refl w]
  let ?s1 = "Ceres_Optimise E C (?s\<lparr>ci_window := w, ci_imu_factors := fs\<rparr>) g p"
  have ts: "map kf_timestamp (ci_window ?s1) = map kf_timestamp w"
    by (simp add: Ceres_Optimise_def Let_def solver_lawsD(3) [OF assms(1)])
  have "chained (ci_window ?s1) fs" "kf_timestamp (last (ci_window ?s1)) = ?t" "length (ci_window ?s1) = length w"
    using chained_timestamps [OF t(1) ts] last_timestamp [OF ts t(3)] t(2) map_eq_imp_length_eq [OF ts] by simp_all
  then show ?thesis
    using assms(2,3) t(4) w
    by (simp add: ceres_ok_def Ceres_CreateKeyframe_def Let_def Ceres_Optimise_def preint_ok_reset)
qed

lemma Ceres_AddMeasurement_ok:
  assumes "eigen_algebra E" "eigen_shapes E" "solver_laws C" "ceres_ok k"
  shows "ceres_ok (snd (Ceres_AddMeasurement E C k m))"
proof -
  have "ceres_ok (k\<lparr>ce_impl := snd (Ceres_AddGnss E C (ce_impl k) g)\<rparr>)" for g
    using assms ceres_ok_init ceres_ok_update ceres_ok_create
    by (cases "ci_initialised (ce_impl k)") (auto simp: Ceres_AddGnss_def Let_def)
  then show ?thesis
    using ceres_ok_imu [OF assms(1,2,4)] assms(4)
    by (cases m) (auto simp: Ceres_AddMeasurement_def case_prod_beta)
qed

definition Ceres_run :: "eigen_ops \<Rightarrow> ceres_ops \<Rightarrow> CeresOptions \<Rightarrow> SensorMeasurement list \<Rightarrow> CeresEstimator" where
  "Ceres_run E C opts ms = foldl (\<lambda>k m. snd (Ceres_AddMeasurement E C k m)) (CeresEstimator_new opts) ms"

lemma Ceres_run_ok:
  assumes "eigen_algebra E" "eigen_shapes E" "solver_laws C"
  shows "ceres_ok (Ceres_run E C opts ms)"
proof -
  have "ceres_ok k \<Longrightarrow> ceres_ok (foldl (\<lambda>k m. snd (Ceres_AddMeasurement E C k m)) k ms)" for k
    by (induction ms arbitrary: k) (simp_all add: Ceres_AddMeasurement_ok [OF assms])
  then show ?thesis by (simp add: Ceres_run_def ceres_ok_new)
qed






lemma problem_solver [simp]:
  "latest_problem E (C\<lparr>c_solve := f\<rparr>) = latest_problem E C"
  "window_problem E (C\<lparr>c_solve := f\<rparr>) = window_problem E C"
  by (intro ext, simp add: latest_problem_def window_problem_def GnssPositionCost_Create_def GnssVelocityCost_Create_def)+





section \<open>A new keyframe and its IMU factor\<close>

lemma corrected_same_bias:
  assumes "eigen_algebra E" "preint_ok s"
    and d: "mat_rows da = 3" "mat_cols da = 1" "\<forall>i<3. coeff da i 0 = 0" "mat_rows dg = 3" "mat_cols dg = 1" "\<forall>i<3. coeff dg i 0 = 0"
  shows "coeff (corrected_dp E (Preint_Finalize s t) da dg) 0 0 = v3_x (pi_delta_p s)"
    "coeff (corrected_dp E (Preint_Finalize s t) da dg) (Suc 0) 0 = v3_y (pi_delta_p s)"
    "coeff (corrected_dp E (Preint_Finalize s t) da dg) 2 0 = v3_z (pi_delta_p s)"
    "coeff (corrected_dv E (Preint_Finalize s t) da dg) 0 0 = v3_x (pi_delta_v s)"
    "coeff (corrected_dv E (Preint_Finalize s t) da dg) (Suc 0) 0 = v3_y (pi_delta_v s)"
    "coeff (corrected_dv E (Preint_Finalize s t) da dg) 2 0 = v3_z (pi_delta_v s)"
    "mat_rows (corrected_dp E (Preint_Finalize s t) da dg) = 3" "mat_cols (corrected_dp E (Preint_Finalize s t) da dg) = 1"
    "mat_rows (corrected_dv E (Preint_Finalize s t) da dg) = 3" "mat_cols (corrected_dv E (Preint_Finalize s t) da dg) = 1"
  using assms by (simp_all add: corrected_dp_def corrected_dv_def v3_def all_less_3 sum3)

lemma QuatExp_zero:
  assumes "identity_laws E" "mat_rows v = 3" "mat_cols v = 1" "\<forall>i<3. coeff v i 0 = 0"
  shows "QuatExp E v = Quaterniond_Identity"
  using assms by (simp add: QuatExp_def identity_laws_def all_less_3 Quaterniond_Identity_def)

lemma normalized_twice:
  assumes "quat_laws E"
  shows "\<exists>c. e_quat_normalized E (e_quat_normalized E x) = Quaterniond (c * q_w x) (c * q_x x) (c * q_y x) (c * q_z x)"
proof -
  obtain a where a: "e_quat_normalized E x = Quaterniond (a * q_w x) (a * q_x x) (a * q_y x) (a * q_z x)"
    using quat_lawsD(3) [OF assms] by blast
  obtain b where "e_quat_normalized E (Quaterniond (a * q_w x) (a * q_x x) (a * q_y x) (a * q_z x)) =
      Quaterniond (b * (a * q_w x)) (b * (a * q_x x)) (b * (a * q_y x)) (b * (a * q_z x))"
    using quat_lawsD(3) [OF assms, of "Quaterniond (a * q_w x) (a * q_x x) (a * q_y x) (a * q_z x)"] by auto
  then show ?thesis unfolding a by (intro exI [of _ "b * a"]) (simp add: mult.assoc)
qed

text \<open>The rotation error of the predicted attitude is real: its vector part vanishes.\<close>

lemma QuatResidual_predicted:
  assumes "quat_laws E"
  shows "QuatResidual (e_quat_mul E (e_quat_conjugate E (e_quat_mul E dq Quaterniond_Identity))
    (e_quat_mul E (e_quat_conjugate E qi) (e_quat_normalized E (e_quat_normalized E (e_quat_mul E qi dq))))) = Vector3d_Zero"
proof -
  obtain c where c: "e_quat_normalized E (e_quat_normalized E x) = Quaterniond (c * q_w x) (c * q_x x) (c * q_y x) (c * q_z x)"
    if "x = e_quat_mul E qi dq" for x
    using normalized_twice [OF assms, of "e_quat_mul E qi dq"] by blast
  show ?thesis
    unfolding c [OF refl]
    by (simp add: quat_lawsD(1,2) [OF assms] QuatResidual_def Let_def Vector3d_Zero_def Quaterniond_Identity_def)
       (simp add: algebra_simps)
qed

text \<open>Subtracting the gravity and velocity terms leaves the rotated increments.\<close>

lemma predicted_increments:
  assumes E: "eigen_algebra E" "eigen_shapes E" and kj: "kj = predict_keyframe E kf (Preint_Finalize s t) t"
  defines "R \<equiv> e_rotation_matrix E (kf_Q E kf)" and "g \<equiv> vec (Vector3d 0 0 (- ceres_kGravityMps2))"
    and "dt \<equiv> pi_delta_t s"
  defines "dp \<equiv> e_sub E (e_sub E (e_sub E (vec (kf_P kj)) (vec (kf_P kf))) (e_scale E dt (vec (kf_vel kf))))
      (e_scale E dt (e_scale E dt (e_scale E 0.5 g)))"
    and "dv \<equiv> e_sub E (e_sub E (vec (kf_vel kj)) (vec (kf_vel kf))) (e_scale E dt g)"
  shows "coeff dp 0 0 = coeff (e_mul E R (vec (pi_delta_p s))) 0 0" "coeff dp 1 0 = coeff (e_mul E R (vec (pi_delta_p s))) 1 0"
    "coeff dp 2 0 = coeff (e_mul E R (vec (pi_delta_p s))) 2 0"
    "coeff dv 0 0 = coeff (e_mul E R (vec (pi_delta_v s))) 0 0" "coeff dv 1 0 = coeff (e_mul E R (vec (pi_delta_v s))) 1 0"
    "coeff dv 2 0 = coeff (e_mul E R (vec (pi_delta_v s))) 2 0"
    "mat_rows dp = 3" "mat_cols dp = 1" "mat_rows dv = 3" "mat_cols dv = 1"
  unfolding dp_def dv_def kj R_def g_def dt_def
  using E by (simp_all add: predict_keyframe_def Let_def PoseBlock_Set_def)

text \<open>Such a vector, rotated back, is the increment again.\<close>

lemma rotated_back:
  assumes E: "eigen_algebra E" "eigen_shapes E" and R: "rotates_back R" "mat_rows R = 3" "mat_cols R = 3"
    and d: "mat_rows d = 3" "mat_cols d = 1" "mat_rows c = 3" "mat_cols c = 1"
      "coeff d 0 0 = coeff (e_mul E R (vec v)) 0 0" "coeff d 1 0 = coeff (e_mul E R (vec v)) 1 0"
      "coeff d 2 0 = coeff (e_mul E R (vec v)) 2 0"
      "coeff c 0 0 = v3_x v" "coeff c (Suc 0) 0 = v3_y v" "coeff c 2 0 = v3_z v"
  shows "v3 (e_scale E h (e_sub E (e_mul E (e_transpose E R) d) c)) = Vector3d_Zero"
proof -
  have "coeff (e_mul E (e_transpose E R) d) 0 0 = v3_x v" "coeff (e_mul E (e_transpose E R) d) (Suc 0) 0 = v3_y v"
    "coeff (e_mul E (e_transpose E R) d) 2 0 = v3_z v"
    using E R(2,3) d R(1) [unfolded rotates_back_def all_less_3] by (simp_all add: sum3)
  then show ?thesis using E R(2,3) d by (simp add: v3_def Vector3d_Zero_def)
qed

lemma prediction_residual:
  assumes E: "eigen_algebra E" "eigen_shapes E" "quat_laws E" "identity_laws E" "preint_ok s"
    and b: "pi_ba s = kf_ba kf" "pi_bg s = kf_bg kf"
  shows "ImuPreintegrationCost_eval E (Preint_Finalize s t) kf (predict_keyframe E kf (Preint_Finalize s t) t) =
    (Vector3d_Zero, Vector3d_Zero, Vector3d_Zero)"
proof -
  let ?p = "Preint_Finalize s t" and ?q = "kf_Q E kf" and ?R = "e_rotation_matrix E (kf_Q E kf)"
  let ?da = "e_sub E (vec (kf_ba kf)) (vec (kf_ba kf))" and ?dg = "e_sub E (vec (kf_bg kf)) (vec (kf_bg kf))"
  have R: "rotates_back ?R"
    using rotation_rotates_back [OF E(3)] normalized_unit [OF E(3)] by (simp add: kf_Q_def PoseBlock_Rotation_def)
  have z: "mat_rows ?da = 3" "mat_cols ?da = 1" "\<forall>i<3. coeff ?da i 0 = 0"
    "mat_rows ?dg = 3" "mat_cols ?dg = 1" "\<forall>i<3. coeff ?dg i 0 = 0"
    using E(1) by (simp_all add: all_less_3)
  note corr = corrected_same_bias [OF E(1) E(5) z, of t]
  note inc = predicted_increments [OF E(1,2) refl, of kf s t]
  have q1: "QuatExp E (e_mul E (get_block (ip_jacobian_dp_dba ?p) 3 0 3 3) ?dg) = Quaterniond_Identity"
    using E(1) z by (intro QuatExp_zero [OF E(4)]) (simp_all add: all_less_3 sum3)
  have kq: "kf_Q E (predict_keyframe E kf ?p t) = e_quat_normalized E (e_quat_normalized E (e_quat_mul E ?q (pi_delta_q s)))"
    by (simp add: kf_Q_def PoseBlock_Rotation_def predict_keyframe_def PoseBlock_Set_def Let_def)
  have zero: "v3 (e_scale E h (vec Vector3d_Zero)) = Vector3d_Zero" for h
    using E(1) by (simp add: v3_def Vector3d_Zero_def)
  have "rotates_back ?R" "mat_rows ?R = 3" "mat_cols ?R = 3" using R E(2) by simp_all
  note rb = rotated_back [OF E(1,2) this]
  show ?thesis
    unfolding ImuPreintegrationCost_eval_def Let_def Finalize_fields b q1 kq QuatResidual_predicted [OF E(3)] zero prod.inject
    using rb [OF inc(7,8) corr(7,8) inc(1-3) corr(1-3)] rb [OF inc(9,10) corr(9,10) inc(4-6) corr(4-6)] by simp
qed

lemma Ceres_run_preint:
  assumes "eigen_algebra E" "eigen_shapes E" "solver_laws C"
    and "s = ce_impl (Ceres_run E C opts ms)" "ci_initialised s"
  shows "preint_ok (ci_preint s)" "pi_ba (ci_preint s) = kf_ba (last (ci_window s))"
    "pi_bg (ci_preint s) = kf_bg (last (ci_window s))"
  using Ceres_run_ok [OF assms(1-3), of opts ms] assms(4,5) by (auto simp: ceres_ok_def Let_def)

text \<open>C28. In every run, the state that a new keyframe is started from agrees with the preintegrated IMU
  data: all nine components of the residual of the IMU factor between the last keyframe and the predicted
  one are zero.\<close>

theorem ceres_prediction_consistent:
  assumes "eigen_algebra E" "eigen_shapes E" "quat_laws E" "identity_laws E" "solver_laws C"
    and "s = ce_impl (Ceres_run E C opts ms)" "ci_initialised s"
  shows "let p = Preint_Finalize (ci_preint s) t; kf = last (ci_window s) in
    ImuPreintegrationCost_eval E p kf (predict_keyframe E kf p t) = (Vector3d_Zero, Vector3d_Zero, Vector3d_Zero)"
  unfolding Let_def
  using Ceres_run_preint [OF assms(1,2,5-7)] by (intro prediction_residual [OF assms(1-4)])

section \<open>The bias correction\<close>

definition plus3 :: "Vector3d \<Rightarrow> Vector3d \<Rightarrow> Vector3d" where
  "plus3 a b = Vector3d (v3_x a + v3_x b) (v3_y a + v3_y b) (v3_z a + v3_z b)"

definition times_J :: "MatrixXd \<Rightarrow> Vector3d \<Rightarrow> Vector3d" where
  "times_J J d = Vector3d (coeff J 0 0 * v3_x d + coeff J 0 1 * v3_y d + coeff J 0 2 * v3_z d)
     (coeff J 1 0 * v3_x d + coeff J 1 1 * v3_y d + coeff J 1 2 * v3_z d)
     (coeff J 2 0 * v3_x d + coeff J 2 1 * v3_y d + coeff J 2 2 * v3_z d)"

lemma minus_J_times: "minus_J v J d = minus3 v (times_J J d)"
  by (simp add: minus_J_def minus3_def times_J_def)

lemma corrected_shifted:
  assumes E: "eigen_algebra E" and s: "preint_ok s"
  shows "v3 (corrected_dv E (Preint_Finalize s t) (e_sub E (vec (plus3 (pi_ba s) d)) (vec (pi_ba s)))
      (e_sub E (vec (pi_bg s)) (vec (pi_bg s)))) = plus3 (pi_delta_v s) (times_J (J_dv_dba s) d)"
    and "v3 (corrected_dp E (Preint_Finalize s t) (e_sub E (vec (plus3 (pi_ba s) d)) (vec (pi_ba s)))
      (e_sub E (vec (pi_bg s)) (vec (pi_bg s)))) = plus3 (pi_delta_p s) (times_J (J_dp_dba s) d)"
proof -
  have sq: "mat_rows (J_dv_dba s) = 3" "mat_cols (J_dv_dba s) = 3" "mat_rows (J_dp_dba s) = 3" "mat_cols (J_dp_dba s) = 3"
    "mat_rows (J_dq_dbg s) = 3" "mat_cols (J_dq_dbg s) = 3"
    using s by (simp_all add: preint_ok_def square_def)
  then show "v3 (corrected_dv E (Preint_Finalize s t) (e_sub E (vec (plus3 (pi_ba s) d)) (vec (pi_ba s)))
      (e_sub E (vec (pi_bg s)) (vec (pi_bg s)))) = plus3 (pi_delta_v s) (times_J (J_dv_dba s) d)"
    "v3 (corrected_dp E (Preint_Finalize s t) (e_sub E (vec (plus3 (pi_ba s) d)) (vec (pi_ba s)))
      (e_sub E (vec (pi_bg s)) (vec (pi_bg s)))) = plus3 (pi_delta_p s) (times_J (J_dp_dba s) d)"
    using E
    by (simp_all add: corrected_dv_def corrected_dp_def v3_def sum3 plus3_def times_J_def Preint_Finalize_def
        get_block_def set_block_def)
qed

text \<open>C30. The first-order correction for the accelerometer bias has the wrong sign: integrating the same
  samples with the bias changed by \<open>d\<close> changes the velocity and position increments by exactly minus the
  Jacobian times \<open>d\<close>, and the cost function adds it.\<close>

theorem ceres_bias_correction_sign:
  assumes "eigen_algebra E" "eigen_shapes E"
  shows "let s = Preint_Integrate_all E (Preint_Reset ba bg t0 s0) ms;
      s' = Preint_Integrate_all E (Preint_Reset (plus3 ba d) bg t0 s0) ms;
      p = Preint_Finalize s t1; db = e_sub E (vec (plus3 ba d)) (vec ba); dg = e_sub E (vec bg) (vec bg)
    in pi_delta_v s' = minus3 (pi_delta_v s) (times_J (J_dv_dba s) d) \<and>
       v3 (corrected_dv E p db dg) = plus3 (pi_delta_v s) (times_J (J_dv_dba s) d) \<and>
       pi_delta_p s' = minus3 (pi_delta_p s) (times_J (J_dp_dba s) d) \<and>
       v3 (corrected_dp E p db dg) = plus3 (pi_delta_p s) (times_J (J_dp_dba s) d)"
proof -
  let ?s = "Preint_Integrate_all E (Preint_Reset ba bg t0 s0) ms"
  have ok: "preint_ok (Preint_Reset ba bg t0 s0)" by (rule preint_ok_reset)
  have "bias_shifted d ?s (Preint_Integrate_all E (Preint_Reset (plus3 ba d) bg t0 s0) ms)"
    unfolding plus3_def by (intro bias_shifted_all [OF assms ok] bias_shifted_Reset)
  then have "pi_delta_v (Preint_Integrate_all E (Preint_Reset (plus3 ba d) bg t0 s0) ms) =
      minus3 (pi_delta_v ?s) (times_J (J_dv_dba ?s) d)"
    "pi_delta_p (Preint_Integrate_all E (Preint_Reset (plus3 ba d) bg t0 s0) ms) =
      minus3 (pi_delta_p ?s) (times_J (J_dp_dba ?s) d)"
    unfolding bias_shifted_def minus_J_times by blast+
  then show ?thesis
    using corrected_shifted [OF assms(1) Preint_Integrate_all_ok [OF assms ok, of ms], of t1 d]
    by (simp add: Let_def)
qed

section \<open>The reference instance\<close>

text \<open>A solver that returns the start values, and the half turn about the first axis, which maps up to down.\<close>

definition ceres_reference :: ceres_ops where
  "ceres_reference = \<lparr>c_llt_L = (\<lambda>M. M), c_from_two_vectors = (\<lambda>a b. Quaterniond 0 1 0 0), c_solve = (\<lambda>_ _ w. w)\<rparr>"

lemma ceres_reference_solver: "solver_laws ceres_reference"
  by (simp add: solver_laws_def ceres_reference_def unchanged_outside_def)

text \<open>A run with two fixes one second apart and samples of an IMU at rest.\<close>

definition demo_gnss :: "int \<Rightarrow> GnssSolution" where
  "demo_gnss ns = GnssSolution_default
     \<lparr>gnss_timestamp := Timestamp_default\<lparr>has_steady := True, steady := MonotonicTime ns\<rparr>, gnss_validity := Valid\<rparr>"

definition ceres_demo :: "SensorMeasurement list" where
  "ceres_demo = [M_Imu (rest_sample 0), M_GnssSolution (demo_gnss 1), M_Imu (rest_sample 500000000),
     M_GnssSolution (demo_gnss 1000000000), M_Imu (rest_sample 1500000000)]"

abbreviation ceres_demo_run :: CeresEstimator where
  "ceres_demo_run \<equiv> Ceres_run eigen_reference ceres_reference CeresOptions_default ceres_demo"

text \<open>What the single steps do to the initialisation, the number of keyframes and the last keyframe time.\<close>

lemma AddImu_frame [simp]:
  "ci_initialised (snd (Ceres_AddImu E s imu)) = ci_initialised s" "ci_window (snd (Ceres_AddImu E s imu)) = ci_window s"
  "ci_opts (snd (Ceres_AddImu E s imu)) = ci_opts s" "ci_last_kf_time (snd (Ceres_AddImu E s imu)) = ci_last_kf_time s"
  "ci_imu_factors (snd (Ceres_AddImu E s imu)) = ci_imu_factors s" "ci_ltp (snd (Ceres_AddImu E s imu)) = ci_ltp s"
  "ci_latest_state (snd (Ceres_AddImu E s imu)) = ci_latest_state s"
  "ci_preint_active (snd (Ceres_AddImu E s imu)) = ci_preint_active s"
  by (simp_all add: Ceres_AddImu_def Let_def)

lemma InitFromGnss_frame [simp]:
  "ci_initialised (snd (Ceres_InitFromGnss E C s g))" "ci_opts (snd (Ceres_InitFromGnss E C s g)) = ci_opts s"
  "ci_last_kf_time (snd (Ceres_InitFromGnss E C s g)) = gnss_timestamp g"
  "length (ci_window (snd (Ceres_InitFromGnss E C s g))) = Suc (length (ci_window s))"
  by (simp_all add: Ceres_InitFromGnss_def Let_def)

lemma trim_window_short: "length w \<le> n + 1 \<Longrightarrow> trim_window n w fs = (w, fs)"
  by (cases w) simp_all

lemma CreateKeyframe_frame:
  assumes "solver_laws C"
  shows "ci_initialised (snd (Ceres_CreateKeyframe E C s g p)) = ci_initialised s"
    and "length (ci_window s) \<le> co_max_keyframes (ci_opts s) \<Longrightarrow>
      length (ci_window (snd (Ceres_CreateKeyframe E C s g p))) = Suc (length (ci_window s))"
  by (simp_all add: Ceres_CreateKeyframe_def Ceres_Optimise_def Let_def trim_window_short solver_lawsD(1) [OF assms]
      split: prod.split)

lemma ceres_demo_window:
  "ci_initialised (ce_impl ceres_demo_run)" "length (ci_window (ce_impl ceres_demo_run)) = 2"
proof -
  have far: "\<not> close_to_keyframe E s (demo_gnss 1000000000)" if "ci_last_kf_time s = gnss_timestamp (demo_gnss 1)" for E s
    using that by (simp add: close_to_keyframe_def Let_def demo_gnss_def seconds_def MonotonicTime_minus_def)
  have "gnss_validity (demo_gnss ns) = Valid" for ns by (simp add: demo_gnss_def)
  then show "ci_initialised (ce_impl ceres_demo_run)" "length (ci_window (ce_impl ceres_demo_run)) = 2"
    by (simp_all add: Ceres_run_def ceres_demo_def Ceres_AddMeasurement_def Ceres_AddGnss_def case_prod_beta far
        CeresEstimator_new_def CeresImpl_new_def CreateKeyframe_frame [OF ceres_reference_solver] CeresOptions_default_def)
qed


theorem ceres_prediction_consistent_witness:
  "let s = ce_impl ceres_demo_run; p = Preint_Finalize (ci_preint s) (gnss_timestamp (demo_gnss 2000000000));
     kf = last (ci_window s); t = gnss_timestamp (demo_gnss 2000000000) in
   ci_initialised s \<and> length (ci_window s) = 2 \<and>
   ImuPreintegrationCost_eval eigen_reference p kf (predict_keyframe eigen_reference kf p t) =
     (Vector3d_Zero, Vector3d_Zero, Vector3d_Zero)"
  using ceres_prediction_consistent [OF eigen_reference_laws eigen_reference_quat eigen_reference_identity
      ceres_reference_solver refl ceres_demo_window(1), of "gnss_timestamp (demo_gnss 2000000000)"] ceres_demo_window
  by (simp add: Let_def)

text \<open>One second at rest: the velocity increment falls by the bias, and the cost function lets it rise.\<close>

theorem ceres_bias_correction_sign_witness:
  "let s = Preint_Integrate_all eigen_reference (Preint_Reset Vector3d_Zero Vector3d_Zero Timestamp_default ImuPreintegrator_new) [rest_sample 0, rest_sample 1000000000];
     s' = Preint_Integrate_all eigen_reference (Preint_Reset (Vector3d 0 0 1) Vector3d_Zero Timestamp_default ImuPreintegrator_new) [rest_sample 0, rest_sample 1000000000]
   in pi_delta_v s' = minus3 (pi_delta_v s) (Vector3d 0 0 1) \<and>
     v3 (corrected_dv eigen_reference (Preint_Finalize s Timestamp_default)
       (e_sub eigen_reference (vec (Vector3d 0 0 1)) (vec Vector3d_Zero))
       (e_sub eigen_reference (vec Vector3d_Zero) (vec Vector3d_Zero))) = plus3 (pi_delta_v s) (Vector3d 0 0 1)"
proof -
  let ?s = "Preint_Integrate_all eigen_reference (Preint_Reset Vector3d_Zero Vector3d_Zero Timestamp_default ImuPreintegrator_new) [rest_sample 0, rest_sample 1000000000]"
  have e: "elapsed (rest_sample 0) (rest_sample 1000000000) = 1"
    by (simp add: rest_sample_def seconds_def MonotonicTime_minus_def)
  have "times_J (J_dv_dba ?s) (Vector3d 0 0 1) = Vector3d 0 0 1"
    using e eigen_reference_laws eigen_reference_identity
    by (simp add: Preint_Integrate_def Preint_Reset_def Preint_Reset_params_def preint_step_def Let_def times_J_def
        identity_laws_def all_less_3 Matrix_Zero_def)
  moreover have "plus3 Vector3d_Zero (Vector3d 0 0 1) = Vector3d 0 0 1"
    by (simp add: plus3_def Vector3d_Zero_def)
  ultimately show ?thesis
    using ceres_bias_correction_sign [OF eigen_reference_laws, of Vector3d_Zero Vector3d_Zero Timestamp_default ImuPreintegrator_new
        "[rest_sample 0, rest_sample 1000000000]" "Vector3d 0 0 1" Timestamp_default]
    by (simp add: Let_def del: foldl_Cons)
qed

end
