(* ===== verification/Fg_CeresSystem.thy ===== *)
theory Fg_CeresSystem
  imports Fg_CeresProps
begin

text \<open>
  The sliding-window backend in whole runs: it is a navigation estimator for the pipeline, samples after
  the first 2000 before the first fix are lost, a fix close to the latest keyframe leaves the position
  alone, and a vehicle at rest is predicted to fall with twice the gravity.
\<close>

section \<open>The estimator in the pipeline\<close>

definition ceres_good :: "eigen_ops \<Rightarrow> ceres_ops \<Rightarrow> CeresEstimator \<Rightarrow> bool" where
  "ceres_good E C k \<longleftrightarrow> eigen_algebra E \<and> eigen_shapes E \<and> solver_laws C \<and> ceres_ok k"

lemma AddImu_report [simp]: "fst (Ceres_AddImu E s imu) = report Buffered"
  by (simp add: Ceres_AddImu_def Let_def)

lemma UpdateLatest_frame [simp]:
  "ci_initialised (snd (Ceres_UpdateLatestGnss E C s g p)) = ci_initialised s"
  "result (fst (Ceres_UpdateLatestGnss E C s g p)) = Accepted"
  by (simp_all add: Ceres_UpdateLatestGnss_def Let_def ceres_report_def)

lemma AddGnss_initialised:
  "ci_initialised s \<Longrightarrow> ci_initialised (snd (Ceres_AddGnss E C s g))"
  "\<not> ci_initialised s \<Longrightarrow> ci_initialised (snd (Ceres_AddGnss E C s g)) \<longleftrightarrow> result (fst (Ceres_AddGnss E C s g)) = Accepted"
  by (auto simp: Ceres_AddGnss_def Ceres_CreateKeyframe_def Ceres_Optimise_def Let_def report_def ceres_report_def
      Ceres_InitFromGnss_def split: prod.split)

interpretation ceres: navigation_estimator "ceres_estimator_ops E C" "ceres_good E C" "\<lambda>_. True"
  for E :: eigen_ops and C :: ceres_ops
proof
  fix k m rep k'
  assume k: "ceres_good E C k"
  show "\<exists>rep k'. add_measurement (ceres_estimator_ops E C) k m = Some (rep, k') \<and> ceres_good E C k'"
    using k Ceres_AddMeasurement_ok [of E C k m]
    by (cases "Ceres_AddMeasurement E C k m") (simp add: ceres_estimator_ops_def ceres_good_def)
  assume "add_measurement (ceres_estimator_ops E C) k m = Some (rep, k')"
  then have a: "Ceres_AddMeasurement E C k m = (rep, k')" by (simp add: ceres_estimator_ops_def)
  show "is_imu m \<Longrightarrow> result rep \<noteq> Accepted"
    using a by (cases m) (auto simp: Ceres_AddMeasurement_def case_prod_beta report_def)
  show "is_initialized (ceres_estimator_ops E C) k \<Longrightarrow> is_initialized (ceres_estimator_ops E C) k'"
    using a by (cases m) (auto simp: Ceres_AddMeasurement_def case_prod_beta ceres_estimator_ops_def
        Ceres_IsInitialized_def AddGnss_initialised)
  show "\<not> is_initialized (ceres_estimator_ops E C) k \<Longrightarrow>
      (is_initialized (ceres_estimator_ops E C) k' \<longleftrightarrow> result rep = Accepted) \<and>
      (result rep = Accepted \<longrightarrow> is_gnss_solution m)"
    using a by (cases m) (auto simp: Ceres_AddMeasurement_def case_prod_beta ceres_estimator_ops_def
        Ceres_IsInitialized_def AddGnss_initialised report_def)
next
  fix k assume "ceres_good E C k"
  then show "(latest_state (ceres_estimator_ops E C) k \<noteq> None) = is_initialized (ceres_estimator_ops E C) k"
    "ceres_good E C (reset_estimator (ceres_estimator_ops E C) k) \<and>
      \<not> is_initialized (ceres_estimator_ops E C) (reset_estimator (ceres_estimator_ops E C) k)"
    by (simp_all add: ceres_estimator_ops_def Ceres_LatestState_def Ceres_IsInitialized_def ceres_good_def ceres_ok_new)
       (simp add: Ceres_Reset_def CeresImpl_new_def)
qed

section \<open>IMU samples\<close>

text \<open>A run of IMU samples only fills the buffer up to its bound and feeds an active preintegrator.\<close>

lemma AddImu_all:
  assumes "length (ci_imu_buffer s) \<le> kMaxImuBuffer"
  shows "foldl (\<lambda>s i. snd (Ceres_AddImu E s i)) s ms =
    s\<lparr>ci_imu_buffer := take kMaxImuBuffer (ci_imu_buffer s @ ms),
      ci_preint := (if ci_preint_active s then Preint_Integrate_all E (ci_preint s) ms else ci_preint s)\<rparr>"
  using assms
proof (induction ms arbitrary: s)
  case (Cons m ms)
  have "take kMaxImuBuffer (take kMaxImuBuffer (ci_imu_buffer s @ [m]) @ ms) = take kMaxImuBuffer (ci_imu_buffer s @ m # ms)"
    using Cons.prems by (cases "length (ci_imu_buffer s) = kMaxImuBuffer") simp_all
  moreover have "snd (Ceres_AddImu E s m) = s\<lparr>ci_imu_buffer := take kMaxImuBuffer (ci_imu_buffer s @ [m]),
      ci_preint := (if ci_preint_active s then Preint_Integrate E (ci_preint s) m else ci_preint s)\<rparr>"
    using Cons.prems by (auto simp: Ceres_AddImu_def Let_def)
  ultimately show ?case by (simp add: Cons.IH)
qed simp

lemma Ceres_run_imu:
  "foldl (\<lambda>k m. snd (Ceres_AddMeasurement E C k m)) k (map M_Imu ms) =
   k\<lparr>ce_impl := foldl (\<lambda>s i. snd (Ceres_AddImu E s i)) (ce_impl k) ms\<rparr>"
  by (induction ms arbitrary: k) (simp_all add: Ceres_AddMeasurement_def case_prod_beta)

text \<open>The state after IMU samples alone.\<close>

lemma Ceres_run_before_fix:
  "foldl (\<lambda>k m. snd (Ceres_AddMeasurement E C k m)) (CeresEstimator_new opts) (map M_Imu ms) =
   \<lparr>ce_options = opts, ce_impl = (CeresImpl_new opts)\<lparr>ci_imu_buffer := take kMaxImuBuffer ms\<rparr>\<rparr>"
  unfolding Ceres_run_imu
  by (subst AddImu_all) (simp_all add: CeresEstimator_new_def CeresImpl_new_def)

text \<open>Of the IMU samples that arrive before the first fix only the oldest 2000 count: any later ones
  make no difference to the estimator, whatever it is given afterwards, so the replay that starts the first
  preintegration has none of them.\<close>

theorem ceres_late_samples_lost:
  assumes "kMaxImuBuffer \<le> length early"
  shows "Ceres_run E C opts (map M_Imu (early @ late) @ rest) = Ceres_run E C opts (map M_Imu early @ rest)"
  using assms by (simp add: Ceres_run_def Ceres_run_before_fix flip: map_append)

text \<open>Twenty seconds at 100 Hz, and one more sample that lies after the first fix.\<close>

theorem ceres_late_samples_lost_witness:
  "Ceres_run eigen_reference ceres_reference CeresOptions_default (map M_Imu (map (\<lambda>i. rest_sample (int i * 10000000)) [0..<2000] @ [rest_sample 20000000000]) @
     [M_GnssSolution (demo_gnss 20000000000)]) =
   Ceres_run eigen_reference ceres_reference CeresOptions_default (map M_Imu (map (\<lambda>i. rest_sample (int i * 10000000)) [0..<2000]) @ [M_GnssSolution (demo_gnss 20000000000)])"
  by (rule ceres_late_samples_lost) (simp add: kMaxImuBuffer_def)

section \<open>A fix close to the latest keyframe\<close>

text \<open>The announced state is always the one built from the last keyframe.\<close>

definition shows_window :: "eigen_ops \<Rightarrow> CeresImpl \<Rightarrow> bool" where
  "shows_window E s \<longleftrightarrow> ci_initialised s \<longrightarrow> Ceres_BuildNavigationState E s (last (ci_window s)) = s"

lemma Build_idem: "Ceres_BuildNavigationState E (Ceres_BuildNavigationState E s kf) kf = Ceres_BuildNavigationState E s kf"
  by (simp add: Ceres_BuildNavigationState_def Let_def)

lemma Build_shows: "last (ci_window s) = kf \<Longrightarrow> shows_window E (Ceres_BuildNavigationState E s kf)"
  by (simp add: shows_window_def Build_idem)

lemma AddImu_shows:
  assumes "shows_window E s"
  shows "shows_window E (snd (Ceres_AddImu E s imu))"
proof -
  let ?buf = "if length (ci_imu_buffer s) < kMaxImuBuffer then ci_imu_buffer s @ [imu] else ci_imu_buffer s"
  let ?pre = "if ci_preint_active s then Preint_Integrate E (ci_preint s) imu else ci_preint s"
  have a: "snd (Ceres_AddImu E s imu) = s\<lparr>ci_imu_buffer := ?buf, ci_preint := ?pre\<rparr>"
    by (cases s) (simp add: Ceres_AddImu_def Let_def)
  have "Ceres_BuildNavigationState E (s\<lparr>ci_imu_buffer := buf, ci_preint := pre\<rparr>) kf =
      (Ceres_BuildNavigationState E s kf)\<lparr>ci_imu_buffer := buf, ci_preint := pre\<rparr>" for buf pre kf
    by (simp add: Ceres_BuildNavigationState_def Let_def)
  with assms show ?thesis by (simp add: a shows_window_def)
qed

lemma AddGnss_shows: "shows_window E s \<Longrightarrow> shows_window E (snd (Ceres_AddGnss E C s g))"
  by (auto simp: Ceres_AddGnss_def Ceres_InitFromGnss_def Ceres_UpdateLatestGnss_def Ceres_CreateKeyframe_def Let_def
      split: prod.split intro: Build_shows)

lemma Ceres_run_shows: "shows_window E (ce_impl (Ceres_run E C opts ms))"
proof -
  have "shows_window E (ce_impl k) \<Longrightarrow> shows_window E (ce_impl (snd (Ceres_AddMeasurement E C k m)))" for k m
    by (cases m) (simp_all add: Ceres_AddMeasurement_def case_prod_beta AddImu_shows AddGnss_shows)
  then have "shows_window E (ce_impl k) \<Longrightarrow>
      shows_window E (ce_impl (foldl (\<lambda>k m. snd (Ceres_AddMeasurement E C k m)) k ms))" for k
    by (induction ms arbitrary: k) simp_all
  then show ?thesis by (simp add: Ceres_run_def CeresEstimator_new_def CeresImpl_new_def shows_window_def)
qed

text \<open>C31. A valid fix close to the latest keyframe is reported as accepted, but its position changes
  nothing: the position, in the tangent plane and in ECEF, and the orientation of the navigation state and the
  poses of the window stay what they were, whatever the solver finds.\<close>

theorem ceres_close_fix_ignored:
  assumes "eigen_algebra E" "eigen_shapes E" "solver_laws C"
    and "k = Ceres_run E C opts ms" "ci_initialised (ce_impl k)"
    and "gnss_validity g = Valid" "close_to_keyframe E (ce_impl k) g"
    and "Ceres_AddMeasurement E C k (M_GnssSolution g) = (rep, k')"
  shows "result rep = Accepted \<and>
    nav_position_enu_m (ci_latest_state (ce_impl k')) = nav_position_enu_m (ci_latest_state (ce_impl k)) \<and>
    nav_position_ecef_m (ci_latest_state (ce_impl k')) = nav_position_ecef_m (ci_latest_state (ce_impl k)) \<and>
    nav_orientation_body_to_enu (ci_latest_state (ce_impl k')) =
      nav_orientation_body_to_enu (ci_latest_state (ce_impl k)) \<and>
    map kf_pose (ci_window (ce_impl k')) = map kf_pose (ci_window (ce_impl k))"
proof -
  let ?s = "ce_impl k"
  have ok: "ceres_ok k" using Ceres_run_ok [OF assms(1-3)] assms(4) by simp
  obtain kf where kf: "snd (Ceres_UpdateLatestGnss E C ?s g (fix_position E ?s g)) =
      Ceres_BuildNavigationState E (?s\<lparr>ci_window := butlast (ci_window ?s) @ [kf]\<rparr>) kf"
    "kf_pose kf = kf_pose (last (ci_window ?s))"
    using update_latest_kf [OF assms(3)] by metis
  have ne: "ci_window ?s \<noteq> []" using ok assms(5) by (auto simp: ceres_ok_def Let_def dest: chained_nonempty)
  then have poses: "map kf_pose (butlast (ci_window ?s) @ [kf]) = map kf_pose (ci_window ?s)"
    using kf(2) by (metis append_butlast_last_id list.simps(8,9) map_append)
  have k': "ce_impl k' = Ceres_BuildNavigationState E (?s\<lparr>ci_window := butlast (ci_window ?s) @ [kf]\<rparr>) kf"
    "result rep = Accepted"
    using assms(5-8) kf(1) by (auto simp: Ceres_AddMeasurement_def Ceres_AddGnss_def case_prod_beta)
  have "Ceres_BuildNavigationState E ?s (last (ci_window ?s)) = ?s"
    using Ceres_run_shows [of E C opts ms] assms(4,5) by (simp add: shows_window_def)
  then have st: "ci_latest_state ?s = ci_latest_state (Ceres_BuildNavigationState E ?s (last (ci_window ?s)))" by simp
  have "nav_position_enu_m (ci_latest_state (ce_impl k')) = nav_position_enu_m (ci_latest_state ?s)"
    "nav_position_ecef_m (ci_latest_state (ce_impl k')) = nav_position_ecef_m (ci_latest_state ?s)"
    "nav_orientation_body_to_enu (ci_latest_state (ce_impl k')) = nav_orientation_body_to_enu (ci_latest_state ?s)"
    unfolding k'(1) by (subst st, simp add: Ceres_BuildNavigationState_def kf(2) kf_Q_def Let_def)+
  then show ?thesis using k' poses by simp
qed

text \<open>A fix a metre away from the first one, with a threshold that it stays below.\<close>

definition near_gnss :: GnssSolution where
  "near_gnss = (demo_gnss 2)\<lparr>gnss_position_ecef_m := Vec3_xyz 1 0 0\<rparr>"

definition wide_options :: CeresOptions where
  "wide_options = CeresOptions_default
     \<lparr>co_keyframe_min_distance_m := 1 + e_norm eigen_reference (e_sub eigen_reference
        (vec (fix_position eigen_reference ((CeresImpl_new CeresOptions_default)
          \<lparr>ci_ltp := Some (LocalTangentPlane_new (EcefToLla (gnss_position_ecef_m (demo_gnss 1))))\<rparr>) near_gnss))
        (vec Vector3d_Zero))\<rparr>"

lemma Ceres_run_first_fix:
  assumes "gnss_validity g = Valid"
  shows "ce_impl (Ceres_run E C opts (map M_Imu buf @ [M_GnssSolution g])) =
    snd (Ceres_InitFromGnss E C ((CeresImpl_new opts)\<lparr>ci_imu_buffer := take kMaxImuBuffer buf\<rparr>) g)"
  using assms
  by (simp add: Ceres_run_def Ceres_run_before_fix)
     (simp add: Ceres_AddMeasurement_def case_prod_beta Ceres_AddGnss_def CeresImpl_new_def)

lemma InitFromGnss_fields:
  "ci_ltp (snd (Ceres_InitFromGnss E C s g)) = Some (LocalTangentPlane_new (EcefToLla (gnss_position_ecef_m g)))"
  "last (ci_window (snd (Ceres_InitFromGnss E C s g))) = WindowKeyframe_default
     \<lparr>kf_timestamp := gnss_timestamp g, kf_pose := PoseBlock_Set Vector3d_Zero (initial_attitude E C (ci_imu_buffer s))\<rparr>"
  "ci_preint_active (snd (Ceres_InitFromGnss E C s g))"
  "ci_preint (snd (Ceres_InitFromGnss E C s g)) = Preint_Integrate_all E
     (Preint_Reset Vector3d_Zero Vector3d_Zero (gnss_timestamp g) (ci_preint s))
     (filter (\<lambda>i. \<not> IsBefore (imu_timestamp i) (gnss_timestamp g)) (ci_imu_buffer s))"
  "ci_imu_buffer (snd (Ceres_InitFromGnss E C s g)) = ci_imu_buffer s"
  by (simp_all add: Ceres_InitFromGnss_def Let_def WindowKeyframe_default_def)

theorem ceres_close_fix_ignored_witness:
  "let k = Ceres_run eigen_reference ceres_reference wide_options [M_GnssSolution (demo_gnss 1)];
     (rep, k') = Ceres_AddMeasurement eigen_reference ceres_reference k (M_GnssSolution near_gnss) in
   result rep = Accepted \<and>
   nav_position_enu_m (ci_latest_state (ce_impl k')) = nav_position_enu_m (ci_latest_state (ce_impl k)) \<and>
   nav_orientation_body_to_enu (ci_latest_state (ce_impl k')) =
     nav_orientation_body_to_enu (ci_latest_state (ce_impl k)) \<and>
   map kf_pose (ci_window (ce_impl k')) = map kf_pose (ci_window (ce_impl k))"
proof -
  let ?k = "Ceres_run eigen_reference ceres_reference wide_options [M_GnssSolution (demo_gnss 1)]"
  have v: "gnss_validity (demo_gnss 1) = Valid" "gnss_validity near_gnss = Valid"
    by (simp_all add: demo_gnss_def near_gnss_def)
  have k: "ce_impl ?k = snd (Ceres_InitFromGnss eigen_reference ceres_reference (CeresImpl_new wide_options) (demo_gnss 1))"
    using Ceres_run_first_fix [OF v(1), of eigen_reference ceres_reference wide_options "[]"] by (simp add: CeresImpl_new_def)
  have init: "ci_initialised (ce_impl ?k)" by (simp add: k)
  have P: "fix_position eigen_reference (ce_impl ?k) near_gnss = fix_position eigen_reference ((CeresImpl_new CeresOptions_default)
      \<lparr>ci_ltp := Some (LocalTangentPlane_new (EcefToLla (gnss_position_ecef_m (demo_gnss 1))))\<rparr>) near_gnss"
    by (simp add: fix_position_def k InitFromGnss_fields)
  have "kf_P (last (ci_window (ce_impl ?k))) = Vector3d_Zero" "ci_opts (ce_impl ?k) = wide_options"
    "ci_last_kf_time (ce_impl ?k) = gnss_timestamp (demo_gnss 1)"
    by (simp_all add: k InitFromGnss_fields PoseBlock_Set_def CeresImpl_new_def)
  then have close: "close_to_keyframe eigen_reference (ce_impl ?k) near_gnss"
    unfolding close_to_keyframe_def P Let_def
    by (simp add: wide_options_def) (simp add: near_gnss_def demo_gnss_def seconds_def MonotonicTime_minus_def)
  obtain rep k' where a: "Ceres_AddMeasurement eigen_reference ceres_reference ?k (M_GnssSolution near_gnss) = (rep, k')"
    by force
  show ?thesis
    using ceres_close_fix_ignored [OF eigen_reference_laws ceres_reference_solver refl init v(2) close a] a
    by (simp add: Let_def)
qed

section \<open>A vehicle at rest\<close>

text \<open>Eigen's norm, and \<open>FromTwoVectors\<close>: a unit quaternion that rotates one unit vector into the other.\<close>

definition norm_law :: "eigen_ops \<Rightarrow> bool" where
  "norm_law E \<longleftrightarrow> (\<forall>v. mat_rows v = 3 \<and> mat_cols v = 1 \<longrightarrow>
     e_norm E v = sqrt (coeff v 0 0 * coeff v 0 0 + coeff v 1 0 * coeff v 1 0 + coeff v 2 0 * coeff v 2 0))"

definition unit_vector :: "MatrixXd \<Rightarrow> bool" where
  "unit_vector v \<longleftrightarrow> mat_rows v = 3 \<and> mat_cols v = 1 \<and>
     coeff v 0 0 * coeff v 0 0 + coeff v 1 0 * coeff v 1 0 + coeff v 2 0 * coeff v 2 0 = 1"

definition rotates_into :: "MatrixXd \<Rightarrow> MatrixXd \<Rightarrow> MatrixXd \<Rightarrow> bool" where
  "rotates_into R a b \<longleftrightarrow> (\<forall>i<3. coeff R i 0 * coeff a 0 0 + coeff R i 1 * coeff a 1 0 + coeff R i 2 * coeff a 2 0 = coeff b i 0)"

definition two_vectors_law :: "eigen_ops \<Rightarrow> ceres_ops \<Rightarrow> bool" where
  "two_vectors_law E C \<longleftrightarrow> (\<forall>a b. unit_vector a \<and> unit_vector b \<longrightarrow>
     unit_quat (c_from_two_vectors C a b) \<and> rotates_into (e_rotation_matrix E (c_from_two_vectors C a b)) a b)"

lemma sum_of_samples:
  assumes "eigen_algebra E" "constant_samples f w buf" "mat_rows S = 3" "mat_cols S = 1"
  shows "let M = foldl (\<lambda>sum i. e_add E sum (vec (eigen (imu_specific_force_mps2 i)))) S buf in
    mat_rows M = 3 \<and> mat_cols M = 1 \<and> (\<forall>i<3. coeff M i 0 = coeff S i 0 + real (length buf) * coeff (vec f) i 0)"
  using assms(2-)
proof (induction buf arbitrary: S)
  case (Cons m buf)
  then have "constant_samples f w buf" "eigen (imu_specific_force_mps2 m) = f" by (simp_all add: constant_samples_def)
  with Cons.IH [of "e_add E S (vec f)"] Cons.prems assms(1) show ?case
    by (simp add: Let_def algebra_simps)
qed simp

definition level_force :: Vector3d where
  "level_force = Vector3d 0 0 ceres_kGravityMps2"

lemma normalized_third_axis:
  assumes "eigen_algebra E" "norm_law E" "mat_rows v = 3" "mat_cols v = 1"
    and "coeff v 0 0 = 0" "coeff v 1 0 = 0" "coeff v 2 0 = - ceres_kGravityMps2"
  shows "mat_rows (vec_normalized E v) = 3" "mat_cols (vec_normalized E v) = 1"
    "coeff (vec_normalized E v) 0 0 = 0" "coeff (vec_normalized E v) 1 0 = 0" "coeff (vec_normalized E v) 2 0 = - 1"
proof -
  have "e_norm E v = sqrt (ceres_kGravityMps2 * ceres_kGravityMps2)"
    using assms(2-) by (simp add: norm_law_def)
  also have "\<dots> = ceres_kGravityMps2" by (simp only: real_sqrt_abs2) (simp add: ceres_kGravityMps2_def)
  finally have "e_norm E v = ceres_kGravityMps2" .
  then show "mat_rows (vec_normalized E v) = 3" "mat_cols (vec_normalized E v) = 1"
    "coeff (vec_normalized E v) 0 0 = 0" "coeff (vec_normalized E v) 1 0 = 0" "coeff (vec_normalized E v) 2 0 = - 1"
    using assms(1,3-) by (simp_all add: vec_normalized_def ceres_kGravityMps2_def)
qed

text \<open>From samples of a level IMU at rest the initial attitude turns the body's up axis down.\<close>

lemma initial_attitude_down:
  assumes E: "eigen_algebra E" "norm_law E" "two_vectors_law E C"
    and buf: "constant_samples level_force w buf" "buf \<noteq> []"
  shows "unit_quat (initial_attitude E C buf)"
    "coeff (e_rotation_matrix E (initial_attitude E C buf)) 0 2 = 0"
    "coeff (e_rotation_matrix E (initial_attitude E C buf)) 1 2 = 0"
    "coeff (e_rotation_matrix E (initial_attitude E C buf)) 2 2 = - 1"
proof -
  let ?M = "foldl (\<lambda>sum i. e_add E sum (vec (eigen (imu_specific_force_mps2 i)))) (vec Vector3d_Zero) buf"
  have M: "mat_rows ?M = 3" "mat_cols ?M = 1" "coeff ?M 0 0 = 0" "coeff ?M 1 0 = 0"
    "coeff ?M 2 0 = real (length buf) * ceres_kGravityMps2"
    using sum_of_samples [OF E(1) buf(1), of "vec Vector3d_Zero"]
    by (simp_all add: Let_def all_less_3 level_force_def Vector3d_Zero_def)
  have G: "mat_rows (gravity_body E buf) = 3" "mat_cols (gravity_body E buf) = 1" "coeff (gravity_body E buf) 0 0 = 0"
    "coeff (gravity_body E buf) 1 0 = 0" "coeff (gravity_body E buf) 2 0 = - ceres_kGravityMps2"
    using M buf(2) E(1) by (simp_all add: gravity_body_def)
  let ?a = "e_neg E (vec_normalized E (gravity_body E buf))"
    and ?b = "vec_normalized E (vec (Vector3d 0 0 (- ceres_kGravityMps2)))"
  note up = normalized_third_axis [OF E(1,2) G]
  have b: "mat_rows ?b = 3" "mat_cols ?b = 1" "coeff ?b 0 0 = 0" "coeff ?b 1 0 = 0" "coeff ?b 2 0 = - 1"
    by (rule normalized_third_axis [OF E(1,2)]; simp)+
  have a: "mat_rows ?a = 3" "mat_cols ?a = 1" "coeff ?a 0 0 = 0" "coeff ?a 1 0 = 0" "coeff ?a 2 0 = 1"
    using up E(1) by simp_all
  have "unit_vector ?a" "unit_vector ?b" unfolding unit_vector_def using a b by simp_all
  then have q: "unit_quat (initial_attitude E C buf)" "rotates_into (e_rotation_matrix E (initial_attitude E C buf)) ?a ?b"
    using E(3) unfolding two_vectors_law_def initial_attitude_def by blast+
  show "unit_quat (initial_attitude E C buf)" by (rule q(1))
  show "coeff (e_rotation_matrix E (initial_attitude E C buf)) 0 2 = 0"
    "coeff (e_rotation_matrix E (initial_attitude E C buf)) 1 2 = 0"
    "coeff (e_rotation_matrix E (initial_attitude E C buf)) 2 2 = - 1"
    using q(2) unfolding rotates_into_def all_less_3 a b by simp_all
qed

text \<open>The prediction from a keyframe at rest whose up axis points down.\<close>

lemma predicted_fall:
  assumes E: "eigen_algebra E" "eigen_shapes E" "quat_laws E"
    and kf: "kf_P kf = Vector3d_Zero" "kf_vel kf = Vector3d_Zero" "pb_quaternion (kf_pose kf) = q" "unit_quat q"
    and R: "coeff (e_rotation_matrix E q) 0 2 = 0" "coeff (e_rotation_matrix E q) 1 2 = 0" "coeff (e_rotation_matrix E q) 2 2 = - 1"
    and s: "moved level_force T s"
  shows "kf_vel (predict_keyframe E kf (Preint_Finalize s t) t) = Vector3d 0 0 (- 2 * ceres_kGravityMps2 * T)"
    "kf_P (predict_keyframe E kf (Preint_Finalize s t) t) = Vector3d 0 0 (- ceres_kGravityMps2 * (T * T))"
proof -
  have "coeff (e_rotation_matrix E (kf_Q E kf)) i j = coeff (e_rotation_matrix E q) i j" if "i < 3" "j < 3" for i j
    using that kf(3,4) normalized_rotation [OF E(3)] by (simp add: kf_Q_def PoseBlock_Rotation_def)
  then show "kf_vel (predict_keyframe E kf (Preint_Finalize s t) t) = Vector3d 0 0 (- 2 * ceres_kGravityMps2 * T)"
    "kf_P (predict_keyframe E kf (Preint_Finalize s t) t) = Vector3d 0 0 (- ceres_kGravityMps2 * (T * T))"
    using s kf(1,2) R E(1,2)
    by (simp_all add: predict_keyframe_def Let_def PoseBlock_Set_def moved_def v3_def sum3 scaled_def level_force_def
        Vector3d_Zero_def)
qed

text \<open>C32. The initial attitude is upside down: after a first fix that follows samples of a level IMU at rest,
  further samples at rest over \<open>T\<close> seconds make the estimator predict a fall with twice the gravity, with
  velocity \<open>- 2 g T\<close> and height \<open>- g T\<^sup>2\<close>.\<close>

theorem ceres_rest_predicted_falling:
  assumes "eigen_algebra E" "eigen_shapes E" "quat_laws E" "identity_laws E" "norm_law E" "two_vectors_law E C"
    and "buf \<noteq> []" "constant_samples level_force Vector3d_Zero (buf @ m # ms)" "dense_samples (m # ms)"
    and "\<forall>i\<in>set buf. IsBefore (imu_timestamp i) (gnss_timestamp g)" "gnss_validity g = Valid"
    and "s = ce_impl (Ceres_run E C opts (map M_Imu buf @ M_GnssSolution g # map M_Imu (m # ms)))"
  shows "let kf = predict_keyframe E (last (ci_window s)) (Preint_Finalize (ci_preint s) t) t; T = elapsed m (last (m # ms)) in
    kf_vel kf = Vector3d 0 0 (- 2 * ceres_kGravityMps2 * T) \<and> kf_P kf = Vector3d 0 0 (- ceres_kGravityMps2 * (T * T))"
proof -
  let ?b = "take kMaxImuBuffer buf"
  let ?s0 = "ce_impl (Ceres_run E C opts (map M_Imu buf @ [M_GnssSolution g]))"
  let ?p = "Preint_Reset Vector3d_Zero Vector3d_Zero (gnss_timestamp g) ImuPreintegrator_new"
  have s0: "?s0 = snd (Ceres_InitFromGnss E C ((CeresImpl_new opts)\<lparr>ci_imu_buffer := ?b\<rparr>) g)"
    by (rule Ceres_run_first_fix [OF assms(11)])
  have "filter (\<lambda>i. \<not> IsBefore (imu_timestamp i) (gnss_timestamp g)) ?b = []"
    using assms(10) by (auto simp: filter_empty_conv dest: in_set_takeD)
  then have p0: "ci_preint ?s0 = ?p" by (simp add: s0 InitFromGnss_fields CeresImpl_new_def)
  have "s = foldl (\<lambda>s i. snd (Ceres_AddImu E s i)) ?s0 (m # ms)"
    unfolding assms(12) Ceres_run_def foldl_append
    using Ceres_run_imu [of E C _ "m # ms"] by (simp add: Ceres_run_def)
  then have s: "ci_window s = ci_window ?s0" "ci_preint s = Preint_Integrate_all E ?p (m # ms)"
    using AddImu_all [of ?s0 E "m # ms"] p0 by (simp_all add: s0 InitFromGnss_fields)
  let ?p1 = "Preint_Integrate E ?p m"
  have p1: "has_prev ?p1" "prev_imu ?p1 = m" "prev_ts ?p1 = imu_timestamp m" "pi_ba ?p1 = Vector3d_Zero"
    "pi_bg ?p1 = Vector3d_Zero" "moved level_force 0 ?p1"
    by (simp_all add: Preint_Integrate_def Preint_Reset_def Preint_Reset_params_def moved_def scaled_def Vector3d_Zero_def)
  have zero: "minus3 f Vector3d_Zero = f" for f by (simp add: minus3_def Vector3d_Zero_def)
  have "constant_samples level_force Vector3d_Zero (m # ms)" using assms(8) by (simp add: constant_samples_def)
  with moved_all [OF assms(1,2,4,9), of level_force ?p1 0] p1 s(2)
  have mv: "moved level_force (elapsed m (last (m # ms))) (ci_preint s)" by (simp add: zero)
  have "constant_samples level_force Vector3d_Zero ?b" "?b \<noteq> []"
    using assms(7,8) by (auto simp: constant_samples_def kMaxImuBuffer_def dest: in_set_takeD)
  note q = initial_attitude_down [OF assms(1,5,6) this]
  have kf: "kf_P (last (ci_window s)) = Vector3d_Zero" "kf_vel (last (ci_window s)) = Vector3d_Zero"
    "pb_quaternion (kf_pose (last (ci_window s))) = initial_attitude E C ?b"
    by (simp_all add: s(1) s0 InitFromGnss_fields PoseBlock_Set_def WindowKeyframe_default_def)
  show ?thesis
    using predicted_fall [OF assms(1-3) kf q mv, of t] by (simp add: Let_def)
qed

section \<open>The reference instance\<close>

text \<open>Half turns: about the bisector of two vectors, and about an axis orthogonal to opposite ones.\<close>

definition half_turn :: "real \<Rightarrow> real \<Rightarrow> real \<Rightarrow> Quaterniond" where
  "half_turn x y z = (let n = sqrt (x * x + y * y + z * z) in Quaterniond 0 (x / n) (y / n) (z / n))"

definition turn_between :: "MatrixXd \<Rightarrow> MatrixXd \<Rightarrow> Quaterniond" where
  "turn_between a b =
     (let x = coeff a 0 0 + coeff b 0 0; y = coeff a 1 0 + coeff b 1 0; z = coeff a 2 0 + coeff b 2 0 in
      if x \<noteq> 0 \<or> y \<noteq> 0 \<or> z \<noteq> 0 then half_turn x y z
      else if coeff a 0 0 \<noteq> 0 \<or> coeff a 1 0 \<noteq> 0 then half_turn (- coeff a 1 0) (coeff a 0 0) 0 else half_turn 1 0 0)"

definition turning_reference :: ceres_ops where
  "turning_reference = ceres_reference\<lparr>c_from_two_vectors := turn_between\<rparr>"

lemma half_turn_unit:
  assumes "x \<noteq> 0 \<or> y \<noteq> 0 \<or> z \<noteq> 0"
  obtains c where "half_turn x y z = Quaterniond 0 (c * x) (c * y) (c * z)" "c * c * (x * x + y * y + z * z) = 1"
    "unit_quat (half_turn x y z)"
proof -
  let ?n = "x * x + y * y + z * z" and ?c = "1 / sqrt (x * x + y * y + z * z)"
  have "?n > 0"
    using assms by (metis add_nonneg_eq_0_iff add_nonneg_nonneg less_eq_real_def mult_eq_0_iff zero_le_square)
  then have c: "?c * ?c * ?n = 1" by simp
  have "unit_quat (half_turn x y z)"
    using scaled_square_sum [of ?n 0 x y z] \<open>?n > 0\<close> by (simp add: unit_quat_def half_turn_def Let_def)
  with c show thesis by (intro that [of ?c]) (simp_all add: half_turn_def Let_def)
qed

text \<open>A half turn about \<open>n\<close> maps \<open>a\<close> to \<open>2 (n a) n - a\<close>.\<close>

lemma half_turn_rotates:
  assumes "x \<noteq> 0 \<or> y \<noteq> 0 \<or> z \<noteq> 0"
    and "(2 * (x * coeff a 0 0 + y * coeff a 1 0 + z * coeff a 2 0)) * x = (x * x + y * y + z * z) * (coeff a 0 0 + coeff b 0 0)"
    and "(2 * (x * coeff a 0 0 + y * coeff a 1 0 + z * coeff a 2 0)) * y = (x * x + y * y + z * z) * (coeff a 1 0 + coeff b 1 0)"
    and "(2 * (x * coeff a 0 0 + y * coeff a 1 0 + z * coeff a 2 0)) * z = (x * x + y * y + z * z) * (coeff a 2 0 + coeff b 2 0)"
  shows "rotates_into (e_rotation_matrix eigen_reference (half_turn x y z)) a b"
proof -
  obtain c where c: "half_turn x y z = Quaterniond 0 (c * x) (c * y) (c * z)" "c * c * (x * x + y * y + z * z) = 1"
    using half_turn_unit [OF assms(1)] by metis
  have "(1 - 2 * (c * y * (c * y) + c * z * (c * z))) * coeff a 0 0 + 2 * (c * x * (c * y)) * coeff a 1 0 + 2 * (c * x * (c * z)) * coeff a 2 0 = coeff b 0 0"
    "2 * (c * x * (c * y)) * coeff a 0 0 + (1 - 2 * (c * x * (c * x) + c * z * (c * z))) * coeff a 1 0 + 2 * (c * y * (c * z)) * coeff a 2 0 = coeff b 1 0"
    "2 * (c * x * (c * z)) * coeff a 0 0 + 2 * (c * y * (c * z)) * coeff a 1 0 + (1 - 2 * (c * x * (c * x) + c * y * (c * y))) * coeff a 2 0 = coeff b 2 0"
    using c(2) assms(2-4) by algebra+
  then show ?thesis
    unfolding c(1) rotates_into_def all_less_3 by (simp add: eigen_reference_def mat_of_rows_def)
qed

lemma turning_reference_law: "two_vectors_law eigen_reference turning_reference"
  unfolding two_vectors_law_def
proof (intro allI impI)
  fix a b assume "unit_vector a \<and> unit_vector b"
  then have u: "coeff a 0 0 * coeff a 0 0 + coeff a 1 0 * coeff a 1 0 + coeff a 2 0 * coeff a 2 0 = 1"
    "coeff b 0 0 * coeff b 0 0 + coeff b 1 0 * coeff b 1 0 + coeff b 2 0 * coeff b 2 0 = 1"
    by (simp_all add: unit_vector_def)
  let ?x = "coeff a 0 0 + coeff b 0 0" and ?y = "coeff a 1 0 + coeff b 1 0" and ?z = "coeff a 2 0 + coeff b 2 0"
  have turn: "unit_quat (turn_between a b) \<and> rotates_into (e_rotation_matrix eigen_reference (turn_between a b)) a b"
    if "turn_between a b = half_turn x y z" "x \<noteq> 0 \<or> y \<noteq> 0 \<or> z \<noteq> 0"
      "(2 * (x * coeff a 0 0 + y * coeff a 1 0 + z * coeff a 2 0)) * x = (x * x + y * y + z * z) * ?x"
      "(2 * (x * coeff a 0 0 + y * coeff a 1 0 + z * coeff a 2 0)) * y = (x * x + y * y + z * z) * ?y"
      "(2 * (x * coeff a 0 0 + y * coeff a 1 0 + z * coeff a 2 0)) * z = (x * x + y * y + z * z) * ?z" for x y z
    using that half_turn_rotates [OF that(2-5)] half_turn_unit [OF that(2)] by metis
  have "unit_quat (turn_between a b) \<and> rotates_into (e_rotation_matrix eigen_reference (turn_between a b)) a b"
  proof (cases "?x \<noteq> 0 \<or> ?y \<noteq> 0 \<or> ?z \<noteq> 0")
    case True
    moreover have "2 * (?x * coeff a 0 0 + ?y * coeff a 1 0 + ?z * coeff a 2 0) = ?x * ?x + ?y * ?y + ?z * ?z"
      using u by algebra
    ultimately show ?thesis by (intro turn [of ?x ?y ?z]) (simp_all add: turn_between_def Let_def)
  next
    case opposite: False
    show ?thesis
    proof (cases "coeff a 0 0 \<noteq> 0 \<or> coeff a 1 0 \<noteq> 0")
      case True
      with opposite show ?thesis
        by (intro turn [of "- coeff a 1 0" "coeff a 0 0" 0]) (auto simp: turn_between_def Let_def)
    next
      case False
      with opposite show ?thesis by (intro turn [of 1 0 0]) (auto simp: turn_between_def Let_def)
    qed
  qed
  then show "unit_quat (c_from_two_vectors turning_reference a b) \<and>
      rotates_into (e_rotation_matrix eigen_reference (c_from_two_vectors turning_reference a b)) a b"
    by (simp add: turning_reference_def)
qed

lemma eigen_reference_norm: "norm_law eigen_reference"
  by (simp add: norm_law_def eigen_reference_def sum3)

text \<open>Half a second after the first fix the vehicle at rest is predicted to fall with 9.8 m/s.\<close>

theorem ceres_rest_predicted_falling_witness:
  "kf_vel (let s = ce_impl (Ceres_run eigen_reference turning_reference CeresOptions_default
       [M_Imu (rest_sample 0), M_GnssSolution (demo_gnss 1), M_Imu (rest_sample 500000000), M_Imu (rest_sample 1000000000)])
     in predict_keyframe eigen_reference (last (ci_window s)) (Preint_Finalize (ci_preint s) Timestamp_default) Timestamp_default) =
   Vector3d 0 0 (- 9.80665)"
proof -
  let ?s = "ce_impl (Ceres_run eigen_reference turning_reference CeresOptions_default
    (map M_Imu [rest_sample 0] @ M_GnssSolution (demo_gnss 1) # map M_Imu [rest_sample 500000000, rest_sample 1000000000]))"
  have c: "constant_samples level_force Vector3d_Zero ([rest_sample 0] @ [rest_sample 500000000, rest_sample 1000000000])"
    by (simp add: constant_samples_def rest_sample_def Vec3_xyz_def ImuMeasurement_default_def Vec3_zero_def
        level_force_def ceres_kGravityMps2_def)
  have d: "dense_samples [rest_sample 500000000, rest_sample 1000000000]"
    and e: "elapsed (rest_sample 500000000) (rest_sample 1000000000) = 0.5"
    by (simp_all add: rest_sample_def seconds_def MonotonicTime_minus_def)
  have b: "\<forall>i\<in>set [rest_sample 0]. IsBefore (imu_timestamp i) (gnss_timestamp (demo_gnss 1))"
    by (simp add: rest_sample_def demo_gnss_def IsBefore_def CompareTimestamps_def)
  have "gnss_validity (demo_gnss 1) = Valid" "[rest_sample 0] \<noteq> []" by (simp_all add: demo_gnss_def)
  note r = ceres_rest_predicted_falling [OF eigen_reference_laws eigen_reference_quat eigen_reference_identity
      eigen_reference_norm turning_reference_law this(2) c d b this(1) refl, of CeresOptions_default Timestamp_default]
  from r show ?thesis unfolding Let_def by (simp add: e ceres_kGravityMps2_def)
qed

end
