(* ===== verification/Fg_NavigationSystem.thy ===== *)
theory Fg_NavigationSystem
  imports Fg_PipelineRuns Fg_EkfScenarios Fg_UkfSystem Fg_CeresSystem
begin

text \<open>
  \<^verbatim>\<open>NavigationSystem\<close>, \<^verbatim>\<open>estimation/src/navigation_system.cpp\<close>, over all backends: the choice of the
  estimator, the estimator object behind the interface \<^verbatim>\<open>INavigationEstimator\<close> with its virtual calls, and
  the pipeline around it. The contract \<open>navigation_estimator\<close> holds of the object whatever the backend, so
  what it gives the pipeline is proved once for the whole system.
\<close>

section \<open>The estimator object\<close>

datatype INavigationEstimator =
    EkfObject EkfEstimator
  | UkfObject UkfEstimator
  | CeresObject CeresEstimator

text \<open>The libraries a build has: Eigen with the Cholesky decomposition and its uninitialised memory, and
  Ceres, which is optional.\<close>

record platform =
  pf_eigen :: eigen_ops
  pf_llt :: "MatrixXd \<Rightarrow> bool \<times> MatrixXd"
  pf_uninit :: "nat \<Rightarrow> nat \<Rightarrow> real"
  pf_ceres :: "ceres_ops option"

text \<open>Virtual calls of the interface.\<close>

definition estimator_dispatch :: "platform \<Rightarrow> INavigationEstimator estimator_ops" where
  "estimator_dispatch pf =
     \<lparr>add_measurement = (\<lambda>k m. case k of
          EkfObject e \<Rightarrow> map_option (map_prod id EkfObject) (add_measurement (ekf_ops (pf_eigen pf)) e m)
        | UkfObject e \<Rightarrow> map_option (map_prod id UkfObject) (add_measurement (ukf_ops (pf_eigen pf) (pf_llt pf)) e m)
        | CeresObject e \<Rightarrow> map_option (map_prod id CeresObject)
            (add_measurement (ceres_estimator_ops (pf_eigen pf) (the (pf_ceres pf))) e m)),
      latest_state = (\<lambda>k. case k of
          EkfObject e \<Rightarrow> latest_state (ekf_ops (pf_eigen pf)) e
        | UkfObject e \<Rightarrow> latest_state (ukf_ops (pf_eigen pf) (pf_llt pf)) e
        | CeresObject e \<Rightarrow> latest_state (ceres_estimator_ops (pf_eigen pf) (the (pf_ceres pf))) e),
      reset_estimator = (\<lambda>k. case k of
          EkfObject e \<Rightarrow> EkfObject (reset_estimator (ekf_ops (pf_eigen pf)) e)
        | UkfObject e \<Rightarrow> UkfObject (reset_estimator (ukf_ops (pf_eigen pf) (pf_llt pf)) e)
        | CeresObject e \<Rightarrow> CeresObject (reset_estimator (ceres_estimator_ops (pf_eigen pf) (the (pf_ceres pf))) e)),
      is_initialized = (\<lambda>k. case k of
          EkfObject e \<Rightarrow> is_initialized (ekf_ops (pf_eigen pf)) e
        | UkfObject e \<Rightarrow> is_initialized (ukf_ops (pf_eigen pf) (pf_llt pf)) e
        | CeresObject e \<Rightarrow> is_initialized (ceres_estimator_ops (pf_eigen pf) (the (pf_ceres pf))) e)\<rparr>"

section \<open>The factories\<close>

text \<open>The constructors of the two optional backends in a build without their library. The GTSAM backend only
  compiles without it.\<close>

definition CeresEstimator_stub :: "cpp_exception + CeresEstimator" where
  "CeresEstimator_stub = Inl (RuntimeError
     (''CeresSlidingWindowEstimator: built without Ceres support. '' @ ''Enable FALCONGUIDE_ENABLE_CERES in CMake.''))"

definition GtsamEstimator_stub :: "cpp_exception + INavigationEstimator" where
  "GtsamEstimator_stub = Inl (RuntimeError
     (''GtsamFactorGraphEstimator: built without GTSAM support. '' @ ''Enable FALCONGUIDE_ENABLE_GTSAM in CMake.''))"

definition BuildCeresEstimator :: "platform \<Rightarrow> NavigationSystemConfig \<Rightarrow> cpp_exception + INavigationEstimator" where
  "BuildCeresEstimator pf cfg =
     bind_sum (case pf_ceres pf of None \<Rightarrow> CeresEstimator_stub | Some C \<Rightarrow> Inr (CeresEstimator_new CeresOptions_default))
       (\<lambda>k. Inr (CeresObject k))"

definition BuildGtsamEstimator :: "platform \<Rightarrow> NavigationSystemConfig \<Rightarrow> cpp_exception + INavigationEstimator" where
  "BuildGtsamEstimator pf cfg = GtsamEstimator_stub"

definition BuildEstimator :: "platform \<Rightarrow> NavigationSystemConfig \<Rightarrow> cpp_exception + INavigationEstimator" where
  "BuildEstimator pf cfg =
     (case cfg_backend cfg of
        Choice_Ekf \<Rightarrow> (case BuildEkfEstimator (pf_eigen pf) cfg of None \<Rightarrow> Inl AssertionFailed | Some k \<Rightarrow> Inr (EkfObject k))
      | Choice_Ukf \<Rightarrow> Inr (UkfObject (BuildUkfEstimator (pf_eigen pf) (pf_uninit pf) cfg))
      | Choice_Ceres \<Rightarrow> BuildCeresEstimator pf cfg
      | Choice_Gtsam \<Rightarrow> BuildGtsamEstimator pf cfg)"

definition default_queue_capacity :: nat where "default_queue_capacity = 4096"

definition NavigationSystem_new ::
  "platform \<Rightarrow> NavigationSystemConfig \<Rightarrow> cpp_exception + INavigationEstimator EstimatorPipeline" where
  "NavigationSystem_new pf cfg =
     bind_sum (BuildEstimator pf cfg) (\<lambda>k. Inr (EstimatorPipeline_new k default_queue_capacity))"

section \<open>The contract\<close>

definition platform_ok :: "platform \<Rightarrow> bool" where
  "platform_ok pf \<longleftrightarrow> eigen_algebra (pf_eigen pf) \<and> eigen_shapes (pf_eigen pf) \<and> ldlt_shapes (pf_eigen pf) \<and>
     (\<forall>C. pf_ceres pf = Some C \<longrightarrow> solver_laws C)"

fun object_good :: "platform \<Rightarrow> INavigationEstimator \<Rightarrow> bool" where
  "object_good pf (EkfObject e) \<longleftrightarrow> ekf_good (pf_eigen pf) e"
| "object_good pf (UkfObject e) \<longleftrightarrow> ukf_good (pf_eigen pf) e"
| "object_good pf (CeresObject e) \<longleftrightarrow> ceres_good (pf_eigen pf) (the (pf_ceres pf)) e"

lemma ukf_admissible_covariances: "ukf_admissible m \<Longrightarrow> covariances_ok m"
  by (simp add: ukf_admissible_def)

interpretation system: navigation_estimator "estimator_dispatch pf" "object_good pf" ukf_admissible
  for pf :: platform
proof
  fix k m rep k'
  assume k: "object_good pf k" and m: "ukf_admissible m"
  show "\<exists>rep k'. add_measurement (estimator_dispatch pf) k m = Some (rep, k') \<and> object_good pf k'"
    using k m ekf.add_returns [OF _ ukf_admissible_covariances [OF m]] ukf.add_returns [OF _ m] ceres.add_returns
    by (cases k) (fastforce simp: estimator_dispatch_def)+
  assume add: "add_measurement (estimator_dispatch pf) k m = Some (rep, k')"
  show "is_imu m \<Longrightarrow> result rep \<noteq> Accepted"
    using k add ekf.imu_buffered [OF _ ukf_admissible_covariances [OF m]] ukf.imu_buffered [OF _ m]
      ceres.imu_buffered [OF _ TrueI]
    by (cases k) (auto simp: estimator_dispatch_def)
  show "is_initialized (estimator_dispatch pf) k \<Longrightarrow> is_initialized (estimator_dispatch pf) k'"
    using k add ekf.initialised_mono [OF _ ukf_admissible_covariances [OF m]] ukf.initialised_mono [OF _ m]
      ceres.initialised_mono [OF _ TrueI]
    by (cases k) (auto simp: estimator_dispatch_def)
  show "\<not> is_initialized (estimator_dispatch pf) k \<Longrightarrow>
      (is_initialized (estimator_dispatch pf) k' \<longleftrightarrow> result rep = Accepted) \<and>
      (result rep = Accepted \<longrightarrow> is_gnss_solution m)"
    using k add ekf.first_acceptance [OF _ ukf_admissible_covariances [OF m]] ukf.first_acceptance [OF _ m]
      ceres.first_acceptance [OF _ TrueI]
    by (cases k) (auto simp: estimator_dispatch_def)
next
  fix k assume "object_good pf k"
  then show "(latest_state (estimator_dispatch pf) k \<noteq> None) = is_initialized (estimator_dispatch pf) k"
    "object_good pf (reset_estimator (estimator_dispatch pf) k) \<and>
      \<not> is_initialized (estimator_dispatch pf) (reset_estimator (estimator_dispatch pf) k)"
    using ekf.latest ukf.latest ceres.latest ekf.reset_clears ukf.reset_clears ceres.reset_clears
    by (cases k; simp add: estimator_dispatch_def)+
qed

section \<open>The system behind every backend\<close>

lemma BuildEstimator_good:
  assumes "platform_ok pf" "config_typed cfg" "0 < cfg_max_imu_dt_s cfg" "BuildEstimator pf cfg = Inr k"
  shows "object_good pf k" "\<not> is_initialized (estimator_dispatch pf) k"
proof -
  have E: "eigen_algebra (pf_eigen pf)" "eigen_shapes (pf_eigen pf)" "ldlt_shapes (pf_eigen pf)"
    using assms(1) by (simp_all add: platform_ok_def)
  have "object_good pf k \<and> \<not> is_initialized (estimator_dispatch pf) k"
  proof (cases "cfg_backend cfg")
    case Choice_Ekf
    then obtain e where e: "BuildEkfEstimator (pf_eigen pf) cfg = Some e" "k = EkfObject e"
      using assms(4) by (auto simp: BuildEstimator_def split: option.splits)
    with BuildEkfEstimator_good [OF E(1,2) assms(2) e(1)] assms(3) E(1,2) show ?thesis
      by (simp add: ekf_good_def ekf_options_def estimator_dispatch_def ekf_ops_def Ekf_IsInitialized_def)
  next
    case Choice_Ukf
    then show ?thesis
      using BuildUkfEstimator_good(1,2) [OF E(1,2) assms(2,3), of "pf_uninit pf"] assms(4) E(1,3)
      unfolding BuildEstimator_def estimator_dispatch_def
      by (auto simp: ukf_good_def ukf_ops_def Ukf_IsInitialized_def)
  next
    case Choice_Ceres
    then show ?thesis
      using assms(1,4) E
      by (auto simp: BuildEstimator_def BuildCeresEstimator_def CeresEstimator_stub_def ceres_good_def ceres_ok_new estimator_dispatch_def
          ceres_estimator_ops_def Ceres_IsInitialized_def platform_ok_def split: option.splits)
         (simp add: CeresEstimator_new_def CeresImpl_new_def)
  next
    case Choice_Gtsam
    then show ?thesis using assms(4) by (simp add: BuildEstimator_def BuildGtsamEstimator_def GtsamEstimator_stub_def)
  qed
  then show "object_good pf k" "\<not> is_initialized (estimator_dispatch pf) k" by simp_all
qed

lemma NavigationSystem_new_good:
  assumes "platform_ok pf" "config_typed cfg" "0 < cfg_max_imu_dt_s cfg" "NavigationSystem_new pf cfg = Inr p"
  obtains k where "p = EstimatorPipeline_new k default_queue_capacity" "object_good pf k"
    "\<not> is_initialized (estimator_dispatch pf) k"
  using assms(4) BuildEstimator_good [OF assms(1-3)] that
  by (cases "BuildEstimator pf cfg") (auto simp: NavigationSystem_new_def bind_sum_def)

text \<open>Constructing the navigation system throws exactly for the GTSAM backend and, in a build without
  Ceres, for the Ceres backend; otherwise the pipeline is idle around an estimator that is in a good state and
  not initialised.\<close>

theorem navigation_system_construction:
  assumes "platform_ok pf" "config_typed cfg" "0 < cfg_max_imu_dt_s cfg"
  shows "if cfg_backend cfg = Choice_Gtsam \<or> cfg_backend cfg = Choice_Ceres \<and> pf_ceres pf = None
    then \<exists>msg. NavigationSystem_new pf cfg = Inl (RuntimeError msg)
    else \<exists>k. NavigationSystem_new pf cfg = Inr (EstimatorPipeline_new k 4096) \<and> object_good pf k \<and>
      \<not> is_initialized (estimator_dispatch pf) k"
proof (cases "NavigationSystem_new pf cfg")
  case (Inl e)
  then show ?thesis
    using BuildEkfEstimator_defined [of "pf_eigen pf" cfg]
    by (cases "cfg_backend cfg")
       (auto simp: NavigationSystem_new_def BuildEstimator_def BuildCeresEstimator_def CeresEstimator_stub_def BuildGtsamEstimator_def GtsamEstimator_stub_def
        bind_sum_def split: option.splits)
next
  case (Inr p)
  then obtain k where "p = EstimatorPipeline_new k default_queue_capacity" "object_good pf k"
    "\<not> is_initialized (estimator_dispatch pf) k" by (rule NavigationSystem_new_good [OF assms])
  with Inr show ?thesis
    by (auto simp: NavigationSystem_new_def BuildEstimator_def BuildCeresEstimator_def CeresEstimator_stub_def BuildGtsamEstimator_def GtsamEstimator_stub_def
        bind_sum_def default_queue_capacity_def split: option.splits)
qed

text \<open>C11. Whatever the backend, observers hear nothing before a fix: in every interleaving, if any observer
  has been notified of a navigation state, a GNSS solution has been accepted before.\<close>

theorem observers_quiet:
  assumes "platform_ok pf" "config_typed cfg" "0 < cfg_max_imu_dt_s cfg"
    and "NavigationSystem_new pf cfg = Inr p0" "pipeline_run (estimator_dispatch pf) p0 tr p"
    and "\<forall>m rep. Processed m rep \<in> set tr \<longrightarrow> ukf_admissible m" "Notified obs st \<in> set tr"
  shows "\<exists>m rep. Processed m rep \<in> set tr \<and> is_gnss_solution m \<and> result rep = Accepted"
proof -
  obtain k where "p0 = EstimatorPipeline_new k default_queue_capacity" "object_good pf k"
    "\<not> is_initialized (estimator_dispatch pf) k" by (rule NavigationSystem_new_good [OF assms(1-4)])
  with system.quiet_run [OF assms(5)] assms(6,7) show ?thesis
    by (auto simp: gnss_fixed_def EstimatorPipeline_new_def)
qed

text \<open>C12. Whatever the backend, with a typed configuration and a positive largest IMU step: in every reachable state
  processing an admissible measurement returns, an accepted measurement is announced exactly once to every
  observer, in registration order, with the state of the estimator right after it, and any other measurement is
  announced to none. Admissible are measurements whose covariance blocks are covariances and aiding solutions
  that are complete.\<close>

theorem announced_once:
  assumes "platform_ok pf" "config_typed cfg" "0 < cfg_max_imu_dt_s cfg"
    and "NavigationSystem_new pf cfg = Inr p0" "pipeline_run (estimator_dispatch pf) p0 tr p"
    and "\<forall>m rep. Processed m rep \<in> set tr \<longrightarrow> ukf_admissible m" "ukf_admissible m"
  shows "\<exists>rep evs p'. process_measurement (estimator_dispatch pf) p m = Some (evs, p') \<and>
    evs = Processed m rep # (if result rep = Accepted
      then map (\<lambda>obs. Notified obs (the (latest_state (estimator_dispatch pf) (estimator p')))) (observers p) else []) \<and>
    (result rep = Accepted \<longrightarrow> latest_state (estimator_dispatch pf) (estimator p') \<noteq> None)"
proof -
  obtain k where "p0 = EstimatorPipeline_new k default_queue_capacity" "object_good pf k"
    "\<not> is_initialized (estimator_dispatch pf) k" by (rule NavigationSystem_new_good [OF assms(1-4)])
  with system.quiet_run [OF assms(5)] assms(6) have good: "object_good pf (estimator p)"
    by (simp add: EstimatorPipeline_new_def)
  obtain rep e where add: "add_measurement (estimator_dispatch pf) (estimator p) m = Some (rep, e)"
    using system.add_returns [OF good assms(7)] by metis
  obtain evs p' where pm: "process_measurement (estimator_dispatch pf) p m = Some (evs, p')"
    by (rule process_measurement_returns [OF system.returns good assms(7)])
  have e: "estimator p' = e" "hd evs = Processed m rep"
    using add pm by (auto simp: process_measurement_def Let_def)
  obtain rep' where evs: "evs = Processed m rep' # (if result rep' = Accepted
      then map (\<lambda>obs. Notified obs (the (latest_state (estimator_dispatch pf) (estimator p')))) (observers p) else [])"
    using system.announced [OF good assms(7) pm] by metis
  then have "rep' = rep" using e(2) by simp
  then show ?thesis
    using pm evs system.accepted_has_state [OF good assms(7) add] e(1)
    by (intro exI [of _ rep] exI [of _ evs] exI [of _ p']) auto
qed

text \<open>C4. Whatever the backend, with a typed configuration, a positive largest IMU step and admissible measurements:
  a \<open>Stop\<close> that waits for the worker returns in every execution in which worker and control thread are
  scheduled fairly, however the producers interfere, and there is a finite run in which it does. When it
  returns the estimator has processed exactly the accepted measurements, in order.\<close>

theorem stop_drains:
  assumes "platform_ok pf" "config_typed cfg" "0 < cfg_max_imu_dt_s cfg"
    and "NavigationSystem_new pf cfg = Inr p0" "pipeline_run (estimator_dispatch pf) p0 tr p"
    and "\<forall>m. m \<in> set (accepted_pushes tr) \<longrightarrow> ukf_admissible m" "control p = Joining"
  shows "(\<forall>\<sigma> \<epsilon>. execution (estimator_dispatch pf) p \<sigma> \<epsilon> \<longrightarrow> fair_threads (estimator_dispatch pf) \<sigma> \<longrightarrow>
      (\<exists>k. \<epsilon> k = [StopReturned] \<and> control (\<sigma> k) = Joining \<and> control (\<sigma> (Suc k)) = Idle \<and>
        processed (tr @ events_until \<epsilon> k) = accepted_pushes (tr @ events_until \<epsilon> k))) \<and>
    (\<exists>tr' p'. pipeline_run (estimator_dispatch pf) p (tr' @ [StopReturned]) p' \<and> control p' = Idle \<and>
      processed (tr @ tr') = accepted_pushes (tr @ tr'))"
proof -
  obtain k where k: "p0 = EstimatorPipeline_new k default_queue_capacity" "object_good pf k"
    "\<not> is_initialized (estimator_dispatch pf) k" by (rule NavigationSystem_new_good [OF assms(1-4)])
  have run: "pipeline_run (estimator_dispatch pf) (EstimatorPipeline_new k default_queue_capacity) tr p"
    using assms(5) k(1) by simp
  have split: "accepted_pushes tr = processed tr @ in_worker (worker p) @ queue (p_queue p)"
    using pipeline_run_new_inv [OF run] by (simp add: pipeline_inv_def)
  have "Processed m rep \<in> set tr \<Longrightarrow> m \<in> set (processed tr)" for m rep
    by (induction tr rule: processed.induct) auto
  then have "object_good pf (estimator p)"
    using system.quiet_run [OF run] k split assms(6) by (auto simp: EstimatorPipeline_new_def)
  then have pend: "pending_ok (object_good pf) ukf_admissible p"
    using split assms(6) by (auto simp: pending_ok_def)
  show ?thesis
    using fair_stop_drains [OF system.returns run assms(7) pend] stop_drained [OF system.returns run assms(7) pend]
    by blast
qed

section \<open>A run with the sliding-window backend\<close>

definition demo_platform :: platform where
  "demo_platform = \<lparr>pf_eigen = eigen_reference, pf_llt = diagonal_llt, pf_uninit = (\<lambda>_ _. 0), pf_ceres = Some ceres_reference\<rparr>"

definition ceres_config :: NavigationSystemConfig where
  "ceres_config = demo_config\<lparr>cfg_backend := Choice_Ceres\<rparr>"

abbreviation demo_object :: INavigationEstimator where
  "demo_object \<equiv> CeresObject (CeresEstimator_new CeresOptions_default)"

lemma demo_system:
  "platform_ok demo_platform" "config_typed ceres_config" "0 < cfg_max_imu_dt_s ceres_config"
  "NavigationSystem_new demo_platform ceres_config = Inr (EstimatorPipeline_new demo_object default_queue_capacity)"
  using demo_facts eigen_reference_laws eigen_reference_ldlt ceres_reference_solver
  by (simp_all add: platform_ok_def demo_platform_def ceres_config_def config_typed_def NavigationSystem_new_def
      BuildEstimator_def BuildCeresEstimator_def CeresEstimator_stub_def)

lemma demo_object_good: "object_good demo_platform demo_object"
  using eigen_reference_laws ceres_reference_solver by (simp add: demo_platform_def ceres_good_def ceres_ok_new)

lemma demo_gnss_admissible: "ukf_admissible (M_GnssSolution (demo_gnss ns))"
  by (simp add: ukf_admissible_def demo_gnss_def GnssSolution_default_def covariance_ok_Zero)

lemma demo_gnss_accepted:
  obtains k' where "add_measurement (estimator_dispatch demo_platform) demo_object (M_GnssSolution (demo_gnss ns)) =
    Some (ceres_report Accepted, k')"
  by (simp add: estimator_dispatch_def ceres_estimator_ops_def Ceres_AddMeasurement_def case_prod_beta Ceres_AddGnss_def
      CeresEstimator_new_def CeresImpl_new_def Ceres_InitFromGnss_def Let_def demo_gnss_def)

lemma demo_system_joining:
  obtains tr p st where "pipeline_run (estimator_dispatch demo_platform) (EstimatorPipeline_new demo_object default_queue_capacity) tr p"
    "accepted_pushes tr = [M_GnssSolution (demo_gnss 1)]" "Notified 7 st \<in> set tr" "control p = Joining"
    "\<forall>m rep. Processed m rep \<in> set tr \<longrightarrow> ukf_admissible m"
proof -
  obtain k' where "add_measurement (estimator_dispatch demo_platform) demo_object (M_GnssSolution (demo_gnss 1)) =
    Some (ceres_report Accepted, k')" by (rule demo_gnss_accepted)
  from system.joining_run [OF demo_object_good demo_gnss_admissible this, of default_queue_capacity] that
  show thesis by (metis ceres_report_def MeasurementUpdateReport.select_convs(1) default_queue_capacity_def
      zero_less_numeral demo_gnss_admissible)
qed

theorem navigation_system_construction_witness:
  "(\<exists>msg. NavigationSystem_new (demo_platform\<lparr>pf_ceres := None\<rparr>) ceres_config = Inl (RuntimeError msg)) \<and>
   (\<exists>k. NavigationSystem_new demo_platform ceres_config = Inr (EstimatorPipeline_new k 4096))"
  using navigation_system_construction [of "demo_platform\<lparr>pf_ceres := None\<rparr>" ceres_config]
    navigation_system_construction [OF demo_system(1-3)] demo_system(1-3)
  by (auto simp: platform_ok_def ceres_config_def demo_platform_def)

theorem observers_quiet_witness:
  "\<exists>p0 tr p st. NavigationSystem_new demo_platform ceres_config = Inr p0 \<and>
    pipeline_run (estimator_dispatch demo_platform) p0 tr p \<and> Notified 7 st \<in> set tr \<and>
    (\<exists>m rep. Processed m rep \<in> set tr \<and> is_gnss_solution m \<and> result rep = Accepted)"
proof -
  obtain tr p st where r: "pipeline_run (estimator_dispatch demo_platform) (EstimatorPipeline_new demo_object default_queue_capacity) tr p"
    "Notified 7 st \<in> set tr" "\<forall>m rep. Processed m rep \<in> set tr \<longrightarrow> ukf_admissible m"
    using demo_system_joining by metis
  from observers_quiet [OF demo_system r(1,3,2)] demo_system(4) r show ?thesis by blast
qed

text \<open>A fix is announced to two observers.\<close>

theorem announced_once_witness:
  "\<exists>p0 p rep p' st. NavigationSystem_new demo_platform ceres_config = Inr p0 \<and>
    pipeline_run (estimator_dispatch demo_platform) p0 [] p \<and>
    process_measurement (estimator_dispatch demo_platform) p (M_GnssSolution (demo_gnss 1)) =
      Some ([Processed (M_GnssSolution (demo_gnss 1)) rep, Notified 7 st, Notified 9 st], p') \<and>
    result rep = Accepted \<and> latest_state (estimator_dispatch demo_platform) (estimator p') = Some st"
proof -
  let ?ops = "estimator_dispatch demo_platform" and ?m = "M_GnssSolution (demo_gnss 1)"
  let ?p0 = "EstimatorPipeline_new demo_object default_queue_capacity"
  let ?reg = "RegisterObserver (RegisterObserver ?p0 7) 9"
  have "pipeline_step ?ops ?p0 [] (RegisterObserver ?p0 7)"
    using register_observer [of ?p0 ?ops 7] by (simp add: EstimatorPipeline_new_def)
  moreover have "pipeline_step ?ops (RegisterObserver ?p0 7) [] ?reg"
    using register_observer [of "RegisterObserver ?p0 7" ?ops 9]
    by (simp add: EstimatorPipeline_new_def RegisterObserver_def)
  ultimately have run: "pipeline_run ?ops ?p0 [] ?reg"
    using run_step [OF run_step [OF run_start]] by fastforce
  have obs: "observers ?reg = [7, 9]" "estimator ?reg = demo_object"
    by (simp_all add: EstimatorPipeline_new_def RegisterObserver_def)
  have none: "\<forall>m rep. Processed m rep \<in> set [] \<longrightarrow> ukf_admissible m" by simp
  from announced_once [OF demo_system run none demo_gnss_admissible [of 1]] obtain rep evs p' where
    r: "process_measurement ?ops ?reg ?m = Some (evs, p')"
    "evs = Processed ?m rep # (if result rep = Accepted
      then map (\<lambda>obs. Notified obs (the (latest_state ?ops (estimator p')))) (observers ?reg) else [])"
    "result rep = Accepted \<longrightarrow> latest_state ?ops (estimator p') \<noteq> None" by blast
  obtain k' where "add_measurement ?ops demo_object ?m = Some (ceres_report Accepted, k')" by (rule demo_gnss_accepted)
  then have "result rep = Accepted"
    using r(1,2) obs(2) by (auto simp: process_measurement_def Let_def ceres_report_def)
  then show ?thesis using r obs(1) run demo_system(4) by auto
qed

theorem stop_drains_witness:
  "\<exists>p0 tr p tr' p'. NavigationSystem_new demo_platform ceres_config = Inr p0 \<and>
    pipeline_run (estimator_dispatch demo_platform) p0 tr p \<and> accepted_pushes tr = [M_GnssSolution (demo_gnss 1)] \<and>
    control p = Joining \<and> pipeline_run (estimator_dispatch demo_platform) p (tr' @ [StopReturned]) p' \<and>
    processed (tr @ tr') = accepted_pushes (tr @ tr') \<and>
    (\<forall>\<sigma> \<epsilon>. execution (estimator_dispatch demo_platform) p \<sigma> \<epsilon> \<longrightarrow> fair_threads (estimator_dispatch demo_platform) \<sigma> \<longrightarrow>
      (\<exists>k. \<epsilon> k = [StopReturned]))"
proof -
  obtain tr p where r: "pipeline_run (estimator_dispatch demo_platform) (EstimatorPipeline_new demo_object default_queue_capacity) tr p"
    "accepted_pushes tr = [M_GnssSolution (demo_gnss 1)]" "control p = Joining"
    using demo_system_joining by metis
  then have "\<forall>m. m \<in> set (accepted_pushes tr) \<longrightarrow> ukf_admissible m" by (simp add: demo_gnss_admissible)
  from stop_drains [OF demo_system r(1) this r(3)] demo_system(4) r show ?thesis by blast
qed

end
