(* ===== verification/Fg_Frames.thy ===== *)
theory Fg_Frames
  imports Fg_Quaternions
begin

text \<open>
  The arithmetic of frame-tagged vectors and the rigid transforms between frames,
  \<^verbatim>\<open>core/frames.hpp\<close>. The frame tags are phantom types here as in the code, so composing transforms whose
  frames do not meet is a type error. A quaternion applied to a vector is its rotation matrix applied to it.
\<close>

section \<open>Vectors\<close>

definition Vec3_norm :: "eigen_ops \<Rightarrow> 'frame Vec3 \<Rightarrow> real" where
  "Vec3_norm E v = e_norm E (vec (eigen v))"

definition Vec3_plus :: "eigen_ops \<Rightarrow> 'frame Vec3 \<Rightarrow> 'frame Vec3 \<Rightarrow> 'frame Vec3" where
  "Vec3_plus E a b = Vec3 (v3 (e_add E (vec (eigen a)) (vec (eigen b))))"

definition Vec3_minus :: "eigen_ops \<Rightarrow> 'frame Vec3 \<Rightarrow> 'frame Vec3 \<Rightarrow> 'frame Vec3" where
  "Vec3_minus E a b = Vec3 (v3 (e_sub E (vec (eigen a)) (vec (eigen b))))"

definition Vec3_times :: "eigen_ops \<Rightarrow> 'frame Vec3 \<Rightarrow> real \<Rightarrow> 'frame Vec3" where
  "Vec3_times E v s = Vec3 (v3 (e_scale E s (vec (eigen v))))"

definition Vec3_divide :: "eigen_ops \<Rightarrow> 'frame Vec3 \<Rightarrow> real \<Rightarrow> 'frame Vec3" where
  "Vec3_divide E v s = Vec3 (v3 (e_scale E (1 / s) (vec (eigen v))))"

definition times_Vec3 :: "eigen_ops \<Rightarrow> real \<Rightarrow> 'frame Vec3 \<Rightarrow> 'frame Vec3" where
  "times_Vec3 E s v = Vec3_times E v s"

text \<open>The new value of the left operand of \<^verbatim>\<open>+=\<close> and \<^verbatim>\<open>-=\<close>.\<close>

definition Vec3_add_assign :: "eigen_ops \<Rightarrow> 'frame Vec3 \<Rightarrow> 'frame Vec3 \<Rightarrow> 'frame Vec3" where
  "Vec3_add_assign E a b = Vec3 (v3 (e_add E (vec (eigen a)) (vec (eigen b))))"

definition Vec3_sub_assign :: "eigen_ops \<Rightarrow> 'frame Vec3 \<Rightarrow> 'frame Vec3 \<Rightarrow> 'frame Vec3" where
  "Vec3_sub_assign E a b = Vec3 (v3 (e_sub E (vec (eigen a)) (vec (eigen b))))"

section \<open>Transforms\<close>

datatype ('from, 'to) Transform = Transform (tf_rotation: Quaterniond) (tf_translation: "'to Vec3")

definition Transform_Identity :: "('from, 'to) Transform" where
  "Transform_Identity = Transform Quaterniond_Identity Vec3_zero"

definition Transform_new :: "eigen_ops \<Rightarrow> Quaterniond \<Rightarrow> 'to Vec3 \<Rightarrow> ('from, 'to) Transform" where
  "Transform_new E rotation_to_from translation_to_from =
     Transform (e_quat_normalized E rotation_to_from) translation_to_from"

definition Transform_apply :: "eigen_ops \<Rightarrow> ('from, 'to) Transform \<Rightarrow> 'from Vec3 \<Rightarrow> 'to Vec3" where
  "Transform_apply E T p =
     Vec3 (v3 (e_add E (e_mul E (e_rotation_matrix E (tf_rotation T)) (vec (eigen p))) (vec (eigen (tf_translation T)))))"

definition Transform_inverse :: "eigen_ops \<Rightarrow> ('from, 'to) Transform \<Rightarrow> ('to, 'from) Transform" where
  "Transform_inverse E T =
     (let inverse_rotation = e_quat_conjugate E (tf_rotation T);
          inverse_translation = e_neg E (e_mul E (e_rotation_matrix E inverse_rotation) (vec (eigen (tf_translation T))))
      in Transform_new E inverse_rotation (Vec3 (v3 inverse_translation)))"

definition Transform_compose ::
  "eigen_ops \<Rightarrow> ('shared, 'to) Transform \<Rightarrow> ('from, 'shared) Transform \<Rightarrow> ('from, 'to) Transform" where
  "Transform_compose E left right =
     (let rotation = e_quat_mul E (tf_rotation left) (tf_rotation right);
          translation = Vec3 (v3 (e_add E (e_mul E (e_rotation_matrix E (tf_rotation left)) (vec (eigen (tf_translation right))))
            (vec (eigen (tf_translation left)))))
      in Transform_new E rotation translation)"

section \<open>The group laws\<close>

text \<open>A transform whose rotation is a unit quaternion, as every one constructed from a nonzero quaternion.\<close>

definition transform_ok :: "('from, 'to) Transform \<Rightarrow> bool" where
  "transform_ok T \<longleftrightarrow> unit_quat (tf_rotation T)"

lemma transform_ok_new [fg_inv]:
  "transform_ok Transform_Identity" "quat_laws E \<Longrightarrow> q \<noteq> Quaterniond 0 0 0 0 \<Longrightarrow> transform_ok (Transform_new E q t)"
  by (simp_all add: transform_ok_def Transform_Identity_def Quaterniond_Identity_def unit_quat_def)
     (simp add: Transform_new_def normalized_nonzero flip: unit_quat_def)

lemma transform_ok_ops [fg_inv]:
  "quat_laws E \<Longrightarrow> transform_ok T \<Longrightarrow> transform_ok (Transform_inverse E T)"
  "quat_laws E \<Longrightarrow> transform_ok T \<Longrightarrow> transform_ok U \<Longrightarrow> transform_ok (Transform_compose E T U)"
  by (simp_all add: Transform_inverse_def Transform_compose_def Let_def)
     (simp_all add: transform_ok_def Transform_new_def normalized_nonzero unit_quat_nonzero unit_quat_conjugate unit_quat_mul)

text \<open>The three coordinates of the image of a point.\<close>

lemma apply_coordinates:
  assumes "eigen_algebra E" "eigen_shapes E"
  shows "Transform_apply E T (Vec3_xyz x y z) = Vec3_xyz
    (coeff (e_rotation_matrix E (tf_rotation T)) 0 0 * x + coeff (e_rotation_matrix E (tf_rotation T)) 0 1 * y +
     coeff (e_rotation_matrix E (tf_rotation T)) 0 2 * z + Vec3_x (tf_translation T))
    (coeff (e_rotation_matrix E (tf_rotation T)) 1 0 * x + coeff (e_rotation_matrix E (tf_rotation T)) 1 1 * y +
     coeff (e_rotation_matrix E (tf_rotation T)) 1 2 * z + Vec3_y (tf_translation T))
    (coeff (e_rotation_matrix E (tf_rotation T)) 2 0 * x + coeff (e_rotation_matrix E (tf_rotation T)) 2 1 * y +
     coeff (e_rotation_matrix E (tf_rotation T)) 2 2 * z + Vec3_z (tf_translation T))"
  using assms by (simp add: Transform_apply_def Vec3_xyz_def v3_def sum3 Vec3_x_def Vec3_y_def Vec3_z_def)

lemma Vec3_cases_xyz: obtains x y z where "p = Vec3_xyz x y z"
  by (cases p; cases "eigen p") (simp add: Vec3_xyz_def)

lemma Vec3_xyz_sel [simp]: "Vec3_x (Vec3_xyz x y z) = x" "Vec3_y (Vec3_xyz x y z) = y" "Vec3_z (Vec3_xyz x y z) = z"
  by (simp_all add: Vec3_xyz_def Vec3_x_def Vec3_y_def Vec3_z_def)

lemma Vec3_xyz_inject [simp]: "Vec3_xyz x y z = Vec3_xyz a b c \<longleftrightarrow> x = a \<and> y = b \<and> z = c"
  by (simp add: Vec3_xyz_def)

lemma compose_parts:
  assumes "eigen_algebra E" "eigen_shapes E" "quat_laws E" "transform_ok L" "transform_ok R" "i < 3" "j < 3"
  shows "tf_translation (Transform_compose E L R) = Transform_apply E L (tf_translation R)"
    and "coeff (e_rotation_matrix E (tf_rotation (Transform_compose E L R))) i j =
      coeff (e_rotation_matrix E (tf_rotation L)) i 0 * coeff (e_rotation_matrix E (tf_rotation R)) 0 j +
      coeff (e_rotation_matrix E (tf_rotation L)) i 1 * coeff (e_rotation_matrix E (tf_rotation R)) 1 j +
      coeff (e_rotation_matrix E (tf_rotation L)) i 2 * coeff (e_rotation_matrix E (tf_rotation R)) 2 j"
  using assms rotation_mul [OF assms(3)] unit_quat_mul [OF assms(3)] normalized_rotation [OF assms(3)]
  by (simp_all add: Transform_compose_def Let_def Transform_new_def Transform_apply_def transform_ok_def)

lemma compose_apply:
  assumes "eigen_algebra E" "eigen_shapes E" "quat_laws E" "transform_ok L" "transform_ok R"
  shows "Transform_apply E (Transform_compose E L R) p = Transform_apply E L (Transform_apply E R p)"
proof -
  obtain x y z where p: "p = Vec3_xyz x y z" by (rule Vec3_cases_xyz)
  obtain a b c where t: "tf_translation R = Vec3_xyz a b c" by (rule Vec3_cases_xyz)
  show ?thesis
    unfolding p apply_coordinates [OF assms(1,2)] compose_parts(1) [OF assms, of 0 0, simplified] t
    by (simp add: compose_parts(2) [OF assms] algebra_simps)
qed

lemma inverse_parts:
  assumes "eigen_algebra E" "eigen_shapes E" "quat_laws E" "transform_ok T" "i < 3" "j < 3"
  shows "coeff (e_rotation_matrix E (tf_rotation (Transform_inverse E T))) i j = coeff (e_rotation_matrix E (tf_rotation T)) j i"
    and "tf_translation (Transform_inverse E T) = Vec3 (v3 (e_neg E (e_mul E
      (e_rotation_matrix E (e_quat_conjugate E (tf_rotation T))) (vec (eigen (tf_translation T))))))"
  using assms rotation_conjugate [OF assms(3)] unit_quat_conjugate [OF assms(3)] normalized_rotation [OF assms(3)]
  by (simp_all add: Transform_inverse_def Let_def Transform_new_def transform_ok_def)

lemma inverse_translation:
  assumes "eigen_algebra E" "eigen_shapes E" "quat_laws E" "transform_ok T"
  defines "R \<equiv> e_rotation_matrix E (tf_rotation T)" and "t \<equiv> tf_translation T"
  shows "tf_translation (Transform_inverse E T) = Vec3_xyz
    (- (coeff R 0 0 * Vec3_x t + coeff R 1 0 * Vec3_y t + coeff R 2 0 * Vec3_z t))
    (- (coeff R 0 1 * Vec3_x t + coeff R 1 1 * Vec3_y t + coeff R 2 1 * Vec3_z t))
    (- (coeff R 0 2 * Vec3_x t + coeff R 1 2 * Vec3_y t + coeff R 2 2 * Vec3_z t))"
  unfolding inverse_parts(2) [OF assms(1-4), of 0 0, simplified] R_def t_def
  using assms(1,2,4) rotation_conjugate [OF assms(3)]
  by (simp add: v3_def sum3 Vec3_xyz_def Vec3_x_def Vec3_y_def Vec3_z_def transform_ok_def)

text \<open>The equations between the columns of an orthonormal matrix give those of the two inverse laws.\<close>

lemma inverse_apply:
  assumes "eigen_algebra E" "eigen_shapes E" "quat_laws E" "transform_ok T"
  shows "Transform_apply E (Transform_inverse E T) (Transform_apply E T p) = p"
proof -
  obtain x y z where p: "p = Vec3_xyz x y z" by (rule Vec3_cases_xyz)
  have "rotates_back (e_rotation_matrix E (tf_rotation T))"
    using rotation_rotates_back [OF assms(3)] assms(4) by (simp add: transform_ok_def)
  note rb = this [unfolded rotates_back_def all_less_3, simplified]
  show ?thesis
    unfolding p apply_coordinates [OF assms(1,2)]
    using rb [rule_format, of x y z]
    by (simp add: inverse_parts(1) [OF assms] inverse_translation [OF assms]) (simp add: algebra_simps)
qed

lemma inverse_inverse_apply:
  assumes "eigen_algebra E" "eigen_shapes E" "quat_laws E" "transform_ok T"
  shows "Transform_apply E T (Transform_apply E (Transform_inverse E T) p) = p"
proof -
  obtain x y z where p: "p = Vec3_xyz x y z" by (rule Vec3_cases_xyz)
  let ?R = "e_rotation_matrix E (tf_rotation T)" and ?t = "tf_translation T"
  have "rotates_back (e_rotation_matrix E (tf_rotation (Transform_inverse E T)))"
    using rotation_rotates_back [OF assms(3)] transform_ok_ops(1) [OF assms(3,4)] by (simp add: transform_ok_def)
  note rb = this [unfolded rotates_back_def all_less_3, simplified, unfolded inverse_parts(1) [OF assms, of 0 0, simplified]]
  have c: "coeff (e_rotation_matrix E (tf_rotation (Transform_inverse E T))) i j = coeff ?R j i" if "i < 3" "j < 3" for i j
    by (rule inverse_parts(1) [OF assms that])
  show ?thesis
    unfolding p apply_coordinates [OF assms(1,2)]
    using rb [rule_format, of "x - Vec3_x ?t" "y - Vec3_y ?t" "z - Vec3_z ?t"]
    by (simp add: c inverse_translation [OF assms]) (simp add: algebra_simps)
qed

text \<open>C39. Rigid transforms form a group: applying a composition is applying its parts in turn, and the inverse
  of a transform undoes it on either side; composition and inverse keep the rotation a unit quaternion.\<close>

theorem transform_group:
  assumes "eigen_algebra E" "eigen_shapes E" "quat_laws E"
    and "transform_ok (L :: ('b, 'c) Transform)" "transform_ok (R :: ('a, 'b) Transform)"
  shows "Transform_apply E (Transform_compose E L R) p = Transform_apply E L (Transform_apply E R p) \<and>
    Transform_apply E (Transform_inverse E R) (Transform_apply E R p) = p \<and>
    Transform_apply E L (Transform_apply E (Transform_inverse E L) q) = q \<and>
    transform_ok (Transform_compose E L R) \<and> transform_ok (Transform_inverse E R)"
  using compose_apply [OF assms] inverse_apply [OF assms(1-3,5)] inverse_inverse_apply [OF assms(1-4)]
    transform_ok_ops [OF assms(3)] assms(4,5) by blast

text \<open>A quarter turn with a lever arm.\<close>

definition quarter_turn :: "(ImuFrame, BodyFrame) Transform" where
  "quarter_turn = Transform (Quaterniond (sqrt 2 / 2) 0 0 (sqrt 2 / 2)) (Vec3_xyz 1 2 3)"

theorem transform_group_witness:
  "Transform_apply eigen_reference (Transform_inverse eigen_reference quarter_turn)
     (Transform_apply eigen_reference quarter_turn (Vec3_xyz 4 5 6)) = Vec3_xyz 4 5 6"
proof -
  have "transform_ok quarter_turn" by (simp add: transform_ok_def quarter_turn_def unit_quat_def)
  from transform_group [OF eigen_reference_laws eigen_reference_quat transform_ok_new(1) this] show ?thesis by blast
qed

end
