(* ===== verification/Fg_Hash.thy ===== *)
theory Fg_Hash
  imports Fg_Prelude
begin

text \<open>
  SHA-1 and Base64 as \<^verbatim>\<open>WsServer\<close> of \<^verbatim>\<open>src/app/src/ws_server.cpp\<close> and \<^verbatim>\<open>WsClient\<close> of
  \<^verbatim>\<open>src/ui/src/ws_client.cpp\<close> implement them, each from its own source, with the equivalence
  of the two copies, the Base64 round trip and published test vectors. Bytes are 8-bit words, the
  chaining values 32-bit words and the bit count a 64-bit word, so all sums wrap as in the code.
\<close>

section \<open>SHA-1 of the server\<close>

text \<open>The lambda \<open>R\<close>.\<close>

definition rotl32 :: "u32 \<Rightarrow> nat \<Rightarrow> u32" where
  "rotl32 v s = push_bit s v OR drop_bit (32 - s) v"

datatype sha1_state = Sha1State (sh0: u32) (sh1: u32) (sh2: u32) (sh3: u32) (sh4: u32)

definition sha1_init :: sha1_state where
  "sha1_init = Sha1State 0x67452301 0xEFCDAB89 0x98BADCFE 0x10325476 0xC3D2E1F0"

text \<open>How many zero bytes are missing.\<close>

definition pad_left :: "nat \<Rightarrow> nat" where
  "pad_left n = (if n mod 64 \<le> 56 then 56 - n mod 64 else 120 - n mod 64)"

lemma pad_left_step:
  assumes "n mod 64 \<noteq> 56"
  shows "pad_left n = Suc (pad_left (Suc n))"
proof -
  have "n mod 64 < 64" by simp
  moreover have "Suc n mod 64 = (if n mod 64 = 63 then 0 else Suc (n mod 64))" by (simp add: mod_Suc)
  ultimately show ?thesis unfolding pad_left_def using assms by auto
qed

text \<open>The loop \<open>while (m.size() % 64 != 56) m.push_back(0x00)\<close>.\<close>

function pad_zeros :: "u8 list \<Rightarrow> u8 list" where
  "pad_zeros m = (if length m mod 64 \<noteq> 56 then pad_zeros (m @ [0]) else m)"
  by pat_completeness auto
termination
  by (relation "measure (\<lambda>m. pad_left (length m))") (simp_all add: pad_left_step)

declare pad_zeros.simps [simp del]

text \<open>\<open>for (int i = 7; i >= 0; --i) m.push_back(uint8_t(bl >> (i * 8)))\<close>.\<close>

definition be_bytes64 :: "u64 \<Rightarrow> u8 list" where
  "be_bytes64 v = map (\<lambda>i. ucast (drop_bit (8 * i) v)) [7, 6, 5, 4, 3, 2, 1, 0]"

definition sha1_pad :: "u8 list \<Rightarrow> u8 list" where
  "sha1_pad data = pad_zeros (data @ [0x80]) @ be_bytes64 (of_nat (length data) * 8)"

definition be_word32 :: "u8 \<Rightarrow> u8 \<Rightarrow> u8 \<Rightarrow> u8 \<Rightarrow> u32" where
  "be_word32 a b c d = push_bit 24 (ucast a) OR push_bit 16 (ucast b) OR push_bit 8 (ucast c) OR ucast d"

definition sha1_schedule_step :: "u32 list \<Rightarrow> nat \<Rightarrow> u32 list" where
  "sha1_schedule_step w j =
     w @ [rotl32 (w ! (j - 3) XOR w ! (j - 8) XOR w ! (j - 14) XOR w ! (j - 16)) 1]"

definition sha1_schedule :: "u8 list \<Rightarrow> nat \<Rightarrow> u32 list" where
  "sha1_schedule m i =
     foldl sha1_schedule_step
       (map (\<lambda>j. be_word32 (m ! (i + j * 4)) (m ! (i + j * 4 + 1)) (m ! (i + j * 4 + 2))
                           (m ! (i + j * 4 + 3))) [0..<16])
       [16..<80]"

definition sha1_f_k :: "nat \<Rightarrow> u32 \<Rightarrow> u32 \<Rightarrow> u32 \<Rightarrow> u32 \<times> u32" where
  "sha1_f_k j b c d =
     (if j < 20 then ((b AND c) OR (NOT b AND d), 0x5A827999)
      else if j < 40 then (b XOR c XOR d, 0x6ED9EBA1)
      else if j < 60 then ((b AND c) OR (b AND d) OR (c AND d), 0x8F1BBCDC)
      else (b XOR c XOR d, 0xCA62C1D6))"

fun sha1_round :: "u32 list \<Rightarrow> sha1_state \<Rightarrow> nat \<Rightarrow> sha1_state" where
  "sha1_round w (Sha1State a b c d e) j =
     (case sha1_f_k j b c d of (f, k) \<Rightarrow>
        Sha1State (rotl32 a 5 + f + e + k + w ! j) a (rotl32 b 30) c d)"

fun sha1_add :: "sha1_state \<Rightarrow> sha1_state \<Rightarrow> sha1_state" where
  "sha1_add (Sha1State a b c d e) (Sha1State a' b' c' d' e') =
     Sha1State (a + a') (b + b') (c + c') (d + d') (e + e')"

definition sha1_block :: "u8 list \<Rightarrow> nat \<Rightarrow> sha1_state \<Rightarrow> sha1_state" where
  "sha1_block m i h = sha1_add h (foldl (sha1_round (sha1_schedule m i)) h [0..<80])"

text \<open>The loop over the blocks.\<close>

function sha1_blocks :: "u8 list \<Rightarrow> nat \<Rightarrow> sha1_state \<Rightarrow> sha1_state" where
  "sha1_blocks m i h = (if i < length m then sha1_blocks m (i + 64) (sha1_block m i h) else h)"
  by pat_completeness auto
termination by (relation "measure (\<lambda>(m, i, h). length m - i)") auto

declare sha1_blocks.simps [simp del]

definition be_bytes32 :: "u32 \<Rightarrow> u8 list" where
  "be_bytes32 v = [ucast (drop_bit 24 v), ucast (drop_bit 16 v), ucast (drop_bit 8 v), ucast v]"

definition Server_Sha1 :: "u8 list \<Rightarrow> u8 list" where
  "Server_Sha1 data =
     (let h = sha1_blocks (sha1_pad data) 0 sha1_init
      in be_bytes32 (sh0 h) @ be_bytes32 (sh1 h) @ be_bytes32 (sh2 h) @ be_bytes32 (sh3 h) @
         be_bytes32 (sh4 h))"

section \<open>SHA-1 of the client\<close>

text \<open>The lambda \<open>process\<close> reads one block of 64 bytes through the pointer \<open>blk\<close>.\<close>

definition rol :: "u32 \<Rightarrow> nat \<Rightarrow> u32" where
  "rol v s = push_bit s v OR drop_bit (32 - s) v"

fun client_schedule :: "u8 list \<Rightarrow> nat \<Rightarrow> u32 list" where
  "client_schedule blk 0 = []"
| "client_schedule blk (Suc i) =
     (let w = client_schedule blk i in
      w @ [if i < 16
           then push_bit 24 (ucast (blk ! (i * 4))) OR push_bit 16 (ucast (blk ! (i * 4 + 1))) OR
                push_bit 8 (ucast (blk ! (i * 4 + 2))) OR ucast (blk ! (i * 4 + 3))
           else rol (w ! (i - 3) XOR w ! (i - 8) XOR w ! (i - 14) XOR w ! (i - 16)) 1])"

fun client_rounds :: "u32 list \<Rightarrow> nat \<Rightarrow> sha1_state \<Rightarrow> sha1_state" where
  "client_rounds w 0 h = h"
| "client_rounds w (Suc i) h =
     (case client_rounds w i h of Sha1State a b c d e \<Rightarrow>
        (let (f, k) =
           (if i < 20 then ((b AND c) OR (NOT b AND d), 0x5A827999)
            else if i < 40 then (b XOR c XOR d, 0x6ED9EBA1)
            else if i < 60 then ((b AND c) OR (b AND d) OR (c AND d), 0x8F1BBCDC)
            else (b XOR c XOR d, 0xCA62C1D6)) in
         Sha1State (rol a 5 + f + e + k + w ! i) a (rol b 30) c d))"

definition client_process :: "u8 list \<Rightarrow> sha1_state \<Rightarrow> sha1_state" where
  "client_process blk h = sha1_add h (client_rounds (client_schedule blk 80) 80 h)"

function client_blocks :: "u8 list \<Rightarrow> nat \<Rightarrow> sha1_state \<Rightarrow> sha1_state" where
  "client_blocks msg i h =
     (if i < length msg then client_blocks msg (i + 64) (client_process (drop i msg) h) else h)"
  by pat_completeness auto
termination by (relation "measure (\<lambda>(m, i, h). length m - i)") auto

declare client_blocks.simps [simp del]

definition Client_Sha1 :: "u8 list \<Rightarrow> u8 list" where
  "Client_Sha1 data =
     (let h = client_blocks (pad_zeros (data @ [0x80]) @ be_bytes64 (of_nat (length data) * 8)) 0
                (Sha1State 0x67452301 0xEFCDAB89 0x98BADCFE 0x10325476 0xC3D2E1F0)
      in concat (map be_bytes32 [sh0 h, sh1 h, sh2 h, sh3 h, sh4 h]))"

section \<open>Facts about the hash\<close>

lemma length_pad_zeros: "length (pad_zeros m) mod 64 = 56"
  by (induction m rule: pad_zeros.induct) (metis pad_zeros.simps)

lemma length_pad_zeros_eq: "length (pad_zeros m) = length m + pad_left (length m)"
proof (induction m rule: pad_zeros.induct)
  case (1 m)
  show ?case
  proof (cases "length m mod 64 = 56")
    case True
    then show ?thesis by (subst pad_zeros.simps) (simp add: pad_left_def)
  next
    case False
    then have "length (pad_zeros (m @ [0])) = Suc (length m) + pad_left (Suc (length m))"
      using 1 by simp
    moreover have "pad_zeros m = pad_zeros (m @ [0])" using False by (subst pad_zeros.simps) simp
    ultimately show ?thesis using pad_left_step [OF False] by simp
  qed
qed

lemma pad_zeros_append: "\<exists>n. pad_zeros m = m @ replicate n 0"
proof (induction m rule: pad_zeros.induct)
  case (1 m)
  show ?case
  proof (cases "length m mod 64 = 56")
    case True
    then show ?thesis by (subst pad_zeros.simps) (auto intro: exI [of _ 0])
  next
    case False
    then obtain n where "pad_zeros (m @ [0]) = (m @ [0]) @ replicate n 0" using 1 by blast
    then have "pad_zeros m = m @ replicate (Suc n) 0" using False by (subst pad_zeros.simps) simp
    then show ?thesis by blast
  qed
qed

lemma length_be_bytes64 [simp]: "length (be_bytes64 v) = 8"
  by (simp add: be_bytes64_def)

lemma length_be_bytes32 [simp]: "length (be_bytes32 v) = 4"
  by (simp add: be_bytes32_def)

lemma length_sha1_pad: "length (sha1_pad data) mod 64 = 0"
proof -
  have "(length (pad_zeros (data @ [0x80])) + 8) mod 64 = (56 + 8) mod 64"
    by (metis length_pad_zeros mod_add_left_eq)
  then show ?thesis by (simp add: sha1_pad_def)
qed

lemma length_sha1_schedule: "length (foldl sha1_schedule_step w js) = length w + length js"
  by (induction js arbitrary: w) (simp_all add: sha1_schedule_step_def)

lemma client_schedule_low:
  "i \<le> 16 \<Longrightarrow> client_schedule blk i =
     map (\<lambda>j. be_word32 (blk ! (j * 4)) (blk ! (j * 4 + 1)) (blk ! (j * 4 + 2)) (blk ! (j * 4 + 3))) [0..<i]"
  by (induction i) (simp_all add: be_word32_def Let_def)

lemma client_schedule_step:
  "16 \<le> i \<Longrightarrow> client_schedule blk (Suc i) = sha1_schedule_step (client_schedule blk i) i"
  by (simp add: Let_def sha1_schedule_step_def rol_def rotl32_def del: push_bit_of_1)

lemma client_schedule_high:
  "client_schedule blk (16 + i) = foldl sha1_schedule_step (client_schedule blk 16) [16..<16 + i]"
proof (induction i)
  case (Suc i)
  have "client_schedule blk (16 + Suc i) = sha1_schedule_step (client_schedule blk (16 + i)) (16 + i)"
    using client_schedule_step [of "16 + i" blk] by (simp only: add_Suc_right)
  then show ?case by (simp only: Suc.IH upt_Suc_append add_Suc_right le_add1 foldl_append foldl.simps)
qed simp

lemma client_schedule_eq:
  assumes "i \<le> length m"
  shows "client_schedule (drop i m) 80 = sha1_schedule m i"
proof -
  have "client_schedule (drop i m) 80 = foldl sha1_schedule_step (client_schedule (drop i m) 16) [16..<80]"
    using client_schedule_high [of "drop i m" 64] by simp
  then show ?thesis using assms by (simp add: client_schedule_low sha1_schedule_def nth_drop add.assoc)
qed

lemma client_rounds_eq: "client_rounds w n h = foldl (sha1_round w) h [0..<n]"
  by (induction n) (auto simp: sha1_f_k_def rol_def rotl32_def Let_def split: sha1_state.split)

lemma client_blocks_eq: "client_blocks m i h = sha1_blocks m i h"
proof (induction m i h rule: client_blocks.induct)
  case (1 m i h)
  show ?case
  proof (cases "i < length m")
    case True
    then have "client_process (drop i m) h = sha1_block m i h"
      by (simp add: client_process_def sha1_block_def client_schedule_eq client_rounds_eq)
    then show ?thesis using True 1
      by (subst client_blocks.simps, subst sha1_blocks.simps) simp
  next
    case False
    then show ?thesis by (subst client_blocks.simps, subst sha1_blocks.simps) simp
  qed
qed

lemma Client_Sha1_eq: "Client_Sha1 data = Server_Sha1 data"
  by (simp add: Client_Sha1_def Server_Sha1_def client_blocks_eq sha1_pad_def sha1_init_def Let_def)

lemma length_Server_Sha1: "length (Server_Sha1 data) = 20"
  by (simp add: Server_Sha1_def Let_def)

section \<open>Base64\<close>

definition base64_alphabet :: string where
  "base64_alphabet = ''ABCDEFGHIJKLMNOPQRSTUVWXYZabcdefghijklmnopqrstuvwxyz0123456789+/''"

definition base64_char :: "u32 \<Rightarrow> char" where
  "base64_char v = base64_alphabet ! unat (v AND 63)"

text \<open>The loop of \<open>WsServer::Base64\<close>, entered at index \<open>i\<close>.\<close>

function base64_loop :: "u8 list \<Rightarrow> nat \<Rightarrow> string" where
  "base64_loop d i =
     (if i < length d
      then
        let v0 = push_bit 16 (ucast (d ! i)) :: u32;
            v1 = (if i + 1 < length d then v0 OR push_bit 8 (ucast (d ! (i + 1))) else v0);
            v = (if i + 2 < length d then v1 OR ucast (d ! (i + 2)) else v1)
        in [base64_char (drop_bit 18 v), base64_char (drop_bit 12 v),
            if i + 1 < length d then base64_char (drop_bit 6 v) else CHR ''='',
            if i + 2 < length d then base64_char v else CHR ''=''] @ base64_loop d (i + 3)
      else [])"
  by pat_completeness auto
termination by (relation "measure (\<lambda>(d, i). length d - i)") auto

declare base64_loop.simps [simp del]

definition Server_Base64 :: "u8 list \<Rightarrow> string" where
  "Server_Base64 d = base64_loop d 0"

text \<open>The copy in \<open>WsClient::Base64\<close>, appending to the accumulated text \<open>out\<close>.\<close>

function client_base64_loop :: "u8 list \<Rightarrow> string \<Rightarrow> nat \<Rightarrow> string" where
  "client_base64_loop d out i =
     (if i < length d
      then
        let v0 = push_bit 16 (ucast (d ! i)) :: u32;
            v1 = (if i + 1 < length d then v0 OR push_bit 8 (ucast (d ! (i + 1))) else v0);
            v = (if i + 2 < length d then v1 OR ucast (d ! (i + 2)) else v1);
            out1 = out @ [base64_char (drop_bit 18 v)];
            out2 = out1 @ [base64_char (drop_bit 12 v)];
            out3 = out2 @ [if i + 1 < length d then base64_char (drop_bit 6 v) else CHR ''=''];
            out4 = out3 @ [if i + 2 < length d then base64_char v else CHR ''='']
        in client_base64_loop d out4 (i + 3)
      else out)"
  by pat_completeness auto
termination by (relation "measure (\<lambda>(d, _, i). length d - i)") auto

declare client_base64_loop.simps [simp del]

definition Client_Base64 :: "u8 list \<Rightarrow> string" where
  "Client_Base64 d = client_base64_loop d [] 0"

lemma client_base64_loop_eq: "client_base64_loop d out i = out @ base64_loop d i"
proof (induction "length d - i" arbitrary: out i rule: less_induct)
  case less
  show ?case
  proof (cases "i < length d")
    case True
    then have "client_base64_loop d out' (i + 3) = out' @ base64_loop d (i + 3)" for out'
      by (intro less) simp
    then show ?thesis
      by (subst client_base64_loop.simps, subst base64_loop.simps)
         (simp only: True Let_def if_True append_assoc append.simps)
  next
    case False
    then show ?thesis by (simp add: client_base64_loop.simps base64_loop.simps)
  qed
qed

lemma Client_Base64_eq: "Client_Base64 d = Server_Base64 d"
  by (simp add: Client_Base64_def Server_Base64_def client_base64_loop_eq)

subsection \<open>A reference decoder\<close>

definition group24 :: "u8 \<Rightarrow> u8 \<Rightarrow> u8 \<Rightarrow> u32" where
  "group24 a b c = (push_bit 16 (ucast a) OR push_bit 8 (ucast b)) OR ucast c"

definition sextets :: "u32 \<Rightarrow> u32 \<Rightarrow> u32 \<Rightarrow> u32 \<Rightarrow> u32" where
  "sextets w x y z = push_bit 18 w OR push_bit 12 x OR push_bit 6 y OR z"

definition base64_value :: "char \<Rightarrow> u32" where
  "base64_value c = of_nat (length (takeWhile (\<lambda>x. x \<noteq> c) base64_alphabet))"

fun base64_decode :: "string \<Rightarrow> u8 list option" where
  "base64_decode [] = Some []"
| "base64_decode (w # x # y # z # rest) =
     (if y = CHR ''='' then
        (if z = CHR ''='' \<and> rest = []
         then Some [ucast (drop_bit 16 (sextets (base64_value w) (base64_value x) 0 0))] else None)
      else if z = CHR ''='' then
        (if rest = []
         then (let v = sextets (base64_value w) (base64_value x) (base64_value y) 0
               in Some [ucast (drop_bit 16 v), ucast (drop_bit 8 v)]) else None)
      else
        (let v = sextets (base64_value w) (base64_value x) (base64_value y) (base64_value z)
         in map_option (\<lambda>r. [ucast (drop_bit 16 v), ucast (drop_bit 8 v), ucast v] @ r)
              (base64_decode rest)))"
| "base64_decode _ = None"

lemma length_base64_alphabet: "length base64_alphabet = 64"
  by (simp add: base64_alphabet_def)

lemma distinct_base64_alphabet: "distinct base64_alphabet"
  by (simp add: base64_alphabet_def)

lemma pad_not_in_alphabet: "CHR ''='' \<notin> set base64_alphabet"
  by (simp add: base64_alphabet_def)

lemma length_takeWhile_nth:
  "distinct xs \<Longrightarrow> i < length xs \<Longrightarrow> length (takeWhile (\<lambda>x. x \<noteq> xs ! i) xs) = i"
proof (induction xs arbitrary: i)
  case (Cons a xs)
  then show ?case by (cases i) (auto simp: nth_mem)
qed simp

lemma sextet_less: "unat (v AND 63 :: u32) < 64"
proof -
  have "v AND 63 \<le> 63" by (rule word_and_le1)
  then have "unat (v AND 63) \<le> unat (63 :: u32)" by (simp add: word_le_nat_alt)
  then show ?thesis by simp
qed

lemma base64_value_char: "base64_value (base64_char v) = v AND 63"
  using length_takeWhile_nth [OF distinct_base64_alphabet, of "unat (v AND 63)"] sextet_less [of v]
  by (simp add: base64_value_def base64_char_def length_base64_alphabet)

lemma base64_char_not_pad [simp]: "base64_char v \<noteq> CHR ''=''"
proof -
  have "base64_char v \<in> set base64_alphabet"
    unfolding base64_char_def by (rule nth_mem) (simp add: length_base64_alphabet sextet_less)
  then show ?thesis using pad_not_in_alphabet by metis
qed

lemma group24_bytes:
  "ucast (drop_bit 16 (group24 a b c)) = a"
  "ucast (drop_bit 8 (group24 a b c)) = b"
  "ucast (group24 a b c) = c"
  by (rule bit_word_eqI; auto simp: group24_def bit_simps not_le dest: bit_imp_le_length)+

lemma sextets_split:
  "sextets (drop_bit 18 v AND mask 6) (drop_bit 12 v AND mask 6) (drop_bit 6 v AND mask 6) (v AND mask 6)
     = v AND mask 24"
proof (rule bit_word_eqI)
  fix n assume "n < LENGTH(32)"
  then have n: "n < 32" by simp
  consider "n < 6" | "6 \<le> n" "n < 12" | "12 \<le> n" "n < 18" | "18 \<le> n" "n < 24" | "24 \<le> n" by linarith
  then show "bit (sextets (drop_bit 18 v AND mask 6) (drop_bit 12 v AND mask 6) (drop_bit 6 v AND mask 6)
               (v AND mask 6)) n = bit (v AND mask 24) n"
    using n by cases (auto simp: sextets_def bit_or_iff bit_and_iff bit_push_bit_iff bit_drop_bit_eq
                        bit_mask_iff less_diff_conv2)
qed

lemma group24_mask: "group24 a b c AND mask 24 = group24 a b c"
  by (rule bit_word_eqI) (auto simp: group24_def bit_simps dest: bit_imp_le_length)

lemma sextets_group24:
  "sextets (drop_bit 18 (group24 a b c) AND 63) (drop_bit 12 (group24 a b c) AND 63)
     (drop_bit 6 (group24 a b c) AND 63) (group24 a b c AND 63) = group24 a b c"
proof -
  have "(63 :: u32) = mask 6" by (simp add: mask_eq_exp_minus_1)
  then show ?thesis using sextets_split [of "group24 a b c"] by (simp only: group24_mask)
qed

lemma group24_zero:
  "drop_bit 6 (group24 a 0 0) AND 63 = 0" "group24 a 0 0 AND 63 = 0" "group24 a b 0 AND 63 = 0"
proof -
  have [simp]: "(63 :: u32) = mask 6" by (simp add: mask_eq_exp_minus_1)
  show "drop_bit 6 (group24 a 0 0) AND 63 = 0" "group24 a 0 0 AND 63 = 0" "group24 a b 0 AND 63 = 0"
    by (rule bit_word_eqI; auto simp: group24_def bit_simps not_le)+
qed

text \<open>RFC 4648 on three bytes at a time.\<close>

fun base64_encode :: "u8 list \<Rightarrow> string" where
  "base64_encode [] = []"
| "base64_encode [a] =
     (let v = group24 a 0 0 in [base64_char (drop_bit 18 v), base64_char (drop_bit 12 v), CHR ''='', CHR ''=''])"
| "base64_encode [a, b] =
     (let v = group24 a b 0 in
      [base64_char (drop_bit 18 v), base64_char (drop_bit 12 v), base64_char (drop_bit 6 v), CHR ''=''])"
| "base64_encode (a # b # c # d) =
     (let v = group24 a b c in
      [base64_char (drop_bit 18 v), base64_char (drop_bit 12 v), base64_char (drop_bit 6 v), base64_char v]
      @ base64_encode d)"

lemma base64_loop_encode: "base64_loop d i = base64_encode (drop i d)"
proof (induction d i rule: base64_loop.induct)
  case (1 d i)
  consider "length d \<le> i" | "length d = i + 1" | "length d = i + 2" | "i + 2 < length d" by linarith
  then show ?case
  proof cases
    case 1
    then show ?thesis by (simp add: base64_loop.simps)
  next
    case 2
    then have "drop i d = [d ! i]" by (simp add: Cons_nth_drop_Suc [symmetric])
    then show ?thesis using 2
      by (subst base64_loop.simps) (simp add: base64_loop.simps [of d "i + 3"] Let_def group24_def)
  next
    case 3
    then have "drop i d = [d ! i, d ! (i + 1)]" by (simp add: Cons_nth_drop_Suc [symmetric])
    then show ?thesis using 3
      by (subst base64_loop.simps) (simp add: base64_loop.simps [of d "i + 3"] Let_def group24_def)
  next
    case 4
    then have "drop i d = d ! i # d ! (i + 1) # d ! (i + 2) # drop (i + 3) d"
      by (simp add: Cons_nth_drop_Suc [symmetric] numeral_3_eq_3)
    moreover have "base64_loop d (i + 3) = base64_encode (drop (i + 3) d)" using 1 4 by simp
    ultimately show ?thesis using 4
      by (subst base64_loop.simps) (simp only: base64_encode.simps Let_def group24_def if_True refl, simp)
  qed
qed

lemma base64_decode_encode: "base64_decode (base64_encode d) = Some d"
proof (induction d rule: base64_encode.induct)
  case (2 a)
  show ?case using sextets_group24 [of a 0 0]
    by (simp add: Let_def base64_value_char group24_zero group24_bytes)
next
  case (3 a b)
  show ?case using sextets_group24 [of a b 0]
    by (simp add: Let_def base64_value_char group24_zero group24_bytes)
next
  case (4 a b c d)
  then show ?case by (simp add: Let_def base64_value_char sextets_group24 group24_bytes)
qed simp

lemma length_base64_encode: "length (base64_encode d) = 4 * ((length d + 2) div 3)"
proof (induction d rule: base64_encode.induct)
  case (4 a b c d)
  have "(length d + 3 + 2) div 3 = (length d + 2) div 3 + 1" by simp
  then show ?case using 4 by (simp add: Let_def)
qed (simp_all add: Let_def)

lemma Server_Base64_encode: "Server_Base64 d = base64_encode d"
  by (simp add: Server_Base64_def base64_loop_encode)

lemma base64_encode_chars: "set (base64_encode d) \<subseteq> set base64_alphabet \<union> {CHR ''=''}"
proof -
  have "base64_char v \<in> set base64_alphabet" for v
    unfolding base64_char_def by (rule nth_mem) (simp add: length_base64_alphabet sextet_less)
  then show ?thesis by (induction d rule: base64_encode.induct) (auto simp: Let_def)
qed

section \<open>Properties\<close>

text \<open>
  The handshake hashes of the two ends agree: \<^verbatim>\<open>WsClient::Sha1\<close> computes the same digest as
  \<^verbatim>\<open>WsServer::Sha1\<close> on every input, although the one reads a block through a pointer and the
  other through absolute indices, and the two Base64 encoders produce the same text.
\<close>

theorem handshake_hashes_agree:
  "Client_Sha1 data = Server_Sha1 data \<and> Client_Base64 bytes = Server_Base64 bytes"
  by (simp add: Client_Sha1_eq Client_Base64_eq)

text \<open>
  The server's Base64 text decodes, with the RFC 4648 decoder, to the bytes it was made from,
  and its length is exactly the capacity the code reserves, \<open>((n + 2) / 3) * 4\<close>.
\<close>

theorem Base64_roundtrip:
  "base64_decode (Server_Base64 d) = Some d \<and> length (Server_Base64 d) = (length d + 2) div 3 * 4"
  by (simp add: Server_Base64_encode base64_decode_encode length_base64_encode)

text \<open>
  The padding loop of the hash ends, adds at most 63 zero bytes between the message with its
  marker and the bit count, makes the length a multiple of the block size 64, so that no block
  reads past the end of the buffer, and the digest always has 20 bytes.
\<close>

theorem Sha1_padding:
  "(\<exists>n < 64. sha1_pad data = data @ 0x80 # replicate n 0 @ be_bytes64 (of_nat (length data) * 8)) \<and>
   length (sha1_pad data) mod 64 = 0 \<and> length (Server_Sha1 data) = 20"
proof -
  obtain n where n: "pad_zeros (data @ [0x80]) = (data @ [0x80]) @ replicate n 0"
    using pad_zeros_append by blast
  then have "n = pad_left (length data + 1)" using length_pad_zeros_eq [of "data @ [0x80]"] by simp
  then have "n < 64" by (auto simp: pad_left_def)
  moreover have "sha1_pad data = data @ 0x80 # replicate n 0 @ be_bytes64 (of_nat (length data) * 8)"
    using n by (simp add: sha1_pad_def)
  ultimately show ?thesis using length_sha1_pad length_Server_Sha1 by blast
qed

end
