(* ===== verification/Fg_Text.thy ===== *)
theory Fg_Text
  imports Fg_Prelude
begin

text \<open>
  The operations of \<^verbatim>\<open>std::string\<close> that the text based components use (\<^verbatim>\<open>find\<close>, \<^verbatim>\<open>substr\<close>,
  \<^verbatim>\<open>std::to_string\<close>), on lists of characters, with the lemmas that locate a needle in a
  concatenation.
\<close>

section \<open>Searching\<close>

text \<open>\<^verbatim>\<open>s.find(needle)\<close>: the first position, \<^const>\<open>None\<close> for \<^verbatim>\<open>npos\<close>.\<close>

fun str_find :: "string \<Rightarrow> string \<Rightarrow> nat option" where
  "str_find needle [] = (if needle = [] then Some 0 else None)"
| "str_find needle (c # cs) =
     (if take (length needle) (c # cs) = needle then Some 0 else map_option Suc (str_find needle cs))"

text \<open>\<^verbatim>\<open>s.find(needle, pos)\<close>.\<close>

definition str_find_from :: "string \<Rightarrow> string \<Rightarrow> nat \<Rightarrow> nat option" where
  "str_find_from needle s pos =
     (if length s < pos then None else map_option (\<lambda>i. pos + i) (str_find needle (drop pos s)))"

text \<open>\<^verbatim>\<open>s.substr(pos, n)\<close> for \<open>pos\<close> within the string.\<close>

definition str_substr :: "string \<Rightarrow> nat \<Rightarrow> nat \<Rightarrow> string" where
  "str_substr s pos n = take n (drop pos s)"

definition str_contains :: "string \<Rightarrow> string \<Rightarrow> bool" where
  "str_contains needle s = (str_find needle s \<noteq> None)"

definition crlf :: string where
  "crlf = [CHR 0x0D, CHR 0x0A]"

lemma str_find_prefix: "needle \<noteq> [] \<Longrightarrow> str_find needle (needle @ rest) = Some 0"
  by (cases needle) simp_all

lemma str_find_append:
  "needle \<noteq> [] \<Longrightarrow> hd needle \<notin> set a \<Longrightarrow> str_find needle (a @ needle @ b) = Some (length a)"
proof (induction a)
  case Nil
  then show ?case by (simp add: str_find_prefix)
next
  case (Cons c a)
  then have "take (length needle) ((c # a) @ needle @ b) \<noteq> needle" by (cases needle) auto
  then show ?case using Cons by simp
qed

lemma str_find_Some: "str_find needle s = Some i \<Longrightarrow> take (length needle) (drop i s) = needle \<and> i \<le> length s"
  by (induction s arbitrary: i) (auto split: if_splits)

lemma str_find_bound: "str_find needle s = Some i \<Longrightarrow> needle \<noteq> [] \<Longrightarrow> i < length s"
  by (induction s arbitrary: i) (auto split: if_splits)

lemma str_find_None: "str_find needle s = None \<Longrightarrow> take (length needle) (drop i s) \<noteq> needle \<or> length s < i"
proof (induction s arbitrary: i)
  case Nil
  then show ?case by (auto split: if_splits)
next
  case (Cons c cs)
  then show ?case by (cases i) (auto split: if_splits)
qed

lemma str_contains_append [simp]: "str_contains needle (a @ needle @ b)"
proof (rule ccontr)
  assume "\<not> ?thesis"
  then have "str_find needle (a @ needle @ b) = None" by (simp add: str_contains_def)
  from str_find_None [OF this, of "length a"] show False by simp
qed

lemma str_contains_append_at_end [simp]: "str_contains needle (a @ needle)"
  using str_contains_append [of needle a "[]"] by simp

lemma str_find_first:
  assumes "str_find needle s = Some i" and "j < i"
  shows "take (length needle) (drop j s) \<noteq> needle"
  using assms by (induction s arbitrary: i j) (auto split: if_splits nat.splits simp: drop_Cons)

lemma str_find_char_None: "str_find [c] s = None \<longleftrightarrow> c \<notin> set s"
  by (induction s) auto

section \<open>Decimal numerals\<close>

text \<open>\<^verbatim>\<open>std::to_string\<close> of an unsigned integer.\<close>

definition digit_char :: "nat \<Rightarrow> char" where
  "digit_char d = char_of (48 + d)"

fun to_string_nat :: "nat \<Rightarrow> string" where
  "to_string_nat n =
     (if n < 10 then [digit_char n] else to_string_nat (n div 10) @ [digit_char (n mod 10)])"

declare to_string_nat.simps [simp del]

definition is_digit :: "char \<Rightarrow> bool" where
  "is_digit c \<longleftrightarrow> (48 :: nat) \<le> of_char c \<and> of_char c \<le> (57 :: nat)"

definition digit_value :: "char \<Rightarrow> nat" where
  "digit_value c = of_char c - 48"

text \<open>The number that a string of decimal digits denotes.\<close>

definition digits_value :: "string \<Rightarrow> nat" where
  "digits_value s = foldl (\<lambda>a c. 10 * a + digit_value c) 0 s"

lemma of_char_digit_char: "d < 10 \<Longrightarrow> of_char (digit_char d) = 48 + d"
  by (simp add: digit_char_def)

lemma is_digit_digit_char [simp]: "d < 10 \<Longrightarrow> is_digit (digit_char d)"
  by (simp add: is_digit_def of_char_digit_char)

lemma digit_value_digit_char [simp]: "d < 10 \<Longrightarrow> digit_value (digit_char d) = d"
  by (simp add: digit_value_def of_char_digit_char)

lemma to_string_nat_digits: "\<forall>c \<in> set (to_string_nat n). is_digit c"
proof (induction n rule: to_string_nat.induct)
  case (1 n)
  then show ?case by (subst to_string_nat.simps) auto
qed

lemma to_string_nat_value: "digits_value (to_string_nat n) = n"
proof (induction n rule: to_string_nat.induct)
  case (1 n)
  then show ?case by (subst to_string_nat.simps) (auto simp: digits_value_def)
qed

lemma to_string_nat_nonempty [simp]: "to_string_nat n \<noteq> []"
  by (subst to_string_nat.simps) simp

end
