(* ===== verification/Fg_WebSocket.thy ===== *)
theory Fg_WebSocket
  imports Fg_Hash Fg_Text
begin

text \<open>
  The WebSocket codec and the connection handling of \<^verbatim>\<open>src/app/src/ws_server.cpp\<close>: frames,
  handshake, the drain loop, one iteration of the server loop, start, stop and broadcast.

  A \<^verbatim>\<open>std::string\<close> is a list of characters. The operating system is visible as events: every
  descriptor obtained, every use of one by \<^verbatim>\<open>select\<close>, \<^verbatim>\<open>accept\<close>, \<^verbatim>\<open>read\<close> and \<^verbatim>\<open>write\<close> and every \<^verbatim>\<open>close\<close> is
  appended to the log of the server (the code ignores the results of the last two), and the results of \<^verbatim>\<open>select\<close>, \<^verbatim>\<open>accept\<close> and \<^verbatim>\<open>read\<close> are inputs of a step. The JSON library
  and the command handler are parameters.
\<close>

section \<open>Parameters: JSON and the command handler\<close>

record 'j json_api =
  json_parse :: "string \<Rightarrow> 'j option"
  json_dump :: "'j \<Rightarrow> string option"
  json_is_null :: "'j \<Rightarrow> bool"

text \<open>A handler maps its state and a request to a new state and a response; \<^const>\<open>None\<close> is a throw.\<close>

type_synonym ('h, 'j) command_handler = "'h \<Rightarrow> 'j \<Rightarrow> 'h \<times> 'j option"

section \<open>Frames\<close>

definition byte_at :: "string \<Rightarrow> nat \<Rightarrow> u8" where
  "byte_at s i = byte_of_char (s ! i)"

text \<open>\<^verbatim>\<open>plen = (plen << 8) | b[i]\<close> over big-endian bytes.\<close>

definition be_value :: "u8 list \<Rightarrow> u64" where
  "be_value bs = foldl (\<lambda>v b. push_bit 8 v OR ucast b) 0 bs"

text \<open>\<^verbatim>\<open>resize\<close> and \<^verbatim>\<open>push_back\<close> throw above \<^verbatim>\<open>std::string::max_size()\<close>.\<close>

definition string_max_size :: nat where
  "string_max_size = 2 ^ 63 - 1"

datatype recv_result =
    NeedMore
  | CloseFrame string
  | DataFrame string string bool

definition unmask_byte :: "bool \<Rightarrow> string \<Rightarrow> nat \<Rightarrow> nat \<Rightarrow> nat \<Rightarrow> char" where
  "unmask_byte masked buf mask_pos data_pos i =
     (let b = byte_at buf (data_pos + i)
      in char_of_byte (if masked then b XOR byte_at buf (mask_pos + i mod 4) else b))"

definition Server_RecvFrame :: "string \<Rightarrow> cpp_exception + recv_result" where
  "Server_RecvFrame buf =
     (if length buf < 2 then Inr NeedMore
      else
        let b0 = byte_at buf 0; b1 = byte_at buf 1; opcode = b0 AND 0x0F;
            masked = (b1 AND 0x80 \<noteq> 0); plen7 = ucast (b1 AND 0x7F) :: u64;
            ext = (if plen7 = 126 then 2 else if plen7 = 127 then 8 else 0);
            hdr = 2 + ext + (if masked then 4 else 0)
        in
        if length buf < 2 + ext then Inr NeedMore
        else
          let plen = (if plen7 = 126 then push_bit 8 (ucast (byte_at buf 2)) OR ucast (byte_at buf 3)
                      else if plen7 = 127 then be_value (map (\<lambda>i. byte_at buf (2 + i)) [0..<8])
                      else plen7);
              total = of_nat hdr + plen
          in
          if of_nat (length buf) < total then Inr NeedMore
          else if opcode = 0x8 then Inr (CloseFrame (drop (unat total) buf))
          else if string_max_size < unat plen then Inl LengthError
          else
            let mask_pos = 2 + ext; data_pos = mask_pos + (if masked then 4 else 0)
            in Inr (DataFrame (map (unmask_byte masked buf mask_pos data_pos) [0..<unat plen])
                              (drop (unat total) buf) (opcode = 0x1)))"

text \<open>The header of a text frame, and the frame that \<^verbatim>\<open>SendText\<close> writes.\<close>

definition be_chars64 :: "u64 \<Rightarrow> string" where
  "be_chars64 v = map char_of_byte (be_bytes64 v)"

definition server_frame :: "string \<Rightarrow> string" where
  "server_frame text =
     (let plen = length text in
      [char_of_byte 0x81] @
      (if plen < 126 then [char_of_byte (of_nat plen)]
       else if plen < 65536 then
         [char_of_byte 126, char_of_byte (of_nat (plen div 256)), char_of_byte (of_nat plen AND 0xFF)]
       else char_of_byte 127 # be_chars64 (of_nat plen)) @
      text)"

text \<open>
  System calls on descriptors: one obtained from \<^verbatim>\<open>socket\<close> or \<^verbatim>\<open>accept\<close>, \<^verbatim>\<open>write\<close>, \<^verbatim>\<open>close\<close>, the use of
  a client's descriptor by \<^verbatim>\<open>select\<close> or \<^verbatim>\<open>read\<close>, and the use of the listening descriptor by
  \<^verbatim>\<open>select\<close> or \<^verbatim>\<open>accept\<close>.
\<close>

datatype net_event = Opened int | Wrote int string | Closed int | Used int | Polled int

definition Server_SendText :: "int \<Rightarrow> string \<Rightarrow> net_event list" where
  "Server_SendText fd text = (if text = [] then [] else [Wrote fd (server_frame text)])"

definition Server_SendClose :: "int \<Rightarrow> net_event list" where
  "Server_SendClose fd = [Wrote fd [char_of_byte 0x88, char_of_byte 0x00]]"

section \<open>Clients and the server\<close>

record ws_client =
  wc_fd :: int
  wc_buf :: string
  wc_upgraded :: bool
  wc_dead :: bool

definition ws_client_new :: "int \<Rightarrow> ws_client" where
  "ws_client_new fd = \<lparr>wc_fd = fd, wc_buf = [], wc_upgraded = False, wc_dead = False\<rparr>"

record WsConfig =
  cfg_port :: nat
  cfg_max_clients :: int
  cfg_ui_path :: string

definition WsConfig_default :: WsConfig where
  "WsConfig_default = \<lparr>cfg_port = 8765, cfg_max_clients = 16, cfg_ui_path = ''ui/index.html''\<rparr>"

record 'h ws_server =
  ws_cfg :: WsConfig
  ws_server_fd :: int
  ws_running :: bool
  ws_thread :: bool
  ws_clients :: "ws_client list"
  ws_handler :: 'h
  ws_log :: "net_event list"

subsection \<open>Handshake\<close>

definition ws_guid :: string where
  "ws_guid = ''258EAFA5-E914-47DA-95CA-C5AB0DC85B11''"

definition key_header :: string where
  "key_header = ''Sec-WebSocket-Key: ''"

definition accept_key :: "string \<Rightarrow> string" where
  "accept_key key = Server_Base64 (Server_Sha1 (map byte_of_char (key @ ws_guid)))"

definition upgrade_response :: "string \<Rightarrow> string" where
  "upgrade_response key =
     ''HTTP/1.1 101 Switching Protocols'' @ crlf @
     ''Upgrade: websocket'' @ crlf @
     ''Connection: Upgrade'' @ crlf @
     ''Sec-WebSocket-Accept: '' @ accept_key key @ crlf @ crlf"

text \<open>\<open>DoUpgrade\<close>: success, the client, and what was written.\<close>

definition DoUpgrade :: "ws_client \<Rightarrow> bool \<times> ws_client \<times> net_event list" where
  "DoUpgrade c =
     (case str_find key_header (wc_buf c) of
        None \<Rightarrow> (False, c, [])
      | Some pos \<Rightarrow>
          (case str_find_from crlf (wc_buf c) (pos + length key_header) of
             None \<Rightarrow> (False, c, [])
           | Some end' \<Rightarrow>
               let key = str_substr (wc_buf c) (pos + length key_header) (end' - pos - length key_header)
               in (True, c\<lparr>wc_upgraded := True, wc_buf := []\<rparr>, [Wrote (wc_fd c) (upgrade_response key)])))"

text \<open>\<open>ServeHttp\<close>, given the contents of the file \<open>ui_path\<close> if it can be opened.\<close>

definition http_body :: "WsConfig \<Rightarrow> string option \<Rightarrow> string" where
  "http_body cfg file =
     (case file of
        Some content \<Rightarrow> content
      | None \<Rightarrow>
          ''<!DOCTYPE html><html><body>'' @ ''<h2>FalconGuide UI</h2>'' @
          ''<p>UI file not found at <code>'' @ cfg_ui_path cfg @ ''</code>. '' @
          ''Build with <code>cmake --build</code> or set <code>ws.ui_path</code>.</p>'' @
          ''</body></html>'')"

definition http_response :: "string \<Rightarrow> string" where
  "http_response body =
     ''HTTP/1.1 200 OK'' @ crlf @ ''Content-Type: text/html; charset=utf-8'' @ crlf @
     ''Content-Length: '' @ to_string_nat (length body) @ crlf @
     ''Connection: close'' @ crlf @ crlf @ body"

definition ServeHttp :: "WsConfig \<Rightarrow> string option \<Rightarrow> ws_client \<Rightarrow> net_event list" where
  "ServeHttp cfg file c = [Wrote (wc_fd c) (http_response (http_body cfg file))]"

subsection \<open>Reading\<close>

definition bad_json :: string where
  \<open>bad_json = ''{"event":"error","message":"bad JSON"}''\<close>

text \<open>The body of the drain loop: one text payload, the new handler state and what is written.\<close>

definition answer :: "'j json_api \<Rightarrow> ('h, 'j) command_handler \<Rightarrow> int \<Rightarrow> 'h \<Rightarrow> string \<Rightarrow> 'h \<times> net_event list" where
  "answer J handler fd h payload =
     (case json_parse J payload of
        None \<Rightarrow> (h, Server_SendText fd bad_json)
      | Some request \<Rightarrow>
          (case handler h request of
             (h', None) \<Rightarrow> (h', Server_SendText fd bad_json)
           | (h', Some resp) \<Rightarrow>
               if json_is_null J resp then (h', [])
               else (case json_dump J resp of
                       None \<Rightarrow> (h', Server_SendText fd bad_json)
                     | Some text \<Rightarrow> (h', Server_SendText fd text))))"

lemma Server_RecvFrame_shrinks:
  assumes "Server_RecvFrame buf = Inr (DataFrame p r t)"
  shows "length r < length buf"
proof -
  define plen :: u64 where "plen =
    (let plen7 = ucast (byte_at buf 1 AND 0x7F) :: u64 in
     if plen7 = 126 then push_bit 8 (ucast (byte_at buf 2)) OR ucast (byte_at buf 3)
     else if plen7 = 127 then be_value (map (\<lambda>i. byte_at buf (2 + i)) [0..<8]) else plen7)"
  define hdr :: nat where "hdr =
    (let plen7 = ucast (byte_at buf 1 AND 0x7F) :: u64 in
     2 + (if plen7 = 126 then 2 else if plen7 = 127 then 8 else 0) + (if byte_at buf 1 AND 0x80 \<noteq> 0 then 4 else 0))"
  have len: "2 \<le> length buf" and max: "unat plen \<le> string_max_size"
    and r: "r = drop (unat (of_nat hdr + plen)) buf"
    using assms unfolding Server_RecvFrame_def plen_def hdr_def Let_def
    by (simp_all split: if_split_asm)
  have "hdr \<le> 14" "2 \<le> hdr" by (simp_all add: hdr_def Let_def)
  then have "unat (of_nat hdr + plen) = hdr + unat plen"
    using max by (simp add: unat_word_ariths unat_of_nat string_max_size_def)
  then show ?thesis using r len \<open>2 \<le> hdr\<close> by simp
qed

text \<open>\<open>while (RecvFrame(c, payload))\<close>.\<close>

function drain ::
  "'j json_api \<Rightarrow> ('h, 'j) command_handler \<Rightarrow> ws_client \<Rightarrow> 'h \<Rightarrow>
   cpp_exception + (ws_client \<times> 'h \<times> net_event list)" where
  "drain J handler c h =
     (case Server_RecvFrame (wc_buf c) of
        Inl e \<Rightarrow> Inl e
      | Inr NeedMore \<Rightarrow> Inr (c, h, [])
      | Inr (CloseFrame r) \<Rightarrow> Inr (c\<lparr>wc_buf := r, wc_dead := True\<rparr>, h, Server_SendClose (wc_fd c))
      | Inr (DataFrame p r t) \<Rightarrow>
          (if t
           then (case answer J handler (wc_fd c) h p of
                   (h', ev) \<Rightarrow>
                     bind_sum (drain J handler (c\<lparr>wc_buf := r\<rparr>) h')
                       (\<lambda>(c', h'', ev'). Inr (c', h'', ev @ ev')))
           else Inr (c\<lparr>wc_buf := r\<rparr>, h, [])))"
  by pat_completeness auto
termination
  by (relation "measure (\<lambda>(J, handler, c, h). length (wc_buf c))") (auto dest: Server_RecvFrame_shrinks)

declare drain.simps [simp del]

text \<open>
  \<open>HandleRead\<close>: \<open>chunk\<close> is what \<^verbatim>\<open>read\<close> returned (\<^const>\<open>None\<close> for \<open>n <= 0\<close>), \<open>file\<close> the
  contents of the UI file. The boolean is the returned value. The use of the descriptor by \<^verbatim>\<open>read\<close> is logged
  by \<open>read_clients\<close>, before the writes.
\<close>

definition HandleRead ::
  "'j json_api \<Rightarrow> ('h, 'j) command_handler \<Rightarrow> WsConfig \<Rightarrow> string option \<Rightarrow> string option \<Rightarrow> ws_client \<Rightarrow> 'h \<Rightarrow>
   cpp_exception + (bool \<times> ws_client \<times> 'h \<times> net_event list)" where
  "HandleRead J handler cfg file chunk c h =
     (case chunk of
        None \<Rightarrow> Inr (False, c, h, [])
      | Some data \<Rightarrow>
          let c1 = c\<lparr>wc_buf := wc_buf c @ data\<rparr> in
          if \<not> wc_upgraded c1
          then
            if \<not> str_contains (crlf @ crlf) (wc_buf c1) then Inr (True, c1, h, [])
            else if str_contains ''Upgrade: websocket'' (wc_buf c1) \<or>
                    str_contains ''Upgrade: WebSocket'' (wc_buf c1)
            then (case DoUpgrade c1 of (ok, c2, ev) \<Rightarrow> Inr (ok, c2, h, ev))
            else Inr (False, c1, h, ServeHttp cfg file c1)
          else bind_sum (drain J handler c1 h) (\<lambda>(c2, h', ev). Inr (True, c2, h', ev)))"

section \<open>The server\<close>

text \<open>
  What one iteration of \<open>Loop\<close> sees of the operating system: whether \<^verbatim>\<open>select\<close> reported
  anything, the descriptor that \<^verbatim>\<open>accept\<close> returned if the listening socket was ready, for each
  descriptor that was ready the result of \<^verbatim>\<open>read\<close>, and the UI file.
\<close>

record loop_input =
  in_select :: bool
  in_accept :: "int option"
  in_read :: "int \<Rightarrow> string option option"
  in_file :: "string option"

fun read_clients ::
  "'j json_api \<Rightarrow> ('h, 'j) command_handler \<Rightarrow> WsConfig \<Rightarrow> string option \<Rightarrow> (int \<Rightarrow> string option option) \<Rightarrow>
   ws_client list \<Rightarrow> 'h \<Rightarrow> cpp_exception + (ws_client list \<times> 'h \<times> net_event list)" where
  "read_clients J handler cfg file ready [] h = Inr ([], h, [])"
| "read_clients J handler cfg file ready (c # cs) h =
     (case (if wc_dead c \<or> wc_fd c < 0 then None else ready (wc_fd c)) of
        None \<Rightarrow>
          bind_sum (read_clients J handler cfg file ready cs h) (\<lambda>(cs', h', ev). Inr (c # cs', h', ev))
      | Some chunk \<Rightarrow>
          bind_sum (HandleRead J handler cfg file chunk c h) (\<lambda>(ok, c1, h1, ev1).
            let (c2, ev2) = (if ok then (c1, []) else (c1\<lparr>wc_fd := - 1, wc_dead := True\<rparr>, [Closed (wc_fd c1)]))
            in bind_sum (read_clients J handler cfg file ready cs h1) (\<lambda>(cs', h', ev).
                 Inr (c2 # cs', h', Used (wc_fd c) # ev1 @ ev2 @ ev))))"

definition watched :: "'h ws_server \<Rightarrow> int list" where
  "watched s = map wc_fd (filter (\<lambda>c. \<not> wc_dead c \<and> 0 \<le> wc_fd c) (ws_clients s))"

text \<open>
  The parts of an iteration: \<^verbatim>\<open>select\<close> on the listening descriptor \<open>lfd\<close> and the clients' descriptors \<open>fds\<close>,
  \<^verbatim>\<open>accept\<close> on the listening descriptor if it is ready, the new client (or its rejection), and the
  reads. An exception leaves the thread.
\<close>

definition loop_select :: "int \<Rightarrow> int list \<Rightarrow> 'h ws_server \<Rightarrow> 'h ws_server" where
  "loop_select lfd fds s = s\<lparr>ws_log := ws_log s @ Polled lfd # map Used fds\<rparr>"

definition accept_socket :: "int option \<Rightarrow> 'h ws_server \<Rightarrow> 'h ws_server" where
  "accept_socket acc s =
     (case acc of
        None \<Rightarrow> s
      | Some cfd \<Rightarrow>
          s\<lparr>ws_log := ws_log s @ Polled (ws_server_fd s) # (if 0 \<le> cfd then [Opened cfd] else [])\<rparr>)"

definition push_client :: "int \<Rightarrow> 'h ws_server \<Rightarrow> 'h ws_server" where
  "push_client cfd s =
     (if int (length (ws_clients s)) < cfg_max_clients (ws_cfg s)
      then s\<lparr>ws_clients := ws_clients s @ [ws_client_new cfd]\<rparr>
      else s\<lparr>ws_log := ws_log s @ [Closed cfd]\<rparr>)"

definition accept_client :: "int option \<Rightarrow> 'h ws_server \<Rightarrow> 'h ws_server" where
  "accept_client acc s =
     (let s1 = accept_socket acc s
      in case acc of
           None \<Rightarrow> s1
         | Some cfd \<Rightarrow> if 0 \<le> cfd then push_client cfd s1 else s1)"

definition loop_read ::
  "'j json_api \<Rightarrow> ('h, 'j) command_handler \<Rightarrow> loop_input \<Rightarrow> int list \<Rightarrow> 'h ws_server \<Rightarrow>
   cpp_exception + 'h ws_server" where
  "loop_read J handler inp rfds s =
     bind_sum (read_clients J handler (ws_cfg s) (in_file inp)
                 (\<lambda>fd. if fd \<in> set rfds then in_read inp fd else None) (ws_clients s) (ws_handler s))
       (\<lambda>(cs, h, ev). Inr (s\<lparr>ws_clients := filter (\<lambda>c. \<not> wc_dead c) cs, ws_handler := h, ws_log := ws_log s @ ev\<rparr>))"

text \<open>One iteration of \<open>Loop\<close> that nothing interrupts.\<close>

definition Loop_iteration ::
  "'j json_api \<Rightarrow> ('h, 'j) command_handler \<Rightarrow> loop_input \<Rightarrow> 'h ws_server \<Rightarrow> cpp_exception + 'h ws_server" where
  "Loop_iteration J handler inp s =
     (let rfds = watched s;
          s1 = loop_select (ws_server_fd s) rfds s
      in if \<not> in_select inp then Inr s1 else loop_read J handler inp rfds (accept_client (in_accept inp) s1))"

fun Server_Loop ::
  "'j json_api \<Rightarrow> ('h, 'j) command_handler \<Rightarrow> loop_input list \<Rightarrow> 'h ws_server \<Rightarrow> cpp_exception + 'h ws_server" where
  "Server_Loop J handler [] s = Inr s"
| "Server_Loop J handler (inp # inps) s =
     (if ws_running s then bind_sum (Loop_iteration J handler inp s) (Server_Loop J handler inps) else Inr s)"

subsection \<open>Start, Stop, Broadcast\<close>

definition WsServer_new :: "WsConfig \<Rightarrow> 'h \<Rightarrow> 'h ws_server" where
  "WsServer_new cfg h =
     \<lparr>ws_cfg = cfg, ws_server_fd = - 1, ws_running = False, ws_thread = False, ws_clients = [],
      ws_handler = h, ws_log = []\<rparr>"

text \<open>\<open>fd\<close> is the result of \<^verbatim>\<open>socket\<close>, \<open>bound\<close> whether \<^verbatim>\<open>bind\<close> succeeded.\<close>

definition WsServer_Start :: "int \<Rightarrow> bool \<Rightarrow> 'h ws_server \<Rightarrow> 'h ws_server \<times> cpp_exception option" where
  "WsServer_Start fd bound s =
     (if ws_running s then (s, None)
      else
        let s1 = s\<lparr>ws_server_fd := fd\<rparr> in
        if fd < 0 then (s1, Some (RuntimeError ''WsServer: socket() failed''))
        else if \<not> bound
        then (s1\<lparr>ws_server_fd := - 1, ws_log := ws_log s1 @ [Opened fd, Closed fd]\<rparr>,
              Some (RuntimeError (''WsServer: bind() failed on port '' @ to_string_nat (cfg_port (ws_cfg s)))))
        else (s1\<lparr>ws_running := True, ws_thread := True, ws_log := ws_log s1 @ [Opened fd]\<rparr>, None))"

text \<open>
  The parts of \<open>Stop\<close> after the exchange of \<open>running_\<close>: the listening descriptor is closed, then set to
  \<open>-1\<close>, the thread is joined, and the clients are closed and dropped under the lock. Between them the thread
  may still be running; \<open>WsServer_Stop\<close> is their composition when it does nothing in between.
\<close>

definition stop_exchange :: "'h ws_server \<Rightarrow> 'h ws_server" where
  "stop_exchange s = s\<lparr>ws_running := False\<rparr>"

definition stop_close :: "'h ws_server \<Rightarrow> 'h ws_server" where
  "stop_close s = (if 0 \<le> ws_server_fd s then s\<lparr>ws_log := ws_log s @ [Closed (ws_server_fd s)]\<rparr> else s)"

definition stop_forget :: "'h ws_server \<Rightarrow> 'h ws_server" where
  "stop_forget s = (if 0 \<le> ws_server_fd s then s\<lparr>ws_server_fd := - 1\<rparr> else s)"

definition stop_joined :: "'h ws_server \<Rightarrow> 'h ws_server" where
  "stop_joined s = s\<lparr>ws_thread := False\<rparr>"

definition stop_clients :: "'h ws_server \<Rightarrow> 'h ws_server" where
  "stop_clients s =
     s\<lparr>ws_clients := [],
       ws_log := ws_log s @ map Closed (filter (\<lambda>fd. 0 \<le> fd) (map wc_fd (ws_clients s)))\<rparr>"

definition WsServer_Stop :: "'h ws_server \<Rightarrow> 'h ws_server" where
  "WsServer_Stop s =
     (if \<not> ws_running s then s
      else stop_clients (stop_joined (stop_forget (stop_close (stop_exchange s)))))"

lemmas ws_stop_defs = stop_exchange_def stop_close_def stop_forget_def stop_joined_def stop_clients_def

text \<open>\<open>Broadcast\<close>; \<^const>\<open>None\<close> is the exception of \<^verbatim>\<open>dump\<close>, before the lock is taken.\<close>

definition Broadcast :: "'j json_api \<Rightarrow> 'j \<Rightarrow> 'h ws_server \<Rightarrow> 'h ws_server option" where
  "Broadcast J msg s =
     map_option
       (\<lambda>text. s\<lparr>ws_log := ws_log s @
          concat (map (\<lambda>c. if \<not> wc_dead c \<and> wc_upgraded c \<and> 0 \<le> wc_fd c
                           then Server_SendText (wc_fd c) text else []) (ws_clients s))\<rparr>)
       (json_dump J msg)"

end
