(* ===== verification/Fg_WsClient.thy ===== *)
theory Fg_WsClient
  imports Fg_WebSocket
begin

text \<open>
  The WebSocket client of \<^verbatim>\<open>src/ui/src/ws_client.cpp\<close>: sending and receiving frames, the
  handshake, one connection of its loop, and connect/disconnect/send. The socket is a stream of
  the bytes that will still arrive; when it is used up, \<^verbatim>\<open>recv\<close> reports an error, a close or the
  timeout. The random key and masks are parameters. Then the properties of the codec: what one
  end sends the other end receives, however the stream is cut into reads.
\<close>

section \<open>Sockets\<close>

text \<open>
  \<open>send data\<close> is the result of the system call on the data left; a contract of \<^verbatim>\<open>send\<close> is that
  it never reports more than it was given. The result is the success flag and what was sent.
\<close>

function sock_send :: "(string \<Rightarrow> int) \<Rightarrow> string \<Rightarrow> bool \<times> string" where
  "sock_send send data =
     (if data = [] then (True, [])
      else
        let sent = send data in
        if sent \<le> 0 then (False, [])
        else (case sock_send send (drop (nat sent) data) of
                (ok, out) \<Rightarrow> (ok, take (nat sent) data @ out)))"
  by pat_completeness auto
termination by (relation "measure (\<lambda>(send, data). length data)") auto

declare sock_send.simps [simp del]

text \<open>\<open>recv1\<close>: one byte with a timeout.\<close>

fun recv1 :: "string \<Rightarrow> (u8 \<times> string) option" where
  "recv1 [] = None"
| "recv1 (c # cs) = Some (byte_of_char c, cs)"

text \<open>Reading \<open>n\<close> bytes one by one.\<close>

fun recv_n :: "nat \<Rightarrow> string \<Rightarrow> (u8 list \<times> string) option" where
  "recv_n 0 s = Some ([], s)"
| "recv_n (Suc n) s =
     (case recv1 s of
        None \<Rightarrow> None
      | Some (b, s1) \<Rightarrow> map_option (\<lambda>(bs, s2). (b # bs, s2)) (recv_n n s1))"

section \<open>Frames\<close>

definition client_frame :: "u8 list \<Rightarrow> string \<Rightarrow> u8 list" where
  "client_frame mkey payload =
     (let plen = length payload in
      [0x81] @
      (if plen \<le> 125 then [of_nat plen OR 0x80]
       else if plen \<le> 65535 then [0xFE, of_nat (plen div 256), of_nat plen]
       else 0xFF # be_bytes64 (of_nat plen)) @
      mkey @
      map (\<lambda>i. byte_of_char (payload ! i) XOR mkey ! (i mod 4)) [0..<plen])"

definition Client_SendFrame :: "(string \<Rightarrow> int) \<Rightarrow> u8 list \<Rightarrow> string \<Rightarrow> bool \<times> string" where
  "Client_SendFrame send mkey payload = sock_send send (map char_of_byte (client_frame mkey payload))"

text \<open>
  \<open>RecvFrame\<close>: \<^const>\<open>None\<close> for the returned \<open>false\<close>, otherwise the text and the stream
  left; \<open>Inl\<close> when \<^verbatim>\<open>out.resize\<close> throws.
\<close>

definition Client_RecvFrame :: "string \<Rightarrow> cpp_exception + (string \<times> string) option" where
  "Client_RecvFrame s =
     (case recv_n 2 s of
        None \<Rightarrow> Inr None
      | Some (h, s1) \<Rightarrow>
          let h0 = h ! 0; h1 = h ! 1; masked = (h1 AND 0x80 \<noteq> 0); opcode = h0 AND 0x0F;
              plen7 = ucast (h1 AND 0x7F) :: u64;
              ext = (if plen7 = 126 then 2 else if plen7 = 127 then 8 else 0)
          in
          if opcode = 8 then Inr None
          else
            (case recv_n ext s1 of
               None \<Rightarrow> Inr None
             | Some (b, s2) \<Rightarrow>
                 let plen = (if plen7 = 126 then push_bit 8 (ucast (b ! 0)) OR ucast (b ! 1)
                             else if plen7 = 127 then be_value b else plen7)
                 in
                 (case recv_n (if masked then 4 else 0) s2 of
                    None \<Rightarrow> Inr None
                  | Some (mkey, s3) \<Rightarrow>
                      if string_max_size < unat plen then Inl LengthError
                      else
                        (case recv_n (unat plen) s3 of
                           None \<Rightarrow> Inr None
                         | Some (body, s4) \<Rightarrow>
                             Inr (Some (map (\<lambda>i. char_of_byte (if masked then body ! i XOR mkey ! (i mod 4)
                                                               else body ! i)) [0..<unat plen], s4))))))"

section \<open>Handshake\<close>

definition client_request :: "string \<Rightarrow> nat \<Rightarrow> string \<Rightarrow> string" where
  "client_request host port key =
     ''GET / HTTP/1.1'' @ crlf @ ''Host: '' @ host @ '':'' @ to_string_nat port @ crlf @
     ''Upgrade: websocket'' @ crlf @ ''Connection: Upgrade'' @ crlf @
     ''Sec-WebSocket-Key: '' @ key @ crlf @ ''Sec-WebSocket-Version: 13'' @ crlf @ crlf"

text \<open>Reading the response up to the empty line, at most 4096 bytes.\<close>

function read_response :: "string \<Rightarrow> string \<Rightarrow> (string \<times> string) option" where
  "read_response resp s =
     (if length resp < 4096
      then (case s of
              [] \<Rightarrow> None
            | ch # s' \<Rightarrow>
                let resp' = resp @ [ch] in
                if 4 \<le> length resp' \<and> drop (length resp' - 4) resp' = crlf @ crlf then Some (resp', s')
                else read_response resp' s')
      else Some (resp, s))"
  by pat_completeness auto
termination by (relation "measure (\<lambda>(resp, s). length s)") auto

declare read_response.simps [simp del]

text \<open>The result is the stream left, \<^const>\<open>None\<close> for failure; the request sent comes with it.\<close>

definition Handshake ::
  "(string \<Rightarrow> int) \<Rightarrow> string \<Rightarrow> nat \<Rightarrow> u8 list \<Rightarrow> string \<Rightarrow> string option \<times> string" where
  "Handshake send host port key_bytes s =
     (case sock_send send (client_request host port (Client_Base64 key_bytes)) of
        (ok, out) \<Rightarrow>
          (if \<not> ok then None
           else (case read_response [] s of
                   None \<Rightarrow> None
                 | Some (resp, s') \<Rightarrow> if str_contains ''101'' resp then Some s' else None), out))"

section \<open>Connection\<close>

text \<open>
  The inner loop of \<open>Loop\<close>: frames are received until \<open>RecvFrame\<close> fails or \<open>running_\<close> is
  cleared (after \<open>fuel\<close> frames), and those that parse are handed to the message handler, whose
  exceptions are swallowed.
\<close>

fun receive_loop ::
  "'j json_api \<Rightarrow> nat \<Rightarrow> string \<Rightarrow> cpp_exception + ('j list \<times> string)" where
  "receive_loop J 0 s = Inr ([], s)"
| "receive_loop J (Suc fuel) s =
     bind_sum (Client_RecvFrame s) (\<lambda>r.
       (case r of
          None \<Rightarrow> Inr ([], s)
        | Some (frame, s') \<Rightarrow>
            bind_sum (receive_loop J fuel s') (\<lambda>(js, s'').
              Inr ((case json_parse J frame of None \<Rightarrow> js | Some j \<Rightarrow> j # js), s''))))"

record WsClient =
  cl_host :: string
  cl_port :: nat
  cl_running :: bool
  cl_connected :: bool
  cl_thread :: bool
  cl_socket_fd :: int

definition WsClient_new :: "string \<Rightarrow> nat \<Rightarrow> WsClient" where
  "WsClient_new host port =
     \<lparr>cl_host = host, cl_port = port, cl_running = False, cl_connected = False, cl_thread = False,
      cl_socket_fd = - 1\<rparr>"

definition Connect :: "WsClient \<Rightarrow> WsClient" where
  "Connect c = (if cl_running c then c else c\<lparr>cl_running := True, cl_thread := True\<rparr>)"

definition Disconnect :: "WsClient \<Rightarrow> WsClient \<times> net_event list" where
  "Disconnect c =
     (let c1 = c\<lparr>cl_running := False, cl_connected := False\<rparr>;
          ev = (if 0 \<le> cl_socket_fd c1 then [Closed (cl_socket_fd c1)] else []);
          c2 = (if 0 \<le> cl_socket_fd c1 then c1\<lparr>cl_socket_fd := - 1\<rparr> else c1)
      in (c2\<lparr>cl_thread := False\<rparr>, ev))"

text \<open>\<open>Send\<close>: what reaches the socket.\<close>

definition Client_Send :: "(string \<Rightarrow> int) \<Rightarrow> u8 list \<Rightarrow> 'j json_api \<Rightarrow> 'j \<Rightarrow> WsClient \<Rightarrow> string option" where
  "Client_Send send mkey J msg c =
     (if \<not> cl_connected c \<or> cl_socket_fd c < 0 then Some []
      else map_option (\<lambda>text. snd (Client_SendFrame send mkey text)) (json_dump J msg))"

text \<open>One round of the outer loop of \<open>Loop\<close>: \<open>fd\<close> is the result of connecting.\<close>

definition connection ::
  "'j json_api \<Rightarrow> (string \<Rightarrow> int) \<Rightarrow> u8 list \<Rightarrow> int \<Rightarrow> nat \<Rightarrow> string \<Rightarrow> WsClient \<Rightarrow>
   cpp_exception + (WsClient \<times> 'j list \<times> net_event list)" where
  "connection J send key_bytes fd fuel s c =
     (if fd < 0 then Inr (c, [], [])
      else
        (case Handshake send (cl_host c) (cl_port c) key_bytes s of
           (None, out) \<Rightarrow> Inr (c\<lparr>cl_socket_fd := - 1\<rparr>, [], [Opened fd, Wrote fd out, Closed fd])
         | (Some s', out) \<Rightarrow>
             bind_sum (receive_loop J fuel s')
               (\<lambda>(js, _). Inr (c\<lparr>cl_connected := False, cl_socket_fd := - 1\<rparr>, js, [Opened fd, Wrote fd out, Closed fd]))))"

end
