(* ===== verification/Fg_WsCodec.thy ===== *)
theory Fg_WsCodec
  imports Fg_WsClient
begin

text \<open>
  The two ends of the WebSocket connection together: what \<^verbatim>\<open>WsClient\<close> sends,
  \<^verbatim>\<open>WsServer\<close> receives and the reverse; frames that arrive in pieces; the handshake of the
  one against the handshake of the other; and the invariant of the server's client list.
\<close>

section \<open>Lengths in frame headers\<close>

lemma push_or_byte: "push_bit 8 v OR ucast (b :: u8) = v * 256 + (ucast b :: u64)"
proof -
  have "push_bit 8 v OR ucast b = push_bit 8 v + (ucast b :: u64)"
    by (rule disjunctive_add [symmetric]) (auto simp: bit_simps dest: bit_imp_le_length)
  then show ?thesis by (simp add: push_bit_eq_mult)
qed

lemma ucast_of_nat_byte: "ucast (of_nat n :: u8) = (of_nat (n mod 256) :: u64)"
  by (simp add: unsigned_of_nat take_bit_eq_mod)

lemma be_value_step: "push_bit 8 (drop_bit 8 x) OR ucast (ucast x :: u8) = (x :: u64)"
  by (rule bit_word_eqI) (auto simp: bit_simps not_le dest: bit_imp_le_length)

lemma be_value_be_bytes64: "be_value (be_bytes64 v) = v"
proof -
  have top: "ucast (ucast (drop_bit 56 v) :: u8) = drop_bit 56 v"
    by (rule bit_word_eqI) (auto simp: bit_simps not_le dest: bit_imp_le_length)
  have st: "push_bit 8 (drop_bit (8 + n) v) OR ucast (ucast (drop_bit n v) :: u8) = drop_bit n v" for n
    using be_value_step [of "drop_bit n v"] by (simp add: ac_simps)
  show ?thesis
    using top st [of 48] st [of 40] st [of 32] st [of 24] st [of 16] st [of 8] st [of 0]
    by (simp add: be_value_def be_bytes64_def)
qed

lemma byte_or_high:
  assumes "n < 128"
  shows "(of_nat n OR 0x80 :: u8) AND 0x7F = of_nat n" "(of_nat n OR 0x80 :: u8) AND 0x80 \<noteq> 0"
    "(of_nat n :: u8) AND 0x7F = of_nat n" "(of_nat n :: u8) AND 0x80 = 0"
proof -
  have "(of_nat n :: u8) < 2 ^ 7" using assms by (simp add: word_less_nat_alt unat_of_nat)
  then have m: "(of_nat n :: u8) AND mask 7 = of_nat n" by (rule less_mask_eq)
  then show a: "(of_nat n :: u8) AND 0x7F = of_nat n" by (simp add: mask_eq_exp_minus_1)
  show "(of_nat n OR 0x80 :: u8) AND 0x7F = of_nat n" by (simp add: word_ao_dist a)
  have "(of_nat n :: u8) AND 0x80 = (of_nat n AND 0x7F) AND 0x80" by (simp only: a)
  also have "\<dots> = 0" by (simp add: and.assoc)
  finally show "(of_nat n :: u8) AND 0x80 = 0" .
  then show "(of_nat n OR 0x80 :: u8) AND 0x80 \<noteq> 0" by (simp add: word_ao_dist)
qed

lemma two_byte_length:
  assumes "n < 65536"
  shows "push_bit 8 (ucast (of_nat (n div 256) :: u8)) OR ucast (of_nat n :: u8) = (of_nat n :: u64)"
proof -
  have "n div 256 < 256" using assms by (simp add: div_less_mono)
  then have "push_bit 8 (ucast (of_nat (n div 256) :: u8)) OR ucast (of_nat n :: u8)
               = (of_nat (n div 256) * 256 + of_nat (n mod 256) :: u64)"
    by (subst push_or_byte) (simp only: ucast_of_nat_byte mod_less)
  also have "\<dots> = of_nat (n div 256 * 256 + n mod 256)" by (simp only: of_nat_add of_nat_mult of_nat_numeral)
  also have "\<dots> = of_nat n" by (simp only: div_mult_mod_eq)
  finally show ?thesis .
qed

lemma byte_at_bytes: "i < length bs \<Longrightarrow> byte_at (map char_of_byte bs @ r) i = bs ! i"
  by (simp add: byte_at_def nth_append)

section \<open>From the client to the server\<close>

definition header_bytes :: "nat \<Rightarrow> u8 list" where
  "header_bytes n =
     (if n \<le> 125 then [of_nat n OR 0x80]
      else if n \<le> 65535 then [0xFE, of_nat (n div 256), of_nat n]
      else 0xFF # be_bytes64 (of_nat n))"

lemma client_frame_header:
  "client_frame mkey p =
     0x81 # header_bytes (length p) @ mkey @ map (\<lambda>i. byte_of_char (p ! i) XOR mkey ! (i mod 4)) [0..<length p]"
  by (simp add: client_frame_def header_bytes_def Let_def)

text \<open>What the server reads in the header of such a frame.\<close>

lemma server_reads_header:
  assumes "n \<le> string_max_size" and buf: "buf = map char_of_byte (0x81 # header_bytes n) @ r"
  shows "byte_at buf 0 AND 0x0F = 0x1" and "byte_at buf 1 AND 0x80 \<noteq> 0"
    and "ucast (byte_at buf 1 AND 0x7F) = (if n \<le> 125 then of_nat n else if n \<le> 65535 then 126 else 127 :: u64)"
    and "125 < n \<Longrightarrow> n \<le> 65535 \<Longrightarrow> push_bit 8 (ucast (byte_at buf 2)) OR ucast (byte_at buf 3) = (of_nat n :: u64)"
    and "65535 < n \<Longrightarrow> be_value (map (\<lambda>i. byte_at buf (2 + i)) [0..<8]) = of_nat n"
proof -
  have at: "i < length (0x81 # header_bytes n) \<Longrightarrow> byte_at buf i = (0x81 # header_bytes n) ! i" for i
    unfolding buf by (rule byte_at_bytes)
  show "byte_at buf 0 AND 0x0F = 0x1" using at [of 0] by simp
  have b1: "byte_at buf 1 = (if n \<le> 125 then of_nat n OR 0x80 else if n \<le> 65535 then 0xFE else 0xFF)"
    using at [of 1] by (simp add: header_bytes_def)
  show "byte_at buf 1 AND 0x80 \<noteq> 0" using b1 byte_or_high(2) [of n] by simp
  show "ucast (byte_at buf 1 AND 0x7F) = (if n \<le> 125 then of_nat n else if n \<le> 65535 then 126 else 127 :: u64)"
    using b1 byte_or_high(1) [of n] by (simp add: ucast_of_nat_byte)
  show "push_bit 8 (ucast (byte_at buf 2)) OR ucast (byte_at buf 3) = (of_nat n :: u64)"
    if "125 < n" "n \<le> 65535"
    using at [of 2] at [of 3] that two_byte_length [of n] by (simp add: header_bytes_def)
  show "be_value (map (\<lambda>i. byte_at buf (2 + i)) [0..<8]) = of_nat n" if "65535 < n"
  proof -
    have "map (\<lambda>i. byte_at buf (2 + i)) [0..<8] = map (\<lambda>i. be_bytes64 (of_nat n) ! i) [0..<8]"
      using at that by (intro map_cong refl) (auto simp: header_bytes_def)
    also have "\<dots> = be_bytes64 (of_nat n)" using map_nth [of "be_bytes64 (of_nat n)"] by simp
    finally show ?thesis by (simp add: be_value_be_bytes64)
  qed
qed

definition ext_length :: "nat \<Rightarrow> nat" where
  "ext_length n = (if n \<le> 125 then 0 else if n \<le> 65535 then 2 else 8)"

lemma length_header_bytes: "length (header_bytes n) = 1 + ext_length n"
  by (simp add: header_bytes_def ext_length_def)

lemma u64_of_nat_less: "m < 2 ^ 64 \<Longrightarrow> n < 2 ^ 64 \<Longrightarrow> ((of_nat m :: u64) < of_nat n) = (m < n)"
  by (simp add: word_less_nat_alt unat_of_nat)

lemma u64_unat_of_nat: "n < 2 ^ 64 \<Longrightarrow> unat (of_nat n :: u64) = n"
  by (simp add: unat_of_nat)

lemma server_on_header:
  assumes n: "n \<le> string_max_size" and buf: "buf = map char_of_byte (0x81 # header_bytes n) @ r"
    and len: "length buf < 2 ^ 64"
  shows "Server_RecvFrame buf =
    (if length buf < 6 + ext_length n + n then Inr NeedMore
     else Inr (DataFrame (map (unmask_byte True buf (2 + ext_length n) (6 + ext_length n)) [0..<n])
                (drop (6 + ext_length n + n) buf) True))"
proof -
  note hd = server_reads_header [OF n buf]
  have l: "length buf = 2 + ext_length n + length r" by (simp add: buf length_header_bytes)
  have n63: "n < 2 ^ 63" using n by (simp add: string_max_size_def)
  have ext: "(if (if n \<le> 125 then of_nat n else if n \<le> 65535 then 126 else 127 :: u64) = 126 then 2
      else if (if n \<le> 125 then of_nat n else if n \<le> 65535 then 126 else 127 :: u64) = 127 then 8 else 0)
      = ext_length n"
  proof -
    have "n \<le> 125 \<Longrightarrow> (of_nat n :: u64) \<noteq> 126 \<and> (of_nat n :: u64) \<noteq> 127"
      by (auto simp: word_unat_eq_iff unat_of_nat)
    then show ?thesis by (simp add: ext_length_def)
  qed
  have plen: "(if (if n \<le> 125 then of_nat n else if n \<le> 65535 then 126 else 127 :: u64) = 126
      then push_bit 8 (ucast (byte_at buf 2)) OR ucast (byte_at buf 3)
      else if (if n \<le> 125 then of_nat n else if n \<le> 65535 then 126 else 127 :: u64) = 127
      then be_value (map (\<lambda>i. byte_at buf (2 + i)) [0..<8])
      else (if n \<le> 125 then of_nat n else if n \<le> 65535 then 126 else 127)) = (of_nat n :: u64)"
  proof -
    have "n \<le> 125 \<Longrightarrow> (of_nat n :: u64) \<noteq> 126 \<and> (of_nat n :: u64) \<noteq> 127"
      by (auto simp: word_unat_eq_iff unat_of_nat)
    then show ?thesis using hd(4,5) by simp
  qed
  have tot: "of_nat (2 + ext_length n + 4) + of_nat n = (of_nat (6 + ext_length n + n) :: u64)" by simp
  have tlen: "6 + ext_length n + n < 2 ^ 64" using n63 by (simp add: ext_length_def)
  have c1: "\<not> length buf < 2" "\<not> length buf < 2 + ext_length n" using l by simp_all
  have small: "unat (of_nat n :: u64) = n" using n63 by (simp add: u64_unat_of_nat)
  show ?thesis
    unfolding Server_RecvFrame_def Let_def hd(1,3) ext plen
    using n c1 hd(2) u64_of_nat_less [OF len tlen] u64_unat_of_nat [OF tlen] small
    by simp
qed

text \<open>A frame as it travels, and its length.\<close>

definition wire_frame :: "u8 list \<times> string \<Rightarrow> string" where
  "wire_frame f = map char_of_byte (client_frame (fst f) (snd f))"

definition good_frame :: "u8 list \<times> string \<Rightarrow> bool" where
  "good_frame f \<longleftrightarrow> length (fst f) = 4 \<and> length (snd f) \<le> string_max_size"

lemma length_wire_frame:
  "good_frame f \<Longrightarrow> length (wire_frame f) = 6 + ext_length (length (snd f)) + length (snd f)"
  by (simp add: wire_frame_def good_frame_def client_frame_header length_header_bytes)

lemma wire_frame_header:
  "wire_frame f = map char_of_byte (0x81 # header_bytes (length (snd f))) @
     map char_of_byte (fst f @ map (\<lambda>i. byte_of_char (snd f ! i) XOR fst f ! (i mod 4)) [0..<length (snd f)])"
  by (simp add: wire_frame_def client_frame_header)

lemma server_receives_frame:
  assumes g: "good_frame f" and len: "length (wire_frame f @ r) < 2 ^ 64"
  shows "Server_RecvFrame (wire_frame f @ r) = Inr (DataFrame (snd f) r True)"
proof -
  obtain mkey p where f: "f = (mkey, p)" by (cases f)
  let ?n = "length p" and ?x = "ext_length (length p)"
  let ?H = "0x81 # header_bytes ?n" and ?body = "map (\<lambda>i. byte_of_char (p ! i) XOR mkey ! (i mod 4)) [0..<?n]"
  have m4: "length mkey = 4" and n: "?n \<le> string_max_size" using g by (simp_all add: good_frame_def f)
  have w: "wire_frame f = map char_of_byte (?H @ mkey @ ?body)"
    by (simp add: wire_frame_header f)
  have hl: "length ?H = 2 + ?x" by (simp add: length_header_bytes)
  have at: "i < length (?H @ mkey @ ?body) \<Longrightarrow> byte_at (wire_frame f @ r) i = (?H @ mkey @ ?body) ! i" for i
    unfolding w by (rule byte_at_bytes)
  have body: "byte_at (wire_frame f @ r) (6 + ?x + i) = byte_of_char (p ! i) XOR mkey ! (i mod 4)" if "i < ?n" for i
    using at [of "6 + ?x + i"] that hl m4 by (simp add: nth_append del: upt_Suc)
  have key: "byte_at (wire_frame f @ r) (2 + ?x + i mod 4) = mkey ! (i mod 4)" for i
  proof -
    have "i mod 4 < 4" by simp
    then show ?thesis using at [of "2 + ?x + i mod 4"] hl m4 by (simp add: nth_append del: upt_Suc)
  qed
  have pay: "map (unmask_byte True (wire_frame f @ r) (2 + ?x) (6 + ?x)) [0..<?n] = p"
    by (rule nth_equalityI) (simp_all only: length_map length_upt minus_nat.diff_0 unmask_byte_def Let_def body key
        xor.assoc xor_self_eq xor.right_neutral char_of_byte_of_char nth_map nth_upt if_True add_0)
  have "Server_RecvFrame (wire_frame f @ r) =
      (if length (wire_frame f @ r) < 6 + ?x + ?n then Inr NeedMore
       else Inr (DataFrame (map (unmask_byte True (wire_frame f @ r) (2 + ?x) (6 + ?x)) [0..<?n])
                  (drop (6 + ?x + ?n) (wire_frame f @ r)) True))"
    by (rule server_on_header [OF n _ len]) (simp add: w)
  moreover have "length (wire_frame f) = 6 + ?x + ?n" using length_wire_frame [OF g] by (simp add: f)
  ultimately show ?thesis using pay by (simp add: f)
qed

lemma server_waits_for_frame:
  assumes g: "good_frame f" and k: "k < length (wire_frame f)" and len: "length (wire_frame f) < 2 ^ 64"
  shows "Server_RecvFrame (take k (wire_frame f)) = Inr NeedMore"
proof -
  let ?n = "length (snd f)" and ?b = "take k (wire_frame f)"
  let ?x = "ext_length ?n" and ?H = "0x81 # header_bytes (length (snd f))"
  have n: "?n \<le> string_max_size" using g by (simp add: good_frame_def)
  have lw: "length (wire_frame f) = 6 + ?x + ?n" by (rule length_wire_frame [OF g])
  have hl: "length ?H = 2 + ?x" by (simp add: length_header_bytes)
  consider "k < 2" | "2 \<le> k" "k < 2 + ?x" | "2 + ?x \<le> k" by linarith
  then show ?thesis
  proof cases
    case 1
    then have "length ?b < 2" by simp
    then show ?thesis unfolding Server_RecvFrame_def by (simp only: if_True)
  next
    case 2
    have "byte_at ?b 1 = byte_at (wire_frame f) 1" using 2 by (simp add: byte_at_def)
    moreover have "ucast (byte_at (wire_frame f) 1 AND 0x7F) =
        (if ?n \<le> 125 then of_nat ?n else if ?n \<le> 65535 then 126 else 127 :: u64)"
      by (rule server_reads_header(3) [OF n wire_frame_header])
    ultimately have p7: "ucast (byte_at ?b 1 AND 0x7F) = (if ?n \<le> 65535 then 126 else 127 :: u64)"
      using 2 by (simp add: ext_length_def split: if_split_asm)
    have "length ?b = k" using k by simp
    then show ?thesis using 2 p7 unfolding Server_RecvFrame_def Let_def
      by (auto simp: ext_length_def split: if_split_asm)
  next
    case 3
    have "take k (map char_of_byte ?H @ y) = map char_of_byte ?H @ take (k - length ?H) y" for y
      using 3 hl by (simp only: take_append length_map) simp
    then have "?b = map char_of_byte ?H @ take (k - length ?H)
        (map char_of_byte (fst f @ map (\<lambda>i. byte_of_char (snd f ! i) XOR fst f ! (i mod 4)) [0..<?n]))"
      unfolding wire_frame_header .
    from server_on_header [OF n this] show ?thesis using k lw len by simp
  qed
qed

section \<open>Draining a stream of frames\<close>

definition wire :: "(u8 list \<times> string) list \<Rightarrow> string" where
  "wire fs = concat (map wire_frame fs)"

text \<open>The handler's answers to a sequence of payloads.\<close>

fun answers ::
  "'j json_api \<Rightarrow> ('h, 'j) command_handler \<Rightarrow> int \<Rightarrow> string list \<Rightarrow> 'h \<Rightarrow> 'h \<times> net_event list" where
  "answers J handler fd [] h = (h, [])"
| "answers J handler fd (p # ps) h =
     (case answer J handler fd h p of (h1, ev) \<Rightarrow>
        (case answers J handler fd ps h1 of (h2, ev') \<Rightarrow> (h2, ev @ ev')))"

lemma answers_append:
  "answers J handler fd (ps @ qs) h =
     (case answers J handler fd ps h of (h1, ev) \<Rightarrow>
        (case answers J handler fd qs h1 of (h2, ev') \<Rightarrow> (h2, ev @ ev')))"
  by (induction ps arbitrary: h) (auto split: prod.splits)

text \<open>What is left of the stream when the complete frames are taken off: a strict prefix.\<close>

definition partial_frame :: "string \<Rightarrow> bool" where
  "partial_frame b \<longleftrightarrow>
     (\<exists>f k. good_frame f \<and> k < length (wire_frame f) \<and> length (wire_frame f) < 2 ^ 64 \<and> b = take k (wire_frame f))"

lemma wire_frame_length_pos: "0 < length (wire_frame f)"
  by (simp add: wire_frame_def client_frame_def Let_def)

lemma split_wire:
  assumes "\<forall>f \<in> set fs. good_frame f" and "length (wire fs) < 2 ^ 64" and "wire fs = x @ y"
  shows "\<exists>gs hs b. fs = gs @ hs \<and> x = wire gs @ b \<and> (hs = [] \<longrightarrow> b = [] \<and> y = []) \<and>
           (hs \<noteq> [] \<longrightarrow> partial_frame b) \<and> wire hs = b @ y"
  using assms
proof (induction fs arbitrary: x)
  case Nil
  then show ?case by (intro exI [of _ "[]"]) (simp add: wire_def)
next
  case (Cons f fs)
  have w: "wire (f # fs) = wire_frame f @ wire fs" by (simp add: wire_def)
  show ?case
  proof (cases "length x < length (wire_frame f)")
    case True
    then have "x = take (length x) (wire_frame f)" using Cons.prems(3) w by (metis append_eq_append_conv_if append_take_drop_id less_imp_le nat_less_le take_all_iff take_append append_same_eq append_eq_conv_conj min.absorb3 take_take diff_is_0_eq' take0 append_Nil2)
    then have "partial_frame x"
      unfolding partial_frame_def using Cons.prems(1,2) True w
      by (intro exI [of _ f] exI [of _ "length x"]) simp
    then show ?thesis using Cons.prems(3)
      by (intro exI [of _ "[]"] exI [of _ "f # fs"] exI [of _ x]) (simp add: wire_def)
  next
    case False
    then obtain x' where x': "x = wire_frame f @ x'" "wire fs = x' @ y"
      using Cons.prems(3) w by (metis append_eq_append_conv_if append_take_drop_id not_less append_eq_conv_conj drop_append)
    obtain gs hs b where "fs = gs @ hs" "x' = wire gs @ b" "hs = [] \<longrightarrow> b = [] \<and> y = []"
      "hs \<noteq> [] \<longrightarrow> partial_frame b" "wire hs = b @ y"
      using Cons.IH [of x'] Cons.prems x' w by auto
    then show ?thesis using x'
      by (intro exI [of _ "f # gs"] exI [of _ hs] exI [of _ b]) (simp add: wire_def)
  qed
qed

lemma partial_frame_waits: "partial_frame b \<Longrightarrow> Server_RecvFrame b = Inr NeedMore"
  unfolding partial_frame_def using server_waits_for_frame by blast

lemma Server_RecvFrame_empty: "Server_RecvFrame [] = Inr NeedMore"
  by (simp add: Server_RecvFrame_def)

lemma drain_wire:
  assumes "\<forall>f \<in> set fs. good_frame f" and "wc_buf c = wire fs @ b" and "length (wc_buf c) < 2 ^ 64"
    and "b = [] \<or> partial_frame b"
  shows "drain J handler c h =
    (case answers J handler (wc_fd c) (map snd fs) h of (h', ev) \<Rightarrow> Inr (c\<lparr>wc_buf := b\<rparr>, h', ev))"
  using assms
proof (induction fs arbitrary: c h)
  case Nil
  then have "Server_RecvFrame (wc_buf c) = Inr NeedMore"
    using partial_frame_waits Server_RecvFrame_empty by (auto simp: wire_def)
  then show ?case using Nil by (subst drain.simps) (simp add: wire_def)
next
  case (Cons f fs)
  have buf: "wc_buf c = wire_frame f @ (wire fs @ b)" using Cons.prems by (simp add: wire_def)
  have recv: "Server_RecvFrame (wc_buf c) = Inr (DataFrame (snd f) (wire fs @ b) True)"
    using server_receives_frame [of f "wire fs @ b"] Cons.prems buf by simp
  have IH: "drain J handler (c\<lparr>wc_buf := wire fs @ b\<rparr>) h' =
      (case answers J handler (wc_fd c) (map snd fs) h' of (h'', ev) \<Rightarrow> Inr (c\<lparr>wc_buf := b\<rparr>, h'', ev))" for h'
    using Cons.IH [of "c\<lparr>wc_buf := wire fs @ b\<rparr>" h'] Cons.prems buf by simp
  show ?case by (subst drain.simps) (simp add: recv IH split: prod.split)
qed

text \<open>Successive reads of one connection.\<close>

fun read_chunks ::
  "'j json_api \<Rightarrow> ('h, 'j) command_handler \<Rightarrow> WsConfig \<Rightarrow> string option \<Rightarrow> string list \<Rightarrow> ws_client \<Rightarrow> 'h \<Rightarrow>
   cpp_exception + (bool \<times> ws_client \<times> 'h \<times> net_event list)" where
  "read_chunks J handler cfg file [] c h = Inr (True, c, h, [])"
| "read_chunks J handler cfg file (chunk # chunks) c h =
     bind_sum (HandleRead J handler cfg file (Some chunk) c h) (\<lambda>(ok, c1, h1, ev).
       if ok then bind_sum (read_chunks J handler cfg file chunks c1 h1) (\<lambda>(ok', c2, h2, ev').
                    Inr (ok', c2, h2, ev @ ev'))
       else Inr (False, c1, h1, ev))"

lemma wire_append: "wire (fs @ gs) = wire fs @ wire gs"
  by (simp add: wire_def)

lemma read_chunks_wire:
  assumes "wc_upgraded c" and "\<forall>f \<in> set fs. good_frame f" and "length (wire fs) < 2 ^ 64"
    and "wc_buf c @ concat chunks = wire fs" and "wc_buf c = [] \<or> partial_frame (wc_buf c)"
  shows "read_chunks J handler cfg file chunks c h =
    (case answers J handler (wc_fd c) (map snd fs) h of (h', ev) \<Rightarrow> Inr (True, c\<lparr>wc_buf := []\<rparr>, h', ev))"
  using assms
proof (induction chunks arbitrary: c fs h)
  case Nil
  have "fs = []"
  proof (cases fs)
    case (Cons f fs')
    have "Server_RecvFrame (wire_frame f @ wire fs') = Inr (DataFrame (snd f) (wire fs') True)"
      using Nil.prems Cons by (intro server_receives_frame) (simp_all add: wire_def)
    moreover have "Server_RecvFrame (wire fs) = Inr NeedMore"
      using Nil.prems partial_frame_waits Server_RecvFrame_empty by fastforce
    ultimately show ?thesis using Cons by (simp add: wire_def)
  qed
  then show ?case using Nil by (simp add: wire_def)
next
  case (Cons chunk chunks)
  let ?c1 = "c\<lparr>wc_buf := wc_buf c @ chunk\<rparr>"
  obtain gs hs b where fs: "fs = gs @ hs" and x: "wc_buf c @ chunk = wire gs @ b"
    and b: "hs = [] \<longrightarrow> b = [] \<and> concat chunks = []" "hs \<noteq> [] \<longrightarrow> partial_frame b"
    and y: "wire hs = b @ concat chunks"
    using split_wire [OF Cons.prems(2,3), of "wc_buf c @ chunk" "concat chunks"] Cons.prems(4) by auto
  have len: "length (wc_buf ?c1) < 2 ^ 64" "length (wire hs) < 2 ^ 64"
    using Cons.prems(3) fs arg_cong [OF Cons.prems(4), of length] by (simp_all add: wire_append)
  have b': "b = [] \<or> partial_frame b" using b by blast
  obtain h1 ev where a: "answers J handler (wc_fd c) (map snd gs) h = (h1, ev)" by fastforce
  have "drain J handler ?c1 h = Inr (?c1\<lparr>wc_buf := b\<rparr>, h1, ev)"
    using drain_wire [of gs ?c1 b J handler h] Cons.prems(2) fs x len b' a by simp
  then have hr: "HandleRead J handler cfg file (Some chunk) c h = Inr (True, c\<lparr>wc_buf := b\<rparr>, h1, ev)"
    using Cons.prems(1) by (simp add: HandleRead_def Let_def)
  have IH: "read_chunks J handler cfg file chunks (c\<lparr>wc_buf := b\<rparr>) h1 =
      (case answers J handler (wc_fd c) (map snd hs) h1 of (h', ev) \<Rightarrow> Inr (True, c\<lparr>wc_buf := []\<rparr>, h', ev))"
    using Cons.IH [of "c\<lparr>wc_buf := b\<rparr>" hs h1] Cons.prems(1,2) fs len y b' by simp
  show ?case using hr IH a by (simp add: fs answers_append split: prod.split)
qed

section \<open>From the server to the client\<close>

lemma recv_n_append: "recv_n (length bs) (map char_of_byte bs @ r) = Some (bs, r)"
  by (induction bs) simp_all

lemma recv_n_2 [simp]: "recv_n 2 (char_of_byte a # char_of_byte b # r) = Some ([a, b], r)"
  by (simp add: numeral_2_eq_2)

lemma recv_n_chars: "recv_n (length t) (t @ r) = Some (map byte_of_char t, r)"
  by (induction t) simp_all

definition server_header :: "nat \<Rightarrow> u8 list" where
  "server_header n =
     (if n < 126 then [of_nat n]
      else if n < 65536 then [126, of_nat (n div 256), of_nat n AND 0xFF]
      else 127 # be_bytes64 (of_nat n))"

lemma server_frame_header:
  "server_frame t = map char_of_byte (0x81 # server_header (length t)) @ t"
  by (simp add: server_frame_def server_header_def Let_def be_chars64_def)

lemma and_255: "(x :: u8) AND 0xFF = x"
proof -
  have "(0xFF :: u8) = - 1" by simp
  then show ?thesis by (metis and.right_neutral)
qed

lemma client_receives_frame:
  assumes n: "length t \<le> string_max_size"
  shows "Client_RecvFrame (server_frame t @ r) = Inr (Some (t, r))"
proof -
  let ?n = "length t"
  have n63: "?n < 2 ^ 63" using n by (simp add: string_max_size_def)
  then have un: "unat (of_nat ?n :: u64) = ?n" by (simp add: u64_unat_of_nat)
  have body: "recv_n ?n (t @ r) = Some (map byte_of_char t, r)" by (rule recv_n_chars)
  have pay: "map (\<lambda>i. char_of_byte (map byte_of_char t ! i)) [0..<?n] = t"
    by (rule nth_equalityI) simp_all
  consider "?n < 126" | "126 \<le> ?n" "?n < 65536" | "65536 \<le> ?n" by linarith
  then show ?thesis
  proof cases
    case 1
    have "recv_n 2 (server_frame t @ r) = Some ([0x81, of_nat ?n], t @ r)"
      using 1 by (simp add: server_frame_header server_header_def)
    moreover have "(of_nat ?n :: u64) \<noteq> 126" "(of_nat ?n :: u64) \<noteq> 127"
      using 1 by (auto simp: word_unat_eq_iff unat_of_nat)
    moreover have "ucast (of_nat ?n :: u8) = (of_nat ?n :: u64)" using 1 by (simp add: ucast_of_nat_byte)
    ultimately show ?thesis using 1 n un body pay byte_or_high(3,4) [of ?n]
      by (simp add: Client_RecvFrame_def)
  next
    case 2
    have "recv_n 2 (server_frame t @ r) = Some ([0x81, 126], map char_of_byte [of_nat (?n div 256), of_nat ?n] @ t @ r)"
      using 2 by (simp add: server_frame_header server_header_def and_255)
    moreover have "recv_n 2 (map char_of_byte [of_nat (?n div 256), of_nat ?n] @ t @ r)
        = Some ([of_nat (?n div 256), of_nat ?n], t @ r)"
      by simp
    ultimately show ?thesis using n un body pay two_byte_length [OF 2(2)]
      by (simp add: Client_RecvFrame_def)
  next
    case 3
    have "recv_n 2 (server_frame t @ r) = Some ([0x81, 127], map char_of_byte (be_bytes64 (of_nat ?n)) @ t @ r)"
      using 3 by (simp add: server_frame_header server_header_def)
    moreover have "recv_n 8 (map char_of_byte (be_bytes64 (of_nat ?n)) @ t @ r) = Some (be_bytes64 (of_nat ?n), t @ r)"
      using recv_n_append [of "be_bytes64 (of_nat ?n)" "t @ r"] by simp
    ultimately show ?thesis using n un body pay
      by (simp add: Client_RecvFrame_def be_value_be_bytes64)
  qed
qed

end
