(* ===== verification/Fg_WsServer.thy ===== *)
theory Fg_WsServer
  imports Fg_WsCodec
begin

text \<open>
  Properties of the WebSocket server: what its reads do to the descriptors, the handshake of the two
  ends, and the frames that defeat it. Its runs and their invariant are in \<open>Fg_WsThreads\<close>.
\<close>

section \<open>Descriptors\<close>

text \<open>
  The set of open descriptors after a sequence of system calls; \<^const>\<open>None\<close> when a call uses a
  descriptor that is not open, or one is obtained that already is.
\<close>

fun run_events :: "int set \<Rightarrow> net_event list \<Rightarrow> int set option" where
  "run_events S [] = Some S"
| "run_events S (Opened fd # es) = (if fd \<in> S then None else run_events (insert fd S) es)"
| "run_events S (Wrote fd d # es) = (if fd \<in> S then run_events S es else None)"
| "run_events S (Closed fd # es) = (if fd \<in> S then run_events (S - {fd}) es else None)"
| "run_events S (Used fd # es) = (if fd \<in> S then run_events S es else None)"
| "run_events S (Polled fd # es) = (if fd \<in> S then run_events S es else None)"

lemma run_events_append:
  "run_events S (xs @ ys) = (case run_events S xs of None \<Rightarrow> None | Some S' \<Rightarrow> run_events S' ys)"
  by (induction S xs rule: run_events.induct) auto

definition only_writes :: "int \<Rightarrow> net_event list \<Rightarrow> bool" where
  "only_writes fd ev \<longleftrightarrow> (\<forall>e \<in> set ev. \<exists>d. e = Wrote fd d)"

lemma only_writes_simps [simp]:
  "only_writes fd []" "only_writes fd (x @ y) \<longleftrightarrow> only_writes fd x \<and> only_writes fd y"
  "only_writes fd (e # y) \<longleftrightarrow> (\<exists>d. e = Wrote fd d) \<and> only_writes fd y"
  by (auto simp: only_writes_def)

lemma run_events_writes: "only_writes fd ev \<Longrightarrow> fd \<in> S \<Longrightarrow> run_events S ev = Some S"
  by (induction ev) auto

lemma only_writes_SendText [simp]: "only_writes fd (Server_SendText fd t)"
  by (simp add: Server_SendText_def)

lemma only_writes_answer: "answer J handler fd h p = (h', ev) \<Longrightarrow> only_writes fd ev"
  by (auto simp: answer_def split: option.splits prod.splits if_splits)

lemma drain_effects:
  "drain J handler c h = Inr (c', h', ev) \<Longrightarrow>
   only_writes (wc_fd c) ev \<and> wc_fd c' = wc_fd c \<and> wc_upgraded c' = wc_upgraded c"
proof (induction "length (wc_buf c)" arbitrary: c h c' h' ev rule: less_induct)
  case less
  show ?case
  proof (cases "\<exists>p r. Server_RecvFrame (wc_buf c) = Inr (DataFrame p r True)")
    case True
    then obtain p r where recv: "Server_RecvFrame (wc_buf c) = Inr (DataFrame p r True)" by blast
    obtain h1 ev1 where a: "answer J handler (wc_fd c) h p = (h1, ev1)" by fastforce
    obtain ev2 where d: "drain J handler (c\<lparr>wc_buf := r\<rparr>) h1 = Inr (c', h', ev2)" and ev: "ev = ev1 @ ev2"
      using less.prems by (subst (asm) drain.simps) (auto simp: recv a bind_sum_Inr)
    have "length r < length (wc_buf c)" by (rule Server_RecvFrame_shrinks [OF recv])
    then show ?thesis using less.hyps [OF _ d] only_writes_answer [OF a] ev by simp
  next
    case False
    then show ?thesis using less.prems
      by (subst (asm) drain.simps)
         (auto split: sum.splits recv_result.splits if_splits simp: Server_SendClose_def)
  qed
qed

lemma HandleRead_effects:
  assumes "HandleRead J handler cfg file chunk c h = Inr (ok, c', h', ev)"
  shows "only_writes (wc_fd c) ev \<and> wc_fd c' = wc_fd c"
  using assms
  by (auto simp: HandleRead_def DoUpgrade_def ServeHttp_def Let_def bind_sum_Inr
           split: option.splits if_splits prod.splits dest!: drain_effects)

text \<open>A live client whose headers are not complete yet, or one that is upgraded.\<close>

definition client_ok :: "ws_client \<Rightarrow> bool" where
  "client_ok c \<longleftrightarrow> \<not> wc_dead c \<and> 0 \<le> wc_fd c \<and>
     (\<not> wc_upgraded c \<longrightarrow> \<not> str_contains (crlf @ crlf) (wc_buf c))"

lemma HandleRead_ok:
  assumes "HandleRead J handler cfg file chunk c h = Inr (True, c', h', ev)" and "client_ok c" and "\<not> wc_dead c'"
  shows "client_ok c'"
  using assms
  by (auto simp: HandleRead_def DoUpgrade_def Let_def bind_sum_Inr client_ok_def
           split: option.splits if_splits prod.splits dest!: drain_effects)

definition live :: "ws_client list \<Rightarrow> ws_client list" where
  "live cs = filter (\<lambda>c. \<not> wc_dead c) cs"

lemma map_fd_live_Cons:
  "map wc_fd (live (c # cs)) = (if wc_dead c then [] else [wc_fd c]) @ map wc_fd (live cs)"
  by (simp add: live_def)

lemma read_clients_ok:
  assumes "read_clients J handler cfg file ready cs h = Inr (cs', h', ev)"
    and "\<forall>c \<in> set cs. client_ok c" and "distinct (map wc_fd cs)" and "set (map wc_fd cs) \<subseteq> S"
  shows "\<exists>S'. run_events S ev = Some S' \<and> S' \<subseteq> S \<and> S - set (map wc_fd cs) \<subseteq> S' \<and>
     (\<forall>c \<in> set (live cs'). client_ok c) \<and> distinct (map wc_fd (live cs')) \<and>
     set (map wc_fd (live cs')) \<subseteq> S' \<inter> set (map wc_fd cs) \<and> length (live cs') \<le> length cs"
  using assms
proof (induction cs arbitrary: cs' h h' ev S)
  case Nil
  then show ?case by (simp add: live_def)
next
  case (Cons c cs)
  have c: "client_ok c" "wc_fd c \<in> S" "wc_fd c \<notin> set (map wc_fd cs)" "\<not> wc_dead c" "0 \<le> wc_fd c"
    using Cons.prems by (auto simp: client_ok_def)
  show ?case
  proof (cases "ready (wc_fd c)")
    case None
    then obtain cs1 where r: "read_clients J handler cfg file ready cs h = Inr (cs1, h', ev)" "cs' = c # cs1"
      using Cons.prems(1) c by (auto simp: bind_sum_Inr)
    obtain S' where "run_events S ev = Some S'" "S' \<subseteq> S" "S - set (map wc_fd cs) \<subseteq> S'"
      "\<forall>c \<in> set (live cs1). client_ok c" "distinct (map wc_fd (live cs1))"
      "set (map wc_fd (live cs1)) \<subseteq> S' \<inter> set (map wc_fd cs)" "length (live cs1) \<le> length cs"
      using Cons.IH [OF r(1), of S] Cons.prems by auto
    then show ?thesis using r c by (intro exI [of _ S']) (auto simp: live_def)
  next
    case (Some chunk)
    obtain ok c1 h1 ev1 cs1 ev2 c2 evc where
      hr: "HandleRead J handler cfg file chunk c h = Inr (ok, c1, h1, ev1)" and
      rest: "read_clients J handler cfg file ready cs h1 = Inr (cs1, h', ev2)" and
      c2: "(c2, evc) = (if ok then (c1, []) else (c1\<lparr>wc_fd := - 1, wc_dead := True\<rparr>, [Closed (wc_fd c1)]))" and
      eqs: "cs' = c2 # cs1" "ev = Used (wc_fd c) # ev1 @ evc @ ev2"
      using Cons.prems(1) c Some by (auto simp: bind_sum_Inr Let_def split: prod.splits if_splits)
    note eff = HandleRead_effects [OF hr]
    define T where "T = (if ok then S else S - {wc_fd c})"
    have T: "run_events S (ev1 @ evc) = Some T"
      using eff c c2 by (auto simp: T_def run_events_append run_events_writes split: if_splits)
    have used: "run_events S ev = run_events S ((ev1 @ evc) @ ev2)" using eqs c(2) by simp
    have "set (map wc_fd cs) \<subseteq> T" using Cons.prems(4) c(3) by (auto simp: T_def image_iff)
    then obtain S' where S': "run_events T ev2 = Some S'" "S' \<subseteq> T" "T - set (map wc_fd cs) \<subseteq> S'"
      "\<forall>c \<in> set (live cs1). client_ok c" "distinct (map wc_fd (live cs1))"
      "set (map wc_fd (live cs1)) \<subseteq> S' \<inter> set (map wc_fd cs)" "length (live cs1) \<le> length cs"
      using Cons.IH [OF rest, of T] Cons.prems by auto
    have "run_events S ev = Some S'"
      using run_events_append [of S "ev1 @ evc" ev2] T S'(1) used by simp
    moreover have "\<not> wc_dead c2 \<Longrightarrow> ok \<and> client_ok c2 \<and> wc_fd c2 = wc_fd c"
      using c2 eff HandleRead_ok hr c by (cases ok) auto
    ultimately show ?thesis using S' eqs c
      by (intro exI [of _ S']) (auto simp: live_def T_def split: if_splits)
  qed
qed

section \<open>The handshake of the two ends\<close>

text \<open>The client's reading of the response, line by line.\<close>

lemma read_response_step:
  assumes "length resp < 4096" and "c \<noteq> CHR 0x0A"
  shows "read_response resp (c # s) = read_response (resp @ [c]) s"
proof -
  have "drop (length (resp @ [c]) - 4) (resp @ [c]) \<noteq> crlf @ crlf"
  proof
    assume "drop (length (resp @ [c]) - 4) (resp @ [c]) = crlf @ crlf"
    then have "last (crlf @ crlf) = last (resp @ [c])" by (metis append_is_Nil_conv crlf_def last_drop list.distinct(1) drop_eq_Nil not_le)
    then show False using assms(2) by (simp add: crlf_def)
  qed
  then show ?thesis using assms(1) by (subst read_response.simps) (simp add: Let_def)
qed

lemma read_response_text:
  "CHR 0x0A \<notin> set x \<Longrightarrow> length resp + length x \<le> 4096 \<Longrightarrow>
   read_response resp (x @ s) = read_response (resp @ x) s"
proof (induction x arbitrary: resp)
  case (Cons c x)
  then show ?case using read_response_step [of resp c "x @ s"] by auto
qed simp

lemma read_response_line:
  assumes "c \<noteq> CHR 0x0A" and "length resp + 3 \<le> 4096"
  shows "read_response (resp @ [c]) (crlf @ s) = read_response (resp @ [c] @ crlf) s"
proof -
  have "drop (Suc (length resp) - 1) (resp @ [c, CHR 0x0D, CHR 0x0A]) \<noteq> crlf @ crlf" using assms(1) by (simp add: crlf_def)
  moreover have "take 4 (drop (length resp - 1) (resp @ [c, CHR 0x0D, CHR 0x0A])) \<noteq> crlf @ crlf" 
    using assms(1) by (cases resp rule: rev_cases) (auto simp: crlf_def)
  ultimately show ?thesis
    using assms read_response_step [of "resp @ [c]" "CHR 0x0D" "CHR 0x0A # s"]
    by (simp add: crlf_def) (subst read_response.simps, auto simp: crlf_def Let_def)
qed

lemma read_response_end:
  assumes "length resp + 4 \<le> 4096"
  shows "read_response (resp @ crlf) (crlf @ s) = Some (resp @ crlf @ crlf, s)"
proof -
  have "read_response (resp @ crlf) (crlf @ s) = read_response (resp @ crlf @ [CHR 0x0D]) (CHR 0x0A # s)"
    using read_response_step [of "resp @ crlf" "CHR 0x0D" "CHR 0x0A # s"] assms by (simp add: crlf_def)
  also have "\<dots> = Some (resp @ crlf @ crlf, s)"
    using assms by (subst read_response.simps) (simp add: crlf_def Let_def)
  finally show ?thesis .
qed

lemma accept_key_chars: "set (accept_key key) \<subseteq> set base64_alphabet \<union> {CHR ''=''}"
  unfolding accept_key_def Server_Base64_encode by (rule base64_encode_chars)

lemma no_control_char:
  assumes "set s \<subseteq> set base64_alphabet \<union> {CHR ''=''}"
  shows "CHR 0x0A \<notin> set s" and "CHR 0x0D \<notin> set s"
  using assms by (auto simp: base64_alphabet_def)

lemma length_accept_key: "length (accept_key key) = 28"
  by (simp add: accept_key_def Server_Base64_encode length_base64_encode length_Server_Sha1)

lemma accept_key_last: "\<exists>a c. accept_key key = a @ [c] \<and> c \<noteq> CHR 0x0A"
proof -
  have "accept_key key \<noteq> []" using length_accept_key [of key] by auto
  then obtain a c where "accept_key key = a @ [c]" by (metis append_butlast_last_id)
  then show ?thesis using no_control_char(1) [OF accept_key_chars, of key] by auto
qed

lemma client_reads_upgrade:
  "read_response [] (upgrade_response key @ s) = Some (upgrade_response key, s)"
proof -
  let ?l1 = "''HTTP/1.1 101 Switching Protocols''" and ?l2 = "''Upgrade: websocket''"
    and ?l3 = "''Connection: Upgrade''"
  obtain a c where l4: "''Sec-WebSocket-Accept: '' @ accept_key key = a @ [c]" "c \<noteq> CHR 0x0A" "CHR 0x0A \<notin> set a" "length a = 49"
  proof -
    obtain a c where ac: "accept_key key = a @ [c]" "c \<noteq> CHR 0x0A" using accept_key_last by blast
    moreover have "length a = 27" using length_accept_key [of key] ac by simp
    moreover have "CHR 0x0A \<notin> set a" using no_control_char(1) [OF accept_key_chars, of key] ac by simp
    ultimately show ?thesis by (intro that [of "''Sec-WebSocket-Accept: '' @ a" c]) auto
  qed
  have line: "read_response resp (b @ [d] @ crlf @ t) = read_response (resp @ b @ [d] @ crlf) t"
    if "CHR 0x0A \<notin> set b" "d \<noteq> CHR 0x0A" "length resp + length b + 4 \<le> 4096" for resp b d t
    using that read_response_text [of "b @ [d]" resp "crlf @ t"] read_response_line [of d "resp @ b" t] by auto
  have resp: "upgrade_response key =
      (?l1 @ crlf) @ (?l2 @ crlf) @ (?l3 @ crlf) @ (a @ [c] @ crlf) @ crlf"
    using l4(1) by (simp add: upgrade_response_def)
  have s1: "read_response [] ((?l1 @ crlf) @ t) = read_response (?l1 @ crlf) t" for t
    using line [of "''HTTP/1.1 101 Switching Protocol''" "CHR ''s''" "[]" t] by simp
  have s2: "read_response r ((?l2 @ crlf) @ t) = read_response (r @ ?l2 @ crlf) t" if "length r < 200" for r t
    using line [of "''Upgrade: websocke''" "CHR ''t''" r t] that by simp
  have s3: "read_response r ((?l3 @ crlf) @ t) = read_response (r @ ?l3 @ crlf) t" if "length r < 200" for r t
    using line [of "''Connection: Upgrad''" "CHR ''e''" r t] that by simp
  have s4: "read_response r ((a @ [c] @ crlf) @ t) = read_response (r @ a @ [c] @ crlf) t" if "length r < 200" for r t
    using line [of a c r t] l4 that by simp
  let ?r = "(?l1 @ crlf) @ (?l2 @ crlf) @ (?l3 @ crlf)"
  have "read_response [] (upgrade_response key @ s) =
      read_response [] ((?l1 @ crlf) @ (?l2 @ crlf) @ (?l3 @ crlf) @ (a @ [c] @ crlf) @ crlf @ s)"
    by (simp only: resp append_assoc)
  also have "\<dots> = read_response (?l1 @ crlf) ((?l2 @ crlf) @ (?l3 @ crlf) @ (a @ [c] @ crlf) @ crlf @ s)"
    by (rule s1)
  also have "\<dots> = read_response ((?l1 @ crlf) @ (?l2 @ crlf)) ((?l3 @ crlf) @ (a @ [c] @ crlf) @ crlf @ s)"
    by (rule s2) (simp add: crlf_def)
  also have "\<dots> = read_response (((?l1 @ crlf) @ (?l2 @ crlf)) @ (?l3 @ crlf)) ((a @ [c] @ crlf) @ crlf @ s)"
    by (rule s3) (simp add: crlf_def)
  also have "\<dots> = read_response ((((?l1 @ crlf) @ (?l2 @ crlf)) @ (?l3 @ crlf)) @ (a @ [c] @ crlf)) (crlf @ s)"
    by (rule s4) (simp add: crlf_def)
  also have "\<dots> = Some (upgrade_response key, s)"
    using read_response_end [of "?r @ a @ [c]" s] l4(4) by (simp add: resp crlf_def)
  finally show ?thesis .
qed

lemma to_string_nat_no_S: "CHR ''S'' \<notin> set (to_string_nat n)"
proof
  assume "CHR ''S'' \<in> set (to_string_nat n)"
  then have "is_digit (CHR ''S'')" using to_string_nat_digits by blast
  then show False by (simp add: is_digit_def)
qed

lemma DoUpgrade_header:
  assumes a: "CHR ''S'' \<notin> set a" and key: "CHR 0x0D \<notin> set key"
    and buf: "wc_buf c = a @ key_header @ (key @ crlf @ z)"
  shows "DoUpgrade c = (True, c\<lparr>wc_upgraded := True, wc_buf := []\<rparr>, [Wrote (wc_fd c) (upgrade_response key)])"
proof -
  have pos: "str_find key_header (wc_buf c) = Some (length a)"
    unfolding buf using a by (intro str_find_append) (simp_all add: key_header_def)
  have "str_find crlf (key @ crlf @ z) = Some (length key)"
    using key by (intro str_find_append) (simp_all add: crlf_def)
  then have endp: "str_find_from crlf (wc_buf c) (length a + length key_header)
      = Some (length a + length key_header + length key)"
    unfolding str_find_from_def buf by simp
  have "str_substr (wc_buf c) (length a + length key_header)
          (length a + length key_header + length key - length a - length key_header) = key"
    unfolding str_substr_def buf by simp
  then show ?thesis unfolding DoUpgrade_def pos option.case endp Let_def by simp
qed

lemma DoUpgrade_request:
  assumes "CHR ''S'' \<notin> set host" and "CHR 0x0D \<notin> set key" and "wc_buf c = client_request host port key"
  shows "DoUpgrade c = (True, c\<lparr>wc_upgraded := True, wc_buf := []\<rparr>, [Wrote (wc_fd c) (upgrade_response key)])"
proof (rule DoUpgrade_header [OF _ assms(2)])
  show "wc_buf c = (''GET / HTTP/1.1'' @ crlf @ ''Host: '' @ host @ '':'' @ to_string_nat port @ crlf @
     ''Upgrade: websocket'' @ crlf @ ''Connection: Upgrade'' @ crlf) @ key_header @
     (key @ crlf @ ''Sec-WebSocket-Version: 13'' @ crlf @ crlf)"
    using assms(3) by (simp add: client_request_def key_header_def)
  show "CHR ''S'' \<notin> set (''GET / HTTP/1.1'' @ crlf @ ''Host: '' @ host @ '':'' @ to_string_nat port @ crlf @
     ''Upgrade: websocket'' @ crlf @ ''Connection: Upgrade'' @ crlf)"
    using assms(1) to_string_nat_no_S by (simp add: crlf_def)
qed

lemma request_headers:
  "str_contains (crlf @ crlf) (client_request host port key)"
  "str_contains ''Upgrade: websocket'' (client_request host port key)"
proof -
  have "client_request host port key =
    (''GET / HTTP/1.1'' @ crlf @ ''Host: '' @ host @ '':'' @ to_string_nat port @ crlf @
     ''Upgrade: websocket'' @ crlf @ ''Connection: Upgrade'' @ crlf @
     ''Sec-WebSocket-Key: '' @ key @ crlf @ ''Sec-WebSocket-Version: 13'') @ crlf @ crlf"
    by (simp add: client_request_def)
  then show "str_contains (crlf @ crlf) (client_request host port key)"
    by (metis str_contains_append_at_end)
  have "client_request host port key =
    (''GET / HTTP/1.1'' @ crlf @ ''Host: '' @ host @ '':'' @ to_string_nat port @ crlf) @
     ''Upgrade: websocket'' @ (crlf @ ''Connection: Upgrade'' @ crlf @
     ''Sec-WebSocket-Key: '' @ key @ crlf @ ''Sec-WebSocket-Version: 13'' @ crlf @ crlf)"
    by (simp add: client_request_def)
  then show "str_contains ''Upgrade: websocket'' (client_request host port key)"
    by (metis str_contains_append)
qed

lemma sock_send_all:
  assumes "\<And>d. d \<noteq> [] \<Longrightarrow> 0 < send d"
  shows "sock_send send data = (True, data)"
proof (induction "length data" arbitrary: data rule: less_induct)
  case less
  show ?case
  proof (cases "data = []")
    case False
    then have "sock_send send (drop (nat (send data)) data) = (True, drop (nat (send data)) data)"
      using assms [OF False] by (intro less) simp
    then show ?thesis using assms [OF False] False by (subst sock_send.simps) (simp add: Let_def)
  qed (simp add: sock_send.simps)
qed

lemma upgrade_response_101: "str_contains ''101'' (upgrade_response key)"
proof -
  have "upgrade_response key = ''HTTP/1.1 '' @ ''101'' @ ('' Switching Protocols'' @ crlf @
     ''Upgrade: websocket'' @ crlf @ ''Connection: Upgrade'' @ crlf @
     ''Sec-WebSocket-Accept: '' @ accept_key key @ crlf @ crlf)"
    by (simp add: upgrade_response_def)
  then show ?thesis by (metis str_contains_append)
qed

section \<open>Properties\<close>

text \<open>A concrete JSON library (texts as values) and a handler that counts and echoes.\<close>

definition demo_json :: "string json_api" where
  "demo_json = \<lparr>json_parse = Some, json_dump = Some, json_is_null = (\<lambda>_. False)\<rparr>"

definition echo_handler :: "(nat, string) command_handler" where
  "echo_handler n j = (Suc n, Some j)"

definition demo_client :: ws_client where
  "demo_client = \<lparr>wc_fd = 5, wc_buf = [], wc_upgraded = True, wc_dead = False\<rparr>"

definition demo_server :: "nat ws_server" where
  "demo_server = \<lparr>ws_cfg = WsConfig_default, ws_server_fd = 3, ws_running = True, ws_thread = True,
     ws_clients = [demo_client], ws_handler = 0, ws_log = [Opened 3, Opened 5]\<rparr>"

definition demo_input :: "string \<Rightarrow> loop_input" where
  "demo_input data = \<lparr>in_select = True, in_accept = None, in_read = (\<lambda>_. Some (Some data)), in_file = None\<rparr>"

lemmas demo_ws = demo_client_def demo_server_def demo_input_def

text \<open>
  C16. Frames from the client reach the server's handler exactly once, in order and unmasked,
  however TCP cuts the stream into reads: on an upgraded connection with an empty buffer, reading
  any sequence of chunks whose concatenation is the wire form of a sequence of client frames gives
  exactly the answers of the handler to the payloads, one after the other, and leaves the buffer
  empty. In particular no incomplete frame is ever misread, and the drain loop always ends.
\<close>

theorem frames_survive_chunking:
  assumes "wc_upgraded c" and "wc_buf c = []" and "\<forall>f \<in> set fs. good_frame f"
    and "concat chunks = wire fs" and "length (wire fs) < 2 ^ 64"
  shows "read_chunks J handler cfg ui chunks c h =
    (case answers J handler (wc_fd c) (map snd fs) h of (h', ev) \<Rightarrow> Inr (True, c, h', ev))"
  using read_chunks_wire [OF assms(1,3,5), of chunks J handler cfg ui h] assms by simp

theorem frames_survive_chunking_witness:
  "read_chunks demo_json echo_handler WsConfig_default None
     [take 3 (wire [([1, 2, 3, 4], ''hi''), ([9, 8, 7, 6], ''ho'')]),
      drop 3 (wire [([1, 2, 3, 4], ''hi''), ([9, 8, 7, 6], ''ho'')])] demo_client 0 =
   (case answers demo_json echo_handler 5 [''hi'', ''ho''] 0 of
      (h', ev) \<Rightarrow> Inr (True, demo_client, h', ev))"
proof -
  let ?fs = "[([1, 2, 3, 4], ''hi''), ([9, 8, 7, 6], ''ho'')] :: (u8 list \<times> string) list"
  have good: "\<forall>f \<in> set ?fs. good_frame f" by (simp add: good_frame_def string_max_size_def)
  then have "length (wire ?fs) < 2 ^ 64"
    by (simp add: wire_def length_wire_frame ext_length_def)
  then show ?thesis
    using frames_survive_chunking [of demo_client ?fs "[take 3 (wire ?fs), drop 3 (wire ?fs)]" demo_json echo_handler] good
    by (simp add: demo_client_def)
qed

text \<open>
  C20. What the server sends, the client receives: for every payload up to the largest a string can
  hold, in each of the three length formats, \<open>WsClient::RecvFrame\<close> on a stream that starts with
  the frame of \<open>WsServer::SendText\<close> returns the payload and consumes exactly the frame.
\<close>

theorem server_to_client_roundtrip:
  assumes "length t \<le> string_max_size"
  shows "Client_RecvFrame (server_frame t @ r) = Inr (Some (t, r))"
  by (rule client_receives_frame [OF assms])

theorem server_to_client_roundtrip_witness:
  "Client_RecvFrame (server_frame ''status'' @ ''rest'') = Inr (Some (''status'', ''rest''))"
  by (rule server_to_client_roundtrip) (simp add: string_max_size_def)

text \<open>
  C19. The two handshakes fit together: the client's request makes the server upgrade the
  connection and answer with the accept key of the client's key, and on that answer the client's
  handshake succeeds and leaves the rest of the stream for the first frame.
\<close>

theorem handshake_completes:
  assumes "CHR ''S'' \<notin> set host" and "\<And>d. d \<noteq> [] \<Longrightarrow> 0 < send d"
  shows "HandleRead J handler cfg ui (Some (client_request host port (Client_Base64 key))) (ws_client_new fd) h
           = Inr (True, (ws_client_new fd)\<lparr>wc_upgraded := True\<rparr>, h,
                  [Wrote fd (upgrade_response (Client_Base64 key))]) \<and>
         Handshake send host port key (upgrade_response (Client_Base64 key) @ s)
           = (Some s, client_request host port (Client_Base64 key))"
proof (rule conjI)
  let ?key = "Client_Base64 key"
  let ?c = "(ws_client_new fd)\<lparr>wc_buf := client_request host port ?key\<rparr>"
  have "CHR 0x0D \<notin> set ?key"
    using no_control_char(2) base64_encode_chars by (simp add: Client_Base64_eq Server_Base64_encode)
  then have "DoUpgrade ?c = (True, ?c\<lparr>wc_upgraded := True, wc_buf := []\<rparr>, [Wrote (wc_fd ?c) (upgrade_response ?key)])"
    using assms(1) by (intro DoUpgrade_request) simp_all
  then show "HandleRead J handler cfg ui (Some (client_request host port ?key)) (ws_client_new fd) h
      = Inr (True, (ws_client_new fd)\<lparr>wc_upgraded := True\<rparr>, h, [Wrote fd (upgrade_response ?key)])"
    using request_headers [of host port ?key] by (simp add: HandleRead_def ws_client_new_def Let_def)
  show "Handshake send host port key (upgrade_response ?key @ s) = (Some s, client_request host port ?key)"
    using sock_send_all [of send] assms(2) client_reads_upgrade upgrade_response_101
    by (simp add: Handshake_def)
qed

theorem handshake_completes_witness:
  "fst (Handshake (\<lambda>d. 1) ''localhost'' 8765 (replicate 16 7)
     (upgrade_response (Client_Base64 (replicate 16 7)) @ ''ab'')) = Some ''ab''"
  using handshake_completes [of "''localhost''" "\<lambda>d. 1" demo_json echo_handler WsConfig_default None 8765 "replicate 16 7" 5 0 "''ab''"]
  by simp

text \<open>
  C18. A hostile length field stops the program: the ten bytes of an unmasked frame whose 64-bit
  length plus the header wraps around make \<open>RecvFrame\<close> pass its size check and \<^verbatim>\<open>resize\<close> throw; the
  exception leaves the loop of the server thread, whatever the handler and the configuration.
\<close>

theorem overflow_frame_kills_server:
  assumes "2 ^ 64 - 10 \<le> unat plen" and "wc_upgraded c" and "wc_buf c = []" and "\<not> wc_dead c" and "0 \<le> wc_fd c"
    and "ws_clients s = [c]" and "in_select inp" and "in_accept inp = None"
    and "in_read inp (wc_fd c) = Some (Some (map char_of_byte ([0x81, 0x7F] @ be_bytes64 plen)))"
  shows "Loop_iteration J handler inp s = Inl LengthError"
proof -
  let ?b = "map char_of_byte ([0x81, 0x7F] @ be_bytes64 plen)"
  have at: "i < 10 \<Longrightarrow> byte_at ?b i = ([0x81, 0x7F] @ be_bytes64 plen) ! i" for i
    using byte_at_bytes [of i "[0x81, 0x7F] @ be_bytes64 plen" "[]"] by simp
  have b0: "byte_at ?b 0 = 0x81" and b1: "byte_at ?b 1 = 0x7F" using at [of 0] at [of 1] by simp_all
  have "map (\<lambda>i. byte_at ?b (2 + i)) [0..<8] = map (\<lambda>i. be_bytes64 plen ! i) [0..<8]"
    using at by (intro map_cong refl) auto
  also have "\<dots> = be_bytes64 plen" using map_nth [of "be_bytes64 plen"] by (simp only: length_be_bytes64)
  finally have v: "be_value (map (\<lambda>i. byte_at ?b (2 + i)) [0..<8]) = plen" by (simp only: be_value_be_bytes64)
  have lb: "length ?b = 10" by simp
  have "unat plen < 2 ^ 64" using unsigned_less [of plen] by simp
  then have "unat (10 + plen) = 10 + unat plen - 2 ^ 64"
    using assms(1) by (simp add: unat_word_ariths mod_if)
  then have tot: "\<not> (10 :: u64) < 10 + plen"
    using \<open>unat plen < 2 ^ 64\<close> by (simp add: word_less_nat_alt)
  have big: "string_max_size < unat plen" using assms(1) by (simp add: string_max_size_def)
  have e: "(ucast ((0x7F :: u8) AND 0x7F) :: u64) = 127" "(0x81 :: u8) AND 0x0F \<noteq> 8" "(0x7F :: u8) AND 0x80 = 0"
    by simp_all
  have "Server_RecvFrame ?b = Inl LengthError"
    unfolding Server_RecvFrame_def Let_def lb b0 b1 v e(1) using tot big e(2,3) by simp
  then have "drain J handler (c\<lparr>wc_buf := ?b\<rparr>) h = Inl LengthError" for h
    by (subst drain.simps) simp
  then have "HandleRead J handler (ws_cfg s) (in_file inp) (Some ?b) c h = Inl LengthError" for h
    using assms(2,3) by (simp add: HandleRead_def Let_def)
  then show ?thesis using assms(4-9)
    by (simp add: Loop_iteration_def loop_read_def loop_select_def accept_client_def accept_socket_def watched_def Let_def)
qed

theorem overflow_frame_kills_server_witness:
  "Loop_iteration demo_json echo_handler
     (demo_input (map char_of_byte ([0x81, 0x7F] @ be_bytes64 18446744073709551606))) demo_server = Inl LengthError"
  by (rule overflow_frame_kills_server [where c = demo_client and plen = "18446744073709551606"])
     (simp_all add: demo_ws)

text \<open>
  A client that closes politely leaks its descriptor: on a close frame the server answers,
  drops the client from its list, but never closes the socket, neither in that iteration nor when
  the server is stopped.
\<close>

theorem close_frame_leaks_descriptor:
  assumes "wc_upgraded c" and "wc_buf c = []" and "\<not> wc_dead c" and "0 \<le> wc_fd c" and "length mkey = 4"
    and "ws_clients s = [c]" and "ws_running s" and "0 \<le> ws_server_fd s"
    and "in_select inp" and "in_accept inp = None"
    and "in_read inp (wc_fd c) = Some (Some (map char_of_byte ([0x88, 0x80] @ mkey)))"
  shows "\<exists>s'. Loop_iteration J handler inp s = Inr s' \<and> ws_clients s' = [] \<and>
           ws_log (WsServer_Stop s') =
             ws_log s @ [Polled (ws_server_fd s), Used (wc_fd c), Used (wc_fd c),
               Wrote (wc_fd c) (map char_of_byte [0x88, 0x00]), Closed (ws_server_fd s)]"
proof -
  let ?b = "map char_of_byte ([0x88, 0x80] @ mkey)"
  have at: "i < 6 \<Longrightarrow> byte_at ?b i = ([0x88, 0x80] @ mkey) ! i" for i
    using byte_at_bytes [of i "[0x88, 0x80] @ mkey" "[]"] assms(5) by simp
  have b0: "byte_at ?b 0 = 0x88" and b1: "byte_at ?b 1 = 0x80" using at [of 0] at [of 1] by simp_all
  have lb: "length ?b = 6" using assms(5) by simp
  have e: "(ucast ((0x80 :: u8) AND 0x7F) :: u64) = 0" "(0x88 :: u8) AND 0x0F = 8" "(0x80 :: u8) AND 0x80 \<noteq> 0"
    by simp_all
  have "Server_RecvFrame ?b = Inr (CloseFrame (drop 6 ?b))"
    unfolding Server_RecvFrame_def Let_def lb b0 b1 e(1) using e(2,3) by simp
  then have "drain J handler (c\<lparr>wc_buf := ?b\<rparr>) h =
      Inr (c\<lparr>wc_buf := drop 6 ?b, wc_dead := True\<rparr>, h, Server_SendClose (wc_fd c))" for h
    by (subst drain.simps) simp
  then have "HandleRead J handler (ws_cfg s) (in_file inp) (Some ?b) c h =
      Inr (True, c\<lparr>wc_buf := drop 6 ?b, wc_dead := True\<rparr>, h, Server_SendClose (wc_fd c))" for h
    using assms(1,2) by (simp add: HandleRead_def Let_def)
  then have "Loop_iteration J handler inp s =
      Inr (s\<lparr>ws_clients := [], ws_handler := ws_handler s, 
        ws_log := ws_log s @ [Polled (ws_server_fd s), Used (wc_fd c), Used (wc_fd c)] @ Server_SendClose (wc_fd c)\<rparr>)"
    using assms(3,4,6,9-11) by (simp add: Loop_iteration_def loop_read_def loop_select_def accept_client_def accept_socket_def watched_def Let_def)
  then show ?thesis using assms(7,8) by (simp add: WsServer_Stop_def ws_stop_defs Server_SendClose_def)
qed

theorem close_frame_leaks_descriptor_witness:
  "\<exists>s'. Loop_iteration demo_json echo_handler
       (demo_input (map char_of_byte ([0x88, 0x80] @ [1, 2, 3, 4]))) demo_server = Inr s' \<and>
     ws_clients s' = [] \<and>
     ws_log (WsServer_Stop s') = ws_log demo_server @
       [Polled 3, Used 5, Used 5, Wrote 5 (map char_of_byte [0x88, 0x00]), Closed 3]"
  using close_frame_leaks_descriptor [of demo_client "[1, 2, 3, 4]" demo_server
      "demo_input (map char_of_byte ([0x88, 0x80] @ [1, 2, 3, 4]))" demo_json echo_handler]
  by (simp add: demo_ws)

text \<open>
  The client's handshake accepts responses that do not switch protocols: it only looks for the
  text \<open>101\<close> anywhere in the response and never compares the accept key, so a plain HTTP
  response whose content has 1015 bytes counts as an upgrade.
\<close>

theorem handshake_accepts_http_page:
  assumes "\<And>d. d \<noteq> [] \<Longrightarrow> 0 < send d"
    and "page = ''HTTP/1.1 200 OK'' @ crlf @ ''Content-Length: 1015'' @ crlf @ crlf"
  shows "fst (Handshake send host port key (page @ s)) = Some s"
proof -
  have "read_response [] ((''HTTP/1.1 200 O'' @ ''K'' @ crlf) @ t) = read_response (''HTTP/1.1 200 OK'' @ crlf) t" for t
    using read_response_text [of "''HTTP/1.1 200 OK''" "[]" "crlf @ t"]
      read_response_line [of "CHR ''K''" "''HTTP/1.1 200 O''" t] by simp
  moreover have "read_response (''HTTP/1.1 200 OK'' @ crlf) ((''Content-Length: 1015'' @ crlf) @ t)
      = read_response (''HTTP/1.1 200 OK'' @ crlf @ ''Content-Length: 1015'' @ crlf) t" for t
    using read_response_text [of "''Content-Length: 1015''" "''HTTP/1.1 200 OK'' @ crlf" "crlf @ t"]
      read_response_line [of "CHR ''5''" "''HTTP/1.1 200 OK'' @ crlf @ ''Content-Length: 101''" t]
    by (simp add: crlf_def)
  ultimately have "read_response [] (page @ s) =
      read_response (''HTTP/1.1 200 OK'' @ crlf @ ''Content-Length: 1015'' @ crlf) (crlf @ s)"
    unfolding assms(2) by (simp add: crlf_def)
  also have "\<dots> = Some (page, s)"
    using read_response_end [of "''HTTP/1.1 200 OK'' @ crlf @ ''Content-Length: 1015''" s]
    by (simp add: assms(2) crlf_def)
  finally have r: "read_response [] (page @ s) = Some (page, s)" .
  have "page = (''HTTP/1.1 200 OK'' @ crlf @ ''Content-Length: '') @ ''101'' @ (''5'' @ crlf @ crlf)"
    by (simp add: assms(2))
  then have "str_contains ''101'' page" by (metis str_contains_append)
  then show ?thesis using sock_send_all [of send] assms(1) r by (simp add: Handshake_def)
qed

theorem handshake_accepts_http_page_witness:
  "fst (Handshake (\<lambda>d. 1) ''localhost'' 8765 (replicate 16 7)
     ((''HTTP/1.1 200 OK'' @ crlf @ ''Content-Length: 1015'' @ crlf @ crlf) @ ''ab'')) = Some ''ab''"
  by (rule handshake_accepts_http_page) simp_all

end
