(* ===== verification/Fg_WsThreads.thy ===== *)
theory Fg_WsThreads
  imports Fg_WsServer
begin

text \<open>
  The WebSocket server's threads: \<open>Loop\<close> runs in its own thread, one controlling thread calls \<open>Start\<close>
  and \<open>Stop\<close>, any thread calls \<open>Broadcast\<close>. A step is one system call or one critical section, so \<open>Stop\<close> may
  close the listening descriptor while \<open>Loop\<close> is anywhere in its iteration. The invariant of all interleavings,
  what it says of the clients and their descriptors, and the interleaving in which \<open>Loop\<close> uses the listening
  descriptor after \<open>Stop\<close> has closed it.
\<close>

section \<open>The threads\<close>

text \<open>
  Where \<open>Loop\<close> is: before the check of \<open>running_\<close>; before \<open>server_fd_\<close> is put into the set; before the clients
  are, under the lock; before \<^verbatim>\<open>select\<close>; before the check of the listening descriptor and \<^verbatim>\<open>accept\<close>; before the new
  client is taken or turned away, under the lock; before the reads, under the lock; returned.
\<close>

datatype loop_pc =
    NoLoop
  | AtHead
  | AtFdSet
  | AtSnapshot int
  | AtSelect int "int list"
  | AtAccept "int list"
  | AtPush int "int list"
  | AtRead "int list"
  | LoopEnded

text \<open>Where \<open>Stop\<close> is: not called (or returned), after the exchange, after the close, before the join, before the clients.\<close>

datatype stop_pc = NotStopping | Exchanged | ListenerClosed | AtJoin | AtClients

record 'h ws_threads =
  srv :: "'h ws_server"
  loop_at :: loop_pc
  stop_at :: stop_pc

definition WsThreads_new :: "WsConfig \<Rightarrow> 'h \<Rightarrow> 'h ws_threads" where
  "WsThreads_new cfg h = \<lparr>srv = WsServer_new cfg h, loop_at = NoLoop, stop_at = NotStopping\<rparr>"

text \<open>The calls in the log that do not concern the listening descriptor's \<^verbatim>\<open>select\<close> and \<^verbatim>\<open>accept\<close>, and the
  descriptors they leave open.\<close>

definition client_events :: "net_event list \<Rightarrow> net_event list" where
  "client_events es = filter (\<lambda>e. \<forall>fd. e \<noteq> Polled fd) es"

lemma client_events_simps [simp]:
  "client_events [] = []" "client_events (xs @ ys) = client_events xs @ client_events ys"
  "client_events (Polled fd # es) = client_events es" "client_events (Opened fd # es) = Opened fd # client_events es"
  "client_events (Closed fd # es) = Closed fd # client_events es" "client_events (Used fd # es) = Used fd # client_events es"
  "client_events (Wrote fd d # es) = Wrote fd d # client_events es"
  by (simp_all add: client_events_def)

definition open_fds :: "'h ws_server \<Rightarrow> int set" where
  "open_fds s = (case run_events {} (client_events (ws_log s)) of None \<Rightarrow> {} | Some S \<Rightarrow> S)"

text \<open>
  The steps. \<open>Start\<close> and \<open>Stop\<close> are called one after the other by the controlling thread; \<open>Start\<close> only has other
  threads beside it that find no client. The operating system's contract is that \<^verbatim>\<open>socket\<close> and \<^verbatim>\<open>accept\<close>
  return a descriptor that is not in use. After an exception in \<open>Loop\<close> there is no step: the program ends.
\<close>

inductive ws_step :: "'j json_api \<Rightarrow> ('h, 'j) command_handler \<Rightarrow> 'h ws_threads \<Rightarrow> 'h ws_threads \<Rightarrow> bool"
  for J handler where
  start: "stop_at t = NotStopping \<Longrightarrow> fd < 0 \<or> fd \<notin> open_fds (srv t) \<Longrightarrow> WsServer_Start fd bound (srv t) = (s', e) \<Longrightarrow>
    ws_step J handler t
      (t\<lparr>srv := s', loop_at := (if ws_running (srv t) \<or> e \<noteq> None then loop_at t else AtHead)\<rparr>)"
| broadcast: "Broadcast J msg (srv t) = Some s' \<Longrightarrow> ws_step J handler t (t\<lparr>srv := s'\<rparr>)"
| exchange: "stop_at t = NotStopping \<Longrightarrow> ws_running (srv t) \<Longrightarrow>
    ws_step J handler t (t\<lparr>srv := stop_exchange (srv t), stop_at := Exchanged\<rparr>)"
| close: "stop_at t = Exchanged \<Longrightarrow> ws_step J handler t (t\<lparr>srv := stop_close (srv t), stop_at := ListenerClosed\<rparr>)"
| forget: "stop_at t = ListenerClosed \<Longrightarrow> ws_step J handler t (t\<lparr>srv := stop_forget (srv t), stop_at := AtJoin\<rparr>)"
| join: "stop_at t = AtJoin \<Longrightarrow> loop_at t = LoopEnded \<Longrightarrow>
    ws_step J handler t (t\<lparr>srv := stop_joined (srv t), loop_at := NoLoop, stop_at := AtClients\<rparr>)"
| clients: "stop_at t = AtClients \<Longrightarrow>
    ws_step J handler t (t\<lparr>srv := stop_clients (srv t), stop_at := NotStopping\<rparr>)"
| head: "loop_at t = AtHead \<Longrightarrow>
    ws_step J handler t (t\<lparr>loop_at := (if ws_running (srv t) then AtFdSet else LoopEnded)\<rparr>)"
| fd_set: "loop_at t = AtFdSet \<Longrightarrow> ws_step J handler t (t\<lparr>loop_at := AtSnapshot (ws_server_fd (srv t))\<rparr>)"
| snapshot: "loop_at t = AtSnapshot lfd \<Longrightarrow> ws_step J handler t (t\<lparr>loop_at := AtSelect lfd (watched (srv t))\<rparr>)"
| select: "loop_at t = AtSelect lfd fds \<Longrightarrow>
    ws_step J handler t
      (t\<lparr>srv := loop_select lfd fds (srv t), loop_at := (if ready then AtAccept fds else AtHead)\<rparr>)"
| accept: "loop_at t = AtAccept fds \<Longrightarrow> \<forall>cfd. acc = Some cfd \<longrightarrow> cfd \<notin> open_fds (srv t) \<Longrightarrow>
    ws_step J handler t
      (t\<lparr>srv := accept_socket acc (srv t),
         loop_at := (case acc of None \<Rightarrow> AtRead fds | Some cfd \<Rightarrow> if 0 \<le> cfd then AtPush cfd fds else AtRead fds)\<rparr>)"
| push: "loop_at t = AtPush cfd fds \<Longrightarrow>
    ws_step J handler t (t\<lparr>srv := push_client cfd (srv t), loop_at := AtRead fds\<rparr>)"
| read: "loop_at t = AtRead fds \<Longrightarrow> loop_read J handler inp fds (srv t) = Inr s' \<Longrightarrow>
    ws_step J handler t (t\<lparr>srv := s', loop_at := AtHead\<rparr>)"

inductive ws_run :: "'j json_api \<Rightarrow> ('h, 'j) command_handler \<Rightarrow> WsConfig \<Rightarrow> 'h \<Rightarrow> 'h ws_threads \<Rightarrow> bool"
  for J handler cfg h where
  new: "ws_run J handler cfg h (WsThreads_new cfg h)"
| step: "ws_run J handler cfg h t \<Longrightarrow> ws_step J handler t t' \<Longrightarrow> ws_run J handler cfg h t'"

section \<open>The invariant\<close>

text \<open>
  The server and its open descriptors: the clients' and those in \<open>X\<close>, the listening one or one just accepted,
  are open and distinct.
\<close>

definition owns :: "WsConfig \<Rightarrow> int list \<Rightarrow> int set \<Rightarrow> 'h ws_server \<Rightarrow> bool" where
  "owns cfg X S s \<longleftrightarrow>
     ws_cfg s = cfg \<and> run_events {} (client_events (ws_log s)) = Some S \<and>
     set (map wc_fd (ws_clients s) @ X) \<subseteq> S \<and> distinct (map wc_fd (ws_clients s) @ X) \<and>
     (\<forall>c \<in> set (ws_clients s). client_ok c) \<and> int (length (ws_clients s)) \<le> max 0 (cfg_max_clients cfg)"

lemma owns_open_fds: "owns cfg X S s \<Longrightarrow> open_fds s = S"
  by (simp add: owns_def open_fds_def)

definition listener_open :: "'h ws_threads \<Rightarrow> bool" where
  "listener_open t \<longleftrightarrow> ws_running (srv t) \<or> stop_at t = Exchanged"

definition held_fds :: "'h ws_threads \<Rightarrow> int list" where
  "held_fds t = (if listener_open t then [ws_server_fd (srv t)] else []) @
     (case loop_at t of AtPush cfd fds \<Rightarrow> [cfd] | _ \<Rightarrow> [])"

text \<open>What \<open>Loop\<close> has read is still true: the clients' descriptors always, the listening one until \<open>Stop\<close> has closed it.\<close>

fun loop_ok :: "'h ws_threads \<Rightarrow> loop_pc \<Rightarrow> bool" where
  "loop_ok t NoLoop = (\<not> ws_running (srv t) \<and> stop_at t \<in> {NotStopping, AtClients} \<and>
     (stop_at t = NotStopping \<longrightarrow> ws_clients (srv t) = []))"
| "loop_ok t (AtSnapshot lfd) = (listener_open t \<longrightarrow> lfd = ws_server_fd (srv t))"
| "loop_ok t (AtSelect lfd fds) =
     ((listener_open t \<longrightarrow> lfd = ws_server_fd (srv t)) \<and> set fds \<subseteq> wc_fd ` set (ws_clients (srv t)))"
| "loop_ok t LoopEnded = (stop_at t \<in> {Exchanged, ListenerClosed, AtJoin})"
| "loop_ok t (AtPush cfd fds) = (0 \<le> cfd)"
| "loop_ok t _ = True"

definition ws_ok :: "WsConfig \<Rightarrow> 'h ws_threads \<Rightarrow> bool" where
  "ws_ok cfg t \<longleftrightarrow>
     owns cfg (held_fds t) (open_fds (srv t)) (srv t) \<and> loop_ok t (loop_at t) \<and>
     (ws_running (srv t) \<longrightarrow> stop_at t = NotStopping) \<and>
     (listener_open t \<longrightarrow> 0 \<le> ws_server_fd (srv t)) \<and>
     (ws_thread (srv t) \<longleftrightarrow> loop_at t \<noteq> NoLoop) \<and>
     (loop_at t \<noteq> NoLoop \<and> stop_at t = NotStopping \<longrightarrow> ws_running (srv t)) \<and>
     (loop_at t \<noteq> NoLoop \<longrightarrow> stop_at t \<noteq> AtClients)"

lemma run_events_close_all:
  "distinct fds \<Longrightarrow> set fds \<subseteq> S \<Longrightarrow> run_events S (map Closed fds) = Some (S - set fds)"
proof (induction fds arbitrary: S)
  case (Cons fd fds)
  then have "set fds \<subseteq> S - {fd}" by auto
  then have "run_events (S - {fd}) (map Closed fds) = Some (S - {fd} - set fds)" using Cons by simp
  then show ?case using Cons by (simp add: insert_commute Diff_insert2 [symmetric])
qed simp

lemma run_events_used: "set fds \<subseteq> S \<Longrightarrow> run_events S (map Used fds) = Some S"
  by (induction fds) auto

lemma run_events_broadcast:
  "\<forall>c \<in> set cs. wc_fd c \<in> S \<Longrightarrow>
   run_events S (concat (map (\<lambda>c. if P c then Server_SendText (wc_fd c) text else []) cs)) = Some S"
  by (induction cs) (auto simp: run_events_append run_events_writes [OF only_writes_SendText])

lemma client_events_map [simp]: "client_events (map Closed fds) = map Closed fds" "client_events (map Used fds) = map Used fds"
  by (simp_all add: client_events_def filter_True)

lemma client_events_writes: "only_writes fd ev \<Longrightarrow> client_events ev = ev"
  by (auto simp: only_writes_def client_events_def intro!: filter_True)

lemma client_events_broadcast:
  "client_events (concat (map (\<lambda>c. if P c then Server_SendText (wc_fd c) text else []) cs)) =
   concat (map (\<lambda>c. if P c then Server_SendText (wc_fd c) text else []) cs)"
  by (induction cs) (simp_all add: client_events_writes [OF only_writes_SendText])

lemma read_clients_no_polls:
  "read_clients J handler cfg file ready cs h = Inr (cs', h', ev) \<Longrightarrow> client_events ev = ev"
proof (induction cs arbitrary: cs' h h' ev)
  case (Cons c cs)
  then show ?case
    by (fastforce simp: bind_sum_Inr Let_def client_events_writes
        split: option.splits if_splits dest!: HandleRead_effects)
qed simp

text \<open>Each operation against the descriptors that are held.\<close>

lemma owns_quiet:
  "owns cfg X S s \<Longrightarrow> ws_cfg s' = ws_cfg s \<Longrightarrow> ws_log s' = ws_log s \<Longrightarrow> ws_clients s' = ws_clients s \<Longrightarrow> owns cfg X S s'"
  by (simp add: owns_def)

lemma owns_broadcast:
  assumes "owns cfg X S s" and "Broadcast J msg s = Some s'"
  shows "\<exists>ev. ws_log s' = ws_log s @ ev \<and> run_events S ev = Some S \<and> owns cfg X S s' \<and>
     s' = s\<lparr>ws_log := ws_log s @ ev\<rparr>"
proof -
  obtain body where s': "s' = s\<lparr>ws_log := ws_log s @
      concat (map (\<lambda>c. if \<not> wc_dead c \<and> wc_upgraded c \<and> 0 \<le> wc_fd c
                       then Server_SendText (wc_fd c) body else []) (ws_clients s))\<rparr>"
    using assms(2) by (auto simp: Broadcast_def)
  have "\<forall>c \<in> set (ws_clients s). wc_fd c \<in> S" using assms(1) by (auto simp: owns_def)
  from run_events_broadcast [OF this] show ?thesis
    using assms(1) by (simp add: s' owns_def run_events_append client_events_broadcast)
qed

lemma owns_select:
  assumes "owns cfg X S s" and "set fds \<subseteq> wc_fd ` set (ws_clients s)"
  shows "owns cfg X S (loop_select lfd fds s)" "lfd \<in> S \<Longrightarrow> run_events S (Polled lfd # map Used fds) = Some S"
proof -
  have "set fds \<subseteq> S" using assms by (auto simp: owns_def)
  from run_events_used [OF this] show "owns cfg X S (loop_select lfd fds s)"
    "lfd \<in> S \<Longrightarrow> run_events S (Polled lfd # map Used fds) = Some S"
    using assms(1) by (simp_all add: owns_def loop_select_def run_events_append)
qed

lemma owns_accept:
  assumes "owns cfg X S s" and "\<forall>cfd. acc = Some cfd \<longrightarrow> cfd \<notin> S"
  shows "case acc of
      None \<Rightarrow> owns cfg X S (accept_socket acc s)
    | Some cfd \<Rightarrow> if 0 \<le> cfd then owns cfg (X @ [cfd]) (insert cfd S) (accept_socket acc s)
                  else owns cfg X S (accept_socket acc s)"
  using assms by (auto simp: owns_def accept_socket_def run_events_append split: option.split)

lemma owns_push:
  assumes "owns cfg (X @ [cfd]) S s" and "0 \<le> cfd"
  shows "owns cfg X (if int (length (ws_clients s)) < cfg_max_clients cfg then S else S - {cfd}) (push_client cfd s)"
  using assms
  by (auto simp: owns_def push_client_def run_events_append client_ok_def ws_client_new_def str_contains_def crlf_def)

lemma owns_read:
  assumes o: "owns cfg X S s" and r: "loop_read J handler inp fds s = Inr s'"
  shows "\<exists>ev S'. ws_log s' = ws_log s @ ev \<and> run_events S ev = Some S' \<and> client_events ev = ev \<and> owns cfg X S' s' \<and>
     ws_server_fd s' = ws_server_fd s \<and> ws_running s' = ws_running s \<and> ws_thread s' = ws_thread s"
proof -
  obtain ready cs h ev where
    rc: "read_clients J handler (ws_cfg s) (in_file inp) ready (ws_clients s) (ws_handler s) = Inr (cs, h, ev)"
    and s': "s' = s\<lparr>ws_clients := live cs, ws_handler := h, ws_log := ws_log s @ ev\<rparr>"
    using r by (auto simp: loop_read_def bind_sum_Inr live_def)
  obtain S' where S': "run_events S ev = Some S'" "S - set (map wc_fd (ws_clients s)) \<subseteq> S'"
    "\<forall>c \<in> set (live cs). client_ok c" "distinct (map wc_fd (live cs))"
    "set (map wc_fd (live cs)) \<subseteq> S' \<inter> set (map wc_fd (ws_clients s))" "length (live cs) \<le> length (ws_clients s)"
    using read_clients_ok [OF rc, of S] o unfolding owns_def by auto
  have "set X \<subseteq> S - set (map wc_fd (ws_clients s))" using o by (auto simp: owns_def)
  then have X: "set X \<subseteq> S'" "set (map wc_fd (live cs)) \<inter> set X = {}" using S'(2,5) by blast+
  have "owns cfg X S' s'"
    unfolding owns_def using o S' X read_clients_no_polls [OF rc] by (simp add: owns_def s' run_events_append)
  then show ?thesis using S'(1) read_clients_no_polls [OF rc] by (auto simp: s')
qed

lemma owns_close:
  assumes "owns cfg (fd # X) S s" and "fd = ws_server_fd s" and "0 \<le> fd"
  shows "owns cfg X (S - {fd}) (stop_close s)"
proof -
  have "set (map wc_fd (ws_clients s) @ X) \<subseteq> S - {fd}"
    using assms(1) by (simp add: owns_def subset_Diff_insert)
  then show ?thesis using assms unfolding owns_def by (simp add: stop_close_def run_events_append)
qed

lemma owns_stop_clients:
  assumes o: "owns cfg [] S s"
  shows "owns cfg [] (S - wc_fd ` set (ws_clients s)) (stop_clients s)"
proof -
  have "filter (\<lambda>fd. 0 \<le> fd) (map wc_fd (ws_clients s)) = map wc_fd (ws_clients s)"
    using o by (auto simp: owns_def client_ok_def intro!: filter_True)
  moreover have "run_events S (map Closed (map wc_fd (ws_clients s))) = Some (S - wc_fd ` set (ws_clients s))"
    using run_events_close_all [of "map wc_fd (ws_clients s)" S] o by (simp add: owns_def)
  ultimately show ?thesis
    using o unfolding stop_clients_def by (simp add: owns_def run_events_append del: map_map)
qed

lemma owns_self: "owns cfg X S s \<Longrightarrow> owns cfg X (open_fds s) s"
  by (simp add: owns_open_fds)

lemma ws_ok_new [fg_inv]: "ws_ok cfg (WsThreads_new cfg h)"
  by (simp add: ws_ok_def owns_def held_fds_def listener_open_def open_fds_def WsThreads_new_def WsServer_new_def)

lemma ws_ok_start [fg_inv]:
  assumes "ws_ok cfg t" "stop_at t = NotStopping" "fd < 0 \<or> fd \<notin> open_fds (srv t)"
    and "WsServer_Start fd bound (srv t) = (s', e)"
  shows "ws_ok cfg (t\<lparr>srv := s', loop_at := (if ws_running (srv t) \<or> e \<noteq> None then loop_at t else AtHead)\<rparr>)"
proof (cases "ws_running (srv t)")
  case True
  then show ?thesis using assms by (cases t) (auto simp: WsServer_Start_def)
next
  case False
  then have idle: "loop_at t = NoLoop" "ws_clients (srv t) = []" "held_fds t = []"
    using assms(1,2) by (auto simp: ws_ok_def held_fds_def listener_open_def)
  have o: "owns cfg [] (open_fds (srv t)) (srv t)" using assms(1) idle(3) by (simp add: ws_ok_def)
  have "owns cfg (if e = None then [fd] else []) (if e = None then insert fd (open_fds (srv t)) else open_fds (srv t)) s'"
    using assms(3,4) o False idle(2) by (auto simp: WsServer_Start_def Let_def owns_def run_events_append split: if_splits)
  from owns_self [OF this] show ?thesis
    using assms(1,2,4) idle False
    by (auto simp: ws_ok_def held_fds_def listener_open_def WsServer_Start_def Let_def split: if_splits)
qed

lemma ws_ok_broadcast [fg_inv]:
  assumes "ws_ok cfg t" "Broadcast J msg (srv t) = Some s'"
  shows "ws_ok cfg (t\<lparr>srv := s'\<rparr>)"
proof -
  obtain ev where s': "owns cfg (held_fds t) (open_fds (srv t)) s'" "s' = (srv t)\<lparr>ws_log := ws_log (srv t) @ ev\<rparr>"
    using owns_broadcast [OF _ assms(2)] assms(1) unfolding ws_ok_def by blast
  moreover have "held_fds (t\<lparr>srv := s'\<rparr>) = held_fds t" by (simp add: held_fds_def listener_open_def s'(2))
  ultimately show ?thesis using assms(1) owns_self [OF s'(1)]
    by (cases "loop_at t") (auto simp: ws_ok_def listener_open_def)
qed

lemma ws_ok_exchange [fg_inv]:
  assumes "ws_ok cfg t" "stop_at t = NotStopping" "ws_running (srv t)"
  shows "ws_ok cfg (t\<lparr>srv := stop_exchange (srv t), stop_at := Exchanged\<rparr>)"
proof -
  have "owns cfg (held_fds t) (open_fds (srv t)) (stop_exchange (srv t))"
    using assms(1) by (auto simp: ws_ok_def stop_exchange_def intro: owns_quiet)
  from owns_self [OF this] show ?thesis
    using assms by (cases "loop_at t") (auto simp: ws_ok_def held_fds_def listener_open_def stop_exchange_def)
qed

lemma ws_ok_close [fg_inv]:
  assumes "ws_ok cfg t" "stop_at t = Exchanged"
  shows "ws_ok cfg (t\<lparr>srv := stop_close (srv t), stop_at := ListenerClosed\<rparr>)"
proof -
  let ?pend = "case loop_at t of AtPush cfd fds \<Rightarrow> [cfd] | _ \<Rightarrow> []"
  have "owns cfg (ws_server_fd (srv t) # ?pend) (open_fds (srv t)) (srv t)" "0 \<le> ws_server_fd (srv t)"
    using assms by (simp_all add: ws_ok_def held_fds_def listener_open_def)
  from owns_self [OF owns_close [OF this(1) refl this(2)]] show ?thesis
    using assms by (cases "loop_at t") (auto simp: ws_ok_def held_fds_def listener_open_def stop_close_def)
qed

lemma ws_ok_forget [fg_inv]:
  assumes "ws_ok cfg t" "stop_at t = ListenerClosed"
  shows "ws_ok cfg (t\<lparr>srv := stop_forget (srv t), stop_at := AtJoin\<rparr>)"
proof -
  have "owns cfg (held_fds t) (open_fds (srv t)) (stop_forget (srv t))"
    using assms(1) by (auto simp: ws_ok_def stop_forget_def intro: owns_quiet)
  from owns_self [OF this] show ?thesis
    using assms by (cases "loop_at t") (auto simp: ws_ok_def held_fds_def listener_open_def stop_forget_def)
qed

lemma ws_ok_join [fg_inv]:
  assumes "ws_ok cfg t" "stop_at t = AtJoin" "loop_at t = LoopEnded"
  shows "ws_ok cfg (t\<lparr>srv := stop_joined (srv t), loop_at := NoLoop, stop_at := AtClients\<rparr>)"
proof -
  have "owns cfg (held_fds t) (open_fds (srv t)) (stop_joined (srv t))"
    using assms(1) by (auto simp: ws_ok_def stop_joined_def intro: owns_quiet)
  from owns_self [OF this] show ?thesis
    using assms by (auto simp: ws_ok_def held_fds_def listener_open_def stop_joined_def)
qed

lemma ws_ok_clients [fg_inv]:
  assumes "ws_ok cfg t" "stop_at t = AtClients"
  shows "ws_ok cfg (t\<lparr>srv := stop_clients (srv t), stop_at := NotStopping\<rparr>)"
proof -
  have "loop_at t = NoLoop" "\<not> ws_running (srv t)" "owns cfg [] (open_fds (srv t)) (srv t)"
    using assms by (auto simp: ws_ok_def held_fds_def listener_open_def)
  with owns_self [OF owns_stop_clients [OF this(3)]] show ?thesis
    using assms by (auto simp: ws_ok_def held_fds_def listener_open_def stop_clients_def)
qed

lemma ws_ok_head [fg_inv]:
  assumes "ws_ok cfg t" "loop_at t = AtHead"
  shows "ws_ok cfg (t\<lparr>loop_at := (if ws_running (srv t) then AtFdSet else LoopEnded)\<rparr>)"
  using assms by (cases "stop_at t") (auto simp: ws_ok_def held_fds_def listener_open_def)

lemma ws_ok_fd_set [fg_inv]:
  assumes "ws_ok cfg t" "loop_at t = AtFdSet"
  shows "ws_ok cfg (t\<lparr>loop_at := AtSnapshot (ws_server_fd (srv t))\<rparr>)"
  using assms by (auto simp: ws_ok_def held_fds_def listener_open_def)

lemma ws_ok_snapshot [fg_inv]:
  assumes "ws_ok cfg t" "loop_at t = AtSnapshot lfd"
  shows "ws_ok cfg (t\<lparr>loop_at := AtSelect lfd (watched (srv t))\<rparr>)"
  using assms by (auto simp: ws_ok_def held_fds_def listener_open_def watched_def)

lemma ws_ok_select [fg_inv]:
  assumes "ws_ok cfg t" "loop_at t = AtSelect lfd fds"
  shows "ws_ok cfg (t\<lparr>srv := loop_select lfd fds (srv t), loop_at := (if ready then AtAccept fds else AtHead)\<rparr>)"
proof -
  have "owns cfg (held_fds t) (open_fds (srv t)) (loop_select lfd fds (srv t))"
    using assms owns_select(1) [of cfg "held_fds t" _ "srv t" fds] by (simp add: ws_ok_def)
  from owns_self [OF this] show ?thesis
    using assms by (auto simp: ws_ok_def held_fds_def listener_open_def loop_select_def)
qed

lemma ws_ok_accept [fg_inv]:
  assumes "ws_ok cfg t" "loop_at t = AtAccept fds" "\<forall>cfd. acc = Some cfd \<longrightarrow> cfd \<notin> open_fds (srv t)"
  shows "ws_ok cfg (t\<lparr>srv := accept_socket acc (srv t),
    loop_at := (case acc of None \<Rightarrow> AtRead fds | Some cfd \<Rightarrow> if 0 \<le> cfd then AtPush cfd fds else AtRead fds)\<rparr>)"
proof -
  have "owns cfg (held_fds t) (open_fds (srv t)) (srv t)" using assms(1) by (simp add: ws_ok_def)
  from owns_accept [OF this assms(3)] show ?thesis
    using assms by (auto simp: ws_ok_def held_fds_def listener_open_def accept_socket_def split: option.splits if_splits dest: owns_self)
qed

lemma ws_ok_push [fg_inv]:
  assumes "ws_ok cfg t" "loop_at t = AtPush cfd fds"
  shows "ws_ok cfg (t\<lparr>srv := push_client cfd (srv t), loop_at := AtRead fds\<rparr>)"
proof -
  let ?listener = "if listener_open t then [ws_server_fd (srv t)] else []"
  have "owns cfg (?listener @ [cfd]) (open_fds (srv t)) (srv t)" "0 \<le> cfd"
    using assms by (auto simp: ws_ok_def held_fds_def)
  from owns_self [OF owns_push [OF this]] show ?thesis
    using assms by (auto simp: ws_ok_def held_fds_def listener_open_def push_client_def)
qed

lemma ws_ok_read [fg_inv]:
  assumes "ws_ok cfg t" "loop_at t = AtRead fds" "loop_read J handler inp fds (srv t) = Inr s'"
  shows "ws_ok cfg (t\<lparr>srv := s', loop_at := AtHead\<rparr>)"
proof -
  obtain S' where "owns cfg (held_fds t) S' s'" "ws_server_fd s' = ws_server_fd (srv t)"
    "ws_running s' = ws_running (srv t)" "ws_thread s' = ws_thread (srv t)"
    using owns_read [OF _ assms(3)] assms(1) unfolding ws_ok_def by blast
  with owns_self [OF this(1)] show ?thesis
    using assms(1,2) by (auto simp: ws_ok_def held_fds_def listener_open_def)
qed




text \<open>A run that starts the server and accepts one client.\<close>

definition ws_started :: "loop_pc \<Rightarrow> net_event list \<Rightarrow> nat ws_threads" where
  "ws_started pc es =
     \<lparr>srv = \<lparr>ws_cfg = WsConfig_default, ws_server_fd = 3, ws_running = True, ws_thread = True, ws_clients = [],
        ws_handler = 0, ws_log = Opened 3 # es\<rparr>, loop_at = pc, stop_at = NotStopping\<rparr>"


lemma ws_run_started: "ws_run J handler WsConfig_default 0 (ws_started AtHead [])"
  using ws_run.step [OF ws_run.new ws_step.start [where fd = 3 and bound = True and e = None
      and s' = "srv (ws_started AtHead [])" and t = "WsThreads_new WsConfig_default 0"]]
  by (simp add: ws_started_def WsThreads_new_def WsServer_new_def WsServer_Start_def open_fds_def Let_def)

lemma ws_run_selecting: "ws_run J handler WsConfig_default 0 (ws_started (AtSelect 3 []) [])"
proof -
  have "ws_run J handler WsConfig_default 0 (ws_started AtFdSet [])"
    using ws_run.step [OF ws_run_started ws_step.head] by (simp add: ws_started_def)
  from ws_run.step [OF this ws_step.fd_set] have "ws_run J handler WsConfig_default 0 (ws_started (AtSnapshot 3) [])"
    by (simp add: ws_started_def)
  from ws_run.step [OF this ws_step.snapshot] show ?thesis by (simp add: ws_started_def watched_def)
qed




text \<open>
  The descriptors of \<open>Stop\<close> and \<open>Loop\<close> race: \<open>Stop\<close> closes the listening descriptor without waiting for
  \<open>Loop\<close>, which may have checked \<open>running_\<close> before and then selects on the closed descriptor, or on one that
  another thread has obtained under the same number meanwhile.
\<close>

lemma ws_stop_race:
  "\<exists>t :: nat ws_threads. ws_run J handler WsConfig_default 0 t \<and> ws_log (srv t) = [Opened 3, Closed 3, Polled 3] \<and>
     run_events {} (ws_log (srv t)) = None"
proof -
  let ?t = "ws_started (AtSelect 3 []) []"
  let ?t1 = "?t\<lparr>srv := stop_exchange (srv ?t), stop_at := Exchanged\<rparr>"
  let ?t2 = "?t1\<lparr>srv := stop_close (srv ?t1), stop_at := ListenerClosed\<rparr>"
  let ?t3 = "?t2\<lparr>srv := loop_select 3 [] (srv ?t2), loop_at := AtHead\<rparr>"
  have "ws_run J handler WsConfig_default 0 ?t1"
    by (rule ws_run.step [OF ws_run_selecting ws_step.exchange]) (simp_all add: ws_started_def)
  then have "ws_run J handler WsConfig_default 0 ?t2" by (rule ws_run.step) (rule ws_step.close, simp)
  then have "ws_run J handler WsConfig_default 0 ?t3"
    using ws_run.step [OF _ ws_step.select [where ready = False and lfd = 3 and fds = "[]"]] by (fastforce simp: ws_started_def)
  moreover have "ws_log (srv ?t3) = [Opened 3, Closed 3, Polled 3]"
    by (simp add: ws_started_def ws_stop_defs loop_select_def)
  ultimately show ?thesis by (intro exI [of _ ?t3]) simp
qed

end
