(* ===== verification/Fg_Numbers.thy ===== *)
theory Fg_Numbers
  imports Fg_Text Complex_Main
begin

text \<open>
  The numeric conversions of the standard library that the readers and writers of the io library
  use: \<^verbatim>\<open>std::stod\<close>, \<^verbatim>\<open>std::stoll\<close> and the stream formats \<^verbatim>\<open>std::fixed << std::setprecision(p)\<close>
  and \<^verbatim>\<open>std::setw(w) << std::setfill('0')\<close>. A double is a real: \<^verbatim>\<open>stod\<close> reads decimal numerals
  exactly (hexadecimal, infinite and NaN spellings are not modelled), and printing rounds to the
  nearest numeral, ties to even.
\<close>

section \<open>Reading\<close>

definition is_space :: "char \<Rightarrow> bool" where
  "is_space c \<longleftrightarrow> c \<in> {CHR 0x20, CHR 0x09, CHR 0x0A, CHR 0x0B, CHR 0x0C, CHR 0x0D}"

definition skip_space :: "string \<Rightarrow> string" where
  "skip_space s = dropWhile is_space s"

definition read_sign :: "string \<Rightarrow> bool \<times> string" where
  "read_sign s = (case s of c # cs \<Rightarrow> (if c = CHR ''-'' then (True, cs) else if c = CHR ''+'' then (False, cs) else (False, s)) | [] \<Rightarrow> (False, []))"

definition read_digits :: "string \<Rightarrow> string \<times> string" where
  "read_digits s = (takeWhile is_digit s, dropWhile is_digit s)"

text \<open>The digits after a decimal point, if there is one.\<close>

definition read_fraction :: "string \<Rightarrow> string \<times> string" where
  "read_fraction s = (case s of c # cs \<Rightarrow> (if c = CHR ''.'' then read_digits cs else ([], s)) | [] \<Rightarrow> ([], []))"

text \<open>An exponent counts only with at least one digit.\<close>

definition read_exponent :: "string \<Rightarrow> int" where
  "read_exponent s =
     (case s of
        [] \<Rightarrow> 0
      | c # cs \<Rightarrow>
          (if c = CHR ''e'' \<or> c = CHR ''E''
           then (case read_sign cs of (neg, t) \<Rightarrow>
                  (let e = int (digits_value (fst (read_digits t))) in if neg then - e else e))
           else 0))"

definition scale10 :: "real \<Rightarrow> int \<Rightarrow> real" where
  "scale10 x e = (if 0 \<le> e then x * 10 ^ nat e else x / 10 ^ nat (- e))"

definition std_stod :: "string \<Rightarrow> cpp_exception + real" where
  "std_stod s =
     (case read_sign (skip_space s) of (neg, t) \<Rightarrow>
      case read_digits t of (ip, t1) \<Rightarrow>
      case read_fraction t1 of (fp, t2) \<Rightarrow>
        if ip = [] \<and> fp = [] then Inl (InvalidArgument ''stod'')
        else
          (let x = scale10 (real (digits_value (ip @ fp))) (read_exponent t2 - int (length fp));
               v = (if neg then - x else x)
           in if \<bar>v\<bar> \<ge> 2 ^ 1024 \<or> v \<noteq> 0 \<and> \<bar>v\<bar> < 1 / 2 ^ 1022 then Inl (OutOfRange ''stod'') else Inr v))"

definition std_stoll :: "string \<Rightarrow> cpp_exception + int" where
  "std_stoll s =
     (case read_sign (skip_space s) of (neg, t) \<Rightarrow>
      case read_digits t of (ip, _) \<Rightarrow>
        if ip = [] then Inl (InvalidArgument ''stoll'')
        else
          (let v = (if neg then - int (digits_value ip) else int (digits_value ip))
           in if v < - (2 ^ 63) \<or> 2 ^ 63 \<le> v then Inl (OutOfRange ''stoll'') else Inr v))"

section \<open>Writing\<close>

text \<open>\<^verbatim>\<open>std::setw(w) << std::setfill('0')\<close>.\<close>

definition zero_fill :: "nat \<Rightarrow> string \<Rightarrow> string" where
  "zero_fill w s = replicate (w - length s) (CHR ''0'') @ s"

text \<open>The nearest natural number, ties to even.\<close>

definition round_even :: "real \<Rightarrow> nat" where
  "round_even x =
     (let f = nat \<lfloor>x\<rfloor>; d = x - real f
      in if d < 1 / 2 then f else if d > 1 / 2 then f + 1 else if even f then f else f + 1)"

text \<open>\<^verbatim>\<open>std::fixed << std::setprecision(p)\<close> for \<open>p > 0\<close>.\<close>

definition fixed_string :: "nat \<Rightarrow> real \<Rightarrow> string" where
  "fixed_string p x =
     (let n = round_even (\<bar>x\<bar> * 10 ^ p)
      in (if x < 0 then [CHR ''-''] else []) @ to_string_nat (n div 10 ^ p) @ [CHR ''.''] @
         zero_fill p (to_string_nat (n mod 10 ^ p)))"

section \<open>Reading what was written\<close>

lemma digits_value_append: "digits_value (a @ b) = digits_value a * 10 ^ length b + digits_value b"
proof -
  have "foldl (\<lambda>a c. 10 * a + digit_value c) n b = n * 10 ^ length b + foldl (\<lambda>a c. 10 * a + digit_value c) 0 b" for n
  proof (induction b arbitrary: n)
    case (Cons c b)
    show ?case using Cons.IH [of "10 * n + digit_value c"] Cons.IH [of "digit_value c"] by (simp add: algebra_simps)
  qed simp
  from this [of "digits_value a"] show ?thesis unfolding digits_value_def foldl_append .
qed

lemma digits_value_zeros [simp]: "digits_value (replicate k (CHR ''0'') @ s) = digits_value s"
  by (induction k) (simp_all add: digits_value_def digit_value_def)

lemma digits_value_zero_fill [simp]: "digits_value (zero_fill w s) = digits_value s"
  by (simp add: zero_fill_def)

lemma zero_is_digit [simp]: "is_digit (CHR ''0'')"
  by (simp add: is_digit_def)

lemma zero_fill_digits: "\<forall>c\<in>set s. is_digit c \<Longrightarrow> \<forall>c\<in>set (zero_fill w s). is_digit c"
  by (auto simp: zero_fill_def)

lemma length_to_string_nat: "n < 10 ^ k \<Longrightarrow> 0 < k \<Longrightarrow> length (to_string_nat n) \<le> k"
proof (induction n arbitrary: k rule: to_string_nat.induct)
  case (1 n)
  show ?case
  proof (cases "n < 10")
    case True
    then show ?thesis using 1(3) by (subst to_string_nat.simps) simp
  next
    case False
    then obtain j where j: "k = Suc j" "0 < j" using 1(2,3) by (cases k; cases "k - 1") auto
    then have "n div 10 < 10 ^ j" using 1(2) by (simp add: less_mult_imp_div_less mult.commute)
    from 1(1) [OF False this j(2)] False j(1) show ?thesis by (subst to_string_nat.simps) simp
  qed
qed

lemma length_zero_fill [simp]: "length s \<le> w \<Longrightarrow> length (zero_fill w s) = w"
  by (simp add: zero_fill_def)

lemma round_even_error:
  assumes "0 \<le> x"
  shows "\<bar>real (round_even x) - x\<bar> \<le> 1 / 2"
proof -
  have "real (nat \<lfloor>x\<rfloor>) \<le> x" "x < real (nat \<lfloor>x\<rfloor>) + 1" using assms by linarith+
  moreover define f where "f = nat \<lfloor>x\<rfloor>"
  ultimately have "real f \<le> x" "x < real f + 1" by simp_all
  then show ?thesis unfolding round_even_def f_def [symmetric] Let_def by (auto simp: abs_if)
qed

lemma digit_not_special: "is_digit c \<Longrightarrow> \<not> is_space c \<and> c \<noteq> CHR ''-'' \<and> c \<noteq> CHR ''+'' \<and> c \<noteq> CHR ''.''"
  by (auto simp: is_digit_def is_space_def)

text \<open>A plain decimal numeral: digits, or digits, a point and digits.\<close>

lemma std_stod_digits:
  assumes "ip \<noteq> []" "\<forall>c\<in>set ip. is_digit c" "digits_value ip < 2 ^ 1024"
  shows "std_stod ip = Inr (real (digits_value ip))"
proof -
  obtain c cs where ip: "ip = c # cs" "is_digit c" using assms(1,2) by (cases ip) auto
  have "real (digits_value ip) < 2 ^ 1024" using assms(3) by (metis of_nat_less_numeral_power_cancel_iff)
  moreover have "real (digits_value ip) \<noteq> 0 \<Longrightarrow> 1 \<le> real (digits_value ip)" by (cases "digits_value ip") auto
  moreover have "(1::real) / 2 ^ 1022 \<le> 1" by simp
  moreover have "skip_space ip = ip" "read_sign ip = (False, ip)"
    using ip digit_not_special [OF ip(2)] by (simp_all add: skip_space_def read_sign_def)
  moreover have "read_digits ip = (ip, [])" using assms(2) by (simp add: read_digits_def)
  ultimately show ?thesis using assms(1)
    by (auto simp: std_stod_def read_fraction_def read_exponent_def scale10_def Let_def)
qed

lemma std_stod_decimal:
  assumes "ip \<noteq> []" "\<forall>c\<in>set (ip @ fp). is_digit c"
    and "digits_value (ip @ fp) < 2 ^ 1000" "length fp < 300"
  shows "std_stod (ip @ CHR ''.'' # fp) = Inr (real (digits_value (ip @ fp)) / 10 ^ length fp)"
proof -
  let ?n = "digits_value (ip @ fp)"
  let ?v = "real ?n / 10 ^ length fp"
  obtain c cs where ip: "ip = c # cs" "is_digit c" using assms(1,2) by (cases ip) auto
  have dot: "\<not> is_digit (CHR ''.'')" by (simp add: is_digit_def)
  have parts: "skip_space (ip @ CHR ''.'' # fp) = ip @ CHR ''.'' # fp"
    "read_sign (ip @ CHR ''.'' # fp) = (False, ip @ CHR ''.'' # fp)"
    "read_digits (ip @ CHR ''.'' # fp) = (ip, CHR ''.'' # fp)" "read_fraction (CHR ''.'' # fp) = (fp, [])"
    using ip assms(2) dot digit_not_special [OF ip(2)]
    by (simp_all add: skip_space_def read_sign_def read_digits_def read_fraction_def takeWhile_append dropWhile_append)
  have "(10::real) ^ length fp \<le> 10 ^ 300" using assms(4) by (intro power_increasing) auto
  also have "(10::real) ^ 300 \<le> 2 ^ 1022" by simp
  finally have big: "(10::real) ^ length fp \<le> 2 ^ 1022" .
  have "real ?n < 2 ^ 1000" using assms(3) by (metis of_nat_less_numeral_power_cancel_iff)
  moreover have "?v \<le> real ?n / 1" by (intro divide_left_mono) simp_all
  ultimately have hi: "?v < 2 ^ 1024" by simp
  have lo: "?v \<noteq> 0 \<Longrightarrow> 1 / 2 ^ 1022 \<le> ?v"
  proof -
    assume "?v \<noteq> 0"
    then have "1 \<le> real ?n" by (cases ?n) auto
    then have "1 / 10 ^ length fp \<le> ?v" by (simp add: divide_right_mono)
    moreover have "1 / 2 ^ 1022 \<le> (1::real) / 10 ^ length fp" using big by (simp add: frac_le)
    ultimately show ?thesis by linarith
  qed
  have "scale10 (real ?n) (0 - int (length fp)) = ?v" by (simp add: scale10_def)
  with parts hi lo assms(1) show ?thesis
    by (auto simp: std_stod_def read_exponent_def Let_def)
qed

text \<open>Reading back a nonnegative number printed with \<open>p\<close> decimals.\<close>

lemma to_string_nat_is_digit: "c \<in> set (to_string_nat n) \<Longrightarrow> is_digit c"
  using to_string_nat_digits by blast

lemma fixed_string_parts:
  assumes "0 \<le> x" "0 < p"
  shows "\<exists>ip fp. fixed_string p x = ip @ CHR ''.'' # fp \<and> ip \<noteq> [] \<and> length fp = p \<and>
    (\<forall>c\<in>set (ip @ fp). is_digit c) \<and> digits_value (ip @ fp) = round_even (x * 10 ^ p)"
proof -
  let ?n = "round_even (x * 10 ^ p)"
  let ?ip = "to_string_nat (?n div 10 ^ p)" and ?fp = "zero_fill p (to_string_nat (?n mod 10 ^ p))"
  have len: "length ?fp = p" using length_to_string_nat [OF _ assms(2), of "?n mod 10 ^ p"] by simp
  have "digits_value (?ip @ ?fp) = ?n" by (simp add: digits_value_append len to_string_nat_value div_mult_mod_eq)
  moreover have "\<forall>c\<in>set (?ip @ ?fp). is_digit c"
    using zero_fill_digits [OF to_string_nat_digits] to_string_nat_digits by auto
  ultimately show ?thesis using assms len
    by (intro exI [of _ ?ip] exI [of _ ?fp]) (simp add: fixed_string_def Let_def)
qed

lemma round_even_le: "0 \<le> x \<Longrightarrow> real (round_even x) \<le> x + 1 / 2"
  using round_even_error [of x] by linarith

text \<open>A leading minus sign negates the value read.\<close>

lemma std_stod_minus:
  assumes "is_digit c"
  shows "std_stod (CHR ''-'' # c # cs) = (case std_stod (c # cs) of Inl e \<Rightarrow> Inl e | Inr v \<Rightarrow> Inr (- v))"
proof -
  have "skip_space (CHR ''-'' # c # cs) = CHR ''-'' # c # cs" "skip_space (c # cs) = c # cs"
    "read_sign (CHR ''-'' # c # cs) = (True, c # cs)" "read_sign (c # cs) = (False, c # cs)"
    using digit_not_special [OF assms] by (simp_all add: skip_space_def read_sign_def is_space_def)
  then show ?thesis
    by (simp add: std_stod_def split_beta Let_def)
qed

text \<open>Reading back a number printed with \<open>p\<close> decimals, and padded with zeros if it is nonnegative.\<close>

lemma fixed_string_value:
  assumes "0 \<le> x" "0 < p" "p < 300" "x * 10 ^ p \<le> 2 ^ 999"
  shows "\<exists>v. std_stod (zero_fill w (fixed_string p x)) = Inr v \<and> \<bar>v - x\<bar> \<le> 1 / (2 * 10 ^ p)"
proof -
  let ?n = "round_even (x * 10 ^ p)"
  obtain ip fp where parts: "fixed_string p x = ip @ CHR ''.'' # fp" "ip \<noteq> []" "length fp = p"
    "\<forall>c\<in>set (ip @ fp). is_digit c" "digits_value (ip @ fp) = ?n"
    using fixed_string_parts [OF assms(1,2)] by blast
  define zs where "zs = replicate (w - length (fixed_string p x)) (CHR ''0'')"
  have fill: "zero_fill w (fixed_string p x) = (zs @ ip) @ CHR ''.'' # fp"
    by (simp add: zero_fill_def zs_def parts(1))
  have val: "digits_value ((zs @ ip) @ fp) = ?n" by (simp add: zs_def parts(5))
  have "real ?n \<le> x * 10 ^ p + 1 / 2" using assms(1) by (intro round_even_le) simp
  also have "\<dots> < 2 ^ 1000" using assms(4) by simp
  finally have "?n < 2 ^ 1000" by (metis of_nat_less_numeral_power_cancel_iff)
  moreover have "\<forall>c\<in>set ((zs @ ip) @ fp). is_digit c" using parts(4) by (auto simp: zs_def)
  ultimately have "std_stod (zero_fill w (fixed_string p x)) = Inr (real ?n / 10 ^ p)"
    unfolding fill using std_stod_decimal [of "zs @ ip" fp] parts(2,3) assms(3) val by simp
  moreover have "\<bar>real ?n / 10 ^ p - x\<bar> \<le> 1 / (2 * 10 ^ p)"
  proof -
    have "real ?n / 10 ^ p - x = (real ?n - x * 10 ^ p) / 10 ^ p" by (simp add: field_simps)
    then have "\<bar>real ?n / 10 ^ p - x\<bar> = \<bar>real ?n - x * 10 ^ p\<bar> / 10 ^ p" by (simp add: abs_divide)
    also have "\<dots> \<le> (1 / 2) / 10 ^ p"
      using round_even_error [of "x * 10 ^ p"] assms(1) by (intro divide_right_mono) simp_all
    finally show ?thesis by simp
  qed
  ultimately show ?thesis by blast
qed

lemma fixed_string_abs: "fixed_string p x = (if x < 0 then CHR ''-'' # fixed_string p \<bar>x\<bar> else fixed_string p \<bar>x\<bar>)"
  by (simp add: fixed_string_def Let_def)

lemma fixed_string_signed_value:
  assumes "0 < p" "p < 300" "\<bar>x\<bar> * 10 ^ p \<le> 2 ^ 999"
  shows "\<exists>v. std_stod (fixed_string p x) = Inr v \<and> \<bar>v - x\<bar> \<le> 1 / (2 * 10 ^ p)"
proof -
  have "zero_fill 0 s = s" for s by (simp add: zero_fill_def)
  then obtain v where v: "std_stod (fixed_string p \<bar>x\<bar>) = Inr v" "\<bar>v - \<bar>x\<bar>\<bar> \<le> 1 / (2 * 10 ^ p)"
    using fixed_string_value [of "\<bar>x\<bar>" p 0] assms by auto
  obtain c cs where "fixed_string p \<bar>x\<bar> = c # cs" "is_digit c"
    using fixed_string_parts [of "\<bar>x\<bar>" p] assms(1) by (metis abs_ge_zero append_Cons list.set_intros(1) neq_Nil_conv)
  then have "x < 0 \<Longrightarrow> std_stod (fixed_string p x) = Inr (- v)"
    using v(1) std_stod_minus [of c cs] by (simp add: fixed_string_abs [of p x])
  moreover have "\<not> x < 0 \<Longrightarrow> std_stod (fixed_string p x) = Inr v" using v(1) by simp
  ultimately show ?thesis using v(2) by (cases "x < 0") (auto simp: abs_if split: if_splits)
qed

lemma fixed_string_chars: "c \<in> set (fixed_string p x) \<Longrightarrow> is_digit c \<or> c = CHR ''.'' \<or> c = CHR ''-''"
  by (auto simp: fixed_string_def Let_def zero_fill_def to_string_nat_is_digit split: if_splits)

lemma fixed_string_nonempty [simp]: "fixed_string p x \<noteq> []"
  by (simp add: fixed_string_def Let_def)

end
