(* ===== verification/Fg_NmeaSentence.thy ===== *)
theory Fg_NmeaSentence
  imports Fg_Numbers Fg_Prelude
begin

text \<open>
  NMEA 0183 framing, \<^verbatim>\<open>src/io/include/falconguide/io/nmea/nmea_sentence.hpp\<close>: checksum,
  hexadecimal bytes, parsing and building of sentences, with the round trip and the detection of
  corrupted characters.
\<close>

record NmeaSentence =
  nmea_talker :: string
  nmea_formatter :: string
  nmea_fields :: "string list"

definition ComputeChecksum :: "string \<Rightarrow> u8" where
  "ComputeChecksum payload = foldl (\<lambda>checksum c. checksum XOR byte_of_char c) 0 payload"

text \<open>\<^verbatim>\<open>std::uppercase << std::hex\<close>.\<close>

definition hex_char :: "nat \<Rightarrow> char" where
  "hex_char d = (if d < 10 then char_of (48 + d) else char_of (55 + d))"

fun to_hex :: "nat \<Rightarrow> string" where
  "to_hex n = (if n < 16 then [hex_char n] else to_hex (n div 16) @ [hex_char (n mod 16)])"

declare to_hex.simps [simp del]

definition FormatChecksum :: "u8 \<Rightarrow> string" where
  "FormatChecksum checksum = zero_fill 2 (to_hex (unat checksum))"

definition char_in :: "char \<Rightarrow> char \<Rightarrow> char \<Rightarrow> bool" where
  "char_in lo hi c \<longleftrightarrow> (of_char lo :: nat) \<le> of_char c \<and> (of_char c :: nat) \<le> of_char hi"

text \<open>The loop of \<open>ParseHexByte\<close> over the characters, on the byte read so far.\<close>

fun hex_loop :: "u8 \<Rightarrow> string \<Rightarrow> u8 option" where
  "hex_loop v [] = Some v"
| "hex_loop v (c # cs) =
     (let v' = push_bit 4 v in
      if char_in CHR ''0'' CHR ''9'' c then hex_loop (v' OR (byte_of_char c - byte_of_char CHR ''0'')) cs
      else if char_in CHR ''A'' CHR ''F'' c then hex_loop (v' OR (byte_of_char c - byte_of_char CHR ''A'' + 10)) cs
      else if char_in CHR ''a'' CHR ''f'' c then hex_loop (v' OR (byte_of_char c - byte_of_char CHR ''a'' + 10)) cs
      else None)"

definition ParseHexByte :: "string \<Rightarrow> u8 option" where
  "ParseHexByte txt = (if length txt \<noteq> 2 then None else hex_loop 0 txt)"

text \<open>The fields of a payload after its header and first comma.\<close>

function parse_fields :: "string \<Rightarrow> string list" where
  "parse_fields rest =
     (case str_find [CHR '',''] rest of
        None \<Rightarrow> [rest]
      | Some i \<Rightarrow> take i rest # parse_fields (drop (i + 1) rest))"
  by auto
termination by (relation "measure length") (auto dest: str_find_bound)

declare parse_fields.simps [simp del]

definition is_eol :: "char \<Rightarrow> bool" where
  "is_eol c \<longleftrightarrow> c = CHR 0x0A \<or> c = CHR 0x0D"

definition remove_eol :: "string \<Rightarrow> string" where
  "remove_eol line = rev (dropWhile is_eol (rev line))"

definition parse_payload :: "string \<Rightarrow> NmeaSentence option" where
  "parse_payload payload =
     (let first_comma = str_find [CHR '',''] payload;
          header = (case first_comma of None \<Rightarrow> payload | Some i \<Rightarrow> take i payload)
      in if length header < 5 then None
         else Some \<lparr>nmea_talker = take 2 header, nmea_formatter = drop 2 header,
                    nmea_fields = (case first_comma of None \<Rightarrow> [] | Some i \<Rightarrow> parse_fields (drop (i + 1) payload))\<rparr>)"

definition ParseSentence :: "string \<Rightarrow> NmeaSentence option" where
  "ParseSentence line0 =
     (if length line0 < 9 \<or> hd line0 \<noteq> CHR ''$'' then None
      else
        let line = remove_eol line0 in
        case str_find [CHR ''*''] line of
          None \<Rightarrow> None
        | Some marker \<Rightarrow>
            if marker + 3 \<noteq> length line then None
            else
              let payload = str_substr line 1 (marker - 1) in
              case ParseHexByte (str_substr line (marker + 1) 2) of
                None \<Rightarrow> None
              | Some expected \<Rightarrow>
                  if ComputeChecksum payload \<noteq> expected then None else parse_payload payload)"

definition nmea_payload :: "string \<Rightarrow> string \<Rightarrow> string list \<Rightarrow> string" where
  "nmea_payload t f fs = t @ f @ concat (map (\<lambda>x. CHR '','' # x) fs)"

definition BuildSentence :: "string \<Rightarrow> string \<Rightarrow> string list \<Rightarrow> string" where
  "BuildSentence t f fs =
     (let payload = nmea_payload t f fs
      in ''$'' @ payload @ ''*'' @ FormatChecksum (ComputeChecksum payload))"

section \<open>Checksums\<close>

lemma checksum_fold: "foldl (\<lambda>v c. v XOR byte_of_char c) x s = x XOR ComputeChecksum s"
proof (induction s arbitrary: x)
  case (Cons c s)
  show ?case
    using Cons.IH [of "x XOR byte_of_char c"] Cons.IH [of "byte_of_char c"]
    by (simp only: ComputeChecksum_def foldl.simps xor.assoc xor.left_neutral)
qed (simp add: ComputeChecksum_def)

lemma ComputeChecksum_append: "ComputeChecksum (a @ b) = ComputeChecksum a XOR ComputeChecksum b"
  using checksum_fold [of "ComputeChecksum a" b] by (simp add: ComputeChecksum_def)

lemma ComputeChecksum_Cons: "ComputeChecksum (c # s) = byte_of_char c XOR ComputeChecksum s"
  using checksum_fold [of "byte_of_char c" s] by (simp add: ComputeChecksum_def)

lemma xor_cancel:
  fixes a b x y :: u8
  assumes "a XOR (x XOR b) = a XOR (y XOR b)"
  shows "x = y"
proof -
  have "a XOR (a XOR (x XOR b)) = a XOR (a XOR (y XOR b))" using assms by (rule arg_cong)
  then have eq: "x XOR b = y XOR b" by (simp only: xor.assoc [symmetric] xor_self_eq xor.left_neutral)
  have "x = (x XOR b) XOR b" by (simp only: xor.assoc xor_self_eq xor.right_neutral)
  also have "\<dots> = (y XOR b) XOR b" by (simp only: eq)
  also have "\<dots> = y" by (simp only: xor.assoc xor_self_eq xor.right_neutral)
  finally show ?thesis .
qed

lemma ComputeChecksum_update:
  assumes "i < length s" "c \<noteq> s ! i"
  shows "ComputeChecksum (s[i := c]) \<noteq> ComputeChecksum s"
proof
  assume eq: "ComputeChecksum (s[i := c]) = ComputeChecksum s"
  let ?f = "\<lambda>x. ComputeChecksum (take i s @ x # drop (Suc i) s)"
  have "?f (s ! i) = ComputeChecksum s" using id_take_nth_drop [OF assms(1)] by simp
  moreover have "?f c = ComputeChecksum (s[i := c])" using assms(1) by (simp add: upd_conv_take_nth_drop)
  ultimately have "?f c = ?f (s ! i)" using eq by simp
  then have "ComputeChecksum (take i s) XOR (byte_of_char c XOR ComputeChecksum (drop (Suc i) s)) =
      ComputeChecksum (take i s) XOR (byte_of_char (s ! i) XOR ComputeChecksum (drop (Suc i) s))"
    by (simp only: ComputeChecksum_append ComputeChecksum_Cons)
  then have "byte_of_char c = byte_of_char (s ! i)" by (rule xor_cancel)
  then show False using assms(2) char_of_byte_of_char [of c] by simp
qed

lemma hex_char_value:
  assumes "d < 16"
  shows "hex_loop v (hex_char d # cs) = hex_loop (push_bit 4 v OR of_nat d) cs"
proof -
  have "d \<in> {0, 1, 2, 3, 4, 5, 6, 7, 8, 9, 10, 11, 12, 13, 14, 15}" using assms by (simp, arith)
  then show ?thesis by (auto simp: hex_char_def char_in_def byte_of_char_def Let_def)
qed

lemma FormatChecksum_digits:
  "FormatChecksum b = [hex_char (unat b div 16), hex_char (unat b mod 16)]"
proof -
  have "unat b < 2 ^ LENGTH(8)" by (rule unsigned_less)
  then have b: "unat b < 256" by simp
  then have "unat b div 16 < 16" by simp
  moreover have "hex_char 0 = CHR ''0''" by code_simp
  ultimately show ?thesis
    by (simp add: FormatChecksum_def to_hex.simps [of "unat b"] to_hex.simps [of "unat b div 16"] zero_fill_def)
qed

lemma hex_roundtrip: "ParseHexByte (FormatChecksum b) = Some b"
proof -
  have "unat b < 2 ^ LENGTH(8)" by (rule unsigned_less)
  then have b: "unat b < 256" by simp
  have hi: "of_nat (unat b div 16) = drop_bit 4 b"
    by (rule word_unat_eq_iff [THEN iffD2]) (use b in \<open>simp add: unat_of_nat unat_drop_bit_eq drop_bit_eq_div [of 4 "unat b"]\<close>)
  have lo: "of_nat (unat b mod 16) = take_bit 4 b"
    by (rule word_unat_eq_iff [THEN iffD2]) (use b in \<open>simp add: unat_of_nat unsigned_take_bit_eq take_bit_eq_mod [of 4 "unat b"]\<close>)
  have "push_bit 4 (drop_bit 4 b) OR take_bit 4 b = b"
    by (rule bit_word_eqI) (auto simp: bit_simps)
  then show ?thesis using b
    by (simp add: ParseHexByte_def FormatChecksum_digits hex_char_value hi lo del: hex_loop.simps(2))
qed

section \<open>Framing\<close>

lemma parse_fields_concat:
  assumes "fs \<noteq> []" "\<forall>x\<in>set fs. CHR '','' \<notin> set x"
  shows "parse_fields (tl (concat (map (\<lambda>x. CHR '','' # x) fs))) = fs"
  using assms
proof (induction fs)
  case (Cons x fs)
  show ?case
  proof (cases fs)
    case Nil
    from Cons.prems(2) have "str_find [CHR '',''] x = None" by (simp add: str_find_char_None)
    with Nil show ?thesis by (simp add: parse_fields.simps)
  next
    case (Cons y ys)
    then obtain rest where rest: "concat (map (\<lambda>x. CHR '','' # x) fs) = CHR '','' # rest" by simp
    have "parse_fields (x @ CHR '','' # rest) = x # parse_fields rest"
      using str_find_append [of "[CHR '','']" x rest] Cons.prems
      by (subst parse_fields.simps) simp
    with Cons.IH Cons.prems Cons rest show ?thesis by simp
  qed
qed simp

text \<open>A checksum has no end-of-line character at its end.\<close>

lemma hex_char_not_eol: "d < 16 \<Longrightarrow> \<not> is_eol (hex_char d)"
proof -
  have "list_all (\<lambda>d. \<not> is_eol (hex_char d)) [0..<16]" by code_simp
  then show "d < 16 \<Longrightarrow> \<not> is_eol (hex_char d)" by (simp add: list_all_iff)
qed

lemma hex_char_not_star: "d < 16 \<Longrightarrow> CHR ''*'' \<noteq> hex_char d"
proof -
  have "list_all (\<lambda>d. CHR ''*'' \<noteq> hex_char d) [0..<16]" by code_simp
  then show "d < 16 \<Longrightarrow> CHR ''*'' \<noteq> hex_char d" by (simp add: list_all_iff)
qed

lemma remove_eol_checksum:
  assumes "list_all is_eol eol"
  shows "remove_eol (a @ FormatChecksum b @ eol) = a @ FormatChecksum b"
proof -
  have "dropWhile is_eol (rev eol) = []" using assms by (simp add: list_all_iff)
  moreover have "\<not> is_eol (hex_char (unat b mod 16))" by (rule hex_char_not_eol) simp
  ultimately show ?thesis by (simp add: remove_eol_def FormatChecksum_digits dropWhile_append)
qed

lemma FormatChecksum_no_star: "CHR ''*'' \<notin> set (FormatChecksum b)"
proof -
  have "unat b < 2 ^ LENGTH(8)" by (rule unsigned_less)
  then have "unat b div 16 < 16" by simp
  then show ?thesis by (simp add: FormatChecksum_digits hex_char_not_star)
qed

lemma FormatChecksum_length [simp]: "length (FormatChecksum b) = 2"
  by (simp add: FormatChecksum_digits)

text \<open>Parsing \<open>$\<close>, a payload without \<open>*\<close>, \<open>*\<close> and two digits reads the checksum of those digits.\<close>

lemma ParseSentence_frame:
  assumes "CHR ''*'' \<notin> set payload" "5 \<le> length payload" "list_all is_eol eol"
  shows "ParseSentence (''$'' @ payload @ ''*'' @ FormatChecksum b @ eol) =
    (if ComputeChecksum payload = b then parse_payload payload else None)"
proof -
  let ?line = "''$'' @ payload @ ''*'' @ FormatChecksum b"
  have eol: "remove_eol (''$'' @ payload @ ''*'' @ FormatChecksum b @ eol) = ?line"
    using remove_eol_checksum [OF assms(3), of "''$'' @ payload @ ''*''" b] by simp
  have "str_find ''*'' ((CHR ''$'' # payload) @ ''*'' @ FormatChecksum b) = Some (length (CHR ''$'' # payload))"
    using assms(1) by (intro str_find_append) auto
  then have find: "str_find ''*'' ?line = Some (Suc (length payload))" by simp
  have sub: "str_substr ?line 1 (Suc (length payload) - 1) = payload"
    "str_substr ?line (Suc (length payload) + 1) 2 = FormatChecksum b"
    by (simp_all add: str_substr_def)
  have "\<not> (length (''$'' @ payload @ ''*'' @ FormatChecksum b @ eol) < 9)" using assms(2) by simp
  then show ?thesis
    unfolding ParseSentence_def Let_def eol find using sub by (simp add: hex_roundtrip)
qed

lemma parse_payload_built:
  assumes "length t = 2" "3 \<le> length f" "CHR '','' \<notin> set (t @ f)" "\<forall>x\<in>set fs. CHR '','' \<notin> set x"
  shows "parse_payload (nmea_payload t f fs) = Some \<lparr>nmea_talker = t, nmea_formatter = f, nmea_fields = fs\<rparr>"
proof (cases fs)
  case Nil
  have "str_find [CHR '',''] (t @ f) = None" using assms(3) by (simp add: str_find_char_None)
  with Nil assms(1,2) show ?thesis by (simp add: parse_payload_def nmea_payload_def Let_def)
next
  case (Cons x xs)
  let ?rest = "tl (concat (map (\<lambda>x. CHR '','' # x) fs))"
  have p: "nmea_payload t f fs = (t @ f) @ [CHR '',''] @ ?rest" by (simp add: nmea_payload_def Cons)
  have "str_find [CHR '',''] (nmea_payload t f fs) = Some (length (t @ f))"
    unfolding p using assms(3) by (intro str_find_append) auto
  moreover have "parse_fields ?rest = fs" using assms(4) Cons by (intro parse_fields_concat) auto
  ultimately show ?thesis using assms(1,2) p by (simp add: parse_payload_def Let_def)
qed

lemma nmea_payload_clean:
  assumes "c \<notin> set (t @ f)" "\<forall>x\<in>set fs. c \<notin> set x" "c \<noteq> CHR '',''"
  shows "c \<notin> set (nmea_payload t f fs)"
  using assms by (auto simp: nmea_payload_def)

text \<open>A field that the framing passes through unchanged.\<close>

definition nmea_clean :: "string \<Rightarrow> bool" where
  "nmea_clean s \<longleftrightarrow> CHR '','' \<notin> set s \<and> CHR ''*'' \<notin> set s"

lemma ParseSentence_BuildSentence:
  assumes "length t = 2" "3 \<le> length f" "nmea_clean (t @ f)" "list_all nmea_clean fs" "list_all is_eol eol"
  shows "ParseSentence (BuildSentence t f fs @ eol) =
    Some \<lparr>nmea_talker = t, nmea_formatter = f, nmea_fields = fs\<rparr>"
proof -
  let ?p = "nmea_payload t f fs"
  have star: "CHR ''*'' \<notin> set ?p" using assms(3,4) by (intro nmea_payload_clean) (auto simp: nmea_clean_def list_all_iff)
  have len: "5 \<le> length ?p" using assms(1,2) by (simp add: nmea_payload_def)
  have "parse_payload ?p = Some \<lparr>nmea_talker = t, nmea_formatter = f, nmea_fields = fs\<rparr>"
    using assms by (intro parse_payload_built) (auto simp: nmea_clean_def list_all_iff)
  then show ?thesis
    using ParseSentence_frame [OF star len assms(5), of "ComputeChecksum ?p"] by (simp add: BuildSentence_def Let_def)
qed

section \<open>Properties\<close>

text \<open>
  NMEA sentences survive the wire: what \<open>BuildSentence\<close> makes of a two-character talker, a
  formatter of at least three characters and any fields without comma and star, \<open>ParseSentence\<close>
  reads back exactly, with any end-of-line characters appended.
\<close>

theorem nmea_sentence_roundtrip:
  assumes "length t = 2" "3 \<le> length f" "nmea_clean (t @ f)" "list_all nmea_clean fs" "list_all is_eol eol"
  shows "ParseSentence (BuildSentence t f fs @ eol) =
    Some \<lparr>nmea_talker = t, nmea_formatter = f, nmea_fields = fs\<rparr>"
  using assms by (rule ParseSentence_BuildSentence)

theorem nmea_sentence_roundtrip_witness:
  "ParseSentence (BuildSentence ''GP'' ''GGA'' [''123519'', '''', ''N''] @ crlf) =
    Some \<lparr>nmea_talker = ''GP'', nmea_formatter = ''GGA'', nmea_fields = [''123519'', '''', ''N'']\<rparr>"
  by (rule nmea_sentence_roundtrip) (simp_all add: crlf_def is_eol_def nmea_clean_def)

text \<open>A changed character of the payload: it is a second star, or the checksum no longer matches.\<close>

lemma changed_payload_rejected:
  assumes "CHR ''*'' \<notin> set p" "5 \<le> length p" "j < length p" "c \<noteq> p ! j"
  defines "line \<equiv> ''$'' @ p[j := c] @ ''*'' @ FormatChecksum (ComputeChecksum p)"
  shows "ParseSentence line = None"
proof (cases "c = CHR ''*''")
  case False
  have "ComputeChecksum (p[j := c]) \<noteq> ComputeChecksum p"
    using ComputeChecksum_update [OF assms(3)] assms(4) by metis
  moreover have "CHR ''*'' \<notin> set (p[j := c])" using assms(1) False set_update_subset_insert by fastforce
  ultimately show ?thesis
    using ParseSentence_frame [of "p[j := c]" "[]" "ComputeChecksum p"] assms(2) by (simp add: line_def)
next
  case True
  have "p[j := c] = take j p @ ''*'' @ drop (Suc j) p"
    using assms(3) True by (simp add: upd_conv_take_nth_drop)
  then have "str_find ''*'' line = Some (length (CHR ''$'' # take j p))"
    using assms(1) str_find_append [of "''*''" "CHR ''$'' # take j p" "drop (Suc j) p @ ''*'' @ FormatChecksum (ComputeChecksum p)"]
    by (auto simp: line_def dest: in_set_takeD)
  moreover have "remove_eol line = line"
    using remove_eol_checksum [of "[]" "''$'' @ p[j := c] @ ''*''" "ComputeChecksum p"] by (simp add: line_def)
  moreover have "length line = length p + 4" by (simp add: line_def)
  ultimately show ?thesis using assms(2,3) by (simp add: ParseSentence_def Let_def)
qed

text \<open>
  C26. Corruption is detected: replacing any single character of a built sentence, from the
  leading dollar sign to the star, by a different one makes \<open>ParseSentence\<close> reject the line.
\<close>

theorem nmea_corruption_detected:
  assumes "length t = 2" "3 \<le> length f" "CHR ''*'' \<notin> set (t @ f)" "\<forall>x\<in>set fs. CHR ''*'' \<notin> set x"
    and "i \<le> length (nmea_payload t f fs) + 1" "c \<noteq> BuildSentence t f fs ! i"
  shows "ParseSentence ((BuildSentence t f fs)[i := c]) = None"
proof -
  let ?p = "nmea_payload t f fs"
  let ?ck = "FormatChecksum (ComputeChecksum ?p)"
  have star: "CHR ''*'' \<notin> set ?p" using assms(3,4) by (intro nmea_payload_clean) auto
  have len: "5 \<le> length ?p" using assms(1,2) by (simp add: nmea_payload_def)
  have build: "BuildSentence t f fs = CHR ''$'' # ?p @ CHR ''*'' # ?ck" by (simp add: BuildSentence_def Let_def)
  consider (dollar) "i = 0" | (payload) j where "i = Suc j" "j < length ?p" | (marker) "i = Suc (length ?p)"
    using assms(5) by (cases i) (auto simp: le_less)
  then show ?thesis
  proof cases
    case dollar
    then show ?thesis using assms(6) by (simp add: build ParseSentence_def)
  next
    case (payload j)
    have "(BuildSentence t f fs)[i := c] = ''$'' @ ?p[j := c] @ ''*'' @ ?ck" "c \<noteq> ?p ! j"
      using payload assms(6) by (auto simp: build list_update_append nth_append)
    with changed_payload_rejected [OF star len payload(2)] show ?thesis by metis
  next
    case marker
    have line: "(BuildSentence t f fs)[i := c] = (CHR ''$'' # ?p @ [c]) @ ?ck"
      using marker by (simp add: build list_update_append)
    have "c \<noteq> CHR ''*''" using assms(6) marker by (simp add: build nth_append)
    moreover have "CHR ''*'' \<notin> set ?ck" by (rule FormatChecksum_no_star)
    ultimately have "str_find ''*'' ((CHR ''$'' # ?p @ [c]) @ ?ck) = None" using star by (simp add: str_find_char_None)
    then show ?thesis
      using remove_eol_checksum [of "[]" "CHR ''$'' # ?p @ [c]" "ComputeChecksum ?p"]
      by (simp add: ParseSentence_def line)
  qed
qed

theorem nmea_corruption_detected_witness:
  "ParseSentence ((BuildSentence ''GP'' ''GGA'' [''123519'', ''N''])[9 := CHR ''4'']) = None"
proof -
  have p: "nmea_payload ''GP'' ''GGA'' [''123519'', ''N''] = ''GPGGA,123519,N''" by (simp add: nmea_payload_def)
  show ?thesis by (rule nmea_corruption_detected) (simp_all add: p BuildSentence_def Let_def)
qed

end
