(* ===== verification/Fg_Nmea.thy ===== *)
theory Fg_Nmea
  imports Fg_NmeaSentence Fg_Math Fg_Estimator
begin

text \<open>
  The NMEA sentences of FalconGuide, \<^verbatim>\<open>src/io/include/falconguide/io/nmea/nmea_gga.hpp\<close>,
  \<^verbatim>\<open>nmea_rmc.hpp\<close>, \<^verbatim>\<open>nmea_vtg.hpp\<close>: latitude and longitude fields, GGA, RMC and VTG parsing and
  writing; and the writer of \<^verbatim>\<open>nmea_writer.hpp\<close>, \<^verbatim>\<open>src/io/src/nmea/nmea_writer.cpp\<close>. The parsers let the
  exceptions of \<^verbatim>\<open>std::stod\<close> through, so they return \<open>cpp_exception + 'a option\<close>. The wall clock
  is a parameter: the fields of the \<^verbatim>\<open>std::tm\<close> that \<^verbatim>\<open>gmtime\<close> returns.
\<close>

section \<open>nmea\_gga.hpp\<close>

definition ParseNmeaLatitudeLongitude :: "string \<Rightarrow> string \<Rightarrow> bool \<Rightarrow> cpp_exception + real option" where
  "ParseNmeaLatitudeLongitude s hemisphere is_latitude =
     (if s = [] \<or> hemisphere = [] then Inr None
      else
        let degree_digits = (if is_latitude then 2 else 3) in
        if length s \<le> degree_digits then Inr None
        else
          bind_sum (std_stod (take degree_digits s)) (\<lambda>degrees.
          bind_sum (std_stod (drop degree_digits s)) (\<lambda>minutes.
            let decimal_degrees = degrees + minutes / 60 in
            if hemisphere = ''S'' \<or> hemisphere = ''W'' then Inr (Some (DegToRad (- decimal_degrees)))
            else if \<not> (hemisphere = ''N'' \<or> hemisphere = ''E'') then Inr None
            else Inr (Some (DegToRad decimal_degrees)))))"

definition FormatNmeaLatitudeLongitude :: "real \<Rightarrow> bool \<Rightarrow> string" where
  "FormatNmeaLatitudeLongitude radians is_latitude =
     (let absolute_degrees = \<bar>RadToDeg radians\<bar>;
          degrees = nat \<lfloor>absolute_degrees\<rfloor>;
          minutes = (absolute_degrees - real degrees) * 60;
          degree_width = (if is_latitude then 2 else 3)
      in zero_fill degree_width (to_string_nat degrees) @ zero_fill 10 (fixed_string 7 minutes))"

definition ParseGgaFixType :: "string \<Rightarrow> GnssFixType" where
  "ParseGgaFixType fld =
     (if fld = ''1'' then Single
      else if fld = ''2'' then Differential
      else if fld = ''4'' then RtkFixed
      else if fld = ''5'' then RtkFloat
      else NoFix)"

definition FormatGgaFixType :: "NavigationStatus \<Rightarrow> string" where
  "FormatGgaFixType status =
     (if status = Nominal \<or> status = Status_Degraded \<or> status = DeadReckoning then ''1'' else ''0'')"

definition ParseGga :: "NmeaSentence \<Rightarrow> cpp_exception + GnssSolution option" where
  "ParseGga sentence =
     (let fs = nmea_fields sentence in
      if nmea_formatter sentence \<noteq> ''GGA'' \<or> length fs < 14 then Inr None
      else
        bind_sum (ParseNmeaLatitudeLongitude (fs ! 1) (fs ! 2) True) (\<lambda>latitude.
        bind_sum (ParseNmeaLatitudeLongitude (fs ! 3) (fs ! 4) False) (\<lambda>longitude.
          case (latitude, longitude) of
            (Some lat, Some lon) \<Rightarrow>
              bind_sum (if fs ! 8 = [] then Inr 0 else std_stod (fs ! 8)) (\<lambda>altitude.
                let fix_type = ParseGgaFixType (fs ! 5) in
                bind_sum (if fs ! 7 = [] then Inr None else map_sum id Some (std_stod (fs ! 7))) (\<lambda>hdop.
                  Inr (Some (GnssSolution_default
                    \<lparr>gnss_position_ecef_m := LlaToEcef \<lparr>latitude_rad = lat, longitude_rad = lon, altitude_m = altitude\<rparr>,
                     gnss_fix_type := fix_type,
                     gnss_horizontal_dop := hdop,
                     gnss_validity := (if fix_type = NoFix then Validity_Unknown else Valid)\<rparr>))))
          | _ \<Rightarrow> Inr None)))"

definition ParseGgaLine :: "string \<Rightarrow> cpp_exception + GnssSolution option" where
  "ParseGgaLine line = (case ParseSentence line of None \<Rightarrow> Inr None | Some sentence \<Rightarrow> ParseGga sentence)"

definition WriteGga :: "NavigationState \<Rightarrow> string \<Rightarrow> string" where
  "WriteGga state utc_time =
     (let lla = EcefToLla (nav_position_ecef_m state);
          latitude = FormatNmeaLatitudeLongitude (latitude_rad lla) True;
          longitude = FormatNmeaLatitudeLongitude (longitude_rad lla) False;
          altitude = fixed_string 2 (altitude_m lla);
          hdop = (case horizontal_accuracy_m (nav_quality state) of None \<Rightarrow> [] | Some a \<Rightarrow> fixed_string 1 a)
      in BuildSentence ''FG'' ''GGA''
           [utc_time,
            latitude,
            (if latitude_rad lla \<ge> 0 then ''N'' else ''S''),
            longitude,
            (if longitude_rad lla \<ge> 0 then ''E'' else ''W''),
            FormatGgaFixType (nav_status state),
            ''00'', hdop, altitude, ''M'', ''0.00'', ''M'', '''', ''''])"

section \<open>nmea\_rmc.hpp\<close>

fun RmcStatusChar :: "NavigationStatus \<Rightarrow> char" where
  "RmcStatusChar Nominal = CHR ''A''"
| "RmcStatusChar Status_Degraded = CHR ''A''"
| "RmcStatusChar DeadReckoning = CHR ''A''"
| "RmcStatusChar _ = CHR ''V''"

definition ParseRmc :: "NmeaSentence \<Rightarrow> cpp_exception + GnssSolution option" where
  "ParseRmc sentence =
     (let fs = nmea_fields sentence in
      if nmea_formatter sentence \<noteq> ''RMC'' \<or> length fs < 10 then Inr None
      else if fs ! 1 \<noteq> ''A'' then Inr None
      else
        bind_sum (ParseNmeaLatitudeLongitude (fs ! 2) (fs ! 3) True) (\<lambda>latitude.
        bind_sum (ParseNmeaLatitudeLongitude (fs ! 4) (fs ! 5) False) (\<lambda>longitude.
          case (latitude, longitude) of
            (Some lat, Some lon) \<Rightarrow>
              Inr (Some (GnssSolution_default
                \<lparr>gnss_position_ecef_m := LlaToEcef \<lparr>latitude_rad = lat, longitude_rad = lon, altitude_m = 0\<rparr>,
                 gnss_fix_type := Single,
                 gnss_validity := Valid\<rparr>))
          | _ \<Rightarrow> Inr None)))"

definition ParseRmcLine :: "string \<Rightarrow> cpp_exception + GnssSolution option" where
  "ParseRmcLine line = (case ParseSentence line of None \<Rightarrow> Inr None | Some sentence \<Rightarrow> ParseRmc sentence)"

definition kMpsToKnots :: real where "kMpsToKnots = 1 / 0.514444"
definition kMpsToKph :: real where "kMpsToKph = 3.6"

text \<open>The course over ground of both sentences: clockwise from north, in \<open>[0, 360)\<close>.\<close>

definition course_deg :: "real \<Rightarrow> real \<Rightarrow> real" where
  "course_deg ve vn = (let c = RadToDeg (std_atan2 ve vn) in if c < 0 then c + 360 else c)"

definition WriteRmc :: "NavigationState \<Rightarrow> string \<Rightarrow> string \<Rightarrow> string" where
  "WriteRmc state utc_time date =
     (let lla = EcefToLla (nav_position_ecef_m state);
          ve = Vec3_x (nav_velocity_enu_mps state);
          vn = Vec3_y (nav_velocity_enu_mps state);
          speed_enu_mps = sqrt (ve * ve + vn * vn);
          speed_knots = speed_enu_mps * kMpsToKnots;
          lat_str = FormatNmeaLatitudeLongitude (latitude_rad lla) True;
          lon_str = FormatNmeaLatitudeLongitude (longitude_rad lla) False
      in BuildSentence ''FG'' ''RMC''
           [utc_time,
            [RmcStatusChar (nav_status state)],
            lat_str,
            (if latitude_rad lla \<ge> 0 then ''N'' else ''S''),
            lon_str,
            (if longitude_rad lla \<ge> 0 then ''E'' else ''W''),
            fixed_string 2 speed_knots,
            fixed_string 2 (course_deg ve vn),
            date, '''', ''''])"

section \<open>nmea\_vtg.hpp\<close>

record VtgData =
  course_true_deg :: real
  vtg_speed_knots :: real
  vtg_speed_kph :: real

text \<open>A field that may be empty: the member keeps its default 0 then.\<close>

definition stod_or_zero :: "string \<Rightarrow> cpp_exception + real" where
  "stod_or_zero fld = (if fld = [] then Inr 0 else std_stod fld)"

definition ParseVtg :: "NmeaSentence \<Rightarrow> cpp_exception + VtgData option" where
  "ParseVtg sentence =
     (let fs = nmea_fields sentence in
      if nmea_formatter sentence \<noteq> ''VTG'' \<or> length fs < 7 then Inr None
      else if length fs \<ge> 9 \<and> fs ! 8 = ''N'' then Inr None
      else
        bind_sum (stod_or_zero (fs ! 0)) (\<lambda>course.
        bind_sum (stod_or_zero (fs ! 4)) (\<lambda>knots.
        bind_sum (stod_or_zero (fs ! 6)) (\<lambda>kph.
          Inr (Some \<lparr>course_true_deg = course, vtg_speed_knots = knots, vtg_speed_kph = kph\<rparr>)))))"

definition ParseVtgLine :: "string \<Rightarrow> cpp_exception + VtgData option" where
  "ParseVtgLine line = (case ParseSentence line of None \<Rightarrow> Inr None | Some sentence \<Rightarrow> ParseVtg sentence)"

definition WriteVtg :: "NavigationState \<Rightarrow> string" where
  "WriteVtg state =
     (let vn = Vec3_y (nav_velocity_enu_mps state);
          ve = Vec3_x (nav_velocity_enu_mps state);
          speed_mps = sqrt (ve * ve + vn * vn);
          speed_knots = speed_mps * kMpsToKnots;
          speed_kph = speed_mps * kMpsToKph;
          status = nav_status state;
          mode = (if status = Nominal \<or> status = Status_Degraded \<or> status = DeadReckoning then ''A'' else ''N'')
      in BuildSentence ''FG'' ''VTG''
           [fixed_string 2 (course_deg ve vn), ''T'', '''', ''M'', fixed_string 2 speed_knots, ''N'',
            fixed_string 2 speed_kph, ''K'', mode])"

section \<open>nmea\_writer.cpp\<close>

datatype WriteResult = Write_Ok | BufferFull | Write_Error

text \<open>An output stream: what was written, how much more the device takes, and \<^verbatim>\<open>good()\<close>.\<close>

record ostream =
  written :: string
  capacity :: nat
  good :: bool

definition stream_put :: "ostream \<Rightarrow> string \<Rightarrow> ostream" where
  "stream_put s out =
     (if \<not> good s then s
      else s\<lparr>written := written s @ take (capacity s) out, capacity := capacity s - length out,
             good := length out \<le> capacity s\<rparr>)"

text \<open>
  \<open>w_target\<close> is what \<open>stream_\<close> points to: nothing, the caller's stream, or the file that \<open>owned_\<close>
  holds open. The world has the caller's stream and the files by path; a path that cannot be
  opened maps to \<^const>\<open>None\<close>.
\<close>

datatype stream_target = NoStream | ExternalStream | OwnedFile

record NmeaWriter =
  writer_name :: string
  writer_file_path :: string
  w_target :: stream_target
  w_owned :: bool
  w_open :: bool

record io_world =
  external_stream :: ostream
  world_files :: "string \<Rightarrow> ostream option"

definition NmeaWriter_new :: "string \<Rightarrow> NmeaWriter" where
  "NmeaWriter_new name =
     \<lparr>writer_name = name, writer_file_path = [], w_target = ExternalStream, w_owned = False, w_open = False\<rparr>"

definition NmeaWriter_ToFile :: "string \<Rightarrow> string \<Rightarrow> NmeaWriter" where
  "NmeaWriter_ToFile path name = (NmeaWriter_new name)\<lparr>writer_file_path := path, w_target := NoStream\<rparr>"

definition NmeaWriter_Open :: "NmeaWriter \<Rightarrow> io_world \<Rightarrow> bool \<times> NmeaWriter \<times> io_world" where
  "NmeaWriter_Open w world =
     (if w_open w then (True, w, world)
      else if writer_file_path w \<noteq> [] then
        (case world_files world (writer_file_path w) of
           None \<Rightarrow> (False, w\<lparr>w_owned := True\<rparr>, world)
         | Some f \<Rightarrow>
             (True, w\<lparr>w_owned := True, w_target := OwnedFile, w_open := True\<rparr>,
              world\<lparr>world_files := (world_files world)(writer_file_path w \<mapsto> f\<lparr>written := [], good := True\<rparr>)\<rparr>))
      else (w_target w \<noteq> NoStream, w\<lparr>w_open := w_target w \<noteq> NoStream\<rparr>, world))"

text \<open>Flushing passes the buffer to the device: the stream here is what was written already.\<close>

definition NmeaWriter_Close :: "NmeaWriter \<Rightarrow> NmeaWriter" where
  "NmeaWriter_Close w =
     (if \<not> w_open w then w
      else if w_owned w then w\<lparr>w_owned := False, w_target := NoStream, w_open := False\<rparr>
      else w\<lparr>w_open := False\<rparr>)"

definition put_target :: "NmeaWriter \<Rightarrow> io_world \<Rightarrow> string \<Rightarrow> io_world \<times> bool" where
  "put_target w world out =
     (case w_target w of
        NoStream \<Rightarrow> (world, False)
      | ExternalStream \<Rightarrow>
          (let s = stream_put (external_stream world) out in (world\<lparr>external_stream := s\<rparr>, good s))
      | OwnedFile \<Rightarrow>
          (case world_files world (writer_file_path w) of
             None \<Rightarrow> (world, False)
           | Some f \<Rightarrow>
               (let s = stream_put f out
                in (world\<lparr>world_files := (world_files world)(writer_file_path w \<mapsto> s)\<rparr>, good s))))"

record std_tm =
  tm_hour :: nat
  tm_min :: nat
  tm_sec :: nat
  tm_mday :: nat
  tm_mon :: nat
  tm_year :: nat

definition FormatUtcTime :: "std_tm \<Rightarrow> string" where
  "FormatUtcTime t =
     zero_fill 2 (to_string_nat (tm_hour t)) @ zero_fill 2 (to_string_nat (tm_min t)) @
     zero_fill 2 (to_string_nat (tm_sec t)) @ ''.00''"

definition FormatUtcDate :: "std_tm \<Rightarrow> string" where
  "FormatUtcDate t =
     zero_fill 2 (to_string_nat (tm_mday t)) @ zero_fill 2 (to_string_nat (tm_mon t + 1)) @
     zero_fill 2 (to_string_nat (tm_year t mod 100))"

text \<open>The two calls of the clock may see different times.\<close>

definition WriteState :: "std_tm \<Rightarrow> std_tm \<Rightarrow> NmeaWriter \<Rightarrow> io_world \<Rightarrow> NavigationState \<Rightarrow> WriteResult \<times> io_world" where
  "WriteState now1 now2 w world state =
     (if \<not> w_open w \<or> w_target w = NoStream then (Write_Error, world)
      else
        let utc_time = FormatUtcTime now1;
            utc_date = FormatUtcDate now2;
            (world', ok) = put_target w world
              (WriteGga state utc_time @ crlf @ WriteRmc state utc_time utc_date @ crlf @ WriteVtg state @ crlf)
        in (if ok then Write_Ok else Write_Error, world'))"

section \<open>Positions\<close>

lemma kPi_pos [simp]: "0 < kPi" "\<not> kPi < 0" "\<bar>kPi\<bar> = kPi"
  by (simp_all add: kPi_def)

lemma RadToDeg_inverse: "DegToRad (RadToDeg x) = x"
  by (simp add: DegToRad_def RadToDeg_def kPi_def)

lemma DegToRad_diff: "\<bar>DegToRad a - DegToRad b\<bar> = DegToRad \<bar>a - b\<bar>"
proof -
  have "DegToRad a - DegToRad b = (kPi / 180) * (a - b)" by (simp add: DegToRad_def algebra_simps)
  then have "\<bar>DegToRad a - DegToRad b\<bar> = \<bar>kPi / 180\<bar> * \<bar>a - b\<bar>" by (simp only: abs_mult)
  also have "\<dots> = DegToRad \<bar>a - b\<bar>" using kPi_pos by (simp add: DegToRad_def)
  finally show ?thesis .
qed

lemma DegToRad_mono: "a \<le> b \<Longrightarrow> DegToRad a \<le> DegToRad b"
  using kPi_pos by (simp add: DegToRad_def divide_right_mono mult_right_mono)

text \<open>The degrees and minutes fields, read back.\<close>

lemma degrees_field:
  assumes "d < 10 ^ w" "0 < w" "w \<le> 3"
  shows "length (zero_fill w (to_string_nat d)) = w" "std_stod (zero_fill w (to_string_nat d)) = Inr (real d)"
proof -
  show "length (zero_fill w (to_string_nat d)) = w" using assms by (simp add: length_to_string_nat)
  have "(10::nat) ^ w \<le> 10 ^ 3" using assms(3) by (intro power_increasing) simp_all
  then have "d < 2 ^ 1024" using assms(1) by simp
  then show "std_stod (zero_fill w (to_string_nat d)) = Inr (real d)"
    using std_stod_digits [of "zero_fill w (to_string_nat d)"] zero_fill_digits [OF to_string_nat_digits]
    by (simp add: to_string_nat_value zero_fill_def)
qed

lemma position_field:
  assumes "\<bar>RadToDeg x\<bar> < (if is_latitude then 100 else 1000)"
    and "h = (if is_latitude then (if 0 \<le> x then ''N'' else ''S'') else (if 0 \<le> x then ''E'' else ''W''))"
  shows "\<exists>y. ParseNmeaLatitudeLongitude (FormatNmeaLatitudeLongitude x is_latitude) h is_latitude = Inr (Some y) \<and>
    \<bar>y - x\<bar> \<le> DegToRad (1 / (12 * 10 ^ 8))"
proof -
  define a where "a = \<bar>RadToDeg x\<bar>"
  define d where "d = nat \<lfloor>a\<rfloor>"
  define w where "w = (if is_latitude then 2 else 3 :: nat)"
  let ?m = "(a - real d) * 60"
  have d: "real d \<le> a" "a < real d + 1" unfolding d_def a_def by linarith+
  have "a < 10 ^ w" using assms(1) by (simp add: a_def w_def split: if_splits)
  then have "real d < 10 ^ w" using d(1) by linarith
  then have "real d < real (10 ^ w)" by simp
  then have "d < 10 ^ w" by (simp only: of_nat_less_iff)
  note D = degrees_field [OF this, unfolded w_def, simplified]
  have "?m * 10 ^ 7 \<le> 60 * 10 ^ 7" using d(2) by simp
  also have "(60::real) * 10 ^ 7 \<le> 2 ^ 999" by simp
  finally obtain v where v: "std_stod (zero_fill 10 (fixed_string 7 ?m)) = Inr v" "\<bar>v - ?m\<bar> \<le> 1 / (2 * 10 ^ 7)"
    using fixed_string_value [of ?m 7 10] d(1) by auto
  let ?u = "real d + v / 60"
  define y where "y = DegToRad (if 0 \<le> x then ?u else - ?u)"
  have "RadToDeg x = (if 0 \<le> x then a else - a)" using kPi_pos by (auto simp: a_def RadToDeg_def abs_if divide_less_0_iff mult_less_0_iff zero_le_divide_iff)
  then have "x = DegToRad (if 0 \<le> x then a else - a)" using RadToDeg_inverse [of x] by metis
  then have "\<bar>y - x\<bar> = \<bar>DegToRad (if 0 \<le> x then ?u else - ?u) - DegToRad (if 0 \<le> x then a else - a)\<bar>"
    unfolding y_def by argo
  also have "\<dots> = DegToRad \<bar>?u - a\<bar>" unfolding DegToRad_diff by (rule arg_cong [of _ _ DegToRad]) (auto simp: abs_if)
  also have "\<dots> \<le> DegToRad (1 / (12 * 10 ^ 8))"
  proof (rule DegToRad_mono)
    have "?u - a = (v - ?m) / 60" by (simp add: field_simps)
    then have "\<bar>?u - a\<bar> = \<bar>v - ?m\<bar> / 60" by (simp only: abs_divide abs_numeral)
    also have "\<dots> \<le> 1 / (2 * 10 ^ 7) / 60" using v(2) by (intro divide_right_mono) simp_all
    finally show "\<bar>?u - a\<bar> \<le> 1 / (12 * 10 ^ 8)" by simp
  qed
  finally have "\<bar>y - x\<bar> \<le> DegToRad (1 / (12 * 10 ^ 8))" .
  moreover have "ParseNmeaLatitudeLongitude (FormatNmeaLatitudeLongitude x is_latitude) h is_latitude = Inr (Some y)"
    using D v(1) assms(2)
    by (cases is_latitude) (simp_all add: ParseNmeaLatitudeLongitude_def FormatNmeaLatitudeLongitude_def Let_def
        a_def [symmetric] d_def [symmetric] y_def zero_fill_def split: if_splits)
  ultimately show ?thesis by blast
qed

section \<open>Clean fields\<close>

lemma digit_clean: "\<forall>c\<in>set s. is_digit c \<or> c = CHR ''.'' \<or> c = CHR ''-'' \<Longrightarrow> nmea_clean s"
  by (auto simp: nmea_clean_def is_digit_def)

lemma nmea_clean_append [simp]: "nmea_clean (a @ b) \<longleftrightarrow> nmea_clean a \<and> nmea_clean b"
  by (auto simp: nmea_clean_def)

lemma zero_fill_clean [simp]: "nmea_clean s \<Longrightarrow> nmea_clean (zero_fill w s)"
  by (auto simp: nmea_clean_def zero_fill_def)

lemma to_string_nat_clean [simp]: "nmea_clean (to_string_nat n)"
  by (rule digit_clean) (simp add: to_string_nat_is_digit)

lemma fixed_string_clean [simp]: "nmea_clean (fixed_string p x)"
  by (rule digit_clean) (simp add: fixed_string_chars)

lemma FormatNmea_clean [simp]: "nmea_clean (FormatNmeaLatitudeLongitude x l)"
  by (simp add: FormatNmeaLatitudeLongitude_def Let_def)

lemma FormatUtc_clean [simp]: "nmea_clean (FormatUtcTime t)" "nmea_clean (FormatUtcDate t)"
  by (simp_all add: FormatUtcTime_def FormatUtcDate_def) (simp add: nmea_clean_def)

lemma std_atan2_bound: "\<bar>std_atan2 y x\<bar> \<le> pi"
proof -
  have "\<bar>arctan (y / x)\<bar> < pi / 2" using arctan_bounded [of "y / x"] by auto
  moreover have "x < 0 \<Longrightarrow> y \<ge> 0 \<Longrightarrow> arctan (y / x) \<le> 0" by (simp add: divide_nonneg_neg)
  moreover have "x < 0 \<Longrightarrow> y < 0 \<Longrightarrow> 0 \<le> arctan (y / x)" by (simp add: divide_nonpos_neg)
  ultimately show ?thesis using pi_ge_two unfolding std_atan2_def by (smt (verit) field_sum_of_halves)
qed

lemma longitude_bound: "\<bar>RadToDeg (longitude_rad (EcefToLla p))\<bar> < 1000"
proof -
  have "\<bar>longitude_rad (EcefToLla p)\<bar> \<le> 4"
    using std_atan2_bound [of "Vec3_y p" "Vec3_x p"] pi_less_4 by (simp add: EcefToLla_def Let_def)
  then have "\<bar>longitude_rad (EcefToLla p)\<bar> * 180 / kPi \<le> 4 * 180 / 3"
    by (intro frac_le mult_right_mono) (simp_all add: kPi_def)
  then show ?thesis by (simp add: RadToDeg_def abs_mult)
qed

lemma stod_bound: "\<bar>x :: real\<bar> \<le> 10 ^ 9 \<Longrightarrow> p \<le> 2 \<Longrightarrow> \<bar>x\<bar> * 10 ^ p \<le> 2 ^ 999"
proof -
  assume x: "\<bar>x\<bar> \<le> 10 ^ 9" and "p \<le> 2"
  then have "(10::real) ^ p \<le> 10 ^ 2" by (intro power_increasing) simp_all
  with x have "\<bar>x\<bar> * 10 ^ p \<le> 10 ^ 9 * 10 ^ 2" by (intro mult_mono) simp_all
  also have "(10::real) ^ 9 * 10 ^ 2 \<le> 2 ^ 999" by simp
  finally show ?thesis .
qed

lemma ParseGga_fields:
  assumes "ParseNmeaLatitudeLongitude a b True = Inr (Some lat)" "ParseNmeaLatitudeLongitude c d False = Inr (Some lon)"
    and "alt_s \<noteq> []" "std_stod alt_s = Inr alt" "(if hs = [] then Inr None else map_sum id Some (std_stod hs)) = Inr hdop"
  shows "ParseGga \<lparr>nmea_talker = t, nmea_formatter = ''GGA'',
      nmea_fields = [u, a, b, c, d, q, n, hs, alt_s, m, g, m', r, s]\<rparr> =
    Inr (Some (GnssSolution_default
      \<lparr>gnss_position_ecef_m := LlaToEcef \<lparr>latitude_rad = lat, longitude_rad = lon, altitude_m = alt\<rparr>,
       gnss_fix_type := ParseGgaFixType q, gnss_horizontal_dop := hdop,
       gnss_validity := (if ParseGgaFixType q = NoFix then Validity_Unknown else Valid)\<rparr>))"
  using assms by (cases "hs = []") (simp_all add: ParseGga_def Let_def)

text \<open>The accuracy of a solution that travelled through a GGA sentence.\<close>

definition gga_close :: "Lla \<Rightarrow> Lla \<Rightarrow> bool" where
  "gga_close sent got \<longleftrightarrow>
     \<bar>latitude_rad got - latitude_rad sent\<bar> \<le> DegToRad (1 / (12 * 10 ^ 8)) \<and>
     \<bar>longitude_rad got - longitude_rad sent\<bar> \<le> DegToRad (1 / (12 * 10 ^ 8)) \<and>
     \<bar>altitude_m got - altitude_m sent\<bar> \<le> 1 / 200"

definition hdop_close :: "real option \<Rightarrow> real option \<Rightarrow> bool" where
  "hdop_close sent got \<longleftrightarrow> rel_option (\<lambda>a b. \<bar>b - a\<bar> \<le> 1 / 20) sent got"

lemma equator_lla: "EcefToLla (Vec3_xyz kSemiMajorAxisM 0 0) = \<lparr>latitude_rad = 0, longitude_rad = 0, altitude_m = 0\<rparr>"
proof -
  have "0 < kSemiMajorAxisM - kFirstEccentricitySquared * kSemiMajorAxisM" "0 < kSemiMinorAxisM"
    by (simp_all add: kSemiMajorAxisM_def kFirstEccentricitySquared_def kFlattening_def kSemiMinorAxisM_def)
  then show ?thesis
    by (simp add: EcefToLla_def Let_def Vec3_xyz_def Vec3_x_def Vec3_y_def Vec3_z_def std_hypot_def std_atan2_def)
       (simp add: kSemiMajorAxisM_def)
qed

definition accuracy_text :: "real option \<Rightarrow> string" where
  "accuracy_text acc = (case acc of None \<Rightarrow> [] | Some a \<Rightarrow> fixed_string 1 a)"

lemma accuracy_field:
  assumes "pred_option (\<lambda>a. \<bar>a\<bar> \<le> 10 ^ 9) acc"
  obtains hdop where "(if accuracy_text acc = [] then Inr None else map_sum id Some (std_stod (accuracy_text acc))) = Inr hdop"
    "hdop_close acc hdop"
proof (cases acc)
  case (Some a)
  then have "\<bar>a\<bar> \<le> 10 ^ 9" using assms by simp
  then obtain v where "std_stod (fixed_string 1 a) = Inr v" "\<bar>v - a\<bar> \<le> 1 / 20"
    using fixed_string_signed_value [of 1 a] stod_bound [of a 1] by auto
  then show ?thesis using Some that by (auto simp: accuracy_text_def hdop_close_def)
qed (use that in \<open>simp add: accuracy_text_def hdop_close_def\<close>)

text \<open>The fields of a GGA report come back from the sentence.\<close>

lemma ParseSentence_WriteGga:
  fixes st :: NavigationState
  assumes "nmea_clean utc" "list_all is_eol eol"
  defines "lla \<equiv> EcefToLla (nav_position_ecef_m st)"
  shows "ParseSentence (WriteGga st utc @ eol) = Some \<lparr>nmea_talker = ''FG'', nmea_formatter = ''GGA'', nmea_fields =
    [utc, FormatNmeaLatitudeLongitude (latitude_rad lla) True, (if 0 \<le> latitude_rad lla then ''N'' else ''S''),
     FormatNmeaLatitudeLongitude (longitude_rad lla) False, (if 0 \<le> longitude_rad lla then ''E'' else ''W''),
     FormatGgaFixType (nav_status st), ''00'', accuracy_text (horizontal_accuracy_m (nav_quality st)),
     fixed_string 2 (altitude_m lla), ''M'', ''0.00'', ''M'', '''', '''']\<rparr>" (is "_ = Some \<lparr>nmea_talker = _, nmea_formatter = _, nmea_fields = ?fs\<rparr>")
proof -
  have "nmea_clean (accuracy_text acc)" for acc
    by (cases acc) (simp_all add: accuracy_text_def, simp add: nmea_clean_def)
  then have "list_all nmea_clean ?fs"
    using assms(1) by (simp add: FormatGgaFixType_def) (simp add: nmea_clean_def)
  then show ?thesis
    using ParseSentence_BuildSentence [of "''FG''" "''GGA''" ?fs eol] assms(2)
    by (simp add: WriteGga_def Let_def accuracy_text_def lla_def nmea_clean_def)
qed

text \<open>
  C24. A navigation state reported as GGA and read back as a GNSS fix keeps its position: for a
  latitude below 100 degrees and magnitudes the fields can hold, \<open>ParseGgaLine\<close> accepts what
  \<open>WriteGga\<close> writes (with any line end), with latitude and longitude within 1/1.2e9 degree
  (0.1 mm on the ground), altitude within 5 mm and the horizontal accuracy, which travels in the
  HDOP field, within 5 cm; usable states become a valid single fix, all others no fix of unknown
  validity.
\<close>

theorem gga_position_roundtrip:
  assumes "\<bar>RadToDeg (latitude_rad (EcefToLla (nav_position_ecef_m st)))\<bar> < 100"
    and "\<bar>altitude_m (EcefToLla (nav_position_ecef_m st))\<bar> \<le> 10 ^ 9"
    and "pred_option (\<lambda>a. \<bar>a\<bar> \<le> 10 ^ 9) (horizontal_accuracy_m (nav_quality st))"
    and "nmea_clean utc" "list_all is_eol eol"
  shows "\<exists>lla hdop. gga_close (EcefToLla (nav_position_ecef_m st)) lla \<and>
    hdop_close (horizontal_accuracy_m (nav_quality st)) hdop \<and>
    ParseGgaLine (WriteGga st utc @ eol) = Inr (Some (GnssSolution_default
      \<lparr>gnss_position_ecef_m := LlaToEcef lla,
       gnss_fix_type := (if nav_status st \<in> {Nominal, Status_Degraded, DeadReckoning} then Single else NoFix),
       gnss_horizontal_dop := hdop,
       gnss_validity := (if nav_status st \<in> {Nominal, Status_Degraded, DeadReckoning} then Valid else Validity_Unknown)\<rparr>))"
proof -
  let ?lla = "EcefToLla (nav_position_ecef_m st)"
  obtain lat where lat: "ParseNmeaLatitudeLongitude (FormatNmeaLatitudeLongitude (latitude_rad ?lla) True)
      (if 0 \<le> latitude_rad ?lla then ''N'' else ''S'') True = Inr (Some lat)"
    "\<bar>lat - latitude_rad ?lla\<bar> \<le> DegToRad (1 / (12 * 10 ^ 8))"
    using position_field [of "latitude_rad ?lla" True, OF _ refl] assms(1) by auto
  obtain lon where lon: "ParseNmeaLatitudeLongitude (FormatNmeaLatitudeLongitude (longitude_rad ?lla) False)
      (if 0 \<le> longitude_rad ?lla then ''E'' else ''W'') False = Inr (Some lon)"
    "\<bar>lon - longitude_rad ?lla\<bar> \<le> DegToRad (1 / (12 * 10 ^ 8))"
    using position_field [of "longitude_rad ?lla" False, OF _ refl] longitude_bound by auto
  obtain alt where alt: "std_stod (fixed_string 2 (altitude_m ?lla)) = Inr alt" "\<bar>alt - altitude_m ?lla\<bar> \<le> 1 / 200"
    using fixed_string_signed_value [of 2 "altitude_m ?lla"] stod_bound [OF assms(2), of 2] by auto
  obtain hdop where hdop: "(if accuracy_text (horizontal_accuracy_m (nav_quality st)) = [] then Inr None
      else map_sum id Some (std_stod (accuracy_text (horizontal_accuracy_m (nav_quality st))))) = Inr hdop"
    "hdop_close (horizontal_accuracy_m (nav_quality st)) hdop"
    using accuracy_field [OF assms(3)] .
  have "ParseGgaFixType (FormatGgaFixType (nav_status st)) =
      (if nav_status st \<in> {Nominal, Status_Degraded, DeadReckoning} then Single else NoFix)"
    by (simp add: ParseGgaFixType_def FormatGgaFixType_def)
  then have "ParseGgaLine (WriteGga st utc @ eol) = Inr (Some (GnssSolution_default
      \<lparr>gnss_position_ecef_m := LlaToEcef \<lparr>latitude_rad = lat, longitude_rad = lon, altitude_m = alt\<rparr>,
       gnss_fix_type := (if nav_status st \<in> {Nominal, Status_Degraded, DeadReckoning} then Single else NoFix),
       gnss_horizontal_dop := hdop,
       gnss_validity := (if nav_status st \<in> {Nominal, Status_Degraded, DeadReckoning} then Valid else Validity_Unknown)\<rparr>))"
    by (simp add: ParseGgaLine_def ParseSentence_WriteGga [OF assms(4,5)]
        ParseGga_fields [OF lat(1) lon(1) fixed_string_nonempty alt(1) hdop(1)])
  moreover have "gga_close ?lla \<lparr>latitude_rad = lat, longitude_rad = lon, altitude_m = alt\<rparr>"
    using lat(2) lon(2) alt(2) by (simp add: gga_close_def)
  ultimately show ?thesis using hdop(2) by blast
qed

theorem gga_position_roundtrip_witness:
  "\<exists>lla hdop. gga_close (EcefToLla (Vec3_xyz kSemiMajorAxisM 0 0)) lla \<and>
    hdop_close None hdop \<and>
    ParseGgaLine (WriteGga (NavigationState_default\<lparr>nav_position_ecef_m := Vec3_xyz kSemiMajorAxisM 0 0, nav_status := Nominal\<rparr>)
        ''101500.00'' @ crlf) =
      Inr (Some (GnssSolution_default\<lparr>gnss_position_ecef_m := LlaToEcef lla, gnss_fix_type := Single,
        gnss_horizontal_dop := hdop, gnss_validity := Valid\<rparr>))"
proof -
  let ?st = "NavigationState_default\<lparr>nav_position_ecef_m := Vec3_xyz kSemiMajorAxisM 0 0, nav_status := Nominal\<rparr>"
  have "horizontal_accuracy_m (nav_quality ?st) = None" by (simp add: NavigationState_default_def NavigationQuality_default_def)
  moreover have "nmea_clean ''101500.00''" by (simp add: nmea_clean_def)
  ultimately show ?thesis
    using gga_position_roundtrip [of ?st "''101500.00''" crlf] equator_lla
    by (simp add: NavigationState_default_def RadToDeg_def crlf_def is_eol_def)
qed

text \<open>
  The GGA parser is not total: a sentence whose checksum is right and whose latitude field
  starts with a character that cannot begin a number makes \<open>ParseGgaLine\<close> throw the
  \<open>std::invalid_argument\<close> of \<open>std::stod\<close> to its caller instead of returning no solution.
\<close>

theorem gga_nonnumeric_latitude_throws:
  assumes "length t = 2" "nmea_clean t" "list_all nmea_clean fs" "14 \<le> length fs"
    and "3 \<le> length (fs ! 1)" "fs ! 2 \<noteq> []" "hd (fs ! 1) \<notin> set ''0123456789+-.'' \<union> {c. is_space c}"
  shows "ParseGgaLine (BuildSentence t ''GGA'' fs) = Inl (InvalidArgument ''stod'')"
proof -
  obtain c d cs where f: "fs ! 1 = c # d # cs" using assms(5) by (cases "fs ! 1"; cases "tl (fs ! 1)") auto
  have c: "\<not> is_space c" "c \<noteq> CHR ''-''" "c \<noteq> CHR ''+''" "c \<noteq> CHR ''.''" using assms(7) f by auto
  have "\<not> is_digit c"
  proof
    assume "is_digit c"
    then have n: "of_char c \<in> set [48..<58::nat]" unfolding is_digit_def by (simp only: set_upt atLeastLessThan_iff) arith
    have "map char_of [48..<58::nat] = ''0123456789''" by code_simp
    then have "char_of ` set [48..<58::nat] = set ''0123456789''" by (metis list.set_map)
    then have "char_of (of_char c :: nat) \<in> set ''0123456789''" using n by blast
    then show False using assms(7) f by simp
  qed
  then have "std_stod [c, d] = Inl (InvalidArgument ''stod'')"
    using c by (simp add: std_stod_def skip_space_def read_sign_def read_digits_def read_fraction_def)
  then have "ParseNmeaLatitudeLongitude (fs ! 1) (fs ! 2) True = Inl (InvalidArgument ''stod'')"
    using assms(5,6) by (auto simp: ParseNmeaLatitudeLongitude_def f f [unfolded One_nat_def] Let_def)
  moreover have "ParseSentence (BuildSentence t ''GGA'' fs) = Some \<lparr>nmea_talker = t, nmea_formatter = ''GGA'', nmea_fields = fs\<rparr>"
    using ParseSentence_BuildSentence [of t "''GGA''" fs "[]"] assms(1-3) by (simp add: nmea_clean_def)
  ultimately show ?thesis using assms(4) by (simp add: ParseGgaLine_def ParseGga_def Let_def)
qed

theorem gga_nonnumeric_latitude_throws_witness:
  "ParseGgaLine (BuildSentence ''GP'' ''GGA''
     ([''101500'', ''xx30.0'', ''N'', ''00830.0'', ''E'', ''1''] @ replicate 8 '''')) = Inl (InvalidArgument ''stod'')"
  by (rule gga_nonnumeric_latitude_throws) (simp_all add: nmea_clean_def is_space_def numeral_eq_Suc)

section \<open>RMC and VTG reports\<close>

definition usable_status :: "NavigationStatus \<Rightarrow> bool" where
  "usable_status s \<longleftrightarrow> s \<in> {Nominal, Status_Degraded, DeadReckoning}"

lemma RmcStatusChar_usable: "RmcStatusChar s = (if usable_status s then CHR ''A'' else CHR ''V'')"
  by (cases s) (simp_all add: usable_status_def)

lemma ParseRmc_fields:
  assumes "ParseNmeaLatitudeLongitude a b True = Inr (Some lat)" "ParseNmeaLatitudeLongitude c d False = Inr (Some lon)"
  shows "ParseRmc \<lparr>nmea_talker = t, nmea_formatter = ''RMC'', nmea_fields = [u, q, a, b, c, d, v, w, x, y, z]\<rparr> =
    Inr (if q = ''A''
         then Some (GnssSolution_default\<lparr>gnss_position_ecef_m := LlaToEcef \<lparr>latitude_rad = lat, longitude_rad = lon, altitude_m = 0\<rparr>,
           gnss_fix_type := Single, gnss_validity := Valid\<rparr>)
         else None)"
  using assms by (simp add: ParseRmc_def Let_def)

lemma ParseRmcLine_WriteRmc:
  assumes "\<bar>RadToDeg (latitude_rad (EcefToLla (nav_position_ecef_m st)))\<bar> < 100"
    and "nmea_clean utc" "nmea_clean date" "list_all is_eol eol"
  shows "\<exists>lla. gga_close (EcefToLla (nav_position_ecef_m st)\<lparr>altitude_m := 0\<rparr>) lla \<and>
    ParseRmcLine (WriteRmc st utc date @ eol) =
      Inr (if usable_status (nav_status st)
           then Some (GnssSolution_default\<lparr>gnss_position_ecef_m := LlaToEcef lla, gnss_fix_type := Single, gnss_validity := Valid\<rparr>)
           else None)"
proof -
  let ?lla = "EcefToLla (nav_position_ecef_m st)"
  let ?ve = "Vec3_x (nav_velocity_enu_mps st)" and ?vn = "Vec3_y (nav_velocity_enu_mps st)"
  obtain lat where lat: "ParseNmeaLatitudeLongitude (FormatNmeaLatitudeLongitude (latitude_rad ?lla) True)
      (if 0 \<le> latitude_rad ?lla then ''N'' else ''S'') True = Inr (Some lat)"
    "\<bar>lat - latitude_rad ?lla\<bar> \<le> DegToRad (1 / (12 * 10 ^ 8))"
    using position_field [of "latitude_rad ?lla" True, OF _ refl] assms(1) by auto
  obtain lon where lon: "ParseNmeaLatitudeLongitude (FormatNmeaLatitudeLongitude (longitude_rad ?lla) False)
      (if 0 \<le> longitude_rad ?lla then ''E'' else ''W'') False = Inr (Some lon)"
    "\<bar>lon - longitude_rad ?lla\<bar> \<le> DegToRad (1 / (12 * 10 ^ 8))"
    using position_field [of "longitude_rad ?lla" False, OF _ refl] longitude_bound by auto
  let ?latH = "if 0 \<le> latitude_rad ?lla then ''N'' else ''S''"
  let ?lonH = "if 0 \<le> longitude_rad ?lla then ''E'' else ''W''"
  let ?fs = "[utc, [RmcStatusChar (nav_status st)], FormatNmeaLatitudeLongitude (latitude_rad ?lla) True, ?latH,
    FormatNmeaLatitudeLongitude (longitude_rad ?lla) False, ?lonH,
    fixed_string 2 (sqrt (?ve * ?ve + ?vn * ?vn) * kMpsToKnots), fixed_string 2 (course_deg ?ve ?vn), date, '''', '''']"
  have "nmea_clean ?latH" "nmea_clean ?lonH" "nmea_clean [RmcStatusChar (nav_status st)]" "nmea_clean ''''"
    by (simp_all add: nmea_clean_def RmcStatusChar_usable)
  then have "list_all nmea_clean ?fs" using assms(2,3) by simp
  then have "ParseSentence (WriteRmc st utc date @ eol) = Some \<lparr>nmea_talker = ''FG'', nmea_formatter = ''RMC'', nmea_fields = ?fs\<rparr>"
    using ParseSentence_BuildSentence [of "''FG''" "''RMC''" ?fs eol] assms(4) by (simp add: WriteRmc_def Let_def nmea_clean_def)
  moreover have "ParseRmc \<lparr>nmea_talker = ''FG'', nmea_formatter = ''RMC'', nmea_fields = ?fs\<rparr> =
      Inr (if usable_status (nav_status st)
           then Some (GnssSolution_default\<lparr>gnss_position_ecef_m := LlaToEcef \<lparr>latitude_rad = lat, longitude_rad = lon, altitude_m = 0\<rparr>,
             gnss_fix_type := Single, gnss_validity := Valid\<rparr>)
           else None)"
    by (simp add: ParseRmc_fields [OF lat(1) lon(1)] RmcStatusChar_usable)
  moreover have "gga_close (?lla\<lparr>altitude_m := 0\<rparr>) \<lparr>latitude_rad = lat, longitude_rad = lon, altitude_m = 0\<rparr>"
    using lat(2) lon(2) by (simp add: gga_close_def)
  ultimately show ?thesis unfolding ParseRmcLine_def by auto
qed

lemma speed_fields:
  assumes "ve * ve + vn * vn \<le> 10 ^ 12"
  shows "\<bar>sqrt (ve * ve + vn * vn) * kMpsToKnots\<bar> \<le> 10 ^ 9" "\<bar>sqrt (ve * ve + vn * vn) * kMpsToKph\<bar> \<le> 10 ^ 9"
    "\<bar>course_deg ve vn\<bar> \<le> 10 ^ 9"
proof -
  let ?v = "sqrt (ve * ve + vn * vn)"
  have "?v \<le> sqrt (10 ^ 12)" using assms by (rule real_sqrt_le_mono)
  also have "sqrt ((10::real) ^ 12) = 10 ^ 6" by (rule real_sqrt_unique) simp_all
  finally have v: "?v \<le> 10 ^ 6" "0 \<le> ?v" by simp_all
  then have "?v * k \<le> 10 ^ 6 * 4" if "0 \<le> k" "k \<le> 4" for k using that by (intro mult_mono) simp_all
  from this [of kMpsToKnots] this [of kMpsToKph] v(2)
  show "\<bar>?v * kMpsToKnots\<bar> \<le> 10 ^ 9" "\<bar>?v * kMpsToKph\<bar> \<le> 10 ^ 9"
    by (simp_all add: kMpsToKnots_def kMpsToKph_def)
  have "\<bar>std_atan2 ve vn\<bar> \<le> 4" using std_atan2_bound [of ve vn] pi_less_4 by linarith
  then have "\<bar>std_atan2 ve vn\<bar> * 180 / kPi \<le> 4 * 180 / 3"
    by (intro frac_le mult_right_mono) (simp_all add: kPi_def)
  then have "\<bar>RadToDeg (std_atan2 ve vn)\<bar> \<le> 240" by (simp add: RadToDeg_def abs_mult)
  then show "\<bar>course_deg ve vn\<bar> \<le> 10 ^ 9" by (auto simp: course_deg_def Let_def)
qed

definition vtg_close :: "NavigationState \<Rightarrow> VtgData \<Rightarrow> bool" where
  "vtg_close st d \<longleftrightarrow>
     (let ve = Vec3_x (nav_velocity_enu_mps st); vn = Vec3_y (nav_velocity_enu_mps st)
      in \<bar>course_true_deg d - course_deg ve vn\<bar> \<le> 1 / 200 \<and>
         \<bar>vtg_speed_knots d - sqrt (ve * ve + vn * vn) * kMpsToKnots\<bar> \<le> 1 / 200 \<and>
         \<bar>vtg_speed_kph d - sqrt (ve * ve + vn * vn) * kMpsToKph\<bar> \<le> 1 / 200)"

lemma ParseVtgLine_WriteVtg:
  assumes "Vec3_x (nav_velocity_enu_mps st) * Vec3_x (nav_velocity_enu_mps st) +
      Vec3_y (nav_velocity_enu_mps st) * Vec3_y (nav_velocity_enu_mps st) \<le> 10 ^ 12" "list_all is_eol eol"
  shows "\<exists>d. vtg_close st d \<and>
    ParseVtgLine (WriteVtg st @ eol) = Inr (if usable_status (nav_status st) then Some d else None)"
proof -
  let ?ve = "Vec3_x (nav_velocity_enu_mps st)" and ?vn = "Vec3_y (nav_velocity_enu_mps st)"
  let ?v = "sqrt (?ve * ?ve + ?vn * ?vn)"
  note b = speed_fields [OF assms(1), THEN stod_bound [OF _ order_refl]]
  obtain c where c: "std_stod (fixed_string 2 (course_deg ?ve ?vn)) = Inr c" "\<bar>c - course_deg ?ve ?vn\<bar> \<le> 1 / 200"
    using fixed_string_signed_value [OF _ _ b(3)] by auto
  obtain kt where kt: "std_stod (fixed_string 2 (?v * kMpsToKnots)) = Inr kt" "\<bar>kt - ?v * kMpsToKnots\<bar> \<le> 1 / 200"
    using fixed_string_signed_value [OF _ _ b(1)] by auto
  obtain kh where kh: "std_stod (fixed_string 2 (?v * kMpsToKph)) = Inr kh" "\<bar>kh - ?v * kMpsToKph\<bar> \<le> 1 / 200"
    using fixed_string_signed_value [OF _ _ b(2)] by auto
  let ?mode = "if usable_status (nav_status st) then ''A'' else ''N''"
  let ?fs = "[fixed_string 2 (course_deg ?ve ?vn), ''T'', '''', ''M'', fixed_string 2 (?v * kMpsToKnots), ''N'',
    fixed_string 2 (?v * kMpsToKph), ''K'', ?mode]"
  let ?s = "\<lparr>nmea_talker = ''FG'', nmea_formatter = ''VTG'', nmea_fields = ?fs\<rparr>"
  have "list_all nmea_clean [''T'', '''', ''M'', ''N'', ''K'', ?mode]" by (simp add: nmea_clean_def)
  then have "list_all nmea_clean ?fs" by simp
  then have "ParseSentence (WriteVtg st @ eol) = Some ?s"
    using ParseSentence_BuildSentence [of "''FG''" "''VTG''" ?fs eol] assms(2)
    by (simp add: WriteVtg_def Let_def usable_status_def nmea_clean_def)
  moreover have "ParseVtg ?s = Inr (if usable_status (nav_status st)
      then Some \<lparr>course_true_deg = c, vtg_speed_knots = kt, vtg_speed_kph = kh\<rparr> else None)"
    using c(1) kt(1) kh(1) by (simp add: ParseVtg_def Let_def stod_or_zero_def)
  moreover have "vtg_close st \<lparr>course_true_deg = c, vtg_speed_knots = kt, vtg_speed_kph = kh\<rparr>"
    using c(2) kt(2) kh(2) by (simp add: vtg_close_def Let_def)
  ultimately show ?thesis unfolding ParseVtgLine_def by auto
qed

text \<open>
  One report of the writer to an open stream that takes it writes exactly three lines; read
  back line by line, RMC and VTG say nothing for a state that is not usable, and for a usable one
  give the position with altitude 0 and, for speeds up to 1000 km/s, course and speeds within
  half of the last printed digit.
\<close>

theorem WriteState_report:
  assumes "\<bar>RadToDeg (latitude_rad (EcefToLla (nav_position_ecef_m st)))\<bar> < 100"
    and "Vec3_x (nav_velocity_enu_mps st) * Vec3_x (nav_velocity_enu_mps st) +
      Vec3_y (nav_velocity_enu_mps st) * Vec3_y (nav_velocity_enu_mps st) \<le> 10 ^ 12"
    and "w_open w" "w_target w = ExternalStream" "good (external_stream world)"
    and "rmc = WriteRmc st (FormatUtcTime now1) (FormatUtcDate now2) @ crlf" "vtg = WriteVtg st @ crlf"
    and "out = WriteGga st (FormatUtcTime now1) @ crlf @ rmc @ vtg"
  shows "WriteState now1 now2 w world st =
      (if length out \<le> capacity (external_stream world) then Write_Ok else Write_Error,
       world\<lparr>external_stream := stream_put (external_stream world) out\<rparr>) \<and>
    (\<exists>lla. gga_close (EcefToLla (nav_position_ecef_m st)\<lparr>altitude_m := 0\<rparr>) lla \<and>
       ParseRmcLine rmc = Inr (if usable_status (nav_status st)
         then Some (GnssSolution_default\<lparr>gnss_position_ecef_m := LlaToEcef lla, gnss_fix_type := Single, gnss_validity := Valid\<rparr>)
         else None)) \<and>
    (\<exists>d. vtg_close st d \<and> ParseVtgLine vtg = Inr (if usable_status (nav_status st) then Some d else None))"
proof -
  have eol: "list_all is_eol crlf" by (simp add: crlf_def is_eol_def)
  have "WriteState now1 now2 w world st =
      (if length out \<le> capacity (external_stream world) then Write_Ok else Write_Error,
       world\<lparr>external_stream := stream_put (external_stream world) out\<rparr>)"
    using assms(3-8) by (simp add: WriteState_def put_target_def Let_def stream_put_def)
  then show ?thesis
    using ParseRmcLine_WriteRmc [OF assms(1) FormatUtc_clean eol] ParseVtgLine_WriteVtg [OF assms(2) eol] assms(6,7) by auto
qed

text \<open>A state at the equator, moving at 5 m/s, reported to a stream that takes nothing more.\<close>

definition report_example :: NavigationState where
  "report_example = NavigationState_default
     \<lparr>nav_position_ecef_m := Vec3_xyz kSemiMajorAxisM 0 0, nav_velocity_enu_mps := Vec3_xyz 3 4 0, nav_status := Nominal\<rparr>"

definition midnight :: std_tm where
  "midnight = \<lparr>tm_hour = 0, tm_min = 0, tm_sec = 0, tm_mday = 1, tm_mon = 0, tm_year = 125\<rparr>"

theorem WriteState_report_witness:
  "WriteState midnight midnight ((NmeaWriter_new ''w'')\<lparr>w_open := True\<rparr>)
      \<lparr>external_stream = \<lparr>written = '''', capacity = 0, good = True\<rparr>, world_files = Map.empty\<rparr> report_example =
    (Write_Error, \<lparr>external_stream = \<lparr>written = '''', capacity = 0, good = False\<rparr>, world_files = Map.empty\<rparr>) \<and>
   (\<exists>d. vtg_close report_example d \<and> ParseVtgLine (WriteVtg report_example @ crlf) = Inr (Some d))"
proof -
  let ?w = "(NmeaWriter_new ''w'')\<lparr>w_open := True\<rparr>"
  let ?world = "\<lparr>external_stream = \<lparr>written = '''', capacity = 0, good = True\<rparr>, world_files = Map.empty\<rparr>"
  have st: "crlf \<noteq> []" "usable_status (nav_status report_example)"
    by (simp_all add: crlf_def report_example_def usable_status_def)
  have "\<bar>RadToDeg (latitude_rad (EcefToLla (nav_position_ecef_m report_example)))\<bar> < 100"
    by (simp add: report_example_def equator_lla RadToDeg_def)
  moreover have "Vec3_x (nav_velocity_enu_mps report_example) * Vec3_x (nav_velocity_enu_mps report_example) +
      Vec3_y (nav_velocity_enu_mps report_example) * Vec3_y (nav_velocity_enu_mps report_example) \<le> 10 ^ 12"
    by (simp add: report_example_def Vec3_xyz_def Vec3_x_def Vec3_y_def)
  moreover have "w_open ?w" "w_target ?w = ExternalStream" "good (external_stream ?world)" by (simp_all add: NmeaWriter_new_def)
  ultimately show ?thesis
    using WriteState_report [of report_example ?w ?world _ midnight midnight, OF _ _ _ _ _ refl refl refl] st
    by (simp add: stream_put_def)
qed

end
