(* ===== verification/Fg_Programs.thy ===== *)
theory Fg_Programs
  imports Fg_Prelude
begin

text \<open>
  Programs of threads: trees of atomic actions on a shared state, in continuation-passing
  style. An action goes on with a new state and the rest of the program, waits (a mutex that is
  taken, a join, a condition variable), or terminates the process (\<^verbatim>\<open>std::terminate\<close>). A function of
  the source that several threads call is a HOL function that returns such a program; what it
  throws is the argument of an exception continuation.
\<close>

datatype 's prog = Done | Atomic "'s \<Rightarrow> 's action"
  and 's action = Go 's "'s prog" | Block | Abort

text \<open>An unconditional action, a read of the shared state, an action that waits for a condition.\<close>

definition act :: "('s \<Rightarrow> 's) \<Rightarrow> 's prog \<Rightarrow> 's prog" where
  "act f k = Atomic (\<lambda>s. Go (f s) k)"

definition peek :: "('s \<Rightarrow> 'a) \<Rightarrow> ('a \<Rightarrow> 's prog) \<Rightarrow> 's prog" where
  "peek g k = Atomic (\<lambda>s. Go s (k (g s)))"

definition await :: "('s \<Rightarrow> bool) \<Rightarrow> ('s \<Rightarrow> 's) \<Rightarrow> 's prog \<Rightarrow> 's prog" where
  "await P f k = Atomic (\<lambda>s. if P s then Go (f s) k else Block)"

section \<open>Running a program while the other threads rest\<close>

datatype 's run = Returned 's | Waits 's | Terminated 's

primrec run_prog :: "'s prog \<Rightarrow> 's \<Rightarrow> 's run"
  and run_action :: "'s action \<Rightarrow> 's \<Rightarrow> 's run" where
  "run_prog Done = Returned"
| "run_prog (Atomic f) = (\<lambda>s. (run_action \<circ> f) s s)"
| "run_action (Go s' p) = (\<lambda>s. run_prog p s')"
| "run_action Block = Waits"
| "run_action Abort = Terminated"

lemma run_simps [simp]:
  "run_prog (act f k) s = run_prog k (f s)"
  "run_prog (peek g h) s = run_prog (h (g s)) s"
  "run_prog (await P f k) s = (if P s then run_prog k (f s) else Waits s)"
  by (simp_all add: act_def peek_def await_def)

section \<open>State predicates a program keeps\<close>

text \<open>
  \<open>keeps fin P p\<close>: every action of \<open>p\<close> taken in a state with \<open>P\<close> leads to a state with \<open>P\<close>, whatever the
  other threads do in between. With \<open>fin\<close> false it speaks of the paths along states with \<open>P\<close> only, and
  none of them reaches the end of \<open>p\<close>: it waits for ever.
\<close>

inductive keeps :: "bool \<Rightarrow> ('s \<Rightarrow> bool) \<Rightarrow> 's prog \<Rightarrow> bool" for fin P where
  keeps_Done: "fin \<Longrightarrow> keeps fin P Done"
| keeps_Atomic: "(\<And>s s' p. f s = Go s' p \<Longrightarrow> P s \<Longrightarrow> P s') \<Longrightarrow>
    (\<And>s s' p. f s = Go s' p \<Longrightarrow> fin \<or> P s \<Longrightarrow> keeps fin P p) \<Longrightarrow> keeps fin P (Atomic f)"

inductive_simps keeps_Done_iff [simp]: "keeps fin P Done"
inductive_cases keeps_AtomicE: "keeps fin P (Atomic f)"

lemma keeps_state: "keeps fin P (Atomic f) \<Longrightarrow> f s = Go s' p \<Longrightarrow> P s \<Longrightarrow> P s'"
  by (erule keeps_AtomicE) blast

lemma keeps_rest: "keeps fin P (Atomic f) \<Longrightarrow> f s = Go s' p \<Longrightarrow> fin \<or> P s \<Longrightarrow> keeps fin P p"
  by (erule keeps_AtomicE) blast

lemma keeps_act [intro]: "(\<And>s. P s \<Longrightarrow> P (f s)) \<Longrightarrow> keeps fin P k \<Longrightarrow> keeps fin P (act f k)"
  unfolding act_def by (rule keeps_Atomic) auto

lemma keeps_peek [intro]: "(\<And>x. keeps fin P (k x)) \<Longrightarrow> keeps fin P (peek g k)"
  unfolding peek_def by (rule keeps_Atomic) auto

lemma keeps_await [intro]:
  "(\<And>s. P s \<Longrightarrow> c s \<Longrightarrow> P (f s)) \<Longrightarrow> keeps fin P k \<Longrightarrow> keeps fin P (await c f k)"
  unfolding await_def by (rule keeps_Atomic) (auto split: if_splits)

text \<open>A wait for a condition that \<open>P\<close> excludes never ends.\<close>

lemma keeps_await_never: "(\<And>s. P s \<Longrightarrow> \<not> c s) \<Longrightarrow> keeps False P (await c f k)"
  unfolding await_def by (rule keeps_Atomic) (auto split: if_splits)

text \<open>The rule for an action given by cases, its branches collected.\<close>

lemma keeps_cases:
  "(\<And>s. case f s of Go s' p \<Rightarrow> (P s \<longrightarrow> P s') \<and> keeps fin P p | _ \<Rightarrow> True) \<Longrightarrow> keeps fin P (Atomic f)"
  by (rule keeps_Atomic) (metis action.simps(8))+

end
