(* ===== verification/Fg_Csv.thy ===== *)
theory Fg_Csv
  imports Fg_Numbers Fg_Math Fg_Estimator
begin

text \<open>
  Reading datasets: the reader interface \<^verbatim>\<open>src/io/include/falconguide/io/measurement_reader.hpp\<close>,
  the CSV reader \<^verbatim>\<open>src/io/src/csv/csv_measurement_reader.cpp\<close> and the dataset reader with its factory
  \<^verbatim>\<open>src/app/src/dataset_reader.cpp\<close>. A file is the text that is left to read; the file system
  is a parameter that maps a path to the file's text. The interface is the locale
  \<open>measurement_reader\<close>, interpreted on both readers.
\<close>

section \<open>measurement\_reader.hpp\<close>

definition Cap_None :: u32 where "Cap_None = 0"
definition Cap_Imu :: u32 where "Cap_Imu = 1"
definition Cap_Gnss :: u32 where "Cap_Gnss = 2"
definition Cap_Camera :: u32 where "Cap_Camera = 4"
definition Cap_Magnetometer :: u32 where "Cap_Magnetometer = 8"
definition Cap_Barometer :: u32 where "Cap_Barometer = 16"
definition Cap_Odometry :: u32 where "Cap_Odometry = 32"
definition Cap_RangeSensors :: u32 where "Cap_RangeSensors = 64"
definition Cap_ExternalPose :: u32 where "Cap_ExternalPose = 128"

definition HasCapability :: "u32 \<Rightarrow> u32 \<Rightarrow> bool" where
  "HasCapability caps flag \<longleftrightarrow> caps AND flag \<noteq> 0"

datatype ReadResult = Read_Ok | EndOfData | Timeout | Read_Error

record ReadOutcome =
  read_result :: ReadResult
  read_measurement :: "SensorMeasurement option"
  error_message :: string

definition outcome :: "ReadResult \<Rightarrow> ReadOutcome" where
  "outcome r = \<lparr>read_result = r, read_measurement = None, error_message = []\<rparr>"

definition outcome_ok :: "SensorMeasurement \<Rightarrow> ReadOutcome" where
  "outcome_ok m = \<lparr>read_result = Read_Ok, read_measurement = Some m, error_message = []\<rparr>"

section \<open>Parsing lines\<close>

text \<open>\<^verbatim>\<open>std::getline\<close> with a delimiter until it fails: no token after a trailing delimiter.\<close>

function getlines :: "char \<Rightarrow> string \<Rightarrow> string list" where
  "getlines delim s =
     (if s = [] then []
      else case str_find [delim] s of
        None \<Rightarrow> [s]
      | Some i \<Rightarrow> take i s # getlines delim (drop (i + 1) s))"
  by auto
termination by (relation "measure (\<lambda>(d, s). length s)") (auto dest: str_find_bound)

declare getlines.simps [simp del]

definition Split :: "string \<Rightarrow> string list" where
  "Split line = getlines (CHR '','') line"

definition ToDouble :: "string \<Rightarrow> cpp_exception + real" where
  "ToDouble s = std_stod s"

definition ToInt64 :: "string \<Rightarrow> cpp_exception + int" where
  "ToInt64 s = std_stoll s"

definition MakeTimestamp :: "int \<Rightarrow> Timestamp" where
  "MakeTimestamp ns = Timestamp_default\<lparr>has_steady := True, steady := MonotonicTime ns\<rparr>"

fun what :: "cpp_exception \<Rightarrow> string" where
  "what (InvalidArgument s) = s"
| "what (OutOfRange s) = s"
| "what (RuntimeError s) = s"
| "what (JsonError s) = s"
| "what _ = ''std::exception''"

text \<open>Three consecutive tokens as the components of a vector.\<close>

definition ToVec3 :: "string \<Rightarrow> string \<Rightarrow> string \<Rightarrow> cpp_exception + 'frame Vec3" where
  "ToVec3 a b c =
     bind_sum (ToDouble a) (\<lambda>x. bind_sum (ToDouble b) (\<lambda>y. bind_sum (ToDouble c) (\<lambda>z. Inr (Vec3_xyz x y z))))"

definition ParseImu :: "string list \<Rightarrow> cpp_exception + SensorMeasurement" where
  "ParseImu t =
     bind_sum (ToInt64 (t ! 1)) (\<lambda>ns.
     bind_sum (ToVec3 (t ! 2) (t ! 3) (t ! 4)) (\<lambda>force.
     bind_sum (ToVec3 (t ! 5) (t ! 6) (t ! 7)) (\<lambda>rate.
       Inr (M_Imu (ImuMeasurement_default
         \<lparr>imu_timestamp := MakeTimestamp ns, imu_specific_force_mps2 := force,
          imu_angular_rate_radps := rate, imu_validity := Valid\<rparr>)))))"

definition ParseGnss :: "eigen_ops \<Rightarrow> string list \<Rightarrow> cpp_exception + SensorMeasurement" where
  "ParseGnss E t =
     bind_sum (ToDouble (t ! 2)) (\<lambda>lat_deg. let lat = DegToRad lat_deg in
     bind_sum (ToDouble (t ! 3)) (\<lambda>lon_deg. let lon = DegToRad lon_deg in
     bind_sum (ToDouble (t ! 4)) (\<lambda>alt.
     bind_sum (ToDouble (t ! 5)) (\<lambda>ve.
     bind_sum (ToDouble (t ! 6)) (\<lambda>vn.
     bind_sum (ToDouble (t ! 7)) (\<lambda>vu.
     bind_sum (ToDouble (t ! 8)) (\<lambda>pos_sigma.
     bind_sum (ToDouble (t ! 9)) (\<lambda>vel_sigma.
     bind_sum (ToInt64 (t ! 1)) (\<lambda>ns.
       let lla = \<lparr>latitude_rad = lat, longitude_rad = lon, altitude_m = alt\<rparr>;
           ltp = LocalTangentPlane_new lla;
           R_enu_to_ecef = e_transpose E (ecef_to_enu_rotation ltp)
       in Inr (M_GnssSolution (GnssSolution_default
         \<lparr>gnss_timestamp := MakeTimestamp ns,
          gnss_position_ecef_m := LlaToEcef lla,
          gnss_fix_type := Single,
          gnss_validity := Valid,
          gnss_velocity_ecef_mps := Vec3 (v3 (e_mul E R_enu_to_ecef (vec (Vector3d ve vn vu)))),
          gnss_position_covariance_ecef_m2 := e_scale E (pos_sigma * pos_sigma) (Matrix_Identity 3),
          gnss_velocity_covariance_ecef_m2ps2 := e_scale E (vel_sigma * vel_sigma) (Matrix_Identity 3)\<rparr>)))))))))))"

definition ParseBaro :: "string list \<Rightarrow> cpp_exception + SensorMeasurement" where
  "ParseBaro t =
     bind_sum (ToInt64 (t ! 1)) (\<lambda>ns.
     bind_sum (ToDouble (t ! 2)) (\<lambda>pressure.
     bind_sum (ToDouble (t ! 3)) (\<lambda>altitude.
       Inr (M_Barometer (BarometerMeasurement_default
         \<lparr>baro_timestamp := MakeTimestamp ns, baro_pressure_pa := pressure,
          baro_altitude_m := Some altitude, baro_validity := Valid\<rparr>)))))"

definition ParseMag :: "string list \<Rightarrow> cpp_exception + SensorMeasurement" where
  "ParseMag t =
     bind_sum (ToInt64 (t ! 1)) (\<lambda>ns.
     bind_sum (ToVec3 (t ! 2) (t ! 3) (t ! 4)) (\<lambda>fld.
       Inr (M_Magnetometer (MagnetometerMeasurement_default
         \<lparr>mag_timestamp := MakeTimestamp ns, mag_magnetic_field_tesla := fld, mag_validity := Valid\<rparr>))))"

text \<open>The handler of the \<^verbatim>\<open>try\<close> block.\<close>

definition catch_parse :: "cpp_exception + SensorMeasurement \<Rightarrow> ReadOutcome" where
  "catch_parse r =
     (case r of
        Inl ex \<Rightarrow> \<lparr>read_result = Read_Error, read_measurement = None, error_message = ''parse error: '' @ what ex\<rparr>
      | Inr m \<Rightarrow> outcome_ok m)"

definition ParseLine :: "eigen_ops \<Rightarrow> string \<Rightarrow> ReadOutcome" where
  "ParseLine E line =
     (let tokens = Split line in
      if tokens = [] then outcome EndOfData
      else
        let type = hd tokens in
        if type = ''IMU'' \<and> 8 \<le> length tokens then catch_parse (ParseImu tokens)
        else if type = ''GNSS'' \<and> 10 \<le> length tokens then catch_parse (ParseGnss E tokens)
        else if type = ''BARO'' \<and> 4 \<le> length tokens then catch_parse (ParseBaro tokens)
        else if type = ''MAG'' \<and> 5 \<le> length tokens then catch_parse (ParseMag tokens)
        else outcome EndOfData)"

section \<open>csv\_measurement\_reader.cpp\<close>

text \<open>\<^verbatim>\<open>std::ifstream\<close>: whether a file is open, \<^verbatim>\<open>good()\<close>, and what is left to read.\<close>

record ifstream =
  if_open :: bool
  if_good :: bool
  if_rest :: string

definition ifstream_new :: ifstream where
  "ifstream_new = \<lparr>if_open = False, if_good = True, if_rest = []\<rparr>"

text \<open>Opening an open stream fails and leaves it open.\<close>

definition ifstream_open :: "(string \<Rightarrow> string option) \<Rightarrow> ifstream \<Rightarrow> string \<Rightarrow> ifstream" where
  "ifstream_open fs f path =
     (if if_open f then f\<lparr>if_good := False\<rparr>
      else case fs path of
        None \<Rightarrow> f\<lparr>if_good := False\<rparr>
      | Some content \<Rightarrow> \<lparr>if_open = True, if_good = True, if_rest = content\<rparr>)"

definition ifstream_close :: "ifstream \<Rightarrow> ifstream" where
  "ifstream_close f = (if if_open f then f\<lparr>if_open := False, if_rest := []\<rparr> else f\<lparr>if_good := False\<rparr>)"

text \<open>\<^verbatim>\<open>std::getline\<close>: the last line may lack its newline; the stream is at its end then.\<close>

definition std_getline :: "ifstream \<Rightarrow> string option \<times> ifstream" where
  "std_getline f =
     (if \<not> if_good f \<or> if_rest f = [] then (None, f\<lparr>if_good := False\<rparr>)
      else case str_find [CHR 0x0A] (if_rest f) of
        None \<Rightarrow> (Some (if_rest f), f\<lparr>if_rest := [], if_good := False\<rparr>)
      | Some i \<Rightarrow> (Some (take i (if_rest f)), f\<lparr>if_rest := drop (i + 1) (if_rest f)\<rparr>))"

lemma std_getline_shorter: "(Some line, f') = std_getline f \<Longrightarrow> length (if_rest f') < length (if_rest f)"
  by (auto simp: std_getline_def split: if_splits option.splits dest: str_find_bound)

record CsvMeasurementReader =
  csv_path :: string
  csv_name :: string
  csv_file :: ifstream
  start_time :: "Timestamp option"
  end_time :: "Timestamp option"

definition CsvMeasurementReader_new :: "string \<Rightarrow> string \<Rightarrow> CsvMeasurementReader" where
  "CsvMeasurementReader_new path name =
     \<lparr>csv_path = path, csv_name = name, csv_file = ifstream_new, start_time = None, end_time = None\<rparr>"

definition Csv_Capabilities :: u32 where
  "Csv_Capabilities = Cap_Imu OR Cap_Gnss OR Cap_Barometer OR Cap_Magnetometer"

definition Csv_Open :: "(string \<Rightarrow> string option) \<Rightarrow> CsvMeasurementReader \<Rightarrow> bool \<times> CsvMeasurementReader" where
  "Csv_Open fs r = (let f = ifstream_open fs (csv_file r) (csv_path r) in (if_open f, r\<lparr>csv_file := f\<rparr>))"

definition Csv_Close :: "CsvMeasurementReader \<Rightarrow> CsvMeasurementReader" where
  "Csv_Close r = r\<lparr>csv_file := ifstream_close (csv_file r)\<rparr>"

definition Csv_IsOpen :: "CsvMeasurementReader \<Rightarrow> bool" where
  "Csv_IsOpen r = if_open (csv_file r)"

text \<open>A measurement to return moves the time bounds.\<close>

definition track_time :: "CsvMeasurementReader \<Rightarrow> SensorMeasurement \<Rightarrow> CsvMeasurementReader" where
  "track_time r m =
     (let ts = GetTimestamp m
      in r\<lparr>start_time := (if start_time r = None then Some ts else start_time r), end_time := Some ts\<rparr>)"

function next_loop :: "eigen_ops \<Rightarrow> CsvMeasurementReader \<Rightarrow> ReadOutcome \<times> CsvMeasurementReader" where
  "next_loop E r =
     (case std_getline (csv_file r) of
        (None, f) \<Rightarrow> (outcome EndOfData, r\<lparr>csv_file := f\<rparr>)
      | (Some line, f) \<Rightarrow>
          (let r' = r\<lparr>csv_file := f\<rparr> in
           if line = [] \<or> hd line = CHR ''#'' then next_loop E r'
           else
             let out = ParseLine E line in
             case read_measurement out of
               Some m \<Rightarrow> (if read_result out = Read_Ok then (out, track_time r' m) else next_loop E r')
             | None \<Rightarrow> next_loop E r'))"
  by auto
termination by (relation "measure (\<lambda>(E, r). length (if_rest (csv_file r)))") (auto dest: std_getline_shorter)

declare next_loop.simps [simp del]

definition Csv_Next :: "eigen_ops \<Rightarrow> CsvMeasurementReader \<Rightarrow> ReadOutcome \<times> CsvMeasurementReader" where
  "Csv_Next E r =
     (if \<not> if_open (csv_file r)
      then (\<lparr>read_result = Read_Error, read_measurement = None, error_message = ''file not open''\<rparr>, r)
      else next_loop E r)"

section \<open>dataset\_reader.cpp\<close>

record CsvDatasetReader =
  ds_path :: string
  ds_reader :: CsvMeasurementReader
  ds_count :: nat

definition CsvDatasetReader_new :: "string \<Rightarrow> CsvDatasetReader" where
  "CsvDatasetReader_new path =
     \<lparr>ds_path = path, ds_reader = CsvMeasurementReader_new path ''CsvDatasetReader'', ds_count = 0\<rparr>"

definition Dataset_Open :: "(string \<Rightarrow> string option) \<Rightarrow> CsvDatasetReader \<Rightarrow> bool \<times> CsvDatasetReader" where
  "Dataset_Open fs d = (case Csv_Open fs (ds_reader d) of (ok, r) \<Rightarrow> (ok, d\<lparr>ds_reader := r\<rparr>))"

definition Dataset_Close :: "CsvDatasetReader \<Rightarrow> CsvDatasetReader" where
  "Dataset_Close d = d\<lparr>ds_reader := Csv_Close (ds_reader d)\<rparr>"

definition Dataset_Rewind :: "(string \<Rightarrow> string option) \<Rightarrow> CsvDatasetReader \<Rightarrow> bool \<times> CsvDatasetReader" where
  "Dataset_Rewind fs d =
     (case Csv_Open fs (Csv_Close (ds_reader d)) of (ok, r) \<Rightarrow> (ok, d\<lparr>ds_reader := r\<rparr>))"

definition Dataset_Next :: "eigen_ops \<Rightarrow> CsvDatasetReader \<Rightarrow> ReadOutcome \<times> CsvDatasetReader" where
  "Dataset_Next E d =
     (case Csv_Next E (ds_reader d) of (out, r) \<Rightarrow>
        (out, d\<lparr>ds_reader := r, ds_count := (if read_result out = Read_Ok then ds_count d + 1 else ds_count d)\<rparr>))"

definition Dataset_Name :: "CsvDatasetReader \<Rightarrow> string" where
  "Dataset_Name d = ''CsvDatasetReader('' @ ds_path d @ '')''"

record DatasetConfig =
  dataset_type :: string
  dataset_path :: string

definition MakeDatasetReader :: "DatasetConfig \<Rightarrow> cpp_exception + CsvDatasetReader" where
  "MakeDatasetReader cfg =
     (if dataset_type cfg = ''csv'' then Inr (CsvDatasetReader_new (dataset_path cfg))
      else Inl (InvalidArgument (''Unknown dataset type: '' @ dataset_type cfg)))"

section \<open>The reader interface\<close>

text \<open>The results of the first \<open>n\<close> calls of \<open>Next\<close>.\<close>

primrec read_n :: "('s \<Rightarrow> ReadOutcome \<times> 's) \<Rightarrow> nat \<Rightarrow> 's \<Rightarrow> ReadOutcome list \<times> 's" where
  "read_n nxt 0 s = ([], s)"
| "read_n nxt (Suc n) s =
     (case nxt s of (out, s') \<Rightarrow> case read_n nxt n s' of (outs, s'') \<Rightarrow> (out # outs, s''))"

text \<open>
  \<^verbatim>\<open>IMeasurementReader\<close>: the source holds pending measurements; \<open>Next\<close> hands them out in order, then
  reports the end of the data for ever, and fails on a source that is not open.
\<close>

locale measurement_reader =
  fixes nxt :: "'s \<Rightarrow> ReadOutcome \<times> 's"
    and pending :: "'s \<Rightarrow> SensorMeasurement list"
    and opened :: "'s \<Rightarrow> bool"
  assumes next_some: "opened s \<Longrightarrow> pending s = m # ms \<Longrightarrow>
      \<exists>s'. nxt s = (outcome_ok m, s') \<and> opened s' \<and> pending s' = ms"
    and next_none: "opened s \<Longrightarrow> pending s = [] \<Longrightarrow>
      \<exists>s'. nxt s = (outcome EndOfData, s') \<and> opened s' \<and> pending s' = []"
    and next_closed: "\<not> opened s \<Longrightarrow> read_result (fst (nxt s)) = Read_Error \<and> snd (nxt s) = s"
begin

lemma next_step:
  assumes "opened s"
  shows "fst (nxt s) = (case pending s of [] \<Rightarrow> outcome EndOfData | m # ms \<Rightarrow> outcome_ok m)"
    and "opened (snd (nxt s))" and "pending (snd (nxt s)) = tl (pending s)"
  using next_some [OF assms] next_none [OF assms] by (cases "pending s"; fastforce)+

lemma read_n_all:
  "opened s \<Longrightarrow>
    fst (read_n nxt n s) = map outcome_ok (take n (pending s)) @ replicate (n - length (pending s)) (outcome EndOfData) \<and>
    opened (snd (read_n nxt n s)) \<and> pending (snd (read_n nxt n s)) = drop n (pending s)"
proof (induction n arbitrary: s)
  case (Suc n)
  note IH = Suc.IH [OF next_step(2) [OF Suc.prems]]
  show ?case
    using IH next_step [OF Suc.prems] by (cases "pending s") (simp_all add: split_beta)
qed simp

lemma read_n_closed: "\<not> opened s \<Longrightarrow> \<forall>out\<in>set (fst (read_n nxt n s)). read_result out = Read_Error"
  by (induction n arbitrary: s) (use next_closed in \<open>auto simp: split_beta\<close>)

end

section \<open>The CSV reader\<close>

text \<open>The measurement a line holds, if any; comments and malformed lines hold none.\<close>

definition line_measurement :: "eigen_ops \<Rightarrow> string \<Rightarrow> SensorMeasurement option" where
  "line_measurement E line = (if line = [] \<or> hd line = CHR ''#'' then None else read_measurement (ParseLine E line))"

definition csv_measurements :: "eigen_ops \<Rightarrow> string \<Rightarrow> SensorMeasurement list" where
  "csv_measurements E content = List.map_filter (line_measurement E) (getlines (CHR 0x0A) content)"

definition csv_pending :: "eigen_ops \<Rightarrow> CsvMeasurementReader \<Rightarrow> SensorMeasurement list" where
  "csv_pending E r = (if if_good (csv_file r) then csv_measurements E (if_rest (csv_file r)) else [])"

lemma ParseLine_outcome:
  "read_measurement (ParseLine E line) = Some m \<Longrightarrow> ParseLine E line = outcome_ok m"
  by (auto simp: ParseLine_def catch_parse_def outcome_def outcome_ok_def Let_def split: if_splits sum.splits)

lemma getline_lines:
  assumes "if_good f"
  shows "case std_getline f of
      (None, f') \<Rightarrow> getlines (CHR 0x0A) (if_rest f) = [] \<and> \<not> if_good f'
    | (Some line, f') \<Rightarrow> getlines (CHR 0x0A) (if_rest f) = line # (if if_good f' then getlines (CHR 0x0A) (if_rest f') else [])"
  using assms by (auto simp: std_getline_def getlines.simps [of _ "if_rest f"] getlines.simps [of _ "[]"] split: option.splits)

lemma getline_open: "std_getline f = (l, f') \<Longrightarrow> if_open f' = if_open f"
  by (auto simp: std_getline_def split: if_splits option.splits)

lemma csv_pending_step:
  "csv_pending E r =
    (case std_getline (csv_file r) of
       (None, f) \<Rightarrow> []
     | (Some line, f) \<Rightarrow> (case line_measurement E line of None \<Rightarrow> [] | Some m \<Rightarrow> [m]) @ csv_pending E (r\<lparr>csv_file := f\<rparr>))"
proof (cases "if_good (csv_file r)")
  case True
  then show ?thesis
    using getline_lines [OF True]
    by (auto simp: csv_pending_def csv_measurements_def List.map_filter_simps split: prod.splits option.splits)
next
  case False
  then show ?thesis by (simp add: csv_pending_def std_getline_def)
qed

text \<open>What one call of \<open>Next\<close> on an open file does to the reader.\<close>

definition csv_delivers :: "eigen_ops \<Rightarrow> CsvMeasurementReader \<Rightarrow> ReadOutcome \<Rightarrow> CsvMeasurementReader \<Rightarrow> bool" where
  "csv_delivers E r out r' \<longleftrightarrow>
     if_open (csv_file r') = if_open (csv_file r) \<and> csv_path r' = csv_path r \<and>
     (case csv_pending E r of
        [] \<Rightarrow> out = outcome EndOfData \<and> csv_pending E r' = [] \<and> start_time r' = start_time r \<and> end_time r' = end_time r
      | m # ms \<Rightarrow> out = outcome_ok m \<and> csv_pending E r' = ms \<and>
          start_time r' = start_time (track_time r m) \<and> end_time r' = Some (GetTimestamp m))"

lemma next_loop_step:
  "next_loop E r =
    (case std_getline (csv_file r) of
       (None, f) \<Rightarrow> (outcome EndOfData, r\<lparr>csv_file := f\<rparr>)
     | (Some line, f) \<Rightarrow>
         (case line_measurement E line of
            None \<Rightarrow> next_loop E (r\<lparr>csv_file := f\<rparr>)
          | Some m \<Rightarrow> (outcome_ok m, track_time (r\<lparr>csv_file := f\<rparr>) m)))"
proof -
  obtain l f where lf: "std_getline (csv_file r) = (l, f)" by (cases "std_getline (csv_file r)")
  note unfold = next_loop.simps [of E r] lf
  show ?thesis
  proof (cases l)
    case None
    then show ?thesis by (simp add: unfold)
  next
    case (Some line)
    show ?thesis
    proof (cases "line = [] \<or> hd line = CHR ''#''")
      case True
      then show ?thesis by (simp add: unfold Some line_measurement_def Let_def)
    next
      case False
      then have lm: "line_measurement E line = read_measurement (ParseLine E line)" by (simp add: line_measurement_def)
      show ?thesis
      proof (cases "read_measurement (ParseLine E line)")
        case None
        then show ?thesis using False by (simp add: unfold Some lm Let_def)
      next
        case (Some m)
        then have "ParseLine E line = outcome_ok m" by (rule ParseLine_outcome)
        then show ?thesis using False Some by (simp add: unfold \<open>l = Some line\<close> lm Let_def outcome_ok_def)
      qed
    qed
  qed
qed

lemma track_time_simps:
  "csv_file (track_time r m) = csv_file r" "csv_path (track_time r m) = csv_path r"
  "csv_pending E (track_time r m) = csv_pending E r" "end_time (track_time r m) = Some (GetTimestamp m)"
  "start_time (track_time (r\<lparr>csv_file := f\<rparr>) m) = start_time (track_time r m)"
  by (simp_all add: track_time_def Let_def csv_pending_def)

lemma next_loop_delivers: "next_loop E r = (out, r') \<Longrightarrow> csv_delivers E r out r'"
proof (induction "length (if_rest (csv_file r))" arbitrary: r rule: less_induct)
  case less
  obtain l f where lf: "std_getline (csv_file r) = (l, f)" by (cases "std_getline (csv_file r)")
  let ?r = "r\<lparr>csv_file := f\<rparr>"
  have open_f: "if_open f = if_open (csv_file r)" using getline_open [OF lf] .
  show ?case
  proof (cases l)
    case None
    then have "csv_pending E ?r = []" using lf by (auto simp: csv_pending_def std_getline_def split: if_splits option.splits)
    then show ?thesis using less.prems None lf open_f csv_pending_step [of E r]
      by (auto simp: next_loop_step [of E r] csv_delivers_def)
  next
    case (Some line)
    show ?thesis
    proof (cases "line_measurement E line")
      case None
      then have "next_loop E ?r = (out, r')" using less.prems Some lf by (simp add: next_loop_step [of E r])
      then have "csv_delivers E ?r out r'" using lf Some std_getline_shorter [of line f "csv_file r"] by (intro less.hyps) simp_all
      then show ?thesis using csv_pending_step [of E r] None Some lf open_f
        by (simp add: csv_delivers_def track_time_def Let_def split: list.splits)
    next
      case (Some m)
      then have "csv_pending E r = m # csv_pending E ?r" using csv_pending_step [of E r] lf \<open>l = Some line\<close> by simp
      moreover have "out = outcome_ok m" "r' = track_time ?r m"
        using less.prems Some lf \<open>l = Some line\<close> by (simp_all add: next_loop_step [of E r])
      ultimately show ?thesis using open_f by (simp add: csv_delivers_def track_time_simps)
    qed
  qed
qed

lemma Csv_Next_delivers:
  "if_open (csv_file r) \<Longrightarrow> Csv_Next E r = (out, r') \<Longrightarrow> csv_delivers E r out r'"
  by (simp add: Csv_Next_def next_loop_delivers)

interpretation csv: measurement_reader "Csv_Next E" "csv_pending E" Csv_IsOpen
proof
  fix r m ms
  assume "Csv_IsOpen r" "csv_pending E r = m # ms"
  then show "\<exists>r'. Csv_Next E r = (outcome_ok m, r') \<and> Csv_IsOpen r' \<and> csv_pending E r' = ms"
    using Csv_Next_delivers [of r E] by (cases "Csv_Next E r") (fastforce simp: Csv_IsOpen_def csv_delivers_def)
next
  fix r
  assume "Csv_IsOpen r" "csv_pending E r = []"
  then show "\<exists>r'. Csv_Next E r = (outcome EndOfData, r') \<and> Csv_IsOpen r' \<and> csv_pending E r' = []"
    using Csv_Next_delivers [of r E] by (cases "Csv_Next E r") (fastforce simp: Csv_IsOpen_def csv_delivers_def)
next
  fix r
  assume "\<not> Csv_IsOpen r"
  then show "read_result (fst (Csv_Next E r)) = Read_Error \<and> snd (Csv_Next E r) = r"
    by (simp add: Csv_Next_def Csv_IsOpen_def)
qed

text \<open>The dataset reader hands the reader's outcomes through and counts the measurements.\<close>

interpretation dataset: measurement_reader "Dataset_Next E" "\<lambda>d :: CsvDatasetReader. csv_pending E (ds_reader d)"
    "\<lambda>d :: CsvDatasetReader. Csv_IsOpen (ds_reader d)"
proof
  fix d :: CsvDatasetReader and m ms
  assume "Csv_IsOpen (ds_reader d)" "csv_pending E (ds_reader d) = m # ms"
  from csv.next_some [OF this]
  show "\<exists>d'. Dataset_Next E d = (outcome_ok m, d') \<and> Csv_IsOpen (ds_reader d') \<and> csv_pending E (ds_reader d') = ms"
    by (auto simp: Dataset_Next_def)
next
  fix d :: CsvDatasetReader
  assume "Csv_IsOpen (ds_reader d)" "csv_pending E (ds_reader d) = []"
  from csv.next_none [OF this]
  show "\<exists>d'. Dataset_Next E d = (outcome EndOfData, d') \<and> Csv_IsOpen (ds_reader d') \<and> csv_pending E (ds_reader d') = []"
    by (auto simp: Dataset_Next_def)
next
  fix d :: CsvDatasetReader
  assume "\<not> Csv_IsOpen (ds_reader d)"
  from csv.next_closed [OF this]
  show "read_result (fst (Dataset_Next E d)) = Read_Error \<and> snd (Dataset_Next E d) = d"
    by (simp add: Dataset_Next_def split_beta)
qed

lemma read_n_count:
  "ds_count (snd (read_n (Dataset_Next E) n d)) =
    ds_count d + length (filter (\<lambda>out. read_result out = Read_Ok) (fst (read_n (Dataset_Next E) n d)))"
  by (induction n arbitrary: d) (auto simp: split_beta Dataset_Next_def)

lemma read_n_path:
  "Csv_IsOpen (ds_reader d) \<Longrightarrow> csv_path (ds_reader (snd (read_n (Dataset_Next E) n d))) = csv_path (ds_reader d)"
proof (induction n arbitrary: d)
  case (Suc n)
  have "csv_delivers E (ds_reader d) (fst (Csv_Next E (ds_reader d))) (snd (Csv_Next E (ds_reader d)))"
    using Suc.prems by (intro Csv_Next_delivers) (simp_all add: Csv_IsOpen_def)
  then have "csv_path (ds_reader (snd (Dataset_Next E d))) = csv_path (ds_reader d)"
    by (simp add: csv_delivers_def Dataset_Next_def split_beta)
  moreover have "Csv_IsOpen (ds_reader (snd (Dataset_Next E d)))" by (rule dataset.next_step(2) [OF Suc.prems])
  ultimately show ?case using Suc.IH by (simp add: split_beta)
qed simp

text \<open>
  C25. Reading a dataset: with a readable file at the configured path, the factory's reader opens,
  its first \<open>n\<close> calls of \<open>Next\<close> return exactly the measurements of the file's well-formed lines in
  file order, skipping comments, blank and malformed lines, and then the end of the data;
  \<open>MeasurementsRead\<close> counts them; and \<open>Rewind\<close>, from any point, makes the whole file pending again.
\<close>

theorem dataset_reads_lines:
  assumes "MakeDatasetReader cfg = Inr d0" "fs (dataset_path cfg) = Some content"
    and "Dataset_Open fs d0 = (ok, d)" "read_n (Dataset_Next E) n d = (outs, d')" "Dataset_Rewind fs d' = (ok', d'')"
  shows "ok \<and> outs = map outcome_ok (take n (csv_measurements E content)) @
      replicate (n - length (csv_measurements E content)) (outcome EndOfData) \<and>
    ds_count d' = min n (length (csv_measurements E content)) \<and>
    ok' \<and> csv_pending E (ds_reader d'') = csv_measurements E content"
proof -
  have d0: "d0 = CsvDatasetReader_new (dataset_path cfg)" using assms(1) by (simp add: MakeDatasetReader_def split: if_splits)
  have d: "ok" "Csv_IsOpen (ds_reader d)" "csv_pending E (ds_reader d) = csv_measurements E content" "ds_count d = 0"
    "csv_path (ds_reader d) = dataset_path cfg"
    using assms(2,3) by (auto simp: d0 Dataset_Open_def Csv_Open_def CsvDatasetReader_new_def CsvMeasurementReader_new_def
        ifstream_open_def ifstream_new_def Csv_IsOpen_def csv_pending_def Let_def)
  note all = dataset.read_n_all [OF d(2), of E n, unfolded d(3) assms(4) fst_conv snd_conv]
  have outs: "outs = map outcome_ok (take n (csv_measurements E content)) @
      replicate (n - length (csv_measurements E content)) (outcome EndOfData)" using all by blast
  moreover have "ds_count d' = min n (length (csv_measurements E content))"
    using read_n_count [of E n d, unfolded assms(4) fst_conv snd_conv] d(4) by (simp add: outs outcome_ok_def outcome_def filter_map o_def)
  moreover have "ok' \<and> csv_pending E (ds_reader d'') = csv_measurements E content"
    using assms(2,5) all read_n_path [OF d(2), of E n] d(5) assms(4)
    by (auto simp: Dataset_Rewind_def Csv_Open_def Csv_Close_def ifstream_open_def ifstream_close_def Csv_IsOpen_def
        csv_pending_def Let_def)
  ultimately show ?thesis using d(1) by blast
qed

text \<open>A log with a comment, a magnetometer line and a line with a malformed time stamp.\<close>

definition example_log :: string where
  "example_log = ''#c'' @ [CHR 0x0A] @ ''MAG,5,1,2,3'' @ [CHR 0x0A] @ ''MAG,x,1,2,3''"

definition example_mag :: MagnetometerMeasurement where
  "example_mag = MagnetometerMeasurement_default
     \<lparr>mag_timestamp := MakeTimestamp 5, mag_magnetic_field_tesla := Vec3_xyz 1 2 3, mag_validity := Valid\<rparr>"

lemmas read_number_simps = std_stod_def std_stoll_def skip_space_def read_sign_def read_digits_def
  read_fraction_def read_exponent_def is_space_def is_digit_def digits_value_def digit_value_def
  scale10_def Let_def

lemma example_measurements: "csv_measurements E example_log = [M_Magnetometer example_mag]"
proof -
  have "getlines (CHR 0x0A) example_log = [''#c'', ''MAG,5,1,2,3'', ''MAG,x,1,2,3'']" by code_simp
  moreover have "Split ''MAG,5,1,2,3'' = [''MAG'', ''5'', ''1'', ''2'', ''3'']" by code_simp
  moreover have "Split ''MAG,x,1,2,3'' = [''MAG'', ''x'', ''1'', ''2'', ''3'']" by code_simp
  ultimately show ?thesis
    by (simp add: csv_measurements_def List.map_filter_simps line_measurement_def ParseLine_def ParseMag_def
        ToInt64_def ToVec3_def ToDouble_def catch_parse_def outcome_ok_def outcome_def example_mag_def read_number_simps)
qed

theorem dataset_reads_lines_witness:
  "\<exists>d d' d''. Dataset_Open [''f'' \<mapsto> example_log] (CsvDatasetReader_new ''f'') = (True, d) \<and>
    read_n (Dataset_Next eigen_reference) 2 d = ([outcome_ok (M_Magnetometer example_mag), outcome EndOfData], d') \<and>
    ds_count d' = 1 \<and> Dataset_Rewind [''f'' \<mapsto> example_log] d' = (True, d'') \<and>
    csv_pending eigen_reference (ds_reader d'') = [M_Magnetometer example_mag]"
proof -
  let ?cfg = "\<lparr>dataset_type = ''csv'', dataset_path = ''f''\<rparr>" and ?fs = "[''f'' \<mapsto> example_log]"
  obtain ok d where d: "Dataset_Open ?fs (CsvDatasetReader_new ''f'') = (ok, d)" by (rule prod.exhaust)
  obtain outs d' where d': "read_n (Dataset_Next eigen_reference) 2 d = (outs, d')" by (rule prod.exhaust)
  obtain ok' d'' where d'': "Dataset_Rewind ?fs d' = (ok', d'')" by (rule prod.exhaust)
  have "MakeDatasetReader ?cfg = Inr (CsvDatasetReader_new ''f'')" by (simp add: MakeDatasetReader_def)
  from dataset_reads_lines [OF this _ d d' d''] d d' d'' show ?thesis
    by (simp add: example_measurements)
qed

end
