(* ===== verification/Fg_Session.thy ===== *)
theory Fg_Session
  imports Fg_Programs Fg_Csv Fg_System Fg_WebSocket
begin

text \<open>
  The session of \<^verbatim>\<open>src/app/src/session.cpp\<close>: it owns the navigation system, the dataset reader
  and the two servers, and a replay thread that feeds the pipeline. The operations are programs of atomic
  actions (theory \<open>Fg_Programs\<close>) that the application, the IPC server thread and the WebSocket server
  thread call; the replay thread and the pipeline's worker run beside them. Of the IPC server
  (\<^verbatim>\<open>src/app/src/ipc_server.cpp\<close>) and the WebSocket server the session sees the running flag, the
  thread, the mutex of the client list, which the server thread holds while it handles commands, and
  what was sent. The estimator, its factory, the file system and the outcome of binding the two
  sockets are parameters.
\<close>

section \<open>State\<close>

datatype Status = S_Idle | S_Configured | S_Running | S_Paused | S_Completed | S_Error

record IpcConfig =
  socket_path :: string
  ipc_max_clients :: int

record SessionConfig =
  sc_nav :: NavigationSystemConfig
  sc_dataset :: DatasetConfig
  sc_ipc :: IpcConfig
  sc_ws :: WsConfig
  sc_playback_speed :: real

definition SessionConfig_default :: SessionConfig where
  "SessionConfig_default =
     \<lparr>sc_nav = NavigationSystemConfig_default,
      sc_dataset = \<lparr>dataset_type = ''csv'', dataset_path = []\<rparr>,
      sc_ipc = \<lparr>socket_path = ''/tmp/falconguide.sock'', ipc_max_clients = 8\<rparr>,
      sc_ws = WsConfig_default, sc_playback_speed = 1\<rparr>"

datatype SessionEvent =
    StatusEvent string nat
  | ErrorEvent string
  | SchemaEvent
  | NavStateEvent NavigationState

text \<open>What the WebSocket handler answers; \<open>InvalidJson\<close> stands for the answer to an exception.\<close>

datatype Reply =
    StatusReply string "nat option"
  | SchemaReply
  | ErrorReply string
  | AckReply string
  | InvalidJson

datatype thread_state = NotJoinable | Active | Finished

datatype thread = T_App | T_Ipc | T_Ws | T_Replay | T_Worker

text \<open>
  \<open>prev_meas_ns\<close> and \<open>current\<close> are locals of \<open>ReplayLoop\<close>; \<open>slept\<close> (the pauses it asked for, in
  nanoseconds), \<open>consumed\<close> (the measurements the dataset reader returned) and \<open>fed\<close> (those the worker gave to
  the present estimator) record what happened.
\<close>

record 'est session =
  ss_cfg :: SessionConfig
  ss_pipe :: "'est EstimatorPipeline"
  ss_reader :: CsvDatasetReader
  ipc_running :: bool
  ipc_thread :: thread_state
  ipc_lock :: "thread option"
  ipc_sent :: "SessionEvent list"
  ipc_rejected :: nat
  wss_exists :: bool
  wss_running :: bool
  wss_thread :: thread_state
  wss_lock :: "thread option"
  wss_sent :: "SessionEvent list"
  wss_replies :: "Reply list"
  ss_status :: Status
  ss_error :: string
  ss_running :: bool
  ss_paused :: bool
  ss_replay :: thread_state
  prev_meas_ns :: "int option"
  current :: "SensorMeasurement option"
  slept :: "int list"
  consumed :: "SensorMeasurement list"
  fed :: "SensorMeasurement list"

record 'est session_env =
  env_files :: "string \<Rightarrow> string option"
  env_build :: "NavigationSystemConfig \<Rightarrow> cpp_exception + 'est"
  env_ops :: "'est estimator_ops"
  env_eigen :: eigen_ops
  env_ipc_binds :: bool
  env_ws_binds :: bool

section \<open>The servers and the pipeline, as the session calls them\<close>

text \<open>\<open>IpcServer::Broadcast\<close>: waits for the client list, also when its own thread holds it.\<close>

definition IpcBroadcast :: "SessionEvent \<Rightarrow> 'est session prog \<Rightarrow> 'est session prog" where
  "IpcBroadcast ev k = await (\<lambda>s. ipc_lock s = None) (\<lambda>s. s\<lparr>ipc_sent := ipc_sent s @ [ev]\<rparr>) k"

definition BroadcastStatus :: "string \<Rightarrow> nat \<Rightarrow> 'est session prog \<Rightarrow> 'est session prog" where
  "BroadcastStatus status n k = IpcBroadcast (StatusEvent status n) k"

definition BroadcastError :: "string \<Rightarrow> 'est session prog \<Rightarrow> 'est session prog" where
  "BroadcastError msg k = IpcBroadcast (ErrorEvent msg) k"

text \<open>Assigning a new thread to a \<^verbatim>\<open>std::thread\<close> that is still joinable terminates the process.\<close>

definition IpcServer_Start :: "'est session_env \<Rightarrow> (bool \<Rightarrow> 'est session prog) \<Rightarrow> 'est session prog" where
  "IpcServer_Start env k =
     Atomic (\<lambda>s.
       if ipc_running s then Go s (k True)
       else if \<not> env_ipc_binds env then Go s (k False)
       else if ipc_thread s \<noteq> NotJoinable then Abort
       else Go (s\<lparr>ipc_running := True, ipc_thread := Active\<rparr>) (k True))"

text \<open>
  Joining: nothing if the thread is not joinable, an exception if it is the calling thread,
  otherwise a wait for its end. \<open>get\<close> and \<open>set\<close> access the thread.
\<close>

definition join ::
  "bool \<Rightarrow> ('s \<Rightarrow> thread_state) \<Rightarrow> ('s \<Rightarrow> 's) \<Rightarrow> (cpp_exception \<Rightarrow> 's prog) \<Rightarrow> 's prog \<Rightarrow> 's prog" where
  "join self get clear h k =
     Atomic (\<lambda>s.
       case get s of
         NotJoinable \<Rightarrow> Go s k
       | Active \<Rightarrow> (if self then Go s (h SystemError) else Block)
       | Finished \<Rightarrow> Go (clear s) k)"

definition IpcServer_Stop ::
  "thread \<Rightarrow> (cpp_exception \<Rightarrow> 'est session prog) \<Rightarrow> 'est session prog \<Rightarrow> 'est session prog" where
  "IpcServer_Stop t h k =
     Atomic (\<lambda>s.
       if \<not> ipc_running s then Go s k
       else Go (s\<lparr>ipc_running := False\<rparr>)
         (await (\<lambda>s. ipc_lock s = None) (\<lambda>s. s)
           (join (t = T_Ipc) ipc_thread (\<lambda>s. s\<lparr>ipc_thread := NotJoinable\<rparr>) h k)))"

text \<open>\<open>ws_server_->Start()\<close> under the session's \<^verbatim>\<open>try\<close>: a failure to bind is only logged.\<close>

definition WsServer_TryStart :: "'est session_env \<Rightarrow> 'est session prog \<Rightarrow> 'est session prog" where
  "WsServer_TryStart env k =
     Atomic (\<lambda>s.
       if \<not> wss_exists s \<or> wss_running s \<or> \<not> env_ws_binds env then Go s k
       else if wss_thread s \<noteq> NotJoinable then Abort
       else Go (s\<lparr>wss_running := True, wss_thread := Active\<rparr>) k)"

definition WsServer_StopProg ::
  "thread \<Rightarrow> (cpp_exception \<Rightarrow> 'est session prog) \<Rightarrow> 'est session prog \<Rightarrow> 'est session prog" where
  "WsServer_StopProg t h k =
     Atomic (\<lambda>s.
       if \<not> wss_exists s \<or> \<not> wss_running s then Go s k
       else Go (s\<lparr>wss_running := False\<rparr>)
         (join (t = T_Ws) wss_thread (\<lambda>s. s\<lparr>wss_thread := NotJoinable\<rparr>) h
           (await (\<lambda>s. wss_lock s = None) (\<lambda>s. s) k)))"

definition WsBroadcast :: "SessionEvent \<Rightarrow> 'est session prog \<Rightarrow> 'est session prog" where
  "WsBroadcast ev k = await (\<lambda>s. wss_lock s = None) (\<lambda>s. s\<lparr>wss_sent := wss_sent s @ [ev]\<rparr>) k"

definition pipe_start :: "'est session prog \<Rightarrow> 'est session prog" where
  "pipe_start k =
     Atomic (\<lambda>s.
       let p = ss_pipe s in
       if running p then Go s k
       else if worker p \<noteq> NoThread then Abort
       else Go (s\<lparr>ss_pipe := p\<lparr>running := True, worker := AtPop\<rparr>\<rparr>) k)"

definition worker_state :: "'est session \<Rightarrow> thread_state" where
  "worker_state s = (case worker (ss_pipe s) of NoThread \<Rightarrow> NotJoinable | Ended \<Rightarrow> Finished | _ \<Rightarrow> Active)"

definition pipe_stop ::
  "thread \<Rightarrow> (cpp_exception \<Rightarrow> 'est session prog) \<Rightarrow> 'est session prog \<Rightarrow> 'est session prog" where
  "pipe_stop t h k =
     Atomic (\<lambda>s.
       if \<not> running (ss_pipe s) then Go s k
       else Go (s\<lparr>ss_pipe := (ss_pipe s)\<lparr>running := False\<rparr>\<rparr>)
         (act (\<lambda>s. s\<lparr>ss_pipe := (ss_pipe s)\<lparr>p_queue := Queue_RequestShutdown (p_queue (ss_pipe s))\<rparr>\<rparr>)
           (join (t = T_Worker) worker_state (\<lambda>s. s\<lparr>ss_pipe := (ss_pipe s)\<lparr>worker := NoThread\<rparr>\<rparr>) h k)))"

text \<open>\<open>Push\<close> of the measurement the replay thread holds: the load of \<open>running_\<close>, then the queue.\<close>

definition pipe_push :: "'est session prog \<Rightarrow> 'est session prog" where
  "pipe_push k =
     Atomic (\<lambda>s.
       if \<not> running (ss_pipe s) then Go (s\<lparr>current := None\<rparr>) k
       else Go s
         (act (\<lambda>s. case current s of
                     None \<Rightarrow> s
                   | Some m \<Rightarrow> s\<lparr>ss_pipe := (ss_pipe s)\<lparr>p_queue := snd (Queue_Push (p_queue (ss_pipe s)) m)\<rparr>,
                                current := None\<rparr>) k))"

section \<open>Status\<close>

definition set_status :: "Status \<Rightarrow> 'est session prog \<Rightarrow> 'est session prog" where
  "set_status st k = act (\<lambda>s. s\<lparr>ss_status := st\<rparr>) k"

definition SetStatus :: "Status \<Rightarrow> string \<Rightarrow> 'est session prog \<Rightarrow> 'est session prog" where
  "SetStatus st err k =
     set_status st
       (if err = [] then k
        else act (\<lambda>s. s\<lparr>ss_error := err\<rparr>) (BroadcastError err k))"

definition GetStatusString :: "'est session \<Rightarrow> string" where
  "GetStatusString s =
     (case ss_status s of
        S_Idle \<Rightarrow> ''idle'' | S_Configured \<Rightarrow> ''configured'' | S_Running \<Rightarrow> ''running''
      | S_Paused \<Rightarrow> ''paused'' | S_Completed \<Rightarrow> ''completed'' | S_Error \<Rightarrow> ''error'')"

definition MeasurementsRead :: "'est session \<Rightarrow> nat" where
  "MeasurementsRead s = ds_count (ss_reader s)"

section \<open>Start, stop, pause, resume\<close>

definition Start :: "'est session_env \<Rightarrow> (bool \<Rightarrow> 'est session prog) \<Rightarrow> 'est session prog" where
  "Start env k =
     peek ss_status (\<lambda>st.
       if st = S_Running \<or> st = S_Paused then k True
       else if st = S_Error then k False
       else Atomic (\<lambda>s.
         case Dataset_Open (env_files env) (ss_reader s) of (ok, d) \<Rightarrow>
           Go (s\<lparr>ss_reader := d\<rparr>)
             (if \<not> ok
              then SetStatus S_Error (''Failed to open dataset: '' @ dataset_path (sc_dataset (ss_cfg s))) (k False)
              else IpcServer_Start env (\<lambda>_.
                WsServer_TryStart env
                (pipe_start
                (SetStatus S_Running []
                (BroadcastStatus ''running'' 0
                (act (\<lambda>s. s\<lparr>ss_running := True\<rparr>)
                (Atomic (\<lambda>s.
                   if ss_replay s \<noteq> NotJoinable then Abort
                   else Go (s\<lparr>ss_replay := Active, prev_meas_ns := None\<rparr>) (k True)))))))))))"

definition Stop ::
  "thread \<Rightarrow> (cpp_exception \<Rightarrow> 'est session prog) \<Rightarrow> 'est session prog \<Rightarrow> 'est session prog" where
  "Stop t h k =
     Atomic (\<lambda>s.
       if \<not> ss_running s then Go s k
       else Go (s\<lparr>ss_running := False\<rparr>)
         (act (\<lambda>s. s\<lparr>ss_paused := False\<rparr>)
         (join (t = T_Replay) ss_replay (\<lambda>s. s\<lparr>ss_replay := NotJoinable\<rparr>) h
         (pipe_stop t h
         (act (\<lambda>s. s\<lparr>ss_reader := Dataset_Close (ss_reader s)\<rparr>)
         (BroadcastStatus ''idle'' 0
         (IpcServer_Stop t h
         (WsServer_StopProg t h
         (SetStatus S_Idle [] k)))))))))"

definition Pause :: "'est session prog \<Rightarrow> 'est session prog" where
  "Pause k =
     peek ss_status (\<lambda>st.
       if st \<noteq> S_Running then k
       else act (\<lambda>s. s\<lparr>ss_paused := True\<rparr>)
         (SetStatus S_Paused []
         (peek MeasurementsRead (\<lambda>n. BroadcastStatus ''paused'' n k))))"

definition Resume :: "'est session prog \<Rightarrow> 'est session prog" where
  "Resume k =
     peek ss_status (\<lambda>st.
       if st \<noteq> S_Paused then k
       else act (\<lambda>s. s\<lparr>ss_paused := False\<rparr>)
         (SetStatus S_Running []
         (peek MeasurementsRead (\<lambda>n. BroadcastStatus ''running'' n k))))"

section \<open>Reconfigure\<close>

text \<open>
  Replacing an owned object destroys the old one: its destructor stops it, an exception there and the
  destruction of a joinable thread terminate the process.
\<close>

definition terminate :: "'s prog" where
  "terminate = Atomic (\<lambda>s. Abort)"

definition replace_pipe :: "thread \<Rightarrow> 'est \<Rightarrow> 'est session prog \<Rightarrow> 'est session prog" where
  "replace_pipe t est k =
     pipe_stop t (\<lambda>_. terminate)
       (Atomic (\<lambda>s.
          if worker (ss_pipe s) \<noteq> NoThread then Abort
          else Go (s\<lparr>ss_pipe := EstimatorPipeline_new est 4096, fed := []\<rparr>)
            (act (\<lambda>s. s\<lparr>ss_pipe := RegisterObserver (ss_pipe s) 0\<rparr>) k)))"

definition replace_ipc :: "thread \<Rightarrow> 'est session prog \<Rightarrow> 'est session prog" where
  "replace_ipc t k =
     IpcServer_Stop t (\<lambda>_. terminate)
       (Atomic (\<lambda>s.
          if ipc_thread s \<noteq> NotJoinable then Abort
          else Go (s\<lparr>ipc_running := False, ipc_lock := None\<rparr>) k))"

definition replace_ws :: "thread \<Rightarrow> bool \<Rightarrow> 'est session prog \<Rightarrow> 'est session prog" where
  "replace_ws t exists k =
     WsServer_StopProg t (\<lambda>_. terminate)
       (Atomic (\<lambda>s.
          if wss_exists s \<and> wss_thread s \<noteq> NotJoinable then Abort
          else Go (s\<lparr>wss_exists := exists, wss_running := False, wss_lock := None\<rparr>) k))"

definition Reconfigure ::
  "'est session_env \<Rightarrow> thread \<Rightarrow> SessionConfig \<Rightarrow> (cpp_exception \<Rightarrow> 'est session prog) \<Rightarrow>
     (bool \<Rightarrow> 'est session prog) \<Rightarrow> 'est session prog" where
  "Reconfigure env t cfg h k =
     peek ss_status (\<lambda>st.
       if st = S_Running \<or> st = S_Paused then k False
       else act (\<lambda>s. s\<lparr>ss_cfg := cfg\<rparr>)
         (case env_build env (sc_nav cfg) of
            Inl e \<Rightarrow> h e
          | Inr est \<Rightarrow>
              replace_pipe t est
              (case MakeDatasetReader (sc_dataset cfg) of
                 Inl e \<Rightarrow> h e
               | Inr d \<Rightarrow>
                   act (\<lambda>s. s\<lparr>ss_reader := d\<rparr>)
                   (replace_ipc t
                   (replace_ws t (0 < cfg_port (sc_ws cfg))
                   (SetStatus S_Configured [] (k True)))))))"

section \<open>Commands\<close>

text \<open>
  A decoded command: the verb, and the optional members \<open>speed\<close> and \<open>config\<close> with what reading them
  gives (an exception if they have the wrong type).
\<close>

record command =
  verb :: string
  speed :: "(cpp_exception + real) option"
  config :: "(cpp_exception + SessionConfig) option"

definition set_speed ::
  "command \<Rightarrow> (cpp_exception \<Rightarrow> 'est session prog) \<Rightarrow> 'est session prog \<Rightarrow> 'est session prog" where
  "set_speed cmd h k =
     (case speed cmd of
        None \<Rightarrow> k
      | Some (Inl e) \<Rightarrow> h e
      | Some (Inr v) \<Rightarrow> act (\<lambda>s. s\<lparr>ss_cfg := (ss_cfg s)\<lparr>sc_playback_speed := v\<rparr>\<rparr>) k)"

definition HandleCommand ::
  "'est session_env \<Rightarrow> command \<Rightarrow> (cpp_exception \<Rightarrow> 'est session prog) \<Rightarrow> 'est session prog \<Rightarrow> 'est session prog" where
  "HandleCommand env cmd h k =
     (if verb cmd = ''start'' then Start env (\<lambda>_. k)
      else if verb cmd = ''stop'' then Stop T_Ipc h k
      else if verb cmd = ''pause'' then Pause k
      else if verb cmd = ''resume'' then Resume k
      else if verb cmd = ''get_status''
        then peek (\<lambda>s. (GetStatusString s, MeasurementsRead s)) (\<lambda>(st, n). BroadcastStatus st n k)
      else if verb cmd = ''get_schema'' then IpcBroadcast SchemaEvent k
      else if verb cmd = ''set_speed'' then set_speed cmd h k
      else if verb cmd = ''configure'' then
        (case config cmd of
           None \<Rightarrow> k
         | Some (Inl e) \<Rightarrow> BroadcastError (''configure failed: '' @ what e) k
         | Some (Inr cfg) \<Rightarrow>
             Reconfigure env T_Ipc cfg (\<lambda>e. BroadcastError (''configure failed: '' @ what e) k)
               (\<lambda>_. BroadcastStatus ''configured'' 0 k))
      else BroadcastError (''unknown command: '' @ verb cmd) k)"

definition HandleWsCommand ::
  "'est session_env \<Rightarrow> command \<Rightarrow> (cpp_exception \<Rightarrow> 'est session prog) \<Rightarrow> (Reply \<Rightarrow> 'est session prog) \<Rightarrow>
     'est session prog" where
  "HandleWsCommand env cmd h k =
     (let ack = k (AckReply (verb cmd)) in
      if verb cmd = ''start'' then Start env (\<lambda>_. ack)
      else if verb cmd = ''stop'' then Stop T_Ws h ack
      else if verb cmd = ''pause'' then Pause ack
      else if verb cmd = ''resume'' then Resume ack
      else if verb cmd = ''set_speed'' then set_speed cmd h ack
      else if verb cmd = ''get_status''
        then peek (\<lambda>s. (GetStatusString s, MeasurementsRead s)) (\<lambda>(st, n). k (StatusReply st (Some n)))
      else if verb cmd = ''get_schema'' then k SchemaReply
      else if verb cmd = ''configure'' then
        (case config cmd of
           None \<Rightarrow> ack
         | Some (Inl e) \<Rightarrow> k (ErrorReply (''configure failed: '' @ what e))
         | Some (Inr cfg) \<Rightarrow>
             Reconfigure env T_Ws cfg (\<lambda>e. k (ErrorReply (''configure failed: '' @ what e)))
               (\<lambda>_. k (StatusReply ''configured'' None)))
      else ack)"

text \<open>
  \<open>IpcServer::HandleData\<close>, per line: nothing for an empty line; the answer \<open>invalid JSON\<close>, to the one
  client, for a line that does not parse and for an exception of the handler.
\<close>

datatype ipc_line = EmptyLine | BadLine | CommandLine command

definition HandleData :: "'est session_env \<Rightarrow> ipc_line \<Rightarrow> 'est session prog \<Rightarrow> 'est session prog" where
  "HandleData env line k =
     (let reject = act (\<lambda>s. s\<lparr>ipc_rejected := ipc_rejected s + 1\<rparr>) k in
      case line of
        EmptyLine \<Rightarrow> k
      | BadLine \<Rightarrow> reject
      | CommandLine cmd \<Rightarrow> HandleCommand env cmd (\<lambda>_. reject) k)"

definition ipc_lines :: "'est session_env \<Rightarrow> ipc_line list \<Rightarrow> 'est session prog \<Rightarrow> 'est session prog" where
  "ipc_lines env ls k = foldr (HandleData env) ls k"

definition ws_reply :: "'est session prog \<Rightarrow> Reply \<Rightarrow> 'est session prog" where
  "ws_reply k r = act (\<lambda>s. s\<lparr>wss_replies := wss_replies s @ [r]\<rparr>) k"

definition ws_commands :: "'est session_env \<Rightarrow> command list \<Rightarrow> 'est session prog \<Rightarrow> 'est session prog" where
  "ws_commands env cmds k =
     foldr (\<lambda>cmd k. HandleWsCommand env cmd (\<lambda>_. ws_reply k InvalidJson) (ws_reply k)) cmds k"

section \<open>The replay thread\<close>

text \<open>The pause before a measurement, from the time stamps and the speed.\<close>

definition pace :: "SensorMeasurement \<Rightarrow> 'est session \<Rightarrow> 'est session" where
  "pace m s =
     (let sp = sc_playback_speed (ss_cfg s) in
      if sp > 0 \<and> has_steady (GetTimestamp m) then
        let cur_ns = nanoseconds_since_epoch (steady (GetTimestamp m));
            s' = (case prev_meas_ns s of
                    Some p \<Rightarrow> (if cur_ns > p then s\<lparr>slept := slept s @ [trunc_to_int (of_int (cur_ns - p) / sp)]\<rparr> else s)
                  | None \<Rightarrow> s)
        in s'\<lparr>prev_meas_ns := Some cur_ns\<rparr>
      else s)"

definition replay_end :: "'est session prog" where
  "replay_end =
     peek ss_running (\<lambda>r.
       (let exit = act (\<lambda>s. s\<lparr>ss_replay := Finished\<rparr>) Done in
        if \<not> r then exit
        else SetStatus S_Completed []
          (peek MeasurementsRead (\<lambda>n. BroadcastStatus ''completed'' n exit))))"

text \<open>One turn of the loop of \<open>ReplayLoop\<close>; \<^const>\<open>Done\<close> is the next turn.\<close>

definition replay_turn :: "'est session_env \<Rightarrow> 'est session prog" where
  "replay_turn env =
     peek ss_running (\<lambda>r.
       if \<not> r then replay_end
       else await (\<lambda>s. \<not> ss_paused s \<or> \<not> ss_running s) (\<lambda>s. s)
         (peek ss_running (\<lambda>r.
            if \<not> r then replay_end
            else Atomic (\<lambda>s.
              case Dataset_Next (env_eigen env) (ss_reader s) of (out, d) \<Rightarrow>
                let s' = s\<lparr>ss_reader := d\<rparr> in
                if read_result out = EndOfData then Go s' replay_end
                else
                  case read_measurement out of
                    Some m \<Rightarrow>
                      (if read_result out \<noteq> Read_Ok then Go s' Done
                       else Go (s'\<lparr>consumed := consumed s @ [m], current := Some m\<rparr>) (act (pace m) (pipe_push Done)))
                  | None \<Rightarrow> Go s' Done))))"

section \<open>The system of threads\<close>

record 'est system =
  sess :: "'est session"
  progs :: "thread \<Rightarrow> 'est session prog"

definition session_init :: "SessionConfig \<Rightarrow> 'est \<Rightarrow> CsvDatasetReader \<Rightarrow> 'est session" where
  "session_init cfg est d =
     \<lparr>ss_cfg = cfg, ss_pipe = RegisterObserver (EstimatorPipeline_new est 4096) 0, ss_reader = d,
      ipc_running = False, ipc_thread = NotJoinable, ipc_lock = None, ipc_sent = [], ipc_rejected = 0,
      wss_exists = 0 < cfg_port (sc_ws cfg), wss_running = False, wss_thread = NotJoinable, wss_lock = None,
      wss_sent = [], wss_replies = [], ss_status = S_Configured, ss_error = [], ss_running = False, ss_paused = False,
      ss_replay = NotJoinable, prev_meas_ns = None, current = None, slept = [], consumed = [], fed = []\<rparr>"

definition Session_new :: "'est session_env \<Rightarrow> SessionConfig \<Rightarrow> cpp_exception + 'est system" where
  "Session_new env cfg =
     bind_sum (env_build env (sc_nav cfg)) (\<lambda>est.
     bind_sum (MakeDatasetReader (sc_dataset cfg)) (\<lambda>d.
       Inr \<lparr>sess = session_init cfg est d, progs = (\<lambda>_. Done)\<rparr>))"

text \<open>\<open>OnNavigationState\<close>, for each notification of the worker.\<close>

definition OnNavigationState :: "NavigationState \<Rightarrow> 'est session prog \<Rightarrow> 'est session prog" where
  "OnNavigationState st k =
     IpcBroadcast (NavStateEvent st)
       (peek wss_exists (\<lambda>ex. if ex then WsBroadcast (NavStateEvent st) k else k))"

definition OnEstimatorReset :: "'est session prog \<Rightarrow> 'est session prog" where
  "OnEstimatorReset k = BroadcastStatus ''reset'' 0 k"

fun notified :: "event list \<Rightarrow> NavigationState list" where
  "notified [] = []"
| "notified (Notified _ st # evs) = st # notified evs"
| "notified (_ # evs) = notified evs"

definition set_prog :: "thread \<Rightarrow> 'est session prog \<Rightarrow> 'est system \<Rightarrow> 'est system" where
  "set_prog t p S = S\<lparr>progs := (progs S)(t := p)\<rparr>"

text \<open>The calls the application may make, when its last one has returned; an exception ends the call.\<close>

inductive app_call :: "'est session_env \<Rightarrow> 'est session prog \<Rightarrow> bool" for env where
  "app_call env (Start env (\<lambda>_. Done))"
| "app_call env (Stop T_App (\<lambda>_. Done) Done)"
| "app_call env (Pause Done)"
| "app_call env (Resume Done)"
| "app_call env (Reconfigure env T_App cfg (\<lambda>_. Done) (\<lambda>_. Done))"

text \<open>
  A server thread reads its flag before \<^verbatim>\<open>select\<close> and takes the lock of its clients after it: in between, a
  \<open>Stop\<close> may clear the flag, and the thread still handles what it has read.
\<close>

inductive system_step :: "'est session_env \<Rightarrow> 'est system \<Rightarrow> 'est system \<Rightarrow> bool" for env where
  action:
    "progs S t = Atomic f \<Longrightarrow> f (sess S) = Go s' p \<Longrightarrow> system_step env S (set_prog t p (S\<lparr>sess := s'\<rparr>))"
| app:
    "progs S T_App = Done \<Longrightarrow> app_call env p \<Longrightarrow> system_step env S (set_prog T_App p S)"
| ipc_read:
    "progs S T_Ipc = Done \<Longrightarrow> ipc_thread (sess S) = Active \<Longrightarrow> ipc_running (sess S) \<Longrightarrow>
     system_step env S
       (set_prog T_Ipc (await (\<lambda>s. ipc_lock s = None) (\<lambda>s. s\<lparr>ipc_lock := Some T_Ipc\<rparr>)
         (ipc_lines env ls (act (\<lambda>s. s\<lparr>ipc_lock := None\<rparr>) Done))) S)"
| ipc_exit:
    "progs S T_Ipc = Done \<Longrightarrow> ipc_thread (sess S) = Active \<Longrightarrow> \<not> ipc_running (sess S) \<Longrightarrow>
     system_step env S (S\<lparr>sess := (sess S)\<lparr>ipc_thread := Finished\<rparr>\<rparr>)"
| ws_read:
    "progs S T_Ws = Done \<Longrightarrow> wss_thread (sess S) = Active \<Longrightarrow> wss_running (sess S) \<Longrightarrow>
     system_step env S
       (set_prog T_Ws (await (\<lambda>s. wss_lock s = None) (\<lambda>s. s\<lparr>wss_lock := Some T_Ws\<rparr>)
         (ws_commands env cmds (act (\<lambda>s. s\<lparr>wss_lock := None\<rparr>) Done))) S)"
| ws_exit:
    "progs S T_Ws = Done \<Longrightarrow> wss_thread (sess S) = Active \<Longrightarrow> \<not> wss_running (sess S) \<Longrightarrow>
     system_step env S (S\<lparr>sess := (sess S)\<lparr>wss_thread := Finished\<rparr>\<rparr>)"
| replay:
    "progs S T_Replay = Done \<Longrightarrow> ss_replay (sess S) = Active \<Longrightarrow>
     system_step env S (set_prog T_Replay (replay_turn env) S)"
| worker_pop:
    "progs S T_Worker = Done \<Longrightarrow> worker (ss_pipe (sess S)) = AtPop \<Longrightarrow>
     Queue_Pop (p_queue (ss_pipe (sess S))) = Some (Some m, q) \<Longrightarrow>
     system_step env S (S\<lparr>sess := (sess S)\<lparr>ss_pipe := (ss_pipe (sess S))\<lparr>p_queue := q, worker := Got m\<rparr>\<rparr>\<rparr>)"
| worker_exit:
    "progs S T_Worker = Done \<Longrightarrow> worker (ss_pipe (sess S)) = AtPop \<Longrightarrow>
     Queue_Pop (p_queue (ss_pipe (sess S))) = Some (None, q) \<Longrightarrow>
     system_step env S (S\<lparr>sess := (sess S)\<lparr>ss_pipe := (ss_pipe (sess S))\<lparr>p_queue := q, worker := Ended\<rparr>\<rparr>\<rparr>)"
| worker_add:
    "progs S T_Worker = Done \<Longrightarrow> worker (ss_pipe (sess S)) = Got m \<Longrightarrow>
     process_measurement (env_ops env) (ss_pipe (sess S)) m = Some (evs, p') \<Longrightarrow>
     system_step env S
       (set_prog T_Worker (foldr OnNavigationState (notified evs) Done)
         (S\<lparr>sess := (sess S)\<lparr>ss_pipe := p'\<lparr>worker := AtPop\<rparr>, fed := fed (sess S) @ [m]\<rparr>\<rparr>))"

inductive system_run :: "'est session_env \<Rightarrow> 'est system \<Rightarrow> 'est system \<Rightarrow> bool" for env S where
  run_refl: "system_run env S S"
| run_step: "system_run env S S' \<Longrightarrow> system_step env S' S'' \<Longrightarrow> system_run env S S''"

text \<open>The process is terminated when some thread's next action does so.\<close>

definition system_aborts :: "'est system \<Rightarrow> bool" where
  "system_aborts S \<longleftrightarrow> (\<exists>t f. progs S t = Atomic f \<and> f (sess S) = Abort)"

end
