(* ===== verification/Fg_SessionFrame.thy ===== *)
theory Fg_SessionFrame
  imports Fg_Session "HOL-Library.Sublist"
begin

text \<open>
  Invariants of the session in every interleaving of its threads. The locale \<open>session_frame\<close> states
  what a predicate on the shared state must satisfy to be kept by every atomic action of the session's
  operations; it is proved once there that all programs, and so all steps of the system, keep it. It is
  interpreted on the order of the replayed data and on the lock of the IPC server's client list.
\<close>

text \<open>
  \<open>ipc_free\<close> is false for predicates that hold only while the IPC server thread is stuck: nothing is
  asked then of the actions by which that thread takes and releases its lock or ends.
\<close>

locale session_frame =
  fixes env :: "'est session_env" and P :: "'est session \<Rightarrow> bool" and ipc_free :: bool
  assumes irrelevant [simp]:
      "P (s\<lparr>ss_cfg := x1\<rparr>) = P s" "P (s\<lparr>ss_reader := x2\<rparr>) = P s" "P (s\<lparr>ipc_running := x3\<rparr>) = P s"
      "P (s\<lparr>ipc_rejected := x4\<rparr>) = P s" "P (s\<lparr>wss_exists := x5\<rparr>) = P s" "P (s\<lparr>wss_running := x6\<rparr>) = P s"
      "P (s\<lparr>wss_thread := x7\<rparr>) = P s" "P (s\<lparr>wss_lock := x8\<rparr>) = P s" "P (s\<lparr>wss_sent := x9\<rparr>) = P s"
      "P (s\<lparr>wss_replies := x10\<rparr>) = P s" "P (s\<lparr>ss_status := x11\<rparr>) = P s" "P (s\<lparr>ss_error := x12\<rparr>) = P s"
      "P (s\<lparr>ss_running := x13\<rparr>) = P s" "P (s\<lparr>ss_paused := x14\<rparr>) = P s" "P (s\<lparr>ss_replay := x15\<rparr>) = P s"
      "P (s\<lparr>prev_meas_ns := x16\<rparr>) = P s" "P (s\<lparr>slept := x17\<rparr>) = P s"
    and sent: "P s \<Longrightarrow> ipc_lock s = None \<Longrightarrow> P (s\<lparr>ipc_sent := ipc_sent s @ [ev]\<rparr>)"
    and ipc_started: "P s \<Longrightarrow> ipc_thread s = NotJoinable \<Longrightarrow> P (s\<lparr>ipc_thread := Active\<rparr>)"
    and ipc_joined: "P s \<Longrightarrow> ipc_thread s = Finished \<Longrightarrow> P (s\<lparr>ipc_thread := NotJoinable\<rparr>)"
    and ipc_fresh: "P s \<Longrightarrow> ipc_thread s = NotJoinable \<Longrightarrow> P (s\<lparr>ipc_lock := None\<rparr>)"
    and ipc_locked: "ipc_free \<Longrightarrow> P s \<Longrightarrow> P (s\<lparr>ipc_lock := l\<rparr>)"
    and ipc_ended: "ipc_free \<Longrightarrow> P s \<Longrightarrow> P (s\<lparr>ipc_thread := Finished\<rparr>)"
    and pipe_flags: "P (s\<lparr>ss_pipe := (ss_pipe s)\<lparr>running := b\<rparr>\<rparr>) = P s"
      "P (s\<lparr>ss_pipe := (ss_pipe s)\<lparr>p_queue := Queue_RequestShutdown (p_queue (ss_pipe s))\<rparr>\<rparr>) = P s"
      "P (s\<lparr>ss_pipe := RegisterObserver (ss_pipe s) n\<rparr>) = P s"
    and pipe_thread: "in_worker w = in_worker (worker (ss_pipe s)) \<Longrightarrow> P (s\<lparr>ss_pipe := (ss_pipe s)\<lparr>worker := w\<rparr>\<rparr>) = P s"
    and pipe_fresh: "P s \<Longrightarrow> P (s\<lparr>ss_pipe := EstimatorPipeline_new est n, fed := []\<rparr>)"
    and not_pushed: "P s \<Longrightarrow> P (s\<lparr>current := None\<rparr>)"
    and pushed: "P s \<Longrightarrow> current s = Some m \<Longrightarrow>
      P (s\<lparr>ss_pipe := (ss_pipe s)\<lparr>p_queue := snd (Queue_Push (p_queue (ss_pipe s)) m)\<rparr>, current := None\<rparr>)"
    and read_next: "P s \<Longrightarrow> P (s\<lparr>consumed := consumed s @ [m], current := Some m\<rparr>)"
    and popped: "P s \<Longrightarrow> worker (ss_pipe s) = AtPop \<Longrightarrow> queue (p_queue (ss_pipe s)) = m # ms \<Longrightarrow>
      P (s\<lparr>ss_pipe := (ss_pipe s)\<lparr>p_queue := (p_queue (ss_pipe s))\<lparr>queue := ms\<rparr>, worker := Got m\<rparr>\<rparr>)"
    and added: "P s \<Longrightarrow> worker (ss_pipe s) = Got m \<Longrightarrow> p_queue p' = p_queue (ss_pipe s) \<Longrightarrow>
      P (s\<lparr>ss_pipe := p'\<lparr>worker := AtPop\<rparr>, fed := fed s @ [m]\<rparr>)"
begin

subsection \<open>The programs\<close>

lemma keeps_IpcBroadcast [intro]: "keeps fin P k \<Longrightarrow> keeps fin P (IpcBroadcast ev k)"
  unfolding IpcBroadcast_def by (rule keeps_await) (simp_all add: sent)

lemma keeps_statuses [intro]:
  "keeps fin P k \<Longrightarrow> keeps fin P (BroadcastStatus st n k)" "keeps fin P k \<Longrightarrow> keeps fin P (BroadcastError msg k)"
  "keeps fin P k \<Longrightarrow> keeps fin P (set_status x k)"
  unfolding BroadcastStatus_def BroadcastError_def set_status_def by (auto intro!: keeps_act)

lemma keeps_SetStatus [intro]: "keeps fin P k \<Longrightarrow> keeps fin P (SetStatus st err k)"
  unfolding SetStatus_def by (auto intro!: keeps_act keeps_statuses)

lemma keeps_join [intro]:
  assumes "\<And>s. P s \<Longrightarrow> get s = Finished \<Longrightarrow> P (clear s)" "keeps fin P k" "\<And>e. keeps fin P (h e)"
  shows "keeps fin P (join self get clear h k)"
  unfolding join_def by (rule keeps_cases) (auto split: thread_state.split intro: assms)

lemma keeps_IpcServer_Start [intro]: "(\<And>b. keeps fin P (k b)) \<Longrightarrow> keeps fin P (IpcServer_Start env k)"
  unfolding IpcServer_Start_def
  by (rule keeps_cases) (use ipc_started irrelevant(3) in \<open>auto\<close>)

lemma keeps_IpcServer_Stop [intro]:
  "(\<And>e. keeps fin P (h e)) \<Longrightarrow> keeps fin P k \<Longrightarrow> keeps fin P (IpcServer_Stop t h k)"
  unfolding IpcServer_Stop_def
  by (rule keeps_cases) (auto intro!: keeps_await keeps_join ipc_joined)

lemma keeps_WsServer_TryStart [intro]: "keeps fin P k \<Longrightarrow> keeps fin P (WsServer_TryStart env k)"
  unfolding WsServer_TryStart_def by (rule keeps_cases) (use irrelevant(6,7) in auto)

lemma keeps_WsServer_StopProg [intro]:
  "(\<And>e. keeps fin P (h e)) \<Longrightarrow> keeps fin P k \<Longrightarrow> keeps fin P (WsServer_StopProg t h k)"
  unfolding WsServer_StopProg_def
  by (rule keeps_cases) (auto intro!: keeps_await keeps_join)

lemma keeps_WsBroadcast [intro]: "keeps fin P k \<Longrightarrow> keeps fin P (WsBroadcast ev k)"
  unfolding WsBroadcast_def by (rule keeps_await) simp_all

lemma keeps_pipe_start [intro]: "keeps fin P k \<Longrightarrow> keeps fin P (pipe_start k)"
proof -
  have "P (s\<lparr>ss_pipe := (ss_pipe s)\<lparr>running := True, worker := AtPop\<rparr>\<rparr>)" if "P s" "worker (ss_pipe s) = NoThread" for s
  proof -
    let ?s = "s\<lparr>ss_pipe := (ss_pipe s)\<lparr>running := True\<rparr>\<rparr>"
    have "P ?s" using that by (simp only: pipe_flags)
    then have "P (?s\<lparr>ss_pipe := (ss_pipe ?s)\<lparr>worker := AtPop\<rparr>\<rparr>)" using that pipe_thread [of AtPop ?s] by simp
    then show ?thesis by simp
  qed
  then show "keeps fin P k \<Longrightarrow> keeps fin P (pipe_start k)"
    unfolding pipe_start_def by (intro keeps_cases) (auto simp: Let_def)
qed

lemma keeps_pipe_stop [intro]:
  "(\<And>e. keeps fin P (h e)) \<Longrightarrow> keeps fin P k \<Longrightarrow> keeps fin P (pipe_stop t h k)"
  unfolding pipe_stop_def
  by (rule keeps_cases)
    (auto intro!: keeps_act keeps_join simp: pipe_flags pipe_thread worker_state_def split: Worker.splits)

lemma keeps_pipe_push [intro]: "keeps fin P k \<Longrightarrow> keeps fin P (pipe_push k)"
proof -
  assume k: "keeps fin P k"
  have "keeps fin P (act (\<lambda>s. case current s of None \<Rightarrow> s
      | Some m \<Rightarrow> s\<lparr>ss_pipe := (ss_pipe s)\<lparr>p_queue := snd (Queue_Push (p_queue (ss_pipe s)) m)\<rparr>, current := None\<rparr>) k)"
    using k by (intro keeps_act) (auto split: option.split intro: pushed)
  then show ?thesis
    unfolding pipe_push_def by (intro keeps_cases) (auto simp: not_pushed k)
qed

lemmas frame_intros = keeps_peek keeps_act keeps_await keeps_IpcBroadcast keeps_statuses keeps_SetStatus
  keeps_join keeps_IpcServer_Start keeps_IpcServer_Stop keeps_WsServer_TryStart keeps_WsServer_StopProg
  keeps_WsBroadcast keeps_pipe_start keeps_pipe_stop keeps_pipe_push

lemma keeps_Start [intro]: "(\<And>b. keeps fin P (k b)) \<Longrightarrow> keeps fin P (Start env k)"
proof -
  assume k: "\<And>b. keeps fin P (k b)"
  have spawn: "keeps fin P (Atomic (\<lambda>s. if ss_replay s \<noteq> NotJoinable then Abort
      else Go (s\<lparr>ss_replay := Active, prev_meas_ns := None\<rparr>) (k True)))"
    by (rule keeps_cases) (auto simp: k)
  have "keeps fin P (if \<not> ok then SetStatus S_Error msg (k False)
      else IpcServer_Start env (\<lambda>_. WsServer_TryStart env (pipe_start (SetStatus S_Running [] (BroadcastStatus ''running'' 0
        (act (\<lambda>s. s\<lparr>ss_running := True\<rparr>) (Atomic (\<lambda>s. if ss_replay s \<noteq> NotJoinable then Abort
          else Go (s\<lparr>ss_replay := Active, prev_meas_ns := None\<rparr>) (k True)))))))))" for ok msg
    using k spawn by (auto intro!: frame_intros)
  then show ?thesis
    unfolding Start_def by (intro keeps_peek) (auto intro!: k keeps_cases split: prod.splits)
qed

lemma keeps_Stop [intro]:
  "(\<And>e. keeps fin P (h e)) \<Longrightarrow> keeps fin P k \<Longrightarrow> keeps fin P (Stop t h k)"
  unfolding Stop_def
  by (rule keeps_cases) (auto intro!: frame_intros)

lemma keeps_Pause [intro]: "keeps fin P k \<Longrightarrow> keeps fin P (Pause k)"
  unfolding Pause_def by (auto intro!: frame_intros)

lemma keeps_Resume [intro]: "keeps fin P k \<Longrightarrow> keeps fin P (Resume k)"
  unfolding Resume_def by (auto intro!: frame_intros)

lemma keeps_terminate [simp]: "keeps fin P terminate"
  unfolding terminate_def by (rule keeps_cases) simp

lemma keeps_replace_pipe [intro]: "keeps fin P k \<Longrightarrow> keeps fin P (replace_pipe t est k)"
  unfolding replace_pipe_def
  by (auto intro!: keeps_pipe_stop keeps_cases keeps_act simp: pipe_fresh pipe_flags)

lemma keeps_replace_ipc [intro]: "keeps fin P k \<Longrightarrow> keeps fin P (replace_ipc t k)"
proof -
  have "P (s\<lparr>ipc_running := False, ipc_lock := None\<rparr>)" if "P s" "ipc_thread s = NotJoinable" for s
    using that ipc_fresh [of "s\<lparr>ipc_running := False\<rparr>"] by simp
  then show "keeps fin P k \<Longrightarrow> keeps fin P (replace_ipc t k)"
    unfolding replace_ipc_def by (auto intro!: keeps_IpcServer_Stop keeps_cases)
qed

lemma keeps_replace_ws [intro]: "keeps fin P k \<Longrightarrow> keeps fin P (replace_ws t ex k)"
  unfolding replace_ws_def by (auto intro!: keeps_WsServer_StopProg keeps_cases)

lemma keeps_Reconfigure [intro]:
  "(\<And>e. keeps fin P (h e)) \<Longrightarrow> (\<And>b. keeps fin P (k b)) \<Longrightarrow> keeps fin P (Reconfigure env t cfg h k)"
  unfolding Reconfigure_def
  by (auto intro!: frame_intros keeps_replace_pipe keeps_replace_ipc keeps_replace_ws split: sum.splits)

lemma keeps_set_speed [intro]:
  "(\<And>e. keeps fin P (h e)) \<Longrightarrow> keeps fin P k \<Longrightarrow> keeps fin P (set_speed cmd h k)"
  unfolding set_speed_def by (auto intro!: keeps_act split: option.splits sum.splits)

lemma keeps_HandleCommand [intro]:
  "(\<And>e. keeps fin P (h e)) \<Longrightarrow> keeps fin P k \<Longrightarrow> keeps fin P (HandleCommand env cmd h k)"
  unfolding HandleCommand_def
  by (auto intro!: frame_intros keeps_Start keeps_Stop keeps_Pause keeps_Resume
      keeps_set_speed keeps_Reconfigure split: option.splits sum.splits)

lemma keeps_HandleWsCommand [intro]:
  "(\<And>e. keeps fin P (h e)) \<Longrightarrow> (\<And>r. keeps fin P (k r)) \<Longrightarrow> keeps fin P (HandleWsCommand env cmd h k)"
  unfolding HandleWsCommand_def Let_def
  by (auto intro!: keeps_peek keeps_Start keeps_Stop keeps_Pause keeps_Resume
      keeps_set_speed keeps_Reconfigure split: option.splits sum.splits)

lemma keeps_HandleData [intro]: "keeps fin P k \<Longrightarrow> keeps fin P (HandleData env line k)"
  unfolding HandleData_def Let_def by (auto intro!: keeps_act keeps_HandleCommand split: ipc_line.splits)

lemma keeps_ipc_lines [intro]: "keeps fin P k \<Longrightarrow> keeps fin P (ipc_lines env ls k)"
  unfolding ipc_lines_def by (induction ls) (auto intro!: keeps_HandleData)

lemma keeps_ws_reply [intro]: "keeps fin P k \<Longrightarrow> keeps fin P (ws_reply k r)"
  unfolding ws_reply_def by (auto intro!: keeps_act)

lemma keeps_ws_commands [intro]: "keeps fin P k \<Longrightarrow> keeps fin P (ws_commands env cmds k)"
  unfolding ws_commands_def by (induction cmds) (auto intro!: keeps_HandleWsCommand keeps_ws_reply)

lemma keeps_replay_end: "keeps True P replay_end"
  unfolding replay_end_def Let_def by (auto intro!: keeps_peek keeps_act keeps_SetStatus keeps_statuses)

lemma P_pace: "P (pace m s) = P (s :: 'est session)"
  by (simp add: pace_def Let_def split: option.splits)

lemma keeps_replay_turn: "keeps True P (replay_turn env)"
proof -
  have "keeps True P (Atomic (\<lambda>s. case Dataset_Next (env_eigen env) (ss_reader s) of (out, d) \<Rightarrow>
      let s' = s\<lparr>ss_reader := d\<rparr> in
      if read_result out = EndOfData then Go s' replay_end
      else case read_measurement out of
          Some m \<Rightarrow> (if read_result out \<noteq> Read_Ok then Go s' Done
            else Go (s'\<lparr>consumed := consumed s @ [m], current := Some m\<rparr>) (act (pace m) (pipe_push Done)))
        | None \<Rightarrow> Go s' Done))"
  proof (rule keeps_cases)
    fix s :: "'est session"
    obtain out d where od: "Dataset_Next (env_eigen env) (ss_reader s) = (out, d)" by (rule prod.exhaust)
    have "P (s\<lparr>ss_reader := d, consumed := consumed s @ [m], current := Some m\<rparr>)" if "P s" for m
      using that read_next [of "s\<lparr>ss_reader := d\<rparr>" m] by simp
    then show "case (case Dataset_Next (env_eigen env) (ss_reader s) of (out, d) \<Rightarrow>
        let s' = s\<lparr>ss_reader := d\<rparr> in
        if read_result out = EndOfData then Go s' replay_end
        else case read_measurement out of
            Some m \<Rightarrow> (if read_result out \<noteq> Read_Ok then Go s' Done
              else Go (s'\<lparr>consumed := consumed s @ [m], current := Some m\<rparr>) (act (pace m) (pipe_push Done)))
          | None \<Rightarrow> Go s' Done) of Go s' p \<Rightarrow> (P s \<longrightarrow> P s') \<and> keeps True P p | _ \<Rightarrow> True"
      using keeps_replay_end by (auto simp: od Let_def P_pace intro!: keeps_act keeps_pipe_push split: option.splits)
  qed
  then show ?thesis
    unfolding replay_turn_def using keeps_replay_end by (auto intro!: keeps_peek keeps_await)
qed

lemma keeps_notes: "keeps True P (foldr OnNavigationState ns Done)"
  unfolding OnNavigationState_def by (induction ns) (auto intro!: keeps_IpcBroadcast keeps_WsBroadcast keeps_peek)

lemma keeps_app_call: "app_call env p \<Longrightarrow> keeps True P p"
  by (induction rule: app_call.induct) (auto intro!: keeps_Start keeps_Stop keeps_Pause keeps_Resume keeps_Reconfigure)

subsection \<open>The system\<close>

text \<open>The threads whose programs are asked to keep \<open>P\<close>: all, or all but the IPC server's.\<close>

definition free_threads :: "thread set" where
  "free_threads = (if ipc_free then UNIV else - {T_Ipc})"

definition threads_keep :: "'est system \<Rightarrow> bool" where
  "threads_keep S \<longleftrightarrow> (\<forall>t\<in>free_threads. keeps True P (progs S t))"

lemma threads_keep_set_prog:
  "threads_keep S \<Longrightarrow> keeps True P p \<Longrightarrow> threads_keep (set_prog t p (S\<lparr>sess := s\<rparr>))"
  by (auto simp: threads_keep_def set_prog_def)

lemma threads_keep_sess [simp]: "threads_keep (S\<lparr>sess := s\<rparr>) = threads_keep S"
  by (simp add: threads_keep_def)

lemma step_threads_keep:
  assumes "system_step env S S'" "threads_keep S"
  shows "threads_keep S'"
  using assms
proof (induction rule: system_step.induct)
  case (action S t f s' p)
  show ?case
  proof (cases "t \<in> free_threads")
    case True
    then have "keeps True P (Atomic f)" using action by (auto simp: threads_keep_def)
    then show ?thesis using keeps_rest [of True P f "sess S" s' p] action(2,3) by (intro threads_keep_set_prog) auto
  next
    case False
    then show ?thesis using action(3) by (auto simp: threads_keep_def set_prog_def)
  qed
next
  case (app S p)
  then show ?case using threads_keep_set_prog [of S p T_App "sess S"] keeps_app_call by simp
next
  case (ipc_read S ls)
  show ?case
  proof (cases ipc_free)
    case True
    then have "keeps True P (act (\<lambda>s. s\<lparr>ipc_lock := None\<rparr>) Done)" by (intro keeps_act) (simp_all add: ipc_locked)
    then have "keeps True P (await (\<lambda>s. ipc_lock s = None) (\<lambda>s. s\<lparr>ipc_lock := Some T_Ipc\<rparr>)
        (ipc_lines env ls (act (\<lambda>s. s\<lparr>ipc_lock := None\<rparr>) Done)))"
      using ipc_locked True by (intro keeps_await keeps_ipc_lines)
    then show ?thesis using ipc_read(4) threads_keep_set_prog [of S _ T_Ipc "sess S"] by simp
  next
    case False
    with ipc_read(4) show ?thesis unfolding threads_keep_def set_prog_def free_threads_def by auto
  qed
next
  case (ws_read S cmds)
  have "keeps True P (act (\<lambda>s. s\<lparr>wss_lock := None\<rparr>) Done)" by (intro keeps_act) simp_all
  then have "keeps True P (await (\<lambda>s. wss_lock s = None) (\<lambda>s. s\<lparr>wss_lock := Some T_Ws\<rparr>)
      (ws_commands env cmds (act (\<lambda>s. s\<lparr>wss_lock := None\<rparr>) Done)))"
    by (intro keeps_await keeps_ws_commands) simp_all
  then show ?case using ws_read(4) threads_keep_set_prog [of S _ T_Ws "sess S"] by simp
next
  case (replay S)
  then show ?case using threads_keep_set_prog [of S _ T_Replay "sess S"] keeps_replay_turn by simp
next
  case (worker_add S m evs p')
  then show ?case by (intro threads_keep_set_prog keeps_notes)
qed simp_all

text \<open>One step keeps \<open>P\<close>; a stuck IPC server thread stays stuck.\<close>

definition ipc_stuck :: "'est system \<Rightarrow> bool" where
  "ipc_stuck S \<longleftrightarrow> ipc_free \<or> keeps False P (progs S T_Ipc)"

lemma step_state:
  assumes "system_step env S S'" "threads_keep S" "ipc_stuck S" "P (sess S)"
  shows "P (sess S') \<and> ipc_stuck S'"
  using assms unfolding ipc_stuck_def
proof (induction rule: system_step.induct)
  case (action S t f s' p)
  have keep: "\<exists>fin. keeps fin P (Atomic f) \<and> (t = T_Ipc \<longrightarrow> \<not> ipc_free \<longrightarrow> \<not> fin)"
  proof (cases "t \<in> free_threads")
    case True
    then have "keeps True P (Atomic f)" using action(1,3) by (auto simp: threads_keep_def)
    with True show ?thesis unfolding free_threads_def by (intro exI [of _ True]) (auto split: if_splits)
  next
    case False
    then have "t = T_Ipc" "\<not> ipc_free" unfolding free_threads_def by (auto split: if_splits)
    then have "keeps False P (Atomic f)" using action(1,4) by simp
    then show ?thesis by blast
  qed
  then obtain fin where fin: "keeps fin P (Atomic f)" "t = T_Ipc \<Longrightarrow> \<not> ipc_free \<Longrightarrow> \<not> fin" by blast
  have "P s'" using keeps_state [OF fin(1) action(2,5)] .
  moreover have "keeps fin P p" using keeps_rest [OF fin(1) action(2)] action(5) by blast
  ultimately show ?case using fin(2) action(4)
    by (cases fin; cases "t = T_Ipc") (auto simp: set_prog_def ipc_stuck_def)
next
  case (worker_pop S m q)
  then show ?case using popped [of "sess S" m "queue q"] by (auto simp: Queue_Pop_Some ipc_stuck_def)
next
  case (worker_exit S q)
  have "q = p_queue (ss_pipe (sess S))" using worker_exit(3) by (simp add: Queue_Pop_None)
  then show ?case using worker_exit pipe_thread [of Ended "sess S"] by (simp add: ipc_stuck_def)
next
  case (worker_add S m evs p')
  then show ?case using added process_measurement_events(3) [OF worker_add(3)]
    by (auto simp: set_prog_def ipc_stuck_def)
qed (auto simp: set_prog_def ipc_stuck_def ipc_locked ipc_ended)

lemma run_state:
  assumes "system_run env S S'" "threads_keep S" "ipc_stuck S" "P (sess S)"
  shows "P (sess S') \<and> ipc_stuck S' \<and> threads_keep S'"
  using assms
  by (induction rule: system_run.induct) (use step_state step_threads_keep in auto)

lemma new_threads_keep: "Session_new env cfg = Inr S \<Longrightarrow> threads_keep S"
  by (auto simp: Session_new_def bind_sum_Inr threads_keep_def)

lemma reachable_threads_keep: "Session_new env cfg = Inr S0 \<Longrightarrow> system_run env S0 S \<Longrightarrow> threads_keep S"
  by (rotate_tac 1, induction rule: system_run.induct) (use new_threads_keep step_threads_keep in auto)

end

end
