(* ===== verification/Fg_SessionProps.thy ===== *)
theory Fg_SessionProps
  imports Fg_SessionFrame
begin

text \<open>
  Properties of the session: the measurements reach the estimator in file order in every
  interleaving, the commands that lock up the IPC server, and the ways in which the life cycle of
  the session goes wrong.
\<close>

section \<open>Runs\<close>

lemma system_run_trans: "system_run env S' S'' \<Longrightarrow> system_run env S S' \<Longrightarrow> system_run env S S''"
  by (induction rule: system_run.induct) (auto intro: run_step)

lemma system_run_one: "system_step env S S' \<Longrightarrow> system_run env S S'"
  by (rule run_step [OF run_refl])

lemma set_prog_simps [simp]:
  "progs (set_prog t p S) = (progs S)(t := p)" "sess (set_prog t p S) = sess S"
  "set_prog t p ((set_prog t q S)\<lparr>sess := s\<rparr>) = set_prog t p (S\<lparr>sess := s\<rparr>)"
  by (simp_all add: set_prog_def)

text \<open>Running one thread's program while the others rest is a run of the system.\<close>

definition simulated :: "'est session_env \<Rightarrow> thread \<Rightarrow> 'est session prog \<Rightarrow> 'est session \<Rightarrow> bool" where
  "simulated env t p s \<longleftrightarrow>
     (\<forall>S s'. run_prog p s = Returned s' \<longrightarrow>
        system_run env (set_prog t p (S\<lparr>sess := s\<rparr>)) (set_prog t Done (S\<lparr>sess := s'\<rparr>))) \<and>
     (\<forall>S s'. run_prog p s = Terminated s' \<longrightarrow>
        (\<exists>S'. system_run env (set_prog t p (S\<lparr>sess := s\<rparr>)) S' \<and> system_aborts S'))"

lemma simulated_all:
  fixes p :: "'est session prog" and a :: "'est session action"
  shows "\<forall>s. simulated env t p s" and "case a of Go s p \<Rightarrow> simulated env t p s | _ \<Rightarrow> True"
proof (induction p and a)
  case Done
  show ?case by (auto simp: simulated_def intro: run_refl)
next
  case (Atomic f)
  show ?case
  proof
    fix s
    have IH: "case f s of Go s p \<Rightarrow> simulated env t p s | _ \<Rightarrow> True" by (rule Atomic) simp
    show "simulated env t (Atomic f) s"
    proof (cases "f s")
      case (Go s1 p)
      have step: "system_run env (set_prog t (Atomic f) (S\<lparr>sess := s\<rparr>)) (set_prog t p (S\<lparr>sess := s1\<rparr>))" for S
        using action [of "set_prog t (Atomic f) (S\<lparr>sess := s\<rparr>)" t f s1 p env] Go by (intro system_run_one) simp
      have "run_prog (Atomic f) s = run_prog p s1" using Go by simp
      then show ?thesis using IH Go step unfolding simulated_def by (auto intro: system_run_trans) (meson system_run_trans)
    next
      case Block
      then show ?thesis by (simp add: simulated_def)
    next
      case Abort
      then have "system_aborts (set_prog t (Atomic f) (S\<lparr>sess := s\<rparr>))" for S :: "'est system"
        unfolding system_aborts_def by (intro exI [of _ t]) simp
      then show ?thesis using Abort by (auto simp: simulated_def intro: run_refl)
    qed
  qed
qed simp_all

lemma set_prog_same: "progs S t = p \<Longrightarrow> set_prog t p (S\<lparr>sess := sess S\<rparr>) = (S :: 'est system)"
  by (cases S) (auto simp: set_prog_def)

lemma run_returns:
  assumes "progs S t = p" "run_prog p (sess S) = Returned s'"
  shows "system_run env S (set_prog t Done (S\<lparr>sess := s'\<rparr>))"
proof -
  have "simulated env t p (sess S)" using simulated_all(1) by blast
  then have "system_run env (set_prog t p (S\<lparr>sess := sess S\<rparr>)) (set_prog t Done (S\<lparr>sess := s'\<rparr>))"
    using assms(2) unfolding simulated_def by blast
  then show ?thesis by (simp only: set_prog_same [OF assms(1)])
qed

lemma run_terminates:
  assumes "progs S t = p" "run_prog p (sess S) = Terminated s'"
  shows "\<exists>S'. system_run env S S' \<and> system_aborts S'"
proof -
  have "simulated env t p (sess S)" using simulated_all(1) by blast
  then have "\<exists>S'. system_run env (set_prog t p (S\<lparr>sess := sess S\<rparr>)) S' \<and> system_aborts S'"
    using assms(2) unfolding simulated_def by blast
  then show ?thesis by (simp only: set_prog_same [OF assms(1)])
qed

section \<open>The data\<close>

definition held :: "'est session \<Rightarrow> SensorMeasurement list" where
  "held s = (case current s of None \<Rightarrow> [] | Some m \<Rightarrow> [m])"

text \<open>The measurements on their way to the estimator and in it, oldest first.\<close>

definition in_transit :: "'est session \<Rightarrow> SensorMeasurement list" where
  "in_transit s = fed s @ in_worker (worker (ss_pipe s)) @ queue (p_queue (ss_pipe s)) @ held s"

definition replay_order :: "'est session \<Rightarrow> bool" where
  "replay_order s \<longleftrightarrow> subseq (in_transit s) (consumed s)"

lemma replay_order_prefix: "replay_order s \<Longrightarrow> subseq (fed s @ in_worker (worker (ss_pipe s)) @ queue (p_queue (ss_pipe s))) (consumed s)"
  unfolding replay_order_def in_transit_def
  by (rule subseq_order.trans [OF prefix_imp_subseq]) (auto simp: prefix_def)

lemma replay_order_held: "replay_order s \<Longrightarrow> subseq (held s) (consumed s)"
  unfolding replay_order_def in_transit_def
  by (rule subseq_order.trans [OF suffix_imp_subseq]) (auto simp: suffix_def)

interpretation replay_order: session_frame env replay_order True
  for env :: "'est session_env"
proof
  fix s :: "'est session" and m
  assume P: "replay_order s" and cur: "current s = Some m"
  obtain ok q where q: "Queue_Push (p_queue (ss_pipe s)) m = (ok, q)" by (rule prod.exhaust)
  show "replay_order (s\<lparr>ss_pipe := (ss_pipe s)\<lparr>p_queue := snd (Queue_Push (p_queue (ss_pipe s)) m)\<rparr>, current := None\<rparr>)"
    using P replay_order_prefix [OF P] cur q Queue_Push_cases [OF q]
    by (auto simp: replay_order_def in_transit_def held_def)
next
  fix s :: "'est session" and m
  assume "replay_order s"
  from list_emb_append_mono [OF replay_order_prefix [OF this], of "[m]" "[m]"]
  show "replay_order (s\<lparr>consumed := consumed s @ [m], current := Some m\<rparr>)"
    by (simp add: replay_order_def in_transit_def held_def)
next
  fix s :: "'est session"
  assume "replay_order s"
  from replay_order_prefix [OF this] show "replay_order (s\<lparr>current := None\<rparr>)"
    by (simp add: replay_order_def in_transit_def held_def)
next
  fix s :: "'est session" and est and n :: nat
  assume "replay_order s"
  from replay_order_held [OF this]
  show "replay_order (s\<lparr>ss_pipe := EstimatorPipeline_new est n, fed := []\<rparr>)"
    by (simp add: replay_order_def in_transit_def held_def EstimatorPipeline_new_def MeasurementQueue_new_def)
qed (auto simp: replay_order_def in_transit_def held_def Queue_RequestShutdown_def RegisterObserver_def)

text \<open>
  C13. In every interleaving of the application, the two servers, the replay thread and the worker,
  what has been given to the present estimator, what the worker holds, what waits in the queue and
  what the replay thread is about to push form a subsequence of the measurements the dataset reader
  returned: nothing is invented, duplicated or reordered, only dropped by a full or closed queue.
\<close>

theorem replayed_in_order:
  assumes "Session_new env cfg = Inr S0" "system_run env S0 S"
  shows "subseq (fed (sess S) @ in_worker (worker (ss_pipe (sess S))) @ queue (p_queue (ss_pipe (sess S))) @
    (case current (sess S) of None \<Rightarrow> [] | Some m \<Rightarrow> [m])) (consumed (sess S))"
proof -
  have "replay_order (sess S0)"
    using assms(1) by (auto simp: Session_new_def bind_sum_Inr session_init_def replay_order_def in_transit_def
        held_def RegisterObserver_def EstimatorPipeline_new_def MeasurementQueue_new_def)
  then have "replay_order (sess S)"
    using replay_order.run_state [OF assms(2)] replay_order.new_threads_keep [OF assms(1)]
    by (simp add: replay_order.ipc_stuck_def)
  then show ?thesis by (simp add: replay_order_def in_transit_def held_def)
qed

section \<open>The lock of the IPC server\<close>

definition ipc_wedged :: "SessionEvent list \<Rightarrow> 'est session \<Rightarrow> bool" where
  "ipc_wedged L s \<longleftrightarrow> ipc_lock s = Some T_Ipc \<and> ipc_thread s = Active \<and> ipc_sent s = L"

interpretation wedged: session_frame env "ipc_wedged L" False
  for env :: "'est session_env" and L
  by unfold_locales (auto simp: ipc_wedged_def)

text \<open>
  The commands whose handler broadcasts, whatever the state: all but \<open>start\<close>, \<open>stop\<close>, \<open>pause\<close>, \<open>resume\<close>
  (which broadcast when they have an effect), \<open>set_speed\<close> and \<open>configure\<close> without a configuration.
\<close>

definition always_broadcasts :: "command \<Rightarrow> bool" where
  "always_broadcasts c \<longleftrightarrow> verb c \<notin> {''start'', ''stop'', ''pause'', ''resume'', ''set_speed''} \<and>
     (verb c = ''configure'' \<longrightarrow> config c \<noteq> None)"

lemma wedged_broadcast:
  "keeps False (ipc_wedged L) (IpcBroadcast ev k)" "keeps False (ipc_wedged L) (BroadcastStatus st n k)"
  "keeps False (ipc_wedged L) (BroadcastError msg k)"
  unfolding BroadcastStatus_def BroadcastError_def IpcBroadcast_def
  by (intro keeps_await_never; simp add: ipc_wedged_def)+

lemma wedged_replace_ipc: "keeps False (ipc_wedged L) (replace_ipc t k)"
proof -
  have fresh: "keeps False (ipc_wedged L) (Atomic (\<lambda>s. if ipc_thread s \<noteq> NotJoinable then Abort
      else Go (s\<lparr>ipc_running := False, ipc_lock := None\<rparr>) k))"
    by (rule keeps_Atomic) (auto simp: ipc_wedged_def split: if_splits)
  have "keeps False (ipc_wedged L) (await (\<lambda>s. ipc_lock s = None) f q)" for f q
    by (rule keeps_await_never) (simp add: ipc_wedged_def)
  then show ?thesis
    unfolding replace_ipc_def IpcServer_Stop_def using fresh
    by (intro keeps_cases) (auto simp: ipc_wedged_def)
qed

lemma wedged_command:
  assumes "always_broadcasts c"
  shows "keeps False (ipc_wedged L) (HandleCommand env c h k)"
proof (cases "verb c = ''configure''")
  case True
  then obtain r where r: "config c = Some r" using assms by (auto simp: always_broadcasts_def)
  show ?thesis
  proof (cases r)
    case (Inl e)
    then show ?thesis using True r by (simp add: HandleCommand_def wedged_broadcast)
  next
    case (Inr cfg)
    have "keeps False (ipc_wedged L) (Reconfigure env T_Ipc cfg (\<lambda>e. BroadcastError (m e) k) (\<lambda>_. BroadcastStatus st n k))" for m st n
      unfolding Reconfigure_def
      by (auto intro!: keeps_peek keeps_act wedged_broadcast wedged.keeps_replace_pipe wedged_replace_ipc
          simp: ipc_wedged_def split: sum.split)
    then show ?thesis using True r Inr by (simp add: HandleCommand_def)
  qed
next
  case False
  then show ?thesis using assms
    by (auto simp: HandleCommand_def always_broadcasts_def intro!: keeps_peek wedged_broadcast)
qed

lemma wedged_lines:
  assumes "CommandLine c \<in> set ls" "always_broadcasts c"
  shows "keeps False (ipc_wedged L) (ipc_lines env ls k)"
  using assms(1)
proof (induction ls)
  case (Cons l ls)
  show ?case
  proof (cases "l = CommandLine c")
    case True
    then show ?thesis using wedged_command [OF assms(2)] by (simp add: ipc_lines_def HandleData_def Let_def)
  next
    case False
    then have "keeps False (ipc_wedged L) (ipc_lines env ls k)" using Cons by simp
    then show ?thesis using wedged.keeps_HandleData by (simp add: ipc_lines_def)
  qed
qed simp

text \<open>
  C14. One status request over IPC locks the IPC server up for ever: whenever the server thread takes the
  client lock to handle lines of which one is \<open>get_status\<close>, \<open>get_schema\<close>, an unknown command or a
  \<open>configure\<close> with a configuration, then in every later state of every interleaving the thread still
  holds the lock and waits for it, and no event, the answer included, has been sent to any client.
\<close>

theorem ipc_command_wedges_server:
  assumes "Session_new env cfg = Inr S0" "system_run env S0 S"
    and "progs S T_Ipc = await (\<lambda>s. ipc_lock s = None) (\<lambda>s. s\<lparr>ipc_lock := Some T_Ipc\<rparr>)
      (ipc_lines env ls (act (\<lambda>s. s\<lparr>ipc_lock := None\<rparr>) Done))"
    and "ipc_thread (sess S) = Active" "ipc_lock (sess S) = None"
    and "CommandLine c \<in> set ls" "always_broadcasts c"
    and "system_run env (set_prog T_Ipc (ipc_lines env ls (act (\<lambda>s. s\<lparr>ipc_lock := None\<rparr>) Done))
      (S\<lparr>sess := (sess S)\<lparr>ipc_lock := Some T_Ipc\<rparr>\<rparr>)) S'"
  shows "ipc_lock (sess S') = Some T_Ipc \<and> ipc_sent (sess S') = ipc_sent (sess S) \<and>
    ipc_thread (sess S') = Active \<and> progs S' T_Ipc \<noteq> Done"
proof -
  let ?p = "ipc_lines env ls (act (\<lambda>s. s\<lparr>ipc_lock := None\<rparr>) Done)"
  let ?S = "set_prog T_Ipc ?p (S\<lparr>sess := (sess S)\<lparr>ipc_lock := Some T_Ipc\<rparr>\<rparr>)"
  let ?L = "ipc_sent (sess S)"
  have "wedged.threads_keep ?L S" by (rule wedged.reachable_threads_keep [OF assms(1,2)])
  then have "wedged.threads_keep ?L ?S" by (auto simp: wedged.threads_keep_def wedged.free_threads_def)
  moreover have "wedged.ipc_stuck ?L ?S" using wedged_lines [OF assms(6,7)] by (simp add: wedged.ipc_stuck_def)
  moreover have "ipc_wedged ?L (sess ?S)" using assms(4) by (simp add: ipc_wedged_def)
  ultimately have "ipc_wedged ?L (sess S')" "wedged.ipc_stuck ?L S'" using wedged.run_state [OF assms(8)] by blast+
  then show ?thesis by (auto simp: ipc_wedged_def wedged.ipc_stuck_def)
qed

section \<open>The life cycle\<close>

lemma run_Start_again:
  assumes "ss_status s = S_Completed" "Csv_IsOpen (ds_reader (ss_reader s))" "ipc_running s" "ipc_lock s = None"
    and "wss_exists s \<longrightarrow> wss_running s" "running (ss_pipe s)" "ss_replay s \<noteq> NotJoinable"
  shows "\<exists>s'. run_prog (Start env k) s = Terminated s'"
proof -
  obtain d where "Dataset_Open (env_files env) (ss_reader s) = (True, d)"
    using assms(2) by (auto simp: Dataset_Open_def Csv_Open_def ifstream_open_def Csv_IsOpen_def Let_def)
  then show ?thesis using assms
    by (simp add: Start_def IpcServer_Start_def WsServer_TryStart_def pipe_start_def SetStatus_def set_status_def
        BroadcastStatus_def IpcBroadcast_def Let_def)
qed

text \<open>
  Starting again after a completed replay, without \<open>Stop\<close> in between, terminates the process: the
  status \<open>Completed\<close> passes the guard of \<open>Start\<close>, and the new replay thread is assigned to a \<open>std::thread\<close>
  that is still joinable.
\<close>

theorem start_after_completion_terminates:
  assumes "progs S T_App = Done" "ss_status (sess S) = S_Completed" "Csv_IsOpen (ds_reader (ss_reader (sess S)))"
    and "ipc_running (sess S)" "ipc_lock (sess S) = None" "wss_exists (sess S) \<longrightarrow> wss_running (sess S)"
    and "running (ss_pipe (sess S))" "ss_replay (sess S) \<noteq> NotJoinable"
  shows "\<exists>S'. system_run env S S' \<and> system_aborts S'"
proof -
  let ?S = "set_prog T_App (Start env (\<lambda>_. Done)) S"
  obtain s' where "run_prog (Start env (\<lambda>_. Done)) (sess ?S) = Terminated s'"
    using run_Start_again [of "sess S" env] assms by auto
  from run_terminates [OF _ this, of T_App env] obtain S' where "system_run env ?S S'" "system_aborts S'"
    by auto
  moreover have "system_run env S ?S"
    by (rule system_run_one [OF app]) (use assms(1) in \<open>auto intro: app_call.intros\<close>)
  ultimately show ?thesis by (blast intro: system_run_trans)
qed

text \<open>A turn of the replay loop while it runs: one measurement, or the end.\<close>

lemma run_replay_turn:
  assumes "ss_running s" "\<not> ss_paused s" "Csv_IsOpen (ds_reader (ss_reader s))"
    and "csv_pending (env_eigen env) (ds_reader (ss_reader s)) = m # ms"
  shows "\<exists>d. Dataset_Next (env_eigen env) (ss_reader s) = (outcome_ok m, d) \<and> Csv_IsOpen (ds_reader d) \<and>
    csv_pending (env_eigen env) (ds_reader d) = ms \<and>
    run_prog (replay_turn env) s =
      run_prog (pipe_push Done) (pace m (s\<lparr>ss_reader := d, consumed := consumed s @ [m], current := Some m\<rparr>))"
proof -
  from dataset.next_some [OF assms(3,4)] obtain d where
    "Dataset_Next (env_eigen env) (ss_reader s) = (outcome_ok m, d)" "Csv_IsOpen (ds_reader d)"
    "csv_pending (env_eigen env) (ds_reader d) = ms" by blast
  then show ?thesis using assms(1,2)
    by (intro exI [of _ d]) (simp add: replay_turn_def Let_def outcome_ok_def)
qed

lemma run_replay_last:
  assumes "ss_running s" "\<not> ss_paused s" "Csv_IsOpen (ds_reader (ss_reader s))"
    and "csv_pending (env_eigen env) (ds_reader (ss_reader s)) = []" "ipc_lock s = None"
  shows "\<exists>d. Csv_IsOpen (ds_reader d) \<and> run_prog (replay_turn env) s =
    Returned (s\<lparr>ss_reader := d, ss_status := S_Completed, ipc_sent := ipc_sent s @ [StatusEvent ''completed'' (ds_count d)],
      ss_replay := Finished\<rparr>)"
proof -
  from dataset.next_none [OF assms(3,4)] obtain d where
    "Dataset_Next (env_eigen env) (ss_reader s) = (outcome EndOfData, d)" "Csv_IsOpen (ds_reader d)" by blast
  then show ?thesis using assms(1,2,5)
    by (intro exI [of _ d]) (simp add: replay_turn_def replay_end_def Let_def outcome_def SetStatus_def set_status_def
        BroadcastStatus_def IpcBroadcast_def MeasurementsRead_def)
qed

text \<open>What \<open>Pause\<close> still does after it has read the status \<open>Running\<close>, and a run up to there.\<close>

abbreviation pause_rest :: "'est session prog" where
  "pause_rest \<equiv> act (\<lambda>s. s\<lparr>ss_paused := True\<rparr>) (SetStatus S_Paused []
     (peek MeasurementsRead (\<lambda>n. BroadcastStatus ''paused'' n Done)))"

lemma pause_reads_running:
  assumes "progs S T_App = Done" "ss_status (sess S) = S_Running"
  shows "system_run env S (set_prog T_App pause_rest S)"
proof -
  let ?S1 = "set_prog T_App (Pause Done) S"
  have 1: "system_run env S ?S1"
    by (rule system_run_one [OF app]) (use assms(1) in \<open>auto intro: app_call.intros\<close>)
  have "system_step env ?S1 (set_prog T_App pause_rest (?S1\<lparr>sess := sess S\<rparr>))"
    by (rule action [where f = "\<lambda>s. Go s (if ss_status s \<noteq> S_Running then Done else pause_rest)"])
      (simp_all add: Pause_def peek_def assms(2))
  moreover have "set_prog T_App pause_rest (?S1\<lparr>sess := sess S\<rparr>) = set_prog T_App pause_rest S" by (simp add: set_prog_def)
  ultimately have "system_step env ?S1 (set_prog T_App pause_rest S)" by (simp only:)
  from system_run_one [OF this] 1 show ?thesis by (blast intro: system_run_trans)
qed

text \<open>The last turn of the replay thread, started while the application is elsewhere.\<close>

lemma replay_ends:
  assumes "progs S T_Replay = Done" "ss_running (sess S)" "\<not> ss_paused (sess S)" "ss_replay (sess S) = Active"
    and "ipc_lock (sess S) = None" "Csv_IsOpen (ds_reader (ss_reader (sess S)))"
    and "csv_pending (env_eigen env) (ds_reader (ss_reader (sess S))) = []"
  obtains d where "system_run env S (set_prog T_Replay Done ((set_prog T_Replay (replay_turn env) S)
    \<lparr>sess := (sess S)\<lparr>ss_reader := d, ss_status := S_Completed,
      ipc_sent := ipc_sent (sess S) @ [StatusEvent ''completed'' (ds_count d)], ss_replay := Finished\<rparr>\<rparr>))"
proof -
  let ?S3 = "set_prog T_Replay (replay_turn env) S"
  have 3: "system_run env S ?S3"
    by (rule system_run_one [OF replay]) (simp_all add: assms(1,4))
  obtain d where d: "run_prog (replay_turn env) (sess S) = Returned ((sess S)\<lparr>ss_reader := d, ss_status := S_Completed,
      ipc_sent := ipc_sent (sess S) @ [StatusEvent ''completed'' (ds_count d)], ss_replay := Finished\<rparr>)"
    using run_replay_last [OF assms(2,3,6,7,5)] by blast
  have "sess ?S3 = sess S" by (simp add: set_prog_def)
  with d have "system_run env ?S3 (set_prog T_Replay Done (?S3\<lparr>sess := (sess S)\<lparr>ss_reader := d, ss_status := S_Completed,
      ipc_sent := ipc_sent (sess S) @ [StatusEvent ''completed'' (ds_count d)], ss_replay := Finished\<rparr>\<rparr>))"
    by (intro run_returns [where p = "replay_turn env"]) simp_all
  with 3 show thesis by (intro that [of d]) (rule system_run_trans)
qed

text \<open>
  C21. A \<open>Pause\<close> that races with the end of the replay loses it: if the application's \<open>Pause\<close> has read the
  status \<open>Running\<close> and the replay thread then finds the end of the data, there is a run that announces the
  completion, then a pause, and after a \<open>Resume\<close> the session is \<open>Running\<close>, not paused, although its replay thread
  has ended; a \<open>Start\<close> that runs then returns without having changed anything.
\<close>

theorem pause_overwrites_completion:
  assumes "progs S T_App = Done" "progs S T_Replay = Done" "ss_status (sess S) = S_Running" "ss_running (sess S)"
    and "\<not> ss_paused (sess S)" "ss_replay (sess S) = Active" "ipc_lock (sess S) = None"
    and "Csv_IsOpen (ds_reader (ss_reader (sess S)))" "csv_pending (env_eigen env) (ds_reader (ss_reader (sess S))) = []"
  shows "\<exists>S' n. system_run env S S' \<and> ss_status (sess S') = S_Running \<and> ss_replay (sess S') = Finished \<and>
    ss_running (sess S') \<and> \<not> ss_paused (sess S') \<and> progs S' T_App = Done \<and> progs S' T_Replay = Done \<and>
    ipc_sent (sess S') = ipc_sent (sess S) @ [StatusEvent ''completed'' n, StatusEvent ''paused'' n, StatusEvent ''running'' n] \<and>
    run_prog (Start env (\<lambda>_. Done)) (sess S') = Returned (sess S')"
proof -
  let ?s = "sess S" and ?S2 = "set_prog T_App pause_rest S"
  have 1: "system_run env S ?S2" by (rule pause_reads_running [OF assms(1,3)])
  have s2: "sess ?S2 = ?s" "progs ?S2 T_Replay = Done" by (simp_all add: set_prog_def assms(2))
  obtain d where 4: "system_run env ?S2 (set_prog T_Replay Done ((set_prog T_Replay (replay_turn env) ?S2)
    \<lparr>sess := ?s\<lparr>ss_reader := d, ss_status := S_Completed,
      ipc_sent := ipc_sent ?s @ [StatusEvent ''completed'' (ds_count d)], ss_replay := Finished\<rparr>\<rparr>))"
    using replay_ends [OF s2(2), unfolded s2(1), OF assms(4-9)] by blast
  let ?s4 = "?s\<lparr>ss_reader := d, ss_status := S_Completed, ipc_sent := ipc_sent ?s @ [StatusEvent ''completed'' (ds_count d)],
      ss_replay := Finished\<rparr>"
  let ?S4 = "set_prog T_Replay Done ((set_prog T_Replay (replay_turn env) ?S2)\<lparr>sess := ?s4\<rparr>)"
  let ?n = "ds_count d"
  let ?s5 = "?s4\<lparr>ss_paused := True, ss_status := S_Paused, ipc_sent := ipc_sent ?s4 @ [StatusEvent ''paused'' ?n]\<rparr>"
  let ?S5 = "set_prog T_App Done (?S4\<lparr>sess := ?s5\<rparr>)"
  have 5: "system_run env ?S4 ?S5"
    by (rule run_returns [where p = pause_rest])
      (simp_all add: assms(7) SetStatus_def set_status_def BroadcastStatus_def IpcBroadcast_def MeasurementsRead_def)
  let ?S6 = "set_prog T_App (Resume Done) ?S5"
  have 6: "system_run env ?S5 ?S6" by (rule system_run_one [OF app]) (auto intro: app_call.intros)
  let ?s7 = "?s5\<lparr>ss_paused := False, ss_status := S_Running, ipc_sent := ipc_sent ?s5 @ [StatusEvent ''running'' ?n]\<rparr>"
  let ?S7 = "set_prog T_App Done (?S6\<lparr>sess := ?s7\<rparr>)"
  have 7: "system_run env ?S6 ?S7"
    by (rule run_returns [where p = "Resume Done"])
      (simp_all add: assms(7) Resume_def SetStatus_def set_status_def BroadcastStatus_def IpcBroadcast_def MeasurementsRead_def)
  have "system_run env S ?S7" using 1 4 5 6 7 by (blast intro: system_run_trans)
  moreover have "progs ?S7 T_Replay = Done" by simp
  moreover have "run_prog (Start env (\<lambda>_. Done)) (sess ?S7) = Returned (sess ?S7)" by (simp add: Start_def)
  ultimately show ?thesis using assms(4) by (intro exI [of _ ?S7] exI [of _ ?n]) simp
qed

text \<open>
  Two commands over the WebSocket. A \<open>configure\<close> that \<open>Reconfigure\<close> refuses is answered with
  \<open>configured\<close>; and the server cannot be stopped from its own thread: \<open>Stop\<close> joins the thread that runs it,
  and the exception leaves \<open>FalconGuideSession::Stop\<close> before it sets the status.
\<close>

lemma ws_configure_refused:
  assumes "ss_status s \<in> {S_Running, S_Paused}" "verb c = ''configure''" "config c = Some (Inr cfg)"
  shows "run_prog (HandleWsCommand env c h (ws_reply Done)) s =
    Returned (s\<lparr>wss_replies := wss_replies s @ [StatusReply ''configured'' None]\<rparr>)"
  using assms by (auto simp: HandleWsCommand_def Reconfigure_def ws_reply_def Let_def)

lemma ws_stop_self_join:
  assumes "wss_exists s" "wss_running s" "wss_thread s = Active"
  shows "run_prog (WsServer_StopProg T_Ws h k) s = run_prog (h SystemError) (s\<lparr>wss_running := False\<rparr>)"
  using assms by (simp add: WsServer_StopProg_def join_def)

lemma ws_stop_command:
  assumes "ss_running s" "ss_replay s = Finished" "\<not> running (ss_pipe s)" "ipc_lock s = None" "\<not> ipc_running s"
    and "wss_exists s" "wss_running s" "wss_thread s = Active" "verb c = ''stop''"
  shows "\<exists>s'. run_prog (ws_commands env [c] Done) s = Returned s' \<and> ss_status s' = ss_status s \<and>
    \<not> ss_running s' \<and> wss_replies s' = wss_replies s @ [InvalidJson]"
  using assms
  by (simp add: ws_commands_def HandleWsCommand_def Stop_def join_def pipe_stop_def IpcServer_Stop_def
      BroadcastStatus_def IpcBroadcast_def ws_reply_def ws_stop_self_join Let_def)

section \<open>An example\<close>

text \<open>
  A session without WebSocket server on a file with one measurement, with an estimator that rejects everything:
  it is started, replays the measurement, and reaches the end of the file.
\<close>

definition null_ops :: "unit estimator_ops" where
  "null_ops = \<lparr>add_measurement = (\<lambda>e m. Some (report Rejected, e)), latest_state = (\<lambda>_. None),
     reset_estimator = (\<lambda>e. e), is_initialized = (\<lambda>_. False)\<rparr>"

definition demo_env :: "unit session_env" where
  "demo_env = \<lparr>env_files = [''f'' \<mapsto> example_log], env_build = (\<lambda>_. Inr ()), env_ops = null_ops,
     env_eigen = eigen_reference, env_ipc_binds = True, env_ws_binds = True\<rparr>"

definition demo_session :: SessionConfig where
  "demo_session = SessionConfig_default\<lparr>sc_dataset := \<lparr>dataset_type = ''csv'', dataset_path = ''f''\<rparr>,
     sc_ws := WsConfig_default\<lparr>cfg_port := 0\<rparr>, sc_playback_speed := 0\<rparr>"

definition demo_new :: "unit system" where
  "demo_new = \<lparr>sess = session_init demo_session () (CsvDatasetReader_new ''f''), progs = (\<lambda>_. Done)\<rparr>"

definition demo_opened :: CsvDatasetReader where
  "demo_opened = snd (Dataset_Open (env_files demo_env) (CsvDatasetReader_new ''f''))"

definition demo_started :: "unit session" where
  "demo_started = (sess demo_new)\<lparr>ss_reader := demo_opened, ipc_running := True, ipc_thread := Active,
     ss_pipe := (ss_pipe (sess demo_new))\<lparr>running := True, worker := AtPop\<rparr>, ss_status := S_Running,
     ipc_sent := [StatusEvent ''running'' 0], ss_running := True, ss_replay := Active\<rparr>"

definition demo_idle :: "unit session \<Rightarrow> unit system" where
  "demo_idle s = \<lparr>sess = s, progs = (\<lambda>_. Done)\<rparr>"

lemma demo_new: "Session_new demo_env demo_session = Inr demo_new"
  by (simp add: Session_new_def demo_env_def demo_session_def SessionConfig_default_def MakeDatasetReader_def demo_new_def)

lemma demo_opened: "Csv_IsOpen (ds_reader demo_opened)"
    "csv_pending eigen_reference (ds_reader demo_opened) = [M_Magnetometer example_mag]"
    "Dataset_Open (env_files demo_env) (CsvDatasetReader_new ''f'') = (True, demo_opened)"
  by (simp_all add: demo_opened_def demo_env_def Dataset_Open_def CsvDatasetReader_new_def CsvMeasurementReader_new_def
      Csv_Open_def ifstream_open_def ifstream_new_def Csv_IsOpen_def csv_pending_def example_measurements Let_def)

lemma demo_idle_progs: "set_prog t Done (set_prog t p (demo_idle s)\<lparr>sess := s'\<rparr>) = demo_idle s'"
  by (simp add: demo_idle_def set_prog_def fun_eq_iff)

lemma demo_start: "system_run demo_env demo_new (demo_idle demo_started)"
proof -
  let ?p = "Start demo_env (\<lambda>_. Done)"
  have "run_prog ?p (sess demo_new) = Returned demo_started"
    by (simp add: Start_def demo_new_def session_init_def demo_opened IpcServer_Start_def WsServer_TryStart_def pipe_start_def
        SetStatus_def set_status_def BroadcastStatus_def IpcBroadcast_def demo_started_def RegisterObserver_def
        EstimatorPipeline_new_def demo_session_def)
       (simp add: demo_env_def)
  then have "system_run demo_env (set_prog T_App ?p demo_new) (set_prog T_App Done (set_prog T_App ?p demo_new\<lparr>sess := demo_started\<rparr>))"
    by (intro run_returns [where p = ?p]) simp_all
  moreover have "demo_new = demo_idle (sess demo_new)" by (simp add: demo_idle_def demo_new_def)
  ultimately have "system_run demo_env (set_prog T_App ?p demo_new) (demo_idle demo_started)" by (metis demo_idle_progs)
  moreover have "system_run demo_env demo_new (set_prog T_App ?p demo_new)"
    by (rule system_run_one [OF app]) (auto simp: demo_new_def intro: app_call.intros)
  ultimately show ?thesis by (blast intro: system_run_trans)
qed

text \<open>Running the replay thread's next turn from an idle system.\<close>

lemma demo_turn:
  assumes "ss_replay s = Active" "run_prog (replay_turn demo_env) s = Returned s'"
  shows "system_run demo_env (demo_idle s) (demo_idle s')"
proof -
  let ?S = "set_prog T_Replay (replay_turn demo_env) (demo_idle s)"
  have "system_run demo_env (demo_idle s) ?S"
    by (rule system_run_one [OF replay]) (simp_all add: demo_idle_def assms(1))
  moreover have "system_run demo_env ?S (set_prog T_Replay Done (?S\<lparr>sess := s'\<rparr>))"
    by (rule run_returns [where p = "replay_turn demo_env"]) (simp_all add: demo_idle_def assms(2))
  ultimately show ?thesis by (metis demo_idle_progs system_run_trans)
qed

definition demo_replayed :: "CsvDatasetReader \<Rightarrow> unit session" where
  "demo_replayed d = demo_started\<lparr>ss_reader := d, consumed := [M_Magnetometer example_mag],
     ss_pipe := (ss_pipe demo_started)\<lparr>p_queue := \<lparr>capacity = 4096, queue = [M_Magnetometer example_mag], shutdown = False\<rparr>\<rparr>\<rparr>"

lemma demo_replayed:
  "\<exists>d. Csv_IsOpen (ds_reader d) \<and> csv_pending eigen_reference (ds_reader d) = [] \<and>
    system_run demo_env demo_new (demo_idle (demo_replayed d))"
proof -
  have st: "ss_running demo_started" "\<not> ss_paused demo_started" "ss_replay demo_started = Active" "ss_reader demo_started = demo_opened"
    by (simp_all add: demo_started_def demo_new_def session_init_def)
  have "env_eigen demo_env = eigen_reference" by (simp add: demo_env_def)
  then obtain d where d: "Csv_IsOpen (ds_reader d)" "csv_pending eigen_reference (ds_reader d) = []"
    "run_prog (replay_turn demo_env) demo_started = run_prog (pipe_push Done) (pace (M_Magnetometer example_mag)
      (demo_started\<lparr>ss_reader := d, consumed := consumed demo_started @ [M_Magnetometer example_mag],
        current := Some (M_Magnetometer example_mag)\<rparr>))"
    using run_replay_turn [of demo_started demo_env "M_Magnetometer example_mag" "[]"] st demo_opened by auto
  have "run_prog (replay_turn demo_env) demo_started = Returned (demo_replayed d)"
    unfolding d(3)
    by (simp add: pace_def pipe_push_def demo_started_def demo_replayed_def demo_new_def session_init_def demo_session_def
        RegisterObserver_def EstimatorPipeline_new_def MeasurementQueue_new_def Queue_Push_def Let_def)
  then have "system_run demo_env demo_new (demo_idle (demo_replayed d))"
    using demo_turn [OF st(3)] demo_start by (blast intro: system_run_trans)
  with d show ?thesis by blast
qed

definition demo_completed :: "CsvDatasetReader \<Rightarrow> CsvDatasetReader \<Rightarrow> unit session" where
  "demo_completed d d' = (demo_replayed d)\<lparr>ss_reader := d', ss_status := S_Completed,
     ipc_sent := ipc_sent (demo_replayed d) @ [StatusEvent ''completed'' (ds_count d')], ss_replay := Finished\<rparr>"

lemma demo_replayed_state:
  "ss_status (demo_replayed d) = S_Running" "ss_running (demo_replayed d)" "\<not> ss_paused (demo_replayed d)"
  "ss_replay (demo_replayed d) = Active" "ipc_lock (demo_replayed d) = None" "ss_reader (demo_replayed d) = d"
  "ipc_running (demo_replayed d)" "ipc_thread (demo_replayed d) = Active" "\<not> wss_exists (demo_replayed d)"
  "running (ss_pipe (demo_replayed d))" "ipc_sent (demo_replayed d) = [StatusEvent ''running'' 0]"
  "fed (demo_replayed d) = []" "worker (ss_pipe (demo_replayed d)) = AtPop" "current (demo_replayed d) = None"
  "consumed (demo_replayed d) = [M_Magnetometer example_mag]"
  "queue (p_queue (ss_pipe (demo_replayed d))) = [M_Magnetometer example_mag]"
  by (simp_all add: demo_replayed_def demo_started_def demo_new_def session_init_def demo_session_def)

lemma demo_completed:
  "\<exists>d d'. Csv_IsOpen (ds_reader d') \<and> system_run demo_env demo_new (demo_idle (demo_completed d d'))"
proof -
  obtain d where d: "Csv_IsOpen (ds_reader d)" "csv_pending eigen_reference (ds_reader d) = []"
    "system_run demo_env demo_new (demo_idle (demo_replayed d))" using demo_replayed by blast
  have "env_eigen demo_env = eigen_reference" by (simp add: demo_env_def)
  then obtain d' where d': "Csv_IsOpen (ds_reader d')" "run_prog (replay_turn demo_env) (demo_replayed d) = Returned (demo_completed d d')"
    using run_replay_last [of "demo_replayed d" demo_env] d(1,2) demo_replayed_state unfolding demo_completed_def by metis
  have "system_run demo_env (demo_idle (demo_replayed d)) (demo_idle (demo_completed d d'))"
    using demo_turn [OF demo_replayed_state(4) d'(2)] .
  with d d' show ?thesis by (blast intro: system_run_trans)
qed

theorem replayed_in_order_witness:
  "\<exists>S. system_run demo_env demo_new S \<and> queue (p_queue (ss_pipe (sess S))) = [M_Magnetometer example_mag] \<and>
    subseq (fed (sess S) @ in_worker (worker (ss_pipe (sess S))) @ [M_Magnetometer example_mag] @
      (case current (sess S) of None \<Rightarrow> [] | Some m \<Rightarrow> [m])) (consumed (sess S))"
proof -
  obtain d where run: "system_run demo_env demo_new (demo_idle (demo_replayed d))" using demo_replayed by blast
  from replayed_in_order [OF demo_new run] run show ?thesis
    by (intro exI [of _ "demo_idle (demo_replayed d)"]) (simp add: demo_idle_def demo_replayed_state)
qed

theorem ipc_command_wedges_server_witness:
  "\<exists>S S'. system_run demo_env S S' \<and> sess S = demo_started\<lparr>ipc_lock := Some T_Ipc\<rparr> \<and>
    ipc_lock (sess S') = Some T_Ipc \<and> ipc_sent (sess S') = [StatusEvent ''running'' 0]"
proof -
  let ?c = "\<lparr>verb = ''get_status'', speed = None, config = None\<rparr>"
  let ?lines = "ipc_lines demo_env [CommandLine ?c] (act (\<lambda>s. s\<lparr>ipc_lock := None\<rparr>) Done)"
  let ?W = "set_prog T_Ipc (await (\<lambda>s. ipc_lock s = None) (\<lambda>s. s\<lparr>ipc_lock := Some T_Ipc\<rparr>) ?lines) (demo_idle demo_started)"
  let ?S = "set_prog T_Ipc ?lines (?W\<lparr>sess := (sess ?W)\<lparr>ipc_lock := Some T_Ipc\<rparr>\<rparr>)"
  have st: "ipc_thread demo_started = Active" "ipc_running demo_started" "ipc_lock demo_started = None"
    "ipc_sent demo_started = [StatusEvent ''running'' 0]"
    by (simp_all add: demo_started_def demo_new_def session_init_def)
  have run: "system_run demo_env demo_new ?W"
    using run_step [OF demo_start ipc_read] st by (simp add: demo_idle_def)
  have "ipc_lock (sess ?S) = Some T_Ipc \<and> ipc_sent (sess ?S) = ipc_sent (sess ?W) \<and>
      ipc_thread (sess ?S) = Active \<and> progs ?S T_Ipc \<noteq> Done"
    by (rule ipc_command_wedges_server [OF demo_new run _ _ _ _ _ run_refl, where c = ?c])
      (simp_all add: demo_idle_def st always_broadcasts_def)
  then show ?thesis
    by (intro exI [of _ ?S]) (auto simp: demo_idle_def st intro: run_refl)
qed

theorem start_after_completion_terminates_witness:
  "\<exists>S. system_run demo_env demo_new S \<and> system_aborts S"
proof -
  obtain d d' where run: "Csv_IsOpen (ds_reader d')" "system_run demo_env demo_new (demo_idle (demo_completed d d'))"
    using demo_completed by blast
  have "\<exists>S. system_run demo_env (demo_idle (demo_completed d d')) S \<and> system_aborts S"
    by (rule start_after_completion_terminates)
      (simp_all add: demo_idle_def demo_completed_def demo_replayed_state run(1))
  with run(2) show ?thesis by (blast intro: system_run_trans)
qed

theorem pause_overwrites_completion_witness:
  "\<exists>S n. system_run demo_env demo_new S \<and> ss_status (sess S) = S_Running \<and> ss_replay (sess S) = Finished \<and>
    ipc_sent (sess S) = [StatusEvent ''running'' 0, StatusEvent ''completed'' n, StatusEvent ''paused'' n, StatusEvent ''running'' n]"
proof -
  obtain d where run: "Csv_IsOpen (ds_reader d)" "csv_pending eigen_reference (ds_reader d) = []"
    "system_run demo_env demo_new (demo_idle (demo_replayed d))" using demo_replayed by blast
  have "env_eigen demo_env = eigen_reference" by (simp add: demo_env_def)
  then obtain S n where "system_run demo_env (demo_idle (demo_replayed d)) S" "ss_status (sess S) = S_Running"
    "ss_replay (sess S) = Finished"
    "ipc_sent (sess S) = ipc_sent (demo_replayed d) @ [StatusEvent ''completed'' n, StatusEvent ''paused'' n, StatusEvent ''running'' n]"
    using pause_overwrites_completion [of "demo_idle (demo_replayed d)" demo_env] run
    by (auto simp: demo_idle_def demo_replayed_state)
  with run(3) show ?thesis by (auto simp: demo_replayed_state intro: system_run_trans)
qed

end
