(* ===== verification/Fg_Config.thy ===== *)
theory Fg_Config
  imports Fg_Session
begin

text \<open>
  The session configuration as JSON, \<^verbatim>\<open>src/app/src/config_json.cpp\<close>: reading, writing, the schema,
  validation and the file operations. The library \<^verbatim>\<open>nlohmann::json\<close> is the parameter \<open>nlohmann\<close>: how it
  builds, inspects, converts, parses and prints values. A \<^verbatim>\<open>json\<close> that the code fills member by member is
  built here from the list of its members. The file system is what its files contain and which of its
  operations succeed.
\<close>

section \<open>The JSON library\<close>

record 'j nlohmann =
  nj_null :: 'j
  nj_boolean :: "bool \<Rightarrow> 'j"
  nj_number :: "real \<Rightarrow> 'j"
  nj_integer :: "int \<Rightarrow> 'j"
  nj_string :: "string \<Rightarrow> 'j"
  nj_array :: "'j list \<Rightarrow> 'j"
  nj_object :: "(string \<times> 'j) list \<Rightarrow> 'j"
  nj_is_null :: "'j \<Rightarrow> bool"
  nj_is_array :: "'j \<Rightarrow> bool"
  nj_is_object :: "'j \<Rightarrow> bool"
  nj_size :: "'j \<Rightarrow> nat"
  nj_elem :: "'j \<Rightarrow> nat \<Rightarrow> 'j"
  nj_contains :: "'j \<Rightarrow> string \<Rightarrow> bool"
  nj_member :: "'j \<Rightarrow> string \<Rightarrow> 'j"
  nj_get_bool :: "'j \<Rightarrow> cpp_exception + bool"
  nj_get_double :: "'j \<Rightarrow> cpp_exception + real"
  nj_get_int :: "'j \<Rightarrow> cpp_exception + int"
  nj_get_uint16 :: "'j \<Rightarrow> cpp_exception + nat"
  nj_get_string :: "'j \<Rightarrow> cpp_exception + string"
  nj_value_error :: "'j \<Rightarrow> cpp_exception"
  nj_parse :: "string \<Rightarrow> cpp_exception + 'j"
  nj_dump :: "'j \<Rightarrow> nat \<Rightarrow> cpp_exception + string"

text \<open>\<^verbatim>\<open>if (j.contains(key)) x = j[key];\<close> and \<^verbatim>\<open>j.value(key, def)\<close>, which throws on a value that is no object.\<close>

definition member_or :: "'j nlohmann \<Rightarrow> ('j \<Rightarrow> cpp_exception + 'a) \<Rightarrow> 'j \<Rightarrow> string \<Rightarrow> 'a \<Rightarrow> cpp_exception + 'a" where
  "member_or V get j key old = (if nj_contains V j key then get (nj_member V j key) else Inr old)"

definition json_value_or :: "'j nlohmann \<Rightarrow> ('j \<Rightarrow> cpp_exception + 'a) \<Rightarrow> 'j \<Rightarrow> string \<Rightarrow> 'a \<Rightarrow> cpp_exception + 'a" where
  "json_value_or V get j key def =
     (if nj_is_object V j then member_or V get j key def else Inl (nj_value_error V j))"

text \<open>\<^verbatim>\<open>if (j.contains(key)) { ... }\<close> around a section.\<close>

definition in_section :: "'j nlohmann \<Rightarrow> ('j \<Rightarrow> 'c \<Rightarrow> cpp_exception + 'c) \<Rightarrow> 'j \<Rightarrow> string \<Rightarrow> 'c \<Rightarrow> cpp_exception + 'c" where
  "in_section V f j key c = (if nj_contains V j key then f (nj_member V j key) c else Inr c)"

section \<open>Helpers\<close>

definition ReadOptDouble :: "'j nlohmann \<Rightarrow> 'j \<Rightarrow> string \<Rightarrow> cpp_exception + real option" where
  "ReadOptDouble V j key =
     (if \<not> nj_contains V j key \<or> nj_is_null V (nj_member V j key) then Inr None
      else bind_sum (nj_get_double V (nj_member V j key)) (\<lambda>x. Inr (Some x)))"

definition WriteOptDouble :: "'j nlohmann \<Rightarrow> real option \<Rightarrow> 'j" where
  "WriteOptDouble V v = (case v of None \<Rightarrow> nj_null V | Some x \<Rightarrow> nj_number V x)"

definition ReadVec3 :: "'j nlohmann \<Rightarrow> 'j \<Rightarrow> string \<Rightarrow> Vector3d \<Rightarrow> cpp_exception + Vector3d" where
  "ReadVec3 V j key def =
     (if \<not> nj_contains V j key \<or> \<not> nj_is_array V (nj_member V j key) then Inr def
      else let a = nj_member V j key in
        if nj_size V a < 3 then Inr def
        else bind_sum (nj_get_double V (nj_elem V a 0)) (\<lambda>x.
             bind_sum (nj_get_double V (nj_elem V a 1)) (\<lambda>y.
             bind_sum (nj_get_double V (nj_elem V a 2)) (\<lambda>z. Inr (Vector3d x y z)))))"

definition WriteVec3 :: "'j nlohmann \<Rightarrow> Vector3d \<Rightarrow> 'j" where
  "WriteVec3 V v = nj_array V [nj_number V (v3_x v), nj_number V (v3_y v), nj_number V (v3_z v)]"

definition WriteMat3 :: "'j nlohmann \<Rightarrow> MatrixXd \<Rightarrow> 'j" where
  "WriteMat3 V m = nj_array V (concat (map (\<lambda>r. map (\<lambda>c. nj_number V (coeff m r c)) [0..<3]) [0..<3]))"

text \<open>The coefficients of a \<^verbatim>\<open>Matrix3d\<close>, row by row; outside its dimensions a matrix has no coefficients.\<close>

definition Matrix3d :: "real list \<Rightarrow> MatrixXd" where
  "Matrix3d xs = MatrixXd 3 3 (\<lambda>r c. if r < 3 \<and> c < 3 then xs ! (r * 3 + c) else 0)"

fun get_doubles :: "'j nlohmann \<Rightarrow> 'j \<Rightarrow> nat list \<Rightarrow> cpp_exception + real list" where
  "get_doubles V a [] = Inr []"
| "get_doubles V a (i # is) =
     bind_sum (nj_get_double V (nj_elem V a i)) (\<lambda>x. bind_sum (get_doubles V a is) (\<lambda>xs. Inr (x # xs)))"

definition ReadMat3 :: "'j nlohmann \<Rightarrow> 'j \<Rightarrow> string \<Rightarrow> cpp_exception + MatrixXd" where
  "ReadMat3 V j key =
     (if \<not> nj_contains V j key \<or> \<not> nj_is_array V (nj_member V j key) \<or> nj_size V (nj_member V j key) < 9
      then Inr (Matrix_Identity 3)
      else bind_sum (get_doubles V (nj_member V j key) [0..<9]) (\<lambda>xs. Inr (Matrix3d xs)))"

section \<open>Reading the sections of the navigation configuration\<close>

definition backend_of_name :: "string \<Rightarrow> EstimatorBackendChoice" where
  "backend_of_name b =
     (if b = ''UKF'' then Choice_Ukf else if b = ''Ceres'' then Choice_Ceres
      else if b = ''GTSAM'' then Choice_Gtsam else Choice_Ekf)"

definition BackendFromJson :: "'j nlohmann \<Rightarrow> 'j \<Rightarrow> EstimatorBackendChoice \<Rightarrow> cpp_exception + EstimatorBackendChoice" where
  "BackendFromJson V j old =
     (if nj_contains V j ''backend''
      then bind_sum (nj_get_string V (nj_member V j ''backend'')) (\<lambda>b. Inr (backend_of_name b))
      else Inr old)"

definition ImuFromJson :: "'j nlohmann \<Rightarrow> 'j \<Rightarrow> ImuNoiseModel \<Rightarrow> cpp_exception + ImuNoiseModel" where
  "ImuFromJson V j n =
     bind_sum (member_or V (nj_get_double V) j ''accel_noise_density'' (accel_noise_density_mps2_per_sqrthz n)) (\<lambda>a.
     bind_sum (member_or V (nj_get_double V) j ''gyro_noise_density'' (gyro_noise_density_radps_per_sqrthz n)) (\<lambda>b.
     bind_sum (member_or V (nj_get_double V) j ''accel_random_walk'' (accel_random_walk_mps3_per_sqrthz n)) (\<lambda>c.
     bind_sum (member_or V (nj_get_double V) j ''gyro_random_walk'' (gyro_random_walk_radps2_per_sqrthz n)) (\<lambda>d.
       Inr (n\<lparr>accel_noise_density_mps2_per_sqrthz := a, gyro_noise_density_radps_per_sqrthz := b,
              accel_random_walk_mps3_per_sqrthz := c, gyro_random_walk_radps2_per_sqrthz := d\<rparr>)))))"

definition LooselyCoupledFromJson ::
  "'j nlohmann \<Rightarrow> 'j \<Rightarrow> GnssLooselyCoupledOptions \<Rightarrow> cpp_exception + GnssLooselyCoupledOptions" where
  "LooselyCoupledFromJson V j opts =
     bind_sum (ReadOptDouble V j ''position_sigma_m'') (\<lambda>a.
     bind_sum (ReadOptDouble V j ''velocity_sigma_mps'') (\<lambda>b.
     bind_sum (member_or V (nj_get_double V) j ''position_gate'' (glo_position_gate opts)) (\<lambda>c.
       Inr (opts\<lparr>glo_position_sigma_m := a, glo_velocity_sigma_mps := b, glo_position_gate := c\<rparr>))))"

definition TightlyCoupledFromJson ::
  "'j nlohmann \<Rightarrow> 'j \<Rightarrow> GnssTightlyCoupledOptions \<Rightarrow> cpp_exception + GnssTightlyCoupledOptions" where
  "TightlyCoupledFromJson V j opts =
     bind_sum (member_or V (nj_get_double V) j ''base_pseudorange_sigma_m'' (gto_base_pseudorange_sigma_m opts)) (\<lambda>a.
     bind_sum (member_or V (nj_get_double V) j ''pseudorange_noise_floor_m'' (gto_pseudorange_noise_floor_m opts)) (\<lambda>b.
     bind_sum (member_or V (nj_get_double V) j ''base_doppler_sigma_mps'' (gto_base_doppler_sigma_mps opts)) (\<lambda>c.
     bind_sum (member_or V (nj_get_double V) j ''innovation_gate_sigma'' (gto_innovation_gate_sigma opts)) (\<lambda>d.
       Inr (opts\<lparr>gto_base_pseudorange_sigma_m := a, gto_pseudorange_noise_floor_m := b,
              gto_base_doppler_sigma_mps := c, gto_innovation_gate_sigma := d\<rparr>)))))"

definition GnssFromJson :: "'j nlohmann \<Rightarrow> 'j \<Rightarrow> GnssSensorConfig \<Rightarrow> cpp_exception + GnssSensorConfig" where
  "GnssFromJson V j g =
     bind_sum (json_value_or V (nj_get_bool V) j ''enabled'' False) (\<lambda>on.
     bind_sum (json_value_or V (nj_get_string V) j ''mode'' ''LooselyCoupled'') (\<lambda>m.
     bind_sum (in_section V (LooselyCoupledFromJson V) j ''loosely_coupled'' (gnss_loosely_coupled g)) (\<lambda>lc.
     bind_sum (in_section V (TightlyCoupledFromJson V) j ''tightly_coupled'' (gnss_tightly_coupled g)) (\<lambda>tc.
       Inr (g\<lparr>gnss_enabled := on,
              gnss_mode := (if m = ''TightlyCoupled'' then TightlyCoupled else LooselyCoupled),
              gnss_loosely_coupled := lc, gnss_tightly_coupled := tc\<rparr>)))))"

definition BarometerFromJson ::
  "'j nlohmann \<Rightarrow> 'j \<Rightarrow> BarometerOptions SensorConfig \<Rightarrow> cpp_exception + BarometerOptions SensorConfig" where
  "BarometerFromJson V j sc = (let opts = sc_options sc in
     bind_sum (json_value_or V (nj_get_bool V) j ''enabled'' False) (\<lambda>on.
     bind_sum (ReadOptDouble V j ''altitude_sigma_m'') (\<lambda>a.
     bind_sum (json_value_or V (nj_get_double V) j ''isa_sea_level_pressure_pa'' 101325) (\<lambda>b.
     bind_sum (json_value_or V (nj_get_double V) j ''innovation_gate'' 0) (\<lambda>c.
       Inr (sc\<lparr>sc_enabled := on, sc_options := opts
         \<lparr>bo_altitude_sigma_m := a, bo_isa_sea_level_pressure_pa := b, bo_innovation_gate := c\<rparr>\<rparr>))))))"

definition MagnetometerFromJson ::
  "'j nlohmann \<Rightarrow> 'j \<Rightarrow> MagnetometerOptions SensorConfig \<Rightarrow> cpp_exception + MagnetometerOptions SensorConfig" where
  "MagnetometerFromJson V j sc = (let opts = sc_options sc in
     bind_sum (json_value_or V (nj_get_bool V) j ''enabled'' False) (\<lambda>on.
     bind_sum (ReadVec3 V j ''reference_field_enu_tesla'' (mgo_reference_field_enu_tesla opts)) (\<lambda>a.
     bind_sum (ReadOptDouble V j ''sigma_tesla'') (\<lambda>b.
     bind_sum (json_value_or V (nj_get_double V) j ''innovation_gate'' 0) (\<lambda>c.
       Inr (sc\<lparr>sc_enabled := on, sc_options := opts
         \<lparr>mgo_reference_field_enu_tesla := a, mgo_sigma_tesla := b, mgo_innovation_gate := c\<rparr>\<rparr>))))))"

definition StarTrackerFromJson ::
  "'j nlohmann \<Rightarrow> 'j \<Rightarrow> StarTrackerOptions SensorConfig \<Rightarrow> cpp_exception + StarTrackerOptions SensorConfig" where
  "StarTrackerFromJson V j sc = (let opts = sc_options sc in
     bind_sum (json_value_or V (nj_get_bool V) j ''enabled'' False) (\<lambda>on.
     bind_sum (member_or V (nj_get_double V) j ''sigma_yaw_rad'' (sto_sigma_yaw_rad opts)) (\<lambda>a.
     bind_sum (member_or V (nj_get_double V) j ''sigma_pitch_rad'' (sto_sigma_pitch_rad opts)) (\<lambda>b.
     bind_sum (member_or V (nj_get_double V) j ''sigma_roll_rad'' (sto_sigma_roll_rad opts)) (\<lambda>c.
     bind_sum (member_or V (nj_get_bool V) j ''use_pitch_roll'' (sto_use_pitch_roll opts)) (\<lambda>d.
     bind_sum (member_or V (nj_get_double V) j ''innovation_gate'' (sto_innovation_gate opts)) (\<lambda>e.
       Inr (sc\<lparr>sc_enabled := on, sc_options := opts
         \<lparr>sto_sigma_yaw_rad := a, sto_sigma_pitch_rad := b, sto_sigma_roll_rad := c,
          sto_use_pitch_roll := d, sto_innovation_gate := e\<rparr>\<rparr>))))))))"

definition WheelOdometryFromJson ::
  "'j nlohmann \<Rightarrow> 'j \<Rightarrow> WheelOdometryOptions SensorConfig \<Rightarrow> cpp_exception + WheelOdometryOptions SensorConfig" where
  "WheelOdometryFromJson V j sc = (let opts = sc_options sc in
     bind_sum (json_value_or V (nj_get_bool V) j ''enabled'' False) (\<lambda>on.
     bind_sum (member_or V (nj_get_double V) j ''sigma_linear_mps'' (woo_sigma_linear_mps opts)) (\<lambda>a.
     bind_sum (member_or V (nj_get_double V) j ''sigma_angular_radps'' (woo_sigma_angular_radps opts)) (\<lambda>b.
     bind_sum (member_or V (nj_get_bool V) j ''use_angular_rate'' (woo_use_angular_rate opts)) (\<lambda>c.
     bind_sum (member_or V (nj_get_double V) j ''innovation_gate'' (woo_innovation_gate opts)) (\<lambda>d.
       Inr (sc\<lparr>sc_enabled := on, sc_options := opts
         \<lparr>woo_sigma_linear_mps := a, woo_sigma_angular_radps := b, woo_use_angular_rate := c,
          woo_innovation_gate := d\<rparr>\<rparr>)))))))"

definition RadarAltimeterFromJson ::
  "'j nlohmann \<Rightarrow> 'j \<Rightarrow> RadarAltimeterOptions SensorConfig \<Rightarrow> cpp_exception + RadarAltimeterOptions SensorConfig" where
  "RadarAltimeterFromJson V j sc = (let opts = sc_options sc in
     bind_sum (json_value_or V (nj_get_bool V) j ''enabled'' False) (\<lambda>on.
     bind_sum (member_or V (nj_get_double V) j ''innovation_gate'' (rao_innovation_gate opts)) (\<lambda>a.
       Inr (sc\<lparr>sc_enabled := on, sc_options := opts
         \<lparr>rao_innovation_gate := a\<rparr>\<rparr>))))"

definition RangeFinderFromJson ::
  "'j nlohmann \<Rightarrow> 'j \<Rightarrow> RangeFinderOptions SensorConfig \<Rightarrow> cpp_exception + RangeFinderOptions SensorConfig" where
  "RangeFinderFromJson V j sc = (let opts = sc_options sc in
     bind_sum (json_value_or V (nj_get_bool V) j ''enabled'' False) (\<lambda>on.
     bind_sum (member_or V (nj_get_double V) j ''expected_range_m'' (rfo_expected_range_m opts)) (\<lambda>a.
     bind_sum (member_or V (nj_get_bool V) j ''use_as_altitude'' (rfo_use_as_altitude opts)) (\<lambda>b.
     bind_sum (member_or V (nj_get_double V) j ''terrain_elevation_m'' (rfo_terrain_elevation_m opts)) (\<lambda>c.
     bind_sum (ReadOptDouble V j ''sigma_m'') (\<lambda>d.
     bind_sum (member_or V (nj_get_double V) j ''innovation_gate'' (rfo_innovation_gate opts)) (\<lambda>e.
       Inr (sc\<lparr>sc_enabled := on, sc_options := opts
         \<lparr>rfo_expected_range_m := a, rfo_use_as_altitude := b, rfo_terrain_elevation_m := c,
          rfo_sigma_m := d, rfo_innovation_gate := e\<rparr>\<rparr>))))))))"

definition OpticalFlowFromJson ::
  "'j nlohmann \<Rightarrow> 'j \<Rightarrow> OpticalFlowOptions SensorConfig \<Rightarrow> cpp_exception + OpticalFlowOptions SensorConfig" where
  "OpticalFlowFromJson V j sc = (let opts = sc_options sc in
     bind_sum (json_value_or V (nj_get_bool V) j ''enabled'' False) (\<lambda>on.
     bind_sum (member_or V (nj_get_double V) j ''fallback_altitude_m'' (ofo_fallback_altitude_m opts)) (\<lambda>a.
     bind_sum (member_or V (nj_get_double V) j ''sigma_radps'' (ofo_sigma_radps opts)) (\<lambda>b.
     bind_sum (member_or V (nj_get_double V) j ''innovation_gate'' (ofo_innovation_gate opts)) (\<lambda>c.
       Inr (sc\<lparr>sc_enabled := on, sc_options := opts
         \<lparr>ofo_fallback_altitude_m := a, ofo_sigma_radps := b, ofo_innovation_gate := c\<rparr>\<rparr>))))))"

definition DvlFromJson ::
  "'j nlohmann \<Rightarrow> 'j \<Rightarrow> DvlOptions SensorConfig \<Rightarrow> cpp_exception + DvlOptions SensorConfig" where
  "DvlFromJson V j sc = (let opts = sc_options sc in
     bind_sum (json_value_or V (nj_get_bool V) j ''enabled'' False) (\<lambda>on.
     bind_sum (ReadMat3 V j ''dvl_to_body_rotation'') (\<lambda>a.
     bind_sum (member_or V (nj_get_bool V) j ''bottom_track_only'' (dvo_bottom_track_only opts)) (\<lambda>b.
     bind_sum (ReadOptDouble V j ''sigma_mps'') (\<lambda>c.
     bind_sum (member_or V (nj_get_double V) j ''innovation_gate'' (dvo_innovation_gate opts)) (\<lambda>d.
       Inr (sc\<lparr>sc_enabled := on, sc_options := opts
         \<lparr>dvo_dvl_to_body_rotation := a, dvo_bottom_track_only := b, dvo_sigma_mps := c,
          dvo_innovation_gate := d\<rparr>\<rparr>)))))))"

definition EchoSounderFromJson ::
  "'j nlohmann \<Rightarrow> 'j \<Rightarrow> EchoSounderOptions SensorConfig \<Rightarrow> cpp_exception + EchoSounderOptions SensorConfig" where
  "EchoSounderFromJson V j sc = (let opts = sc_options sc in
     bind_sum (json_value_or V (nj_get_bool V) j ''enabled'' False) (\<lambda>on.
     bind_sum (member_or V (nj_get_double V) j ''sound_speed_mps'' (eso_sound_speed_mps opts)) (\<lambda>a.
     bind_sum (member_or V (nj_get_double V) j ''depth_origin_m'' (eso_depth_origin_m opts)) (\<lambda>b.
     bind_sum (ReadOptDouble V j ''sigma_m'') (\<lambda>c.
     bind_sum (member_or V (nj_get_double V) j ''innovation_gate'' (eso_innovation_gate opts)) (\<lambda>d.
       Inr (sc\<lparr>sc_enabled := on, sc_options := opts
         \<lparr>eso_sound_speed_mps := a, eso_depth_origin_m := b, eso_sigma_m := c, eso_innovation_gate := d\<rparr>\<rparr>)))))))"

definition AirspeedFromJson ::
  "'j nlohmann \<Rightarrow> 'j \<Rightarrow> AirspeedOptions SensorConfig \<Rightarrow> cpp_exception + AirspeedOptions SensorConfig" where
  "AirspeedFromJson V j sc = (let opts = sc_options sc in
     bind_sum (json_value_or V (nj_get_bool V) j ''enabled'' False) (\<lambda>on.
     bind_sum (ReadVec3 V j ''wind_enu_mps'' Vector3d_Zero) (\<lambda>a.
     bind_sum (member_or V (nj_get_double V) j ''sigma_mps'' (aso_sigma_mps opts)) (\<lambda>b.
     bind_sum (member_or V (nj_get_double V) j ''innovation_gate'' (aso_innovation_gate opts)) (\<lambda>c.
       Inr (sc\<lparr>sc_enabled := on, sc_options := opts
         \<lparr>aso_wind_enu_mps := a, aso_sigma_mps := b, aso_innovation_gate := c\<rparr>\<rparr>))))))"

definition ExternalPoseFromJson ::
  "'j nlohmann \<Rightarrow> 'j \<Rightarrow> ExternalPoseOptions SensorConfig \<Rightarrow> cpp_exception + ExternalPoseOptions SensorConfig" where
  "ExternalPoseFromJson V j sc = (let opts = sc_options sc in
     bind_sum (json_value_or V (nj_get_bool V) j ''enabled'' False) (\<lambda>on.
     bind_sum (member_or V (nj_get_bool V) j ''use_position'' (epo_use_position opts)) (\<lambda>a.
     bind_sum (member_or V (nj_get_bool V) j ''use_orientation'' (epo_use_orientation opts)) (\<lambda>b.
     bind_sum (member_or V (nj_get_double V) j ''innovation_gate'' (epo_innovation_gate opts)) (\<lambda>c.
       Inr (sc\<lparr>sc_enabled := on, sc_options := opts
         \<lparr>epo_use_position := a, epo_use_orientation := b, epo_innovation_gate := c\<rparr>\<rparr>))))))"

definition ExternalVelocityFromJson ::
  "'j nlohmann \<Rightarrow> 'j \<Rightarrow> ExternalVelocityOptions SensorConfig \<Rightarrow> cpp_exception + ExternalVelocityOptions SensorConfig" where
  "ExternalVelocityFromJson V j sc = (let opts = sc_options sc in
     bind_sum (json_value_or V (nj_get_bool V) j ''enabled'' False) (\<lambda>on.
     bind_sum (member_or V (nj_get_bool V) j ''use_angular_rate'' (evo_use_angular_rate opts)) (\<lambda>a.
     bind_sum (member_or V (nj_get_double V) j ''innovation_gate'' (evo_innovation_gate opts)) (\<lambda>b.
       Inr (sc\<lparr>sc_enabled := on, sc_options := opts
         \<lparr>evo_use_angular_rate := a, evo_innovation_gate := b\<rparr>\<rparr>)))))"

definition ExternalOdometryFromJson ::
  "'j nlohmann \<Rightarrow> 'j \<Rightarrow> ExternalOdometryOptions SensorConfig \<Rightarrow> cpp_exception + ExternalOdometryOptions SensorConfig" where
  "ExternalOdometryFromJson V j sc = (let opts = sc_options sc in
     bind_sum (json_value_or V (nj_get_bool V) j ''enabled'' False) (\<lambda>on.
     bind_sum (member_or V (nj_get_bool V) j ''use_position'' (exo_use_position opts)) (\<lambda>a.
     bind_sum (member_or V (nj_get_bool V) j ''use_velocity'' (exo_use_velocity opts)) (\<lambda>b.
     bind_sum (member_or V (nj_get_bool V) j ''use_orientation'' (exo_use_orientation opts)) (\<lambda>c.
     bind_sum (ReadOptDouble V j ''position_sigma_m'') (\<lambda>d.
     bind_sum (ReadOptDouble V j ''velocity_sigma_mps'') (\<lambda>e.
     bind_sum (ReadOptDouble V j ''orientation_sigma_rad'') (\<lambda>f.
     bind_sum (member_or V (nj_get_double V) j ''innovation_gate'' (exo_innovation_gate opts)) (\<lambda>g.
       Inr (sc\<lparr>sc_enabled := on, sc_options := opts
         \<lparr>exo_use_position := a, exo_use_velocity := b, exo_use_orientation := c, exo_position_sigma_m := d,
          exo_velocity_sigma_mps := e, exo_orientation_sigma_rad := f, exo_innovation_gate := g\<rparr>\<rparr>))))))))))"

definition AidingSolutionFromJson ::
  "'j nlohmann \<Rightarrow> 'j \<Rightarrow> AidingSolutionOptions SensorConfig \<Rightarrow> cpp_exception + AidingSolutionOptions SensorConfig" where
  "AidingSolutionFromJson V j sc = (let opts = sc_options sc in
     bind_sum (json_value_or V (nj_get_bool V) j ''enabled'' False) (\<lambda>on.
     bind_sum (member_or V (nj_get_double V) j ''min_match_score'' (ado_min_match_score opts)) (\<lambda>a.
     bind_sum (ReadOptDouble V j ''position_sigma_m'') (\<lambda>b.
     bind_sum (ReadOptDouble V j ''velocity_sigma_mps'') (\<lambda>c.
     bind_sum (ReadOptDouble V j ''attitude_sigma_rad'') (\<lambda>d.
     bind_sum (member_or V (nj_get_double V) j ''innovation_gate'' (ado_innovation_gate opts)) (\<lambda>e.
       Inr (sc\<lparr>sc_enabled := on, sc_options := opts
         \<lparr>ado_min_match_score := a, ado_position_sigma_m := b, ado_velocity_sigma_mps := c,
          ado_attitude_sigma_rad := d, ado_innovation_gate := e\<rparr>\<rparr>))))))))"

definition SigmaFromJson :: "'j nlohmann \<Rightarrow> 'j \<Rightarrow> MerweSigmaParams \<Rightarrow> cpp_exception + MerweSigmaParams" where
  "SigmaFromJson V j u =
     bind_sum (member_or V (nj_get_double V) j ''alpha'' (mer_alpha u)) (\<lambda>a.
     bind_sum (member_or V (nj_get_double V) j ''beta'' (mer_beta u)) (\<lambda>b.
     bind_sum (member_or V (nj_get_double V) j ''kappa'' (mer_kappa u)) (\<lambda>k.
       Inr (u\<lparr>mer_alpha := a, mer_beta := b, mer_kappa := k\<rparr>))))"

text \<open>All sections in the order of the source, starting from a default configuration.\<close>

definition NavFromJson :: "'j nlohmann \<Rightarrow> 'j \<Rightarrow> cpp_exception + NavigationSystemConfig" where
  "NavFromJson V j = (let cfg = NavigationSystemConfig_default in
     bind_sum (BackendFromJson V j (cfg_backend cfg)) (\<lambda>backend.
     bind_sum (member_or V (nj_get_double V) j ''dead_reckoning_threshold_s'' (cfg_dead_reckoning_threshold_s cfg)) (\<lambda>thr.
     bind_sum (member_or V (nj_get_double V) j ''min_imu_dt_s'' (cfg_min_imu_dt_s cfg)) (\<lambda>mn.
     bind_sum (member_or V (nj_get_double V) j ''max_imu_dt_s'' (cfg_max_imu_dt_s cfg)) (\<lambda>mx.
     bind_sum (in_section V (ImuFromJson V) j ''imu'' (cfg_imu_noise cfg)) (\<lambda>imu.
     bind_sum (in_section V (GnssFromJson V) j ''gnss'' (cfg_gnss cfg)) (\<lambda>gnss.
     bind_sum (in_section V (BarometerFromJson V) j ''barometer'' (cfg_barometer cfg)) (\<lambda>baro.
     bind_sum (in_section V (MagnetometerFromJson V) j ''magnetometer'' (cfg_magnetometer cfg)) (\<lambda>mag.
     bind_sum (in_section V (StarTrackerFromJson V) j ''star_tracker'' (cfg_star_tracker cfg)) (\<lambda>star.
     bind_sum (in_section V (WheelOdometryFromJson V) j ''wheel_odometry'' (cfg_wheel_odometry cfg)) (\<lambda>wheel.
     bind_sum (in_section V (RadarAltimeterFromJson V) j ''radar_altimeter'' (cfg_radar_altimeter cfg)) (\<lambda>radar.
     bind_sum (in_section V (RangeFinderFromJson V) j ''range_finder'' (cfg_range_finder cfg)) (\<lambda>rng.
     bind_sum (in_section V (OpticalFlowFromJson V) j ''optical_flow'' (cfg_optical_flow cfg)) (\<lambda>flow.
     bind_sum (in_section V (DvlFromJson V) j ''dvl'' (cfg_dvl cfg)) (\<lambda>dvl.
     bind_sum (in_section V (EchoSounderFromJson V) j ''echo_sounder'' (cfg_echo_sounder cfg)) (\<lambda>echo.
     bind_sum (in_section V (AirspeedFromJson V) j ''airspeed'' (cfg_airspeed cfg)) (\<lambda>air.
     bind_sum (in_section V (ExternalPoseFromJson V) j ''external_pose'' (cfg_external_pose cfg)) (\<lambda>pose.
     bind_sum (in_section V (ExternalVelocityFromJson V) j ''external_velocity'' (cfg_external_velocity cfg)) (\<lambda>vel.
     bind_sum (in_section V (ExternalOdometryFromJson V) j ''external_odometry'' (cfg_external_odometry cfg)) (\<lambda>odo.
     bind_sum (in_section V (AidingSolutionFromJson V) j ''aiding_solution'' (cfg_aiding_solution cfg)) (\<lambda>aid.
     bind_sum (in_section V (SigmaFromJson V) j ''ukf_sigma'' (cfg_ukf_sigma_params cfg)) (\<lambda>ukf.
       Inr \<lparr>cfg_imu_noise = imu, cfg_gnss = gnss,
         cfg_barometer = baro, cfg_magnetometer = mag, cfg_star_tracker = star, cfg_wheel_odometry = wheel,
         cfg_radar_altimeter = radar, cfg_range_finder = rng, cfg_optical_flow = flow, cfg_dvl = dvl,
         cfg_echo_sounder = echo, cfg_airspeed = air, cfg_external_pose = pose, cfg_external_velocity = vel,
         cfg_external_odometry = odo, cfg_aiding_solution = aid,
         cfg_backend = backend, cfg_ukf_sigma_params = ukf, cfg_dead_reckoning_threshold_s = thr,
         cfg_min_imu_dt_s = mn, cfg_max_imu_dt_s = mx\<rparr>))))))))))))))))))))))"

section \<open>Writing\<close>

definition BackendToJson :: "'j nlohmann \<Rightarrow> EstimatorBackendChoice \<Rightarrow> 'j" where
  "BackendToJson V b =
     (case b of
        Choice_Ukf \<Rightarrow> nj_string V ''UKF''
      | Choice_Ceres \<Rightarrow> nj_string V ''Ceres''
      | Choice_Gtsam \<Rightarrow> nj_string V ''GTSAM''
      | _ \<Rightarrow> nj_string V ''EKF'')"

definition ImuToJson :: "'j nlohmann \<Rightarrow> ImuNoiseModel \<Rightarrow> 'j" where
  "ImuToJson V n = nj_object V
     [(''accel_noise_density'', nj_number V (accel_noise_density_mps2_per_sqrthz n)),
      (''gyro_noise_density'', nj_number V (gyro_noise_density_radps_per_sqrthz n)),
      (''accel_random_walk'', nj_number V (accel_random_walk_mps3_per_sqrthz n)),
      (''gyro_random_walk'', nj_number V (gyro_random_walk_radps2_per_sqrthz n))]"

definition LooselyCoupledToJson :: "'j nlohmann \<Rightarrow> GnssLooselyCoupledOptions \<Rightarrow> 'j" where
  "LooselyCoupledToJson V opts = nj_object V
     [(''position_sigma_m'', WriteOptDouble V (glo_position_sigma_m opts)),
      (''velocity_sigma_mps'', WriteOptDouble V (glo_velocity_sigma_mps opts)),
      (''position_gate'', nj_number V (glo_position_gate opts))]"

definition TightlyCoupledToJson :: "'j nlohmann \<Rightarrow> GnssTightlyCoupledOptions \<Rightarrow> 'j" where
  "TightlyCoupledToJson V opts = nj_object V
     [(''base_pseudorange_sigma_m'', nj_number V (gto_base_pseudorange_sigma_m opts)),
      (''pseudorange_noise_floor_m'', nj_number V (gto_pseudorange_noise_floor_m opts)),
      (''base_doppler_sigma_mps'', nj_number V (gto_base_doppler_sigma_mps opts)),
      (''innovation_gate_sigma'', nj_number V (gto_innovation_gate_sigma opts))]"

definition GnssToJson :: "'j nlohmann \<Rightarrow> GnssSensorConfig \<Rightarrow> 'j" where
  "GnssToJson V g = nj_object V
     [(''enabled'', nj_boolean V (gnss_enabled g)),
      (''mode'', nj_string V (if gnss_mode g = TightlyCoupled then ''TightlyCoupled'' else ''LooselyCoupled'')),
      (''loosely_coupled'', LooselyCoupledToJson V (gnss_loosely_coupled g)),
      (''tightly_coupled'', TightlyCoupledToJson V (gnss_tightly_coupled g))]"

definition BarometerToJson :: "'j nlohmann \<Rightarrow> BarometerOptions SensorConfig \<Rightarrow> 'j" where
  "BarometerToJson V sc = (let opts = sc_options sc in nj_object V
     [(''enabled'', nj_boolean V (sc_enabled sc)),
      (''altitude_sigma_m'', WriteOptDouble V (bo_altitude_sigma_m opts)),
      (''isa_sea_level_pressure_pa'', nj_number V (bo_isa_sea_level_pressure_pa opts)),
      (''innovation_gate'', nj_number V (bo_innovation_gate opts))])"

definition MagnetometerToJson :: "'j nlohmann \<Rightarrow> MagnetometerOptions SensorConfig \<Rightarrow> 'j" where
  "MagnetometerToJson V sc = (let opts = sc_options sc in nj_object V
     [(''enabled'', nj_boolean V (sc_enabled sc)),
      (''reference_field_enu_tesla'', WriteVec3 V (mgo_reference_field_enu_tesla opts)),
      (''sigma_tesla'', WriteOptDouble V (mgo_sigma_tesla opts)),
      (''innovation_gate'', nj_number V (mgo_innovation_gate opts))])"

definition StarTrackerToJson :: "'j nlohmann \<Rightarrow> StarTrackerOptions SensorConfig \<Rightarrow> 'j" where
  "StarTrackerToJson V sc = (let opts = sc_options sc in nj_object V
     [(''enabled'', nj_boolean V (sc_enabled sc)),
      (''sigma_yaw_rad'', nj_number V (sto_sigma_yaw_rad opts)),
      (''sigma_pitch_rad'', nj_number V (sto_sigma_pitch_rad opts)),
      (''sigma_roll_rad'', nj_number V (sto_sigma_roll_rad opts)),
      (''use_pitch_roll'', nj_boolean V (sto_use_pitch_roll opts)),
      (''innovation_gate'', nj_number V (sto_innovation_gate opts))])"

definition WheelOdometryToJson :: "'j nlohmann \<Rightarrow> WheelOdometryOptions SensorConfig \<Rightarrow> 'j" where
  "WheelOdometryToJson V sc = (let opts = sc_options sc in nj_object V
     [(''enabled'', nj_boolean V (sc_enabled sc)),
      (''sigma_linear_mps'', nj_number V (woo_sigma_linear_mps opts)),
      (''sigma_angular_radps'', nj_number V (woo_sigma_angular_radps opts)),
      (''use_angular_rate'', nj_boolean V (woo_use_angular_rate opts)),
      (''innovation_gate'', nj_number V (woo_innovation_gate opts))])"

definition RadarAltimeterToJson :: "'j nlohmann \<Rightarrow> RadarAltimeterOptions SensorConfig \<Rightarrow> 'j" where
  "RadarAltimeterToJson V sc = (let opts = sc_options sc in nj_object V
     [(''enabled'', nj_boolean V (sc_enabled sc)),
      (''innovation_gate'', nj_number V (rao_innovation_gate opts))])"

definition RangeFinderToJson :: "'j nlohmann \<Rightarrow> RangeFinderOptions SensorConfig \<Rightarrow> 'j" where
  "RangeFinderToJson V sc = (let opts = sc_options sc in nj_object V
     [(''enabled'', nj_boolean V (sc_enabled sc)),
      (''expected_range_m'', nj_number V (rfo_expected_range_m opts)),
      (''use_as_altitude'', nj_boolean V (rfo_use_as_altitude opts)),
      (''terrain_elevation_m'', nj_number V (rfo_terrain_elevation_m opts)),
      (''sigma_m'', WriteOptDouble V (rfo_sigma_m opts)),
      (''innovation_gate'', nj_number V (rfo_innovation_gate opts))])"

definition OpticalFlowToJson :: "'j nlohmann \<Rightarrow> OpticalFlowOptions SensorConfig \<Rightarrow> 'j" where
  "OpticalFlowToJson V sc = (let opts = sc_options sc in nj_object V
     [(''enabled'', nj_boolean V (sc_enabled sc)),
      (''fallback_altitude_m'', nj_number V (ofo_fallback_altitude_m opts)),
      (''sigma_radps'', nj_number V (ofo_sigma_radps opts)),
      (''innovation_gate'', nj_number V (ofo_innovation_gate opts))])"

definition DvlToJson :: "'j nlohmann \<Rightarrow> DvlOptions SensorConfig \<Rightarrow> 'j" where
  "DvlToJson V sc = (let opts = sc_options sc in nj_object V
     [(''enabled'', nj_boolean V (sc_enabled sc)),
      (''dvl_to_body_rotation'', WriteMat3 V (dvo_dvl_to_body_rotation opts)),
      (''bottom_track_only'', nj_boolean V (dvo_bottom_track_only opts)),
      (''sigma_mps'', WriteOptDouble V (dvo_sigma_mps opts)),
      (''innovation_gate'', nj_number V (dvo_innovation_gate opts))])"

definition EchoSounderToJson :: "'j nlohmann \<Rightarrow> EchoSounderOptions SensorConfig \<Rightarrow> 'j" where
  "EchoSounderToJson V sc = (let opts = sc_options sc in nj_object V
     [(''enabled'', nj_boolean V (sc_enabled sc)),
      (''sound_speed_mps'', nj_number V (eso_sound_speed_mps opts)),
      (''depth_origin_m'', nj_number V (eso_depth_origin_m opts)),
      (''sigma_m'', WriteOptDouble V (eso_sigma_m opts)),
      (''innovation_gate'', nj_number V (eso_innovation_gate opts))])"

definition AirspeedToJson :: "'j nlohmann \<Rightarrow> AirspeedOptions SensorConfig \<Rightarrow> 'j" where
  "AirspeedToJson V sc = (let opts = sc_options sc in nj_object V
     [(''enabled'', nj_boolean V (sc_enabled sc)), (''wind_enu_mps'', WriteVec3 V (aso_wind_enu_mps opts)),
      (''sigma_mps'', nj_number V (aso_sigma_mps opts)),
      (''innovation_gate'', nj_number V (aso_innovation_gate opts))])"

definition ExternalPoseToJson :: "'j nlohmann \<Rightarrow> ExternalPoseOptions SensorConfig \<Rightarrow> 'j" where
  "ExternalPoseToJson V sc = (let opts = sc_options sc in nj_object V
     [(''enabled'', nj_boolean V (sc_enabled sc)), (''use_position'', nj_boolean V (epo_use_position opts)),
      (''use_orientation'', nj_boolean V (epo_use_orientation opts)),
      (''innovation_gate'', nj_number V (epo_innovation_gate opts))])"

definition ExternalVelocityToJson :: "'j nlohmann \<Rightarrow> ExternalVelocityOptions SensorConfig \<Rightarrow> 'j" where
  "ExternalVelocityToJson V sc = (let opts = sc_options sc in nj_object V
     [(''enabled'', nj_boolean V (sc_enabled sc)),
      (''use_angular_rate'', nj_boolean V (evo_use_angular_rate opts)),
      (''innovation_gate'', nj_number V (evo_innovation_gate opts))])"

definition ExternalOdometryToJson :: "'j nlohmann \<Rightarrow> ExternalOdometryOptions SensorConfig \<Rightarrow> 'j" where
  "ExternalOdometryToJson V sc = (let opts = sc_options sc in nj_object V
     [(''enabled'', nj_boolean V (sc_enabled sc)), (''use_position'', nj_boolean V (exo_use_position opts)),
      (''use_velocity'', nj_boolean V (exo_use_velocity opts)),
      (''use_orientation'', nj_boolean V (exo_use_orientation opts)),
      (''position_sigma_m'', WriteOptDouble V (exo_position_sigma_m opts)),
      (''velocity_sigma_mps'', WriteOptDouble V (exo_velocity_sigma_mps opts)),
      (''orientation_sigma_rad'', WriteOptDouble V (exo_orientation_sigma_rad opts)),
      (''innovation_gate'', nj_number V (exo_innovation_gate opts))])"

definition AidingSolutionToJson :: "'j nlohmann \<Rightarrow> AidingSolutionOptions SensorConfig \<Rightarrow> 'j" where
  "AidingSolutionToJson V sc = (let opts = sc_options sc in nj_object V
     [(''enabled'', nj_boolean V (sc_enabled sc)),
      (''min_match_score'', nj_number V (ado_min_match_score opts)),
      (''position_sigma_m'', WriteOptDouble V (ado_position_sigma_m opts)),
      (''velocity_sigma_mps'', WriteOptDouble V (ado_velocity_sigma_mps opts)),
      (''attitude_sigma_rad'', WriteOptDouble V (ado_attitude_sigma_rad opts)),
      (''innovation_gate'', nj_number V (ado_innovation_gate opts))])"

definition SigmaToJson :: "'j nlohmann \<Rightarrow> MerweSigmaParams \<Rightarrow> 'j" where
  "SigmaToJson V u = nj_object V
     [(''alpha'', nj_number V (mer_alpha u)), (''beta'', nj_number V (mer_beta u)),
      (''kappa'', nj_number V (mer_kappa u))]"

definition NavToJson :: "'j nlohmann \<Rightarrow> NavigationSystemConfig \<Rightarrow> 'j" where
  "NavToJson V cfg = nj_object V
     [(''backend'', BackendToJson V (cfg_backend cfg)),
      (''dead_reckoning_threshold_s'', nj_number V (cfg_dead_reckoning_threshold_s cfg)),
      (''min_imu_dt_s'', nj_number V (cfg_min_imu_dt_s cfg)),
      (''max_imu_dt_s'', nj_number V (cfg_max_imu_dt_s cfg)),
      (''imu'', ImuToJson V (cfg_imu_noise cfg)),
      (''gnss'', GnssToJson V (cfg_gnss cfg)),
      (''barometer'', BarometerToJson V (cfg_barometer cfg)),
      (''magnetometer'', MagnetometerToJson V (cfg_magnetometer cfg)),
      (''star_tracker'', StarTrackerToJson V (cfg_star_tracker cfg)),
      (''wheel_odometry'', WheelOdometryToJson V (cfg_wheel_odometry cfg)),
      (''radar_altimeter'', RadarAltimeterToJson V (cfg_radar_altimeter cfg)),
      (''range_finder'', RangeFinderToJson V (cfg_range_finder cfg)),
      (''optical_flow'', OpticalFlowToJson V (cfg_optical_flow cfg)),
      (''dvl'', DvlToJson V (cfg_dvl cfg)),
      (''echo_sounder'', EchoSounderToJson V (cfg_echo_sounder cfg)),
      (''airspeed'', AirspeedToJson V (cfg_airspeed cfg)),
      (''external_pose'', ExternalPoseToJson V (cfg_external_pose cfg)),
      (''external_velocity'', ExternalVelocityToJson V (cfg_external_velocity cfg)),
      (''external_odometry'', ExternalOdometryToJson V (cfg_external_odometry cfg)),
      (''aiding_solution'', AidingSolutionToJson V (cfg_aiding_solution cfg)),
      (''ukf_sigma'', SigmaToJson V (cfg_ukf_sigma_params cfg))]"

section \<open>The session configuration\<close>

definition DatasetFromJson :: "'j nlohmann \<Rightarrow> 'j \<Rightarrow> DatasetConfig \<Rightarrow> cpp_exception + DatasetConfig" where
  "DatasetFromJson V j d =
     bind_sum (json_value_or V (nj_get_string V) j ''type'' ''csv'') (\<lambda>t.
     bind_sum (json_value_or V (nj_get_string V) j ''path'' []) (\<lambda>p.
       Inr (d\<lparr>dataset_type := t, dataset_path := p\<rparr>)))"

definition IpcFromJson :: "'j nlohmann \<Rightarrow> 'j \<Rightarrow> IpcConfig \<Rightarrow> cpp_exception + IpcConfig" where
  "IpcFromJson V j i =
     bind_sum (json_value_or V (nj_get_string V) j ''socket_path'' ''/tmp/falconguide.sock'') (\<lambda>p.
     bind_sum (json_value_or V (nj_get_int V) j ''max_clients'' 8) (\<lambda>n.
       Inr (i\<lparr>socket_path := p, ipc_max_clients := n\<rparr>)))"

definition WsFromJson :: "'j nlohmann \<Rightarrow> 'j \<Rightarrow> WsConfig \<Rightarrow> cpp_exception + WsConfig" where
  "WsFromJson V j w =
     bind_sum (json_value_or V (nj_get_uint16 V) j ''port'' 8765) (\<lambda>p.
     bind_sum (json_value_or V (nj_get_int V) j ''max_clients'' 16) (\<lambda>n.
     bind_sum (json_value_or V (nj_get_string V) j ''ui_path'' ''ui/index.html'') (\<lambda>u.
       Inr (w\<lparr>cfg_port := p, cfg_max_clients := n, cfg_ui_path := u\<rparr>))))"

text \<open>The body of the \<^verbatim>\<open>try\<close> block after the parse.\<close>

definition SessionFromJson :: "'j nlohmann \<Rightarrow> 'j \<Rightarrow> cpp_exception + SessionConfig" where
  "SessionFromJson V j = (let sc = SessionConfig_default in
     bind_sum (in_section V (\<lambda>jn _. NavFromJson V jn) j ''nav'' (sc_nav sc)) (\<lambda>nav.
     bind_sum (in_section V (DatasetFromJson V) j ''dataset'' (sc_dataset sc)) (\<lambda>ds.
     bind_sum (in_section V (IpcFromJson V) j ''ipc'' (sc_ipc sc)) (\<lambda>ipc.
     bind_sum (in_section V (WsFromJson V) j ''ws'' (sc_ws sc)) (\<lambda>ws.
     bind_sum (json_value_or V (nj_get_double V) j ''playback_speed'' 1) (\<lambda>spd.
       Inr \<lparr>sc_nav = nav, sc_dataset = ds, sc_ipc = ipc, sc_ws = ws, sc_playback_speed = spd\<rparr>))))))"

definition FromJson :: "'j nlohmann \<Rightarrow> string \<Rightarrow> cpp_exception + SessionConfig" where
  "FromJson V json_str =
     (case bind_sum (nj_parse V json_str) (SessionFromJson V) of
        Inl ex \<Rightarrow> Inl (InvalidArgument (''SessionConfig::FromJson: '' @ what ex))
      | Inr sc \<Rightarrow> Inr sc)"

definition SessionToJson :: "'j nlohmann \<Rightarrow> SessionConfig \<Rightarrow> 'j" where
  "SessionToJson V sc = nj_object V
     [(''nav'', NavToJson V (sc_nav sc)),
      (''dataset'', nj_object V
         [(''type'', nj_string V (dataset_type (sc_dataset sc))),
          (''path'', nj_string V (dataset_path (sc_dataset sc)))]),
      (''ipc'', nj_object V
         [(''socket_path'', nj_string V (socket_path (sc_ipc sc))),
          (''max_clients'', nj_integer V (ipc_max_clients (sc_ipc sc)))]),
      (''ws'', nj_object V
         [(''port'', nj_integer V (int (cfg_port (sc_ws sc)))),
          (''max_clients'', nj_integer V (cfg_max_clients (sc_ws sc))),
          (''ui_path'', nj_string V (cfg_ui_path (sc_ws sc)))]),
      (''playback_speed'', nj_number V (sc_playback_speed sc))]"

definition ToJson :: "'j nlohmann \<Rightarrow> SessionConfig \<Rightarrow> cpp_exception + string" where
  "ToJson V sc = nj_dump V (SessionToJson V sc) 2"

definition Validate :: "SessionConfig \<Rightarrow> bool \<times> string" where
  "Validate sc =
     (if dataset_path (sc_dataset sc) = [] then (False, ''dataset.path is empty'')
      else if socket_path (sc_ipc sc) = [] then (False, ''ipc.socket_path is empty'')
      else if ipc_max_clients (sc_ipc sc) < 1 then (False, ''ipc.max_clients must be >= 1'')
      else if sc_playback_speed sc < 0
      then (False, ''playback_speed must be >= 0 (0 = as fast as possible)'')
      else (True, []))"

section \<open>Files\<close>

text \<open>
  What the files contain, which paths name something else, and which operations succeed. The
  parent of a path is its text before the last slash, without trailing slashes unless it is the root.
\<close>

record file_system =
  fs_text :: "string \<Rightarrow> string option"
  fs_exists :: "string \<Rightarrow> bool"
  fs_can_read :: "string \<Rightarrow> bool"
  fs_can_write :: "string \<Rightarrow> bool"
  fs_can_create_dirs :: "string \<Rightarrow> bool"

definition parent_path :: "string \<Rightarrow> string" where
  "parent_path p =
     (let d = rev (dropWhile (\<lambda>c. c \<noteq> CHR ''/'') (rev p));
          t = rev (dropWhile (\<lambda>c. c = CHR ''/'') (rev d))
      in if t = [] then take 1 d else t)"

definition FromPath :: "'j nlohmann \<Rightarrow> file_system \<Rightarrow> string \<Rightarrow> cpp_exception + SessionConfig" where
  "FromPath V fs path =
     (if fs_text fs path = None \<and> \<not> fs_exists fs path
      then Inl (InvalidArgument (''Config file not found: '' @ path))
      else if \<not> fs_can_read fs path then Inl (RuntimeError (''Cannot open config file: '' @ path))
      else FromJson V (case fs_text fs path of None \<Rightarrow> [] | Some s \<Rightarrow> s))"

text \<open>Opening the stream truncates the file before the configuration is printed.\<close>

definition SaveToPath :: "'j nlohmann \<Rightarrow> file_system \<Rightarrow> string \<Rightarrow> SessionConfig \<Rightarrow> (cpp_exception + unit) \<times> file_system" where
  "SaveToPath V fs path sc =
     (if parent_path path \<noteq> [] \<and> \<not> fs_can_create_dirs fs (parent_path path) then (Inl SystemError, fs)
      else if \<not> fs_can_write fs path then (Inl (RuntimeError (''Cannot write config: '' @ path)), fs)
      else let opened = fs\<lparr>fs_text := (fs_text fs)(path \<mapsto> [])\<rparr> in
        case ToJson V sc of
          Inl ex \<Rightarrow> (Inl ex, opened)
        | Inr s \<Rightarrow> (Inr (), opened\<lparr>fs_text := (fs_text opened)(path \<mapsto> s)\<rparr>))"

section \<open>The schema\<close>

definition jpath :: "'j nlohmann \<Rightarrow> 'j" where
  "jpath V = nj_object V [(''type'', nj_string V ''string''), (''x-ui-hint'', nj_string V ''path'')]"

definition jstr :: "'j nlohmann \<Rightarrow> 'j" where
  "jstr V = nj_object V [(''type'', nj_string V ''string'')]"

definition jbool :: "'j nlohmann \<Rightarrow> 'j" where
  "jbool V = nj_object V [(''type'', nj_string V ''boolean'')]"

definition jnum :: "'j nlohmann \<Rightarrow> real \<Rightarrow> 'j" where
  "jnum V mn = nj_object V [(''type'', nj_string V ''number''), (''minimum'', nj_number V mn)]"

definition jint :: "'j nlohmann \<Rightarrow> int \<Rightarrow> 'j" where
  "jint V mn = nj_object V [(''type'', nj_string V ''integer''), (''minimum'', nj_integer V mn)]"

definition jtabs :: "'j nlohmann \<Rightarrow> string list \<Rightarrow> 'j" where
  "jtabs V v = nj_object V
     [(''type'', nj_string V ''string''), (''enum'', nj_array V (map (nj_string V) v)),
      (''x-ui-hint'', nj_string V ''tabs'')]"

definition jvec3 :: "'j nlohmann \<Rightarrow> 'j" where
  "jvec3 V = nj_object V
     [(''type'', nj_string V ''array''), (''items'', nj_object V [(''type'', nj_string V ''number'')]),
      (''minItems'', nj_integer V 3), (''maxItems'', nj_integer V 3)]"

text \<open>\<^verbatim>\<open>{{"type", "object"}, {"properties", ...}}\<close>.\<close>

definition jobj :: "'j nlohmann \<Rightarrow> (string \<times> 'j) list \<Rightarrow> 'j" where
  "jobj V props = nj_object V [(''type'', nj_string V ''object''), (''properties'', nj_object V props)]"

definition NavSchema :: "'j nlohmann \<Rightarrow> 'j" where
  "NavSchema V = jobj V
     [(''backend'', jtabs V [''EKF'', ''UKF'', ''Ceres'', ''GTSAM'']),
      (''dead_reckoning_threshold_s'', jnum V 0),
      (''min_imu_dt_s'', jnum V 0),
      (''max_imu_dt_s'', jnum V 0),
      (''imu'', jobj V
         [(''accel_noise_density'', jnum V 0), (''gyro_noise_density'', jnum V 0),
          (''accel_random_walk'', jnum V 0), (''gyro_random_walk'', jnum V 0)]),
      (''gnss'', jobj V
         [(''enabled'', jbool V), (''mode'', jtabs V [''LooselyCoupled'', ''TightlyCoupled'']),
          (''loosely_coupled'', jobj V
             [(''position_sigma_m'', jnum V 0), (''velocity_sigma_mps'', jnum V 0),
              (''position_gate'', jnum V 0)])]),
      (''barometer'', jobj V
         [(''enabled'', jbool V), (''altitude_sigma_m'', jnum V 0),
          (''isa_sea_level_pressure_pa'', jnum V 0), (''innovation_gate'', jnum V 0)]),
      (''magnetometer'', jobj V
         [(''enabled'', jbool V), (''reference_field_enu_tesla'', jvec3 V), (''sigma_tesla'', jnum V 0),
          (''innovation_gate'', jnum V 0)]),
      (''wheel_odometry'', jobj V
         [(''enabled'', jbool V), (''sigma_linear_mps'', jnum V 0), (''sigma_angular_radps'', jnum V 0),
          (''use_angular_rate'', jbool V), (''innovation_gate'', jnum V 0)]),
      (''optical_flow'', jobj V
         [(''enabled'', jbool V), (''fallback_altitude_m'', jnum V 0), (''sigma_radps'', jnum V 0),
          (''innovation_gate'', jnum V 0)]),
      (''airspeed'', jobj V
         [(''enabled'', jbool V), (''wind_enu_mps'', jvec3 V), (''sigma_mps'', jnum V 0),
          (''innovation_gate'', jnum V 0)])]"

definition ToSchemaJson :: "'j nlohmann \<Rightarrow> 'j" where
  "ToSchemaJson V = nj_object V
     [(''playback_speed'', jnum V 0),
      (''dataset'', jobj V [(''type'', jtabs V [''csv'']), (''path'', jpath V)]),
      (''ipc'', jobj V [(''socket_path'', jstr V), (''max_clients'', jint V 1)]),
      (''ws'', jobj V [(''port'', jint V 0), (''max_clients'', jint V 1), (''ui_path'', jpath V)]),
      (''nav'', NavSchema V)]"

section \<open>The command line\<close>

text \<open>
  \<^verbatim>\<open>src/exe/falconguide_cli.cpp\<close> up to the construction of the session: what the process exits with, the
  schema it prints, or the configuration it runs.
\<close>

datatype cli_decision = Cli_Failure | Cli_Schema "cpp_exception + string" | Cli_Session SessionConfig

definition cli_main :: "'j nlohmann \<Rightarrow> file_system \<Rightarrow> string list \<Rightarrow> cli_decision" where
  "cli_main V fs argv =
     (if length argv < 2 then Cli_Failure
      else if length argv \<ge> 3 \<and> argv ! 2 = ''--print-schema'' then Cli_Schema (nj_dump V (ToSchemaJson V) 2)
      else case FromPath V fs (argv ! 1) of
          Inl ex \<Rightarrow> Cli_Failure
        | Inr cfg \<Rightarrow> if \<not> fst (Validate cfg) then Cli_Failure else Cli_Session cfg)"

end
