(* ===== verification/Fg_ConfigProps.thy ===== *)
theory Fg_ConfigProps
  imports Fg_Config
begin

text \<open>
  What a configuration keeps when it is written and read again, as text and through a file, and
  what reading and saving do when something goes wrong.
\<close>

section \<open>The JSON library's documented behaviour\<close>

text \<open>
  What is asked of \<^verbatim>\<open>nlohmann::json\<close>: values give back what they were built from, integers convert to
  \<^verbatim>\<open>uint16_t\<close> by a cast, an object finds the members it was built from, and parsing reads back what was printed.
\<close>

definition json_laws :: "'j nlohmann \<Rightarrow> bool" where
  "json_laws V \<longleftrightarrow>
     nj_is_null V (nj_null V) \<and> (\<forall>x. \<not> nj_is_null V (nj_number V x)) \<and>
     (\<forall>x. nj_get_double V (nj_number V x) = Inr x) \<and>
     (\<forall>b. nj_get_bool V (nj_boolean V b) = Inr b) \<and>
     (\<forall>s. nj_get_string V (nj_string V s) = Inr s) \<and>
     (\<forall>n. - (2 ^ 31) \<le> n \<and> n < 2 ^ 31 \<longrightarrow> nj_get_int V (nj_integer V n) = Inr n) \<and>
     (\<forall>n. 0 \<le> n \<and> n < 2 ^ 63 \<longrightarrow> nj_get_uint16 V (nj_integer V n) = Inr (nat (n mod 65536))) \<and>
     (\<forall>xs. nj_is_array V (nj_array V xs) \<and> nj_size V (nj_array V xs) = length xs \<and>
        (\<forall>i<length xs. nj_elem V (nj_array V xs) i = xs ! i)) \<and>
     (\<forall>kvs. nj_is_object V (nj_object V kvs)) \<and>
     (\<forall>kvs k. nj_contains V (nj_object V kvs) k \<longleftrightarrow> k \<in> fst ` set kvs) \<and>
     (\<forall>kvs k v. distinct (map fst kvs) \<longrightarrow> (k, v) \<in> set kvs \<longrightarrow> nj_member V (nj_object V kvs) k = v) \<and>
     (\<forall>v n s. nj_dump V v n = Inr s \<longrightarrow> nj_parse V s = Inr v)"

lemma json_values:
  assumes "json_laws V"
  shows "nj_get_double V (nj_number V x) = Inr x" "nj_get_bool V (nj_boolean V b) = Inr b"
    "nj_get_string V (nj_string V s) = Inr s" "nj_is_null V (nj_null V)" "\<not> nj_is_null V (nj_number V x)"
    "nj_is_object V (nj_object V kvs)" "nj_is_array V (nj_array V xs)"
    "nj_size V (nj_array V xs) = length xs" "i < length xs \<Longrightarrow> nj_elem V (nj_array V xs) i = xs ! i"
  using assms by (simp_all add: json_laws_def)

lemma json_integers:
  assumes "json_laws V"
  shows "- (2 ^ 31) \<le> n \<Longrightarrow> n < 2 ^ 31 \<Longrightarrow> nj_get_int V (nj_integer V n) = Inr n"
    and "0 \<le> n \<Longrightarrow> n < 2 ^ 63 \<Longrightarrow> nj_get_uint16 V (nj_integer V n) = Inr (nat (n mod 65536))"
  using assms by (simp_all add: json_laws_def)

lemma json_printed: "json_laws V \<Longrightarrow> nj_dump V v n = Inr s \<Longrightarrow> nj_parse V s = Inr v"
  by (auto simp: json_laws_def)

lemma json_object:
  assumes "json_laws V"
  shows "nj_contains V (nj_object V kvs) k \<longleftrightarrow> map_of kvs k \<noteq> None"
    and "distinct (map fst kvs) \<Longrightarrow> map_of kvs k = Some v \<Longrightarrow> nj_member V (nj_object V kvs) k = v"
  using assms by (auto simp: json_laws_def map_of_eq_None_iff dest: map_of_SomeD)

text \<open>What the readers find in an object that was built from its members.\<close>

lemma read_object:
  assumes "json_laws V" "distinct (map fst kvs)"
  shows "member_or V get (nj_object V kvs) k d = (case map_of kvs k of None \<Rightarrow> Inr d | Some v \<Rightarrow> get v)"
    and "json_value_or V get (nj_object V kvs) k d = (case map_of kvs k of None \<Rightarrow> Inr d | Some v \<Rightarrow> get v)"
    and "in_section V f (nj_object V kvs) k c = (case map_of kvs k of None \<Rightarrow> Inr c | Some v \<Rightarrow> f v c)"
  using assms
  by (auto simp: member_or_def json_value_or_def in_section_def json_values json_object split: option.splits)

lemma ReadOptDouble_object:
  assumes "json_laws V" "distinct (map fst kvs)" "map_of kvs k = Some (WriteOptDouble V x)"
  shows "ReadOptDouble V (nj_object V kvs) k = Inr x"
  using assms json_object(2) [OF assms]
  by (cases x) (simp_all add: ReadOptDouble_def WriteOptDouble_def json_object(1) json_values)

lemma ReadVec3_object:
  assumes "json_laws V" "distinct (map fst kvs)" "map_of kvs k = Some (WriteVec3 V v)"
  shows "ReadVec3 V (nj_object V kvs) k d = Inr v"
  using assms json_object(2) [OF assms]
  by (simp add: ReadVec3_def WriteVec3_def json_object(1) json_values)

text \<open>Reading a matrix gives the nine coefficients that were written.\<close>

definition as_Matrix3d :: "MatrixXd \<Rightarrow> MatrixXd" where
  "as_Matrix3d m = Matrix3d (concat (map (\<lambda>r. map (\<lambda>c. coeff m r c) [0..<3]) [0..<3]))"

lemma get_doubles_array:
  assumes "json_laws V" "\<forall>i\<in>set is. i < length xs"
  shows "get_doubles V (nj_array V (map (nj_number V) xs)) is = Inr (map ((!) xs) is)"
  using assms(2) by (induction "is") (simp_all add: json_values [OF assms(1)])

lemma ReadMat3_object:
  assumes "json_laws V" "distinct (map fst kvs)" "map_of kvs k = Some (WriteMat3 V m)"
  shows "ReadMat3 V (nj_object V kvs) k = Inr (as_Matrix3d m)"
proof -
  let ?xs = "concat (map (\<lambda>r. map (\<lambda>c. coeff m r c) [0..<3]) [0..<3])"
  have w: "WriteMat3 V m = nj_array V (map (nj_number V) ?xs)"
    by (simp add: WriteMat3_def map_concat comp_def)
  have len: "length ?xs = 9" by (simp add: upt_rec)
  have "get_doubles V (nj_array V (map (nj_number V) ?xs)) [0..<9] = Inr ?xs"
    using map_nth [of ?xs] len by (subst get_doubles_array [OF assms(1)]) auto
  then show ?thesis
    using assms(1,3) json_object(2) [OF assms] len
    by (simp add: ReadMat3_def w json_object(1) json_values as_Matrix3d_def)
qed

section \<open>Round trip of the sections\<close>

named_theorems json_sections \<open>what reading a written section gives\<close>

lemmas json_read = json_values read_object ReadOptDouble_object ReadVec3_object ReadMat3_object

lemma Backend_json:
  assumes "json_laws V" "nj_contains V j ''backend''" "nj_member V j ''backend'' = BackendToJson V b"
  shows "BackendFromJson V j old = Inr b"
  using assms by (cases b) (simp_all add: BackendFromJson_def BackendToJson_def backend_of_name_def json_values)

lemma Imu_json [json_sections]: "json_laws V \<Longrightarrow> ImuFromJson V (ImuToJson V n) old = Inr n"
  by (simp add: ImuFromJson_def ImuToJson_def json_read)

lemma Gnss_json [json_sections]:
  assumes "json_laws V"
  shows "GnssFromJson V (GnssToJson V g) old =
    Inr (g\<lparr>gnss_tightly_coupled := (gnss_tightly_coupled g)
             \<lparr>gto_min_satellites := gto_min_satellites (gnss_tightly_coupled old)\<rparr>\<rparr>)"
proof -
  have "LooselyCoupledFromJson V (LooselyCoupledToJson V lc) lc0 = Inr lc" for lc lc0
    using assms by (simp add: LooselyCoupledFromJson_def LooselyCoupledToJson_def json_read)
  moreover have "TightlyCoupledFromJson V (TightlyCoupledToJson V tc) tc0 =
      Inr (tc\<lparr>gto_min_satellites := gto_min_satellites tc0\<rparr>)" for tc tc0
    using assms by (simp add: TightlyCoupledFromJson_def TightlyCoupledToJson_def json_read)
  ultimately show ?thesis
    using assms by (cases "gnss_mode g") (simp_all add: GnssFromJson_def GnssToJson_def json_read)
qed

lemma Barometer_json [json_sections]:
  "json_laws V \<Longrightarrow> BarometerFromJson V (BarometerToJson V sc) old =
    Inr (sc)"
  by (simp add: BarometerFromJson_def BarometerToJson_def Let_def json_read)

lemma Magnetometer_json [json_sections]:
  "json_laws V \<Longrightarrow> MagnetometerFromJson V (MagnetometerToJson V sc) old =
    Inr (sc)"
  by (simp add: MagnetometerFromJson_def MagnetometerToJson_def Let_def json_read)

lemma StarTracker_json [json_sections]:
  "json_laws V \<Longrightarrow> StarTrackerFromJson V (StarTrackerToJson V sc) old =
    Inr (sc\<lparr>sc_options := (sc_options sc)
      \<lparr>sto_star_tracker_to_body := sto_star_tracker_to_body (sc_options old)\<rparr>\<rparr>)"
  by (simp add: StarTrackerFromJson_def StarTrackerToJson_def Let_def json_read)

lemma WheelOdometry_json [json_sections]:
  "json_laws V \<Longrightarrow> WheelOdometryFromJson V (WheelOdometryToJson V sc) old =
    Inr (sc\<lparr>sc_options := (sc_options sc)
      \<lparr>woo_latest_gyro_radps := woo_latest_gyro_radps (sc_options old)\<rparr>\<rparr>)"
  by (simp add: WheelOdometryFromJson_def WheelOdometryToJson_def Let_def json_read)

lemma RadarAltimeter_json [json_sections]:
  "json_laws V \<Longrightarrow> RadarAltimeterFromJson V (RadarAltimeterToJson V sc) old =
    Inr (sc\<lparr>sc_options := (sc_options sc)
      \<lparr>rao_terrain_elevation_m := rao_terrain_elevation_m (sc_options old), rao_sigma_m := rao_sigma_m (sc_options old)\<rparr>\<rparr>)"
  by (simp add: RadarAltimeterFromJson_def RadarAltimeterToJson_def Let_def json_read)

lemma RangeFinder_json [json_sections]:
  "json_laws V \<Longrightarrow> RangeFinderFromJson V (RangeFinderToJson V sc) old =
    Inr (sc)"
  by (simp add: RangeFinderFromJson_def RangeFinderToJson_def Let_def json_read)

lemma OpticalFlow_json [json_sections]:
  "json_laws V \<Longrightarrow> OpticalFlowFromJson V (OpticalFlowToJson V sc) old =
    Inr (sc)"
  by (simp add: OpticalFlowFromJson_def OpticalFlowToJson_def Let_def json_read)

lemma Dvl_json [json_sections]:
  "json_laws V \<Longrightarrow> DvlFromJson V (DvlToJson V sc) old =
    Inr (sc\<lparr>sc_options := (sc_options sc)\<lparr>dvo_dvl_to_body_rotation := as_Matrix3d (dvo_dvl_to_body_rotation (sc_options sc))\<rparr>\<rparr>)"
  by (simp add: DvlFromJson_def DvlToJson_def Let_def json_read)

lemma EchoSounder_json [json_sections]:
  "json_laws V \<Longrightarrow> EchoSounderFromJson V (EchoSounderToJson V sc) old =
    Inr (sc)"
  by (simp add: EchoSounderFromJson_def EchoSounderToJson_def Let_def json_read)

lemma Airspeed_json [json_sections]:
  "json_laws V \<Longrightarrow> AirspeedFromJson V (AirspeedToJson V sc) old =
    Inr (sc)"
  by (simp add: AirspeedFromJson_def AirspeedToJson_def Let_def json_read)

lemma ExternalPose_json [json_sections]:
  "json_laws V \<Longrightarrow> ExternalPoseFromJson V (ExternalPoseToJson V sc) old =
    Inr (sc\<lparr>sc_options := (sc_options sc)
      \<lparr>epo_position_sigma_m := epo_position_sigma_m (sc_options old), epo_orientation_sigma_rad := epo_orientation_sigma_rad (sc_options old)\<rparr>\<rparr>)"
  by (simp add: ExternalPoseFromJson_def ExternalPoseToJson_def Let_def json_read)

lemma ExternalVelocity_json [json_sections]:
  "json_laws V \<Longrightarrow> ExternalVelocityFromJson V (ExternalVelocityToJson V sc) old =
    Inr (sc\<lparr>sc_options := (sc_options sc)
      \<lparr>evo_sigma_linear_mps := evo_sigma_linear_mps (sc_options old), evo_sigma_angular_radps := evo_sigma_angular_radps (sc_options old), evo_latest_gyro_radps := evo_latest_gyro_radps (sc_options old)\<rparr>\<rparr>)"
  by (simp add: ExternalVelocityFromJson_def ExternalVelocityToJson_def Let_def json_read)

lemma ExternalOdometry_json [json_sections]:
  "json_laws V \<Longrightarrow> ExternalOdometryFromJson V (ExternalOdometryToJson V sc) old =
    Inr (sc)"
  by (simp add: ExternalOdometryFromJson_def ExternalOdometryToJson_def Let_def json_read)

lemma AidingSolution_json [json_sections]:
  "json_laws V \<Longrightarrow> AidingSolutionFromJson V (AidingSolutionToJson V sc) old =
    Inr (sc)"
  by (simp add: AidingSolutionFromJson_def AidingSolutionToJson_def Let_def json_read)

lemma Sigma_json [json_sections]: "json_laws V \<Longrightarrow> SigmaFromJson V (SigmaToJson V u) old = Inr u"
  by (simp add: SigmaFromJson_def SigmaToJson_def json_read)

section \<open>Round trip of a configuration\<close>

text \<open>
  The settings that are not written: the satellite minimum, the star tracker mounting, the latest gyro
  readings, the radar altimeter's terrain elevation and sigma, and the sigmas of external pose and velocity.
  Reading gives them their defaults.
\<close>

definition persisted :: "NavigationSystemConfig \<Rightarrow> NavigationSystemConfig" where
  "persisted c = (let d = NavigationSystemConfig_default in c
     \<lparr>cfg_gnss := (cfg_gnss c)\<lparr>gnss_tightly_coupled := (gnss_tightly_coupled (cfg_gnss c))
        \<lparr>gto_min_satellites := gto_min_satellites (gnss_tightly_coupled (cfg_gnss d))\<rparr>\<rparr>,
      cfg_star_tracker := (cfg_star_tracker c)\<lparr>sc_options := (sc_options (cfg_star_tracker c))
        \<lparr>sto_star_tracker_to_body := sto_star_tracker_to_body (sc_options (cfg_star_tracker d))\<rparr>\<rparr>,
      cfg_wheel_odometry := (cfg_wheel_odometry c)\<lparr>sc_options := (sc_options (cfg_wheel_odometry c))
        \<lparr>woo_latest_gyro_radps := woo_latest_gyro_radps (sc_options (cfg_wheel_odometry d))\<rparr>\<rparr>,
      cfg_radar_altimeter := (cfg_radar_altimeter c)\<lparr>sc_options := (sc_options (cfg_radar_altimeter c))
        \<lparr>rao_terrain_elevation_m := rao_terrain_elevation_m (sc_options (cfg_radar_altimeter d)),
         rao_sigma_m := rao_sigma_m (sc_options (cfg_radar_altimeter d))\<rparr>\<rparr>,
      cfg_external_pose := (cfg_external_pose c)\<lparr>sc_options := (sc_options (cfg_external_pose c))
        \<lparr>epo_position_sigma_m := epo_position_sigma_m (sc_options (cfg_external_pose d)),
         epo_orientation_sigma_rad := epo_orientation_sigma_rad (sc_options (cfg_external_pose d))\<rparr>\<rparr>,
      cfg_external_velocity := (cfg_external_velocity c)\<lparr>sc_options := (sc_options (cfg_external_velocity c))
        \<lparr>evo_sigma_linear_mps := evo_sigma_linear_mps (sc_options (cfg_external_velocity d)),
         evo_sigma_angular_radps := evo_sigma_angular_radps (sc_options (cfg_external_velocity d)),
         evo_latest_gyro_radps := evo_latest_gyro_radps (sc_options (cfg_external_velocity d))\<rparr>\<rparr>,
      cfg_dvl := (cfg_dvl c)\<lparr>sc_options := (sc_options (cfg_dvl c))
        \<lparr>dvo_dvl_to_body_rotation := as_Matrix3d (dvo_dvl_to_body_rotation (sc_options (cfg_dvl c)))\<rparr>\<rparr>\<rparr>)"

lemma Nav_json:
  assumes "json_laws V"
  shows "NavFromJson V (NavToJson V c) = Inr (persisted c)"
  by (simp add: NavFromJson_def NavToJson_def Let_def read_object [OF assms] json_sections [OF assms]
      Backend_json [OF assms] json_object [OF assms] json_values [OF assms] persisted_def disabled_def)

section \<open>Round trip of the session configuration\<close>

text \<open>The ranges of the C++ types of the integer settings.\<close>

definition config_ints_ok :: "SessionConfig \<Rightarrow> bool" where
  "config_ints_ok sc \<longleftrightarrow> cfg_port (sc_ws sc) < 2 ^ 16 \<and>
     - (2 ^ 31) \<le> ipc_max_clients (sc_ipc sc) \<and> ipc_max_clients (sc_ipc sc) < 2 ^ 31 \<and>
     - (2 ^ 31) \<le> cfg_max_clients (sc_ws sc) \<and> cfg_max_clients (sc_ws sc) < 2 ^ 31"

lemma Session_json:
  assumes "json_laws V" "config_ints_ok sc"
  shows "SessionFromJson V (SessionToJson V sc) = Inr (sc\<lparr>sc_nav := persisted (sc_nav sc)\<rparr>)"
  using assms(2)
  by (simp add: SessionFromJson_def SessionToJson_def DatasetFromJson_def IpcFromJson_def WsFromJson_def Let_def
      read_object [OF assms(1)] json_values [OF assms(1)] json_integers [OF assms(1)] Nav_json [OF assms(1)]
      config_ints_ok_def)

lemma as_Matrix3d_idem: "as_Matrix3d (as_Matrix3d m) = as_Matrix3d m"
proof -
  let ?f = "\<lambda>m. concat (map (\<lambda>r. map (\<lambda>c. coeff m r c) [0..<3]) [0..<3])"
  have "?f (as_Matrix3d m) = ?f m"
    by (simp add: as_Matrix3d_def Matrix3d_def upt_rec)
  then show ?thesis by (simp add: as_Matrix3d_def [of "as_Matrix3d m"]) (simp add: as_Matrix3d_def)
qed

lemma persisted_idem: "persisted (persisted c) = persisted c"
  by (simp add: persisted_def Let_def as_Matrix3d_idem)

lemma WriteMat3_as_Matrix3d: "WriteMat3 V (as_Matrix3d m) = WriteMat3 V m"
  by (simp add: WriteMat3_def as_Matrix3d_def Matrix3d_def upt_rec)

text \<open>What is lost is not written, so a configuration and what is read back print alike.\<close>

lemma persisted_json: "NavToJson V (persisted c) = NavToJson V c"
  by (simp add: NavToJson_def persisted_def Let_def GnssToJson_def TightlyCoupledToJson_def StarTrackerToJson_def
      WheelOdometryToJson_def RadarAltimeterToJson_def ExternalPoseToJson_def ExternalVelocityToJson_def
      DvlToJson_def WriteMat3_as_Matrix3d)

lemma ToJson_persisted: "ToJson V (sc\<lparr>sc_nav := persisted (sc_nav sc)\<rparr>) = ToJson V sc"
  by (simp add: ToJson_def SessionToJson_def persisted_json)

lemma FromJson_ToJson:
  assumes "json_laws V" "config_ints_ok sc" "ToJson V sc = Inr s"
  shows "FromJson V s = Inr (sc\<lparr>sc_nav := persisted (sc_nav sc)\<rparr>)"
  using Session_json [OF assms(1,2)] json_printed [OF assms(1) assms(3) [unfolded ToJson_def]]
  by (simp add: FromJson_def)

lemma default_persisted:
  "persisted NavigationSystemConfig_default = NavigationSystemConfig_default\<lparr>cfg_dvl :=
     (cfg_dvl NavigationSystemConfig_default)\<lparr>sc_options := DvlOptions_default
       \<lparr>dvo_dvl_to_body_rotation := as_Matrix3d (Matrix_Identity 3)\<rparr>\<rparr>\<rparr>"
  by (simp add: persisted_def Let_def NavigationSystemConfig_default_def disabled_def DvlOptions_default_def)

text \<open>C33. A printed session configuration reads back as itself except for the settings that are never
  written, which get their defaults; printing what was read gives the same text, so nothing further is
  lost.\<close>

theorem config_text_roundtrip:
  assumes "json_laws V" "config_ints_ok sc" "ToJson V sc = Inr s"
  shows "FromJson V s = Inr (sc\<lparr>sc_nav := persisted (sc_nav sc)\<rparr>) \<and>
    ToJson V (sc\<lparr>sc_nav := persisted (sc_nav sc)\<rparr>) = Inr s \<and>
    persisted (persisted (sc_nav sc)) = persisted (sc_nav sc)"
  using FromJson_ToJson [OF assms] assms(3) by (simp add: ToJson_persisted persisted_idem)

text \<open>
  A JSON library for the witnesses: a tree of values, of which one can be printed and parsed.
\<close>

datatype json_tree = JNull | JBool bool | JReal real | JInt int | JText string
  | JArray "json_tree list" | JObject "(string \<times> json_tree) list"

fun tree_double :: "json_tree \<Rightarrow> cpp_exception + real" where
  "tree_double (JReal x) = Inr x"
| "tree_double (JInt n) = Inr (of_int n)"
| "tree_double _ = Inl (JsonError ''type must be number'')"

fun tree_bool :: "json_tree \<Rightarrow> cpp_exception + bool" where
  "tree_bool (JBool b) = Inr b"
| "tree_bool _ = Inl (JsonError ''type must be boolean'')"

fun tree_int :: "json_tree \<Rightarrow> cpp_exception + int" where
  "tree_int (JInt n) = Inr n"
| "tree_int _ = Inl (JsonError ''type must be number'')"

fun tree_text :: "json_tree \<Rightarrow> cpp_exception + string" where
  "tree_text (JText s) = Inr s"
| "tree_text _ = Inl (JsonError ''type must be string'')"

fun tree_members :: "json_tree \<Rightarrow> (string \<times> json_tree) list" where
  "tree_members (JObject kvs) = kvs"
| "tree_members _ = []"

fun tree_elems :: "json_tree \<Rightarrow> json_tree list" where
  "tree_elems (JArray xs) = xs"
| "tree_elems _ = []"

definition tree_json :: "json_tree option \<Rightarrow> json_tree nlohmann" where
  "tree_json printable =
     \<lparr>nj_null = JNull, nj_boolean = JBool, nj_number = JReal, nj_integer = JInt, nj_string = JText,
      nj_array = JArray, nj_object = JObject, nj_is_null = (\<lambda>j. j = JNull),
      nj_is_array = (\<lambda>j. case j of JArray _ \<Rightarrow> True | _ \<Rightarrow> False),
      nj_is_object = (\<lambda>j. case j of JObject _ \<Rightarrow> True | _ \<Rightarrow> False),
      nj_size = (\<lambda>j. length (tree_elems j)), nj_elem = (\<lambda>j i. tree_elems j ! i),
      nj_contains = (\<lambda>j k. k \<in> fst ` set (tree_members j)),
      nj_member = (\<lambda>j k. the (map_of (tree_members j) k)),
      nj_get_bool = tree_bool, nj_get_double = tree_double, nj_get_int = tree_int,
      nj_get_uint16 = (\<lambda>j. bind_sum (tree_int j) (\<lambda>n. Inr (nat (n mod 65536)))), nj_get_string = tree_text,
      nj_value_error = (\<lambda>j. JsonError ''cannot use value()''),
      nj_parse = (\<lambda>s. if s = ''{}'' then (case printable of Some v \<Rightarrow> Inr v | None \<Rightarrow> Inr (JObject []))
                      else Inl (JsonError ''parse error'')),
      nj_dump = (\<lambda>v n. if printable = Some v then Inr ''{}'' else Inl (JsonError ''invalid UTF-8''))\<rparr>"

lemma tree_json_laws: "json_laws (tree_json printable)"
  by (auto simp: json_laws_def tree_json_def)

definition six_satellites :: SessionConfig where
  "six_satellites = SessionConfig_default\<lparr>sc_nav := NavigationSystemConfig_default
     \<lparr>cfg_gnss := (cfg_gnss NavigationSystemConfig_default)\<lparr>gnss_tightly_coupled :=
        GnssTightlyCoupledOptions_default\<lparr>gto_min_satellites := 6\<rparr>\<rparr>\<rparr>\<rparr>"

definition prints :: "SessionConfig \<Rightarrow> json_tree nlohmann" where
  "prints sc = tree_json (Some (SessionToJson (tree_json None) sc))"

lemma tree_json_builders:
  "nj_null (tree_json p) = JNull" "nj_boolean (tree_json p) = JBool" "nj_number (tree_json p) = JReal"
  "nj_integer (tree_json p) = JInt" "nj_string (tree_json p) = JText" "nj_array (tree_json p) = JArray"
  "nj_object (tree_json p) = JObject"
  by (simp_all add: tree_json_def)

lemma SessionToJson_tree: "SessionToJson (tree_json p) sc = SessionToJson (tree_json None) sc"
  by (simp only: SessionToJson_def NavToJson_def BackendToJson_def ImuToJson_def GnssToJson_def
      LooselyCoupledToJson_def TightlyCoupledToJson_def BarometerToJson_def MagnetometerToJson_def
      StarTrackerToJson_def WheelOdometryToJson_def RadarAltimeterToJson_def RangeFinderToJson_def
      OpticalFlowToJson_def DvlToJson_def EchoSounderToJson_def AirspeedToJson_def ExternalPoseToJson_def
      ExternalVelocityToJson_def ExternalOdometryToJson_def AidingSolutionToJson_def SigmaToJson_def
      WriteOptDouble_def WriteVec3_def WriteMat3_def tree_json_builders)

lemma prints_laws: "json_laws (prints sc)" "ToJson (prints sc) sc = Inr ''{}''"
proof -
  show "json_laws (prints sc)" by (simp add: prints_def tree_json_laws)
  have "SessionToJson (prints sc) sc = SessionToJson (tree_json None) sc"
    unfolding prints_def by (rule SessionToJson_tree)
  then show "ToJson (prints sc) sc = Inr ''{}''"
    by (simp add: ToJson_def) (simp add: prints_def tree_json_def)
qed

lemma config_ints_default: "config_ints_ok (SessionConfig_default\<lparr>sc_nav := c\<rparr>)"
  by (simp add: config_ints_ok_def SessionConfig_default_def WsConfig_default_def)

theorem config_text_roundtrip_witness:
  "FromJson (prints six_satellites) ''{}'' = Inr (six_satellites\<lparr>sc_nav := persisted (sc_nav six_satellites)\<rparr>) \<and>
   gto_min_satellites (gnss_tightly_coupled (cfg_gnss (sc_nav six_satellites))) = 6 \<and>
   gto_min_satellites (gnss_tightly_coupled (cfg_gnss (persisted (sc_nav six_satellites)))) = 4"
proof -
  have "config_ints_ok six_satellites" unfolding six_satellites_def by (rule config_ints_default)
  then show ?thesis
    using config_text_roundtrip [OF prints_laws(1) _ prints_laws(2), of six_satellites]
    by (simp add: persisted_def Let_def NavigationSystemConfig_default_def GnssTightlyCoupledOptions_default_def
        six_satellites_def)
qed

section \<open>Files\<close>

text \<open>After a successful save, loading the path gives the configuration back up to the unwritten
  settings; no other file changes.\<close>

theorem config_save_load:
  assumes "json_laws V" "config_ints_ok sc" "fs_can_read fs path" "SaveToPath V fs path sc = (Inr (), fs')"
  shows "FromPath V fs' path = Inr (sc\<lparr>sc_nav := persisted (sc_nav sc)\<rparr>) \<and>
    fs_text fs' = (fs_text fs)(path := fs_text fs' path)"
proof -
  obtain s where s: "ToJson V sc = Inr s" "fs' = fs\<lparr>fs_text := (fs_text fs)(path \<mapsto> s)\<rparr>"
    using assms(4) by (auto simp: SaveToPath_def Let_def split: if_splits sum.splits)
  show ?thesis
    using FromJson_ToJson [OF assms(1,2) s(1)] assms(3) by (simp add: FromPath_def s(2))
qed

definition plain_files :: file_system where
  "plain_files = \<lparr>fs_text = (\<lambda>_. None), fs_exists = (\<lambda>_. False), fs_can_read = (\<lambda>_. True),
     fs_can_write = (\<lambda>_. True), fs_can_create_dirs = (\<lambda>_. True)\<rparr>"

theorem config_save_load_witness:
  "FromPath (prints six_satellites) (snd (SaveToPath (prints six_satellites) plain_files ''etc/c'' six_satellites)) ''etc/c''
     = Inr (six_satellites\<lparr>sc_nav := persisted (sc_nav six_satellites)\<rparr>)"
proof -
  let ?r = "SaveToPath (prints six_satellites) plain_files ''etc/c'' six_satellites"
  have "config_ints_ok six_satellites" unfolding six_satellites_def by (rule config_ints_default)
  moreover have "fs_can_read plain_files ''etc/c''" by (simp add: plain_files_def)
  moreover have "?r = (Inr (), snd ?r)"
    by (simp add: SaveToPath_def Let_def prints_laws(2)) (simp add: plain_files_def)
  ultimately show ?thesis using config_save_load [OF prints_laws(1)] by blast
qed

text \<open>C34. When the configuration cannot be printed (a string that is not UTF-8), saving throws after it
  has emptied the file: the previous configuration is gone and the next load fails.\<close>

theorem config_save_failure_truncates:
  assumes "ToJson V sc = Inl ex" "fs_can_write fs path"
    and "parent_path path = [] \<or> fs_can_create_dirs fs (parent_path path)"
    and "nj_parse V [] = Inl bad" "fs_can_read fs path"
  shows "SaveToPath V fs path sc = (Inl ex, fs\<lparr>fs_text := (fs_text fs)(path \<mapsto> [])\<rparr>) \<and>
    FromPath V (snd (SaveToPath V fs path sc)) path =
      Inl (InvalidArgument (''SessionConfig::FromJson: '' @ what bad))"
proof -
  have "SaveToPath V fs path sc = (Inl ex, fs\<lparr>fs_text := (fs_text fs)(path \<mapsto> [])\<rparr>)"
    using assms(1-3) by (auto simp: SaveToPath_def Let_def)
  then show ?thesis using assms(4,5) by (simp add: FromPath_def FromJson_def)
qed

theorem config_save_failure_truncates_witness:
  "FromPath (tree_json None)
     (snd (SaveToPath (tree_json None) (plain_files\<lparr>fs_text := [''c'' \<mapsto> ''{}'']\<rparr>) ''c'' SessionConfig_default)) ''c'' =
   Inl (InvalidArgument ''SessionConfig::FromJson: parse error'')"
proof -
  have t: "ToJson (tree_json None) SessionConfig_default = Inl (JsonError ''invalid UTF-8'')"
    "nj_parse (tree_json None) [] = Inl (JsonError ''parse error'')"
    by (simp_all add: ToJson_def tree_json_def)
  show ?thesis
    using config_save_failure_truncates [OF t(1) _ _ t(2), of "plain_files\<lparr>fs_text := [''c'' \<mapsto> ''{}'']\<rparr>" "''c''"]
    by (auto simp: plain_files_def parent_path_def)
qed

section \<open>What validation lets through\<close>

text \<open>A file that sets the dataset, the port of the WebSocket server and the largest IMU step.\<close>

definition small_config :: "'j nlohmann \<Rightarrow> string \<Rightarrow> int \<Rightarrow> real \<Rightarrow> 'j" where
  "small_config V p port dt = nj_object V
     [(''dataset'', nj_object V [(''path'', nj_string V p)]),
      (''ws'', nj_object V [(''port'', nj_integer V port)]),
      (''nav'', nj_object V [(''max_imu_dt_s'', nj_number V dt)])]"

lemma absent_sections:
  assumes "json_laws V"
  shows "NavFromJson V (nj_object V [(''max_imu_dt_s'', nj_number V dt)]) =
    Inr (NavigationSystemConfig_default\<lparr>cfg_max_imu_dt_s := dt\<rparr>)"
  by (simp add: NavFromJson_def BackendFromJson_def Let_def read_object [OF assms] json_object [OF assms]
      json_values [OF assms])

lemma small_config_runs:
  assumes "json_laws V" "fs_text fs path = Some s" "fs_can_read fs path"
    and "nj_parse V s = Inr (small_config V p port dt)" "p \<noteq> []" "0 \<le> port" "port < 2 ^ 63"
  shows "\<exists>cfg. cli_main V fs [''falconguide_cli'', path] = Cli_Session cfg \<and>
    cfg_max_imu_dt_s (sc_nav cfg) = dt \<and> cfg_port (sc_ws cfg) = nat (port mod 65536)"
proof -
  have "FromPath V fs path = Inr (SessionConfig_default
      \<lparr>sc_nav := NavigationSystemConfig_default\<lparr>cfg_max_imu_dt_s := dt\<rparr>,
       sc_dataset := \<lparr>dataset_type = ''csv'', dataset_path = p\<rparr>,
       sc_ws := WsConfig_default\<lparr>cfg_port := nat (port mod 65536)\<rparr>\<rparr>)"
    using assms(2-4,6,7)
    by (simp add: FromPath_def FromJson_def SessionFromJson_def small_config_def Let_def absent_sections [OF assms(1)]
        read_object [OF assms(1)] DatasetFromJson_def WsFromJson_def json_values [OF assms(1)]
        json_integers [OF assms(1)] SessionConfig_default_def WsConfig_default_def)
  then show ?thesis
    using assms(5) by (simp add: cli_main_def Validate_def SessionConfig_default_def)
qed

text \<open>
  The command line runs a configuration whatever its largest IMU step is, also zero or negative,
  and takes the port modulo 65536.\<close>

theorem config_values_unchecked:
  assumes "json_laws V" "fs_text fs path = Some s" "fs_can_read fs path"
    and "nj_parse V s = Inr (small_config V p port dt)" "p \<noteq> []" "0 \<le> port" "port < 2 ^ 63"
  shows "\<exists>cfg. cli_main V fs [''falconguide_cli'', path] = Cli_Session cfg \<and>
    cfg_max_imu_dt_s (sc_nav cfg) = dt \<and> cfg_port (sc_ws cfg) = nat (port mod 65536)"
  using small_config_runs [OF assms] .

theorem config_values_unchecked_witness:
  "\<exists>cfg. cli_main (tree_json (Some (small_config (tree_json None) ''d.csv'' 70000 0)))
       (plain_files\<lparr>fs_text := [''c'' \<mapsto> ''{}'']\<rparr>) [''falconguide_cli'', ''c''] = Cli_Session cfg \<and>
     cfg_max_imu_dt_s (sc_nav cfg) = 0 \<and> cfg_port (sc_ws cfg) = 4464"
proof -
  let ?V = "tree_json (Some (small_config (tree_json None) ''d.csv'' 70000 0))"
  have "nj_parse ?V ''{}'' = Inr (small_config ?V ''d.csv'' 70000 0)"
    by (simp add: small_config_def tree_json_def)
  then show ?thesis
    using config_values_unchecked [OF tree_json_laws, of "plain_files\<lparr>fs_text := [''c'' \<mapsto> ''{}'']\<rparr>" "''c''" "''{}''"
        "Some (small_config (tree_json None) ''d.csv'' 70000 0)" "''d.csv''" 70000 0]
    by (simp add: plain_files_def)
qed

section \<open>Loaded configurations are well formed\<close>

text \<open>Whatever the JSON library does, a configuration that is read has a mounting rotation of three rows and columns.\<close>

lemma bind_sum_InrE:
  assumes "bind_sum x f = Inr b" obtains a where "x = Inr a" "f a = Inr b"
  using assms by (auto simp: bind_sum_Inr)

lemma ReadMat3_square: "ReadMat3 V j k = Inr m \<Longrightarrow> square 3 m"
  by (auto simp: ReadMat3_def bind_sum_Inr Matrix3d_def Matrix_Identity_def square_def split: if_splits)

lemma DvlFromJson_square: "DvlFromJson V j sc = Inr sc' \<Longrightarrow> square 3 (dvo_dvl_to_body_rotation (sc_options sc'))"
  by (auto simp: DvlFromJson_def Let_def bind_sum_Inr dest: ReadMat3_square)

lemma NavFromJson_typed:
  assumes "NavFromJson V j = Inr c"
  shows "config_typed c"
proof -
  have "square 3 (dvo_dvl_to_body_rotation (sc_options (cfg_dvl NavigationSystemConfig_default)))"
    by (simp add: NavigationSystemConfig_default_def disabled_def DvlOptions_default_def square_def)
  then have "square 3 (dvo_dvl_to_body_rotation (sc_options d))"
    if "in_section V (DvlFromJson V) j ''dvl'' (cfg_dvl NavigationSystemConfig_default) = Inr d" for d
    using that by (auto simp: in_section_def dest: DvlFromJson_square split: if_splits)
  with assms show ?thesis
    unfolding NavFromJson_def Let_def config_typed_def
    by (elim bind_sum_InrE) auto
qed

lemma FromJson_typed:
  assumes "FromJson V s = Inr sc"
  shows "config_typed (sc_nav sc)"
proof -
  have "config_typed (sc_nav SessionConfig_default)"
    by (simp add: SessionConfig_default_def config_typed_def NavigationSystemConfig_default_def disabled_def
        DvlOptions_default_def square_def)
  then have "config_typed nav"
    if "in_section V (\<lambda>jn _. NavFromJson V jn) j ''nav'' (sc_nav SessionConfig_default) = Inr nav" for j nav
    using that by (auto simp: in_section_def dest: NavFromJson_typed split: if_splits)
  with assms show ?thesis
    by (auto simp: FromJson_def SessionFromJson_def Let_def bind_sum_Inr split: sum.splits)
qed

text \<open>C35. Whatever JSON text the command line accepts, if its largest IMU step is positive then the EKF
  of the configuration can be built and processes every sequence of measurements with valid covariances
  without an exception.\<close>

theorem cli_config_ekf_safe:
  assumes "cli_main V fs argv = Cli_Session cfg" "0 < cfg_max_imu_dt_s (sc_nav cfg)"
    and "eigen_algebra E" "eigen_shapes E" "\<forall>m\<in>set ms. covariances_ok m"
  shows "\<exists>k reps k'. BuildEkfEstimator E (sc_nav cfg) = Some k \<and>
    Ekf_AddMeasurements E k ms = Some (Inr (reps, k')) \<and> length reps = length ms \<and>
    covariance_ok (total_size (layout (state k'))) (covariance (state k'))"
proof -
  have typed: "config_typed (sc_nav cfg)"
    using assms(1) by (auto simp: cli_main_def FromPath_def dest: FromJson_typed split: if_splits sum.splits)
  obtain k where k: "BuildEkfEstimator E (sc_nav cfg) = Some k" using BuildEkfEstimator_defined by blast
  note good = BuildEkfEstimator_good [OF assms(3,4) typed k]
  have "0 < max_imu_dt_s (options k)" using assms(2) good(3) by (simp add: ekf_options_def)
  from Ekf_AddMeasurements_ok [OF assms(3,4) good(1) this assms(5)] k show ?thesis
    by (fastforce simp: ekf_ok_def ekf_state_ok_def)
qed

theorem cli_config_ekf_safe_witness:
  "\<exists>cfg k reps k'. cli_main (tree_json (Some (small_config (tree_json None) ''d.csv'' 1 1)))
       (plain_files\<lparr>fs_text := [''c'' \<mapsto> ''{}'']\<rparr>) [''falconguide_cli'', ''c''] = Cli_Session cfg \<and>
     BuildEkfEstimator eigen_reference (sc_nav cfg) = Some k \<and>
     Ekf_AddMeasurements eigen_reference k demo_inputs = Some (Inr (reps, k')) \<and> length reps = 3"
proof -
  let ?V = "tree_json (Some (small_config (tree_json None) ''d.csv'' 1 1))"
  let ?fs = "plain_files\<lparr>fs_text := [''c'' \<mapsto> ''{}'']\<rparr>"
  have "nj_parse ?V ''{}'' = Inr (small_config ?V ''d.csv'' 1 1)"
    by (simp add: small_config_def tree_json_def)
  then obtain cfg where cfg: "cli_main ?V ?fs [''falconguide_cli'', ''c''] = Cli_Session cfg"
      "cfg_max_imu_dt_s (sc_nav cfg) = 1"
    using small_config_runs [OF tree_json_laws, of ?fs "''c''" "''{}''"
        "Some (small_config (tree_json None) ''d.csv'' 1 1)" "''d.csv''" 1 1]
    by (auto simp: plain_files_def)
  from cli_config_ekf_safe [OF cfg(1) _ eigen_reference_laws demo_facts(4)] cfg show ?thesis
    by (fastforce simp: demo_inputs_def)
qed

end
