(* ===== verification/Fg_Ipc.thy ===== *)
theory Fg_Ipc
  imports Fg_WsServer Fg_Session
begin

text \<open>
  The IPC server of \<^verbatim>\<open>src/app/src/ipc_server.cpp\<close>: newline-delimited JSON over a Unix socket.
  The results of \<^verbatim>\<open>socket\<close>, \<^verbatim>\<open>bind\<close>, \<^verbatim>\<open>listen\<close>, \<^verbatim>\<open>select\<close>, \<^verbatim>\<open>accept\<close>, \<^verbatim>\<open>read\<close> and \<^verbatim>\<open>write\<close> are inputs;
  every descriptor obtained, written and closed goes to a log. The JSON library and the command handler are
  parameters. One iteration of the server loop is two steps, up to the collection of the clients to
  remove and the removal of each, because other threads may broadcast in between.
\<close>

section \<open>State\<close>

text \<open>A handler maps its state, a command and the client to a new state and whether it returned without exception.\<close>

type_synonym ('h, 'j) ipc_handler = "'h \<Rightarrow> 'j \<Rightarrow> int \<Rightarrow> 'h \<times> bool"

text \<open>\<open>is_buffers\<close> and \<open>is_removing\<close> are the locals \<open>buffers\<close> and \<open>to_remove\<close> of \<open>ServerLoop\<close>.\<close>

record 'h IpcServer =
  is_cfg :: IpcConfig
  is_listen_fd :: int
  is_running :: bool
  is_thread :: bool
  is_clients :: "int list"
  is_buffers :: "int \<Rightarrow> string option"
  is_removing :: "int list"
  is_handler :: 'h
  is_log :: "net_event list"

definition IpcServer_new :: "IpcConfig \<Rightarrow> 'h \<Rightarrow> 'h IpcServer" where
  "IpcServer_new cfg h =
     \<lparr>is_cfg = cfg, is_listen_fd = - 1, is_running = False, is_thread = False, is_clients = [],
      is_buffers = Map.empty, is_removing = [], is_handler = h, is_log = []\<rparr>"

section \<open>Start and stop\<close>

definition Ipc_Start :: "int \<Rightarrow> bool \<Rightarrow> bool \<Rightarrow> 'h IpcServer \<Rightarrow> bool \<times> 'h IpcServer" where
  "Ipc_Start fd bound listening s =
     (if is_running s then (True, s)
      else
        let s1 = s\<lparr>is_listen_fd := fd\<rparr> in
        if fd < 0 then (False, s1)
        else if \<not> bound then (False, s1\<lparr>is_listen_fd := - 1, is_log := is_log s1 @ [Opened fd, Closed fd]\<rparr>)
        else if \<not> listening then (False, s1\<lparr>is_listen_fd := - 1, is_log := is_log s1 @ [Opened fd, Closed fd]\<rparr>)
        else (True, s1\<lparr>is_running := True, is_thread := True, is_buffers := Map.empty, is_removing := [],
                      is_log := is_log s1 @ [Opened fd]\<rparr>))"

text \<open>\<open>Stop\<close> up to the join, and the join, which waits for the removals under way.\<close>

definition Ipc_StopClose :: "'h IpcServer \<Rightarrow> 'h IpcServer" where
  "Ipc_StopClose s =
     (if \<not> is_running s then s
      else
        let s1 = s\<lparr>is_running := False\<rparr>;
            s2 = (if 0 \<le> is_listen_fd s1
                  then s1\<lparr>is_listen_fd := - 1, is_log := is_log s1 @ [Closed (is_listen_fd s1)]\<rparr> else s1)
        in s2\<lparr>is_clients := [], is_log := is_log s2 @ map Closed (is_clients s2)\<rparr>)"

definition Ipc_Join :: "'h IpcServer \<Rightarrow> 'h IpcServer option" where
  "Ipc_Join s = (if is_removing s \<noteq> [] then None else Some (s\<lparr>is_thread := False\<rparr>))"

section \<open>Lines\<close>

definition newline :: string where
  "newline = [CHR 0x0A]"

definition invalid_json :: string where
  \<open>invalid_json = ''{"event":"error","message":"invalid JSON"}'' @ newline\<close>

definition Ipc_HandleData ::
  "'j json_api \<Rightarrow> ('h, 'j) ipc_handler \<Rightarrow> int \<Rightarrow> 'h \<Rightarrow> string \<Rightarrow> 'h \<times> net_event list" where
  "Ipc_HandleData J handler fd h line =
     (if line = [] then (h, [])
      else case json_parse J line of
        None \<Rightarrow> (h, [Wrote fd invalid_json])
      | Some cmd \<Rightarrow>
          (case handler h cmd fd of (h', ok) \<Rightarrow> (h', if ok then [] else [Wrote fd invalid_json])))"

text \<open>The inner loop: handle and erase the complete lines of a client's buffer.\<close>

function ipc_drain ::
  "'j json_api \<Rightarrow> ('h, 'j) ipc_handler \<Rightarrow> int \<Rightarrow> string \<Rightarrow> 'h \<Rightarrow> string \<times> 'h \<times> net_event list" where
  "ipc_drain J handler fd buf h =
     (case str_find newline buf of
        None \<Rightarrow> (buf, h, [])
      | Some pos \<Rightarrow>
          (case Ipc_HandleData J handler fd h (take pos buf) of (h', ev) \<Rightarrow>
           case ipc_drain J handler fd (drop (pos + 1) buf) h' of (buf', h'', ev') \<Rightarrow> (buf', h'', ev @ ev')))"
  by pat_completeness auto
termination
  by (relation "measure (\<lambda>(J, handler, fd, buf, h). length buf)") (auto simp: newline_def dest: str_find_bound)

declare ipc_drain.simps [simp del]

text \<open>What was read is appended to the buffer, then drained.\<close>

definition ipc_read_chunk ::
  "'j json_api \<Rightarrow> ('h, 'j) ipc_handler \<Rightarrow> int \<Rightarrow> string \<times> 'h \<times> net_event list \<Rightarrow> string \<Rightarrow> string \<times> 'h \<times> net_event list" where
  "ipc_read_chunk J handler fd st chunk =
     (case st of (buf, h, ev) \<Rightarrow>
      case ipc_drain J handler fd (buf @ chunk) h of (buf', h', ev') \<Rightarrow> (buf', h', ev @ ev'))"

section \<open>The server loop\<close>

record ipc_input =
  ipc_select :: bool
  ipc_accept :: "int option"
  ipc_read :: "int \<Rightarrow> string option option"

definition Ipc_accept_client :: "int option \<Rightarrow> 'h IpcServer \<Rightarrow> 'h IpcServer" where
  "Ipc_accept_client acc s =
     (case acc of
        None \<Rightarrow> s
      | Some cfd \<Rightarrow>
          if 0 \<le> cfd
          then if int (length (is_clients s)) < ipc_max_clients (is_cfg s)
               then s\<lparr>is_clients := is_clients s @ [cfd], is_log := is_log s @ [Opened cfd],
                      is_buffers := (is_buffers s)(cfd := Some (case is_buffers s cfd of None \<Rightarrow> [] | Some b \<Rightarrow> b))\<rparr>
               else s\<lparr>is_log := is_log s @ [Opened cfd, Closed cfd]\<rparr>
          else s)"

text \<open>The loop over the clients under the lock; \<^const>\<open>None\<close> read is \<open>n <= 0\<close>.\<close>

fun Ipc_read_clients ::
  "'j json_api \<Rightarrow> ('h, 'j) ipc_handler \<Rightarrow> (int \<Rightarrow> string option option) \<Rightarrow> int list \<Rightarrow> 'h IpcServer \<Rightarrow> 'h IpcServer" where
  "Ipc_read_clients J handler ready [] s = s"
| "Ipc_read_clients J handler ready (fd # fds) s =
     (case ready fd of
        None \<Rightarrow> Ipc_read_clients J handler ready fds s
      | Some None \<Rightarrow> Ipc_read_clients J handler ready fds (s\<lparr>is_removing := is_removing s @ [fd]\<rparr>)
      | Some (Some chunk) \<Rightarrow>
          (let line_buf = (case is_buffers s fd of None \<Rightarrow> [] | Some b \<Rightarrow> b) in
           case ipc_read_chunk J handler fd (line_buf, is_handler s, []) chunk of (buf, h, ev) \<Rightarrow>
             Ipc_read_clients J handler ready fds
               (s\<lparr>is_buffers := (is_buffers s)(fd \<mapsto> buf), is_handler := h, is_log := is_log s @ ev\<rparr>)))"

definition Ipc_iteration :: "'j json_api \<Rightarrow> ('h, 'j) ipc_handler \<Rightarrow> ipc_input \<Rightarrow> 'h IpcServer \<Rightarrow> 'h IpcServer" where
  "Ipc_iteration J handler inp s =
     (if \<not> ipc_select inp then s
      else
        let rfds = is_clients s;
            s1 = Ipc_accept_client (ipc_accept inp) s;
            ready = (\<lambda>fd. if fd \<in> set rfds then ipc_read inp fd else None)
        in Ipc_read_clients J handler ready (is_clients s1) s1)"

definition RemoveClient :: "int \<Rightarrow> 'h IpcServer \<Rightarrow> 'h IpcServer" where
  "RemoveClient fd s = s\<lparr>is_clients := remove1 fd (is_clients s), is_log := is_log s @ [Closed fd]\<rparr>"

text \<open>The next removal of the iteration.\<close>

definition Ipc_remove_next :: "'h IpcServer \<Rightarrow> 'h IpcServer" where
  "Ipc_remove_next s =
     (case is_removing s of
        [] \<Rightarrow> s
      | fd # fds \<Rightarrow> RemoveClient fd (s\<lparr>is_removing := fds, is_buffers := (is_buffers s)(fd := None)\<rparr>))"

section \<open>Broadcast\<close>

text \<open>
  \<open>taken fd\<close> is how many bytes \<^verbatim>\<open>write\<close> took, \<^const>\<open>None\<close> if it failed, as it does on a socket whose buffer
  is full: the sockets are non-blocking.
\<close>

fun close_dead :: "int list \<Rightarrow> 'h IpcServer \<Rightarrow> 'h IpcServer" where
  "close_dead [] s = s"
| "close_dead (fd # fds) s = close_dead fds (RemoveClient fd s)"

definition Ipc_Broadcast :: "(int \<Rightarrow> nat option) \<Rightarrow> string \<Rightarrow> 'h IpcServer \<Rightarrow> 'h IpcServer" where
  "Ipc_Broadcast taken event s =
     (let msg = event @ newline;
          sent = concat (map (\<lambda>fd. case taken fd of None \<Rightarrow> [] | Some n \<Rightarrow> [Wrote fd (take n msg)]) (is_clients s));
          dead = filter (\<lambda>fd. taken fd = None) (is_clients s)
      in close_dead dead (s\<lparr>is_log := is_log s @ sent\<rparr>))"

section \<open>The navigation state as JSON\<close>

datatype json_value = J_string string | J_int int | J_real real | J_reals "real list" | J_bool bool

definition M_PI :: real where "M_PI = 3.14159265358979323846"

definition nav_status_str :: "NavigationStatus \<Rightarrow> string" where
  "nav_status_str s =
     (case s of
        Nominal \<Rightarrow> ''nominal''
      | DeadReckoning \<Rightarrow> ''dead_reckoning''
      | Status_Degraded \<Rightarrow> ''degraded''
      | Status_Initializing \<Rightarrow> ''initializing''
      | Status_Fault \<Rightarrow> ''fault''
      | _ \<Rightarrow> ''unknown'')"

definition NavStateJson :: "NavigationState \<Rightarrow> (string \<times> json_value) list" where
  "NavStateJson st =
     (let lla = EcefToLla (nav_position_ecef_m st);
          lat_deg = latitude_rad lla * (180 / M_PI);
          lon_deg = longitude_rad lla * (180 / M_PI);
          r2d = 180 / M_PI;
          q = nav_orientation_body_to_enu st;
          roll_deg = std_atan2 (2 * (q_w q * q_x q + q_y q * q_z q)) (1 - 2 * (q_x q * q_x q + q_y q * q_y q)) * r2d;
          pitch_deg = arcsin (Clamp (2 * (q_w q * q_y q - q_z q * q_x q)) (- 1) 1) * r2d;
          yaw_deg = std_atan2 (2 * (q_w q * q_z q + q_x q * q_y q)) (1 - 2 * (q_y q * q_y q + q_z q * q_z q)) * r2d;
          cov = nav_covariance st;
          pos_h = sqrt (max 0 ((coeff cov 0 0 + coeff cov 1 1) * 0.5));
          pos_v = sqrt (max 0 (coeff cov 2 2));
          vel_std = sqrt (max 0 ((coeff cov 3 3 + coeff cov 4 4 + coeff cov 5 5) / 3));
          ts_ns = (if has_steady (nav_timestamp st) then nanoseconds_since_epoch (steady (nav_timestamp st)) else 0);
          v = nav_velocity_enu_mps st
      in [(''event'', J_string ''nav_state''),
          (''timestamp_ns'', J_int ts_ns),
          (''lat_deg'', J_real lat_deg),
          (''lon_deg'', J_real lon_deg),
          (''alt_m'', J_real (altitude_m lla)),
          (''vel_enu_mps'', J_reals [Vec3_x v, Vec3_y v, Vec3_z v]),
          (''roll_deg'', J_real roll_deg),
          (''pitch_deg'', J_real pitch_deg),
          (''yaw_deg'', J_real yaw_deg),
          (''pos_std_h_m'', J_real pos_h),
          (''pos_std_v_m'', J_real pos_v),
          (''vel_std_mps'', J_real vel_std),
          (''initialized'', J_bool (initialized (nav_quality st))),
          (''nav_status'', J_string (nav_status_str (nav_status st)))])"

section \<open>Runs\<close>

definition ipc_open :: "'h IpcServer \<Rightarrow> int set" where
  "ipc_open s = (case run_events {} (is_log s) of None \<Rightarrow> {} | Some S \<Rightarrow> S)"

text \<open>The system hands out descriptors that are not open.\<close>

inductive ipc_run :: "'j json_api \<Rightarrow> ('h, 'j) ipc_handler \<Rightarrow> IpcConfig \<Rightarrow> 'h \<Rightarrow> 'h IpcServer \<Rightarrow> bool"
  for J handler cfg h where
  new: "ipc_run J handler cfg h (IpcServer_new cfg h)"
| start: "ipc_run J handler cfg h s \<Longrightarrow> \<not> is_thread s \<or> is_running s \<Longrightarrow> fd < 0 \<or> fd \<notin> ipc_open s \<Longrightarrow>
    ipc_run J handler cfg h (snd (Ipc_Start fd bound listening s))"
| stop: "ipc_run J handler cfg h s \<Longrightarrow> ipc_run J handler cfg h (Ipc_StopClose s)"
| join: "ipc_run J handler cfg h s \<Longrightarrow> \<not> is_running s \<Longrightarrow> Ipc_Join s = Some s' \<Longrightarrow> ipc_run J handler cfg h s'"
| broadcast: "ipc_run J handler cfg h s \<Longrightarrow> ipc_run J handler cfg h (Ipc_Broadcast w event s)"
| iterate: "ipc_run J handler cfg h s \<Longrightarrow> is_running s \<Longrightarrow> is_removing s = [] \<Longrightarrow>
    \<forall>fd. ipc_accept inp = Some fd \<longrightarrow> fd \<notin> ipc_open s \<Longrightarrow> ipc_run J handler cfg h (Ipc_iteration J handler inp s)"
| remove: "ipc_run J handler cfg h s \<Longrightarrow> is_removing s \<noteq> [] \<Longrightarrow> ipc_run J handler cfg h (Ipc_remove_next s)"

section \<open>Chunks and lines\<close>

lemma str_find_char_append:
  "str_find [c] s = Some i \<Longrightarrow> str_find [c] (s @ r) = Some i"
  by (induction s arbitrary: i) (auto split: if_splits)

text \<open>Draining what is left over together with more input continues the draining.\<close>

lemma ipc_drain_append:
  "ipc_drain J handler fd (buf @ rest) h =
    (case ipc_drain J handler fd buf h of (left, h1, ev1) \<Rightarrow>
     case ipc_drain J handler fd (left @ rest) h1 of (left', h2, ev2) \<Rightarrow> (left', h2, ev1 @ ev2))"
proof (induction "length buf" arbitrary: buf h rule: less_induct)
  case less
  show ?case
  proof (cases "str_find newline buf")
    case None
    then show ?thesis by (simp add: ipc_drain.simps [of J handler fd buf h] split_beta)
  next
    case (Some pos)
    then have pos: "pos < length buf" by (rule str_find_bound) (simp add: newline_def)
    have more_pos: "str_find newline (buf @ rest) = Some pos"
      using str_find_char_append Some unfolding newline_def by blast
    obtain h1 ev1 where h1: "Ipc_HandleData J handler fd h (take pos buf) = (h1, ev1)" by (rule prod.exhaust)
    have "length (drop (pos + 1) buf) < length buf" using pos by simp
    note IH = less.hyps [OF this, of h1]
    show ?thesis using pos h1 IH
      by (simp add: ipc_drain.simps [of J handler fd "buf @ rest" h] ipc_drain.simps [of J handler fd buf h] more_pos Some split_beta)
  qed
qed

lemma ipc_drain_left: "ipc_drain J handler fd buf h = (left, h', ev) \<Longrightarrow> str_find newline left = None"
proof (induction "length buf" arbitrary: buf h ev rule: less_induct)
  case less
  show ?case
  proof (cases "str_find newline buf")
    case None
    then show ?thesis using less.prems by (simp add: ipc_drain.simps [of J handler fd buf h])
  next
    case (Some pos)
    then have pos: "pos < length buf" by (rule str_find_bound) (simp add: newline_def)
    then show ?thesis using less.prems less.hyps [of "drop (pos + 1) buf"] Some
      by (auto simp: ipc_drain.simps [of J handler fd buf h] split: prod.splits)
  qed
qed

text \<open>
  C22. Cutting does not matter: whatever sizes the reads of a client's byte stream return, the
  handler is called with the same lines in the same order, the same answers are written and the same
  partial line is left as if the whole stream had been read at once.
\<close>

theorem ipc_chunking:
  assumes "str_find newline buf = None"
  shows "foldl (ipc_read_chunk J handler fd) (buf, h, ev) chunks = ipc_read_chunk J handler fd (buf, h, ev) (concat chunks)"
  using assms
proof (induction chunks arbitrary: buf h ev)
  case Nil
  then show ?case by (simp add: ipc_read_chunk_def ipc_drain.simps [of J handler fd buf h])
next
  case (Cons c cs)
  obtain left h1 ev1 where d: "ipc_drain J handler fd (buf @ c) h = (left, h1, ev1)" by (rule prod_cases3)
  have "foldl (ipc_read_chunk J handler fd) (left, h1, ev @ ev1) cs =
      ipc_read_chunk J handler fd (left, h1, ev @ ev1) (concat cs)"
    by (rule Cons.IH) (rule ipc_drain_left [OF d])
  moreover have "ipc_read_chunk J handler fd (buf, h, ev) c = (left, h1, ev @ ev1)" by (simp add: ipc_read_chunk_def d)
  moreover have "ipc_read_chunk J handler fd (buf, h, ev) (c @ concat cs) =
      ipc_read_chunk J handler fd (left, h1, ev @ ev1) (concat cs)"
    using ipc_drain_append [of J handler fd "buf @ c" "concat cs" h] by (simp add: ipc_read_chunk_def d split_beta)
  ultimately show ?case by simp
qed

text \<open>A server that echoes nothing and counts the commands, on three reads of one stream.\<close>

definition line_json :: "string json_api" where
  "line_json = \<lparr>json_parse = Some, json_dump = Some, json_is_null = (\<lambda>_. False)\<rparr>"

definition log_handler :: "(string list, string) ipc_handler" where
  "log_handler h cmd fd = (h @ [cmd], True)"

theorem ipc_chunking_witness:
  "foldl (ipc_read_chunk line_json log_handler 4) ([], [], []) [''ab'', ''c'' @ newline, ''d''] =
    ipc_read_chunk line_json log_handler 4 ([], [], []) (''abc'' @ newline @ ''d'')"
proof -
  have "concat [''ab'', ''c'' @ newline, ''d''] = ''abc'' @ newline @ ''d''" by simp
  moreover have "str_find newline [] = None" by (simp add: newline_def)
  ultimately show ?thesis by (metis ipc_chunking)
qed

section \<open>Broadcasting to clients that fail\<close>

lemma close_dead_effect:
  "is_log (close_dead fds s) = is_log s @ map Closed fds"
  "is_buffers (close_dead fds s) = is_buffers s" "is_removing (close_dead fds s) = is_removing s"
  "is_handler (close_dead fds s) = is_handler s" "is_cfg (close_dead fds s) = is_cfg s"
  "is_clients (close_dead fds s) = foldl (\<lambda>cs fd. remove1 fd cs) (is_clients s) fds"
  by (induction fds arbitrary: s) (simp_all add: RemoveClient_def)

lemma closed_twice:
  assumes "Closed fd \<in> set xs" "\<forall>y\<in>set ys. y \<noteq> Opened fd" "\<forall>x\<in>set xs. x \<noteq> Opened fd"
  shows "run_events S (xs @ ys @ [Closed fd]) = None"
proof -
  have gone: "fd \<notin> T' " if "run_events T es = Some T'" "\<forall>e\<in>set es. e \<noteq> Opened fd" "fd \<notin> T" for T T' es
    using that by (induction T es rule: run_events.induct) (auto split: if_splits)
  have "fd \<notin> T" if "run_events S xs = Some T" for T
    using assms(1,3) that
  proof (induction S xs rule: run_events.induct)
    case (4 S fd' es)
    then show ?case using gone [of "S - {fd'}" es T] by (cases "fd = fd'") (auto split: if_splits)
  qed (auto split: if_splits)
  then show ?thesis
    using gone [of _ ys] assms(2) by (auto simp: run_events_append split: option.split)
qed

text \<open>
  A client that closes its connection while events are broadcast has its descriptor closed twice:
  once the server thread has seen the end of the stream and released the lock, a broadcast whose write
  fails closes the descriptor, and the server thread closes it again, by then perhaps the descriptor of
  another connection.
\<close>

theorem ipc_double_close:
  assumes "fd \<in> set (is_clients s)" "is_removing s = fd # fds" "taken fd = None"
  shows "run_events {} (is_log (Ipc_remove_next (Ipc_Broadcast taken event s))) = None"
proof -
  let ?sent = "concat (map (\<lambda>fd. case taken fd of None \<Rightarrow> [] | Some n \<Rightarrow> [Wrote fd (take n (event @ newline))]) (is_clients s))"
  let ?dead = "filter (\<lambda>fd. taken fd = None) (is_clients s)"
  have log: "is_log (Ipc_remove_next (Ipc_Broadcast taken event s)) = is_log s @ (?sent @ map Closed ?dead) @ [] @ [Closed fd]"
    using assms(2) by (simp add: Ipc_remove_next_def Ipc_Broadcast_def RemoveClient_def close_dead_effect Let_def)
  have "run_events T ((?sent @ map Closed ?dead) @ [] @ [Closed fd]) = None" for T
    using assms(1,3) by (intro closed_twice) (auto split: option.splits)
  then show ?thesis unfolding log by (simp only: run_events_append split: option.split) simp
qed

definition ipc_example :: IpcConfig where
  "ipc_example = \<lparr>socket_path = ''s'', ipc_max_clients = 8\<rparr>"

text \<open>A server with listening descriptor 3 whose client 5 has connected and sent \<open>chunk\<close>, or closed.\<close>

definition ipc_connected :: "string list IpcServer" where
  "ipc_connected = Ipc_iteration line_json log_handler \<lparr>ipc_select = True, ipc_accept = Some 5, ipc_read = Map.empty\<rparr>
     (snd (Ipc_Start 3 True True (IpcServer_new ipc_example [])))"

definition ipc_after :: "string option \<Rightarrow> string list IpcServer" where
  "ipc_after chunk = Ipc_iteration line_json log_handler \<lparr>ipc_select = True, ipc_accept = None, ipc_read = [5 \<mapsto> chunk]\<rparr> ipc_connected"

lemma ipc_connected: "ipc_run line_json log_handler ipc_example [] ipc_connected"
  "ipc_connected = \<lparr>is_cfg = ipc_example, is_listen_fd = 3, is_running = True, is_thread = True, is_clients = [5],
    is_buffers = [5 \<mapsto> []], is_removing = [], is_handler = [], is_log = [Opened 3, Opened 5]\<rparr>"
proof -
  let ?s = "snd (Ipc_Start 3 True True (IpcServer_new ipc_example ([] :: string list)))"
  have s: "?s = \<lparr>is_cfg = ipc_example, is_listen_fd = 3, is_running = True, is_thread = True, is_clients = [],
    is_buffers = Map.empty, is_removing = [], is_handler = [], is_log = [Opened 3]\<rparr>"
    by (simp add: Ipc_Start_def IpcServer_new_def Let_def)
  have "ipc_run line_json log_handler ipc_example [] ?s"
    by (rule start [OF new]) (simp_all add: IpcServer_new_def ipc_open_def)
  then show "ipc_run line_json log_handler ipc_example [] ipc_connected"
    unfolding ipc_connected_def by (rule iterate) (simp_all add: s ipc_open_def)
  show "ipc_connected = \<lparr>is_cfg = ipc_example, is_listen_fd = 3, is_running = True, is_thread = True, is_clients = [5],
    is_buffers = [5 \<mapsto> []], is_removing = [], is_handler = [], is_log = [Opened 3, Opened 5]\<rparr>"
    unfolding ipc_connected_def s by (simp add: Ipc_iteration_def Ipc_accept_client_def ipc_example_def Let_def)
qed

lemma ipc_after_run: "ipc_run line_json log_handler ipc_example [] (ipc_after chunk)"
  unfolding ipc_after_def by (rule iterate [OF ipc_connected(1)]) (simp_all add: ipc_connected(2))

theorem ipc_double_close_witness:
  "\<exists>s. ipc_run line_json log_handler ipc_example [] s \<and> run_events {} (is_log s) = None"
proof -
  let ?s = "ipc_after None"
  let ?b = "Ipc_Broadcast Map.empty ''x'' ?s"
  have s: "is_clients ?s = [5]" "is_removing ?s = [5]"
    by (simp_all add: ipc_after_def Ipc_iteration_def Ipc_accept_client_def ipc_connected(2) Let_def)
  have "run_events {} (is_log (Ipc_remove_next ?b)) = None" by (rule ipc_double_close) (simp_all add: s)
  moreover have "ipc_run line_json log_handler ipc_example [] (Ipc_remove_next ?b)"
    by (rule remove [OF broadcast [OF ipc_after_run]]) (simp add: Ipc_Broadcast_def RemoveClient_def close_dead_effect s Let_def)
  ultimately show ?thesis by blast
qed

text \<open>
  C23. A partial line outlives its client: when a broadcast drops a client that has sent \<open>p\<close> without a
  newline, and the system gives the same descriptor to the next client, the first line \<open>d\<close> of the new
  client is handled as \<open>p\<close> followed by \<open>d\<close>.
\<close>

theorem ipc_stale_line:
  assumes "is_clients s = [fd]" "0 \<le> fd" "is_buffers s fd = Some p" "str_find newline p = None" "str_find newline d = None"
    and "taken fd = None" "0 < ipc_max_clients (is_cfg s)"
    and "s1 = Ipc_iteration J handler \<lparr>ipc_select = True, ipc_accept = Some fd, ipc_read = Map.empty\<rparr> (Ipc_Broadcast taken event s)"
    and "s2 = Ipc_iteration J handler \<lparr>ipc_select = True, ipc_accept = None, ipc_read = [fd \<mapsto> Some (d @ newline)]\<rparr> s1"
  shows "is_handler s2 = fst (Ipc_HandleData J handler fd (is_handler s) (p @ d))"
proof -
  let ?b = "Ipc_Broadcast taken event s"
  have b: "is_clients ?b = []" "is_buffers ?b = is_buffers s" "is_handler ?b = is_handler s" "is_cfg ?b = is_cfg s"
    using assms(1,6) by (simp_all add: Ipc_Broadcast_def RemoveClient_def close_dead_effect Let_def)
  have s1: "is_clients s1 = [fd]" "is_buffers s1 fd = Some p" "is_handler s1 = is_handler s"
    using assms(2,3,7) b unfolding assms(8) by (simp_all add: Ipc_iteration_def Ipc_accept_client_def Let_def)
  have "CHR 0x0A \<notin> set (p @ d)" using assms(4,5) str_find_char_None unfolding newline_def by auto
  then have pos: "str_find newline ((p @ d) @ newline) = Some (length (p @ d))"
    using str_find_append [of newline "p @ d" "[]"] by (simp add: newline_def)
  obtain h1 ev1 where h1: "Ipc_HandleData J handler fd (is_handler s) (p @ d) = (h1, ev1)" by (rule prod.exhaust)
  have "ipc_drain J handler fd (p @ d @ newline) (is_handler s) = ([], h1, ev1)"
    using pos h1 by (subst ipc_drain.simps) (simp add: ipc_drain.simps [of J handler fd "[]"] newline_def)
  then show ?thesis
    using s1 h1 unfolding assms(9) by (simp add: Ipc_iteration_def Ipc_accept_client_def Let_def ipc_read_chunk_def)
qed

theorem ipc_stale_line_witness:
  "\<exists>s. ipc_run line_json log_handler ipc_example [] s \<and> is_handler s = [''abcd'']"
proof -
  let ?s = "ipc_after (Some ''ab'')"
  let ?b = "Ipc_Broadcast Map.empty ''x'' ?s"
  let ?s1 = "Ipc_iteration line_json log_handler \<lparr>ipc_select = True, ipc_accept = Some 5, ipc_read = Map.empty\<rparr> ?b"
  let ?s2 = "Ipc_iteration line_json log_handler \<lparr>ipc_select = True, ipc_accept = None, ipc_read = [5 \<mapsto> Some (''cd'' @ newline)]\<rparr> ?s1"
  have "ipc_drain line_json log_handler 5 ''ab'' [] = (''ab'', [], [])"
    by (simp add: ipc_drain.simps newline_def)
  then have s: "is_clients ?s = [5]" "is_buffers ?s 5 = Some ''ab''" "is_handler ?s = []" "is_cfg ?s = ipc_example"
    "is_removing ?s = []" "is_log ?s = [Opened 3, Opened 5]" "is_running ?s"
    by (simp_all add: ipc_after_def Ipc_iteration_def Ipc_accept_client_def ipc_connected(2) ipc_read_chunk_def Let_def)
  have b: "is_removing ?b = []" "is_running ?b" "is_log ?b = [Opened 3, Opened 5, Closed 5]" "is_clients ?b = []"
    by (simp_all add: Ipc_Broadcast_def s RemoveClient_def Let_def)
  have run1: "ipc_run line_json log_handler ipc_example [] ?s1"
    by (rule iterate [OF broadcast [OF ipc_after_run]]) (simp_all add: b ipc_open_def)
  have s1: "is_removing ?s1 = []" "is_running ?s1"
    by (simp_all add: Ipc_iteration_def Ipc_accept_client_def b Let_def)
  have "ipc_run line_json log_handler ipc_example [] ?s2" by (rule iterate [OF run1]) (simp_all add: s1)
  moreover have "is_handler ?s2 = fst (Ipc_HandleData line_json log_handler 5 (is_handler ?s) (''ab'' @ ''cd''))"
    by (rule ipc_stale_line [where taken = Map.empty and event = "''x''"]) (simp_all add: s ipc_example_def newline_def)
  then have "is_handler ?s2 = [''abcd'']" by (simp add: s Ipc_HandleData_def line_json_def log_handler_def)
  ultimately show ?thesis by blast
qed

section \<open>The client limit\<close>

lemma Ipc_read_clients_frame:
  "is_clients (Ipc_read_clients J handler ready fds s) = is_clients s"
  "is_cfg (Ipc_read_clients J handler ready fds s) = is_cfg s"
  by (induction fds arbitrary: s) (auto simp: Let_def split: option.splits prod.splits)

lemma foldl_remove1_length: "length (foldl (\<lambda>cs fd. remove1 fd cs) cs fds) \<le> length cs"
proof (induction fds arbitrary: cs)
  case (Cons fd fds)
  then show ?case using le_trans [OF Cons.IH [of "remove1 fd cs"]] by (simp add: length_remove1)
qed simp

text \<open>In every run, with any results of the system calls, at most the configured number of clients is connected.\<close>

lemma ipc_client_limit:
  assumes "ipc_run J handler cfg h s"
  shows "is_cfg s = cfg \<and> int (length (is_clients s)) \<le> max 0 (ipc_max_clients cfg)"
  using assms
proof (induction rule: ipc_run.induct)
  case new
  then show ?case by (simp add: IpcServer_new_def)
next
  case (start s fd bound listening)
  then show ?case by (simp add: Ipc_Start_def Let_def)
next
  case (stop s)
  then show ?case by (simp add: Ipc_StopClose_def Let_def)
next
  case (join s s')
  then show ?case by (auto simp: Ipc_Join_def split: if_splits)
next
  case (broadcast s w event)
  then show ?case
    using foldl_remove1_length [of "is_clients s" "filter (\<lambda>fd. w fd = None) (is_clients s)"]
    by (simp add: Ipc_Broadcast_def close_dead_effect Let_def)
next
  case (iterate s inp)
  then show ?case by (auto simp: Ipc_iteration_def Ipc_accept_client_def Ipc_read_clients_frame Let_def split: option.splits)
next
  case (remove s)
  then show ?case
    by (cases "is_removing s") (auto simp: Ipc_remove_next_def RemoveClient_def length_remove1)
qed

section \<open>The attitude angles\<close>

text \<open>For a turn about the up axis by \<open>t\<close> the report has yaw \<open>t\<close> and neither roll nor pitch.\<close>

lemma NavStateJson_yaw:
  assumes "nav_orientation_body_to_enu st = Quaterniond (cos (t / 2)) 0 0 (sin (t / 2))" "- pi < t" "t \<le> pi"
  shows "(''roll_deg'', J_real 0) \<in> set (NavStateJson st)" "(''pitch_deg'', J_real 0) \<in> set (NavStateJson st)"
    "(''yaw_deg'', J_real (t * (180 / M_PI))) \<in> set (NavStateJson st)"
proof -
  have s: "2 * (cos (t / 2) * sin (t / 2)) = 1 * sin t" using sin_double [of "t / 2"] by simp
  have c: "1 - 2 * (sin (t / 2) * sin (t / 2)) = 1 * cos t"
    using cos_double_sin [of "t / 2"] by (simp add: power2_eq_square)
  have "std_atan2 (1 * sin t) (1 * cos t) = t" by (rule std_atan2_polar) (use assms(2,3) in auto)
  then have "std_atan2 (2 * (cos (t / 2) * sin (t / 2))) (1 - 2 * (sin (t / 2) * sin (t / 2))) = t" unfolding s c .
  then show "(''yaw_deg'', J_real (t * (180 / M_PI))) \<in> set (NavStateJson st)"
    using assms(1) by (simp add: NavStateJson_def Let_def)
  show "(''roll_deg'', J_real 0) \<in> set (NavStateJson st)" "(''pitch_deg'', J_real 0) \<in> set (NavStateJson st)"
    using assms(1) by (simp_all add: NavStateJson_def Let_def std_atan2_def Clamp_def)
qed

end
