(* ===== verification/Fg_UiApp.thy ===== *)
theory Fg_UiApp
  imports Fg_ConfigProps Fg_Ipc Fg_WsClient
begin

text \<open>
  The state of the desktop user interface, \<^verbatim>\<open>ui/src/ui_app.cpp\<close>: starting and stopping a session, the
  handler of the messages from the WebSocket server, and the data the panels plot. Drawing itself, calls of
  Dear ImGui, is left out. The session is a parameter that can be constructed, started and stopped; the JSON
  library has, beside the operations of \<open>nlohmann\<close>, conversions to 64-bit integers.
\<close>

section \<open>Data\<close>

record NavSample =
  smp_t_s :: real
  smp_lat_deg :: real
  smp_lon_deg :: real
  smp_alt_m :: real
  smp_vel_e :: real
  smp_vel_n :: real
  smp_vel_u :: real
  smp_roll_deg :: real
  smp_pitch_deg :: real
  smp_yaw_deg :: real
  smp_pos_std_h :: real
  smp_pos_std_v :: real

definition NavSample_default :: NavSample where
  "NavSample_default =
     \<lparr>smp_t_s = 0, smp_lat_deg = 0, smp_lon_deg = 0, smp_alt_m = 0, smp_vel_e = 0, smp_vel_n = 0, smp_vel_u = 0,
      smp_roll_deg = 0, smp_pitch_deg = 0, smp_yaw_deg = 0, smp_pos_std_h = 0, smp_pos_std_v = 0\<rparr>"

record ('s, 'j) UiApp =
  ui_ws_port :: nat
  ui_dataset_path :: string
  ui_playback_speed :: real
  ui_backend_idx :: nat
  ui_config_json :: string
  ui_config_dirty :: bool
  ui_session :: "'s option"
  ui_client :: WsClient
  ui_status :: string
  ui_meas_read :: nat
  ui_schema_received :: bool
  ui_schema :: 'j
  ui_samples :: "NavSample list"
  ui_t0 :: real

definition kMaxSamples :: nat where "kMaxSamples = 3000"

definition UiApp_new :: "'j nlohmann \<Rightarrow> nat \<Rightarrow> ('s, 'j) UiApp" where
  "UiApp_new V port =
     \<lparr>ui_ws_port = port, ui_dataset_path = [], ui_playback_speed = 1, ui_backend_idx = 0, ui_config_json = [],
      ui_config_dirty = False, ui_session = None, ui_client = WsClient_new ''127.0.0.1'' port, ui_status = ''idle'',
      ui_meas_read = 0, ui_schema_received = False, ui_schema = nj_null V, ui_samples = [], ui_t0 = - 1\<rparr>"

section \<open>Session management\<close>

record 's session_api =
  sa_new :: "SessionConfig \<Rightarrow> cpp_exception + 's"
  sa_start :: "'s \<Rightarrow> cpp_exception + 's"
  sa_stop :: "'s \<Rightarrow> 's"

text \<open>\<open>StopSession\<close>, with the sockets it closes and the session it stopped before destroying it.\<close>

definition StopSession :: "'s session_api \<Rightarrow> ('s, 'j) UiApp \<Rightarrow> ('s, 'j) UiApp \<times> net_event list \<times> 's option" where
  "StopSession A ui =
     (let (c, ev) = Disconnect (ui_client ui);
          stopped = map_option (sa_stop A) (ui_session ui)
      in (ui\<lparr>ui_client := c, ui_session := None, ui_samples := [], ui_t0 := - 1, ui_status := ''idle'',
             ui_meas_read := 0\<rparr>, ev, stopped))"

text \<open>The configuration a session is started with; exceptions of reading the edited text are swallowed.\<close>

definition session_config :: "'j nlohmann \<Rightarrow> ('s, 'j) UiApp \<Rightarrow> SessionConfig" where
  "session_config V ui =
     (let d = SessionConfig_default;
          cfg = d\<lparr>sc_dataset := (sc_dataset d)\<lparr>dataset_path := ui_dataset_path ui\<rparr>,
            sc_playback_speed := ui_playback_speed ui,
            sc_ws := (sc_ws d)\<lparr>cfg_port := ui_ws_port ui, cfg_max_clients := 4\<rparr>\<rparr>
      in if ui_config_dirty ui \<and> ui_config_json ui \<noteq> [] then
           (case FromJson V (ui_config_json ui) of
              Inr c \<Rightarrow> c\<lparr>sc_dataset := (sc_dataset c)\<lparr>dataset_path := ui_dataset_path ui\<rparr>,
                sc_ws := (sc_ws c)\<lparr>cfg_port := ui_ws_port ui\<rparr>\<rparr>
            | Inl _ \<Rightarrow> cfg)
         else cfg)"

definition StartSession :: "'j nlohmann \<Rightarrow> 's session_api \<Rightarrow> ('s, 'j) UiApp \<Rightarrow> ('s, 'j) UiApp" where
  "StartSession V A ui =
     (let ui1 = fst (StopSession A ui) in
      case bind_sum (sa_new A (session_config V ui1)) (sa_start A) of
        Inl _ \<Rightarrow> ui1\<lparr>ui_session := None\<rparr>
      | Inr s \<Rightarrow> ui1\<lparr>ui_session := Some s, ui_client := Connect (ui_client ui1)\<rparr>)"

definition can_start :: "('s, 'j) UiApp \<Rightarrow> bool" where
  "can_start ui \<longleftrightarrow> ui_dataset_path ui \<noteq> []"

text \<open>Opening the header of the advanced options fills the text with the default configuration once and counts
  as an edit.\<close>

definition open_advanced :: "'j nlohmann \<Rightarrow> ('s, 'j) UiApp \<Rightarrow> cpp_exception + ('s, 'j) UiApp" where
  "open_advanced V ui =
     (if ui_config_dirty ui then Inr ui
      else bind_sum (ToJson V SessionConfig_default) (\<lambda>s. bind_sum (nj_parse V s) (\<lambda>j. bind_sum (nj_dump V j 2) (\<lambda>text.
        Inr (ui\<lparr>ui_config_json := take 8191 text, ui_config_dirty := True\<rparr>)))))"

section \<open>Messages from the server\<close>

record 'j ui_json =
  uj :: "'j nlohmann"
  uj_int64 :: "'j \<Rightarrow> cpp_exception + int"
  uj_uint64 :: "'j \<Rightarrow> cpp_exception + nat"

definition read_velocity :: "'j nlohmann \<Rightarrow> 'j \<Rightarrow> NavSample \<Rightarrow> cpp_exception + NavSample" where
  "read_velocity V msg s =
     (if nj_contains V msg ''vel_enu_mps'' \<and> nj_is_array V (nj_member V msg ''vel_enu_mps'')
      then let a = nj_member V msg ''vel_enu_mps'' in
        bind_sum (nj_get_double V (nj_elem V a 0)) (\<lambda>e.
        bind_sum (nj_get_double V (nj_elem V a 1)) (\<lambda>n.
        bind_sum (nj_get_double V (nj_elem V a 2)) (\<lambda>u.
          Inr (s\<lparr>smp_vel_e := e, smp_vel_n := n, smp_vel_u := u\<rparr>))))
      else Inr s)"

definition read_sample :: "'j ui_json \<Rightarrow> 'j \<Rightarrow> cpp_exception + NavSample" where
  "read_sample U msg =
     (let V = uj U; num = (\<lambda>key. json_value_or V (nj_get_double V) msg key 0) in
      bind_sum (num ''lat_deg'') (\<lambda>lat.
      bind_sum (num ''lon_deg'') (\<lambda>lon.
      bind_sum (num ''alt_m'') (\<lambda>alt.
      bind_sum (num ''pos_std_h_m'') (\<lambda>ph.
      bind_sum (num ''pos_std_v_m'') (\<lambda>pv.
      bind_sum (num ''roll_deg'') (\<lambda>roll.
      bind_sum (num ''pitch_deg'') (\<lambda>pitch.
      bind_sum (num ''yaw_deg'') (\<lambda>yaw.
      bind_sum (read_velocity V msg (NavSample_default
        \<lparr>smp_lat_deg := lat, smp_lon_deg := lon, smp_alt_m := alt, smp_pos_std_h := ph, smp_pos_std_v := pv,
         smp_roll_deg := roll, smp_pitch_deg := pitch, smp_yaw_deg := yaw\<rparr>)) (\<lambda>s.
      bind_sum (json_value_or V (uj_int64 U) msg ''timestamp_ns'' 0) (\<lambda>ns.
        Inr (s\<lparr>smp_t_s := of_int ns * (1 / 10 ^ 9)\<rparr>))))))))))))"

definition push_sample :: "NavSample \<Rightarrow> ('s, 'j) UiApp \<Rightarrow> ('s, 'j) UiApp" where
  "push_sample s ui =
     (let t0 = (if ui_t0 ui < 0 then smp_t_s s else ui_t0 ui);
          ss = ui_samples ui @ [s\<lparr>smp_t_s := smp_t_s s - t0\<rparr>]
      in ui\<lparr>ui_t0 := t0, ui_samples := (if kMaxSamples < length ss then tl ss else ss)\<rparr>)"

text \<open>An exception leaves what was assigned before it.\<close>

definition OnMessage :: "'j ui_json \<Rightarrow> 'j \<Rightarrow> ('s, 'j) UiApp \<Rightarrow> (cpp_exception + unit) \<times> ('s, 'j) UiApp" where
  "OnMessage U msg ui =
     (let V = uj U in
      case json_value_or V (nj_get_string V) msg ''event'' [] of
        Inl ex \<Rightarrow> (Inl ex, ui)
      | Inr ev \<Rightarrow>
          if ev = ''nav_state'' then
            (case read_sample U msg of Inl ex \<Rightarrow> (Inl ex, ui) | Inr s \<Rightarrow> (Inr (), push_sample s ui))
          else if ev = ''status'' then
            (case json_value_or V (nj_get_string V) msg ''status'' (ui_status ui) of
               Inl ex \<Rightarrow> (Inl ex, ui)
             | Inr st \<Rightarrow>
                 let ui1 = ui\<lparr>ui_status := st\<rparr> in
                 (case json_value_or V (uj_uint64 U) msg ''measurements_read'' (ui_meas_read ui1) of
                    Inl ex \<Rightarrow> (Inl ex, ui1)
                  | Inr n \<Rightarrow> (Inr (), ui1\<lparr>ui_meas_read := n\<rparr>)))
          else if ev = ''schema'' then
            (case json_value_or V Inr msg ''schema'' (nj_null V) of
               Inl ex \<Rightarrow> (Inl ex, ui)
             | Inr j \<Rightarrow> (Inr (), ui\<lparr>ui_schema := j, ui_schema_received := True\<rparr>))
          else if ev = ''error'' then
            (case json_value_or V (nj_get_string V) msg ''message'' [] of
               Inl ex \<Rightarrow> (Inl ex, ui)
             | Inr m \<Rightarrow> (Inr (), ui\<lparr>ui_status := ''error: '' @ m\<rparr>))
          else (Inr (), ui))"

text \<open>The receive loop of the client swallows the exceptions of the handler.\<close>

definition OnMessages :: "'j ui_json \<Rightarrow> 'j list \<Rightarrow> ('s, 'j) UiApp \<Rightarrow> ('s, 'j) UiApp" where
  "OnMessages U msgs ui = foldl (\<lambda>ui m. snd (OnMessage U m ui)) ui msgs"

section \<open>Panels\<close>

definition trajectory :: "('s, 'j) UiApp \<Rightarrow> real list \<times> real list" where
  "trajectory ui =
     (case ui_samples ui of
        [] \<Rightarrow> ([], [])
      | origin # _ \<Rightarrow>
          let lat0 = smp_lat_deg origin; lon0 = smp_lon_deg origin; kDeg2Rad = M_PI / 180; kR = 6378137 in
          (map (\<lambda>s. (smp_lon_deg s - lon0) * kDeg2Rad * kR * cos (lat0 * kDeg2Rad)) (ui_samples ui),
           map (\<lambda>s. (smp_lat_deg s - lat0) * kDeg2Rad * kR) (ui_samples ui)))"

definition chart_column :: "('s, 'j) UiApp \<Rightarrow> (NavSample \<Rightarrow> real) \<Rightarrow> real list" where
  "chart_column ui f = map f (ui_samples ui)"

definition current_sample :: "('s, 'j) UiApp \<Rightarrow> NavSample" where
  "current_sample ui = (if ui_samples ui = [] then NavSample_default else last (ui_samples ui))"

text \<open>Which screen a frame of the main loop draws.\<close>

datatype screen = SetupScreen | MainScreen

definition current_screen :: "('s, 'j) UiApp \<Rightarrow> screen" where
  "current_screen ui = (case ui_session ui of None \<Rightarrow> SetupScreen | Some _ \<Rightarrow> MainScreen)"

text \<open>What the control panel does: the command it hands to the client, if any, and the new state.\<close>

datatype panel_action = PausePressed | ResumePressed | StopPressed | SpeedMoved real

definition panel_step ::
  "'j nlohmann \<Rightarrow> 's session_api \<Rightarrow> panel_action \<Rightarrow> ('s, 'j) UiApp \<Rightarrow> 'j option \<times> ('s, 'j) UiApp" where
  "panel_step V A a ui =
     (case a of
        PausePressed \<Rightarrow> (Some (nj_object V [(''cmd'', nj_string V ''pause'')]), ui)
      | ResumePressed \<Rightarrow> (Some (nj_object V [(''cmd'', nj_string V ''resume'')]), ui)
      | StopPressed \<Rightarrow> (None, fst (StopSession A ui))
      | SpeedMoved x \<Rightarrow>
          (Some (nj_object V [(''cmd'', nj_string V ''set_speed''), (''speed'', nj_number V x)]),
           ui\<lparr>ui_playback_speed := x\<rparr>))"

section \<open>What the server sends\<close>

fun json_of_value :: "'j nlohmann \<Rightarrow> json_value \<Rightarrow> 'j" where
  "json_of_value V (J_string s) = nj_string V s"
| "json_of_value V (J_int n) = nj_integer V n"
| "json_of_value V (J_real x) = nj_number V x"
| "json_of_value V (J_reals xs) = nj_array V (map (nj_number V) xs)"
| "json_of_value V (J_bool b) = nj_boolean V b"

definition nav_message :: "'j nlohmann \<Rightarrow> NavigationState \<Rightarrow> 'j" where
  "nav_message V st = nj_object V (map (map_prod id (json_of_value V)) (NavStateJson st))"

definition reply_message :: "'j nlohmann \<Rightarrow> Reply \<Rightarrow> 'j" where
  "reply_message V r =
     (case r of
        StatusReply st None \<Rightarrow> nj_object V [(''event'', nj_string V ''status''), (''status'', nj_string V st)]
      | StatusReply st (Some n) \<Rightarrow> nj_object V [(''event'', nj_string V ''status''), (''status'', nj_string V st),
          (''measurements_read'', nj_integer V (int n))]
      | SchemaReply \<Rightarrow> nj_object V [(''event'', nj_string V ''schema''), (''schema'', ToSchemaJson V)]
      | ErrorReply m \<Rightarrow> nj_object V [(''event'', nj_string V ''error''), (''message'', nj_string V m)]
      | AckReply v \<Rightarrow> nj_object V [(''event'', nj_string V ''ack''), (''cmd'', nj_string V v)]
      | InvalidJson \<Rightarrow> nj_object V [(''event'', nj_string V ''error''), (''message'', nj_string V ''bad JSON'')])"

section \<open>What the panels show\<close>

text \<open>The sample a navigation state gives, in a plot whose time starts at \<open>t0\<close>.\<close>

definition state_ns :: "NavigationState \<Rightarrow> int" where
  "state_ns st = (if has_steady (nav_timestamp st) then nanoseconds_since_epoch (steady (nav_timestamp st)) else 0)"

definition state_number :: "NavigationState \<Rightarrow> string \<Rightarrow> real" where
  "state_number st key = (case map_of (NavStateJson st) key of Some (J_real x) \<Rightarrow> x | _ \<Rightarrow> 0)"

definition shown :: "real \<Rightarrow> NavigationState \<Rightarrow> NavSample" where
  "shown t0 st =
     (let lla = EcefToLla (nav_position_ecef_m st); v = nav_velocity_enu_mps st in
      \<lparr>smp_t_s = of_int (state_ns st) / 10 ^ 9 - t0,
       smp_lat_deg = latitude_rad lla * (180 / M_PI), smp_lon_deg = longitude_rad lla * (180 / M_PI),
       smp_alt_m = altitude_m lla, smp_vel_e = Vec3_x v, smp_vel_n = Vec3_y v, smp_vel_u = Vec3_z v,
       smp_roll_deg = state_number st ''roll_deg'', smp_pitch_deg = state_number st ''pitch_deg'',
       smp_yaw_deg = state_number st ''yaw_deg'', smp_pos_std_h = state_number st ''pos_std_h_m'',
       smp_pos_std_v = state_number st ''pos_std_v_m''\<rparr>)"

definition int64_law :: "'j ui_json \<Rightarrow> bool" where
  "int64_law U \<longleftrightarrow> (\<forall>n. - (2 ^ 63) \<le> n \<and> n < 2 ^ 63 \<longrightarrow> uj_int64 U (nj_integer (uj U) n) = Inr n)"

lemma NavStateJson_keys:
  "map fst (NavStateJson st) = [''event'', ''timestamp_ns'', ''lat_deg'', ''lon_deg'', ''alt_m'', ''vel_enu_mps'',
     ''roll_deg'', ''pitch_deg'', ''yaw_deg'', ''pos_std_h_m'', ''pos_std_v_m'', ''vel_std_mps'', ''initialized'',
     ''nav_status'']"
  by (simp add: NavStateJson_def Let_def)

lemma NavStateJson_members:
  "map_of (NavStateJson st) ''event'' = Some (J_string ''nav_state'')"
  "map_of (NavStateJson st) ''timestamp_ns'' = Some (J_int (state_ns st))"
  "map_of (NavStateJson st) ''lat_deg'' = Some (J_real (smp_lat_deg (shown 0 st)))"
  "map_of (NavStateJson st) ''lon_deg'' = Some (J_real (smp_lon_deg (shown 0 st)))"
  "map_of (NavStateJson st) ''alt_m'' = Some (J_real (smp_alt_m (shown 0 st)))"
  "map_of (NavStateJson st) ''vel_enu_mps'' =
     Some (J_reals [smp_vel_e (shown 0 st), smp_vel_n (shown 0 st), smp_vel_u (shown 0 st)])"
  "map_of (NavStateJson st) ''roll_deg'' = Some (J_real (smp_roll_deg (shown 0 st)))"
  "map_of (NavStateJson st) ''pitch_deg'' = Some (J_real (smp_pitch_deg (shown 0 st)))"
  "map_of (NavStateJson st) ''yaw_deg'' = Some (J_real (smp_yaw_deg (shown 0 st)))"
  "map_of (NavStateJson st) ''pos_std_h_m'' = Some (J_real (smp_pos_std_h (shown 0 st)))"
  "map_of (NavStateJson st) ''pos_std_v_m'' = Some (J_real (smp_pos_std_v (shown 0 st)))"
  by (simp_all add: NavStateJson_def shown_def state_ns_def state_number_def Let_def)

lemma map_of_map_prod: "map_of (map (map_prod id f) kvs) k = map_option f (map_of kvs k)"
  by (induction kvs) auto

lemma nav_message_member:
  assumes "json_laws V"
  shows "json_value_or V get (nav_message V st) k d =
           (case map_of (NavStateJson st) k of None \<Rightarrow> Inr d | Some v \<Rightarrow> get (json_of_value V v))"
    and "map_of (NavStateJson st) k = Some v \<Longrightarrow>
           nj_contains V (nav_message V st) k \<and> nj_member V (nav_message V st) k = json_of_value V v"
proof -
  let ?kvs = "map (map_prod id (json_of_value V)) (NavStateJson st)"
  have d: "distinct (map fst ?kvs)" using NavStateJson_keys [of st] by (simp add: comp_def)
  have m: "map_of ?kvs k = map_option (json_of_value V) (map_of (NavStateJson st) k)"
    by (rule map_of_map_prod)
  show "json_value_or V get (nav_message V st) k d =
      (case map_of (NavStateJson st) k of None \<Rightarrow> Inr d | Some v \<Rightarrow> get (json_of_value V v))"
    using read_object(2) [OF assms d, of get k d] m by (simp add: nav_message_def split: option.split)
  show "map_of (NavStateJson st) k = Some v \<Longrightarrow>
      nj_contains V (nav_message V st) k \<and> nj_member V (nav_message V st) k = json_of_value V v"
    using json_object [OF assms, of ?kvs k] d m by (simp add: nav_message_def)
qed

lemma read_sample_nav_message:
  assumes "json_laws (uj U)" "int64_law U" "- (2 ^ 63) \<le> state_ns st" "state_ns st < 2 ^ 63"
  shows "read_sample U (nav_message (uj U) st) = Inr (shown 0 st)"
proof -
  note mem = NavStateJson_members [of st]
  have v: "read_velocity (uj U) (nav_message (uj U) st) s =
      Inr (s\<lparr>smp_vel_e := smp_vel_e (shown 0 st), smp_vel_n := smp_vel_n (shown 0 st),
             smp_vel_u := smp_vel_u (shown 0 st)\<rparr>)" for s
    using nav_message_member(2) [OF assms(1) mem(6)] json_values [OF assms(1)] by (simp add: read_velocity_def)
  show ?thesis
    using assms(2-4) mem v
    by (simp add: read_sample_def nav_message_member(1) [OF assms(1)] json_values [OF assms(1)] int64_law_def
        NavSample_default_def) (simp add: shown_def Let_def)
qed

lemma OnMessage_nav_message:
  assumes "json_laws (uj U)" "int64_law U" "- (2 ^ 63) \<le> state_ns st" "state_ns st < 2 ^ 63"
  shows "snd (OnMessage U (nav_message (uj U) st) ui) = push_sample (shown 0 st) ui"
  using read_sample_nav_message [OF assms] assms(1)
  by (simp add: OnMessage_def nav_message_member(1) NavStateJson_members(1) json_values)

lemma OnMessage_reply_samples:
  assumes "json_laws (uj U)"
  shows "ui_samples (snd (OnMessage U (reply_message (uj U) r) ui)) = ui_samples ui \<and>
         ui_t0 (snd (OnMessage U (reply_message (uj U) r) ui)) = ui_t0 ui"
  using assms
  by (cases r)
    (auto simp: OnMessage_def reply_message_def read_object(2) json_values Let_def split: sum.splits option.splits)

definition newest :: "'a list \<Rightarrow> 'a list" where
  "newest xs = drop (length xs - kMaxSamples) xs"

lemma newest_snoc:
  "newest (xs @ [x]) =
     (if kMaxSamples < length (newest xs @ [x]) then tl (newest xs @ [x]) else newest xs @ [x])"
proof (cases "kMaxSamples \<le> length xs")
  case True
  have "tl (drop (length xs - kMaxSamples) xs @ [x]) = drop (Suc (length xs - kMaxSamples)) (xs @ [x])"
    by (metis diff_le_self drop_Suc drop_append diff_is_0_eq drop_0 tl_drop)
  with True show ?thesis by (simp add: newest_def Suc_diff_le)
next
  case False
  then show ?thesis by (simp add: newest_def kMaxSamples_def)
qed

text \<open>What the server sends: states in between any replies.\<close>

fun server_message :: "'j nlohmann \<Rightarrow> NavigationState + Reply \<Rightarrow> 'j" where
  "server_message V (Inl st) = nav_message V st"
| "server_message V (Inr r) = reply_message V r"

definition sent_states :: "(NavigationState + Reply) list \<Rightarrow> NavigationState list" where
  "sent_states ms = concat (map (case_sum (\<lambda>st. [st]) (\<lambda>_. [])) ms)"

definition shown_states :: "NavigationState list \<Rightarrow> NavSample list" where
  "shown_states sts = map (shown (of_int (state_ns (hd sts)) / 10 ^ 9)) sts"

lemma shown_later: "shown 0 st\<lparr>smp_t_s := smp_t_s (shown 0 st) - t0\<rparr> = shown t0 st"
  by (simp add: shown_def Let_def)

lemma sent_states_snoc: "sent_states (ms @ [m]) = sent_states ms @ (case m of Inl st \<Rightarrow> [st] | Inr _ \<Rightarrow> [])"
  by (simp add: sent_states_def)

lemma OnMessages_samples:
  assumes "json_laws (uj U)" "int64_law U" "ui_samples ui = []" "ui_t0 ui = - 1"
    "\<forall>st\<in>set (sent_states ms). 0 \<le> state_ns st \<and> state_ns st < 2 ^ 63"
  shows "ui_samples (OnMessages U (map (server_message (uj U)) ms) ui) = newest (shown_states (sent_states ms)) \<and>
         ui_t0 (OnMessages U (map (server_message (uj U)) ms) ui) =
           (if sent_states ms = [] then - 1 else of_int (state_ns (hd (sent_states ms))) / 10 ^ 9)"
  using assms(5)
proof (induction ms rule: rev_induct)
  case Nil
  then show ?case by (simp add: OnMessages_def sent_states_def shown_states_def newest_def assms)
next
  case (snoc m ms)
  let ?ui = "OnMessages U (map (server_message (uj U)) ms) ui"
  have step: "OnMessages U (map (server_message (uj U)) (ms @ [m])) ui = snd (OnMessage U (server_message (uj U) m) ?ui)"
    by (simp add: OnMessages_def)
  have IH: "ui_samples ?ui = newest (shown_states (sent_states ms))"
    "ui_t0 ?ui = (if sent_states ms = [] then - 1 else of_int (state_ns (hd (sent_states ms))) / 10 ^ 9)"
    using snoc by (auto simp: sent_states_def)
  show ?case
  proof (cases m)
    case (Inr r)
    then show ?thesis using IH OnMessage_reply_samples [OF assms(1), of r ?ui]
      unfolding step by (simp add: sent_states_snoc)
  next
    case (Inl st)
    have ns: "- (2 ^ 63) \<le> state_ns st" "state_ns st < 2 ^ 63" using snoc.prems Inl by (auto simp: sent_states_snoc)
    have first: "sent_states ms \<noteq> [] \<Longrightarrow> 0 \<le> state_ns (hd (sent_states ms))"
      using snoc.prems hd_in_set [of "sent_states ms"] by (auto simp: sent_states_snoc)
    let ?all = "sent_states ms @ [st]"
    have t0: "(if ui_t0 ?ui < 0 then smp_t_s (shown 0 st) else ui_t0 ?ui) = of_int (state_ns (hd ?all)) / 10 ^ 9"
      using IH(2) first by (auto simp: shown_def Let_def)
    have all: "shown_states ?all =
        shown_states (sent_states ms) @ [shown (of_int (state_ns (hd ?all)) / 10 ^ 9) st]"
      by (cases "sent_states ms") (simp_all add: shown_states_def)
    have "ui_t0 (push_sample (shown 0 st) ?ui) = of_int (state_ns (hd ?all)) / 10 ^ 9"
      unfolding push_sample_def Let_def t0 by simp
    moreover have "ui_samples (push_sample (shown 0 st) ?ui) = newest (shown_states ?all)"
      unfolding push_sample_def Let_def t0 shown_later IH(1) all newest_snoc by simp
    moreover have "snd (OnMessage U (server_message (uj U) m) ?ui) = push_sample (shown 0 st) ?ui"
      using OnMessage_nav_message [OF assms(1,2) ns, of ?ui] Inl by simp
    ultimately show ?thesis unfolding step using Inl by (simp add: sent_states_snoc)
  qed
qed

lemma StartSession_samples:
  "ui_samples (StartSession V A ui) = [] \<and> ui_t0 (StartSession V A ui) = - 1 \<and>
   ui_status (StartSession V A ui) = ''idle'' \<and> ui_meas_read (StartSession V A ui) = 0"
  by (simp add: StartSession_def StopSession_def Let_def split: prod.splits sum.splits)

text \<open>
  C40. A session started from the user interface, whatever was shown before, plots exactly the navigation
  states its server sent, in order, the newest 3000 of them: position, velocity, attitude and standard
  deviations are those of the state, times count from the first state, and replies in between add nothing.
\<close>

theorem ui_shows_states:
  assumes "json_laws (uj U)" "int64_law U"
    and "\<forall>st\<in>set (sent_states ms). 0 \<le> state_ns st \<and> state_ns st < 2 ^ 63"
  shows "ui_samples (OnMessages U (map (server_message (uj U)) ms) (StartSession (uj U) A ui)) =
         newest (shown_states (sent_states ms))"
  using OnMessages_samples [OF assms(1,2) _ _ assms(3), of "StartSession (uj U) A ui"] StartSession_samples [of "uj U" A ui]
  by blast

definition tree_ui :: "json_tree ui_json" where
  "tree_ui = \<lparr>uj = tree_json None, uj_int64 = tree_int, uj_uint64 = (\<lambda>j. bind_sum (tree_int j) (\<lambda>n. Inr (nat n)))\<rparr>"

definition plain_session :: "nat session_api" where
  "plain_session = \<lparr>sa_new = (\<lambda>_. Inr 0), sa_start = Inr, sa_stop = Suc\<rparr>"

definition state_at :: "int \<Rightarrow> NavigationState" where
  "state_at ns = NavigationState_default\<lparr>nav_timestamp :=
     Timestamp_default\<lparr>has_steady := True, steady := MonotonicTime ns\<rparr>\<rparr>"

lemma state_at_ns: "state_ns (state_at ns) = ns"
  by (simp add: state_ns_def state_at_def)

lemma tree_ui_laws: "json_laws (uj tree_ui)" "int64_law tree_ui"
  using tree_json_laws [of None] by (simp_all add: tree_ui_def int64_law_def tree_json_builders)

lemma ui_shows_states_witness:
  "map smp_t_s (ui_samples (OnMessages tree_ui
     (map (server_message (uj tree_ui)) [Inl (state_at 5000000000), Inr (AckReply ''pause''), Inl (state_at 7000000000)])
     (StartSession (uj tree_ui) plain_session (UiApp_new (uj tree_ui) 8765)))) = [0, 2]"
proof -
  let ?ms = "[Inl (state_at 5000000000), Inr (AckReply ''pause''), Inl (state_at 7000000000)]"
  have sent: "sent_states ?ms = [state_at 5000000000, state_at 7000000000]" by (simp add: sent_states_def)
  have "\<forall>st\<in>set (sent_states ?ms). 0 \<le> state_ns st \<and> state_ns st < 2 ^ 63" by (simp add: sent state_at_ns)
  note plotted = ui_shows_states [OF tree_ui_laws this, of plain_session "UiApp_new (uj tree_ui) 8765"]
  show ?thesis
    unfolding plotted by (simp add: sent shown_states_def newest_def kMaxSamples_def shown_def state_at_ns Let_def)
qed

text \<open>
  The commands of the control panel are only acknowledged, and only a reply to \<^verbatim>\<open>get_status\<close> or \<^verbatim>\<open>configure\<close>
  carries a status: neither is among them, and status changes are broadcast to the IPC clients alone. So the
  status bar never leaves \<^verbatim>\<open>idle\<close> and zero measurements.
\<close>

definition panel_verb :: "command \<Rightarrow> bool" where
  "panel_verb cmd \<longleftrightarrow> verb cmd = ''pause'' \<or> verb cmd = ''resume'' \<or> verb cmd = ''set_speed'' \<and>
     (\<exists>x. speed cmd = Some (Inr x))"

lemma panel_commands_acknowledged:
  assumes "panel_verb cmd"
  shows "HandleWsCommand env cmd h k = HandleWsCommand env cmd h' (\<lambda>r. if r = AckReply (verb cmd) then k r else Done)"
  using assms by (auto simp: HandleWsCommand_def panel_verb_def set_speed_def)

lemma ui_status_stale:
  assumes "json_laws (uj U)" "int64_law U"
    and "\<forall>st\<in>set (sent_states ms). 0 \<le> state_ns st \<and> state_ns st < 2 ^ 63"
    and "\<forall>m\<in>set ms. \<forall>r. m = Inr r \<longrightarrow> (\<exists>v. r = AckReply v)"
  shows "ui_status (OnMessages U (map (server_message (uj U)) ms) (StartSession (uj U) A ui)) = ''idle'' \<and>
         ui_meas_read (OnMessages U (map (server_message (uj U)) ms) (StartSession (uj U) A ui)) = 0"
  using assms(3,4)
proof (induction ms rule: rev_induct)
  case Nil
  then show ?case by (simp add: OnMessages_def StartSession_samples)
next
  case (snoc m ms)
  let ?ui = "OnMessages U (map (server_message (uj U)) ms) (StartSession (uj U) A ui)"
  have "ui_status (snd (OnMessage U (server_message (uj U) m) ?ui)) = ui_status ?ui \<and>
        ui_meas_read (snd (OnMessage U (server_message (uj U) m) ?ui)) = ui_meas_read ?ui"
  proof (cases m)
    case (Inl st)
    then have "- (2 ^ 63) \<le> state_ns st" "state_ns st < 2 ^ 63" using snoc.prems by (auto simp: sent_states_snoc)
    then show ?thesis using Inl OnMessage_nav_message [OF assms(1,2), of st ?ui]
      by (simp add: push_sample_def Let_def)
  next
    case (Inr r)
    then obtain v where "r = AckReply v" using snoc.prems by auto
    with Inr show ?thesis using assms(1)
      by (simp add: OnMessage_def reply_message_def read_object(2) json_values Let_def)
  qed
  moreover have "OnMessages U (map (server_message (uj U)) (ms @ [m])) (StartSession (uj U) A ui) =
      snd (OnMessage U (server_message (uj U) m) ?ui)" by (simp add: OnMessages_def)
  ultimately show ?case using snoc by (simp add: sent_states_snoc)
qed

text \<open>The choice of the estimator on the setup screen reaches no session.\<close>

lemma session_config_backend: "session_config V (ui\<lparr>ui_backend_idx := b\<rparr>) = session_config V ui"
  by (auto simp: session_config_def Let_def split: sum.split)

text \<open>Once the text was edited, the playback speed of the setup screen is ignored.\<close>

lemma session_config_edited_speed:
  assumes "ui_config_dirty ui" "ui_config_json ui \<noteq> []" "FromJson V (ui_config_json ui) = Inr c"
  shows "sc_playback_speed (session_config V ui) = sc_playback_speed c"
  using assms by (simp add: session_config_def Let_def)

end
