(* ===== verification/Spec2Isabelle.thy ===== *)
theory Spec2Isabelle
  imports Fg_NavigationSystem Fg_Frames Fg_WsThreads Fg_Nmea Fg_SessionProps Fg_UiApp
begin

text \<open>
  FalconGuide is a C++20 navigation library and application: sensor measurements are read from a
  dataset, pushed through a bounded queue to a worker thread, fused by an inertial estimator with
  pluggable measurement models, and the resulting navigation states are announced to observers, which
  write NMEA sentences and serve clients over a local socket and a WebSocket. All paths below are under
  \<^verbatim>\<open>src/src/\<close>.

  \<^bold>\<open>Parts and theories\<close>

  \<^item> \<^emph>\<open>Prelude.\<close> \<open>Fg_Prelude\<close> (C++ exceptions as values with \<open>bind_sum\<close>, bytes, shared lemmas),
    \<open>Fg_Text\<close> (splitting and trimming of text), \<open>Fg_Numbers\<close> (\<^verbatim>\<open>std::stod\<close>, \<^verbatim>\<open>std::stoll\<close>, fixed-point
    printing), \<open>Fg_Programs\<close> (programs of atomic actions for multi-threaded code).
  \<^item> \<^emph>\<open>core/.\<close> \<open>Fg_Time\<close> (\<^verbatim>\<open>time.hpp\<close>, \<^verbatim>\<open>time_helpers.hpp\<close>), \<open>Fg_Containers\<close> (storage of the Eigen types and the
    frame tags and vectors of \<^verbatim>\<open>frames.hpp\<close>), \<open>Fg_Frames\<close> (vector arithmetic and rigid transforms of
    \<^verbatim>\<open>frames.hpp\<close>), \<open>Fg_Sensors\<close> (\<^verbatim>\<open>sensors/*.hpp\<close>), \<open>Fg_Buffer\<close> (\<^verbatim>\<open>buffers/time_ordered_buffer.hpp\<close>),
    \<open>Fg_Eigen\<close> (interface to Eigen), \<open>Fg_Quaternions\<close> (laws of its quaternions), \<open>Fg_Math\<close> (\<^verbatim>\<open>math.hpp\<close>,
    \<^verbatim>\<open>coordinates.hpp\<close>: angles, SO(3), WGS84, tangent plane),
    \<open>Fg_Estimator\<close> (navigation state, estimator interface, diagnostics).
  \<^item> \<^emph>\<open>estimation/.\<close> \<open>Fg_Queue\<close> (\<^verbatim>\<open>measurement_queue.hpp\<close>), \<open>Fg_Pipeline\<close> (\<^verbatim>\<open>estimator_pipeline.cpp\<close>),
    \<open>Fg_PipelineRuns\<close> (concrete runs of it),
    \<open>Fg_Layout\<close> (\<^verbatim>\<open>state_layout.hpp\<close>), \<open>Fg_EkfUpdate\<close> (Joseph update, model interface),
    \<open>Fg_EkfScalarModels\<close>, \<open>Fg_EkfVectorModels\<close>, \<open>Fg_EkfPoseModels\<close>, \<open>Fg_EkfTightlyCoupled\<close> (the sixteen
    models of \<^verbatim>\<open>backends/ekf/measurement_models/\<close>), \<open>Fg_Ekf\<close> (\<^verbatim>\<open>ekf_estimator.cpp\<close>), \<open>Fg_EkfInvariant\<close>,
    \<open>Fg_System\<close> (\<^verbatim>\<open>navigation_system.cpp\<close>, EKF factory), \<open>Fg_EkfScenarios\<close>; \<open>Fg_Ukf\<close>
    (\<^verbatim>\<open>ukf_estimator.cpp\<close>), \<open>Fg_UkfModels\<close> (\<^verbatim>\<open>backends/ukf/measurement_models/\<close>), \<open>Fg_UkfMoments\<close>,
    \<open>Fg_UkfInvariant\<close>, \<open>Fg_UkfSystem\<close> (UKF factory); \<open>Fg_Preintegrator\<close> (\<^verbatim>\<open>imu_preintegrator.hpp\<close>),
    \<open>Fg_Ceres\<close> (\<^verbatim>\<open>ceres_estimator.cpp\<close>, \<^verbatim>\<open>ceres_cost_functions.hpp\<close>), \<open>Fg_CeresProps\<close>, \<open>Fg_CeresSystem\<close>;
    \<open>Fg_NavigationSystem\<close> (\<^verbatim>\<open>navigation_system.cpp\<close> over all backends).
  \<^item> \<^emph>\<open>io/.\<close> \<open>Fg_NmeaSentence\<close>, \<open>Fg_Nmea\<close> (\<^verbatim>\<open>nmea/*.hpp\<close>), \<open>Fg_Csv\<close> (\<^verbatim>\<open>csv_measurement_reader.cpp\<close> and
    \<^verbatim>\<open>app/src/dataset_reader.cpp\<close>).
  \<^item> \<^emph>\<open>app/ and ui/.\<close> \<open>Fg_Hash\<close> (SHA-1 and Base64 of the handshake), \<open>Fg_WsCodec\<close> (text of the HTTP
    upgrade, bytes of a frame), \<open>Fg_WebSocket\<close>, \<open>Fg_WsServer\<close> and \<open>Fg_WsThreads\<close>
    (\<^verbatim>\<open>app/src/ws_server.cpp\<close>), \<open>Fg_WsClient\<close>
    (\<^verbatim>\<open>ui/src/ws_client.cpp\<close>), \<open>Fg_Session\<close>, \<open>Fg_SessionFrame\<close>, \<open>Fg_SessionProps\<close>
    (\<^verbatim>\<open>app/src/session.cpp\<close>), \<open>Fg_Ipc\<close> (\<^verbatim>\<open>app/src/ipc_server.cpp\<close>), \<open>Fg_Config\<close>, \<open>Fg_ConfigProps\<close>
    (\<^verbatim>\<open>app/src/config_json.cpp\<close>, start of \<^verbatim>\<open>exe/falconguide_cli.cpp\<close>), \<open>Fg_UiApp\<close> (state of
    \<^verbatim>\<open>ui/src/ui_app.cpp\<close>).

  \<^bold>\<open>How the code is read\<close>

  A struct or class is a record and a method a function that returns the new record; field names carry
  a prefix per struct because selectors are global. Enumerations and \<^verbatim>\<open>std::variant\<close> are datatypes,
  \<^verbatim>\<open>std::optional\<close> is \<open>option\<close>. Exceptions are the left summand of \<open>cpp_exception + 'a\<close>, a failed
  \<^verbatim>\<open>eigen_assert\<close> being one of them. A loop that may run for ever is \<open>partial_function (option)\<close>, and
  \<open>None\<close> is divergence: the substep loop of the IMU propagation, so every method of the engine that may
  propagate returns an option. \<open>double\<close> is \<^typ>\<open>real\<close>: no rounding, no NaN and no infinity. Nanosecond
  counts are integers; bytes, hash words and frame lengths are words of their width.

  Concurrency is explicit. The pipeline is the step relation \<open>pipeline_step\<close> of producers, worker and
  control thread at the granularity of the atomic accesses of the code. The session's operations are
  programs of atomic actions, and \<open>system_step\<close> interleaves five threads: application, IPC server,
  WebSocket server, replay and pipeline worker. The servers' loops take the results of the system calls
  as inputs and log the calls they make, so that a property can speak of descriptors; \<open>ws_step\<close> interleaves
  the WebSocket server's loop with broadcasts and the parts of \<^verbatim>\<open>Stop\<close>. Liveness of \<^verbatim>\<open>Stop\<close> is stated over fair
  executions, in which a thread that can always move does.

  \<^bold>\<open>Parameters and what is asked of them\<close>

  Code outside the repository is a parameter. \<open>eigen_ops\<close> holds the algorithms of Eigen; \<open>eigen_algebra\<close>
  states the entries of sums, products and transposes, \<open>eigen_shapes\<close> the dimensions of inverses,
  decompositions and rotations, of whose values nothing is assumed. The Cholesky factorisation of the
  UKF is the parameter \<open>llt\<close>; \<open>sigma_points_moments\<close> asks that a factor it returns
  of a symmetric matrix multiplies back. The
  Ceres backend and the transforms ask for the documented values of quaternion operations (\<open>quat_laws\<close>),
  norms (\<open>norm_law\<close>) and \<^verbatim>\<open>FromTwoVectors\<close> (\<open>two_vectors_law\<close>), and of \<^verbatim>\<open>ceres::Solve\<close> only that it leaves
  constant and foreign blocks alone (\<open>solver_laws\<close>). JSON is the record \<open>json_api\<close> for the servers and
  \<open>nlohmann\<close> with \<open>json_laws\<close> for the configuration; the clock, the file system, sockets and random keys are
  arguments. Every hypothesis of a property is discharged on concrete data in its witness.

  \<^bold>\<open>Interfaces\<close>

  The locales state the contracts between components: \<open>time_buffer\<close> (what the engines ask of their
  buffers), \<open>channel\<close> (the queue between producers and worker), \<open>navigation_estimator\<close> (what the pipeline
  asks of an estimator), \<open>measurement_reader\<close> (both readers), \<open>sigma_points\<close> (the unscented transform),
  \<open>session_frame\<close> (predicates kept by every action of the session's programs). Each is interpreted on the
  model of the code, \<open>navigation_estimator\<close> on the EKF, the UKF, the Ceres backend and the estimator object
  that chooses between them, and the properties rest on the interpretations.

  \<^bold>\<open>What the lemmas show\<close>

  \<^item> \<^emph>\<open>Data structures:\<close> comparison of timestamps is a total preorder within one basis; the buffer's
    insertion and removal keep it sorted and bounded and lose nothing else; the queue is a bounded FIFO;
    segments of the state layout tile the state vector.
  \<^item> \<^emph>\<open>Pipeline and session:\<close> in every interleaving each accepted measurement reaches the estimator once
    and in order, Stop drains the queue and returns, replayed data arrives in file order; against that, a
    pipeline cannot be restarted after a Stop, one IPC command locks up the server, and two races of the life cycle end
    in termination or in a session that stays Running with nothing replaying.
  \<^item> \<^emph>\<open>EKF:\<close> the update keeps the covariance positive semidefinite, a whole run returns without an
    exception and with a valid state, the error state is zero between measurements, dispatch is
    unambiguous; a non-positive maximal step makes the engine diverge, and a rejected tightly coupled epoch
    leaves its correction behind.
  \<^item> \<^emph>\<open>UKF:\<close> sigma points have the moments of the state, loosely coupled GNSS refines the linear Kalman
    update, dimensions agree in every run without partial aiding solutions, which fail an assertion.
  \<^item> \<^emph>\<open>Ceres backend:\<close> in every run the window and its factors stay consistent and the problems well formed,
    a new keyframe starts with a zero IMU residual, and preintegration is exact for uniform motion; against
    that, the initial attitude is upside down, the accelerometer bias is corrected with the wrong sign, a
    fix close to the last keyframe does not move the position, and samples after the first 2000 are lost.
  \<^item> \<^emph>\<open>System:\<close> whatever the backend, construction throws exactly when the backend is not built in,
    observers hear nothing before a fix and then every accepted measurement once, and Stop drains the queue
    in every fair execution.
  \<^item> \<^emph>\<open>Configuration:\<close> what is written reads back up to the settings that are never written, saving can
    lose the old file, values are not checked, and a positive largest step makes the EKF safe to run.
  \<^item> \<^emph>\<open>Coordinates and files:\<close> rigid transforms form a group; tangent plane and WGS84 round trips, NMEA round trips with bounds on the
    rounding and detection of corrupted characters, the readers return exactly the well-formed lines.
  \<^item> \<^emph>\<open>Servers:\<close> the answers do not depend on how the stream is cut, clients and their descriptors stay
    consistent in every interleaving, client and server understand each other's frames and handshake; a frame whose length wraps
    ends the server thread, \<^verbatim>\<open>Stop\<close> closes the listening descriptor under the loop that selects on it, and a
    partial IPC line survives into the next connection.
  \<^item> \<^emph>\<open>User interface:\<close> the plots show the newest 3000 states of the running session and nothing of an earlier
    one; against that, the status bar never changes and the choice of a backend reaches no session.

  \<^bold>\<open>Bounds\<close>

  No fuel is used outside the loops over descriptors and bytes, whose recursion is on the remaining
  input; the recursion of \<open>to_hex\<close> and of the decimal printing is on the number. SHA-1 padding uses a
  64-bit length, so a message is shorter than \<open>2 ^ 61\<close> bytes where it matters.

  \<^bold>\<open>Not modelled\<close>

  The GTSAM backend with GTSAM: that branch of \<^verbatim>\<open>gtsam_estimator.cpp\<close> uses members its header does not
  declare and cannot be compiled, so only the stub whose constructor throws is modelled. The logger
  (configuration of spdlog), windows and drawing of the user interface (GLFW and Dear ImGui calls), the polling loop of
  the command line, and calibration structs that no code reads. Log lines are left out of the operations.
  Objects destroyed while another thread still uses them are outside the session's model, as is the mutex
  that the reset of the Ceres estimator destroys while it is locked.
\<close>

end
